(* ===== verification/Vf2_Status.thy ===== *)
theory Vf2_Status
  imports Main
begin

text \<open>
  The status codes of \<open>include/vf2/status.h\<close> and their printed form in
  \<open>src/core/status.c\<close>. Every fallible operation of the development returns one of
  these codes on its error side, and \<open>VF2_OK\<close> only ever travels as a value where the C code
  stores a status in a variable (callback results, run results).
\<close>

datatype vf2_status =
    VF2_OK
  | VF2_ERROR_INVALID_ARGUMENT
  | VF2_ERROR_IO
  | VF2_ERROR_OUT_OF_MEMORY
  | VF2_ERROR_BAD_SIZE
  | VF2_ERROR_BAD_CRC32
  | VF2_ERROR_BAD_SHA1
  | VF2_ERROR_OUT_OF_BOUNDS
  | VF2_ERROR_UNSUPPORTED

definition vf2_status_string :: "vf2_status \<Rightarrow> string" where
  "vf2_status_string status =
     (case status of
        VF2_OK \<Rightarrow> ''ok''
      | VF2_ERROR_INVALID_ARGUMENT \<Rightarrow> ''invalid argument''
      | VF2_ERROR_IO \<Rightarrow> ''I/O error''
      | VF2_ERROR_OUT_OF_MEMORY \<Rightarrow> ''out of memory''
      | VF2_ERROR_BAD_SIZE \<Rightarrow> ''unexpected file size''
      | VF2_ERROR_BAD_CRC32 \<Rightarrow> ''CRC-32 mismatch''
      | VF2_ERROR_BAD_SHA1 \<Rightarrow> ''SHA-1 mismatch''
      | VF2_ERROR_OUT_OF_BOUNDS \<Rightarrow> ''out of bounds''
      | VF2_ERROR_UNSUPPORTED \<Rightarrow> ''unsupported operation'')"

end
