(* ===== verification/Vf2_Prelude.thy ===== *)
theory Vf2_Prelude
  imports Vf2_Status "HOL-Library.Word"
begin

text \<open>
  Shared vocabulary of the development: the C integer types as words, byte memories, the
  little-endian codec every part of the code repeats (\<open>read_le32\<close> / \<open>write_le32\<close>), and the
  state-and-status programs that model C functions returning a \<open>vf2_status\<close>. A program takes a
  state and returns its outcome together with the state it leaves behind, also when it fails:
  the C code does not roll back on an error return.
\<close>

unbundle bit_operations_syntax

named_theorems preserves_intros \<open>introduction rules for preservation of a state predicate\<close>
named_theorems le_simps \<open>little-endian codec facts\<close>

type_synonym u8 = "8 word"
type_synonym u16 = "16 word"
type_synonym u32 = "32 word"
type_synonym u64 = "64 word"

text \<open>The contents behind a \<open>uint8_t *\<close>: a byte for every offset.\<close>

type_synonym memory = "nat \<Rightarrow> u8"

section \<open>Programs that return a status\<close>

type_synonym ('s, 'a) prog = "'s \<Rightarrow> (vf2_status + 'a) \<times> 's"

definition pret :: "'a \<Rightarrow> ('s, 'a) prog" where
  "pret x = (\<lambda>s. (Inr x, s))"

definition pfail :: "vf2_status \<Rightarrow> ('s, 'a) prog" where
  "pfail e = (\<lambda>s. (Inl e, s))"

definition pbind :: "('s, 'a) prog \<Rightarrow> ('a \<Rightarrow> ('s, 'b) prog) \<Rightarrow> ('s, 'b) prog" where
  "pbind f g = (\<lambda>s. case fst (f s) of
      Inl e \<Rightarrow> (Inl e, snd (f s))
    | Inr a \<Rightarrow> g a (snd (f s)))"

definition pget :: "('s \<Rightarrow> 'a) \<Rightarrow> ('s, 'a) prog" where
  "pget f = (\<lambda>s. (Inr (f s), s))"

definition pmodify :: "('s \<Rightarrow> 's) \<Rightarrow> ('s, unit) prog" where
  "pmodify f = (\<lambda>s. (Inr (), f s))"

text \<open>Guards: \<open>pcheck\<close> is \<open>if (!b) return e;\<close>.\<close>

definition pcheck :: "bool \<Rightarrow> vf2_status \<Rightarrow> ('s, unit) prog" where
  "pcheck b e = (if b then pret () else pfail e)"

text \<open>A loop over an index range, stopping at the first failing iteration.\<close>

primrec pfor :: "'i list \<Rightarrow> ('i \<Rightarrow> ('s, unit) prog) \<Rightarrow> ('s, unit) prog" where
  "pfor [] body = pret ()"
| "pfor (i # is) body = pbind (body i) (\<lambda>_. pfor is body)"

lemma pbind_cong [cong]: "f = f' \<Longrightarrow> pbind f g s = pbind f' g s"
  by simp

lemma pbind_ok [simp]: "f s = (Inr a, s') \<Longrightarrow> pbind f g s = g a s'"
  by (simp add: pbind_def)

lemma pbind_err [simp]: "f s = (Inl e, s') \<Longrightarrow> pbind f g s = (Inl e, s')"
  by (simp add: pbind_def)

lemma pret_apply [simp]: "pret x s = (Inr x, s)"
  by (simp add: pret_def)

lemma pfail_apply [simp]: "pfail e s = (Inl e, s)"
  by (simp add: pfail_def)

lemma pget_apply [simp]: "pget f s = (Inr (f s), s)"
  by (simp add: pget_def)

lemma pmodify_apply [simp]: "pmodify f s = (Inr (), f s)"
  by (simp add: pmodify_def)

lemma pcheck_apply [simp]:
  "pcheck b e s = (if b then (Inr (), s) else (Inl e, s))"
  by (simp add: pcheck_def)

lemma pbind_pcheck [simp]: "pbind (pcheck b e) g s = (if b then g () s else (Inl e, s))"
  by (simp add: pbind_def pcheck_def)

lemma pbind_assoc: "pbind (pbind f g) h = pbind f (\<lambda>a. pbind (g a) h)"
  by (rule ext) (simp add: pbind_def split: sum.splits)

lemma pbind_okE:
  assumes "pbind f g s = (Inr b, s'')"
  obtains a s' where "f s = (Inr a, s')" and "g a s' = (Inr b, s'')"
  using assms by (cases "f s") (auto simp: pbind_def split: sum.splits)

lemma pfor_append: "pfor (xs @ ys) body = pbind (pfor xs body) (\<lambda>_. pfor ys body)"
proof (induction xs)
  case Nil
  show ?case by (rule ext) simp
next
  case (Cons x xs)
  then show ?case by (simp add: pbind_assoc)
qed

section \<open>Preservation\<close>

definition preserves :: "('s \<Rightarrow> bool) \<Rightarrow> ('s, 'a) prog \<Rightarrow> bool" where
  "preserves P f \<longleftrightarrow> (\<forall>s. P s \<longrightarrow> P (snd (f s)))"

lemma preservesD: "preserves P f \<Longrightarrow> P s \<Longrightarrow> P (snd (f s))"
  by (simp add: preserves_def)

lemma preservesD_eq: "preserves P f \<Longrightarrow> f s = (r, s') \<Longrightarrow> P s \<Longrightarrow> P s'"
  by (metis preserves_def snd_conv)

lemma preserves_pret [preserves_intros]: "preserves P (pret x)"
  by (simp add: preserves_def)

lemma preserves_pfail [preserves_intros]: "preserves P (pfail e)"
  by (simp add: preserves_def)

lemma preserves_pget [preserves_intros]: "preserves P (pget f)"
  by (simp add: preserves_def)

lemma preserves_pcheck [preserves_intros]: "preserves P (pcheck b e)"
  by (simp add: preserves_def)

lemma preserves_pbind [preserves_intros]:
  "preserves P f \<Longrightarrow> (\<And>a. preserves P (g a)) \<Longrightarrow> preserves P (pbind f g)"
  by (auto simp: preserves_def pbind_def split: sum.splits)

lemma preserves_if [preserves_intros]:
  "(b \<Longrightarrow> preserves P f) \<Longrightarrow> (\<not> b \<Longrightarrow> preserves P g) \<Longrightarrow> preserves P (if b then f else g)"
  by simp

lemma preserves_Let [preserves_intros]:
  "(\<And>x. x = e \<Longrightarrow> preserves P (f x)) \<Longrightarrow> preserves P (Let e f)"
  by (simp add: Let_def)

lemma preserves_case_option [preserves_intros]:
  "(x = None \<Longrightarrow> preserves P f) \<Longrightarrow> (\<And>a. x = Some a \<Longrightarrow> preserves P (g a)) \<Longrightarrow>
   preserves P (case x of None \<Rightarrow> f | Some a \<Rightarrow> g a)"
  by (cases x) auto

lemma preserves_case_sum [preserves_intros]:
  "(\<And>a. x = Inl a \<Longrightarrow> preserves P (f a)) \<Longrightarrow> (\<And>a. x = Inr a \<Longrightarrow> preserves P (g a)) \<Longrightarrow>
   preserves P (case x of Inl a \<Rightarrow> f a | Inr a \<Rightarrow> g a)"
  by (cases x) auto

lemma preserves_pmodify: "(\<And>s. P s \<Longrightarrow> P (f s)) \<Longrightarrow> preserves P (pmodify f)"
  by (simp add: preserves_def)

lemma preserves_pfor [preserves_intros]:
  "(\<And>i. i \<in> set is \<Longrightarrow> preserves P (body i)) \<Longrightarrow> preserves P (pfor is body)"
  by (induction "is") (auto intro: preserves_intros)

text \<open>After a guard its condition holds.\<close>

lemma preserves_guard: "(b \<Longrightarrow> preserves P g) \<Longrightarrow> preserves P (pbind (pcheck b e) (\<lambda>_. g))"
  by (auto simp: preserves_def pcheck_def pbind_def)

section \<open>Little-endian words\<close>

definition le32_dec :: "u8 \<Rightarrow> u8 \<Rightarrow> u8 \<Rightarrow> u8 \<Rightarrow> u32" where
  "le32_dec b0 b1 b2 b3 =
     ucast b0 OR push_bit 8 (ucast b1) OR push_bit 16 (ucast b2) OR push_bit 24 (ucast b3)"

definition le32_bytes :: "u32 \<Rightarrow> u8 list" where
  "le32_bytes v =
     [ucast v, ucast (drop_bit 8 v), ucast (drop_bit 16 v), ucast (drop_bit 24 v)]"

definition read_le32 :: "memory \<Rightarrow> nat \<Rightarrow> u32" where
  "read_le32 d i = le32_dec (d i) (d (i + 1)) (d (i + 2)) (d (i + 3))"

definition write_bytes :: "memory \<Rightarrow> nat \<Rightarrow> u8 list \<Rightarrow> memory" where
  "write_bytes d i bs = (\<lambda>j. if i \<le> j \<and> j < i + length bs then bs ! (j - i) else d j)"

definition read_bytes :: "memory \<Rightarrow> nat \<Rightarrow> nat \<Rightarrow> u8 list" where
  "read_bytes d i n = map (\<lambda>k. d (i + k)) [0..<n]"

definition write_le32 :: "memory \<Rightarrow> nat \<Rightarrow> u32 \<Rightarrow> memory" where
  "write_le32 d i v = write_bytes d i (le32_bytes v)"

text \<open>The word four consecutive bytes of a transfer buffer make up.\<close>

definition le32_of_bytes :: "u8 list \<Rightarrow> u32" where
  "le32_of_bytes bs = le32_dec (bs ! 0) (bs ! 1) (bs ! 2) (bs ! 3)"

lemma le32_dec_bytes [simp]:
  "le32_dec (ucast v) (ucast (drop_bit 8 v)) (ucast (drop_bit 16 v)) (ucast (drop_bit 24 v)) = v"
proof (rule bit_word_eqI)
  fix n assume "n < LENGTH(32)"
  then consider "n < 8" | "8 \<le> n" "n < 16" | "16 \<le> n" "n < 24" | "24 \<le> n" "n < 32"
    by fastforce
  then show "bit (le32_dec (ucast v) (ucast (drop_bit 8 v)) (ucast (drop_bit 16 v))
      (ucast (drop_bit 24 v))) n = bit v n"
    by cases (auto simp: le32_dec_def bit_simps)
qed

lemma length_le32_bytes [simp]: "length (le32_bytes v) = 4"
  by (simp add: le32_bytes_def)

lemma le32_of_bytes_le32_bytes [simp]: "le32_of_bytes (le32_bytes v) = v"
  by (simp add: le32_of_bytes_def le32_bytes_def)

lemma length_read_bytes [simp]: "length (read_bytes d i n) = n"
  by (simp add: read_bytes_def)

lemma nth_read_bytes [simp]: "k < n \<Longrightarrow> read_bytes d i n ! k = d (i + k)"
  by (simp add: read_bytes_def)

lemma read_write_bytes_same: "read_bytes (write_bytes d i bs) i (length bs) = bs"
  by (rule nth_equalityI) (auto simp: write_bytes_def)

lemma read_write_bytes_disjoint:
  "i + length bs \<le> j \<or> j + n \<le> i \<Longrightarrow> read_bytes (write_bytes d i bs) j n = read_bytes d j n"
  by (rule nth_equalityI) (auto simp: write_bytes_def)

lemma le32_of_read_bytes [simp]: "le32_of_bytes (read_bytes d i 4) = read_le32 d i"
  by (simp add: le32_of_bytes_def read_le32_def)

lemma read_write_le32_same [simp]: "read_le32 (write_le32 d i v) i = v"
  by (simp add: read_le32_def write_le32_def write_bytes_def le32_bytes_def)

lemma read_write_bytes_le32_disjoint:
  "i + length bs \<le> j \<or> j + 4 \<le> i \<Longrightarrow> read_le32 (write_bytes d i bs) j = read_le32 d j"
  by (auto simp: read_le32_def write_bytes_def)

lemma read_write_le32_disjoint:
  "i + 4 \<le> j \<or> j + 4 \<le> i \<Longrightarrow> read_le32 (write_le32 d i v) j = read_le32 d j"
  by (simp add: write_le32_def read_write_bytes_le32_disjoint)

lemma write_bytes_at: "k < length bs \<Longrightarrow> write_bytes d i bs (i + k) = bs ! k"
  by (simp add: write_bytes_def)

lemma write_bytes_other:
  "j < i \<or> i + length bs \<le> j \<Longrightarrow> write_bytes d i bs j = d j"
  by (auto simp: write_bytes_def)

lemma write_bytes_twice: "length bs = length cs \<Longrightarrow> write_bytes (write_bytes d i bs) i cs = write_bytes d i cs"
  by (auto simp: write_bytes_def)

section \<open>Word facts\<close>

lemma and_one_bit: "(c::'a::len word) AND 1 = of_bool (bit c 0)"
  by (simp add: and_one_eq mod_2_eq_odd bit_0)

lemma xor_cancel [simp]: "x XOR a = y XOR a \<longleftrightarrow> x = (y :: 'a::len word)"
  by (metis xor.assoc xor_self_eq xor.right_neutral)

lemma xor_cancel_left [simp]: "a XOR x = a XOR y \<longleftrightarrow> x = (y :: 'a::len word)"
  by (metis xor.commute xor_cancel)

lemma ucast_u8_u32_inj: "(ucast b :: u32) = ucast b' \<longleftrightarrow> b = (b' :: u8)"
proof
  assume "(ucast b :: u32) = ucast b'"
  then have "(ucast (ucast b :: u32) :: u8) = ucast (ucast b' :: u32)" by simp
  then show "b = b'" by (simp add: ucast_up_ucast_id is_up_def source_size_def target_size_def word_size)
qed simp

text \<open>Widths: 32-bit values inside 64-bit arithmetic and back.\<close>

lemma unat_less_u32 [simp]: "unat (w :: u32) < 4294967296"
  using unsigned_less [of w] by simp

lemma unat_ucast_u64 [simp]: "unat (ucast (w :: u32) :: u64) = unat w"
proof -
  have "unat w < 2 ^ 64" using unat_less_u32 [of w] by (rule order.strict_trans) simp
  then show ?thesis by (simp add: unsigned_ucast_eq take_bit_nat_eq_self_iff)
qed

lemma unat_ucast_u32: "unat (c :: u64) < 4294967296 \<Longrightarrow> unat (ucast c :: u32) = unat c"
  by (simp add: unsigned_ucast_eq take_bit_nat_eq_self_iff)

lemma ucast_add_u32: "(ucast (a + b :: u64) :: u32) = ucast a + ucast b"
  by (simp add: word_unat_eq_iff unsigned_ucast_eq unat_word_ariths take_bit_nat_def mod_simps mod_mod_cancel)

lemma unat_add_u64: "unat a + unat b < 2 ^ 64 \<Longrightarrow> unat (a + b :: u64) = unat a + unat b"
  by (simp add: unat_word_ariths)

lemma unat_add_one_less: "x < y \<Longrightarrow> unat (x + 1 :: 'a::len word) = Suc (unat x)"
proof -
  assume "x < y"
  moreover have "unat y < 2 ^ LENGTH('a)" by (rule unsigned_less)
  ultimately have "Suc (unat x) < 2 ^ LENGTH('a)" unfolding word_less_nat_alt by linarith
  then show ?thesis by (simp add: unat_word_ariths)
qed

section \<open>Printed numbers\<close>

text \<open>The conversions \<open>%u\<close> and \<open>%d\<close> of \<open>printf\<close>.\<close>

fun decimal :: "nat \<Rightarrow> string" where
  "decimal n = (if n < 10 then [''0123456789'' ! n] else decimal (n div 10) @ [''0123456789'' ! (n mod 10)])"

definition signed_decimal :: "u32 \<Rightarrow> string" where
  "signed_decimal v =
     (if sint v < 0 then CHR ''-'' # decimal (nat (- sint v)) else decimal (nat (sint v)))"

end
