(* ===== verification/Vf2_Hash.thy ===== *)
theory Vf2_Hash
  imports Vf2_Prelude
begin

text \<open>
  \<open>src/core/hash.c\<close>: the SHA-1 context with its buffered update loop, the bitwise CRC-32, and
  the file hash that feeds both from a stream of \<open>fread\<close> blocks. The first part translates the
  code; the second states SHA-1 from the padded message (\<open>sha1_spec\<close>) and shows that the
  buffered code computes it for every way the input is cut into blocks.
\<close>

section \<open>SHA-1 as the code has it\<close>

record sha1_context =
  sha1_state :: "u32 \<times> u32 \<times> u32 \<times> u32 \<times> u32"
  total_bytes :: u64
  buffer :: "u8 list"
  buffer_size :: nat

definition rotate_left :: "u32 \<Rightarrow> nat \<Rightarrow> u32" where
  "rotate_left value amount = push_bit amount value OR drop_bit (32 - amount) value"

definition read_be32 :: "u8 list \<Rightarrow> nat \<Rightarrow> u32" where
  "read_be32 data i =
     push_bit 24 (ucast (data ! i)) OR push_bit 16 (ucast (data ! (i + 1))) OR
     push_bit 8 (ucast (data ! (i + 2))) OR ucast (data ! (i + 3))"

definition write_be32 :: "u32 \<Rightarrow> u8 list" where
  "write_be32 value =
     [ucast (drop_bit 24 value), ucast (drop_bit 16 value), ucast (drop_bit 8 value), ucast value]"

text \<open>The message schedule: sixteen words of the block, then each further word from four earlier ones.\<close>

primrec sha1_schedule :: "nat \<Rightarrow> u32 list \<Rightarrow> u32 list" where
  "sha1_schedule 0 words = words"
| "sha1_schedule (Suc n) words =
     (let index = length words in
      sha1_schedule n (words @
        [rotate_left (words ! (index - 3) XOR words ! (index - 8) XOR
                      words ! (index - 14) XOR words ! (index - 16)) 1]))"

definition sha1_words :: "u8 list \<Rightarrow> u32 list" where
  "sha1_words block = sha1_schedule 64 (map (\<lambda>index. read_be32 block (index * 4)) [0..<16])"

definition sha1_round ::
  "u32 list \<Rightarrow> nat \<Rightarrow> u32 \<times> u32 \<times> u32 \<times> u32 \<times> u32 \<Rightarrow> u32 \<times> u32 \<times> u32 \<times> u32 \<times> u32" where
  "sha1_round words index = (\<lambda>(a, b, c, d, e).
     let (fn, constant) =
           (if index < 20 then ((b AND c) OR (NOT b AND d), 0x5a827999)
            else if index < 40 then (b XOR c XOR d, 0x6ed9eba1)
            else if index < 60 then ((b AND c) OR (b AND d) OR (c AND d), 0x8f1bbcdc)
            else (b XOR c XOR d, 0xca62c1d6));
         temporary = rotate_left a 5 + fn + e + constant + words ! index
     in (temporary, a, rotate_left b 30, c, d))"

definition sha1_compress ::
  "u8 list \<Rightarrow> u32 \<times> u32 \<times> u32 \<times> u32 \<times> u32 \<Rightarrow> u32 \<times> u32 \<times> u32 \<times> u32 \<times> u32" where
  "sha1_compress block s =
     (let words = sha1_words block;
          (s0, s1, s2, s3, s4) = s;
          (a, b, c, d, e) = fold (sha1_round words) [0..<80] s
      in (s0 + a, s1 + b, s2 + c, s3 + d, s4 + e))"

definition sha1_transform :: "sha1_context \<Rightarrow> u8 list \<Rightarrow> sha1_context" where
  "sha1_transform context block =
     context\<lparr>sha1_state := sha1_compress block (sha1_state context)\<rparr>"

definition sha1_initial :: "u32 \<times> u32 \<times> u32 \<times> u32 \<times> u32" where
  "sha1_initial = (0x67452301, 0xefcdab89, 0x98badcfe, 0x10325476, 0xc3d2e1f0)"

text \<open>
  \<open>sha1_init\<close> leaves the 64 buffer bytes as it found them (the context is an uninitialised
  stack variable in the callers), so they are an argument of the model.
\<close>

definition sha1_init :: "u8 list \<Rightarrow> sha1_context" where
  "sha1_init garbage =
     \<lparr>sha1_state = sha1_initial, total_bytes = 0, buffer = garbage, buffer_size = 0\<rparr>"

text \<open>\<open>memcpy(buffer + at, bytes, n)\<close> on the 64-byte buffer.\<close>

definition buffer_put :: "u8 list \<Rightarrow> nat \<Rightarrow> u8 list \<Rightarrow> u8 list" where
  "buffer_put buf at bytes = take at buf @ bytes @ drop (at + length bytes) buf"

text \<open>
  The \<open>while (consumed < size)\<close> loop. \<open>data\<close> is the unconsumed rest. A context with a full
  buffer would copy nothing and loop for ever, so the loop is a partial function: \<open>None\<close> is
  not returning.
\<close>

partial_function (option) sha1_absorb :: "sha1_context \<Rightarrow> u8 list \<Rightarrow> sha1_context option" where
  "sha1_absorb context data =
     (if data = [] then Some context
      else
        let available = 64 - buffer_size context;
            copy_size = min available (length data);
            filled = context\<lparr>buffer := buffer_put (buffer context) (buffer_size context) (take copy_size data),
                             buffer_size := buffer_size context + copy_size\<rparr>;
            next = (if buffer_size filled = 64
                    then (sha1_transform filled (buffer filled))\<lparr>buffer_size := 0\<rparr>
                    else filled)
        in sha1_absorb next (drop copy_size data))"

definition sha1_update :: "sha1_context \<Rightarrow> u8 list \<Rightarrow> sha1_context option" where
  "sha1_update context data =
     sha1_absorb (context\<lparr>total_bytes := total_bytes context + of_nat (length data)\<rparr>) data"

text \<open>\<open>while (buffer_size < limit) buffer[buffer_size++] = 0\<close>.\<close>

definition zero_fill :: "sha1_context \<Rightarrow> nat \<Rightarrow> sha1_context" where
  "zero_fill context limit =
     (if buffer_size context < limit
      then context\<lparr>buffer := buffer_put (buffer context) (buffer_size context)
                               (replicate (limit - buffer_size context) 0),
                   buffer_size := limit\<rparr>
      else context)"

definition sha1_final :: "sha1_context \<Rightarrow> u8 list" where
  "sha1_final context =
     (let total_bits = total_bytes context * 8;
          marked = context\<lparr>buffer := buffer_put (buffer context) (buffer_size context) [0x80],
                           buffer_size := buffer_size context + 1\<rparr>;
          room = (if buffer_size marked > 56
                  then (let full = zero_fill marked 64
                        in (sha1_transform full (buffer full))\<lparr>buffer_size := 0\<rparr>)
                  else marked);
          padded = zero_fill room 56;
          counted = padded\<lparr>buffer := buffer_put (buffer padded) 56
                             (map (\<lambda>i. ucast (drop_bit ((7 - i) * 8) total_bits)) [0..<8])\<rparr>;
          (s0, s1, s2, s3, s4) = sha1_state (sha1_transform counted (buffer counted))
      in write_be32 s0 @ write_be32 s1 @ write_be32 s2 @ write_be32 s3 @ write_be32 s4)"

definition vf2_sha1 :: "u8 list \<Rightarrow> u8 list \<Rightarrow> u8 list option" where
  "vf2_sha1 garbage data = map_option sha1_final (sha1_update (sha1_init garbage) data)"

definition hex_digit :: "u8 \<Rightarrow> char" where
  "hex_digit n = ''0123456789abcdef'' ! unat n"

definition vf2_sha1_to_hex :: "u8 list \<Rightarrow> string" where
  "vf2_sha1_to_hex digest =
     concat (map (\<lambda>b. [hex_digit (drop_bit 4 b), hex_digit (b AND 0x0f)]) (take 20 digest))"

section \<open>CRC-32\<close>

definition crc32_bit :: "u32 \<Rightarrow> u32" where
  "crc32_bit crc = (let mask = - (crc AND 1) in drop_bit 1 crc XOR (0xedb88320 AND mask))"

definition crc32_byte :: "u32 \<Rightarrow> u8 \<Rightarrow> u32" where
  "crc32_byte crc byte = (crc32_bit ^^ 8) (crc XOR ucast byte)"

definition vf2_crc32 :: "u8 list \<Rightarrow> u32" where
  "vf2_crc32 data = NOT (foldl crc32_byte 0xffffffff data)"

section \<open>Hashing a file\<close>

text \<open>
  What the C library does with the path: \<open>fopen\<close> fails, or the stream delivers blocks until
  \<open>fread\<close> returns 0, after which \<open>ferror\<close> and \<open>fclose\<close> report success or failure.
\<close>

record file_stream =
  blocks :: "u8 list list"
  stream_error :: bool
  close_error :: bool

primrec hash_blocks ::
  "u8 list list \<Rightarrow> nat \<times> u32 \<times> sha1_context \<Rightarrow> (nat \<times> u32 \<times> sha1_context) option" where
  "hash_blocks [] acc = Some acc"
| "hash_blocks (b # bs) acc =
     (if b = [] then Some acc
      else case acc of (count, crc, sha1) \<Rightarrow>
        (case sha1_update sha1 b of
           None \<Rightarrow> None
         | Some sha1' \<Rightarrow> hash_blocks bs (count + length b, foldl crc32_byte crc b, sha1')))"

definition vf2_hash_file ::
  "u8 list \<Rightarrow> file_stream option \<Rightarrow> (vf2_status + nat \<times> u32 \<times> u8 list) option" where
  "vf2_hash_file garbage opened =
     (case opened of
        None \<Rightarrow> Some (Inl VF2_ERROR_IO)
      | Some file \<Rightarrow>
          map_option (\<lambda>(count, crc, sha1).
              if stream_error file then Inl VF2_ERROR_IO
              else if close_error file then Inl VF2_ERROR_IO
              else Inr (count, NOT crc, sha1_final sha1))
            (hash_blocks (blocks file) (0, 0xffffffff, sha1_init garbage)))"

section \<open>SHA-1 of the padded message\<close>

text \<open>
  The reference: process a message block by block, with the unprocessed rest (\<open>residue\<close>), pad
  the message and process it from the initial state.
\<close>

fun sha1_process ::
  "u32 \<times> u32 \<times> u32 \<times> u32 \<times> u32 \<Rightarrow> u8 list \<Rightarrow> u32 \<times> u32 \<times> u32 \<times> u32 \<times> u32" where
  "sha1_process s M =
     (if length M < 64 then s else sha1_process (sha1_compress (take 64 M) s) (drop 64 M))"

declare sha1_process.simps [simp del]

fun residue :: "u8 list \<Rightarrow> u8 list" where
  "residue M = (if length M < 64 then M else residue (drop 64 M))"

declare residue.simps [simp del]

lemma length_residue: "length (residue M) = length M mod 64"
proof (induction M rule: residue.induct)
  case (1 M)
  then show ?case
    by (cases "length M < 64") (auto simp: residue.simps [of M] le_mod_geq)
qed

lemma process_append_residue:
  "sha1_process s (A @ B) = sha1_process (sha1_process s A) (residue A @ B)"
proof (induction s A rule: sha1_process.induct)
  case (1 s A)
  show ?case
  proof (cases "length A < 64")
    case True
    then show ?thesis by (simp add: sha1_process.simps [of s A] residue.simps [of A])
  next
    case False
    then have "sha1_process s (A @ B) = sha1_process (sha1_compress (take 64 A) s) (drop 64 A @ B)"
      by (simp add: sha1_process.simps [of s "A @ B"])
    with 1 False show ?thesis
      by (simp add: sha1_process.simps [of s A] residue.simps [of A])
  qed
qed

lemma residue_append: "residue (A @ B) = residue (residue A @ B)"
proof (induction A rule: residue.induct)
  case (1 A)
  show ?case
  proof (cases "length A < 64")
    case True
    then show ?thesis by (simp add: residue.simps [of A])
  next
    case False
    with 1 show ?thesis by (simp add: residue.simps [of A] residue.simps [of "A @ B"])
  qed
qed

lemma process_block: "length B = 64 \<Longrightarrow> sha1_process s (B @ R) = sha1_process (sha1_compress B s) R"
  by (subst sha1_process.simps) simp

lemma residue_block: "length B = 64 \<Longrightarrow> residue (B @ R) = residue R"
  by (subst residue.simps) simp

lemma length_buffer_put:
  "at + length bs \<le> length buf \<Longrightarrow> length (buffer_put buf at bs) = length buf"
  by (simp add: buffer_put_def)

lemma take_buffer_put:
  "at + length bs \<le> length buf \<Longrightarrow> take (at + length bs) (buffer_put buf at bs) = take at buf @ bs"
  by (simp add: buffer_put_def)

definition pending :: "sha1_context \<Rightarrow> u8 list" where
  "pending c = take (buffer_size c) (buffer c)"

definition context_ok :: "sha1_context \<Rightarrow> bool" where
  "context_ok c \<longleftrightarrow> length (buffer c) = 64 \<and> buffer_size c < 64"

lemma absorb_spec:
  "context_ok c \<Longrightarrow> \<exists>c'. sha1_absorb c data = Some c' \<and> context_ok c' \<and>
     sha1_state c' = sha1_process (sha1_state c) (pending c @ data) \<and>
     pending c' = residue (pending c @ data) \<and> total_bytes c' = total_bytes c"
proof (induction "length data" arbitrary: c data rule: less_induct)
  case less
  show ?case
  proof (cases "data = []")
    case True
    with less.prems show ?thesis
      by (simp add: sha1_absorb.simps sha1_process.simps residue.simps context_ok_def pending_def)
  next
    case nonempty: False
    define n where "n = min (64 - buffer_size c) (length data)"
    let ?n = n
    let ?filled = "c\<lparr>buffer := buffer_put (buffer c) (buffer_size c) (take ?n data),
                     buffer_size := buffer_size c + ?n\<rparr>"
    have bs: "buffer_size c < 64" and lb: "length (buffer c) = 64"
      using less.prems by (auto simp: context_ok_def)
    have ln: "length (take n data) = n" and nb: "buffer_size c + n \<le> 64" "0 < n"
      using bs nonempty by (auto simp: n_def)
    have fits: "buffer_size c + length (take n data) \<le> length (buffer c)"
      using nb lb ln by simp
    have lf: "length (buffer ?filled) = 64"
      using length_buffer_put [OF fits] lb by simp
    have tf: "take (buffer_size ?filled) (buffer ?filled) = pending c @ take ?n data"
      using take_buffer_put [OF fits] unfolding ln by (simp add: pending_def)
    have shorter: "length (drop ?n data) < length data"
      using nonempty nb by (cases data) auto
    show ?thesis
    proof (cases "buffer_size ?filled = 64")
      case full: True
      define next_c where "next_c = (sha1_transform ?filled (buffer ?filled))\<lparr>buffer_size := 0\<rparr>"
      have whole: "buffer ?filled = pending c @ take ?n data"
        using tf full lf by simp
      have step: "sha1_absorb c data = sha1_absorb next_c (drop ?n data)"
        using nonempty full
        by (subst sha1_absorb.simps) (simp add: Let_def next_c_def n_def)
      have ok: "context_ok next_c"
        using lf by (simp add: next_c_def context_ok_def sha1_transform_def)
      have pn: "pending next_c = []" by (simp add: pending_def next_c_def)
      have len: "length (pending c @ take ?n data) = 64"
        using whole lf by metis
      have split: "pending c @ data = (pending c @ take ?n data) @ drop ?n data"
        by simp
      have st: "sha1_process (sha1_state c) (pending c @ data)
          = sha1_process (sha1_state next_c) (drop ?n data)"
        unfolding split process_block [OF len]
        using whole by (simp add: next_c_def sha1_transform_def)
      have rs: "residue (pending c @ data) = residue (drop ?n data)"
        unfolding split by (rule residue_block [OF len])
      show ?thesis
        using less.hyps [OF shorter ok] st rs pn
        by (simp add: step) (simp add: next_c_def sha1_transform_def)
    next
      case part: False
      have ok: "context_ok ?filled"
        using part lf nb by (simp add: context_ok_def)
      have step: "sha1_absorb c data = sha1_absorb ?filled (drop ?n data)"
        using nonempty part
        by (subst sha1_absorb.simps) (simp add: Let_def n_def)
      show ?thesis
        using less.hyps [OF shorter ok] tf
        by (simp add: step pending_def)
    qed
  qed
qed

definition be64 :: "u64 \<Rightarrow> u8 list" where
  "be64 n = map (\<lambda>i. ucast (drop_bit ((7 - i) * 8) n)) [0..<8]"

definition sha1_pad :: "u8 list \<Rightarrow> u8 list" where
  "sha1_pad M = M @ 0x80 # replicate ((119 - length M mod 64) mod 64) 0 @ be64 (of_nat (length M) * 8)"

definition digest :: "u32 \<times> u32 \<times> u32 \<times> u32 \<times> u32 \<Rightarrow> u8 list" where
  "digest s = (let (s0, s1, s2, s3, s4) = s
     in write_be32 s0 @ write_be32 s1 @ write_be32 s2 @ write_be32 s3 @ write_be32 s4)"

definition sha1_spec :: "u8 list \<Rightarrow> u8 list" where
  "sha1_spec M =
     digest (sha1_process sha1_initial (sha1_pad M))"

definition represents :: "sha1_context \<Rightarrow> u8 list \<Rightarrow> bool" where
  "represents c M \<longleftrightarrow> context_ok c \<and> sha1_state c = sha1_process sha1_initial M \<and>
     pending c = residue M \<and> total_bytes c = of_nat (length M)"

lemma represents_init: "length g = 64 \<Longrightarrow> represents (sha1_init g) []"
  by (simp add: represents_def sha1_init_def context_ok_def pending_def
      sha1_process.simps residue.simps)

lemma update_represents:
  assumes "represents c M"
  shows "\<exists>c'. sha1_update c d = Some c' \<and> represents c' (M @ d)"
proof -
  let ?c = "c\<lparr>total_bytes := total_bytes c + of_nat (length d)\<rparr>"
  have ok: "context_ok ?c" and pn: "pending ?c = residue M"
    and st: "sha1_state ?c = sha1_process sha1_initial M"
    using assms by (auto simp: represents_def context_ok_def pending_def)
  from absorb_spec [OF ok, of d] obtain c' where c':
    "sha1_absorb ?c d = Some c'" "context_ok c'"
    "sha1_state c' = sha1_process (sha1_state ?c) (pending ?c @ d)"
    "pending c' = residue (pending ?c @ d)" "total_bytes c' = total_bytes ?c"
    by blast
  have "sha1_state c' = sha1_process sha1_initial (M @ d)"
    using c'(3) unfolding pn st by (simp only: process_append_residue [of _ M d])
  moreover have "pending c' = residue (M @ d)"
    using c'(4) unfolding pn by (simp only: residue_append [of M d])
  moreover have "total_bytes c' = of_nat (length (M @ d))"
    using c'(5) assms by (simp add: represents_def)
  ultimately have "represents c' (M @ d)"
    using c'(2) by (simp add: represents_def)
  with c'(1) show ?thesis by (auto simp: sha1_update_def)
qed

lemma buffer_fill:
  assumes "length buf = 64" and "n + length bs = 64"
  shows "buffer_put buf n bs = take n buf @ bs"
  using assms by (simp add: buffer_put_def)

lemma final_spec:
  assumes "represents c M"
  shows "sha1_final c = sha1_spec M"
proof -
  let ?r = "residue M"
  have ok: "length (buffer c) = 64" "buffer_size c < 64"
    and st: "sha1_state c = sha1_process sha1_initial M"
    and pn: "take (buffer_size c) (buffer c) = ?r"
    and tb: "total_bytes c = of_nat (length M)"
    using assms by (auto simp: represents_def context_ok_def pending_def)
  have lr: "length ?r = buffer_size c" using arg_cong [OF pn, of length] ok by simp
  have m: "length M mod 64 = buffer_size c" using lr length_residue [of M] by simp
  define n where "n = buffer_size c"
  define t where "t = be64 (total_bytes c * 8)"
  define marked where "marked = c\<lparr>buffer := buffer_put (buffer c) n [0x80], buffer_size := n + 1\<rparr>"
  have lt: "length t = 8" by (simp add: t_def be64_def)
  have bm: "length (buffer marked) = 64" "take (n + 1) (buffer marked) = ?r @ [0x80]"
    "buffer_size marked = n + 1" "sha1_state marked = sha1_process sha1_initial M"
    using ok pn st lr by (auto simp: marked_def n_def buffer_put_def)
  have spec: "sha1_process sha1_initial (sha1_pad M) = sha1_process (sha1_process sha1_initial M)
      (?r @ 0x80 # replicate ((119 - n) mod 64) 0 @ t)"
    unfolding sha1_pad_def by (subst process_append_residue) (simp add: m n_def t_def tb)
  show ?thesis
  proof (cases "n + 1 > 56")
    case True
    have k: "(119 - n) mod 64 = (63 - n) + 56" using True ok n_def by simp
    define full where "full = zero_fill marked 64"
    have bf: "buffer full = ?r @ 0x80 # replicate (63 - n) 0" "sha1_state full = sha1_state marked"
      using bm True ok n_def lr by (auto simp: full_def zero_fill_def buffer_put_def)
    define room where "room = (sha1_transform full (buffer full))\<lparr>buffer_size := 0\<rparr>"
    define padded where "padded = zero_fill room 56"
    have lf: "length (buffer full) = 64" using bf lr ok n_def by simp
    have bp: "buffer_put (buffer padded) 56 t = replicate 56 0 @ t"
      "sha1_state padded = sha1_compress (buffer full) (sha1_process sha1_initial M)"
      using lf lt bf bm by (auto simp: padded_def zero_fill_def room_def sha1_transform_def buffer_put_def)
    have "sha1_process (sha1_process sha1_initial M) (?r @ 0x80 # replicate ((119 - n) mod 64) 0 @ t)
      = sha1_process (sha1_process sha1_initial M) (buffer full @ (replicate 56 0 @ t) @ [])"
      unfolding k replicate_add bf(1) by simp
    also have "\<dots> = sha1_compress (replicate 56 0 @ t) (sha1_state padded)"
      unfolding process_block [OF lf] bp(2)
      by (subst process_block) (simp_all add: lt sha1_process.simps [of _ "[]"])
    finally have "sha1_process sha1_initial (sha1_pad M) = sha1_compress (replicate 56 0 @ t) (sha1_state padded)"
      unfolding spec .
    moreover have "sha1_final c = digest (sha1_compress (buffer_put (buffer padded) 56 t) (sha1_state padded))"
      using True unfolding sha1_final_def digest_def Let_def be64_def [symmetric] t_def [symmetric]
        n_def [symmetric] marked_def [symmetric] bm(3) if_P [OF True]
        full_def [symmetric] room_def [symmetric] padded_def [symmetric]
      by (simp add: sha1_transform_def)
    ultimately show ?thesis by (simp add: sha1_spec_def digest_def bp(1))
  next
    case False
    then have k: "(119 - n) mod 64 = 55 - n" using ok n_def by (simp add: mod_if)
    have e: "56 - n = Suc (55 - n)" and lrn: "length ?r = n" using False lr n_def by simp_all
    define padded where "padded = zero_fill marked 56"
    have bp: "take 56 (buffer padded) = ?r @ 0x80 # replicate (55 - n) 0" "length (buffer padded) = 64"
      "sha1_state padded = sha1_process sha1_initial M"
      using bm False lrn e by (auto simp: padded_def zero_fill_def buffer_put_def)
    have b: "buffer_put (buffer padded) 56 t = ?r @ 0x80 # replicate (55 - n) 0 @ t"
      using buffer_fill [OF bp(2), of 56 t] lt bp(1) by simp
    have "sha1_process sha1_initial (sha1_pad M) = sha1_process (sha1_state padded)
        ((?r @ 0x80 # replicate (55 - n) 0 @ t) @ [])"
      unfolding spec k bp(3) by simp
    also have "\<dots> = sha1_compress (?r @ 0x80 # replicate (55 - n) 0 @ t) (sha1_state padded)"
      using False lr n_def lt by (subst process_block) (simp_all add: sha1_process.simps [of _ "[]"])
    finally have "sha1_process sha1_initial (sha1_pad M)
      = sha1_compress (?r @ 0x80 # replicate (55 - n) 0 @ t) (sha1_state padded)" .
    moreover have "sha1_final c = digest (sha1_compress (buffer_put (buffer padded) 56 t) (sha1_state padded))"
      using False unfolding sha1_final_def digest_def Let_def be64_def [symmetric] t_def [symmetric]
        n_def [symmetric] marked_def [symmetric] bm(3) if_not_P [OF False] padded_def [symmetric]
      by (simp add: sha1_transform_def)
    ultimately show ?thesis by (simp add: sha1_spec_def digest_def b)
  qed
qed

section \<open>CRC-32 steps are injective\<close>

lemma crc32_bit_alt:
  "crc32_bit c = (if bit c 0 then drop_bit 1 c XOR 0xedb88320 else drop_bit 1 c)"
  by (simp add: crc32_bit_def Let_def and_one_bit)

lemma crc32_bit_odd: "bit (crc32_bit c) 31 \<longleftrightarrow> bit c 0"
  using bit_imp_le_length [of c 32] by (auto simp: crc32_bit_alt bit_simps)

lemma inj_crc32_bit: "inj crc32_bit"
proof (rule injI)
  fix c d :: u32 assume eq: "crc32_bit c = crc32_bit d"
  then have b: "bit c 0 \<longleftrightarrow> bit d 0" by (metis crc32_bit_odd)
  with eq have h: "drop_bit 1 c = drop_bit 1 d"
    by (auto simp: crc32_bit_alt split: if_splits)
  show "c = d"
  proof (rule bit_word_eqI)
    fix n assume "n < LENGTH(32)"
    show "bit c n \<longleftrightarrow> bit d n"
    proof (cases n)
      case 0 with b show ?thesis by simp
    next
      case (Suc k)
      with arg_cong [OF h, of "\<lambda>w. bit w k"] show ?thesis by (simp add: bit_drop_bit_eq)
    qed
  qed
qed

lemma crc32_byte_eq_iff:
  "crc32_byte x b = crc32_byte y b' \<longleftrightarrow> x XOR ucast b = y XOR ucast b'"
  unfolding crc32_byte_def by (rule inj_eq [OF inj_fn [OF inj_crc32_bit]])

lemma crc32_byte_neq: "b \<noteq> b' \<Longrightarrow> crc32_byte x b \<noteq> crc32_byte x b'"
  by (simp add: crc32_byte_eq_iff ucast_u8_u32_inj)

lemma inj_crc32_byte: "crc32_byte x b = crc32_byte y b \<Longrightarrow> x = y"
  by (simp add: crc32_byte_eq_iff)

lemma foldl_crc_inj: "foldl crc32_byte x m = foldl crc32_byte y m \<Longrightarrow> x = y"
  by (induction m arbitrary: x y) (auto dest: inj_crc32_byte)

lemma crc32_byte_unroll:
  "crc32_byte crc b = crc32_bit (crc32_bit (crc32_bit (crc32_bit (crc32_bit (crc32_bit
     (crc32_bit (crc32_bit (crc XOR ucast b))))))))"
  by (simp add: crc32_byte_def funpow_swap1 numeral_eq_Suc)

section \<open>Digests over chunked input\<close>

text \<open>
  The interface between a digest and the code that feeds it: an update that absorbs a chunk,
  and the relation between a context and the bytes it has absorbed. What the client gets is
  that feeding chunks one after the other absorbs their concatenation.
\<close>

primrec feed_chunks :: "('c \<Rightarrow> u8 list \<Rightarrow> 'c option) \<Rightarrow> u8 list list \<Rightarrow> 'c \<Rightarrow> 'c option" where
  "feed_chunks upd [] c = Some c"
| "feed_chunks upd (b # bs) c = Option.bind (upd c b) (feed_chunks upd bs)"

locale chunk_digest =
  fixes upd :: "'c \<Rightarrow> u8 list \<Rightarrow> 'c option"
    and absorbed :: "'c \<Rightarrow> u8 list \<Rightarrow> bool"
  assumes upd_absorbs: "absorbed c M \<Longrightarrow> \<exists>c'. upd c d = Some c' \<and> absorbed c' (M @ d)"
begin

lemma feed_absorbs:
  "absorbed c M \<Longrightarrow> \<exists>c'. feed_chunks upd bs c = Some c' \<and> absorbed c' (M @ concat bs)"
proof (induction bs arbitrary: c M)
  case Nil
  then show ?case by simp
next
  case (Cons b bs)
  from upd_absorbs [OF Cons.prems, of b] obtain c' where
    "upd c b = Some c'" and "absorbed c' (M @ b)" by blast
  with Cons.IH [of c' "M @ b"] show ?case by simp
qed

end

text \<open>The step of the file loop: count, CRC and SHA-1 advance together.\<close>

definition hash_block ::
  "nat \<times> u32 \<times> sha1_context \<Rightarrow> u8 list \<Rightarrow> (nat \<times> u32 \<times> sha1_context) option" where
  "hash_block acc b = (case acc of (count, crc, sha1) \<Rightarrow>
     map_option (\<lambda>sha1'. (count + length b, foldl crc32_byte crc b, sha1')) (sha1_update sha1 b))"

definition file_absorbed :: "nat \<times> u32 \<times> sha1_context \<Rightarrow> u8 list \<Rightarrow> bool" where
  "file_absorbed acc M = (case acc of (count, crc, sha1) \<Rightarrow>
     count = length M \<and> crc = foldl crc32_byte 0xffffffff M \<and> represents sha1 M)"

interpretation sha1_digest: chunk_digest sha1_update represents
  by unfold_locales (rule update_represents)

interpretation file_digest: chunk_digest hash_block file_absorbed
proof
  fix acc M d
  assume "file_absorbed acc M"
  then obtain sha1 where acc: "acc = (length M, foldl crc32_byte 0xffffffff M, sha1)"
    and r: "represents sha1 M"
    by (auto simp: file_absorbed_def split: prod.splits)
  from update_represents [OF r, of d] obtain sha1' where
    "sha1_update sha1 d = Some sha1'" and "represents sha1' (M @ d)" by blast
  then show "\<exists>acc'. hash_block acc d = Some acc' \<and> file_absorbed acc' (M @ d)"
    by (simp add: acc hash_block_def file_absorbed_def)
qed

lemma hash_blocks_feed:
  "[] \<notin> set bs \<Longrightarrow> hash_blocks bs acc = feed_chunks hash_block bs acc"
proof (induction bs arbitrary: acc)
  case Nil
  show ?case by simp
next
  case (Cons b bs)
  then show ?case
    by (cases acc) (auto simp: hash_block_def split: option.splits)
qed

lemma file_absorbed_init: "length g = 64 \<Longrightarrow> file_absorbed (0, 0xffffffff, sha1_init g) []"
  by (simp add: file_absorbed_def represents_init)

section \<open>Properties\<close>

text \<open>C31: the buffered SHA-1 of \<open>hash.c\<close> always returns, and returns the SHA-1 of the padded
  message, whatever the stack bytes of the context's buffer held.\<close>

theorem vf2_sha1_correct:
  assumes "length garbage = 64"
  shows "vf2_sha1 garbage data = Some (sha1_spec data)"
proof -
  from update_represents [OF represents_init [OF assms], of data] obtain c where
    "sha1_update (sha1_init garbage) data = Some c" and "represents c data" by auto
  then show ?thesis by (simp add: vf2_sha1_def final_spec)
qed

lemma vf2_sha1_correct_witness:
  "vf2_sha1 (replicate 64 0xcc) [0x61, 0x62, 0x63] = Some (sha1_spec [0x61, 0x62, 0x63])"
  by (rule vf2_sha1_correct) simp

text \<open>C32: hashing a file gives the size, CRC-32 and SHA-1 of the concatenated stream, for every
  way the stream is cut into non-empty \<open>fread\<close> blocks.\<close>

theorem vf2_hash_file_chunking:
  assumes "length garbage = 64" and "[] \<notin> set (blocks file)"
    and "\<not> stream_error file" and "\<not> close_error file"
  shows "vf2_hash_file garbage (Some file) =
    Some (Inr (length (concat (blocks file)), vf2_crc32 (concat (blocks file)),
               sha1_spec (concat (blocks file))))"
proof -
  from file_digest.feed_absorbs [OF file_absorbed_init [OF assms(1)], of "blocks file"]
  obtain acc where "feed_chunks hash_block (blocks file) (0, 0xffffffff, sha1_init garbage) = Some acc"
    and "file_absorbed acc (concat (blocks file))" by auto
  then show ?thesis
    using assms by (auto simp: vf2_hash_file_def hash_blocks_feed file_absorbed_def
        vf2_crc32_def final_spec split: prod.splits)
qed

lemma vf2_hash_file_chunking_witness:
  "vf2_hash_file (replicate 64 1) (Some \<lparr>blocks = [[1, 2], [3]], stream_error = False, close_error = False\<rparr>)
   = Some (Inr (3, vf2_crc32 [1, 2, 3], sha1_spec [1, 2, 3]))"
  using vf2_hash_file_chunking [of "replicate 64 1"
      "\<lparr>blocks = [[1, 2], [3]], stream_error = False, close_error = False\<rparr>"]
  by simp

text \<open>C33: CRC-32 detects every error confined to one byte: messages of one length that differ in
  exactly one byte never have the same CRC.\<close>

theorem vf2_crc32_detects_byte_error:
  assumes "b \<noteq> b'"
  shows "vf2_crc32 (pre @ b # post) \<noteq> vf2_crc32 (pre @ b' # post)"
proof
  assume "vf2_crc32 (pre @ b # post) = vf2_crc32 (pre @ b' # post)"
  then have "foldl crc32_byte (crc32_byte (foldl crc32_byte 0xffffffff pre) b) post =
      foldl crc32_byte (crc32_byte (foldl crc32_byte 0xffffffff pre) b') post"
    by (simp add: vf2_crc32_def)
  then have "crc32_byte (foldl crc32_byte 0xffffffff pre) b =
      crc32_byte (foldl crc32_byte 0xffffffff pre) b'"
    by (rule foldl_crc_inj)
  with crc32_byte_neq [OF assms] show False by blast
qed

lemma crc32_check_value:
  "vf2_crc32 [0x31, 0x32, 0x33, 0x34, 0x35, 0x36, 0x37, 0x38, 0x39] = 0xcbf43926"
  by (simp add: vf2_crc32_def crc32_byte_unroll crc32_bit_alt)

lemma vf2_crc32_detects_byte_error_witness:
  "vf2_crc32 ([0x31] @ 0x32 # [0x33]) \<noteq> vf2_crc32 ([0x31] @ 0x33 # [0x33])"
  by (rule vf2_crc32_detects_byte_error) simp

end
