(* ===== verification/Vf2_Model2a.thy ===== *)
theory Vf2_Model2a
  imports Vf2_Prelude
begin

text \<open>
  \<open>src/hardware/model2a.c\<close> and \<open>src/hardware/model2a_observer.c\<close>: the bounded Model 2A board
  and its bus. The struct \<open>vf2_model2a\<close> is the record \<open>vf2_model2a\<close>; its eighteen
  device buffers, the program ROM and the data ROM, each a pointer with a size, are the entries
  of \<open>regions\<close>, indexed by \<open>area\<close>. A NULL pointer is \<open>None\<close>. The coprocessor callbacks and
  the memory observer are function pointers with a \<open>void *\<close> context: functions over a context
  type \<open>'h\<close> that the record carries.
\<close>

section \<open>State\<close>

datatype area =
    MAIN_ROM | MAIN_DATA | GEOMETRY | COPRO_PORT | WORK_RAM | BUFFER_RAM | VIDEO_CONTROL
  | CPU_CONTROL | INTERRUPT_CONTROL | TIMERS | TILE_RAM | PALETTE_RAM | IO_CONTROL
  | BACKUP_SRAM | COPRO_CONTROL | COLOR_TRANSLATION | TEXTURE_RAM0 | TEXTURE_RAM1
  | LUMA_RAM | SYSTEM_CONTROL

record region =
  r_data :: "memory option"
  r_size :: nat

datatype access_kind = MEMORY_READ | MEMORY_WRITE

record memory_access =
  access_kind :: access_kind
  access_address :: u32
  access_data :: "u8 list"

record 'h vf2_model2a =
  regions :: "area \<Rightarrow> region"
  owned_main_data :: bool
  geometry_write_start :: u32
  geometry_read_start :: u32
  geometry_control :: u32
  geometry_program_count :: u32
  copro_read_callback :: "('h \<Rightarrow> u32 \<Rightarrow> nat \<Rightarrow> vf2_status \<times> u8 list \<times> 'h) option"
  copro_write_callback :: "('h \<Rightarrow> u32 \<Rightarrow> u8 list \<Rightarrow> vf2_status \<times> 'h) option"
  copro_callback_context :: 'h
  memory_observer :: "(memory_access \<Rightarrow> 'h \<Rightarrow> 'h) option"
  memory_observer_context :: 'h
  input_mask :: u32

section \<open>Memory map\<close>

definition VF2_MAIN_ROM_BASE :: u32 where "VF2_MAIN_ROM_BASE = 0x00000000"
definition VF2_MAIN_ROM_SIZE :: nat where "VF2_MAIN_ROM_SIZE = 0x00200000"
definition VF2_MAIN_DATA_BASE :: u32 where "VF2_MAIN_DATA_BASE = 0x02000000"
definition VF2_MAIN_DATA_PRIMARY_SIZE :: nat where "VF2_MAIN_DATA_PRIMARY_SIZE = 0x02000000"
definition VF2_MAIN_DATA_EXTRA_BASE :: u32 where "VF2_MAIN_DATA_EXTRA_BASE = 0x06000000"
definition VF2_MAIN_DATA_EXTRA_OFFSET :: nat where "VF2_MAIN_DATA_EXTRA_OFFSET = 0x01000000"
definition VF2_MAIN_DATA_EXTRA_SIZE :: nat where "VF2_MAIN_DATA_EXTRA_SIZE = 0x01000000"
definition VF2_TEXTURE_RAM_MIRROR :: u32 where "VF2_TEXTURE_RAM_MIRROR = 0x00200000"
definition VF2_MODEL2A_TIMER_RELOAD :: u32 where "VF2_MODEL2A_TIMER_RELOAD = 0x000fffff"
definition VF2_MODEL2A_VIDEO_FIFO_STATUS_OFFSET :: u32 where
  "VF2_MODEL2A_VIDEO_FIFO_STATUS_OFFSET = 0x0004"
definition VF2_MODEL2A_VIDEO_STATUS_OFFSET :: u32 where
  "VF2_MODEL2A_VIDEO_STATUS_OFFSET = 0x000c"
definition VF2_MODEL2A_FRAME_COUNTER_OFFSET :: nat where
  "VF2_MODEL2A_FRAME_COUNTER_OFFSET = 0x0100"

text \<open>The device windows \<open>VF2_<area>_BASE\<close> and \<open>VF2_<area>_SIZE\<close>.\<close>

fun area_base :: "area \<Rightarrow> u32" where
  "area_base MAIN_ROM = 0x00000000"
| "area_base MAIN_DATA = 0x02000000"
| "area_base GEOMETRY = 0x00800000"
| "area_base COPRO_PORT = 0x00880000"
| "area_base WORK_RAM = 0x00500000"
| "area_base BUFFER_RAM = 0x00900000"
| "area_base VIDEO_CONTROL = 0x00980000"
| "area_base CPU_CONTROL = 0x00e00000"
| "area_base INTERRUPT_CONTROL = 0x00e80000"
| "area_base TIMERS = 0x00f00000"
| "area_base TILE_RAM = 0x01000000"
| "area_base PALETTE_RAM = 0x01800000"
| "area_base IO_CONTROL = 0x01c00000"
| "area_base BACKUP_SRAM = 0x01d00000"
| "area_base COPRO_CONTROL = 0x10000000"
| "area_base COLOR_TRANSLATION = 0x01810000"
| "area_base TEXTURE_RAM0 = 0x12000000"
| "area_base TEXTURE_RAM1 = 0x12400000"
| "area_base LUMA_RAM = 0x12800000"
| "area_base SYSTEM_CONTROL = 0xff000000"

fun device_size :: "area \<Rightarrow> nat" where
  "device_size MAIN_ROM = 0"
| "device_size MAIN_DATA = 0"
| "device_size GEOMETRY = 0x00008000"
| "device_size COPRO_PORT = 0x00008000"
| "device_size WORK_RAM = 0x00100000"
| "device_size BUFFER_RAM = 0x00080000"
| "device_size VIDEO_CONTROL = 0x00001000"
| "device_size CPU_CONTROL = 0x00001000"
| "device_size INTERRUPT_CONTROL = 0x00001000"
| "device_size TIMERS = 0x00000010"
| "device_size TILE_RAM = 0x00100000"
| "device_size PALETTE_RAM = 0x00100000"
| "device_size IO_CONTROL = 0x00100000"
| "device_size BACKUP_SRAM = 0x00004000"
| "device_size COPRO_CONTROL = 0x00200000"
| "device_size COLOR_TRANSLATION = 0x0000c000"
| "device_size TEXTURE_RAM0 = 0x00200000"
| "device_size TEXTURE_RAM1 = 0x00200000"
| "device_size LUMA_RAM = 0x00020000"
| "device_size SYSTEM_CONTROL = 0x00000100"

section \<open>Access to the buffers\<close>

text \<open>
  The size and contents of a buffer. Dereferencing NULL is undefined in C; the model reads
  zeros and writes nothing there, and \<open>machine_ok\<close> (theory \<open>Vf2_Model2a_Laws\<close>), which every
  operation keeps, rules the case out.
\<close>

definition area_size :: "'h vf2_model2a \<Rightarrow> area \<Rightarrow> nat" where
  "area_size m a = r_size (regions m a)"

definition area_null :: "'h vf2_model2a \<Rightarrow> area \<Rightarrow> bool" where
  "area_null m a = (r_data (regions m a) = None)"

definition area_mem :: "'h vf2_model2a \<Rightarrow> area \<Rightarrow> memory" where
  "area_mem m a = (case r_data (regions m a) of None \<Rightarrow> (\<lambda>_. 0) | Some d \<Rightarrow> d)"

definition update_area :: "area \<Rightarrow> (memory \<Rightarrow> memory) \<Rightarrow> 'h vf2_model2a \<Rightarrow> 'h vf2_model2a" where
  "update_area a f m = m\<lparr>regions := (regions m)
     (a := (regions m a)\<lparr>r_data := map_option f (r_data (regions m a))\<rparr>)\<rparr>"

section \<open>Device registers\<close>

definition model2a_timer_value :: "'h vf2_model2a \<Rightarrow> nat \<Rightarrow> u32" where
  "model2a_timer_value m timer = read_le32 (area_mem m TIMERS) (timer * 4)"

definition model2a_set_timer_value :: "nat \<Rightarrow> u32 \<Rightarrow> 'h vf2_model2a \<Rightarrow> 'h vf2_model2a" where
  "model2a_set_timer_value timer value = update_area TIMERS (\<lambda>d. write_le32 d (timer * 4) value)"

definition model2a_timer_running :: "'h vf2_model2a \<Rightarrow> nat \<Rightarrow> bool" where
  "model2a_timer_running m timer = (area_mem m VIDEO_CONTROL (0x20 + timer) \<noteq> 0)"

definition model2a_set_timer_running :: "nat \<Rightarrow> bool \<Rightarrow> 'h vf2_model2a \<Rightarrow> 'h vf2_model2a" where
  "model2a_set_timer_running timer running =
     update_area VIDEO_CONTROL (\<lambda>d. d(0x20 + timer := if running then 1 else 0))"

definition model2a_frame_number :: "'h vf2_model2a \<Rightarrow> u32" where
  "model2a_frame_number m = read_le32 (area_mem m VIDEO_CONTROL) VF2_MODEL2A_FRAME_COUNTER_OFFSET"

definition model2a_set_frame_number :: "u32 \<Rightarrow> 'h vf2_model2a \<Rightarrow> 'h vf2_model2a" where
  "model2a_set_frame_number n =
     update_area VIDEO_CONTROL (\<lambda>d. write_le32 d VF2_MODEL2A_FRAME_COUNTER_OFFSET n)"

definition model2a_video_status :: "'h vf2_model2a \<Rightarrow> u32" where
  "model2a_video_status m =
     (let frame = model2a_frame_number m;
          render_mode = read_le32 (area_mem m COPRO_CONTROL) 0;
          phase = (if render_mode AND 4 \<noteq> 0 then push_bit 2 (frame AND 1)
                   else push_bit 1 (frame AND 2))
      in phase OR (read_le32 (area_mem m VIDEO_CONTROL) 0xc AND 3))"

definition model2a_push_geometry_word :: "u32 \<Rightarrow> ('h vf2_model2a, unit) prog" where
  "model2a_push_geometry_word value m =
     (if area_null m BUFFER_RAM \<or> area_null m GEOMETRY \<or> area_size m BUFFER_RAM < 4
      then (Inl VF2_ERROR_OUT_OF_BOUNDS, m)
      else
        let byte_offset = unat (geometry_write_start m AND 0x0001fffc)
        in if byte_offset > area_size m BUFFER_RAM - 4 then (Inl VF2_ERROR_OUT_OF_BOUNDS, m)
           else if geometry_control m AND 0x80000000 \<noteq> 0 then
             (let program_offset = unat (geometry_program_count m) * 4
              in if program_offset > 0x4000 - 4 then (Inl VF2_ERROR_OUT_OF_BOUNDS, m)
                 else (Inr (), update_area GEOMETRY (\<lambda>d. write_le32 d (0x4000 + program_offset) value)
                        (m\<lparr>geometry_program_count := geometry_program_count m + 1\<rparr>)))
           else (Inr (), update_area BUFFER_RAM (\<lambda>d. write_le32 d byte_offset value)
                   (m\<lparr>geometry_write_start := (geometry_write_start m + 4) AND 0x000fffff\<rparr>)))"

section \<open>Address decoding\<close>

definition range_contains :: "u32 \<Rightarrow> nat \<Rightarrow> u32 \<Rightarrow> nat \<Rightarrow> bool" where
  "range_contains base region_size address access_size =
     (if address < base then False
      else (let relative = unat address - unat base
            in relative \<le> region_size \<and> access_size \<le> region_size - relative))"

text \<open>
  A view: the buffer behind it, the offset of its first byte there, whether it can be written,
  and the bus address of its first byte. \<open>find_view\<close> returns 0 in C where it is \<open>None\<close> here.
\<close>

record vf2_memory_view =
  view_area :: area
  view_start :: nat
  view_writable :: bool
  view_size :: nat
  view_base :: u32

definition view_of ::
  "'h vf2_model2a \<Rightarrow> area \<Rightarrow> nat \<Rightarrow> bool \<Rightarrow> nat \<Rightarrow> u32 \<Rightarrow> vf2_memory_view option" where
  "view_of m a start writable sz base =
     (if area_null m a then None
      else Some \<lparr>view_area = a, view_start = start, view_writable = writable,
                 view_size = sz, view_base = base\<rparr>)"

definition find_rom_view ::
  "'h vf2_model2a \<Rightarrow> u32 \<Rightarrow> nat \<Rightarrow> vf2_memory_view option option" where
  "find_rom_view m address sz =
     (if range_contains VF2_MAIN_ROM_BASE (area_size m MAIN_ROM) address sz
      then Some (view_of m MAIN_ROM 0 False (area_size m MAIN_ROM) VF2_MAIN_ROM_BASE)
      else
        let primary_size = min (area_size m MAIN_DATA) VF2_MAIN_DATA_PRIMARY_SIZE
        in if range_contains VF2_MAIN_DATA_BASE primary_size address sz
           then Some (view_of m MAIN_DATA 0 False primary_size VF2_MAIN_DATA_BASE)
           else if area_size m MAIN_DATA > VF2_MAIN_DATA_EXTRA_OFFSET then
             (let remaining = area_size m MAIN_DATA - VF2_MAIN_DATA_EXTRA_OFFSET;
                  extra_size = min remaining VF2_MAIN_DATA_EXTRA_SIZE
              in if range_contains VF2_MAIN_DATA_EXTRA_BASE extra_size address sz
                 then Some (view_of m MAIN_DATA VF2_MAIN_DATA_EXTRA_OFFSET False extra_size
                              VF2_MAIN_DATA_EXTRA_BASE)
                 else None)
           else None)"

text \<open>The writable windows, in the order in which \<open>find_view\<close> tries them.\<close>

definition device_order :: "area list" where
  "device_order =
     [GEOMETRY, COPRO_PORT, WORK_RAM, BUFFER_RAM, VIDEO_CONTROL, CPU_CONTROL, INTERRUPT_CONTROL,
      TIMERS, TILE_RAM, PALETTE_RAM, IO_CONTROL, BACKUP_SRAM, COPRO_CONTROL, COLOR_TRANSLATION,
      TEXTURE_RAM0, TEXTURE_RAM1, LUMA_RAM, SYSTEM_CONTROL]"

definition mirrored :: "area \<Rightarrow> bool" where
  "mirrored a = (a = TEXTURE_RAM0 \<or> a = TEXTURE_RAM1)"

primrec find_device_view ::
  "'h vf2_model2a \<Rightarrow> u32 \<Rightarrow> nat \<Rightarrow> area list \<Rightarrow> vf2_memory_view option" where
  "find_device_view m address sz [] = None"
| "find_device_view m address sz (a # as) =
     (if range_contains (area_base a) (area_size m a) address sz \<or>
         mirrored a \<and> range_contains (area_base a + VF2_TEXTURE_RAM_MIRROR) (area_size m a) address sz
      then view_of m a 0 True (area_size m a)
             (if mirrored a \<and> address \<ge> area_base a + VF2_TEXTURE_RAM_MIRROR
              then area_base a + VF2_TEXTURE_RAM_MIRROR else area_base a)
      else find_device_view m address sz as)"

definition find_view :: "'h vf2_model2a \<Rightarrow> u32 \<Rightarrow> nat \<Rightarrow> vf2_memory_view option" where
  "find_view m address sz =
     (case find_rom_view m address sz of
        Some v \<Rightarrow> v
      | None \<Rightarrow> find_device_view m address sz device_order)"


section \<open>Host input\<close>

text \<open>Active-low input bytes: every pressed button of the host mask clears its bit.\<close>

definition press :: "u32 \<Rightarrow> nat \<times> u8 \<Rightarrow> u8 \<Rightarrow> u8" where
  "press inp bm v = (if inp AND push_bit (fst bm) 1 \<noteq> 0 then v AND NOT (snd bm) else v)"

definition port1_buttons :: "(nat \<times> u8) list" where
  "port1_buttons = [(8, 0x01), (17, 0x04), (9, 0x08), (7, 0x10)]"

definition port2_buttons :: "(nat \<times> u8) list" where
  "port2_buttons = [(4, 0x01), (5, 0x02), (6, 0x04), (1, 0x10), (0, 0x20), (3, 0x40), (2, 0x80)]"

definition port3_buttons :: "(nat \<times> u8) list" where
  "port3_buttons = [(14, 0x01), (15, 0x02), (16, 0x04), (11, 0x10), (10, 0x20), (13, 0x40), (12, 0x80)]"

definition model2a_host_input_port :: "'h vf2_model2a \<Rightarrow> nat \<Rightarrow> u8" where
  "model2a_host_input_port m port =
     (if port = 1 then fold (press (input_mask m)) port1_buttons 0xff
      else if port = 2 then fold (press (input_mask m)) port2_buttons 0xff
      else if port = 3 then fold (press (input_mask m)) port3_buttons 0xff
      else 0xff)"

definition model2a_read_input_port :: "'h vf2_model2a \<Rightarrow> u32 \<Rightarrow> nat \<Rightarrow> vf2_status + u8 list" where
  "model2a_read_input_port m address sz =
     (let relative = address - area_base IO_CONTROL;
          port = unat relative div 2
      in if sz \<noteq> 1 \<or> relative AND 1 \<noteq> 0 then Inl VF2_ERROR_UNSUPPORTED
         else if relative = 0x10 then Inr [model2a_host_input_port m 1]
         else if relative = 0x12 then Inr [model2a_host_input_port m 2]
         else if relative = 0x14 then Inr [model2a_host_input_port m 3]
         else if port \<ge> 1 \<and> port \<le> 3 then
           (if area_mem m IO_CONTROL 0x10 AND push_bit port 1 \<noteq> 0
            then Inr [model2a_host_input_port m port]
            else Inr [area_mem m IO_CONTROL (unat relative)])
         else Inl VF2_ERROR_UNSUPPORTED)"

section \<open>Lifecycle\<close>

definition null_region :: region where
  "null_region = \<lparr>r_data = None, r_size = 0\<rparr>"

text \<open>
  \<open>vf2_model2a_initialize\<close>: the outcome of each of the eighteen \<open>calloc\<close> calls is an argument.
  \<open>nil\<close> is the zeroed context pointer \<open>memset\<close> leaves. When an allocation fails the machine
  is shut down, that is zeroed, and 0 is returned.
\<close>

definition zeroed_machine :: "'h \<Rightarrow> 'h vf2_model2a" where
  "zeroed_machine nil =
     \<lparr>regions = (\<lambda>_. null_region), owned_main_data = False, geometry_write_start = 0,
      geometry_read_start = 0, geometry_control = 0, geometry_program_count = 0,
      copro_read_callback = None, copro_write_callback = None, copro_callback_context = nil,
      memory_observer = None, memory_observer_context = nil, input_mask = 0\<rparr>"

definition initial_timers :: memory where
  "initial_timers = (\<lambda>i. if i < 16 then (if i mod 4 = 0 \<or> i mod 4 = 1 then 0xff
                              else if i mod 4 = 2 then 0x0f else 0x00) else 0)"

definition initial_io_control :: memory where
  "initial_io_control = (\<lambda>_. 0)
     (0x42 := 0x40, 0x43 := 0x00, 0x10 := 0xff, 0x02 := 0xff, 0x04 := 0xff, 0x06 := 0xff,
      0x16 := 0xff, 0x18 := 0xff, 0x1a := 0x0c)"

definition initial_memory :: "area \<Rightarrow> memory" where
  "initial_memory a = (if a = TIMERS then initial_timers
                       else if a = IO_CONTROL then initial_io_control else (\<lambda>_. 0))"

definition vf2_model2a_initialize :: "'h \<Rightarrow> (area \<Rightarrow> bool) \<Rightarrow> bool \<times> 'h vf2_model2a" where
  "vf2_model2a_initialize nil calloc_ok =
     (if \<forall>a \<in> set device_order. calloc_ok a
      then (True, model2a_set_frame_number 0 ((zeroed_machine nil)
              \<lparr>regions := (\<lambda>a. if a \<in> set device_order
                 then \<lparr>r_data = Some (initial_memory a), r_size = device_size a\<rparr>
                 else null_region)\<rparr>))
      else (False, zeroed_machine nil))"

definition vf2_model2a_shutdown :: "'h \<Rightarrow> 'h vf2_model2a \<Rightarrow> 'h vf2_model2a" where
  "vf2_model2a_shutdown nil m = zeroed_machine nil"

text \<open>The board reset: the frame of \<open>0x07800f0f\<close> words is the geometry sentinel.\<close>

definition zero_memory :: "nat \<Rightarrow> memory \<Rightarrow> memory" where
  "zero_memory n d = (\<lambda>i. if i < n then 0 else d i)"

definition reset_sentinel :: "memory \<Rightarrow> memory" where
  "reset_sentinel d = fold (\<lambda>k d. write_le32 d (k * 4) 0x07800f0f) [0..<0x8000] d"

definition reset_timer :: "nat \<Rightarrow> 'h vf2_model2a \<Rightarrow> 'h vf2_model2a" where
  "reset_timer timer m =
     model2a_set_timer_running timer False
       (model2a_set_timer_value timer VF2_MODEL2A_TIMER_RELOAD m)"

definition vf2_model2a_reset :: "('h vf2_model2a, unit) prog" where
  "vf2_model2a_reset m =
     (if area_null m BUFFER_RAM \<or> area_size m BUFFER_RAM < 0x20000 \<or> area_null m VIDEO_CONTROL \<or>
         area_null m INTERRUPT_CONTROL \<or> area_null m TIMERS \<or> area_null m COPRO_CONTROL
      then (Inl VF2_ERROR_INVALID_ARGUMENT, m)
      else
        let m1 = update_area VIDEO_CONTROL (zero_memory (area_size m VIDEO_CONTROL)) m;
            m2 = update_area INTERRUPT_CONTROL (zero_memory (area_size m INTERRUPT_CONTROL)) m1;
            m3 = update_area COPRO_CONTROL (zero_memory (area_size m COPRO_CONTROL)) m2;
            m4 = fold reset_timer [0..<4] m3;
            m5 = update_area BUFFER_RAM reset_sentinel m4;
            m6 = m5\<lparr>geometry_write_start := 0, geometry_read_start := 0,
                    geometry_control := 0, geometry_program_count := 0\<rparr>
        in (Inr (), model2a_set_frame_number 0 m6))"

definition vf2_model2a_attach_main_rom :: "memory option \<Rightarrow> nat \<Rightarrow> ('h vf2_model2a, unit) prog" where
  "vf2_model2a_attach_main_rom rom rom_size m =
     (if rom = None \<or> rom_size = 0 then (Inl VF2_ERROR_INVALID_ARGUMENT, m)
      else (Inr (), m\<lparr>regions := (regions m)(MAIN_ROM := \<lparr>r_data = rom, r_size = rom_size\<rparr>)\<rparr>))"

definition vf2_model2a_attach_main_data :: "memory option \<Rightarrow> nat \<Rightarrow> ('h vf2_model2a, unit) prog" where
  "vf2_model2a_attach_main_data data data_size m =
     (if data = None \<or> data_size = 0 then (Inl VF2_ERROR_INVALID_ARGUMENT, m)
      else (Inr (), m\<lparr>owned_main_data := False,
                      regions := (regions m)(MAIN_DATA := \<lparr>r_data = data, r_size = data_size\<rparr>)\<rparr>))"

definition vf2_model2a_take_main_data :: "memory option \<Rightarrow> nat \<Rightarrow> ('h vf2_model2a, unit) prog" where
  "vf2_model2a_take_main_data data data_size m =
     (if data = None \<or> data_size = 0 then (Inl VF2_ERROR_INVALID_ARGUMENT, m)
      else pbind (vf2_model2a_attach_main_data data data_size)
             (\<lambda>_. pmodify (\<lambda>m. m\<lparr>owned_main_data := True\<rparr>)) m)"

definition vf2_model2a_set_copro_callbacks ::
  "('h \<Rightarrow> u32 \<Rightarrow> nat \<Rightarrow> vf2_status \<times> u8 list \<times> 'h) option \<Rightarrow>
   ('h \<Rightarrow> u32 \<Rightarrow> u8 list \<Rightarrow> vf2_status \<times> 'h) option \<Rightarrow> 'h \<Rightarrow> ('h vf2_model2a, unit) prog" where
  "vf2_model2a_set_copro_callbacks rd wr ctx =
     pmodify (\<lambda>m. m\<lparr>copro_read_callback := rd, copro_write_callback := wr,
                     copro_callback_context := ctx\<rparr>)"

definition vf2_model2a_set_memory_observer ::
  "(memory_access \<Rightarrow> 'h \<Rightarrow> 'h) option \<Rightarrow> 'h \<Rightarrow> ('h vf2_model2a, unit) prog" where
  "vf2_model2a_set_memory_observer obs ctx =
     pmodify (\<lambda>m. m\<lparr>memory_observer := obs, memory_observer_context := ctx\<rparr>)"

definition vf2_model2a_set_input :: "u32 \<Rightarrow> ('h vf2_model2a, unit) prog" where
  "vf2_model2a_set_input inp = pmodify (\<lambda>m. m\<lparr>input_mask := inp\<rparr>)"


section \<open>Bus reads\<close>

text \<open>The part of \<open>vf2_model2a_read\<close> after the coprocessor callback had its chance.\<close>

definition read_registers_and_views :: "'h vf2_model2a \<Rightarrow> u32 \<Rightarrow> nat \<Rightarrow> vf2_status + u8 list" where
  "read_registers_and_views m address sz =
     (if (address = area_base INTERRUPT_CONTROL \<or> address = area_base INTERRUPT_CONTROL + 4) \<and> sz = 4
      then Inr (read_bytes (area_mem m INTERRUPT_CONTROL)
                  (unat (address - area_base INTERRUPT_CONTROL)) 4)
      else if address = area_base VIDEO_CONTROL + VF2_MODEL2A_VIDEO_FIFO_STATUS_OFFSET \<and> sz \<le> 4
      then Inr (take sz [1, 0, 0, 0])
      else if address = area_base VIDEO_CONTROL + VF2_MODEL2A_VIDEO_STATUS_OFFSET \<and> sz = 4
      then (if area_null m VIDEO_CONTROL \<or> area_null m COPRO_CONTROL
            then Inl VF2_ERROR_OUT_OF_BOUNDS
            else Inr (le32_bytes (model2a_video_status m)))
      else if address = area_base COPRO_CONTROL \<and> sz = 4
      then (if area_null m COPRO_CONTROL then Inl VF2_ERROR_OUT_OF_BOUNDS
            else Inr (le32_bytes (read_le32 (area_mem m COPRO_CONTROL) 0 AND (1 OR 4 OR 0x4000))))
      else (case find_view m address sz of
              None \<Rightarrow> Inl VF2_ERROR_OUT_OF_BOUNDS
            | Some v \<Rightarrow> Inr (read_bytes (area_mem m (view_area v))
                                (view_start v + (unat address - unat (view_base v))) sz)))"

definition copro_read :: "'h vf2_model2a \<Rightarrow> u32 \<Rightarrow> nat \<Rightarrow> (vf2_status + u8 list) option \<times> 'h vf2_model2a" where
  "copro_read m address sz =
     (case copro_read_callback m of
        None \<Rightarrow> (None, m)
      | Some cb \<Rightarrow>
          if range_contains (area_base COPRO_PORT) (area_size m COPRO_PORT) address sz then
            (case cb (copro_callback_context m) address sz of (st, bytes, ctx) \<Rightarrow>
               ((if st = VF2_ERROR_UNSUPPORTED then None
                 else if st = VF2_OK then Some (Inr bytes) else Some (Inl st)),
                m\<lparr>copro_callback_context := ctx\<rparr>))
          else (None, m))"

definition vf2_model2a_read_impl :: "u32 \<Rightarrow> nat \<Rightarrow> ('h vf2_model2a, u8 list) prog" where
  "vf2_model2a_read_impl address sz m =
     (if range_contains (area_base GEOMETRY + 0x4000) 0x4000 address sz then
        (if sz \<noteq> 4 \<or> address AND 3 \<noteq> 0 then (Inl VF2_ERROR_UNSUPPORTED, m)
         else (Inr (le32_bytes 0xffffffff), m))
      else if range_contains (area_base TIMERS) (area_size m TIMERS) address sz \<and>
              sz = 4 \<and> address AND 3 = 0 then
        (let timer = unat (address - area_base TIMERS) div 4
         in if timer \<ge> 4 then (Inl VF2_ERROR_OUT_OF_BOUNDS, m)
            else (Inr (le32_bytes (model2a_timer_value m timer)), m))
      else if range_contains (area_base IO_CONTROL) (area_size m IO_CONTROL) address sz \<and>
              model2a_read_input_port m address sz \<noteq> Inl VF2_ERROR_UNSUPPORTED
      then (model2a_read_input_port m address sz, m)
      else (case copro_read m address sz of
              (Some r, m') \<Rightarrow> (r, m')
            | (None, m') \<Rightarrow> (read_registers_and_views m' address sz, m')))"

section \<open>Bus writes\<close>

text \<open>
  The registers with write side effects, in the order of the code: \<open>None\<close> where no register
  claims the access and the function goes on.
\<close>

definition write_registers ::
  "'h vf2_model2a \<Rightarrow> u32 \<Rightarrow> u8 list \<Rightarrow> ((vf2_status + unit) \<times> 'h vf2_model2a) option" where
  "write_registers m address bytes =
     (let sz = length bytes; value = le32_of_bytes bytes in
      if range_contains (area_base GEOMETRY + 0x4000) 0x4000 address sz then
        (if sz \<noteq> 4 \<or> address AND 3 \<noteq> 0 then Some (Inl VF2_ERROR_UNSUPPORTED, m)
         else Some (model2a_push_geometry_word value m))
      else if range_contains (area_base TIMERS) (area_size m TIMERS) address sz \<and>
              sz = 4 \<and> address AND 3 = 0 then
        (let timer = unat (address - area_base TIMERS) div 4
         in if timer \<ge> 4 then Some (Inl VF2_ERROR_OUT_OF_BOUNDS, m)
            else Some (Inr (), model2a_set_timer_running timer True
                                 (model2a_set_timer_value timer value m)))
      else if range_contains VF2_MAIN_ROM_BASE (area_size m MAIN_ROM) address sz then
        (if \<not> area_null m MAIN_ROM then Some (Inr (), m) else Some (Inl VF2_ERROR_OUT_OF_BOUNDS, m))
      else if address = area_base VIDEO_CONTROL \<and> sz = 4 then
        (if area_null m VIDEO_CONTROL then Some (Inl VF2_ERROR_OUT_OF_BOUNDS, m)
         else
           let previous = read_le32 (area_mem m VIDEO_CONTROL) 0;
               restart = (value XOR previous) AND 0x80000000 \<noteq> 0 \<and> value AND 0x80000000 \<noteq> 0
           in Some (Inr (), update_area VIDEO_CONTROL (\<lambda>d. write_le32 d 0 value)
                (if restart then m\<lparr>geometry_program_count := 0\<rparr> else m)))
      else if address = area_base VIDEO_CONTROL + VF2_MODEL2A_VIDEO_STATUS_OFFSET \<and> sz = 4 then
        (if area_null m VIDEO_CONTROL then Some (Inl VF2_ERROR_OUT_OF_BOUNDS, m)
         else Some (Inr (), update_area VIDEO_CONTROL (\<lambda>d. write_le32 d 0xc value) m))
      else if address = area_base COPRO_CONTROL \<and> sz = 4 then
        (if area_null m COPRO_CONTROL then Some (Inl VF2_ERROR_OUT_OF_BOUNDS, m)
         else Some (Inr (), update_area COPRO_CONTROL
                (\<lambda>d. write_le32 d 0 (value AND (1 OR 4 OR 0x4000))) m))
      else if address = area_base INTERRUPT_CONTROL \<and> sz = 4 then
        Some (Inr (), update_area INTERRUPT_CONTROL
                (\<lambda>d. write_le32 d 0 (read_le32 d 0 AND value)) m)
      else if address = area_base INTERRUPT_CONTROL + 4 \<and> sz = 4 then
        Some (Inr (), update_area INTERRUPT_CONTROL (\<lambda>d. write_le32 d 4 value) m)
      else if address = area_base VIDEO_CONTROL + 8 \<and> sz = 4 then
        (let restart = value AND 0x80000000 \<noteq> 0 \<and> geometry_control m AND 0x80000000 = 0;
             m1 = (if restart then m\<lparr>geometry_program_count := 0\<rparr> else m)
         in Some (Inr (), update_area VIDEO_CONTROL (\<lambda>d. write_le32 d 8 value)
                            (m1\<lparr>geometry_control := value\<rparr>)))
      else if address = area_base IO_CONTROL + 0x10 \<and> sz = 1 \<and> bytes ! 0 = 0x4e then Some (Inr (), m)
      else if address \<ge> area_base IO_CONTROL + 0x40 \<and>
              unat address + sz \<le> unat (area_base IO_CONTROL) + 0x44 then Some (Inr (), m)
      else None)"

definition copro_write ::
  "'h vf2_model2a \<Rightarrow> u32 \<Rightarrow> u8 list \<Rightarrow> (vf2_status + unit) option \<times> 'h vf2_model2a" where
  "copro_write m address bytes =
     (case copro_write_callback m of
        None \<Rightarrow> (None, m)
      | Some cb \<Rightarrow>
          if range_contains (area_base COPRO_PORT) (area_size m COPRO_PORT) address (length bytes) then
            (case cb (copro_callback_context m) address bytes of (st, ctx) \<Rightarrow>
               ((if st = VF2_ERROR_UNSUPPORTED then None
                 else if st = VF2_OK then Some (Inr ()) else Some (Inl st)),
                m\<lparr>copro_callback_context := ctx\<rparr>))
          else (None, m))"

definition write_view :: "u32 \<Rightarrow> u8 list \<Rightarrow> ('h vf2_model2a, unit) prog" where
  "write_view address bytes m =
     (case find_view m address (length bytes) of
        None \<Rightarrow> (Inl VF2_ERROR_OUT_OF_BOUNDS, m)
      | Some v \<Rightarrow>
          if \<not> view_writable v then (Inl VF2_ERROR_OUT_OF_BOUNDS, m)
          else
            let stored = update_area (view_area v)
                  (\<lambda>d. write_bytes d (view_start v + (unat address - unat (view_base v))) bytes) m
            in (Inr (),
                if length bytes = 4 \<and> address = area_base GEOMETRY + 0x1008
                then stored\<lparr>geometry_write_start := le32_of_bytes bytes AND 0x000fffff\<rparr>
                else if length bytes = 4 \<and> address = area_base GEOMETRY + 0x3008
                then stored\<lparr>geometry_read_start := le32_of_bytes bytes AND 0x000fffff\<rparr>
                else stored))"

definition vf2_model2a_write_impl :: "u32 \<Rightarrow> u8 list \<Rightarrow> ('h vf2_model2a, unit) prog" where
  "vf2_model2a_write_impl address bytes m =
     (case write_registers m address bytes of
        Some r \<Rightarrow> r
      | None \<Rightarrow>
          (case copro_write m address bytes of
             (Some r, m') \<Rightarrow> (r, m')
           | (None, m') \<Rightarrow> write_view address bytes m'))"

definition vf2_model2a_read_u32_impl :: "u32 \<Rightarrow> ('h vf2_model2a, u32) prog" where
  "vf2_model2a_read_u32_impl address =
     pbind (vf2_model2a_read_impl address 4) (\<lambda>data. pret (le32_of_bytes data))"

definition vf2_model2a_write_u32_impl :: "u32 \<Rightarrow> u32 \<Rightarrow> ('h vf2_model2a, unit) prog" where
  "vf2_model2a_write_u32_impl address value = vf2_model2a_write_impl address (le32_bytes value)"

section \<open>The observed bus\<close>

definition observe_access :: "access_kind \<Rightarrow> u32 \<Rightarrow> u8 list \<Rightarrow> 'h vf2_model2a \<Rightarrow> 'h vf2_model2a" where
  "observe_access kind address data m =
     (case memory_observer m of
        None \<Rightarrow> m
      | Some obs \<Rightarrow> m\<lparr>memory_observer_context :=
          obs \<lparr>access_kind = kind, access_address = address, access_data = data\<rparr>
            (memory_observer_context m)\<rparr>)"

definition vf2_model2a_read :: "u32 \<Rightarrow> nat \<Rightarrow> ('h vf2_model2a, u8 list) prog" where
  "vf2_model2a_read address sz =
     pbind (vf2_model2a_read_impl address sz) (\<lambda>data.
     pbind (pmodify (observe_access MEMORY_READ address data)) (\<lambda>_. pret data))"

definition vf2_model2a_write :: "u32 \<Rightarrow> u8 list \<Rightarrow> ('h vf2_model2a, unit) prog" where
  "vf2_model2a_write address bytes =
     pbind (vf2_model2a_write_impl address bytes) (\<lambda>_.
       pmodify (observe_access MEMORY_WRITE address bytes))"

definition vf2_model2a_read_u32 :: "u32 \<Rightarrow> ('h vf2_model2a, u32) prog" where
  "vf2_model2a_read_u32 address =
     pbind (vf2_model2a_read_u32_impl address) (\<lambda>value.
     pbind (pmodify (observe_access MEMORY_READ address (le32_bytes value))) (\<lambda>_. pret value))"

definition vf2_model2a_write_u32 :: "u32 \<Rightarrow> u32 \<Rightarrow> ('h vf2_model2a, unit) prog" where
  "vf2_model2a_write_u32 address value =
     pbind (vf2_model2a_write_u32_impl address value) (\<lambda>_.
       pmodify (observe_access MEMORY_WRITE address (le32_bytes value)))"

section \<open>Interrupts, timers and frames\<close>

definition vf2_model2a_raise_interrupt :: "u32 \<Rightarrow> ('h vf2_model2a, unit) prog" where
  "vf2_model2a_raise_interrupt irqs m =
     (if area_null m INTERRUPT_CONTROL then (Inl VF2_ERROR_INVALID_ARGUMENT, m)
      else (Inr (), update_area INTERRUPT_CONTROL (\<lambda>d. write_le32 d 0 (read_le32 d 0 OR irqs)) m))"

definition vf2_model2a_set_interrupt_enable :: "u32 \<Rightarrow> ('h vf2_model2a, unit) prog" where
  "vf2_model2a_set_interrupt_enable irqs m =
     (if area_null m INTERRUPT_CONTROL then (Inl VF2_ERROR_INVALID_ARGUMENT, m)
      else (Inr (), update_area INTERRUPT_CONTROL (\<lambda>d. write_le32 d 4 irqs) m))"

definition vf2_model2a_get_interrupt_state :: "('h vf2_model2a, u32 \<times> u32) prog" where
  "vf2_model2a_get_interrupt_state m =
     (if area_null m INTERRUPT_CONTROL then (Inl VF2_ERROR_INVALID_ARGUMENT, m)
      else (Inr (read_le32 (area_mem m INTERRUPT_CONTROL) 0,
                 read_le32 (area_mem m INTERRUPT_CONTROL) 4), m))"

text \<open>One timer of the loop of \<open>vf2_model2a_advance_cycles\<close>.\<close>

definition advance_timer :: "u64 \<Rightarrow> nat \<Rightarrow> 'h vf2_model2a \<Rightarrow> 'h vf2_model2a" where
  "advance_timer cycles timer m =
     (let value = model2a_timer_value m timer in
      if \<not> model2a_timer_running m timer then m
      else if cycles \<ge> ucast value then
        (let line = push_bit (timer + 2) (1 :: u32);
             expired = model2a_set_timer_running timer False
                         (model2a_set_timer_value timer VF2_MODEL2A_TIMER_RELOAD m)
         in if read_le32 (area_mem expired INTERRUPT_CONTROL) 4 AND line \<noteq> 0
            then snd (vf2_model2a_raise_interrupt line expired)
            else expired)
      else model2a_set_timer_value timer (value - ucast cycles) m)"

definition vf2_model2a_advance_cycles :: "u64 \<Rightarrow> ('h vf2_model2a, unit) prog" where
  "vf2_model2a_advance_cycles cycles m =
     (if area_null m TIMERS \<or> area_null m VIDEO_CONTROL \<or> area_null m INTERRUPT_CONTROL
      then (Inl VF2_ERROR_INVALID_ARGUMENT, m)
      else (Inr (), fold (advance_timer cycles) [0..<4] m))"

definition vf2_model2a_advance_frame :: "('h vf2_model2a, unit) prog" where
  "vf2_model2a_advance_frame m =
     (if area_null m VIDEO_CONTROL then (Inl VF2_ERROR_INVALID_ARGUMENT, m)
      else (Inr (), model2a_set_frame_number (model2a_frame_number m + 1) m))"

definition vf2_model2a_get_frame_number :: "('h vf2_model2a, u32) prog" where
  "vf2_model2a_get_frame_number m =
     (if area_null m VIDEO_CONTROL then (Inl VF2_ERROR_INVALID_ARGUMENT, m)
      else (Inr (model2a_frame_number m), m))"

end
