(* ===== verification/Vf2_Model2a_Laws.thy ===== *)
theory Vf2_Model2a_Laws
  imports Vf2_Model2a
begin

text \<open>
  The laws of the board model of \<open>Vf2_Model2a\<close>: the well-formedness invariant \<open>machine_ok\<close> and
  the immutability of both ROMs under every bus operation, the decoding of addresses into
  windows, and the contract a program relies on when it uses work RAM as memory, stated as the
  locale \<open>word_store\<close> and interpreted on the observed bus.
\<close>

named_theorems board_simps \<open>reading a component of an updated board\<close>

section \<open>Components of an updated board\<close>

lemma area_size_update [board_simps]: "area_size (update_area a f m) b = area_size m b"
  by (simp add: area_size_def update_area_def)

lemma area_null_update [board_simps]: "area_null (update_area a f m) b = area_null m b"
  by (simp add: area_null_def update_area_def)

lemma area_mem_update_other [board_simps]: "a \<noteq> b \<Longrightarrow> area_mem (update_area a f m) b = area_mem m b"
  by (simp add: area_mem_def update_area_def)

lemma area_mem_update_same [board_simps]:
  "\<not> area_null m a \<Longrightarrow> area_mem (update_area a f m) a = f (area_mem m a)"
  by (auto simp: area_mem_def update_area_def area_null_def)

lemma update_area_commute:
  "a \<noteq> b \<Longrightarrow> update_area a f (update_area b g m) = update_area b g (update_area a f m)"
  by (simp add: update_area_def fun_upd_twist)

lemma update_area_compose: "update_area a f (update_area a g m) = update_area a (f \<circ> g) m"
  by (simp add: update_area_def option.map_comp)

lemma update_area_cong:
  "\<not> area_null m a \<Longrightarrow> f (area_mem m a) = g (area_mem m a) \<Longrightarrow> update_area a f m = update_area a g m"
  by (auto simp: update_area_def area_null_def area_mem_def)

lemma regions_update_other [board_simps]: "a \<noteq> b \<Longrightarrow> regions (update_area a f m) b = regions m b"
  by (simp add: update_area_def)

lemma update_area_fields [board_simps]:
  "geometry_write_start (update_area a f m) = geometry_write_start m"
  "geometry_read_start (update_area a f m) = geometry_read_start m"
  "geometry_control (update_area a f m) = geometry_control m"
  "geometry_program_count (update_area a f m) = geometry_program_count m"
  "copro_read_callback (update_area a f m) = copro_read_callback m"
  "copro_write_callback (update_area a f m) = copro_write_callback m"
  "memory_observer (update_area a f m) = memory_observer m"
  "input_mask (update_area a f m) = input_mask m"
  by (simp_all add: update_area_def)

text \<open>Everything that depends on the buffers alone is untouched by an update of the other fields.\<close>

lemma area_mem_cong: "regions m = regions m' \<Longrightarrow> area_mem m = area_mem m'"
  by (rule ext) (simp add: area_mem_def)

lemma area_size_cong: "regions m = regions m' \<Longrightarrow> area_size m = area_size m'"
  by (rule ext) (simp add: area_size_def)

lemma area_null_cong: "regions m = regions m' \<Longrightarrow> area_null m = area_null m'"
  by (rule ext) (simp add: area_null_def)

section \<open>The invariant\<close>

text \<open>
  Every device buffer is allocated with the size of its window, and a ROM with no image has
  size 0. \<open>same_roms\<close> relates two boards with the same ROM images.
\<close>

definition machine_ok :: "'h vf2_model2a \<Rightarrow> bool" where
  "machine_ok m \<longleftrightarrow>
     (\<forall>a \<in> set device_order. \<not> area_null m a \<and> area_size m a = device_size a) \<and>
     (area_null m MAIN_ROM \<longrightarrow> area_size m MAIN_ROM = 0) \<and>
     (area_null m MAIN_DATA \<longrightarrow> area_size m MAIN_DATA = 0)"

definition same_roms :: "'h vf2_model2a \<Rightarrow> 'h vf2_model2a \<Rightarrow> bool" where
  "same_roms m m' \<longleftrightarrow> regions m' MAIN_ROM = regions m MAIN_ROM \<and>
                      regions m' MAIN_DATA = regions m MAIN_DATA"

definition board_inv :: "'h vf2_model2a \<Rightarrow> 'h vf2_model2a \<Rightarrow> bool" where
  "board_inv m0 m \<longleftrightarrow> machine_ok m \<and> same_roms m0 m"

lemma device_order_areas [simp]: "a \<in> set device_order \<longleftrightarrow> a \<noteq> MAIN_ROM \<and> a \<noteq> MAIN_DATA"
  by (cases a) (simp_all add: device_order_def)

lemma machine_ok_device:
  assumes "machine_ok m" and "a \<noteq> MAIN_ROM" and "a \<noteq> MAIN_DATA"
  shows "\<not> area_null m a" and "area_size m a = device_size a"
  using assms by (simp_all add: machine_ok_def)

lemma board_inv_refl: "machine_ok m \<Longrightarrow> board_inv m m"
  by (simp add: board_inv_def same_roms_def)

lemma board_inv_cong:
  assumes "regions m' = regions m" shows "board_inv m0 m' \<longleftrightarrow> board_inv m0 m"
  using assms by (simp add: board_inv_def machine_ok_def same_roms_def
      area_size_def area_null_def)

lemma board_inv_update [intro]:
  "a \<noteq> MAIN_ROM \<Longrightarrow> a \<noteq> MAIN_DATA \<Longrightarrow> board_inv m0 m \<Longrightarrow> board_inv m0 (update_area a f m)"
  by (simp add: board_inv_def machine_ok_def same_roms_def board_simps)

lemma board_inv_fields [simp]:
  "board_inv m0 (m\<lparr>geometry_write_start := w\<rparr>) = board_inv m0 m"
  "board_inv m0 (m\<lparr>geometry_read_start := w\<rparr>) = board_inv m0 m"
  "board_inv m0 (m\<lparr>geometry_control := w\<rparr>) = board_inv m0 m"
  "board_inv m0 (m\<lparr>geometry_program_count := w\<rparr>) = board_inv m0 m"
  "board_inv m0 (m\<lparr>copro_callback_context := h\<rparr>) = board_inv m0 m"
  "board_inv m0 (m\<lparr>memory_observer_context := h\<rparr>) = board_inv m0 m"
  "board_inv m0 (m\<lparr>input_mask := w\<rparr>) = board_inv m0 m"
  by (simp_all add: board_inv_def machine_ok_def same_roms_def area_size_def area_null_def)

subsection \<open>A view never lies in a ROM and is writable\<close>

lemma find_device_view_Some:
  assumes "find_device_view m address sz as = Some v"
  shows "view_area v \<in> set as \<and> view_start v = 0 \<and> view_writable v \<and>
         view_size v = area_size m (view_area v) \<and> \<not> area_null m (view_area v) \<and>
         range_contains (view_base v) (view_size v) address sz"
  using assms
proof (induction "as")
  case (Cons a as)
  then show ?case
    by (auto simp: view_of_def range_contains_def mirrored_def VF2_TEXTURE_RAM_MIRROR_def Let_def
        split: if_splits)
qed simp

lemma find_rom_view_Some:
  assumes "find_rom_view m address sz = Some (Some v)"
  shows "\<not> view_writable v \<and> view_area v \<in> {MAIN_ROM, MAIN_DATA}"
  using assms by (auto simp: find_rom_view_def Let_def view_of_def split: if_splits)

lemma find_view_writable:
  assumes "find_view m address sz = Some v" and "view_writable v"
  shows "view_area v \<noteq> MAIN_ROM" and "view_area v \<noteq> MAIN_DATA"
proof -
  have "find_device_view m address sz device_order = Some v"
    using assms find_rom_view_Some by (fastforce simp: find_view_def split: option.splits)
  then show "view_area v \<noteq> MAIN_ROM" "view_area v \<noteq> MAIN_DATA"
    using find_device_view_Some by fastforce+
qed


section \<open>Every operation keeps the invariant\<close>

lemma board_inv_setters [intro]:
  "board_inv m0 m \<Longrightarrow> board_inv m0 (model2a_set_timer_value t v m)"
  "board_inv m0 m \<Longrightarrow> board_inv m0 (model2a_set_timer_running t r m)"
  "board_inv m0 m \<Longrightarrow> board_inv m0 (model2a_set_frame_number n m)"
  by (auto simp: model2a_set_timer_value_def model2a_set_timer_running_def
      model2a_set_frame_number_def)

lemma preserves_push_geometry_word: "preserves (board_inv m0) (model2a_push_geometry_word w)"
  by (auto simp: preserves_def model2a_push_geometry_word_def Let_def)

lemma write_registers_inv:
  "board_inv m0 m \<Longrightarrow> write_registers m address bytes = Some (r, m') \<Longrightarrow> board_inv m0 m'"
  using preservesD_eq [OF preserves_push_geometry_word]
  by (auto simp: write_registers_def Let_def split: if_splits)

lemma copro_read_inv [simp]: "board_inv m0 (snd (copro_read m address sz)) = board_inv m0 m"
  by (auto simp: copro_read_def split: option.split prod.split)

lemma copro_write_inv [simp]: "board_inv m0 (snd (copro_write m address bytes)) = board_inv m0 m"
  by (auto simp: copro_write_def split: option.split prod.split)

lemma board_inv_update_view [intro]:
  "find_view m address sz = Some v \<Longrightarrow> view_writable v \<Longrightarrow> board_inv m0 m' \<Longrightarrow>
   board_inv m0 (update_area (view_area v) f m')"
  using find_view_writable by blast

lemma preserves_write_view: "preserves (board_inv m0) (write_view address bytes)"
  by (auto simp: preserves_def write_view_def Let_def split: option.splits)

lemma snd_read_impl:
  "snd (vf2_model2a_read_impl address sz m) \<in> {m, snd (copro_read m address sz)}"
  by (cases "copro_read m address sz")
    (simp add: vf2_model2a_read_impl_def Let_def split: option.split)

lemma preserves_read_impl: "preserves (board_inv m0) (vf2_model2a_read_impl address sz)"
proof -
  have "board_inv m0 (snd (vf2_model2a_read_impl address sz m))" if "board_inv m0 m" for m
    using snd_read_impl [of address sz m] that by auto
  then show ?thesis by (simp add: preserves_def)
qed

lemma preserves_write_impl: "preserves (board_inv m0) (vf2_model2a_write_impl address bytes)"
proof -
  have "board_inv m0 (snd (vf2_model2a_write_impl address bytes m))" if inv: "board_inv m0 m" for m
  proof (cases "write_registers m address bytes")
    case None
    obtain r m' where c: "copro_write m address bytes = (r, m')" by fastforce
    then have inv': "board_inv m0 m'" using inv copro_write_inv [of m0 m address bytes] by simp
    show ?thesis
      using None c inv' preservesD [OF preserves_write_view inv']
      by (cases r) (simp_all add: vf2_model2a_write_impl_def)
  next
    case (Some r)
    then show ?thesis
      using write_registers_inv [OF inv] by (cases r) (auto simp: vf2_model2a_write_impl_def)
  qed
  then show ?thesis by (simp add: preserves_def)
qed

lemma preserves_observe_access:
  "preserves (board_inv m0) (pmodify (observe_access k address data))"
  by (auto simp: preserves_def observe_access_def split: option.splits)

lemma preserves_read: "preserves (board_inv m0) (vf2_model2a_read address sz)"
  unfolding vf2_model2a_read_def
  by (intro preserves_intros preserves_read_impl preserves_observe_access)

lemma preserves_write: "preserves (board_inv m0) (vf2_model2a_write address bytes)"
  unfolding vf2_model2a_write_def
  by (intro preserves_intros preserves_write_impl preserves_observe_access)

lemma preserves_read_u32: "preserves (board_inv m0) (vf2_model2a_read_u32 address)"
  unfolding vf2_model2a_read_u32_def vf2_model2a_read_u32_impl_def
  by (intro preserves_intros preserves_read_impl preserves_observe_access)

lemma preserves_write_u32: "preserves (board_inv m0) (vf2_model2a_write_u32 address v)"
  unfolding vf2_model2a_write_u32_def vf2_model2a_write_u32_impl_def
  by (intro preserves_intros preserves_write_impl preserves_observe_access)

lemma preserves_raise: "preserves (board_inv m0) (vf2_model2a_raise_interrupt irqs)"
  by (auto simp: preserves_def vf2_model2a_raise_interrupt_def)

lemma board_inv_raise [intro]: "board_inv m0 m \<Longrightarrow> board_inv m0 (snd (vf2_model2a_raise_interrupt irqs m))"
  by (rule preservesD [OF preserves_raise])

lemma preserves_enable: "preserves (board_inv m0) (vf2_model2a_set_interrupt_enable irqs)"
  by (auto simp: preserves_def vf2_model2a_set_interrupt_enable_def)

lemma advance_timer_inv: "board_inv m0 m \<Longrightarrow> board_inv m0 (advance_timer cycles t m)"
  by (auto simp: advance_timer_def Let_def)

lemma fold_inv: "(\<And>x m. P m \<Longrightarrow> P (f x m)) \<Longrightarrow> P m \<Longrightarrow> P (fold f xs m)"
  by (induction xs arbitrary: m) auto

lemma preserves_advance_cycles: "preserves (board_inv m0) (vf2_model2a_advance_cycles cycles)"
proof -
  have "board_inv m0 (fold (advance_timer cycles) ts m)" if "board_inv m0 m" for m ts
    using that by (rule fold_inv [rotated]) (rule advance_timer_inv)
  then show ?thesis by (simp add: preserves_def vf2_model2a_advance_cycles_def)
qed

lemma preserves_advance_frame: "preserves (board_inv m0) vf2_model2a_advance_frame"
  by (auto simp: preserves_def vf2_model2a_advance_frame_def)

lemma fold_reset_timer_inv: "board_inv m0 m \<Longrightarrow> board_inv m0 (fold reset_timer ts m)"
  by (rule fold_inv) (auto simp: reset_timer_def)

lemma preserves_reset: "preserves (board_inv m0) vf2_model2a_reset"
  unfolding preserves_def vf2_model2a_reset_def Let_def
  by (auto simp del: upt_rec_numeral intro!: board_inv_setters(3) board_inv_update
      fold_reset_timer_inv)

lemma preserves_set_input: "preserves (board_inv m0) (vf2_model2a_set_input inp)"
  by (simp add: preserves_def vf2_model2a_set_input_def)

lemma machine_ok_initialize:
  assumes "vf2_model2a_initialize nil calloc_ok = (True, m)"
  shows "machine_ok m"
  using assms unfolding vf2_model2a_initialize_def
  by (auto simp: machine_ok_def model2a_set_frame_number_def board_simps split: if_splits)
    (auto simp: area_null_def area_size_def null_region_def)

lemma machine_ok_attach_main_rom:
  "machine_ok m \<Longrightarrow> machine_ok (snd (vf2_model2a_attach_main_rom rom rom_size m))"
  by (auto simp: vf2_model2a_attach_main_rom_def machine_ok_def area_null_def area_size_def)

lemma machine_ok_attach_main_data:
  "machine_ok m \<Longrightarrow> machine_ok (snd (vf2_model2a_attach_main_data data data_size m))"
  by (auto simp: vf2_model2a_attach_main_data_def machine_ok_def area_null_def area_size_def)

text \<open>The operations a running program, the devices and the host perform on an attached board.\<close>

datatype board_op =
    Bus_Read u32 nat
  | Bus_Write u32 "u8 list"
  | Bus_Read_u32 u32
  | Bus_Write_u32 u32 u32
  | Raise_Interrupt u32
  | Set_Interrupt_Enable u32
  | Advance_Cycles u64
  | Advance_Frame
  | Set_Input u32
  | Board_Reset

primrec board_op_run :: "board_op \<Rightarrow> 'h vf2_model2a \<Rightarrow> 'h vf2_model2a" where
  "board_op_run (Bus_Read address sz) m = snd (vf2_model2a_read address sz m)"
| "board_op_run (Bus_Write address bytes) m = snd (vf2_model2a_write address bytes m)"
| "board_op_run (Bus_Read_u32 address) m = snd (vf2_model2a_read_u32 address m)"
| "board_op_run (Bus_Write_u32 address v) m = snd (vf2_model2a_write_u32 address v m)"
| "board_op_run (Raise_Interrupt irqs) m = snd (vf2_model2a_raise_interrupt irqs m)"
| "board_op_run (Set_Interrupt_Enable irqs) m = snd (vf2_model2a_set_interrupt_enable irqs m)"
| "board_op_run (Advance_Cycles n) m = snd (vf2_model2a_advance_cycles n m)"
| "board_op_run Advance_Frame m = snd (vf2_model2a_advance_frame m)"
| "board_op_run (Set_Input inp) m = snd (vf2_model2a_set_input inp m)"
| "board_op_run Board_Reset m = snd (vf2_model2a_reset m)"

lemma board_op_run_inv: "board_inv m0 m \<Longrightarrow> board_inv m0 (board_op_run op m)"
  by (cases op)
    (auto intro!: preservesD [OF preserves_read] preservesD [OF preserves_write]
      preservesD [OF preserves_read_u32] preservesD [OF preserves_write_u32]
      preservesD [OF preserves_raise] preservesD [OF preserves_enable]
      preservesD [OF preserves_advance_cycles] preservesD [OF preserves_advance_frame]
      preservesD [OF preserves_set_input] preservesD [OF preserves_reset])

lemma board_ops_run_inv: "board_inv m0 m \<Longrightarrow> board_inv m0 (fold board_op_run ops m)"
  by (rule fold_inv) (rule board_op_run_inv)

section \<open>Windows\<close>

lemma range_contains_iff:
  "range_contains base sz address n \<longleftrightarrow>
     unat base \<le> unat address \<and> unat address + n \<le> unat base + sz"
  by (auto simp: range_contains_def Let_def word_less_nat_alt not_less)

text \<open>
  The decoded windows of a well-formed board: \<open>hit a address n\<close> says that \<open>n\<close> bytes from
  \<open>address\<close> lie in a window of the device area \<open>a\<close>, texture mirrors included.
\<close>

definition hit :: "area \<Rightarrow> u32 \<Rightarrow> nat \<Rightarrow> bool" where
  "hit a address n \<longleftrightarrow>
     range_contains (area_base a) (device_size a) address n \<or>
     mirrored a \<and> range_contains (area_base a + VF2_TEXTURE_RAM_MIRROR) (device_size a) address n"

definition hit_base :: "area \<Rightarrow> u32 \<Rightarrow> u32" where
  "hit_base a address =
     (if mirrored a \<and> address \<ge> area_base a + VF2_TEXTURE_RAM_MIRROR
      then area_base a + VF2_TEXTURE_RAM_MIRROR else area_base a)"

fun window_low :: "area \<Rightarrow> nat" where
  "window_low a = unat (area_base a)"

fun window_high :: "area \<Rightarrow> nat" where
  "window_high a = unat (area_base a) + device_size a + (if mirrored a then 0x200000 else 0)"

definition rom_fits :: "'h vf2_model2a \<Rightarrow> bool" where
  "rom_fits m \<longleftrightarrow> area_size m MAIN_ROM \<le> VF2_MAIN_ROM_SIZE"

lemma hit_range: "hit a address n \<Longrightarrow> window_low a \<le> unat address \<and> unat address + n \<le> window_high a"
  by (auto simp: hit_def range_contains_iff mirrored_def VF2_TEXTURE_RAM_MIRROR_def)

lemma windows_apart:
  assumes "a \<noteq> b" and "a \<notin> {MAIN_ROM, MAIN_DATA}" and "b \<notin> {MAIN_ROM, MAIN_DATA}"
    and "{a, b} \<noteq> {PALETTE_RAM, COLOR_TRANSLATION}"
  shows "window_high a \<le> window_low b \<or> window_high b \<le> window_low a"
  using assms by (cases a; cases b; simp add: mirrored_def doubleton_eq_iff)

lemma window_place:
  assumes "a \<notin> {MAIN_ROM, MAIN_DATA}"
  shows "0x500000 \<le> window_low a \<and> (window_high a \<le> 0x2000000 \<or> 0x10000000 \<le> window_low a)"
  using assms by (cases a) (simp_all add: mirrored_def)

lemma hit_unique:
  assumes "hit a address n" and "hit b address k" and "0 < n" and "0 < k"
    and "a \<notin> {MAIN_ROM, MAIN_DATA}" and "b \<notin> {MAIN_ROM, MAIN_DATA}"
    and "{a, b} \<noteq> {PALETTE_RAM, COLOR_TRANSLATION}"
  shows "a = b"
  using hit_range [OF assms(1)] hit_range [OF assms(2)] windows_apart [OF _ assms(5-7)] assms(3,4)
  by fastforce

lemma find_device_view_find:
  assumes "machine_ok m" and "\<And>b. b \<in> set as \<Longrightarrow> b \<notin> {MAIN_ROM, MAIN_DATA}"
  shows "find_device_view m address n as =
    (case List.find (\<lambda>a. hit a address n) as of
       None \<Rightarrow> None
     | Some a \<Rightarrow> Some \<lparr>view_area = a, view_start = 0, view_writable = True,
                      view_size = device_size a, view_base = hit_base a address\<rparr>)"
  using assms(2) machine_ok_device [OF assms(1)]
  by (induction "as") (auto simp: hit_def hit_base_def view_of_def)

lemma find_hit:
  assumes "hit a address n" and "0 < n" and "a \<notin> {MAIN_ROM, MAIN_DATA, COLOR_TRANSLATION}"
  shows "List.find (\<lambda>a. hit a address n) device_order = Some a"
proof -
  have "\<not> hit b address n" if "b \<noteq> a" and "b \<notin> {MAIN_ROM, MAIN_DATA}"
    and "{a, b} \<noteq> {PALETTE_RAM, COLOR_TRANSLATION}" for b
    using hit_unique [OF assms(1) _ assms(2) assms(2)] assms(3) that by blast
  then show ?thesis
    using assms by (cases a) (simp_all add: device_order_def doubleton_eq_iff)
qed

lemma find_rom_view_device:
  assumes "rom_fits m" and "hit a address n" and "0 < n" and "a \<notin> {MAIN_ROM, MAIN_DATA}"
  shows "find_rom_view m address n = None"
  using hit_range [OF assms(2)] window_place [OF assms(4)] assms(1,3)
  by (auto simp: find_rom_view_def range_contains_iff Let_def VF2_MAIN_ROM_BASE_def
      VF2_MAIN_ROM_SIZE_def VF2_MAIN_DATA_BASE_def VF2_MAIN_DATA_PRIMARY_SIZE_def
      VF2_MAIN_DATA_EXTRA_BASE_def VF2_MAIN_DATA_EXTRA_OFFSET_def VF2_MAIN_DATA_EXTRA_SIZE_def
      rom_fits_def min_def split: if_splits)

lemma find_view_hit:
  assumes "machine_ok m" and "rom_fits m" and "hit a address n" and "0 < n"
    and "a \<notin> {MAIN_ROM, MAIN_DATA, COLOR_TRANSLATION}"
  shows "find_view m address n =
    Some \<lparr>view_area = a, view_start = 0, view_writable = True, view_size = device_size a,
          view_base = hit_base a address\<rparr>"
  using assms(5) find_rom_view_device [OF assms(2,3,4)] find_hit [OF assms(3-5)]
    find_device_view_find [OF assms(1), of device_order address n]
  by (simp add: find_view_def)

section \<open>Ordinary memory\<close>

text \<open>The areas whose windows are ordinary memory: no register decodes inside them.\<close>

definition plain_area :: "area \<Rightarrow> bool" where
  "plain_area a \<longleftrightarrow> a \<in> {WORK_RAM, BUFFER_RAM, CPU_CONTROL, TILE_RAM, PALETTE_RAM, BACKUP_SRAM,
                          TEXTURE_RAM0, TEXTURE_RAM1, LUMA_RAM, SYSTEM_CONTROL}"

lemma hit_1: "hit a address n \<Longrightarrow> 0 < n \<Longrightarrow> hit a address 1"
  by (auto simp: hit_def range_contains_iff)

lemma plain_not_hit:
  assumes "plain_area a" and "hit a address n" and "0 < n" and "0 < k"
    and "b \<in> {GEOMETRY, COPRO_PORT, TIMERS, IO_CONTROL, INTERRUPT_CONTROL, VIDEO_CONTROL, COPRO_CONTROL}"
  shows "\<not> hit b address k"
  using hit_unique [OF assms(2) _ assms(3,4)] assms(1,5)
  by (auto simp: plain_area_def doubleton_eq_iff)

lemma device_register_hit:
  "hit INTERRUPT_CONTROL (area_base INTERRUPT_CONTROL) 1"
  "hit INTERRUPT_CONTROL (area_base INTERRUPT_CONTROL + 4) 1"
  "hit VIDEO_CONTROL (area_base VIDEO_CONTROL) 1"
  "hit VIDEO_CONTROL (area_base VIDEO_CONTROL + 8) 1"
  "hit VIDEO_CONTROL (area_base VIDEO_CONTROL + VF2_MODEL2A_VIDEO_FIFO_STATUS_OFFSET) 1"
  "hit VIDEO_CONTROL (area_base VIDEO_CONTROL + VF2_MODEL2A_VIDEO_STATUS_OFFSET) 1"
  "hit COPRO_CONTROL (area_base COPRO_CONTROL) 1"
  "hit IO_CONTROL (area_base IO_CONTROL + 0x10) 1"
  "hit GEOMETRY (area_base GEOMETRY + 0x1008) 1"
  "hit GEOMETRY (area_base GEOMETRY + 0x3008) 1"
  by (simp_all add: hit_def range_contains_iff VF2_MODEL2A_VIDEO_FIFO_STATUS_OFFSET_def
      VF2_MODEL2A_VIDEO_STATUS_OFFSET_def)

lemma not_hit_range:
  "\<not> hit b address n \<Longrightarrow> \<not> range_contains (area_base b) (device_size b) address n"
  by (simp add: hit_def)

lemma plain_not_register:
  assumes "plain_area a" and "hit a address n" and "0 < n"
  shows "address \<noteq> area_base INTERRUPT_CONTROL" "address \<noteq> area_base INTERRUPT_CONTROL + 4"
    "address \<noteq> area_base VIDEO_CONTROL" "address \<noteq> area_base VIDEO_CONTROL + 8"
    "address \<noteq> area_base VIDEO_CONTROL + VF2_MODEL2A_VIDEO_FIFO_STATUS_OFFSET"
    "address \<noteq> area_base VIDEO_CONTROL + VF2_MODEL2A_VIDEO_STATUS_OFFSET"
    "address \<noteq> area_base COPRO_CONTROL" "address \<noteq> area_base IO_CONTROL + 0x10"
    "address \<noteq> area_base GEOMETRY + 0x1008" "address \<noteq> area_base GEOMETRY + 0x3008"
  using plain_not_hit [OF assms(1-3) zero_less_one] device_register_hit by blast+

lemma plain_not_range:
  assumes "machine_ok m" and "plain_area a" and "hit a address n" and "0 < n"
  shows "\<not> range_contains (area_base GEOMETRY + 0x4000) 0x4000 address n"
    "\<not> range_contains (area_base TIMERS) (area_size m TIMERS) address n"
    "\<not> range_contains (area_base IO_CONTROL) (area_size m IO_CONTROL) address n"
    "\<not> range_contains (area_base COPRO_PORT) (area_size m COPRO_PORT) address n"
    "\<not> (address \<ge> area_base IO_CONTROL + 0x40 \<and>
        unat address + n \<le> unat (area_base IO_CONTROL) + 0x44)"
proof -
  note nh = plain_not_hit [OF assms(2-4,4)]
  have "hit GEOMETRY address n" if "range_contains (area_base GEOMETRY + 0x4000) 0x4000 address n"
    using that by (simp add: hit_def range_contains_iff)
  then show "\<not> range_contains (area_base GEOMETRY + 0x4000) 0x4000 address n"
    using nh [of GEOMETRY] by blast
  have "hit IO_CONTROL address n" if "address \<ge> area_base IO_CONTROL + 0x40"
    and "unat address + n \<le> unat (area_base IO_CONTROL) + 0x44"
    using that by (simp add: hit_def range_contains_iff word_le_nat_alt)
  then show "\<not> (address \<ge> area_base IO_CONTROL + 0x40 \<and>
        unat address + n \<le> unat (area_base IO_CONTROL) + 0x44)"
    using nh [of IO_CONTROL] by blast
qed (use machine_ok_device(2) [OF assms(1)] plain_not_hit [OF assms(2-4,4)] not_hit_range
      in fastforce)+

lemma read_impl_plain:
  assumes "machine_ok m" and "rom_fits m" and "plain_area a" and "hit a address n" and "0 < n"
  shows "vf2_model2a_read_impl address n m =
    (Inr (read_bytes (area_mem m a) (unat address - unat (hit_base a address)) n), m)"
proof -
  have "a \<notin> {MAIN_ROM, MAIN_DATA, COLOR_TRANSLATION}" using assms(3) by (auto simp: plain_area_def)
  note view = find_view_hit [OF assms(1,2,4,5) this]
  show ?thesis
    using plain_not_range [OF assms(1,3-5)] plain_not_register [OF assms(3-5)]
    by (simp add: vf2_model2a_read_impl_def copro_read_def read_registers_and_views_def view
        split: option.split)
qed

lemma rom_not_hit:
  assumes "rom_fits m" and "hit a address n" and "0 < n" and "a \<notin> {MAIN_ROM, MAIN_DATA}"
  shows "\<not> range_contains VF2_MAIN_ROM_BASE (area_size m MAIN_ROM) address n"
  using hit_range [OF assms(2)] window_place [OF assms(4)] assms(1,3)
  by (auto simp: range_contains_iff rom_fits_def VF2_MAIN_ROM_BASE_def VF2_MAIN_ROM_SIZE_def)

lemma write_impl_plain:
  assumes "machine_ok m" and "rom_fits m" and "plain_area a" and "hit a address (length bytes)"
    and "bytes \<noteq> []"
  shows "vf2_model2a_write_impl address bytes m =
    (Inr (), update_area a
      (\<lambda>d. write_bytes d (unat address - unat (hit_base a address)) bytes) m)"
proof -
  have pos: "0 < length bytes" using assms(5) by simp
  have dev: "a \<notin> {MAIN_ROM, MAIN_DATA, COLOR_TRANSLATION}"
    using assms(3) by (auto simp: plain_area_def)
  then have dev': "a \<notin> {MAIN_ROM, MAIN_DATA}" by blast
  note view = find_view_hit [OF assms(1,2,4) pos dev]
  note rom = rom_not_hit [OF assms(2,4) pos dev']
  show ?thesis
    using plain_not_range [OF assms(1,3,4) pos] plain_not_register [OF assms(3,4) pos] rom
    by (auto simp: vf2_model2a_write_impl_def copro_write_def write_registers_def write_view_def
        view Let_def split: option.split)
qed

text \<open>The observer sees an access and changes nothing but its own context.\<close>

lemma observe_access_frame [simp]:
  "regions (observe_access k address data m) = regions m"
  "machine_ok (observe_access k address data m) = machine_ok m"
  "rom_fits (observe_access k address data m) = rom_fits m"
  "area_mem (observe_access k address data m) a = area_mem m a"
  by (simp_all add: observe_access_def machine_ok_def rom_fits_def area_null_def area_size_def
      area_mem_def split: option.split)

lemma machine_ok_update [simp]:
  "a \<notin> {MAIN_ROM, MAIN_DATA} \<Longrightarrow> machine_ok (update_area a f m) = machine_ok m"
  by (auto simp: machine_ok_def board_simps)

lemma rom_fits_update [simp]: "rom_fits (update_area a f m) = rom_fits m"
  by (simp add: rom_fits_def board_simps)

lemma read_plain:
  assumes "machine_ok m" and "rom_fits m" and "plain_area a" and "hit a address n" and "0 < n"
  shows "\<exists>m'. vf2_model2a_read address n m =
           (Inr (read_bytes (area_mem m a) (unat address - unat (hit_base a address)) n), m') \<and>
         m' = observe_access MEMORY_READ address
           (read_bytes (area_mem m a) (unat address - unat (hit_base a address)) n) m"
  by (simp add: vf2_model2a_read_def read_impl_plain [OF assms])

lemma write_plain:
  assumes "machine_ok m" and "rom_fits m" and "plain_area a" and "hit a address (length bytes)"
    and "bytes \<noteq> []"
  shows "vf2_model2a_write address bytes m =
    (Inr (), observe_access MEMORY_WRITE address bytes (update_area a
      (\<lambda>d. write_bytes d (unat address - unat (hit_base a address)) bytes) m))"
  by (simp add: vf2_model2a_write_def write_impl_plain [OF assms])

lemma read_u32_plain:
  assumes "machine_ok m" and "rom_fits m" and "plain_area a" and "hit a address 4"
  shows "vf2_model2a_read_u32 address m =
    (let v = read_le32 (area_mem m a) (unat address - unat (hit_base a address))
     in (Inr v, observe_access MEMORY_READ address (le32_bytes v) m))"
  using read_impl_plain [OF assms(1-4)]
  by (simp add: vf2_model2a_read_u32_def vf2_model2a_read_u32_impl_def Let_def)

lemma write_u32_plain:
  assumes "machine_ok m" and "rom_fits m" and "plain_area a" and "hit a address 4"
  shows "vf2_model2a_write_u32 address v m =
    (Inr (), observe_access MEMORY_WRITE address (le32_bytes v) (update_area a
      (\<lambda>d. write_le32 d (unat address - unat (hit_base a address)) v) m))"
  using write_impl_plain [OF assms(1-3), of address "le32_bytes v"] assms(4)
  by (simp add: vf2_model2a_write_u32_def vf2_model2a_write_u32_impl_def write_le32_def
      flip: length_greater_0_conv)

text \<open>The two names of a texture byte agree in the offset they select.\<close>

lemma hit_offset_bound:
  assumes "hit a address n" and "0 < n"
  shows "unat address - unat (hit_base a address) + n \<le> device_size a"
  using assms by (auto simp: hit_def hit_base_def range_contains_iff mirrored_def
      VF2_TEXTURE_RAM_MIRROR_def word_le_nat_alt split: if_splits)

section \<open>A store of words\<close>

text \<open>
  What the recovered routines rely on when they keep their tables in RAM: words at cells that
  can be read and written, each write changing its own cell only. \<open>ok\<close> is the client's
  invariant on the board, \<open>peek\<close> the contents.
\<close>

locale word_store =
  fixes ok :: "'s \<Rightarrow> bool"
    and cell :: "u32 \<Rightarrow> bool"
    and peek :: "'s \<Rightarrow> u32 \<Rightarrow> u32"
    and rd :: "u32 \<Rightarrow> ('s, u32) prog"
    and wr :: "u32 \<Rightarrow> u32 \<Rightarrow> ('s, unit) prog"
  assumes rd_value: "ok s \<Longrightarrow> cell a \<Longrightarrow> fst (rd a s) = Inr (peek s a)"
    and rd_ok: "ok s \<Longrightarrow> cell a \<Longrightarrow> ok (snd (rd a s))"
    and rd_peek: "ok s \<Longrightarrow> cell a \<Longrightarrow> cell b \<Longrightarrow> peek (snd (rd a s)) b = peek s b"
    and wr_value: "ok s \<Longrightarrow> cell a \<Longrightarrow> fst (wr a v s) = Inr ()"
    and wr_ok: "ok s \<Longrightarrow> cell a \<Longrightarrow> ok (snd (wr a v s))"
    and wr_peek: "ok s \<Longrightarrow> cell a \<Longrightarrow> cell b \<Longrightarrow>
      peek (snd (wr a v s)) b = (if b = a then v else peek s b)"
begin

lemma rdE:
  assumes "ok s" and "cell a"
  obtains s' where "rd a s = (Inr (peek s a), s')" and "ok s'" and "\<And>b. cell b \<Longrightarrow> peek s' b = peek s b"
  by (rule that [of "snd (rd a s)"]) (simp_all add: assms rd_value rd_ok rd_peek prod_eq_iff)

lemma wrE:
  assumes "ok s" and "cell a"
  obtains s' where "wr a v s = (Inr (), s')" and "ok s'"
    and "\<And>b. cell b \<Longrightarrow> peek s' b = (if b = a then v else peek s b)"
  by (rule that [of "snd (wr a v s)"]) (simp_all add: assms wr_value wr_ok wr_peek prod_eq_iff)

lemma read_after_write:
  assumes "ok s" and "cell a" and "cell b"
  shows "fst (pbind (wr a v) (\<lambda>_. rd b) s) = Inr (if b = a then v else peek s b)"
proof -
  obtain s' where "wr a v s = (Inr (), s')" and "ok s'"
    and "\<And>b. cell b \<Longrightarrow> peek s' b = (if b = a then v else peek s b)"
    using wrE [OF assms(1,2)] by metis
  then show ?thesis using assms(3) rd_value by simp
qed

text \<open>A loop of writes to distinct cells, and the words a table of cells then holds.\<close>

lemma write_table:
  assumes "ok s" and "\<And>i. i \<in> set is \<Longrightarrow> cell (at i)" and "inj_on at (set is)" and "distinct is"
  obtains s' where "pfor is (\<lambda>i. wr (at i) (val i)) s = (Inr (), s')" and "ok s'"
    and "\<And>i. i \<in> set is \<Longrightarrow> peek s' (at i) = val i"
    and "\<And>b. cell b \<Longrightarrow> b \<notin> at ` set is \<Longrightarrow> peek s' b = peek s b"
  using assms
proof (induction "is" arbitrary: s thesis)
  case Nil
  show ?case by (rule Nil.prems(1) [of s]) (simp_all add: Nil.prems(2))
next
  case (Cons i "is")
  have cells: "cell (at i)" "\<And>j. j \<in> set is \<Longrightarrow> cell (at j)" using Cons.prems(3) by simp_all
  obtain s1 where s1: "wr (at i) (val i) s = (Inr (), s1)" "ok s1"
    "\<And>b. cell b \<Longrightarrow> peek s1 b = (if b = at i then val i else peek s b)"
    using wrE [OF Cons.prems(2) cells(1), where v = "val i"] by blast
  have inj: "inj_on at (set is)" "distinct is" and fresh: "at i \<notin> at ` set is"
    using Cons.prems(4,5) by auto
  obtain s' where s': "pfor is (\<lambda>i. wr (at i) (val i)) s1 = (Inr (), s')" "ok s'"
    "\<And>i. i \<in> set is \<Longrightarrow> peek s' (at i) = val i"
    "\<And>b. cell b \<Longrightarrow> b \<notin> at ` set is \<Longrightarrow> peek s' b = peek s1 b"
    by (rule Cons.IH [OF _ s1(2) cells(2) inj]) blast+
  show thesis
  proof (rule Cons.prems(1) [of s'])
    show "pfor (i # is) (\<lambda>i. wr (at i) (val i)) s = (Inr (), s')" using s1(1) s'(1) by simp
    show "peek s' (at j) = val j" if "j \<in> set (i # is)" for j
      using that s'(3) s'(4) [OF cells(1) fresh] s1(3) [OF cells(1)] by auto
    show "peek s' b = peek s b" if "cell b" "b \<notin> at ` set (i # is)" for b
      using that s'(4) s1(3) by simp
  qed (rule s'(2))
qed

end

section \<open>Work RAM is a store of words\<close>

definition ram_ok :: "'h vf2_model2a \<Rightarrow> bool" where
  "ram_ok m \<longleftrightarrow> machine_ok m \<and> rom_fits m"

definition ram_cell :: "u32 \<Rightarrow> bool" where
  "ram_cell a \<longleftrightarrow> 0x500000 \<le> unat a \<and> unat a < 0x600000 \<and> unat a mod 4 = 0"

definition ram_peek :: "'h vf2_model2a \<Rightarrow> u32 \<Rightarrow> u32" where
  "ram_peek m a = read_le32 (area_mem m WORK_RAM) (unat a - 0x500000)"

lemma ram_cell_hit: "ram_cell a \<Longrightarrow> hit WORK_RAM a 4 \<and> hit_base WORK_RAM a = 0x500000"
  unfolding ram_cell_def hit_def hit_base_def range_contains_iff mirrored_def by simp presburger

lemma ram_cells_apart:
  "ram_cell a \<Longrightarrow> ram_cell b \<Longrightarrow> a \<noteq> b \<Longrightarrow>
     unat a - 0x500000 + 4 \<le> unat b - 0x500000 \<or> unat b - 0x500000 + 4 \<le> unat a - (0x500000 :: nat)"
  unfolding ram_cell_def word_unat_eq_iff by presburger

lemma ram_read_u32:
  assumes "ram_ok m" and "ram_cell a"
  shows "vf2_model2a_read_u32 a m =
    (Inr (ram_peek m a), observe_access MEMORY_READ a (le32_bytes (ram_peek m a)) m)"
  using assms ram_cell_hit [OF assms(2)] read_u32_plain [of m WORK_RAM a]
  by (simp add: ram_ok_def ram_peek_def plain_area_def Let_def)

lemma ram_write_u32:
  assumes "ram_ok m" and "ram_cell a"
  shows "vf2_model2a_write_u32 a v m =
    (Inr (), observe_access MEMORY_WRITE a (le32_bytes v)
       (update_area WORK_RAM (\<lambda>d. write_le32 d (unat a - 0x500000) v) m))"
  using assms ram_cell_hit [OF assms(2)] write_u32_plain [of m WORK_RAM a]
  by (simp add: ram_ok_def plain_area_def)

lemma ram_peek_observe [simp]: "ram_peek (observe_access k a data m) = ram_peek m"
  by (rule ext) (simp add: ram_peek_def)

lemma ram_ok_observe [simp]: "ram_ok (observe_access k a data m) = ram_ok m"
  by (simp add: ram_ok_def)

lemma ram_ok_update [simp]: "a \<notin> {MAIN_ROM, MAIN_DATA} \<Longrightarrow> ram_ok (update_area a f m) = ram_ok m"
  by (simp add: ram_ok_def)

lemma ram_peek_write:
  assumes "ram_ok m" and "ram_cell a" and "ram_cell b"
  shows "ram_peek (update_area WORK_RAM (\<lambda>d. write_le32 d (unat a - 0x500000) v) m) b =
    (if b = a then v else ram_peek m b)"
proof -
  have "\<not> area_null m WORK_RAM"
    using assms(1) machine_ok_device(1) [of m WORK_RAM] by (simp add: ram_ok_def)
  then show ?thesis
    using ram_cells_apart [OF assms(2,3)]
    by (auto simp: ram_peek_def board_simps read_write_le32_disjoint)
qed

interpretation work_ram: word_store ram_ok ram_cell ram_peek vf2_model2a_read_u32 vf2_model2a_write_u32
proof
  fix s :: "'a vf2_model2a" and a b :: u32 and v :: u32
  assume ok: "ram_ok s" and a: "ram_cell a"
  show "fst (vf2_model2a_read_u32 a s) = Inr (ram_peek s a)"
    and "ram_ok (snd (vf2_model2a_read_u32 a s))"
    and "fst (vf2_model2a_write_u32 a v s) = Inr ()"
    and "ram_ok (snd (vf2_model2a_write_u32 a v s))"
    using ok a by (simp_all add: ram_read_u32 ram_write_u32)
  assume b: "ram_cell b"
  show "ram_peek (snd (vf2_model2a_read_u32 a s)) b = ram_peek s b"
    and "ram_peek (snd (vf2_model2a_write_u32 a v s)) b = (if b = a then v else ram_peek s b)"
    using ok a b by (simp_all add: ram_read_u32 ram_write_u32 ram_peek_write)
qed

section \<open>Reading and writing windows\<close>

lemma plain_read_after_write:
  assumes "machine_ok m" and "rom_fits m" and "plain_area a"
    and "hit a address (length bytes)" and "hit a address' (length bytes)" and "bytes \<noteq> []"
    and "unat address' - unat (hit_base a address') = unat address - unat (hit_base a address)"
  shows "fst (pbind (vf2_model2a_write address bytes)
           (\<lambda>_. vf2_model2a_read address' (length bytes)) m) = Inr bytes"
proof -
  let ?off = "unat address - unat (hit_base a address)"
  let ?m = "observe_access MEMORY_WRITE address bytes
              (update_area a (\<lambda>d. write_bytes d ?off bytes) m)"
  have dev: "a \<notin> {MAIN_ROM, MAIN_DATA}" using assms(3) by (auto simp: plain_area_def)
  then have "area_mem ?m a = write_bytes (area_mem m a) ?off bytes"
    using machine_ok_device(1) [OF assms(1), of a] by (simp add: board_simps)
  moreover have "machine_ok ?m" "rom_fits ?m" using dev assms(1,2) by simp_all
  moreover have "0 < length bytes" using assms(6) by simp
  ultimately have "fst (vf2_model2a_read address' (length bytes) ?m) =
      Inr (read_bytes (write_bytes (area_mem m a) ?off bytes) ?off (length bytes))"
    using read_plain [of ?m a address' "length bytes"] assms(3,5,7) by fastforce
  then show ?thesis
    using write_plain [OF assms(1-4,6)] by (simp add: read_write_bytes_same)
qed

lemma colour_view_shadowed:
  assumes "machine_ok m" and "0 < n" and "find_view m address n = Some v"
  shows "view_area v \<noteq> COLOR_TRANSLATION"
proof
  assume col: "view_area v = COLOR_TRANSLATION"
  then have "find_device_view m address n device_order = Some v"
    using assms(3) find_rom_view_Some [of m address n v]
    by (auto simp: find_view_def split: option.splits)
  then obtain a where a: "List.find (\<lambda>a. hit a address n) device_order = Some a"
    and "view_area v = a"
    using find_device_view_find [OF assms(1), of device_order address n]
    by (auto split: option.splits)
  then have c: "List.find (\<lambda>a. hit a address n) device_order = Some COLOR_TRANSLATION"
    using col by simp
  then have "hit COLOR_TRANSLATION address n"
    by (metis find_Some_iff)
  then have "hit PALETTE_RAM address n"
    by (simp add: hit_def range_contains_iff mirrored_def)
  then have "List.find (\<lambda>a. hit a address n) device_order = Some PALETTE_RAM"
    using find_hit [of PALETTE_RAM address n] assms(2) by simp
  with c show False by simp
qed

section \<open>Timers\<close>

text \<open>
  One timer of \<open>vf2_model2a_advance_cycles\<close> on the three register blocks it touches: the timer
  values, the running flags of the video block and the interrupt request and enable words.
\<close>

definition tick :: "u64 \<Rightarrow> nat \<Rightarrow> memory \<times> memory \<times> memory \<Rightarrow> memory \<times> memory \<times> memory" where
  "tick cycles t x = (case x of (T, V, I) \<Rightarrow>
     if V (0x20 + t) = 0 then (T, V, I)
     else if cycles \<ge> ucast (read_le32 T (t * 4)) then
       (write_le32 T (t * 4) VF2_MODEL2A_TIMER_RELOAD, V(0x20 + t := 0),
        if read_le32 I 4 AND push_bit (t + 2) 1 \<noteq> 0
        then write_le32 I 0 (read_le32 I 0 OR push_bit (t + 2) 1) else I)
     else (write_le32 T (t * 4) (read_le32 T (t * 4) - ucast cycles), V, I))"

definition timer_blocks :: "'h vf2_model2a \<Rightarrow> memory \<times> memory \<times> memory" where
  "timer_blocks m = (area_mem m TIMERS, area_mem m VIDEO_CONTROL, area_mem m INTERRUPT_CONTROL)"

definition put_timer_blocks :: "memory \<times> memory \<times> memory \<Rightarrow> 'h vf2_model2a \<Rightarrow> 'h vf2_model2a" where
  "put_timer_blocks x m = (case x of (T, V, I) \<Rightarrow>
     update_area TIMERS (\<lambda>_. T) (update_area VIDEO_CONTROL (\<lambda>_. V)
       (update_area INTERRUPT_CONTROL (\<lambda>_. I) m)))"

lemma update_area_same: "update_area a (\<lambda>_. area_mem m a) m = m"
proof -
  have "r\<lparr>r_data := map_option (\<lambda>_. case r_data r of None \<Rightarrow> (\<lambda>_. 0) | Some d \<Rightarrow> d) (r_data r)\<rparr> = r"
    for r :: region
    by (cases r) (simp split: option.split)
  then show ?thesis by (simp add: update_area_def area_mem_def)
qed

lemma put_get_timer_blocks [simp]:
  assumes "machine_ok m"
  shows "timer_blocks (put_timer_blocks x m) = x" and "put_timer_blocks (timer_blocks m) m = m"
proof -
  have "\<not> area_null m TIMERS" "\<not> area_null m VIDEO_CONTROL" "\<not> area_null m INTERRUPT_CONTROL"
    using machine_ok_device(1) [OF assms] by simp_all
  then show "timer_blocks (put_timer_blocks x m) = x"
    by (cases x) (simp add: timer_blocks_def put_timer_blocks_def board_simps)
  show "put_timer_blocks (timer_blocks m) m = m"
    by (simp add: timer_blocks_def put_timer_blocks_def update_area_same board_simps)
qed

lemma put_put_timer_blocks [simp]: "put_timer_blocks y (put_timer_blocks x m) = put_timer_blocks y m"
proof -
  have c: "update_area a (\<lambda>_. f) (update_area a (\<lambda>_. g) n) = update_area a (\<lambda>_. f) n"
    for a f g and n :: "'a vf2_model2a"
    by (simp add: update_area_compose comp_def)
  have vi: "update_area VIDEO_CONTROL (\<lambda>_. f) (update_area TIMERS (\<lambda>_. g) n) =
      update_area TIMERS (\<lambda>_. g) (update_area VIDEO_CONTROL (\<lambda>_. f) n)"
    "update_area INTERRUPT_CONTROL (\<lambda>_. f) (update_area TIMERS (\<lambda>_. g) n) =
      update_area TIMERS (\<lambda>_. g) (update_area INTERRUPT_CONTROL (\<lambda>_. f) n)"
    "update_area INTERRUPT_CONTROL (\<lambda>_. f) (update_area VIDEO_CONTROL (\<lambda>_. g) n) =
      update_area VIDEO_CONTROL (\<lambda>_. g) (update_area INTERRUPT_CONTROL (\<lambda>_. f) n)"
    for f g and n :: "'a vf2_model2a"
    by (simp_all add: update_area_commute)
  show ?thesis by (cases x; cases y) (simp add: put_timer_blocks_def vi c)
qed

lemma machine_ok_put [simp]: "machine_ok (put_timer_blocks x m) = machine_ok m"
  by (cases x) (simp add: put_timer_blocks_def)

lemma advance_timer_tick:
  assumes "machine_ok m"
  shows "advance_timer cycles t m = put_timer_blocks (tick cycles t (timer_blocks m)) m"
proof -
  have nn: "\<not> area_null m TIMERS" "\<not> area_null m VIDEO_CONTROL" "\<not> area_null m INTERRUPT_CONTROL"
    using machine_ok_device(1) [OF assms] by simp_all
  have vi: "update_area VIDEO_CONTROL f (update_area TIMERS g n) =
      update_area TIMERS g (update_area VIDEO_CONTROL f n)"
    "update_area INTERRUPT_CONTROL f (update_area TIMERS g n) =
      update_area TIMERS g (update_area INTERRUPT_CONTROL f n)"
    "update_area INTERRUPT_CONTROL f (update_area VIDEO_CONTROL g n) =
      update_area VIDEO_CONTROL g (update_area INTERRUPT_CONTROL f n)"
    for f g and n :: "'a vf2_model2a"
    by (simp_all add: update_area_commute)
  have eqI: "update_area TIMERS f (update_area VIDEO_CONTROL g (update_area INTERRUPT_CONTROL h m)) =
      update_area TIMERS (\<lambda>_. T) (update_area VIDEO_CONTROL (\<lambda>_. V) (update_area INTERRUPT_CONTROL (\<lambda>_. I) m))"
    if "f (area_mem m TIMERS) = T" "g (area_mem m VIDEO_CONTROL) = V" "h (area_mem m INTERRUPT_CONTROL) = I"
    for f g h T V I
  proof -
    have "update_area INTERRUPT_CONTROL h m = update_area INTERRUPT_CONTROL (\<lambda>_. I) m" (is "_ = ?m1")
      by (rule update_area_cong) (simp_all add: nn that)
    moreover have "update_area VIDEO_CONTROL g ?m1 = update_area VIDEO_CONTROL (\<lambda>_. V) ?m1" (is "_ = ?m2")
      by (rule update_area_cong) (simp_all add: nn that board_simps)
    moreover have "update_area TIMERS f ?m2 = update_area TIMERS (\<lambda>_. T) ?m2"
      by (rule update_area_cong) (simp_all add: nn that board_simps)
    ultimately show ?thesis by simp
  qed
  have idI: "update_area INTERRUPT_CONTROL id m = m" "update_area VIDEO_CONTROL id n = n" for n :: "'a vf2_model2a"
    by (simp_all add: update_area_def option.map_id)
  show ?thesis
  proof (cases "area_mem m VIDEO_CONTROL (0x20 + t) = 0")
    case True
    then show ?thesis
      using put_get_timer_blocks(2) [OF assms]
      by (simp add: advance_timer_def model2a_timer_running_def tick_def timer_blocks_def Let_def)
  next
    case running: False
    let ?v = "model2a_timer_value m t"
    show ?thesis
    proof (cases "cycles \<ge> ucast ?v")
      case False
      have "advance_timer cycles t m = update_area TIMERS (\<lambda>d. write_le32 d (t * 4) (?v - ucast cycles))
          (update_area VIDEO_CONTROL id (update_area INTERRUPT_CONTROL id m))"
        using running False
        by (simp add: advance_timer_def model2a_timer_running_def model2a_set_timer_value_def Let_def idI)
      also have "\<dots> = put_timer_blocks (write_le32 (area_mem m TIMERS) (t * 4) (?v - ucast cycles),
          area_mem m VIDEO_CONTROL, area_mem m INTERRUPT_CONTROL) m"
        unfolding put_timer_blocks_def prod.case by (rule eqI) simp_all
      also have "\<dots> = put_timer_blocks (tick cycles t (timer_blocks m)) m"
        using running False by (simp add: timer_blocks_def tick_def model2a_timer_value_def)
      finally show ?thesis .
    next
      case True
      let ?en = "read_le32 (area_mem m INTERRUPT_CONTROL) 4 AND push_bit (t + 2) 1 \<noteq> (0 :: u32)"
      let ?ic = "\<lambda>d. if ?en then write_le32 d 0 (read_le32 d 0 OR push_bit (t + 2) 1) else d"
      have "advance_timer cycles t m = update_area TIMERS (\<lambda>d. write_le32 d (t * 4) VF2_MODEL2A_TIMER_RELOAD)
          (update_area VIDEO_CONTROL (\<lambda>d. d(0x20 + t := 0)) (update_area INTERRUPT_CONTROL ?ic m))"
        using running True nn
        by (simp add: advance_timer_def model2a_timer_running_def model2a_set_timer_value_def
            model2a_set_timer_running_def vf2_model2a_raise_interrupt_def Let_def vi board_simps
            idI(1) [unfolded id_def])
      also have "\<dots> = put_timer_blocks
          (write_le32 (area_mem m TIMERS) (t * 4) VF2_MODEL2A_TIMER_RELOAD,
           (area_mem m VIDEO_CONTROL)(0x20 + t := 0), ?ic (area_mem m INTERRUPT_CONTROL)) m"
        unfolding put_timer_blocks_def prod.case by (rule eqI) simp_all
      also have "\<dots> = put_timer_blocks (tick cycles t (timer_blocks m)) m"
        using running True by (simp add: timer_blocks_def tick_def model2a_timer_value_def)
      finally show ?thesis .
    qed
  qed
qed

lemma write_le32_commute:
  assumes "i + 4 \<le> j \<or> j + 4 \<le> i"
  shows "write_le32 (write_le32 d i v) j w = write_le32 (write_le32 d j w) i v"
  using assms by (auto simp: write_le32_def write_bytes_def)

lemma write_le32_twice [simp]: "write_le32 (write_le32 d i v) i w = write_le32 d i w"
  by (simp add: write_le32_def write_bytes_twice)

lemma tick_commute:
  assumes "t \<noteq> u"
  shows "tick a t (tick b u x) = tick b u (tick a t x)"
proof -
  have d: "t * 4 + 4 \<le> u * 4 \<or> u * 4 + 4 \<le> t * 4" using assms by arith
  obtain T V I where x: "x = (T, V, I)" by (cases x)
  have r: "read_le32 (write_le32 T (t * 4) v) (u * 4) = read_le32 T (u * 4)"
    "read_le32 (write_le32 T (u * 4) v) (t * 4) = read_le32 T (t * 4)" for v
    using d by (auto simp: read_write_le32_disjoint)
  have e: "read_le32 (write_le32 I 0 v) 4 = read_le32 I 4" for v
    by (simp add: read_write_le32_disjoint)
  have w: "write_le32 (write_le32 T (t * 4) v) (u * 4) v' = write_le32 (write_le32 T (u * 4) v') (t * 4) v" for v v'
    using d by (rule write_le32_commute)
  show ?thesis
    using assms by (auto simp: tick_def x r e w or.assoc or.commute or.left_commute fun_upd_twist)
qed

lemma tick_add:
  assumes "unat a + unat b < 2 ^ 64"
  shows "tick b t (tick a t x) = tick (a + b) t x"
proof -
  obtain T V I where x: "x = (T, V, I)" by (cases x)
  let ?v = "read_le32 T (t * 4)"
  have s: "unat (a + b) = unat a + unat b" using assms by (rule unat_add_u64)
  show ?thesis
  proof (cases "a \<ge> ucast ?v")
    case True
    then have "a + b \<ge> ucast ?v" by (simp add: word_le_nat_alt s)
    then show ?thesis using True by (simp add: tick_def x)
  next
    case False
    then have lt: "unat a < unat ?v" by (simp add: word_le_nat_alt)
    then have a32: "unat (ucast a :: u32) = unat a"
      using unat_less_u32 [of ?v] by (intro unat_ucast_u32) linarith
    have v': "unat (?v - ucast a) = unat ?v - unat a"
      using lt by (subst unat_sub) (simp_all add: word_le_nat_alt a32)
    have iff: "b \<ge> ucast (?v - ucast a) \<longleftrightarrow> a + b \<ge> ucast ?v"
      using lt by (auto simp: word_le_nat_alt s v')
    have sub: "?v - ucast a - ucast b = ?v - ucast (a + b)"
      by (simp add: ucast_add_u32)
    show ?thesis using False by (simp add: tick_def x iff sub)
  qed
qed

lemma fold_tick_commute:
  "t \<notin> set ts \<Longrightarrow> tick b t (fold (tick a) ts x) = fold (tick a) ts (tick b t x)"
  by (induction ts arbitrary: x) (auto simp: tick_commute)

lemma fold_tick_add:
  assumes "unat a + unat b < 2 ^ 64" and "distinct ts"
  shows "fold (tick b) ts (fold (tick a) ts x) = fold (tick (a + b)) ts x"
  using assms(2)
  by (induction ts arbitrary: x) (simp_all add: fold_tick_commute tick_add [OF assms(1)])

lemma fold_advance_timer:
  assumes "machine_ok m"
  shows "fold (advance_timer cycles) ts m = put_timer_blocks (fold (tick cycles) ts (timer_blocks m)) m"
  using assms
  by (induction ts arbitrary: m) (simp_all add: advance_timer_tick)

lemma advance_cycles_tick:
  assumes "machine_ok m"
  shows "vf2_model2a_advance_cycles cycles m =
    (Inr (), put_timer_blocks (fold (tick cycles) [0..<4] (timer_blocks m)) m)"
  using machine_ok_device(1) [OF assms]
  by (simp add: vf2_model2a_advance_cycles_def fold_advance_timer [OF assms])

section \<open>Properties\<close>

text \<open>C2: the program ROM and the data ROM are immutable, and the board stays well formed: no
  sequence of bus accesses (ROM writes included, and whatever the coprocessor callbacks and the
  observer do), interrupts, timer and frame steps, inputs and resets changes a ROM byte or loses
  a device buffer.\<close>

theorem vf2_model2a_rom_immutable:
  assumes "machine_ok m"
  shows "machine_ok (fold board_op_run ops m) \<and> same_roms m (fold board_op_run ops m)"
  using board_ops_run_inv [OF board_inv_refl [OF assms], of ops] by (simp add: board_inv_def)

lemma machine_ok_fresh: "machine_ok (snd (vf2_model2a_initialize nil (\<lambda>_. True)))"
  by (rule machine_ok_initialize [of nil "\<lambda>_. True"]) (simp add: vf2_model2a_initialize_def)

lemma vf2_model2a_rom_immutable_witness:
  "machine_ok (fold board_op_run [Bus_Write_u32 0 1, Board_Reset, Advance_Cycles 5]
     (snd (vf2_model2a_initialize () (\<lambda>_. True))))"
  using vf2_model2a_rom_immutable [OF machine_ok_fresh [of "()"],
      of "[Bus_Write_u32 0 1, Board_Reset, Advance_Cycles 5]"] by blast

text \<open>C1: ordinary memory of the board is memory: bytes written to a window are read back, also
  through the other name of the byte when the area is a mirrored texture RAM, whatever callbacks
  and observer are installed.\<close>

theorem vf2_model2a_read_after_write:
  assumes "machine_ok m" and "rom_fits m" and "plain_area a"
    and "hit a address (length bytes)" and "hit a address' (length bytes)" and "bytes \<noteq> []"
    and "unat address' - unat (hit_base a address') = unat address - unat (hit_base a address)"
  shows "fst (pbind (vf2_model2a_write address bytes)
           (\<lambda>_. vf2_model2a_read address' (length bytes)) m) = Inr bytes"
  using assms by (rule plain_read_after_write)

lemma rom_fits_fresh: "rom_fits (snd (vf2_model2a_initialize nil (\<lambda>_. True)))"
  by (simp add: rom_fits_def vf2_model2a_initialize_def model2a_set_frame_number_def board_simps
      area_size_def update_area_def null_region_def VF2_MAIN_ROM_SIZE_def)

lemma vf2_model2a_read_after_write_witness:
  "fst (pbind (vf2_model2a_write 0x12000010 [1, 2, 3])
     (\<lambda>_. vf2_model2a_read 0x12200010 (length [1, 2, 3 :: u8]))
     (snd (vf2_model2a_initialize () (\<lambda>_. True)))) = Inr [1, 2, 3]"
  by (rule vf2_model2a_read_after_write [OF machine_ok_fresh rom_fits_fresh, of TEXTURE_RAM0])
    (simp_all add: plain_area_def hit_def hit_base_def range_contains_iff mirrored_def
      VF2_TEXTURE_RAM_MIRROR_def)

text \<open>C30: the colour-translation buffer cannot be reached over the bus: its window lies inside
  the palette window, which is decoded first, so an access there selects another area.\<close>

theorem vf2_model2a_colour_translation_unreachable:
  assumes "machine_ok m" and "0 < n" and "find_view m address n = Some v"
  shows "view_area v \<noteq> COLOR_TRANSLATION"
  using assms by (rule colour_view_shadowed)

lemma vf2_model2a_colour_translation_unreachable_witness:
  "\<exists>v. find_view (snd (vf2_model2a_initialize () (\<lambda>_. True))) (area_base COLOR_TRANSLATION) 4 = Some v \<and>
       view_area v \<noteq> COLOR_TRANSLATION"
proof -
  have "hit PALETTE_RAM (area_base COLOR_TRANSLATION) 4"
    by (simp add: hit_def range_contains_iff)
  from find_view_hit [OF machine_ok_fresh rom_fits_fresh this, of "()"]
  obtain v where v: "find_view (snd (vf2_model2a_initialize () (\<lambda>_. True)))
      (area_base COLOR_TRANSLATION) 4 = Some v" by simp
  then show ?thesis
    using vf2_model2a_colour_translation_unreachable [OF machine_ok_fresh zero_less_numeral v] by blast
qed

text \<open>C29: timers count elapsed cycles only: advancing by \<open>a\<close> and then by \<open>b\<close> cycles leaves the
  whole board, expired timers and raised interrupt lines included, as advancing once by
  \<open>a + b\<close>, as long as the 64-bit sum does not wrap.\<close>

theorem vf2_model2a_advance_cycles_additive:
  assumes "machine_ok m" and "unat a + unat b < 2 ^ 64"
  shows "pbind (vf2_model2a_advance_cycles a) (\<lambda>_. vf2_model2a_advance_cycles b) m =
         vf2_model2a_advance_cycles (a + b) m"
  using assms
  by (simp add: advance_cycles_tick fold_tick_add del: upt_rec_numeral)

lemma vf2_model2a_advance_cycles_additive_witness:
  "pbind (vf2_model2a_advance_cycles 1000) (\<lambda>_. vf2_model2a_advance_cycles 0x100000)
     (snd (vf2_model2a_write_u32 0x00f00004 2000 (snd (vf2_model2a_initialize () (\<lambda>_. True))))) =
   vf2_model2a_advance_cycles (1000 + 0x100000)
     (snd (vf2_model2a_write_u32 0x00f00004 2000 (snd (vf2_model2a_initialize () (\<lambda>_. True)))))"
proof (rule vf2_model2a_advance_cycles_additive)
  show "machine_ok (snd (vf2_model2a_write_u32 0x00f00004 2000
      (snd (vf2_model2a_initialize () (\<lambda>_. True)))))"
    using preservesD [OF preserves_write_u32 board_inv_refl [OF machine_ok_fresh [of "()"]]]
    unfolding board_inv_def by blast
qed simp

end
