(* ===== verification/Vf2_I960_Decoder.thy ===== *)
theory Vf2_I960_Decoder
  imports Vf2_Prelude
begin

text \<open>
  \<open>include/vf2/i960/instruction.h\<close>, \<open>src/i960/instruction.c\<close>, \<open>src/i960/decoder.c\<close> and
  \<open>src/i960/formatter.c\<close>: the decoded form of an i960 instruction, the decoder from a ROM image
  and the assembly text of an instruction. The operand's kind and its union become one
  datatype. \<open>int32_t\<close> values are kept as their 32-bit patterns; the decoder functions fill the
  caller's instruction, so they are programs over it and leave it partly filled on an error.
\<close>

section \<open>Instructions\<close>

datatype vf2_i960_format = FORMAT_INVALID | FORMAT_CTRL | FORMAT_COBR | FORMAT_REG | FORMAT_MEM

datatype vf2_i960_flow = FLOW_NONE | FLOW_BRANCH | FLOW_CALL | FLOW_RETURN | FLOW_FAULT

record vf2_i960_memory_operand =
  has_base :: bool
  has_index :: bool
  ip_relative :: bool
  absolute :: bool
  base :: u8
  index :: u8
  scale :: u8
  displacement :: u32
  resolved_address :: u32

datatype vf2_i960_operand_value =
    OPERAND_NONE
  | OPERAND_REGISTER u8
  | OPERAND_FP_REGISTER u8
  | OPERAND_SPECIAL_REGISTER u8
  | OPERAND_LITERAL u32
  | OPERAND_ADDRESS u32
  | OPERAND_MEMORY vf2_i960_memory_operand

record vf2_i960_operand =
  opvalue :: vf2_i960_operand_value
  is_destination :: bool

record vf2_i960_instruction =
  i_address :: u32
  word0 :: u32
  word1 :: u32
  i_size :: u8
  opcode :: u16
  format :: vf2_i960_format
  flow :: vf2_i960_flow
  mnemonic :: string
  operands :: "nat \<Rightarrow> vf2_i960_operand"
  operand_count :: u8
  valid :: bool
  conditional :: bool
  indirect :: bool
  has_fallthrough :: bool
  has_target :: bool
  target :: u32

section \<open>Opcode tables\<close>

datatype mem_role =
    MEM_ROLE_LOAD | MEM_ROLE_STORE | MEM_ROLE_ADDRESS | MEM_ROLE_BRANCH | MEM_ROLE_CALL
  | MEM_ROLE_CACHE

definition control_names :: "string option list" where
  "control_names = [
   Some ''b'', Some ''call'', Some ''ret'', Some ''bal'', None, None, None, None, Some ''bno'',
   Some ''bg'', Some ''be'', Some ''bge'', Some ''bl'', Some ''bne'', Some ''ble'', Some ''bo'',
   Some ''faultno'', Some ''faultg'', Some ''faulte'', Some ''faultge'', Some ''faultl'',
   Some ''faultne'', Some ''faultle'', Some ''faulto'', None, None, None, None, None, None, None,
   None]"

definition cobr_names :: "string option list" where
  "cobr_names = [
   Some ''testno'', Some ''testg'', Some ''teste'', Some ''testge'', Some ''testl'',
   Some ''testne'', Some ''testle'', Some ''testo'', None, None, None, None, None, None, None,
   None, Some ''bbc'', Some ''cmpobg'', Some ''cmpobe'', Some ''cmpobge'', Some ''cmpobl'',
   Some ''cmpobne'', Some ''cmpoble'', Some ''bbs'', Some ''cmpibno'', Some ''cmpibg'',
   Some ''cmpibe'', Some ''cmpibge'', Some ''cmpibl'', Some ''cmpibne'', Some ''cmpible'',
   Some ''cmpibo'']"

definition memory_opcodes :: "(u8 \<times> string \<times> mem_role) list" where
  "memory_opcodes = [
   (0x80, ''ldob'', MEM_ROLE_LOAD), (0x82, ''stob'', MEM_ROLE_STORE),
   (0x84, ''bx'', MEM_ROLE_BRANCH), (0x85, ''balx'', MEM_ROLE_CALL),
   (0x86, ''callx'', MEM_ROLE_CALL), (0x88, ''ldos'', MEM_ROLE_LOAD),
   (0x8a, ''stos'', MEM_ROLE_STORE), (0x8c, ''lda'', MEM_ROLE_ADDRESS),
   (0x90, ''ld'', MEM_ROLE_LOAD), (0x92, ''st'', MEM_ROLE_STORE), (0x98, ''ldl'', MEM_ROLE_LOAD),
   (0x9a, ''stl'', MEM_ROLE_STORE), (0xa0, ''ldt'', MEM_ROLE_LOAD),
   (0xa2, ''stt'', MEM_ROLE_STORE), (0xad, ''dcinva'', MEM_ROLE_CACHE),
   (0xb0, ''ldq'', MEM_ROLE_LOAD), (0xb2, ''stq'', MEM_ROLE_STORE),
   (0xc0, ''ldib'', MEM_ROLE_LOAD), (0xc2, ''stib'', MEM_ROLE_STORE),
   (0xc8, ''ldis'', MEM_ROLE_LOAD), (0xca, ''stis'', MEM_ROLE_STORE)]"

definition register_opcodes :: "(u16 \<times> string \<times> int) list" where
  "register_opcodes = [
   (0x580, ''notbit'', - 3), (0x581, ''and'', - 3), (0x582, ''andnot'', - 3),
   (0x583, ''setbit'', - 3), (0x584, ''notand'', - 3), (0x586, ''xor'', - 3),
   (0x587, ''or'', - 3), (0x588, ''nor'', - 3), (0x589, ''xnor'', - 3), (0x58a, ''not'', - 2),
   (0x58b, ''ornot'', - 3), (0x58c, ''clrbit'', - 3), (0x58d, ''notor'', - 3),
   (0x58e, ''nand'', - 3), (0x58f, ''alterbit'', - 3), (0x590, ''addo'', - 3),
   (0x591, ''addi'', - 3), (0x592, ''subo'', - 3), (0x593, ''subi'', - 3), (0x594, ''cmpob'', 2),
   (0x595, ''cmpib'', 2), (0x596, ''cmpos'', 2), (0x597, ''cmpis'', 2), (0x598, ''shro'', - 3),
   (0x59a, ''shrdi'', - 3), (0x59b, ''shri'', - 3), (0x59c, ''shlo'', - 3),
   (0x59d, ''rotate'', - 3), (0x59e, ''shli'', - 3), (0x5a0, ''cmpo'', 2), (0x5a1, ''cmpi'', 2),
   (0x5a2, ''concmpo'', 2), (0x5a3, ''concmpi'', 2), (0x5a4, ''cmpinco'', - 3),
   (0x5a5, ''cmpinci'', - 3), (0x5a6, ''cmpdeco'', - 3), (0x5a7, ''cmpdeci'', - 3),
   (0x5ac, ''scanbyte'', 2), (0x5ad, ''bswap'', - 2), (0x5ae, ''chkbit'', 2),
   (0x5b0, ''addc'', - 3), (0x5b2, ''subc'', - 3), (0x5b4, ''intdis'', 0), (0x5b5, ''inten'', 0),
   (0x5cc, ''mov'', - 2), (0x5d8, ''eshro'', - 3), (0x5dc, ''movl'', - 2),
   (0x5ec, ''movt'', - 2), (0x5fc, ''movq'', - 2), (0x600, ''synmov'', 2),
   (0x601, ''synmovl'', 2), (0x602, ''synmovq'', 2), (0x603, ''cmpstr'', 3),
   (0x604, ''movqstr'', - 3), (0x605, ''movstr'', - 3), (0x610, ''atmod'', 33),
   (0x612, ''atadd'', 33), (0x613, ''inspacc'', - 2), (0x614, ''ldphy'', - 2),
   (0x615, ''synld'', - 2), (0x617, ''fill'', 3), (0x630, ''sdma'', 3), (0x631, ''udma'', 0),
   (0x640, ''spanbit'', - 2), (0x641, ''scanbit'', - 2), (0x642, ''daddc'', - 3),
   (0x643, ''dsubc'', - 3), (0x644, ''dmovt'', - 2), (0x645, ''modac'', 3),
   (0x650, ''modify'', 33), (0x651, ''extract'', 33), (0x654, ''modtc'', 33),
   (0x655, ''modpc'', 33), (0x656, ''receive'', - 2), (0x658, ''intctl'', - 2),
   (0x659, ''sysctl'', 33), (0x65b, ''icctl'', 33), (0x65c, ''dcctl'', 33), (0x65d, ''halt'', 0),
   (0x660, ''calls'', 1), (0x662, ''send'', - 3), (0x663, ''sendserv'', 1),
   (0x664, ''resumprcs'', 1), (0x665, ''schedprcs'', 1), (0x666, ''saveprcs'', 0),
   (0x668, ''condwait'', 1), (0x669, ''wait'', 1), (0x66a, ''signal'', 1), (0x66b, ''mark'', 0),
   (0x66c, ''fmark'', 0), (0x66d, ''flushreg'', 0), (0x66f, ''syncf'', 0),
   (0x670, ''emul'', - 3), (0x671, ''ediv'', - 3), (0x674, ''cvtir'', - 20),
   (0x675, ''cvtilr'', - 20), (0x676, ''scalerl'', - 30), (0x677, ''scaler'', - 30),
   (0x680, ''atanr'', - 30), (0x681, ''logepr'', - 30), (0x682, ''logr'', - 30),
   (0x683, ''remr'', - 30), (0x684, ''cmpor'', 20), (0x685, ''cmpr'', 20),
   (0x688, ''sqrtr'', - 20), (0x689, ''expr'', - 20), (0x68a, ''logbnr'', - 20),
   (0x68b, ''roundr'', - 20), (0x68c, ''sinr'', - 20), (0x68d, ''cosr'', - 20),
   (0x68e, ''tanr'', - 20), (0x68f, ''classr'', 10), (0x690, ''atanrl'', - 30),
   (0x691, ''logeprl'', - 30), (0x692, ''logrl'', - 30), (0x693, ''remrl'', - 30),
   (0x694, ''cmporl'', 20), (0x695, ''cmprl'', 20), (0x698, ''sqrtrl'', - 20),
   (0x699, ''exprl'', - 20), (0x69a, ''logbnrl'', - 20), (0x69b, ''roundrl'', - 20),
   (0x69c, ''sinrl'', - 20), (0x69d, ''cosrl'', - 20), (0x69e, ''tanrl'', - 20),
   (0x69f, ''classrl'', 10), (0x6c0, ''cvtri'', - 20), (0x6c1, ''cvtril'', - 20),
   (0x6c2, ''cvtzri'', - 20), (0x6c3, ''cvtzril'', - 20), (0x6c9, ''movr'', - 20),
   (0x6d9, ''movrl'', - 20), (0x6e1, ''movre'', - 20), (0x6e2, ''cpysre'', - 30),
   (0x6e3, ''cpyrsre'', - 30), (0x6e9, ''movre'', - 20), (0x701, ''mulo'', - 3),
   (0x708, ''remo'', - 3), (0x70b, ''divo'', - 3), (0x741, ''muli'', - 3),
   (0x748, ''remi'', - 3), (0x749, ''modi'', - 3), (0x74b, ''divi'', - 3),
   (0x780, ''addono'', - 3), (0x781, ''addino'', - 3), (0x782, ''subono'', - 3),
   (0x783, ''subino'', - 3), (0x784, ''selno'', - 3), (0x78b, ''divr'', - 30),
   (0x78c, ''mulr'', - 30), (0x78d, ''subr'', - 30), (0x78f, ''addr'', - 30),
   (0x790, ''addog'', - 3), (0x791, ''addig'', - 3), (0x792, ''subog'', - 3),
   (0x793, ''subig'', - 3), (0x794, ''selg'', - 3), (0x79b, ''divrl'', - 30),
   (0x79c, ''mulrl'', - 30), (0x79d, ''subrl'', - 30), (0x79f, ''addrl'', - 30),
   (0x7a0, ''addoe'', - 3), (0x7a1, ''addie'', - 3), (0x7a2, ''suboe'', - 3),
   (0x7a3, ''subie'', - 3), (0x7a4, ''sele'', - 3), (0x7b0, ''addoge'', - 3),
   (0x7b1, ''addige'', - 3), (0x7b2, ''suboge'', - 3), (0x7b3, ''subige'', - 3),
   (0x7b4, ''selge'', - 3), (0x7c0, ''addol'', - 3), (0x7c1, ''addil'', - 3),
   (0x7c2, ''subol'', - 3), (0x7c3, ''subil'', - 3), (0x7c4, ''sell'', - 3),
   (0x7d0, ''addone'', - 3), (0x7d1, ''addine'', - 3), (0x7d2, ''subone'', - 3),
   (0x7d3, ''subine'', - 3), (0x7d4, ''selne'', - 3), (0x7e0, ''addole'', - 3),
   (0x7e1, ''addile'', - 3), (0x7e2, ''subole'', - 3), (0x7e3, ''subile'', - 3),
   (0x7e4, ''selle'', - 3), (0x7f0, ''addoo'', - 3), (0x7f1, ''addio'', - 3),
   (0x7f2, ''suboo'', - 3), (0x7f3, ''subio'', - 3), (0x7f4, ''selo'', - 3)]"

section \<open>Decoder\<close>

definition sign_extend :: "u32 \<Rightarrow> nat \<Rightarrow> u32" where
  "sign_extend value bits =
     (let sign = push_bit (bits - 1) 1;
          low = push_bit bits 1 - 1
      in ((value AND low) XOR sign) - sign)"

definition empty_operand :: vf2_i960_operand where
  "empty_operand = \<lparr>opvalue = OPERAND_NONE, is_destination = False\<rparr>"

definition init_instruction :: "u32 \<Rightarrow> u32 \<Rightarrow> vf2_i960_instruction" where
  "init_instruction address word =
     \<lparr>i_address = address, word0 = word, word1 = 0, i_size = 4, opcode = 0,
      format = FORMAT_INVALID, flow = FLOW_NONE, mnemonic = ''.word'',
      operands = (\<lambda>_. empty_operand), operand_count = 0, valid = False, conditional = False,
      indirect = False, has_fallthrough = True, has_target = False, target = 0\<rparr>"

definition make_register :: "u8 \<Rightarrow> bool \<Rightarrow> vf2_i960_operand" where
  "make_register reg destination = \<lparr>opvalue = OPERAND_REGISTER reg, is_destination = destination\<rparr>"

definition make_fp_register :: "u8 \<Rightarrow> bool \<Rightarrow> vf2_i960_operand" where
  "make_fp_register reg destination =
     \<lparr>opvalue = OPERAND_FP_REGISTER reg, is_destination = destination\<rparr>"

definition make_special_register :: "u8 \<Rightarrow> bool \<Rightarrow> vf2_i960_operand" where
  "make_special_register reg destination =
     \<lparr>opvalue = OPERAND_SPECIAL_REGISTER reg, is_destination = destination\<rparr>"

definition make_literal :: "u32 \<Rightarrow> vf2_i960_operand" where
  "make_literal value = \<lparr>opvalue = OPERAND_LITERAL value, is_destination = False\<rparr>"

definition make_address :: "u32 \<Rightarrow> vf2_i960_operand" where
  "make_address address = \<lparr>opvalue = OPERAND_ADDRESS address, is_destination = False\<rparr>"

definition make_memory :: "vf2_i960_memory_operand \<Rightarrow> vf2_i960_operand" where
  "make_memory mo = \<lparr>opvalue = OPERAND_MEMORY mo, is_destination = False\<rparr>"

definition find_register_opcode :: "u16 \<Rightarrow> (string \<times> int) option" where
  "find_register_opcode op = map_of register_opcodes op"

definition find_memory_opcode :: "u8 \<Rightarrow> (string \<times> mem_role) option" where
  "find_memory_opcode op = map_of memory_opcodes op"

definition decode_source :: "u8 \<Rightarrow> bool \<Rightarrow> bool \<Rightarrow> vf2_i960_operand" where
  "decode_source value literal special =
     (if special then make_special_register value False
      else if literal then make_literal (ucast value)
      else make_register value False)"

definition decode_control :: "(vf2_i960_instruction, unit) prog" where
  "decode_control i =
     (let op = ucast (drop_bit 24 (word0 i)) :: u8;
          table_index = unat op - 0x08
      in if op < 0x08 \<or> op > 0x27 \<or> table_index \<ge> 32 then (Inl VF2_ERROR_UNSUPPORTED, i)
         else case control_names ! table_index of
           None \<Rightarrow> (Inl VF2_ERROR_UNSUPPORTED, i)
         | Some name \<Rightarrow>
             let i1 = i\<lparr>format := FORMAT_CTRL, opcode := ucast op, mnemonic := name, valid := True\<rparr>
             in if op = 0x0a then
                  (Inr (), i1\<lparr>flow := FLOW_RETURN, has_fallthrough := False\<rparr>)
                else if op \<ge> 0x18 then
                  (Inr (), i1\<lparr>flow := FLOW_FAULT, conditional := True, has_fallthrough := False\<rparr>)
                else
                  let t = i_address i + sign_extend (word0 i AND 0x00fffffc) 24;
                      i2 = i1\<lparr>target := t, has_target := True,
                              operands := (operands i1)(0 := make_address t), operand_count := 1\<rparr>
                  in (Inr (),
                      if op = 0x09 \<or> op = 0x0b
                      then i2\<lparr>flow := FLOW_CALL, has_fallthrough := True\<rparr>
                      else i2\<lparr>flow := FLOW_BRANCH, conditional := (op \<ge> 0x10),
                              has_fallthrough := (op \<ge> 0x10)\<rparr>))"

definition decode_cobr :: "(vf2_i960_instruction, unit) prog" where
  "decode_cobr i =
     (let word = word0 i;
          op = ucast (drop_bit 24 word) :: u8;
          table_index = unat op - 0x20;
          src1 = ucast (drop_bit 19 word AND 0x1f) :: u8;
          src2 = ucast (drop_bit 14 word AND 0x1f) :: u8;
          m1 = (drop_bit 13 word AND 1 \<noteq> 0);
          s2 = (word AND 1 \<noteq> 0)
      in if op < 0x20 \<or> op > 0x3f \<or> table_index \<ge> 32 then (Inl VF2_ERROR_UNSUPPORTED, i)
         else case cobr_names ! table_index of
           None \<Rightarrow> (Inl VF2_ERROR_UNSUPPORTED, i)
         | Some name \<Rightarrow>
             let i1 = i\<lparr>format := FORMAT_COBR, opcode := ucast op, mnemonic := name, valid := True\<rparr>
             in if op \<le> 0x27 then
                  (Inr (), i1\<lparr>operands := (operands i1)(0 := make_register src1 True),
                              operand_count := 1\<rparr>)
                else
                  let t = i_address i + sign_extend (word AND 0x1ffc) 13
                  in (Inr (), i1\<lparr>operands := (operands i1)
                                   (0 := decode_source src1 m1 False,
                                    1 := decode_source src2 False s2,
                                    2 := make_address t),
                                target := t, operand_count := 3, flow := FLOW_BRANCH,
                                conditional := True, has_target := True,
                                has_fallthrough := True\<rparr>))"

text \<open>The operands of a register instruction, by the table's operand shape (\<open>flags\<close>).\<close>

definition register_operands ::
  "int \<Rightarrow> vf2_i960_operand \<Rightarrow> vf2_i960_operand \<Rightarrow> u8 \<Rightarrow> u8 \<Rightarrow> u8 \<Rightarrow> bool \<Rightarrow> bool \<Rightarrow> bool \<Rightarrow>
   vf2_i960_operand list option" where
  "register_operands flags source1 source2 src1 src2 destination m1 m2 m3 =
     (let general = (if m3 then make_special_register destination True
                     else make_register destination True);
          fp = (\<lambda>m r d. if m then make_fp_register r d else make_register r d)
      in if flags = 0 then Some []
         else if flags = 1 then Some [source1]
         else if flags = - 1 then Some [general]
         else if flags = 2 then Some [source1, source2]
         else if flags = - 2 then Some [source1, general]
         else if flags = 3 then
           Some [source1, source2,
                 if m3 then make_literal (ucast destination) else make_register destination False]
         else if flags = - 3 then Some [source1, source2, general]
         else if flags = 33 then
           (if m3 then None else Some [source1, source2, make_register destination True])
         else if flags = 10 then Some [fp m1 src1 False]
         else if flags = 20 then Some [fp m1 src1 False, fp m2 src2 False]
         else if flags = - 20 then Some [fp m1 src1 False, fp m3 destination True]
         else if flags = - 30 then
           Some [fp m1 src1 False, fp m2 src2 False, fp m3 destination True]
         else None)"

definition set_operands :: "vf2_i960_operand list \<Rightarrow> vf2_i960_instruction \<Rightarrow> vf2_i960_instruction" where
  "set_operands ops i =
     i\<lparr>operands := (\<lambda>k. if k < length ops then ops ! k else operands i k),
       operand_count := of_nat (length ops)\<rparr>"

definition decode_register :: "(vf2_i960_instruction, unit) prog" where
  "decode_register i =
     (let word = word0 i;
          op = ucast (((drop_bit 20 word) AND 0xff0) OR ((drop_bit 7 word) AND 0x0f)) :: u16;
          destination = ucast (drop_bit 19 word AND 0x1f) :: u8;
          src2 = ucast (drop_bit 14 word AND 0x1f) :: u8;
          m3 = (drop_bit 13 word AND 1 \<noteq> 0);
          m2 = (drop_bit 12 word AND 1 \<noteq> 0);
          m1 = (drop_bit 11 word AND 1 \<noteq> 0);
          s2 = (drop_bit 6 word AND 1 \<noteq> 0);
          s1 = (drop_bit 5 word AND 1 \<noteq> 0);
          src1 = ucast (word AND 0x1f) :: u8
      in case find_register_opcode op of
           None \<Rightarrow> (Inl VF2_ERROR_UNSUPPORTED, i)
         | Some (name, flags) \<Rightarrow>
             if s1 \<and> m1 \<or> s2 \<and> m2 then (Inl VF2_ERROR_UNSUPPORTED, i)
             else
               let i1 = i\<lparr>format := FORMAT_REG, opcode := op, mnemonic := name, valid := True\<rparr>
               in case register_operands flags (decode_source src1 m1 s1) (decode_source src2 m2 s2)
                         src1 src2 destination m1 m2 m3 of
                    None \<Rightarrow> (Inl VF2_ERROR_UNSUPPORTED, i1)
                  | Some ops \<Rightarrow>
                      (Inr (), (set_operands ops i1)
                         \<lparr>has_fallthrough := (if op = 0x65d then False else has_fallthrough i1)\<rparr>))"

definition empty_memory_operand :: vf2_i960_memory_operand where
  "empty_memory_operand =
     \<lparr>has_base = False, has_index = False, ip_relative = False, absolute = False, base = 0,
      index = 0, scale = 0, displacement = 0, resolved_address = 0\<rparr>"

text \<open>
  The addressing mode of a memory instruction: the memory operand, with the instruction updated
  when the mode has a displacement word.
\<close>

definition decode_addressing ::
  "memory \<Rightarrow> nat \<Rightarrow> (vf2_i960_instruction, vf2_i960_memory_operand) prog" where
  "decode_addressing img image_size i =
     (let word = word0 i;
          base_reg = ucast (drop_bit 14 word AND 0x1f) :: u8;
          memb = (drop_bit 12 word AND 1 \<noteq> 0)
      in if \<not> memb then
           (let hb = (drop_bit 13 word AND 1 \<noteq> 0);
                disp = word AND 0x0fff
            in (Inr (empty_memory_operand
                  \<lparr>displacement := disp, has_base := hb, base := base_reg, absolute := \<not> hb,
                   resolved_address := (if \<not> hb then disp else 0)\<rparr>), i))
         else
           let mode = ucast (drop_bit 10 word AND 0x0f) :: u8;
               scl = ucast (drop_bit 7 word AND 0x07) :: u8;
               idx = ucast (word AND 0x1f) :: u8;
               mo = empty_memory_operand\<lparr>scale := scl\<rparr>;
               dw = read_le32 img (unat (i_address i) + 4);
               i1 = i\<lparr>word1 := dw, i_size := 8\<rparr>
           in if word AND 0x60 \<noteq> 0 \<or> scl > 4 \<or> mode = 0x06 then (Inl VF2_ERROR_UNSUPPORTED, i)
              else if mode = 0x04 then (Inr (mo\<lparr>has_base := True, base := base_reg\<rparr>), i)
              else if mode = 0x05 then
                (if unat (i_address i) + 8 > image_size then (Inl VF2_ERROR_OUT_OF_BOUNDS, i)
                 else (Inr (mo\<lparr>ip_relative := True, displacement := dw,
                               resolved_address := i_address i + 8 + dw\<rparr>), i1))
              else if mode = 0x07 then
                (Inr (mo\<lparr>has_base := True, has_index := True, base := base_reg, index := idx\<rparr>), i)
              else if mode = 0x0c \<or> mode = 0x0d \<or> mode = 0x0e \<or> mode = 0x0f then
                (if unat (i_address i) + 8 > image_size then (Inl VF2_ERROR_OUT_OF_BOUNDS, i)
                 else (Inr (mo\<lparr>displacement := dw, absolute := (mode = 0x0c),
                               has_base := (mode = 0x0d \<or> mode = 0x0f),
                               has_index := (mode = 0x0e \<or> mode = 0x0f),
                               base := base_reg, index := idx,
                               resolved_address := (if mode = 0x0c then dw else 0)\<rparr>), i1))
              else (Inl VF2_ERROR_UNSUPPORTED, i))"

text \<open>The operand roles and the control flow of a memory instruction.\<close>

definition memory_roles ::
  "u8 \<Rightarrow> mem_role \<Rightarrow> u8 \<Rightarrow> vf2_i960_memory_operand \<Rightarrow> vf2_i960_instruction \<Rightarrow> vf2_i960_instruction"
where
  "memory_roles op role reg mo i =
     (if role = MEM_ROLE_STORE then
        set_operands [make_register reg False, (make_memory mo)\<lparr>is_destination := True\<rparr>] i
      else if role = MEM_ROLE_BRANCH \<or> role = MEM_ROLE_CALL \<or> role = MEM_ROLE_CACHE then
        (if op = 0x85 then set_operands [make_memory mo, make_register reg True] i
         else set_operands [make_memory mo] i)
      else set_operands [make_memory mo, make_register reg True] i)"

definition memory_flow ::
  "mem_role \<Rightarrow> vf2_i960_memory_operand \<Rightarrow> vf2_i960_instruction \<Rightarrow> vf2_i960_instruction" where
  "memory_flow role mo i =
     (if role = MEM_ROLE_BRANCH \<or> role = MEM_ROLE_CALL then
        let direct = (absolute mo \<or> ip_relative mo);
            i1 = i\<lparr>flow := (if role = MEM_ROLE_CALL then FLOW_CALL else FLOW_BRANCH),
                   indirect := \<not> direct,
                   target := (if direct then resolved_address mo else target i),
                   has_target := (if direct then True else has_target i),
                   has_fallthrough := (role = MEM_ROLE_CALL)\<rparr>
        in if role = MEM_ROLE_BRANCH \<and> has_base mo \<and> base mo = 30 \<and> \<not> has_index mo \<and>
              displacement mo = 0 \<and> \<not> absolute mo \<and> \<not> ip_relative mo
           then i1\<lparr>flow := FLOW_RETURN, indirect := False, has_target := False,
                   has_fallthrough := False\<rparr>
           else i1
      else i)"

definition decode_memory :: "memory \<Rightarrow> nat \<Rightarrow> (vf2_i960_instruction, unit) prog" where
  "decode_memory img image_size i =
     (let word = word0 i;
          op = ucast (drop_bit 24 word) :: u8;
          reg = ucast (drop_bit 19 word AND 0x1f) :: u8
      in case find_memory_opcode op of
           None \<Rightarrow> (Inl VF2_ERROR_UNSUPPORTED, i)
         | Some (name, role) \<Rightarrow>
             pbind (decode_addressing img image_size)
               (\<lambda>mo. pmodify (\<lambda>i. memory_flow role mo (memory_roles op role reg mo i)))
               (i\<lparr>format := FORMAT_MEM, opcode := ucast op, mnemonic := name, valid := True\<rparr>))"

definition vf2_i960_decode ::
  "memory option \<Rightarrow> nat \<Rightarrow> u32 \<Rightarrow> (vf2_i960_instruction, unit) prog" where
  "vf2_i960_decode img image_size address i0 =
     (case img of
        None \<Rightarrow> (Inl VF2_ERROR_INVALID_ARGUMENT, i0)
      | Some img \<Rightarrow>
          if address AND 3 \<noteq> 0 \<or> unat address + 4 > image_size
          then (Inl VF2_ERROR_OUT_OF_BOUNDS, i0)
          else
            let word = read_le32 img (unat address);
                op = ucast (drop_bit 24 word) :: u8;
                i = init_instruction address word
            in if op \<ge> 0x20 \<and> op \<le> 0x3f then decode_cobr i
               else if op \<ge> 0x08 \<and> op \<le> 0x1f then decode_control i
               else if op \<ge> 0x58 \<and> op \<le> 0x7f then decode_register i
               else decode_memory img image_size i)"

section \<open>Text\<close>

definition register_names :: "string list" where
  "register_names = [
   ''pfp'', ''sp'', ''rip'', ''r3'', ''r4'', ''r5'', ''r6'', ''r7'', ''r8'', ''r9'', ''r10'',
   ''r11'', ''r12'', ''r13'', ''r14'', ''r15'', ''g0'', ''g1'', ''g2'', ''g3'', ''g4'', ''g5'',
   ''g6'', ''g7'', ''g8'', ''g9'', ''g10'', ''g11'', ''g12'', ''g13'', ''g14'', ''fp'']"

definition fp_register_names :: "string list" where
  "fp_register_names = [
   ''fp0'', ''fp1'', ''fp2'', ''fp3'', ''sf4'', ''sf5'', ''sf6'', ''sf7'', ''sf8'', ''sf9'',
   ''sf10'', ''sf11'', ''sf12'', ''sf13'', ''sf14'', ''sf15'', ''+0.0'', ''sf17'', ''sf18'',
   ''sf19'', ''sf20'', ''sf21'', ''+1.0'', ''sf23'', ''sf24'', ''sf25'', ''sf26'', ''sf27'',
   ''sf28'', ''sf29'', ''sf30'', ''sf31'']"

definition vf2_i960_register_name :: "u8 \<Rightarrow> string" where
  "vf2_i960_register_name reg = register_names ! unat (reg AND 31)"

definition vf2_i960_fp_register_name :: "u8 \<Rightarrow> string" where
  "vf2_i960_fp_register_name reg = fp_register_names ! unat (reg AND 31)"

definition vf2_i960_format_name :: "vf2_i960_format \<Rightarrow> string" where
  "vf2_i960_format_name f =
     (case f of FORMAT_CTRL \<Rightarrow> ''CTRL'' | FORMAT_COBR \<Rightarrow> ''COBR'' | FORMAT_REG \<Rightarrow> ''REG''
      | FORMAT_MEM \<Rightarrow> ''MEM'' | FORMAT_INVALID \<Rightarrow> ''INVALID'')"

definition vf2_i960_flow_name :: "vf2_i960_flow \<Rightarrow> string" where
  "vf2_i960_flow_name f =
     (case f of FLOW_BRANCH \<Rightarrow> ''branch'' | FLOW_CALL \<Rightarrow> ''call'' | FLOW_RETURN \<Rightarrow> ''return''
      | FLOW_FAULT \<Rightarrow> ''fault'' | FLOW_NONE \<Rightarrow> ''none'')"

text \<open>The conversions \<open>%08x\<close> and \<open>%-9s\<close> of \<open>printf\<close>.\<close>

definition hex8 :: "u32 \<Rightarrow> string" where
  "hex8 v = map (\<lambda>k. ''0123456789abcdef'' ! unat (drop_bit (4 * (7 - k)) v AND 0xf)) [0..<8]"

definition pad9 :: "string \<Rightarrow> string" where
  "pad9 s = s @ replicate (9 - length s) (CHR '' '')"

text \<open>
  \<open>append_text\<close> after its conversion: the state is the text in the output buffer, whose length
  is \<open>*position\<close>. \<open>vsnprintf\<close> truncates a text that does not fit with its terminator.
\<close>

definition append_text :: "nat \<Rightarrow> string \<Rightarrow> (string, unit) prog" where
  "append_text output_size text out =
     (if length out \<ge> output_size then (Inl VF2_ERROR_OUT_OF_BOUNDS, out)
      else if length text \<ge> output_size - length out
      then (Inl VF2_ERROR_OUT_OF_BOUNDS, out @ take (output_size - length out - 1) text)
      else (Inr (), out @ text))"

definition format_memory :: "nat \<Rightarrow> vf2_i960_memory_operand \<Rightarrow> (string, unit) prog" where
  "format_memory output_size mo =
     pbind (if ip_relative mo \<or> absolute mo
            then append_text output_size (''0x'' @ hex8 (resolved_address mo))
            else if displacement mo \<noteq> 0
            then append_text output_size (''0x'' @ hex8 (displacement mo))
            else pret ()) (\<lambda>_.
     pbind (if has_base mo
            then append_text output_size (''('' @ vf2_i960_register_name (base mo) @ '')'')
            else pret ()) (\<lambda>_.
     if has_index mo then
       (if scale mo = 0
        then append_text output_size (''['' @ vf2_i960_register_name (index mo) @ '']'')
        else append_text output_size
               (''['' @ vf2_i960_register_name (index mo) @ ''*'' @
                decimal (unat (push_bit (unat (scale mo)) (1 :: u32))) @ '']''))
     else pret ()))"

definition format_operand :: "nat \<Rightarrow> vf2_i960_operand \<Rightarrow> (string, unit) prog" where
  "format_operand output_size operand =
     (case opvalue operand of
        OPERAND_REGISTER r \<Rightarrow> append_text output_size (vf2_i960_register_name r)
      | OPERAND_FP_REGISTER r \<Rightarrow> append_text output_size (vf2_i960_fp_register_name r)
      | OPERAND_SPECIAL_REGISTER r \<Rightarrow> append_text output_size (''sf'' @ decimal (unat r))
      | OPERAND_LITERAL v \<Rightarrow> append_text output_size (signed_decimal v)
      | OPERAND_ADDRESS a \<Rightarrow> append_text output_size (''0x'' @ hex8 a)
      | OPERAND_MEMORY mo \<Rightarrow> format_memory output_size mo
      | OPERAND_NONE \<Rightarrow> pfail VF2_ERROR_UNSUPPORTED)"

definition vf2_i960_format_instruction ::
  "nat \<Rightarrow> vf2_i960_instruction \<Rightarrow> (string, unit) prog" where
  "vf2_i960_format_instruction output_size i out =
     (if output_size = 0 then (Inl VF2_ERROR_INVALID_ARGUMENT, out)
      else if \<not> valid i then append_text output_size (''.word 0x'' @ hex8 (word0 i)) []
      else
        pbind (append_text output_size (pad9 (mnemonic i)))
          (\<lambda>_. pfor [0..<unat (operand_count i)]
             (\<lambda>k. pbind (if k \<noteq> 0 then append_text output_size '', '' else pret ())
                    (\<lambda>_. format_operand output_size (operands i k)))) [])"

end
