(* ===== verification/Vf2_Float32.thy ===== *)
theory Vf2_Float32
  imports Vf2_Prelude
begin

text \<open>
  The C type \<open>float\<close> as the interpreter uses it: IEEE 754 binary32 bit patterns, exact integer
  arithmetic on significand and exponent, and rounding to nearest, ties to even (the rounding
  mode of a C program that never changes it). The bit pattern of a NaN result is not fixed by
  C or IEEE 754, so it is an argument, a function of the operation and its operand bits.
\<close>

datatype f32 = F_NaN | F_Inf bool | F_Fin bool nat int

datatype f32_op = F_ADD | F_SUB | F_MUL | F_DIV

definition f32_of_bits :: "u32 \<Rightarrow> f32" where
  "f32_of_bits b =
     (let s = bit b 31;
          ex = unat (drop_bit 23 b AND 0xff);
          fr = unat (b AND 0x7fffff)
      in if ex = 255 then (if fr = 0 then F_Inf s else F_NaN)
         else if ex = 0 then F_Fin s fr (- 149)
         else F_Fin s (fr + 0x800000) (int ex - 150))"

fun bit_length :: "nat \<Rightarrow> nat" where
  "bit_length n = (if n = 0 then 0 else Suc (bit_length (n div 2)))"

declare bit_length.simps [simp del]

definition sign_bit :: "bool \<Rightarrow> u32" where
  "sign_bit s = (if s then 0x80000000 else 0)"

text \<open>
  The significand of \<open>m * 2 ^ e\<close> at exponent \<open>q\<close>, to nearest and ties to even; \<open>sticky\<close> says
  that a positive amount below the last bit of \<open>m\<close> was dropped before.
\<close>

definition round_significand :: "nat \<Rightarrow> int \<Rightarrow> bool \<Rightarrow> int \<Rightarrow> nat" where
  "round_significand m e sticky q =
     (if q \<le> e then m * 2 ^ nat (e - q)
      else
        let sh = nat (q - e);
            quotient = m div 2 ^ sh;
            rest = m mod 2 ^ sh;
            half = 2 ^ (sh - 1)
        in if rest > half \<or> rest = half \<and> (sticky \<or> odd quotient) then quotient + 1 else quotient)"

definition round_bits :: "bool \<Rightarrow> nat \<Rightarrow> int \<Rightarrow> bool \<Rightarrow> u32" where
  "round_bits s m e sticky =
     (let q = max (e + int (bit_length m) - 24) (- 149);
          packed = nat (q + 149) * 0x800000 + round_significand m e sticky q
      in sign_bit s OR (if packed \<ge> 0x7f800000 then 0x7f800000 else of_nat packed))"

definition f32_inf :: "bool \<Rightarrow> u32" where
  "f32_inf s = sign_bit s OR 0x7f800000"

definition signed_value :: "bool \<Rightarrow> nat \<Rightarrow> int" where
  "signed_value s m = (if s then - int m else int m)"

definition f32_add_fin :: "bool \<Rightarrow> nat \<Rightarrow> int \<Rightarrow> bool \<Rightarrow> nat \<Rightarrow> int \<Rightarrow> u32" where
  "f32_add_fin s m e t n f =
     (let q = min e f;
          x = signed_value s (m * 2 ^ nat (e - q)) + signed_value t (n * 2 ^ nat (f - q))
      in if x = 0 then sign_bit (s \<and> t) else round_bits (x < 0) (nat \<bar>x\<bar>) q False)"

text \<open>\<open>f32_addsub flip nan a b\<close> is \<open>a + b\<close>, or \<open>a - b\<close> when the second sign is flipped.\<close>

definition f32_addsub :: "bool \<Rightarrow> u32 \<Rightarrow> u32 \<Rightarrow> u32 \<Rightarrow> u32" where
  "f32_addsub flip nan_bits a b =
     (case (f32_of_bits a, f32_of_bits b) of
        (F_NaN, _) \<Rightarrow> nan_bits
      | (_, F_NaN) \<Rightarrow> nan_bits
      | (F_Inf s, F_Inf t) \<Rightarrow> if s = (t \<noteq> flip) then f32_inf s else nan_bits
      | (F_Inf s, F_Fin _ _ _) \<Rightarrow> f32_inf s
      | (F_Fin _ _ _, F_Inf t) \<Rightarrow> f32_inf (t \<noteq> flip)
      | (F_Fin s m e, F_Fin t n f) \<Rightarrow> f32_add_fin s m e (t \<noteq> flip) n f)"

definition f32_mul :: "u32 \<Rightarrow> u32 \<Rightarrow> u32 \<Rightarrow> u32" where
  "f32_mul nan_bits a b =
     (case (f32_of_bits a, f32_of_bits b) of
        (F_NaN, _) \<Rightarrow> nan_bits
      | (_, F_NaN) \<Rightarrow> nan_bits
      | (F_Inf s, F_Inf t) \<Rightarrow> f32_inf (s \<noteq> t)
      | (F_Inf s, F_Fin t n f) \<Rightarrow> if n = 0 then nan_bits else f32_inf (s \<noteq> t)
      | (F_Fin s m e, F_Inf t) \<Rightarrow> if m = 0 then nan_bits else f32_inf (s \<noteq> t)
      | (F_Fin s m e, F_Fin t n f) \<Rightarrow> round_bits (s \<noteq> t) (m * n) (e + f) False)"

definition f32_div_fin :: "bool \<Rightarrow> nat \<Rightarrow> int \<Rightarrow> nat \<Rightarrow> int \<Rightarrow> u32" where
  "f32_div_fin s m e n f =
     (let k = 26 + bit_length n;
          scaled = m * 2 ^ k
      in round_bits s (scaled div n) (e - f - int k) (scaled mod n \<noteq> 0))"

definition f32_div :: "u32 \<Rightarrow> u32 \<Rightarrow> u32 \<Rightarrow> u32" where
  "f32_div nan_bits a b =
     (case (f32_of_bits a, f32_of_bits b) of
        (F_NaN, _) \<Rightarrow> nan_bits
      | (_, F_NaN) \<Rightarrow> nan_bits
      | (F_Inf s, F_Inf t) \<Rightarrow> nan_bits
      | (F_Inf s, F_Fin t n f) \<Rightarrow> f32_inf (s \<noteq> t)
      | (F_Fin s m e, F_Inf t) \<Rightarrow> sign_bit (s \<noteq> t)
      | (F_Fin s m e, F_Fin t n f) \<Rightarrow>
          if n = 0 then (if m = 0 then nan_bits else f32_inf (s \<noteq> t))
          else if m = 0 then sign_bit (s \<noteq> t)
          else f32_div_fin (s \<noteq> t) m e n f)"

text \<open>\<open>a < b\<close> on floats: false when either is a NaN, and zeros of both signs are equal.\<close>

definition f32_less :: "u32 \<Rightarrow> u32 \<Rightarrow> bool" where
  "f32_less a b =
     (case (f32_of_bits a, f32_of_bits b) of
        (F_NaN, _) \<Rightarrow> False
      | (_, F_NaN) \<Rightarrow> False
      | (F_Inf s, F_Inf t) \<Rightarrow> s \<and> \<not> t
      | (F_Inf s, F_Fin _ _ _) \<Rightarrow> s
      | (F_Fin _ _ _, F_Inf t) \<Rightarrow> \<not> t
      | (F_Fin s m e, F_Fin t n f) \<Rightarrow>
          let q = min e f
          in signed_value s (m * 2 ^ nat (e - q)) < signed_value t (n * 2 ^ nat (f - q)))"

text \<open>\<open>(float)x\<close> of an integer.\<close>

definition f32_of_int :: "int \<Rightarrow> u32" where
  "f32_of_int x = (if x = 0 then 0 else round_bits (x < 0) (nat \<bar>x\<bar>) 0 False)"

text \<open>
  \<open>floor\<close>, \<open>ceil\<close>, \<open>trunc\<close> and the round-half-even idiom of the interpreter on a finite
  float. The C code computes them on \<open>double\<close>, which represents every float, its floor and
  the distance to it as far as the comparison with one half needs exactly.
\<close>

definition fin_floor :: "bool \<Rightarrow> nat \<Rightarrow> int \<Rightarrow> int" where
  "fin_floor s m e =
     (if 0 \<le> e then signed_value s m * 2 ^ nat e else signed_value s m div 2 ^ nat (- e))"

definition fin_ceil :: "bool \<Rightarrow> nat \<Rightarrow> int \<Rightarrow> int" where
  "fin_ceil s m e = - fin_floor (\<not> s) m e"

definition fin_trunc :: "bool \<Rightarrow> nat \<Rightarrow> int \<Rightarrow> int" where
  "fin_trunc s m e = (if s then fin_ceil s m e else fin_floor s m e)"

definition fin_half_even :: "bool \<Rightarrow> nat \<Rightarrow> int \<Rightarrow> int" where
  "fin_half_even s m e =
     (if 0 \<le> e then fin_floor s m e
      else
        let lower = fin_floor s m e;
            d = 2 ^ nat (- e);
            twice = 2 * (signed_value s m - lower * d)
        in if twice < d then lower
           else if twice > d then lower + 1
           else if even lower then lower else lower + 1)"

section \<open>Packing and unpacking\<close>

lemma bit_length_bounds: "n \<noteq> 0 \<Longrightarrow> 2 ^ (bit_length n - 1) \<le> n \<and> n < 2 ^ bit_length n \<and> 0 < bit_length n"
proof (induction n rule: bit_length.induct)
  case (1 n)
  show ?case
  proof (cases "n div 2 = 0")
    case True
    then have "n = 1" using 1(2) by linarith
    then show ?thesis by (simp add: bit_length.simps)
  next
    case False
    have IH: "2 ^ (bit_length (n div 2) - 1) \<le> n div 2" "n div 2 < 2 ^ bit_length (n div 2)"
      "0 < bit_length (n div 2)"
      using 1(1) [OF 1(2) False] by auto
    obtain k where k: "bit_length (n div 2) = Suc k" using IH(3) gr0_conv_Suc by blast
    have "bit_length n = Suc (Suc k)" using 1(2) k by (simp add: bit_length.simps [of n])
    then show ?thesis using IH(1,2) k by simp linarith
  qed
qed

lemma bit_length_le:
  assumes "n < 2 ^ k" shows "bit_length n \<le> k"
proof (cases "n = 0")
  case False
  then have "2 ^ (bit_length n - 1) < (2 :: nat) ^ k"
    using bit_length_bounds [of n] assms by linarith
  then have "bit_length n - 1 < k" by simp
  then show ?thesis by simp
qed (simp add: bit_length.simps)

lemma bit_length_eq:
  assumes "2 ^ k \<le> n" and "n < 2 ^ Suc k" shows "bit_length n = Suc k"
proof -
  have "n \<noteq> 0" using assms(1) by (metis not_one_le_zero one_le_numeral one_le_power order.trans)
  then have "2 ^ k < (2 :: nat) ^ bit_length n"
    using bit_length_bounds [of n] assms(1) by linarith
  then have "k < bit_length n" by simp
  then show ?thesis using bit_length_le [OF assms(2)] by simp
qed

end
