(* ===== verification/Vf2_I960_Cpu.thy ===== *)
theory Vf2_I960_Cpu
  imports Vf2_I960_Decoder Vf2_Model2a_Laws Vf2_Float32
begin

text \<open>
  The processor of \<open>include/vf2/i960/executor.h\<close> and the parts of \<open>src/i960/executor.c\<close>
  that instructions share: procedure frames, operands, effective addresses and condition codes.
  The fixed arrays of registers and local frames are functions on indices. \<open>'h sys\<close> is the
  processor with the board it runs on, and \<open>sys_nan\<close>, the host's choice of NaN results.
\<close>

section \<open>State\<close>

definition VF2_I960_REGISTER_COUNT :: nat where "VF2_I960_REGISTER_COUNT = 32"
definition VF2_I960_G14_REGISTER :: nat where "VF2_I960_G14_REGISTER = 30"
definition VF2_I960_FP_REGISTER :: nat where "VF2_I960_FP_REGISTER = 31"
definition VF2_I960_LOCAL_REGISTER_COUNT :: nat where "VF2_I960_LOCAL_REGISTER_COUNT = 16"
definition VF2_I960_MAX_LOCAL_FRAMES :: u32 where "VF2_I960_MAX_LOCAL_FRAMES = 128"

lemmas reg_consts [simp] = VF2_I960_REGISTER_COUNT_def VF2_I960_G14_REGISTER_def
  VF2_I960_FP_REGISTER_def VF2_I960_LOCAL_REGISTER_COUNT_def

datatype vf2_i960_compare_result =
    COMPARE_NONE | COMPARE_LESS | COMPARE_EQUAL | COMPARE_GREATER | COMPARE_OVERFLOW

datatype vf2_i960_halt_reason =
    HALT_NONE | HALT_STOP_ADDRESS | HALT_MAX_STEPS | HALT_SELF_BRANCH | HALT_INVALID_INSTRUCTION
  | HALT_UNSUPPORTED_INSTRUCTION | HALT_MEMORY_FAULT

record vf2_i960_cpu =
  registers :: "nat \<Rightarrow> u32"
  sat :: u32
  prcb :: u32
  ip :: u32
  process_control :: u32
  arithmetic_control :: u32
  interrupt_control :: u32
  compare_result :: vf2_i960_compare_result
  executed_instructions :: u64
  interpreted_instructions :: u64
  lifted_instructions :: u64
  procedure_calls :: u64
  procedure_returns :: u64
  interrupt_entries :: u64
  interrupt_returns :: u64
  local_frames :: "nat \<Rightarrow> nat \<Rightarrow> u32"
  local_frame_depth :: u32
  maximum_local_frame_depth :: u32
  reinitialized :: bool

record 'h sys =
  sys_cpu :: vf2_i960_cpu
  sys_machine :: "'h vf2_model2a"
  sys_nan :: "f32_op \<Rightarrow> u32 \<Rightarrow> u32 \<Rightarrow> u32"

definition on_cpu :: "(vf2_i960_cpu, 'a) prog \<Rightarrow> ('h sys, 'a) prog" where
  "on_cpu p s = (case p (sys_cpu s) of (r, c) \<Rightarrow> (r, s\<lparr>sys_cpu := c\<rparr>))"

definition on_bus :: "('h vf2_model2a, 'a) prog \<Rightarrow> ('h sys, 'a) prog" where
  "on_bus p s = (case p (sys_machine s) of (r, m) \<Rightarrow> (r, s\<lparr>sys_machine := m\<rparr>))"

definition cpu_get :: "(vf2_i960_cpu \<Rightarrow> 'a) \<Rightarrow> ('h sys, 'a) prog" where
  "cpu_get f = pget (\<lambda>s. f (sys_cpu s))"

definition cpu_mod :: "(vf2_i960_cpu \<Rightarrow> vf2_i960_cpu) \<Rightarrow> ('h sys, unit) prog" where
  "cpu_mod f = pmodify (\<lambda>s. s\<lparr>sys_cpu := f (sys_cpu s)\<rparr>)"

lemma cpu_get_apply [simp]: "cpu_get f s = (Inr (f (sys_cpu s)), s)"
  by (simp add: cpu_get_def)

lemma cpu_mod_apply [simp]: "cpu_mod f s = (Inr (), s\<lparr>sys_cpu := f (sys_cpu s)\<rparr>)"
  by (simp add: cpu_mod_def)

definition put_register :: "nat \<Rightarrow> u32 \<Rightarrow> vf2_i960_cpu \<Rightarrow> vf2_i960_cpu" where
  "put_register r v c = c\<lparr>registers := (registers c)(r := v)\<rparr>"

section \<open>Procedure frames\<close>

definition align_stack_frame :: "u32 \<Rightarrow> u32" where
  "align_stack_frame stack_pointer = (stack_pointer + 63) AND NOT 63"

definition procedure_call_typed :: "u32 \<Rightarrow> u32 \<Rightarrow> u32 \<Rightarrow> u32 \<Rightarrow> (vf2_i960_cpu, unit) prog" where
  "procedure_call_typed tgt return_address call_type stack_pointer c =
     (if local_frame_depth c \<ge> VF2_I960_MAX_LOCAL_FRAMES then (Inl VF2_ERROR_OUT_OF_BOUNDS, c)
      else
        let regs = (registers c)(2 := return_address);
            frame = (\<lambda>i. if i < VF2_I960_LOCAL_REGISTER_COUNT then regs i
                         else local_frames c (unat (local_frame_depth c)) i);
            old_frame_pointer = regs VF2_I960_FP_REGISTER;
            new_frame_pointer = align_stack_frame stack_pointer;
            zeroed = (\<lambda>i. if i < VF2_I960_LOCAL_REGISTER_COUNT then 0 else regs i);
            depth = local_frame_depth c + 1
        in (Inr (), c\<lparr>
             registers := zeroed
               (0 := (old_frame_pointer AND NOT 7) OR (call_type AND 7),
                1 := new_frame_pointer + 64,
                VF2_I960_FP_REGISTER := new_frame_pointer),
             local_frames := (local_frames c)(unat (local_frame_depth c) := frame),
             ip := tgt,
             local_frame_depth := depth,
             maximum_local_frame_depth := max (maximum_local_frame_depth c) depth,
             procedure_calls := procedure_calls c + 1,
             interrupt_entries := interrupt_entries c + (if call_type AND 7 = 7 then 1 else 0)\<rparr>))"

definition procedure_call :: "u32 \<Rightarrow> u32 \<Rightarrow> (vf2_i960_cpu, unit) prog" where
  "procedure_call tgt return_address c =
     procedure_call_typed tgt return_address 0 (registers c 1) c"

text \<open>The frame pop of \<open>procedure_return\<close>, once the saved controls are at hand.\<close>

definition pop_frame :: "vf2_i960_cpu \<Rightarrow> vf2_i960_cpu" where
  "pop_frame c =
     (let previous_frame_pointer = registers c 0 AND NOT 63;
          depth = local_frame_depth c - 1;
          frame = local_frames c (unat depth);
          regs = (\<lambda>i. if i < VF2_I960_LOCAL_REGISTER_COUNT then frame i else registers c i)
      in c\<lparr>local_frame_depth := depth,
           registers := regs(VF2_I960_FP_REGISTER := previous_frame_pointer),
           ip := regs 2,
           procedure_returns := procedure_returns c + 1\<rparr>)"

definition procedure_return :: "('h sys, unit) prog" where
  "procedure_return =
     pbind (cpu_get id) (\<lambda>c.
     let call_type = registers c 0 AND 7;
         current_frame_pointer = registers c VF2_I960_FP_REGISTER
     in pbind (pcheck (local_frame_depth c \<noteq> 0) VF2_ERROR_UNSUPPORTED) (\<lambda>_.
        pbind (pcheck (call_type = 0 \<or> call_type = 7) VF2_ERROR_UNSUPPORTED) (\<lambda>_.
        if call_type = 7 then
          pbind (on_bus (vf2_model2a_read_u32 (current_frame_pointer - 16))) (\<lambda>saved_process_control.
          pbind (on_bus (vf2_model2a_read_u32 (current_frame_pointer - 12))) (\<lambda>saved_arithmetic_control.
          cpu_mod (\<lambda>c. (pop_frame c)\<lparr>process_control := saved_process_control,
                                     arithmetic_control := saved_arithmetic_control,
                                     interrupt_returns := interrupt_returns c + 1\<rparr>)))
        else cpu_mod pop_frame)))"

section \<open>Operands\<close>

definition register_value :: "vf2_i960_cpu \<Rightarrow> u8 \<Rightarrow> u32" where
  "register_value c reg = (if unat reg < VF2_I960_REGISTER_COUNT then registers c (unat reg) else 0)"

definition set_register :: "vf2_i960_operand \<Rightarrow> u32 \<Rightarrow> (vf2_i960_cpu, unit) prog" where
  "set_register operand value c =
     (case opvalue operand of
        OPERAND_REGISTER r \<Rightarrow>
          if unat r \<ge> VF2_I960_REGISTER_COUNT then (Inl VF2_ERROR_UNSUPPORTED, c)
          else (Inr (), put_register (unat r) value c)
      | _ \<Rightarrow> (Inl VF2_ERROR_UNSUPPORTED, c))"

definition operand_value :: "vf2_i960_operand \<Rightarrow> (vf2_i960_cpu, u32) prog" where
  "operand_value operand c =
     (case opvalue operand of
        OPERAND_REGISTER r \<Rightarrow> (Inr (register_value c r), c)
      | OPERAND_FP_REGISTER r \<Rightarrow> (Inr (register_value c r), c)
      | OPERAND_SPECIAL_REGISTER r \<Rightarrow> (Inr (register_value c r), c)
      | OPERAND_LITERAL v \<Rightarrow> (Inr v, c)
      | OPERAND_ADDRESS a \<Rightarrow> (Inr a, c)
      | _ \<Rightarrow> (Inl VF2_ERROR_UNSUPPORTED, c))"

definition effective_address :: "vf2_i960_cpu \<Rightarrow> vf2_i960_memory_operand \<Rightarrow> u32" where
  "effective_address c mo =
     (let start = (if absolute mo \<or> ip_relative mo then resolved_address mo else displacement mo);
          based = (if has_base mo then start + register_value c (base mo) else start)
      in if has_index mo
         then based + push_bit (unat (scale mo)) (register_value c (index mo)) else based)"

definition memory_operand_address :: "vf2_i960_operand \<Rightarrow> (vf2_i960_cpu, u32) prog" where
  "memory_operand_address operand c =
     (case opvalue operand of
        OPERAND_MEMORY mo \<Rightarrow> (Inr (effective_address c mo), c)
      | _ \<Rightarrow> (Inl VF2_ERROR_UNSUPPORTED, c))"

text \<open>\<open>operand->kind == VF2_I960_OPERAND_REGISTER\<close> with its register.\<close>

definition register_operand :: "vf2_i960_operand \<Rightarrow> nat option" where
  "register_operand operand =
     (case opvalue operand of OPERAND_REGISTER r \<Rightarrow> Some (unat r) | _ \<Rightarrow> None)"

section \<open>Condition codes\<close>

definition condition_bits :: "vf2_i960_compare_result \<Rightarrow> u32" where
  "condition_bits result =
     (case result of COMPARE_LESS \<Rightarrow> 4 | COMPARE_EQUAL \<Rightarrow> 2 | COMPARE_GREATER \<Rightarrow> 1 | _ \<Rightarrow> 0)"

definition set_compare_result :: "vf2_i960_compare_result \<Rightarrow> vf2_i960_cpu \<Rightarrow> vf2_i960_cpu" where
  "set_compare_result result c =
     c\<lparr>compare_result := result,
       arithmetic_control := (arithmetic_control c AND NOT 7) OR condition_bits result\<rparr>"

definition compare_unsigned :: "u32 \<Rightarrow> u32 \<Rightarrow> vf2_i960_cpu \<Rightarrow> vf2_i960_cpu" where
  "compare_unsigned left right c =
     (if left < right then set_compare_result COMPARE_LESS c
      else if left > right then set_compare_result COMPARE_GREATER c
      else set_compare_result COMPARE_EQUAL c)"

definition compare_signed :: "u32 \<Rightarrow> u32 \<Rightarrow> vf2_i960_cpu \<Rightarrow> vf2_i960_cpu" where
  "compare_signed left right c =
     (if sint left < sint right then set_compare_result COMPARE_LESS c
      else if sint left > sint right then set_compare_result COMPARE_GREATER c
      else set_compare_result COMPARE_EQUAL c)"

definition convert_real_to_integer :: "vf2_i960_cpu \<Rightarrow> u32 \<Rightarrow> bool \<Rightarrow> vf2_status + u32" where
  "convert_real_to_integer c bits trunc_mode =
     (case f32_of_bits bits of
        F_Fin s m e \<Rightarrow>
          (let mode = drop_bit 30 (arithmetic_control c) AND 3;
               rounded = (if trunc_mode then fin_trunc s m e
                          else if mode = 0 then fin_half_even s m e
                          else if mode = 1 then fin_floor s m e
                          else if mode = 2 then fin_ceil s m e
                          else fin_trunc s m e)
           in if rounded < - (2 ^ 31) \<or> rounded > 2 ^ 31 - 1 then Inl VF2_ERROR_UNSUPPORTED
              else Inr (word_of_int rounded))
      | _ \<Rightarrow> Inl VF2_ERROR_UNSUPPORTED)"

definition condition_matches :: "string \<Rightarrow> vf2_i960_compare_result \<Rightarrow> bool" where
  "condition_matches mn result =
     (if mn = ''be'' then result = COMPARE_EQUAL
      else if mn = ''bne'' then result \<noteq> COMPARE_EQUAL
      else if mn = ''bl'' then result = COMPARE_LESS
      else if mn = ''ble'' then result = COMPARE_LESS \<or> result = COMPARE_EQUAL
      else if mn = ''bg'' then result = COMPARE_GREATER
      else if mn = ''bge'' then result = COMPARE_GREATER \<or> result = COMPARE_EQUAL
      else if mn = ''bno'' then result \<noteq> COMPARE_OVERFLOW
      else if mn = ''bo'' then result = COMPARE_OVERFLOW
      else False)"

definition test_condition_matches :: "string \<Rightarrow> vf2_i960_compare_result \<Rightarrow> bool" where
  "test_condition_matches mn result =
     (if mn = ''testno'' then condition_matches ''bno'' result
      else if mn = ''testg'' then condition_matches ''bg'' result
      else if mn = ''teste'' then condition_matches ''be'' result
      else if mn = ''testge'' then condition_matches ''bge'' result
      else if mn = ''testl'' then condition_matches ''bl'' result
      else if mn = ''testne'' then condition_matches ''bne'' result
      else if mn = ''testle'' then condition_matches ''ble'' result
      else if mn = ''testo'' then condition_matches ''bo'' result
      else False)"

definition direct_compare_condition :: "string \<Rightarrow> u32 \<Rightarrow> u32 \<Rightarrow> bool" where
  "direct_compare_condition mn left right =
     (if mn = ''bbs'' then right AND push_bit (unat (left AND 31)) 1 \<noteq> 0
      else if mn = ''bbc'' then right AND push_bit (unat (left AND 31)) 1 = 0
      else
        let is_signed = (take 4 mn = ''cmpi'');
            suffix = drop 4 mn
        in if suffix = ''bg'' then (if is_signed then sint left > sint right else left > right)
           else if suffix = ''be'' then left = right
           else if suffix = ''bge'' then (if is_signed then sint left \<ge> sint right else left \<ge> right)
           else if suffix = ''bl'' then (if is_signed then sint left < sint right else left < right)
           else if suffix = ''bne'' then left \<noteq> right
           else if suffix = ''ble'' then (if is_signed then sint left \<le> sint right else left \<le> right)
           else if suffix = ''bno'' then True
           else if suffix = ''bo'' then False
           else False)"

section \<open>Reset and interrupts\<close>

definition zeroed_cpu :: vf2_i960_cpu where
  "zeroed_cpu = \<lparr>registers = (\<lambda>_. 0), sat = 0, prcb = 0, ip = 0, process_control = 0,
     arithmetic_control = 0, interrupt_control = 0, compare_result = COMPARE_NONE,
     executed_instructions = 0, interpreted_instructions = 0, lifted_instructions = 0,
     procedure_calls = 0, procedure_returns = 0, interrupt_entries = 0, interrupt_returns = 0,
     local_frames = (\<lambda>_ _. 0), local_frame_depth = 0, maximum_local_frame_depth = 0,
     reinitialized = False\<rparr>"

definition vf2_i960_cpu_reset :: "u32 \<Rightarrow> u32 \<Rightarrow> u32 \<Rightarrow> vf2_i960_cpu \<Rightarrow> vf2_i960_cpu" where
  "vf2_i960_cpu_reset sat0 prcb0 start_ip c =
     zeroed_cpu\<lparr>sat := sat0, prcb := prcb0, ip := start_ip, compare_result := COMPARE_NONE\<rparr>"

definition vf2_i960_cpu_reset_from_machine :: "u32 \<Rightarrow> u32 \<Rightarrow> u32 \<Rightarrow> ('h sys, unit) prog" where
  "vf2_i960_cpu_reset_from_machine sat0 prcb0 start_ip =
     pbind (cpu_mod (vf2_i960_cpu_reset sat0 prcb0 start_ip)) (\<lambda>_.
     pbind (on_bus (vf2_model2a_read_u32 (prcb0 + 24))) (\<lambda>interrupt_stack.
     cpu_mod (\<lambda>c. put_register 1 (interrupt_stack + 64)
                    (put_register VF2_I960_FP_REGISTER interrupt_stack c))))"

definition vf2_i960_cpu_enter_procedure :: "u32 \<Rightarrow> u32 \<Rightarrow> (vf2_i960_cpu, unit) prog" where
  "vf2_i960_cpu_enter_procedure tgt return_address = procedure_call tgt return_address"

definition vf2_i960_cpu_return_procedure :: "('h sys, unit) prog" where
  "vf2_i960_cpu_return_procedure = procedure_return"

definition vf2_i960_cpu_enter_interrupt :: "u32 \<Rightarrow> u32 \<Rightarrow> ('h sys, unit) prog" where
  "vf2_i960_cpu_enter_interrupt vector level =
     pbind (pcheck (\<not> (vector < 8 \<or> level > 31)) VF2_ERROR_INVALID_ARGUMENT) (\<lambda>_.
     pbind (cpu_get prcb) (\<lambda>prcb0.
     pbind (on_bus (vf2_model2a_read_u32 (prcb0 + 20))) (\<lambda>interrupt_table.
     pbind (on_bus (vf2_model2a_read_u32 (prcb0 + 24))) (\<lambda>interrupt_stack.
     pbind (on_bus (vf2_model2a_read_u32 (interrupt_table + 36 + (vector - 8) * 4))) (\<lambda>handler.
     pbind (pcheck (handler \<noteq> 0) VF2_ERROR_UNSUPPORTED) (\<lambda>_.
     pbind (cpu_get id) (\<lambda>c.
     let stack_pointer = align_stack_frame
           (if process_control c AND 0x2000 \<noteq> 0 then registers c 1 else interrupt_stack) + 64
     in pbind (on_cpu (procedure_call_typed handler (ip c) 7 stack_pointer)) (\<lambda>_.
        pbind (cpu_get (\<lambda>c. registers c VF2_I960_FP_REGISTER)) (\<lambda>fp.
        pbind (on_bus (vf2_model2a_write_u32 (fp - 16) (process_control c))) (\<lambda>_.
        pbind (on_bus (vf2_model2a_write_u32 (fp - 12) (arithmetic_control c))) (\<lambda>_.
        pbind (on_bus (vf2_model2a_write_u32 (fp - 8) (vector - 8))) (\<lambda>_.
        cpu_mod (\<lambda>c. c\<lparr>process_control :=
          (process_control c AND NOT 0x00001f00) OR (push_bit 16 level OR 0x2002)\<rparr>)))))))))))))"

definition vf2_i960_halt_reason_name :: "vf2_i960_halt_reason \<Rightarrow> string" where
  "vf2_i960_halt_reason_name reason =
     (case reason of
        HALT_NONE \<Rightarrow> ''none''
      | HALT_STOP_ADDRESS \<Rightarrow> ''stop address''
      | HALT_MAX_STEPS \<Rightarrow> ''maximum steps''
      | HALT_SELF_BRANCH \<Rightarrow> ''self branch''
      | HALT_INVALID_INSTRUCTION \<Rightarrow> ''invalid instruction''
      | HALT_UNSUPPORTED_INSTRUCTION \<Rightarrow> ''unsupported instruction''
      | HALT_MEMORY_FAULT \<Rightarrow> ''memory fault'')"

end
