(* ===== verification/Vf2_I960_Executor.thy ===== *)
theory Vf2_I960_Executor
  imports Vf2_I960_Cpu "HOL-Library.Signed_Division"
begin

text \<open>
  \<open>src/i960/executor.c\<close>: the interpreter. \<open>execute_instruction\<close> dispatches on the mnemonic in
  the order of the code; every group of mnemonics that shares a branch of the C function is one
  definition here. \<open>vf2_i960_step_legacy\<close> executes one instruction from the program ROM and
  \<open>vf2_i960_run\<close> (theory \<open>Vf2_I960_Run\<close>) drives it. The optional trace event of a step is the
  value the step returns.
\<close>

section \<open>Loads and stores\<close>

definition bus_read_u32 :: "u32 \<Rightarrow> ('h sys, u32) prog" where
  "bus_read_u32 address = on_bus (vf2_model2a_read_u32 address)"

definition bus_write_u32 :: "u32 \<Rightarrow> u32 \<Rightarrow> ('h sys, unit) prog" where
  "bus_write_u32 address value = on_bus (vf2_model2a_write_u32 address value)"

definition bus_read :: "u32 \<Rightarrow> nat \<Rightarrow> ('h sys, u8 list) prog" where
  "bus_read address n = on_bus (vf2_model2a_read address n)"

definition bus_write :: "u32 \<Rightarrow> u8 list \<Rightarrow> ('h sys, unit) prog" where
  "bus_write address bytes = on_bus (vf2_model2a_write address bytes)"

definition load_scalar :: "nat \<Rightarrow> bool \<Rightarrow> u8 list \<Rightarrow> u32" where
  "load_scalar scalar_size sign_ext data =
     (if scalar_size = 1 then (if sign_ext then scast (data ! 0) else ucast (data ! 0))
      else
        let raw = ucast (data ! 0) OR push_bit 8 (ucast (data ! 1)) :: u16
        in if sign_ext then scast raw else ucast raw)"

definition execute_load :: "vf2_i960_instruction \<Rightarrow> nat \<Rightarrow> nat \<Rightarrow> bool \<Rightarrow> ('h sys, unit) prog" where
  "execute_load i word_count scalar_size sign_ext =
     pbind (cpu_get (\<lambda>c. fst (memory_operand_address (operands i 0) c))) (\<lambda>located.
     case (located, register_operand (operands i 1)) of
       (Inr address, Some destination) \<Rightarrow>
         if word_count > 1 then
           pbind (pcheck (destination + word_count \<le> VF2_I960_REGISTER_COUNT) VF2_ERROR_OUT_OF_BOUNDS) (\<lambda>_.
           pfor [0..<word_count] (\<lambda>k.
             pbind (bus_read_u32 (address + of_nat (k * 4))) (\<lambda>v.
             cpu_mod (put_register (destination + k) v))))
         else if scalar_size = 4 then
           pbind (bus_read_u32 address) (\<lambda>v. cpu_mod (put_register destination v))
         else
           pbind (bus_read address scalar_size) (\<lambda>data.
           cpu_mod (put_register destination (load_scalar scalar_size sign_ext data)))
     | _ \<Rightarrow> pfail VF2_ERROR_UNSUPPORTED)"

definition execute_store :: "vf2_i960_instruction \<Rightarrow> nat \<Rightarrow> nat \<Rightarrow> ('h sys, unit) prog" where
  "execute_store i word_count scalar_size =
     pbind (on_cpu (memory_operand_address (operands i 1))) (\<lambda>address.
     case register_operand (operands i 0) of
       None \<Rightarrow> pfail VF2_ERROR_UNSUPPORTED
     | Some source \<Rightarrow>
         if word_count > 1 then
           pbind (pcheck (source + word_count \<le> VF2_I960_REGISTER_COUNT) VF2_ERROR_OUT_OF_BOUNDS) (\<lambda>_.
           pfor [0..<word_count] (\<lambda>k.
             pbind (cpu_get (\<lambda>c. registers c (source + k))) (\<lambda>v.
             bus_write_u32 (address + of_nat (k * 4)) v)))
         else
           pbind (on_cpu (operand_value (operands i 0))) (\<lambda>source_value.
           if scalar_size = 4 then bus_write_u32 address source_value
           else bus_write address
                  (take scalar_size [ucast source_value, ucast (drop_bit 8 source_value)])))"

section \<open>Synchronous moves\<close>

definition iac_message :: "u32 \<Rightarrow> u32 \<Rightarrow> u32 \<Rightarrow> u32 \<Rightarrow> (vf2_i960_cpu, unit) prog" where
  "iac_message p0 p1 p2 p3 c =
     (let kind = drop_bit 24 p0 in
      if kind = 0x80 then (Inl VF2_ERROR_UNSUPPORTED, c)
      else if kind = 0x89 \<or> kind = 0x8f \<or> kind = 0x92 then (Inr (), c)
      else if kind = 0x93 then
        (Inr (), c\<lparr>sat := p1, prcb := p2, ip := p3, reinitialized := True\<rparr>)
      else (Inl VF2_ERROR_UNSUPPORTED, c))"

definition execute_iac :: "u32 \<Rightarrow> ('h sys, unit) prog" where
  "execute_iac packet_address =
     pbind (bus_read_u32 packet_address) (\<lambda>p0.
     pbind (bus_read_u32 (packet_address + 4)) (\<lambda>p1.
     pbind (bus_read_u32 (packet_address + 8)) (\<lambda>p2.
     pbind (bus_read_u32 (packet_address + 12)) (\<lambda>p3.
     on_cpu (iac_message p0 p1 p2 p3)))))"

definition operand :: "vf2_i960_instruction \<Rightarrow> nat \<Rightarrow> ('h sys, u32) prog" where
  "operand i k = on_cpu (operand_value (operands i k))"

definition put_operand :: "vf2_i960_instruction \<Rightarrow> nat \<Rightarrow> u32 \<Rightarrow> ('h sys, unit) prog" where
  "put_operand i k v = on_cpu (set_register (operands i k) v)"

definition execute_synmov :: "vf2_i960_instruction \<Rightarrow> ('h sys, unit) prog" where
  "execute_synmov i =
     pbind (operand i 0) (\<lambda>destination.
     pbind (operand i 1) (\<lambda>source.
     pbind (bus_read_u32 source) (\<lambda>value.
     pbind (cpu_mod (\<lambda>c. c\<lparr>compare_result := COMPARE_EQUAL\<rparr>)) (\<lambda>_.
     if destination = 0xff000004 then cpu_mod (\<lambda>c. c\<lparr>interrupt_control := value\<rparr>)
     else bus_write_u32 destination value))))"

definition execute_synmovq :: "vf2_i960_instruction \<Rightarrow> ('h sys, unit) prog" where
  "execute_synmovq i =
     pbind (operand i 0) (\<lambda>destination.
     pbind (operand i 1) (\<lambda>source.
     pbind (cpu_mod (\<lambda>c. c\<lparr>compare_result := COMPARE_EQUAL\<rparr>)) (\<lambda>_.
     if destination = 0xff000010 then execute_iac source
     else pbind (bus_read source 16) (\<lambda>data. bus_write destination data))))"

section \<open>Register instructions\<close>

definition execute_lda :: "vf2_i960_instruction \<Rightarrow> ('h sys, unit) prog" where
  "execute_lda i =
     pbind (on_cpu (memory_operand_address (operands i 0))) (\<lambda>address. put_operand i 1 address)"

definition execute_mov :: "vf2_i960_instruction \<Rightarrow> ('h sys, unit) prog" where
  "execute_mov i = pbind (operand i 0) (\<lambda>v. put_operand i 1 v)"

definition multi_count :: "string \<Rightarrow> nat" where
  "multi_count mn = (if mn = ''movl'' then 2 else if mn = ''movt'' then 3 else 4)"

definition copy_registers :: "nat \<Rightarrow> nat \<Rightarrow> nat \<Rightarrow> vf2_i960_cpu \<Rightarrow> vf2_i960_cpu" where
  "copy_registers source destination count c =
     fold (\<lambda>k c. put_register (destination + k) (registers c (source + k)) c) [0..<count] c"

definition execute_multi_move :: "vf2_i960_instruction \<Rightarrow> nat \<Rightarrow> ('h sys, unit) prog" where
  "execute_multi_move i count =
     (case (register_operand (operands i 0), register_operand (operands i 1)) of
        (Some source, Some destination) \<Rightarrow>
          pbind (pcheck (source + count \<le> VF2_I960_REGISTER_COUNT \<and>
                         destination + count \<le> VF2_I960_REGISTER_COUNT) VF2_ERROR_OUT_OF_BOUNDS)
            (\<lambda>_. cpu_mod (copy_registers source destination count))
      | _ \<Rightarrow> pfail VF2_ERROR_UNSUPPORTED)"

text \<open>The two-operand integer functions: \<open>first\<close> is \<open>src1\<close> and \<open>second\<close> is \<open>src2\<close>.\<close>

definition shrdi :: "u32 \<Rightarrow> u32 \<Rightarrow> u32" where
  "shrdi first second =
     (if first \<ge> 32 then 0
      else if first = 0 \<or> sint second \<ge> 0 then signed_drop_bit (unat first) second
      else
        let bias = push_bit (unat first) 1 - 1
        in signed_drop_bit (unat first) (second + bias))"

definition alu_result :: "string \<Rightarrow> u32 \<Rightarrow> u32 \<Rightarrow> u32" where
  "alu_result mn first second =
     (if mn = ''addo'' \<or> mn = ''addi'' then second + first
      else if mn = ''subo'' \<or> mn = ''subi'' then second - first
      else if mn = ''and'' then second AND first
      else if mn = ''andnot'' then second AND NOT first
      else if mn = ''notand'' then NOT second AND first
      else if mn = ''or'' then second OR first
      else if mn = ''ornot'' then second OR NOT first
      else if mn = ''notor'' then NOT second OR first
      else if mn = ''xor'' then second XOR first
      else if mn = ''xnor'' then NOT (second XOR first)
      else if mn = ''nor'' then NOT second AND NOT first
      else if mn = ''nand'' then NOT second OR NOT first
      else if mn = ''shlo'' \<or> mn = ''shli'' then
        (if first \<ge> 32 then 0 else push_bit (unat first) second)
      else if mn = ''shro'' then (if first \<ge> 32 then 0 else drop_bit (unat first) second)
      else if mn = ''shri'' then
        (if first \<ge> 32 then (if sint second < 0 then - 1 else 0)
         else signed_drop_bit (unat first) second)
      else if mn = ''rotate'' then
        (let count = unat (first AND 31)
         in if count = 0 then second
            else push_bit count second OR drop_bit (32 - count) second)
      else shrdi first second)"

definition alu_mnemonics :: "string list" where
  "alu_mnemonics = [''addo'', ''addi'', ''subo'', ''subi'', ''and'', ''andnot'', ''notand'', ''or'',
     ''ornot'', ''notor'', ''xor'', ''xnor'', ''nor'', ''nand'', ''shlo'', ''shli'', ''shro'',
     ''shri'', ''rotate'', ''shrdi'']"

definition execute_alu :: "vf2_i960_instruction \<Rightarrow> ('h sys, unit) prog" where
  "execute_alu i =
     pbind (operand i 0) (\<lambda>first.
     pbind (operand i 1) (\<lambda>second.
     put_operand i 2 (alu_result (mnemonic i) first second)))"

definition bit_result :: "string \<Rightarrow> u32 \<Rightarrow> u32 \<Rightarrow> u32 \<Rightarrow> u32" where
  "bit_result mn ac first second =
     (let selected = push_bit (unat (first AND 31)) 1 in
      if mn = ''clrbit'' then second AND NOT selected
      else if mn = ''setbit'' then second OR selected
      else if mn = ''alterbit'' then
        (if ac AND 2 \<noteq> 0 then second OR selected else second AND NOT selected)
      else second XOR selected)"

definition execute_bit :: "vf2_i960_instruction \<Rightarrow> ('h sys, unit) prog" where
  "execute_bit i =
     pbind (operand i 0) (\<lambda>first.
     pbind (operand i 1) (\<lambda>second.
     pbind (cpu_get arithmetic_control) (\<lambda>ac.
     put_operand i 2 (bit_result (mnemonic i) ac first second))))"

text \<open>\<open>addc\<close> and \<open>subc\<close>: the result word and the new arithmetic controls.\<close>

definition addc_result :: "u32 \<Rightarrow> u32 \<Rightarrow> u32 \<Rightarrow> u32 \<times> u32" where
  "addc_result ac first second =
     (let carry_in = drop_bit 1 ac AND 1;
          wide = ucast second + ucast first + ucast carry_in :: u64;
          result = ucast wide;
          cleared = ac AND NOT 3;
          carried = (if drop_bit 32 wide \<noteq> 0 then cleared OR 2 else cleared)
      in (result,
          if (result XOR first) AND (result XOR second) AND 0x80000000 \<noteq> 0
          then carried OR 1 else carried))"

definition subc_result :: "u32 \<Rightarrow> u32 \<Rightarrow> u32 \<Rightarrow> u32 \<times> u32" where
  "subc_result ac first second =
     (let carry_in = drop_bit 1 ac AND 1;
          wide = ucast second - (ucast first + ucast carry_in) :: u64;
          result = ucast wide;
          cleared = ac AND NOT 3;
          carried = (if drop_bit 32 wide \<noteq> 0 then cleared OR 2 else cleared)
      in (result,
          if (second XOR first) AND (second XOR result) AND 0x80000000 \<noteq> 0
          then carried OR 1 else carried))"

definition execute_carry :: "vf2_i960_instruction \<Rightarrow> ('h sys, unit) prog" where
  "execute_carry i =
     pbind (operand i 0) (\<lambda>first.
     pbind (operand i 1) (\<lambda>second.
     pbind (cpu_get arithmetic_control) (\<lambda>ac.
     let (result, ac') = (if mnemonic i = ''addc'' then addc_result ac first second
                          else subc_result ac first second)
     in pbind (cpu_mod (\<lambda>c. c\<lparr>arithmetic_control := ac'\<rparr>)) (\<lambda>_. put_operand i 2 result))))"

definition real_result :: "(f32_op \<Rightarrow> u32 \<Rightarrow> u32 \<Rightarrow> u32) \<Rightarrow> string \<Rightarrow> u32 \<Rightarrow> u32 \<Rightarrow> u32" where
  "real_result nan mn left right =
     (if mn = ''addr'' then f32_addsub False (nan F_ADD right left) right left
      else if mn = ''subr'' then f32_addsub True (nan F_SUB right left) right left
      else if mn = ''mulr'' then f32_mul (nan F_MUL right left) right left
      else f32_div (nan F_DIV right left) right left)"

definition execute_real :: "vf2_i960_instruction \<Rightarrow> ('h sys, unit) prog" where
  "execute_real i =
     pbind (operand i 0) (\<lambda>left.
     pbind (operand i 1) (\<lambda>right.
     pbind (pget sys_nan) (\<lambda>nan.
     put_operand i 2 (real_result nan (mnemonic i) left right))))"

definition compare_real :: "u32 \<Rightarrow> u32 \<Rightarrow> vf2_i960_cpu \<Rightarrow> vf2_i960_cpu" where
  "compare_real left right =
     (if f32_less left right then set_compare_result COMPARE_LESS
      else if f32_less right left then set_compare_result COMPARE_GREATER
      else set_compare_result COMPARE_EQUAL)"

definition execute_cmpr :: "vf2_i960_instruction \<Rightarrow> ('h sys, unit) prog" where
  "execute_cmpr i =
     pbind (operand i 0) (\<lambda>left.
     pbind (operand i 1) (\<lambda>right. cpu_mod (compare_real left right)))"

definition execute_mul :: "vf2_i960_instruction \<Rightarrow> ('h sys, unit) prog" where
  "execute_mul i =
     pbind (operand i 0) (\<lambda>first.
     pbind (operand i 1) (\<lambda>second.
     pbind (if mnemonic i = ''mulo'' \<and> ucast first * ucast second > (0xffffffff :: u64)
            then cpu_mod (\<lambda>c. c\<lparr>compare_result := COMPARE_OVERFLOW\<rparr>) else pret ()) (\<lambda>_.
     put_operand i 2 (first * second))))"

definition execute_ediv :: "vf2_i960_instruction \<Rightarrow> ('h sys, unit) prog" where
  "execute_ediv i =
     pbind (operand i 0) (\<lambda>divisor.
     case (register_operand (operands i 1), register_operand (operands i 2)) of
       (Some source, Some destination) \<Rightarrow>
         pbind (pcheck (divisor \<noteq> 0) VF2_ERROR_UNSUPPORTED) (\<lambda>_.
         pbind (pcheck (source + 1 < VF2_I960_REGISTER_COUNT \<and>
                        destination + 1 < VF2_I960_REGISTER_COUNT) VF2_ERROR_UNSUPPORTED) (\<lambda>_.
         pbind (cpu_get registers) (\<lambda>regs.
         let dividend = push_bit 32 (ucast (regs (source + 1))) OR ucast (regs source) :: u64;
             quotient = dividend div ucast divisor;
             remainder = dividend mod ucast divisor
         in pbind (pcheck (quotient \<le> 0xffffffff) VF2_ERROR_UNSUPPORTED) (\<lambda>_.
            cpu_mod (\<lambda>c. put_register (destination + 1) (ucast quotient)
                           (put_register destination (ucast remainder) c))))))
     | _ \<Rightarrow> pfail VF2_ERROR_UNSUPPORTED)"

definition divide_result :: "string \<Rightarrow> u32 \<Rightarrow> u32 \<Rightarrow> u32" where
  "divide_result mn first second =
     (if mn = ''divo'' then second div first
      else if mn = ''remo'' then second mod first
      else
        let divisor = sint first;
            dividend = sint second
        in if dividend = - (2 ^ 31) \<and> divisor = - 1
           then (if mn = ''divi'' then word_of_int (- (2 ^ 31)) else 0)
           else if mn = ''divi'' then word_of_int (dividend sdiv divisor)
           else
             let result = dividend smod divisor
             in word_of_int (if mn = ''modi'' \<and> result \<noteq> 0 \<and> (result < 0) \<noteq> (divisor < 0)
                             then result + divisor else result))"

definition execute_divide :: "vf2_i960_instruction \<Rightarrow> ('h sys, unit) prog" where
  "execute_divide i =
     pbind (operand i 0) (\<lambda>first.
     pbind (operand i 1) (\<lambda>second.
     pbind (pcheck (first \<noteq> 0) VF2_ERROR_UNSUPPORTED) (\<lambda>_.
     put_operand i 2 (divide_result (mnemonic i) first second))))"

definition execute_not :: "vf2_i960_instruction \<Rightarrow> ('h sys, unit) prog" where
  "execute_not i = pbind (operand i 0) (\<lambda>first. put_operand i 1 (NOT first))"

definition execute_chkbit :: "vf2_i960_instruction \<Rightarrow> ('h sys, unit) prog" where
  "execute_chkbit i =
     pbind (operand i 0) (\<lambda>first.
     pbind (operand i 1) (\<lambda>second.
     cpu_mod (set_compare_result
       (if second AND push_bit (unat (first AND 31)) 1 \<noteq> 0 then COMPARE_EQUAL else COMPARE_NONE))))"

text \<open>The loop from bit 31 down to bit 0: the first selected bit.\<close>

definition scan_bit :: "bool \<Rightarrow> u32 \<Rightarrow> nat option" where
  "scan_bit set_wanted first =
     List.find (\<lambda>b. (first AND push_bit b 1 \<noteq> 0) = set_wanted) (rev [0..<32])"

definition execute_scan :: "vf2_i960_instruction \<Rightarrow> ('h sys, unit) prog" where
  "execute_scan i =
     pbind (operand i 0) (\<lambda>first.
     let found = scan_bit (mnemonic i = ''scanbit'') first
     in pbind (cpu_mod (\<lambda>c. c\<lparr>compare_result :=
                 (if found \<noteq> None then COMPARE_OVERFLOW else COMPARE_NONE)\<rparr>)) (\<lambda>_.
        put_operand i 1 (case found of None \<Rightarrow> 31 | Some b \<Rightarrow> of_nat b)))"

definition execute_compare :: "vf2_i960_instruction \<Rightarrow> ('h sys, unit) prog" where
  "execute_compare i =
     pbind (operand i 0) (\<lambda>first.
     pbind (operand i 1) (\<lambda>second.
     cpu_mod (if mnemonic i = ''cmpo'' then compare_unsigned first second
              else compare_signed first second)))"

definition execute_concompare :: "vf2_i960_instruction \<Rightarrow> ('h sys, unit) prog" where
  "execute_concompare i =
     pbind (cpu_get arithmetic_control) (\<lambda>ac.
     if ac AND 2 \<noteq> 0 then pret ()
     else
       pbind (operand i 0) (\<lambda>first.
       pbind (operand i 1) (\<lambda>second.
       cpu_mod (if mnemonic i = ''concmpo'' then compare_unsigned first second
                else compare_signed first second))))"

definition execute_cvtri :: "vf2_i960_instruction \<Rightarrow> ('h sys, unit) prog" where
  "execute_cvtri i =
     pbind (operand i 0) (\<lambda>first.
     pbind (cpu_get (\<lambda>c. convert_real_to_integer c first (mnemonic i = ''cvtzri''))) (\<lambda>converted.
     case converted of
       Inl status \<Rightarrow> pfail status
     | Inr v \<Rightarrow> put_operand i 1 v))"

definition execute_cvtir :: "vf2_i960_instruction \<Rightarrow> ('h sys, unit) prog" where
  "execute_cvtir i = pbind (operand i 0) (\<lambda>first. put_operand i 1 (f32_of_int (sint first)))"

definition execute_cvtilr :: "vf2_i960_instruction \<Rightarrow> ('h sys, unit) prog" where
  "execute_cvtilr i =
     (case register_operand (operands i 0) of
        None \<Rightarrow> pfail VF2_ERROR_UNSUPPORTED
      | Some source \<Rightarrow>
          pbind (pcheck (source + 1 < VF2_I960_REGISTER_COUNT) VF2_ERROR_UNSUPPORTED) (\<lambda>_.
          pbind (cpu_get registers) (\<lambda>regs.
          let raw = ucast (regs source) OR push_bit 32 (ucast (regs (source + 1))) :: u64
          in put_operand i 1 (f32_of_int (sint raw)))))"

definition execute_compare_step :: "vf2_i960_instruction \<Rightarrow> ('h sys, unit) prog" where
  "execute_compare_step i =
     pbind (operand i 0) (\<lambda>first.
     pbind (operand i 1) (\<lambda>second.
     pbind (cpu_mod (if mnemonic i = ''cmpdeci'' \<or> mnemonic i = ''cmpinci''
                     then compare_signed first second else compare_unsigned first second)) (\<lambda>_.
     put_operand i 2 (if take 6 (mnemonic i) = ''cmpdec'' then second - 1 else second + 1))))"

section \<open>Control flow\<close>

definition execute_test :: "vf2_i960_instruction \<Rightarrow> ('h sys, unit) prog" where
  "execute_test i =
     pbind (cpu_get compare_result) (\<lambda>result.
     put_operand i 0 (if test_condition_matches (mnemonic i) result then 0xffffffff else 0))"

definition jump_if :: "bool \<Rightarrow> vf2_i960_instruction \<Rightarrow> ('h sys, unit) prog" where
  "jump_if taken i = cpu_mod (\<lambda>c. if taken then c\<lparr>ip := target i\<rparr> else c)"

definition execute_control_branch :: "vf2_i960_instruction \<Rightarrow> ('h sys, unit) prog" where
  "execute_control_branch i =
     pbind (cpu_get compare_result) (\<lambda>result. jump_if (condition_matches (mnemonic i) result) i)"

definition cobr_compare :: "bool \<Rightarrow> u32 \<Rightarrow> u32 \<Rightarrow> vf2_i960_cpu \<Rightarrow> vf2_i960_cpu" where
  "cobr_compare is_signed first second c =
     (let (result, bits) =
            (if first = second then (COMPARE_EQUAL, 2)
             else if (if is_signed then sint first < sint second else first < second)
             then (COMPARE_LESS, 4)
             else (COMPARE_GREATER, 1))
      in c\<lparr>compare_result := result,
           arithmetic_control := (arithmetic_control c AND NOT 7) OR bits\<rparr>)"

definition execute_cobr :: "vf2_i960_instruction \<Rightarrow> ('h sys, unit) prog" where
  "execute_cobr i =
     pbind (operand i 0) (\<lambda>first.
     pbind (operand i 1) (\<lambda>second.
     pbind (if take 4 (mnemonic i) = ''cmpo'' \<or> take 4 (mnemonic i) = ''cmpi''
            then cpu_mod (cobr_compare (take 4 (mnemonic i) = ''cmpi'') first second)
            else pret ()) (\<lambda>_.
     jump_if (direct_compare_condition (mnemonic i) first second) i)))"

definition execute_indirect :: "vf2_i960_instruction \<Rightarrow> u32 \<Rightarrow> ('h sys, unit) prog" where
  "execute_indirect i next_ip =
     pbind (on_cpu (memory_operand_address (operands i 0))) (\<lambda>address.
     if mnemonic i = ''callx'' then on_cpu (procedure_call address next_ip)
     else
       pbind (if mnemonic i = ''balx''
              then pbind (pcheck (\<not> operand_count i < 2) VF2_ERROR_UNSUPPORTED)
                     (\<lambda>_. put_operand i 1 next_ip)
              else pret ()) (\<lambda>_.
       cpu_mod (\<lambda>c. c\<lparr>ip := address\<rparr>)))"

definition execute_modify_control :: "vf2_i960_instruction \<Rightarrow> ('h sys, unit) prog" where
  "execute_modify_control i =
     pbind (operand i 0) (\<lambda>first.
     pbind (operand i 1) (\<lambda>second.
     pbind (cpu_get (\<lambda>c. if mnemonic i = ''modpc'' then process_control c
                         else arithmetic_control c)) (\<lambda>old_value.
     let new_value = (old_value AND NOT first) OR (second AND first)
     in pbind (put_operand i 2 old_value) (\<lambda>_.
        cpu_mod (\<lambda>c. if mnemonic i = ''modpc'' then c\<lparr>process_control := new_value\<rparr>
                     else c\<lparr>arithmetic_control := new_value\<rparr>)))))"

section \<open>The dispatcher\<close>

definition execute_instruction :: "vf2_i960_instruction \<Rightarrow> u32 \<Rightarrow> ('h sys, unit) prog" where
  "execute_instruction i next_ip =
     (let mn = mnemonic i in
      if mn = ''lda'' then execute_lda i
      else if mn = ''ld'' then execute_load i 1 4 False
      else if mn = ''ldob'' then execute_load i 1 1 False
      else if mn = ''ldib'' then execute_load i 1 1 True
      else if mn = ''ldos'' then execute_load i 1 2 False
      else if mn = ''ldis'' then execute_load i 1 2 True
      else if mn = ''ldl'' then execute_load i 2 4 False
      else if mn = ''ldt'' then execute_load i 3 4 False
      else if mn = ''ldq'' then execute_load i 4 4 False
      else if mn = ''st'' then execute_store i 1 4
      else if mn \<in> set [''stob'', ''stib''] then execute_store i 1 1
      else if mn \<in> set [''stos'', ''stis''] then execute_store i 1 2
      else if mn = ''stl'' then execute_store i 2 4
      else if mn = ''stt'' then execute_store i 3 4
      else if mn = ''stq'' then execute_store i 4 4
      else if mn = ''mov'' then execute_mov i
      else if mn \<in> set [''movl'', ''movt'', ''movq''] then execute_multi_move i (multi_count mn)
      else if mn = ''dmovt'' then execute_multi_move i 2
      else if mn \<in> set alu_mnemonics then execute_alu i
      else if mn \<in> set [''clrbit'', ''setbit'', ''alterbit'', ''notbit''] then execute_bit i
      else if mn \<in> set [''addc'', ''subc''] then execute_carry i
      else if mn \<in> set [''addr'', ''subr'', ''mulr'', ''divr''] then execute_real i
      else if mn \<in> set [''cmpr'', ''cmpor''] then execute_cmpr i
      else if mn \<in> set [''mulo'', ''muli''] then execute_mul i
      else if mn = ''ediv'' then execute_ediv i
      else if mn \<in> set [''divo'', ''divi'', ''remo'', ''remi'', ''modi''] then execute_divide i
      else if mn = ''not'' then execute_not i
      else if mn = ''chkbit'' then execute_chkbit i
      else if mn \<in> set [''scanbit'', ''spanbit''] then execute_scan i
      else if mn \<in> set [''cmpo'', ''cmpi''] then execute_compare i
      else if mn \<in> set [''concmpo'', ''concmpi''] then execute_concompare i
      else if mn \<in> set [''cvtri'', ''cvtzri''] then execute_cvtri i
      else if mn = ''cvtir'' then execute_cvtir i
      else if mn = ''cvtilr'' then execute_cvtilr i
      else if mn \<in> set [''cmpdeco'', ''cmpdeci'', ''cmpinco'', ''cmpinci''] then execute_compare_step i
      else if mn = ''b'' then jump_if True i
      else if format i = FORMAT_COBR \<and> operand_count i = 1 \<and> take 4 mn = ''test'' then execute_test i
      else if flow i = FLOW_BRANCH \<and> conditional i \<and> format i = FORMAT_CTRL
      then execute_control_branch i
      else if flow i = FLOW_BRANCH \<and> conditional i \<and> format i = FORMAT_COBR \<and> operand_count i \<ge> 2
      then execute_cobr i
      else if mn = ''bal'' then
        cpu_mod (\<lambda>c. (put_register VF2_I960_G14_REGISTER next_ip c)\<lparr>ip := target i\<rparr>)
      else if mn = ''call'' then on_cpu (procedure_call (target i) next_ip)
      else if mn \<in> set [''bx'', ''balx'', ''callx''] then execute_indirect i next_ip
      else if mn \<in> set [''modpc'', ''modac''] then execute_modify_control i
      else if mn = ''synmov'' then execute_synmov i
      else if mn = ''synmovq'' then execute_synmovq i
      else if mn = ''ret'' then procedure_return
      else pfail VF2_ERROR_UNSUPPORTED)"

section \<open>One step\<close>

record vf2_i960_trace_event =
  event_step :: u64
  ip_before :: u32
  ip_after :: u32
  event_instruction :: vf2_i960_instruction

definition retire :: "vf2_i960_cpu \<Rightarrow> vf2_i960_cpu" where
  "retire c = c\<lparr>executed_instructions := executed_instructions c + 1,
                interpreted_instructions := interpreted_instructions c + 1\<rparr>"

definition trace_event :: "u32 \<Rightarrow> vf2_i960_instruction \<Rightarrow> vf2_i960_cpu \<Rightarrow> vf2_i960_trace_event" where
  "trace_event before i c =
     \<lparr>event_step = executed_instructions c, ip_before = before, ip_after = ip c,
      event_instruction = i\<rparr>"

definition fetch :: "('h sys, vf2_i960_instruction) prog" where
  "fetch s =
     (case vf2_i960_decode (r_data (regions (sys_machine s) MAIN_ROM))
             (area_size (sys_machine s) MAIN_ROM) (ip (sys_cpu s)) (init_instruction 0 0) of
        (Inl status, _) \<Rightarrow> (Inl status, s)
      | (Inr _, i) \<Rightarrow> (Inr i, s))"

text \<open>The literal forms \<open>movl\<close>, \<open>movt\<close> and \<open>movq\<close>: the literal, then zeros.\<close>

definition literal_fill :: "nat \<Rightarrow> nat \<Rightarrow> u32 \<Rightarrow> vf2_i960_cpu \<Rightarrow> vf2_i960_cpu" where
  "literal_fill destination count v c =
     fold (\<lambda>k. put_register (destination + k) 0) [1..<count] (put_register destination v c)"

definition literal_multi_move :: "vf2_i960_instruction \<Rightarrow> (nat \<times> nat \<times> u32) option" where
  "literal_multi_move i =
     (if mnemonic i \<in> set [''movl'', ''movt'', ''movq''] \<and> operand_count i = 2 then
        (case (opvalue (operands i 0), opvalue (operands i 1)) of
           (OPERAND_LITERAL v, OPERAND_REGISTER r) \<Rightarrow> Some (unat r, multi_count (mnemonic i), v)
         | _ \<Rightarrow> None)
      else None)"

definition vf2_i960_step_legacy :: "('h sys, vf2_i960_trace_event) prog" where
  "vf2_i960_step_legacy =
     pbind (pget (\<lambda>s. area_null (sys_machine s) MAIN_ROM)) (\<lambda>no_rom.
     pbind (pcheck (\<not> no_rom) VF2_ERROR_INVALID_ARGUMENT) (\<lambda>_.
     pbind (cpu_get ip) (\<lambda>before.
     pbind fetch (\<lambda>i.
     pbind (pcheck (valid i) VF2_ERROR_UNSUPPORTED) (\<lambda>_.
     case literal_multi_move i of
       Some (destination, count, v) \<Rightarrow>
         pbind (pcheck (destination + count \<le> VF2_I960_REGISTER_COUNT \<and>
                        destination mod (if count = 2 then 2 else 4) = 0) VF2_ERROR_UNSUPPORTED) (\<lambda>_.
         pbind (cpu_mod (\<lambda>c. retire ((literal_fill destination count v c)
                  \<lparr>ip := before + ucast (i_size i)\<rparr>))) (\<lambda>_.
         cpu_get (trace_event before i)))
     | None \<Rightarrow>
         let next_ip = before + ucast (i_size i)
         in pbind (cpu_mod (\<lambda>c. c\<lparr>ip := next_ip\<rparr>)) (\<lambda>_.
            \<lambda>s. case execute_instruction i next_ip s of
                   (Inl status, s') \<Rightarrow>
                     (Inl status, s'\<lparr>sys_cpu := (sys_cpu s')\<lparr>ip := before\<rparr>\<rparr>)
                 | (Inr _, s') \<Rightarrow>
                     pbind (cpu_mod retire) (\<lambda>_. cpu_get (trace_event before i)) s'))))))"

end
