(* ===== verification/Vf2_I960_Decoder_Laws.thy ===== *)
theory Vf2_I960_Decoder_Laws
  imports Vf2_I960_Decoder
begin

text \<open>
  What every successful decode guarantees (\<open>instruction_ok\<close>): the facts the interpreter relies on
  without checking them again.
\<close>

section \<open>Decoded instructions are well formed\<close>

text \<open>
  What execution relies on: register numbers fit the register file, index scales fit the shift,
  and the instruction lies inside the image.
\<close>

definition operand_ok :: "vf2_i960_operand \<Rightarrow> bool" where
  "operand_ok p \<longleftrightarrow>
     (case opvalue p of
        OPERAND_NONE \<Rightarrow> True
      | OPERAND_REGISTER r \<Rightarrow> unat r < 32
      | OPERAND_FP_REGISTER r \<Rightarrow> unat r < 32
      | OPERAND_SPECIAL_REGISTER r \<Rightarrow> unat r < 32
      | OPERAND_LITERAL v \<Rightarrow> v < 32
      | OPERAND_ADDRESS a \<Rightarrow> True
      | OPERAND_MEMORY mo \<Rightarrow> unat (base mo) < 32 \<and> unat (index mo) < 32 \<and> scale mo \<le> 4)"

definition instruction_ok :: "nat \<Rightarrow> vf2_i960_instruction \<Rightarrow> bool" where
  "instruction_ok image_size i \<longleftrightarrow>
     valid i \<and> format i \<noteq> FORMAT_INVALID \<and> (\<forall>k. operand_ok (operands i k)) \<and>
     operand_count i \<le> 3 \<and> (\<forall>k \<ge> unat (operand_count i). operands i k = empty_operand) \<and>
     (i_size i = 4 \<or> i_size i = 8) \<and> i_address i AND 3 = 0 \<and>
     unat (i_address i) + unat (i_size i) \<le> image_size"

text \<open>The part of \<open>instruction_ok\<close> that holds from \<open>init_instruction\<close> on.\<close>

definition decoding :: "nat \<Rightarrow> vf2_i960_instruction \<Rightarrow> bool" where
  "decoding image_size i \<longleftrightarrow>
     operands i = (\<lambda>_. empty_operand) \<and> operand_count i = 0 \<and> (i_size i = 4 \<or> i_size i = 8) \<and> i_address i AND 3 = 0 \<and>
     unat (i_address i) + unat (i_size i) \<le> image_size"

lemma empty_operand_ok [simp]: "operand_ok empty_operand"
  by (simp add: operand_ok_def empty_operand_def)

lemma field5_u32: "w AND 0x1f < (32 :: u32)"
  using word_and_le1 [of w "0x1f"] by (rule order.strict_trans1) simp

lemma field5_unat [simp]: "unat (ucast (w AND 0x1f :: u32) :: u8) < 32"
proof -
  have "unat (w AND 0x1f) < 32" using field5_u32 [of w] by (simp add: word_less_nat_alt)
  then show ?thesis by (simp add: unsigned_ucast_eq take_bit_nat_eq_self)
qed

lemma ucast_literal_less [simp]: "unat r < 32 \<Longrightarrow> (ucast (r :: u8) :: u32) < 32"
  by (simp add: word_less_nat_alt unsigned_ucast_eq take_bit_nat_eq_self)

lemma make_ok [simp]:
  "unat r < 32 \<Longrightarrow> operand_ok (make_register r d)"
  "unat r < 32 \<Longrightarrow> operand_ok (make_fp_register r d)"
  "unat r < 32 \<Longrightarrow> operand_ok (make_special_register r d)"
  "operand_ok (make_address a)"
  "unat r < 32 \<Longrightarrow> operand_ok (make_literal (ucast r))"
  by (simp_all add: operand_ok_def make_register_def make_fp_register_def
      make_special_register_def make_address_def make_literal_def)

lemma decode_source_ok [simp]: "unat r < 32 \<Longrightarrow> operand_ok (decode_source r l s)"
  by (simp add: decode_source_def)

lemma instruction_ok_control:
  assumes "decoding n i" and "decode_control i = (Inr (), i')"
  shows "instruction_ok n i'"
  using assms
  by (auto simp: decode_control_def Let_def decoding_def instruction_ok_def
      split: if_splits option.splits)

lemma instruction_ok_cobr:
  assumes "decoding n i" and "decode_cobr i = (Inr (), i')"
  shows "instruction_ok n i'"
  using assms
  by (auto simp: decode_cobr_def Let_def decoding_def instruction_ok_def
      split: if_splits option.splits)

lemma register_operands_ok:
  assumes "register_operands flags s1 s2 r1 r2 d m1 m2 m3 = Some ops"
    and "operand_ok s1" and "operand_ok s2" and "unat r1 < 32" and "unat r2 < 32" and "unat d < 32"
  shows "list_all operand_ok ops \<and> length ops \<le> 3"
  using assms by (auto simp: register_operands_def Let_def split: if_splits)

lemma instruction_ok_set_operands:
  assumes "decoding n i" and "valid i" and "format i \<noteq> FORMAT_INVALID"
    and "list_all operand_ok ops" and "length ops \<le> 3"
  shows "instruction_ok n (set_operands ops i)"
proof -
  have "unat (of_nat (length ops) :: u8) = length ops"
    using assms(5) by (simp add: unsigned_of_nat take_bit_nat_eq_self)
  then show ?thesis
    using assms
    by (auto simp: instruction_ok_def decoding_def set_operands_def list_all_length word_le_nat_alt)
qed

lemma instruction_ok_register:
  assumes "decoding n i" and "decode_register i = (Inr (), i')"
  shows "instruction_ok n i'"
proof -
  obtain ops i1 ft where i': "i' = (set_operands ops i1)\<lparr>has_fallthrough := ft\<rparr>"
    and "decoding n i1" "valid i1" "format i1 \<noteq> FORMAT_INVALID"
    and "list_all operand_ok ops \<and> length ops \<le> 3"
    using assms
    by (auto simp: decode_register_def Let_def decoding_def
        split: if_splits option.splits prod.splits dest!: register_operands_ok)
  then show ?thesis
    using instruction_ok_set_operands [of n i1 ops] by (simp add: instruction_ok_def)
qed

lemma decode_addressing_ok:
  assumes "decode_addressing img n i = (Inr mo, i')" and "decoding n i"
  shows "operand_ok (make_memory mo) \<and> decoding n i' \<and> valid i' = valid i \<and> format i' = format i"
  using assms
  by (auto simp: decode_addressing_def Let_def decoding_def operand_ok_def make_memory_def
      empty_memory_operand_def not_less split: if_splits)

lemma operand_ok_destination [simp]: "operand_ok (p\<lparr>is_destination := d\<rparr>) = operand_ok p"
  by (simp add: operand_ok_def)

lemma instruction_ok_flow: "instruction_ok n i \<Longrightarrow> instruction_ok n (memory_flow role mo i)"
  by (auto simp: memory_flow_def instruction_ok_def Let_def)

lemma instruction_ok_memory:
  assumes "decoding n i" and "decode_memory img n i = (Inr (), i')"
  shows "instruction_ok n i'"
proof -
  obtain name role where e: "find_memory_opcode (ucast (drop_bit 24 (word0 i))) = Some (name, role)"
    using assms(2) by (auto simp: decode_memory_def Let_def split: option.splits)
  let ?op = "ucast (drop_bit 24 (word0 i)) :: u8"
  let ?i = "i\<lparr>format := FORMAT_MEM, opcode := ucast ?op, mnemonic := name, valid := True\<rparr>"
  let ?reg = "ucast (drop_bit 19 (word0 i) AND 0x1f) :: u8"
  have d: "decoding n ?i" using assms(1) by (simp add: decoding_def)
  obtain mo i1 where a: "decode_addressing img n ?i = (Inr mo, i1)"
    and i': "i' = memory_flow role mo (memory_roles ?op role ?reg mo i1)"
    using assms(2) e by (auto simp: decode_memory_def Let_def elim!: pbind_okE)
  have ok: "operand_ok (make_memory mo)" "decoding n i1" "valid i1" "format i1 \<noteq> FORMAT_INVALID"
    using decode_addressing_ok [OF a d] by auto
  then have "instruction_ok n (memory_roles ?op role ?reg mo i1)"
    by (auto simp: memory_roles_def intro!: instruction_ok_set_operands)
  then show ?thesis
    unfolding i' by (rule instruction_ok_flow)
qed

lemma vf2_i960_decode_ok:
  assumes "vf2_i960_decode img n address i0 = (Inr (), i)"
  shows "instruction_ok n i"
proof -
  obtain d where img: "img = Some d" using assms by (cases img) (simp_all add: vf2_i960_decode_def)
  let ?i = "init_instruction address (read_le32 d (unat address))"
  have bounds: "address AND 3 = 0" "unat address + 4 \<le> n"
    using assms img by (auto simp: vf2_i960_decode_def split: if_splits)
  then have "decoding n ?i" by (simp add: decoding_def init_instruction_def)
  then show ?thesis
    using assms img bounds instruction_ok_control instruction_ok_cobr instruction_ok_register
      instruction_ok_memory
    by (auto simp: vf2_i960_decode_def Let_def split: if_splits)
qed

end
