(* ===== verification/Vf2_I960_Invariants.thy ===== *)
theory Vf2_I960_Invariants
  imports Vf2_I960_Executor Vf2_I960_Decoder_Laws
begin

text \<open>
  The interface between the interpreter and a property of processor and board that execution
  keeps: the locale \<open>instruction_invariant\<close> lists the primitive effects of an instruction (bus
  accesses, a write to a register of the file, the special registers, a call and a return), and
  proves once that every instruction with well-formed operands keeps the property. It is
  interpreted for the instruction counters, the board invariant, the frame stack and the
  bounds of the register file.
\<close>

definition operands_ok :: "vf2_i960_instruction \<Rightarrow> bool" where
  "operands_ok i \<longleftrightarrow> (\<forall>k. operand_ok (operands i k))"

lemma instruction_ok_operands: "instruction_ok n i \<Longrightarrow> operands_ok i"
  by (simp add: instruction_ok_def operands_ok_def)

lemma register_operand_less:
  "operands_ok i \<Longrightarrow> register_operand (operands i k) = Some r \<Longrightarrow> r < 32"
  by (auto simp: operands_ok_def operand_ok_def register_operand_def
      split: vf2_i960_operand_value.splits dest: spec [of _ k])

section \<open>Lifting\<close>

lemma preserves_on_cpu:
  assumes "\<And>s r c. P s \<Longrightarrow> p (sys_cpu s) = (r, c) \<Longrightarrow> P (s\<lparr>sys_cpu := c\<rparr>)"
  shows "preserves P (on_cpu p)"
  using assms by (auto simp: preserves_def on_cpu_def split: prod.split)

lemma preserves_on_bus:
  assumes "\<And>s. P s \<Longrightarrow> P (s\<lparr>sys_machine := snd (p (sys_machine s))\<rparr>)"
  shows "preserves P (on_bus p)"
  using assms by (auto simp: preserves_def on_bus_def split: prod.split) (metis snd_conv)

lemma preserves_cpu_get [preserves_intros]: "preserves P (cpu_get f)"
  by (simp add: preserves_def)

lemma preserves_cpu_mod:
  "(\<And>s. P s \<Longrightarrow> P (s\<lparr>sys_cpu := f (sys_cpu s)\<rparr>)) \<Longrightarrow> preserves P (cpu_mod f)"
  by (simp add: preserves_def)

text \<open>Bind over a value read from the state: the continuation may rely on it.\<close>

lemma preserves_cpu_get_bind:
  assumes "\<And>s. P s \<Longrightarrow> P (snd (g (f (sys_cpu s)) s))"
  shows "preserves P (pbind (cpu_get f) g)"
  using assms by (simp add: preserves_def)

section \<open>Preservation by instructions\<close>

locale instruction_invariant =
  fixes P :: "'h sys \<Rightarrow> bool"
  assumes inv_read: "preserves P (on_bus (vf2_model2a_read a n))"
    and inv_write: "preserves P (on_bus (vf2_model2a_write a bytes))"
    and inv_read_u32: "preserves P (on_bus (vf2_model2a_read_u32 a))"
    and inv_write_u32: "preserves P (on_bus (vf2_model2a_write_u32 a v))"
    and inv_register: "r < 32 \<Longrightarrow> P s \<Longrightarrow> P (s\<lparr>sys_cpu := put_register r v (sys_cpu s)\<rparr>)"
    and inv_ip: "P s \<Longrightarrow> P (s\<lparr>sys_cpu := (sys_cpu s)\<lparr>ip := v\<rparr>\<rparr>)"
    and inv_compare: "P s \<Longrightarrow> P (s\<lparr>sys_cpu := (sys_cpu s)\<lparr>compare_result := cr\<rparr>\<rparr>)"
    and inv_ac: "P s \<Longrightarrow> P (s\<lparr>sys_cpu := (sys_cpu s)\<lparr>arithmetic_control := v\<rparr>\<rparr>)"
    and inv_pc: "P s \<Longrightarrow> P (s\<lparr>sys_cpu := (sys_cpu s)\<lparr>process_control := v\<rparr>\<rparr>)"
    and inv_ic: "P s \<Longrightarrow> P (s\<lparr>sys_cpu := (sys_cpu s)\<lparr>interrupt_control := v\<rparr>\<rparr>)"
    and inv_iac: "P s \<Longrightarrow> P (s\<lparr>sys_cpu := (sys_cpu s)\<lparr>sat := v1, prcb := v2, ip := v3, reinitialized := True\<rparr>\<rparr>)"
    and inv_call: "preserves P (on_cpu (procedure_call_typed t ret ct sp))"
    and inv_pop: "P s \<Longrightarrow> local_frame_depth (sys_cpu s) \<noteq> 0 \<Longrightarrow> P (s\<lparr>sys_cpu := pop_frame (sys_cpu s)\<rparr>)"
    and inv_irq_return: "P s \<Longrightarrow> P (s\<lparr>sys_cpu := (sys_cpu s)\<lparr>interrupt_returns := n1\<rparr>\<rparr>)"
begin

lemma preserves_bus [preserves_intros]:
  "preserves P (bus_read a n)" "preserves P (bus_write a bytes)"
  "preserves P (bus_read_u32 a)" "preserves P (bus_write_u32 a v)"
  unfolding bus_read_def bus_write_def bus_read_u32_def bus_write_u32_def
  by (rule inv_read inv_write inv_read_u32 inv_write_u32)+

lemma preserves_put_register [preserves_intros]:
  "r < 32 \<Longrightarrow> preserves P (cpu_mod (put_register r v))"
  by (rule preserves_cpu_mod) (rule inv_register)

lemma preserves_put_operand [preserves_intros]: "preserves P (put_operand i k v)"
  unfolding put_operand_def
  by (rule preserves_on_cpu)
    (auto simp: set_register_def inv_register split: vf2_i960_operand_value.splits if_splits)

lemma preserves_operand [preserves_intros]:
  "preserves P (operand i k)" "preserves P (on_cpu (operand_value p))"
  "preserves P (on_cpu (memory_operand_address p))"
  unfolding operand_def
  by (rule preserves_on_cpu; auto simp: operand_value_def memory_operand_address_def
      split: vf2_i960_operand_value.splits)+

lemma preserves_fields [preserves_intros]:
  "preserves P (cpu_mod (\<lambda>c. c\<lparr>ip := v\<rparr>))"
  "preserves P (cpu_mod (\<lambda>c. c\<lparr>compare_result := cr\<rparr>))"
  "preserves P (cpu_mod (\<lambda>c. c\<lparr>arithmetic_control := v\<rparr>))"
  "preserves P (cpu_mod (\<lambda>c. c\<lparr>process_control := v\<rparr>))"
  "preserves P (cpu_mod (\<lambda>c. c\<lparr>interrupt_control := v\<rparr>))"
  by (rule preserves_cpu_mod, erule inv_ip inv_compare inv_ac inv_pc inv_ic)+

lemma inv_compare_ac:
  assumes "P s"
  shows "P (s\<lparr>sys_cpu := (sys_cpu s)\<lparr>compare_result := cr, arithmetic_control := v\<rparr>\<rparr>)"
  using inv_ac [OF inv_compare [OF assms, of cr], of v] by simp

lemma inv_set_compare: "P s \<Longrightarrow> P (s\<lparr>sys_cpu := set_compare_result cr (sys_cpu s)\<rparr>)"
  unfolding set_compare_result_def by (rule inv_compare_ac)

lemma preserves_compares [preserves_intros]:
  "preserves P (cpu_mod (set_compare_result cr))"
  "preserves P (cpu_mod (compare_unsigned a b))"
  "preserves P (cpu_mod (compare_signed a b))"
  "preserves P (cpu_mod (compare_real a b))"
  "preserves P (cpu_mod (cobr_compare sg a b))"
  by (rule preserves_cpu_mod; auto simp: compare_unsigned_def compare_signed_def compare_real_def
      cobr_compare_def intro: inv_set_compare inv_compare_ac)+

lemma preserves_jump_if [preserves_intros]: "preserves P (jump_if b i)"
  unfolding jump_if_def by (rule preserves_cpu_mod) (auto intro: inv_ip)

lemma inv_fold_registers:
  assumes "P s" and "\<And>k c. k \<in> set ks \<Longrightarrow> \<exists>r v. r < 32 \<and> f k c = put_register r v c"
  shows "P (s\<lparr>sys_cpu := fold f ks (sys_cpu s)\<rparr>)"
  using assms
proof (induction ks arbitrary: s)
  case (Cons k ks)
  obtain r v where "r < 32" "f k (sys_cpu s) = put_register r v (sys_cpu s)"
    using Cons.prems(2) [of k "sys_cpu s"] by auto
  then have "P (s\<lparr>sys_cpu := f k (sys_cpu s)\<rparr>)" using inv_register Cons.prems(1) by simp
  then show ?case using Cons.IH [of "s\<lparr>sys_cpu := f k (sys_cpu s)\<rparr>"] Cons.prems(2) by simp
qed simp

lemma preserves_load: "operands_ok i \<Longrightarrow> preserves P (execute_load i w n sg)"
  unfolding execute_load_def
  by (rule preserves_pbind, rule preserves_cpu_get)
    (auto split: sum.split option.split
      intro!: preserves_guard preserves_intros dest: register_operand_less)

lemma preserves_store: "preserves P (execute_store i w n)"
  unfolding execute_store_def
  by (rule preserves_pbind, rule preserves_operand)
    (auto split: option.split intro!: preserves_intros)

lemma preserves_iac: "preserves P (execute_iac a)"
  unfolding execute_iac_def
  by (intro preserves_intros preserves_on_cpu)
    (auto simp: iac_message_def Let_def intro: inv_iac split: if_splits)

lemma preserves_synmov: "preserves P (execute_synmov i)"
  unfolding execute_synmov_def by (intro preserves_intros)

lemma preserves_synmovq: "preserves P (execute_synmovq i)"
  unfolding execute_synmovq_def by (intro preserves_intros preserves_iac)

lemma preserves_multi_move: "preserves P (execute_multi_move i count)"
proof -
  have "preserves P (cpu_mod (copy_registers r r' count))" if "r + count \<le> 32" "r' + count \<le> 32" for r r'
    unfolding copy_registers_def using that
    by (intro preserves_cpu_mod inv_fold_registers exI [of _ "r' + k" for k] exI conjI refl) auto
  then show ?thesis
    unfolding execute_multi_move_def
    by (auto split: option.split intro!: preserves_guard preserves_intros)
qed

lemma preserves_call: "preserves P (on_cpu (procedure_call t ret))"
proof (rule preserves_on_cpu)
  fix s r c assume "P s" and "procedure_call t ret (sys_cpu s) = (r, c)"
  then show "P (s\<lparr>sys_cpu := c\<rparr>)"
    using preservesD [OF inv_call \<open>P s\<close>, of t ret 0 "registers (sys_cpu s) 1"]
    by (simp add: procedure_call_def on_cpu_def)
qed

lemma inv_pop_interrupt:
  assumes "P s" and "local_frame_depth (sys_cpu s) \<noteq> 0"
  shows "P (s\<lparr>sys_cpu := (pop_frame (sys_cpu s))\<lparr>process_control := v,
           arithmetic_control := w, interrupt_returns := n1\<rparr>\<rparr>)"
proof -
  let ?s1 = "s\<lparr>sys_cpu := pop_frame (sys_cpu s)\<rparr>"
  have "P ?s1" using assms by (rule inv_pop)
  from inv_irq_return [OF inv_ac [OF inv_pc [OF this, of v], of w], of n1]
  show ?thesis by simp
qed

lemma snd_bus_cpu [simp]:
  "sys_cpu (snd (on_bus p s)) = sys_cpu s"
  by (simp add: on_bus_def split: prod.split)

lemma preserves_return: "preserves P procedure_return"
proof -
  have "P (snd (procedure_return s))" if "P s" for s
  proof -
    let ?fp = "registers (sys_cpu s) 31"
    obtain r1 s1 where r1: "on_bus (vf2_model2a_read_u32 (?fp - 16)) s = (r1, s1)" by fastforce
    obtain r2 s2 where r2: "on_bus (vf2_model2a_read_u32 (?fp - 12)) s1 = (r2, s2)" by fastforce
    have P: "P s1" "P s2"
      using preservesD_eq [OF inv_read_u32 r1 that] preservesD_eq [OF inv_read_u32 r2] by auto
    have cpu: "sys_cpu s1 = sys_cpu s" "sys_cpu s2 = sys_cpu s"
      using snd_bus_cpu [of "vf2_model2a_read_u32 (?fp - 16)" s]
        snd_bus_cpu [of "vf2_model2a_read_u32 (?fp - 12)" s1] r1 r2 by simp_all
    show ?thesis
      using r1 r2 P that cpu
      by (cases r1; cases r2)
        (auto simp: procedure_return_def Let_def inv_pop_interrupt [OF P(2), unfolded cpu]
          intro: inv_pop)
  qed
  then show ?thesis by (simp add: preserves_def)
qed

lemma preserves_registers:
  "preserves P (execute_lda i)" "preserves P (execute_mov i)" "preserves P (execute_alu i)"
  "preserves P (execute_bit i)" "preserves P (execute_real i)" "preserves P (execute_cmpr i)"
  "preserves P (execute_mul i)" "preserves P (execute_divide i)" "preserves P (execute_not i)"
  "preserves P (execute_chkbit i)" "preserves P (execute_compare i)"
  "preserves P (execute_concompare i)" "preserves P (execute_cvtir i)"
  "preserves P (execute_compare_step i)" "preserves P (execute_test i)"
  "preserves P (execute_control_branch i)" "preserves P (execute_cobr i)"
  unfolding execute_lda_def execute_mov_def execute_alu_def execute_bit_def execute_real_def
    execute_cmpr_def execute_mul_def execute_divide_def execute_not_def execute_chkbit_def
    execute_compare_def execute_concompare_def execute_cvtir_def execute_compare_step_def
    execute_test_def execute_control_branch_def execute_cobr_def
  by (auto intro!: preserves_intros)

lemma preserves_others:
  "preserves P (execute_carry i)" "preserves P (execute_scan i)" "preserves P (execute_cvtri i)"
  "preserves P (execute_cvtilr i)" "preserves P (execute_indirect i n)"
  "preserves P (execute_modify_control i)"
  unfolding execute_carry_def execute_scan_def execute_cvtri_def execute_cvtilr_def
    execute_indirect_def execute_modify_control_def Let_def
  by (auto intro!: preserves_intros preserves_call split: option.split sum.split prod.split)
    (cases "mnemonic i = ''modpc''"; simp add: preserves_intros)

lemma preserves_ediv:
  assumes "operands_ok i" shows "preserves P (execute_ediv i)"
proof -
  have two: "preserves P (cpu_mod (\<lambda>c. put_register r v (put_register r' v' c)))"
    if "r < 32" "r' < 32" for r r' v v'
    using that inv_register [of r] inv_register [of r'] 
    by (intro preserves_cpu_mod) fastforce
  then show ?thesis
    unfolding execute_ediv_def Let_def
    by (auto split: option.split intro!: preserves_guard preserves_intros)
qed

lemma preserves_bal: "preserves P (cpu_mod (\<lambda>c. (put_register 30 n c)\<lparr>ip := t\<rparr>))"
  using inv_ip [OF inv_register [of 30]] by (intro preserves_cpu_mod) fastforce

lemma preserves_execute_instruction:
  assumes "operands_ok i" shows "preserves P (execute_instruction i n)"
  unfolding execute_instruction_def Let_def
  by (intro preserves_if preserves_registers preserves_others preserves_load [OF assms]
      preserves_store preserves_multi_move preserves_ediv [OF assms] preserves_jump_if
      preserves_bal [folded VF2_I960_G14_REGISTER_def] preserves_call preserves_synmov preserves_synmovq preserves_return preserves_pfail)

end

section \<open>Instruction counters\<close>

text \<open>No instruction touches the instruction counters: only retirement does.\<close>

definition counters :: "u64 \<Rightarrow> u64 \<Rightarrow> u64 \<Rightarrow> 'h sys \<Rightarrow> bool" where
  "counters k j l s \<longleftrightarrow> executed_instructions (sys_cpu s) = k \<and>
     interpreted_instructions (sys_cpu s) = j \<and> lifted_instructions (sys_cpu s) = l"

lemma call_fields [simp]:
  "executed_instructions (snd (procedure_call_typed t ret ct sp c)) = executed_instructions c"
  "interpreted_instructions (snd (procedure_call_typed t ret ct sp c)) = interpreted_instructions c"
  "lifted_instructions (snd (procedure_call_typed t ret ct sp c)) = lifted_instructions c"
  by (simp_all add: procedure_call_typed_def Let_def)

lemma pop_fields [simp]:
  "executed_instructions (pop_frame c) = executed_instructions c"
  "interpreted_instructions (pop_frame c) = interpreted_instructions c"
  "lifted_instructions (pop_frame c) = lifted_instructions c"
  by (simp_all add: pop_frame_def Let_def)

interpretation counting: instruction_invariant "counters k j l"
  by unfold_locales
    (auto simp: counters_def put_register_def intro!: preserves_on_bus preserves_on_cpu
      dest!: arg_cong [where f = snd])

section \<open>The board under the processor\<close>

definition board_kept :: "'h vf2_model2a \<Rightarrow> (f32_op \<Rightarrow> u32 \<Rightarrow> u32 \<Rightarrow> u32) \<Rightarrow> 'h sys \<Rightarrow> bool" where
  "board_kept m0 nan s \<longleftrightarrow> board_inv m0 (sys_machine s) \<and> sys_nan s = nan"

lemma preserves_board_bus:
  assumes "preserves (board_inv m0) p"
  shows "preserves (board_kept m0 nan) (on_bus p)"
  using assms by (intro preserves_on_bus) (simp add: board_kept_def preserves_def)

interpretation board: instruction_invariant "board_kept m0 nan"
  by unfold_locales
    (auto simp: board_kept_def intro!: preserves_board_bus preserves_on_cpu preserves_read
      preserves_write preserves_read_u32 preserves_write_u32)

section \<open>Procedure frames\<close>

text \<open>
  The frame stack never exceeds its array, and its depth is the number of calls less the number
  of returns.
\<close>

definition frame_stack_ok :: "vf2_i960_cpu \<Rightarrow> bool" where
  "frame_stack_ok c \<longleftrightarrow>
     local_frame_depth c \<le> maximum_local_frame_depth c \<and>
     maximum_local_frame_depth c \<le> VF2_I960_MAX_LOCAL_FRAMES \<and>
     procedure_calls c - procedure_returns c = ucast (local_frame_depth c)"

definition frames_ok :: "'h sys \<Rightarrow> bool" where
  "frames_ok s \<longleftrightarrow> frame_stack_ok (sys_cpu s)"

lemma unat_pred_u32: "x \<noteq> 0 \<Longrightarrow> unat (x - 1 :: u32) = unat x - 1"
  by (rule unat_minus_one)

lemma ucast_succ_u32: "x < 128 \<Longrightarrow> (ucast (x + 1 :: u32) :: u64) = ucast x + 1"
  by (simp add: word_unat_eq_iff unat_word_ariths word_less_nat_alt)

lemma ucast_pred_u32:
  assumes "x \<noteq> 0" shows "(ucast (x - 1 :: u32) :: u64) = ucast x - 1"
proof -
  have "(ucast x :: u64) \<noteq> 0" using assms by (metis unat_ucast_u64 unat_eq_zero)
  then show ?thesis
    using assms by (simp add: word_unat_eq_iff unat_pred_u32 unat_minus_one)
qed

lemma frame_stack_ok_call:
  assumes "frame_stack_ok c0" and "procedure_call_typed t ret ct sp c0 = (r, c)"
  shows "frame_stack_ok c"
proof (cases "local_frame_depth c0 \<ge> VF2_I960_MAX_LOCAL_FRAMES")
  case True
  then show ?thesis using assms by (simp add: procedure_call_typed_def)
next
  case False
  let ?d = "local_frame_depth c0"
  have d: "?d < 128" using False by (simp add: VF2_I960_MAX_LOCAL_FRAMES_def not_le)
  then have le: "?d + 1 \<le> 128" by (simp add: word_le_nat_alt word_less_nat_alt unat_word_ariths)
  have c: "local_frame_depth c = ?d + 1"
    "maximum_local_frame_depth c = max (maximum_local_frame_depth c0) (?d + 1)"
    "procedure_calls c = procedure_calls c0 + 1" "procedure_returns c = procedure_returns c0"
    using assms(2) False by (auto simp: procedure_call_typed_def Let_def)
  show ?thesis
    using assms(1) ucast_succ_u32 [OF d] le
    by (simp add: frame_stack_ok_def c VF2_I960_MAX_LOCAL_FRAMES_def algebra_simps)
qed

lemma frame_stack_ok_pop:
  assumes "frame_stack_ok c" and "local_frame_depth c \<noteq> 0"
  shows "frame_stack_ok (pop_frame c)"
proof -
  let ?d = "local_frame_depth c"
  have "?d - 1 \<le> ?d" using assms(2) by (simp add: word_le_nat_alt unat_pred_u32)
  moreover have "procedure_calls c - (procedure_returns c + 1) = ucast ?d - 1"
    using assms(1) by (simp add: frame_stack_ok_def diff_diff_add [symmetric] del: diff_diff_add)
  ultimately show ?thesis
    using assms ucast_pred_u32 [OF assms(2)]
    by (auto simp: frame_stack_ok_def pop_frame_def Let_def)
qed

lemma preserves_frames_bus: "preserves frames_ok (on_bus p)"
  by (rule preserves_on_bus) (simp add: frames_ok_def)

interpretation frames: instruction_invariant frames_ok
  by unfold_locales
    (auto simp: frames_ok_def intro!: preserves_frames_bus preserves_on_cpu frame_stack_ok_pop
      intro: frame_stack_ok_call, auto simp: frame_stack_ok_def put_register_def)

section \<open>Bounds of the fixed arrays\<close>

text \<open>
  Everything outside the 32 registers and the 128 frames of 16 registers keeps its value: no
  instruction writes out of the bounds of the arrays.
\<close>

definition arrays_ok :: "(nat \<Rightarrow> u32) \<Rightarrow> (nat \<Rightarrow> nat \<Rightarrow> u32) \<Rightarrow> 'h sys \<Rightarrow> bool" where
  "arrays_ok g h s \<longleftrightarrow>
     (\<forall>r \<ge> 32. registers (sys_cpu s) r = g r) \<and>
     (\<forall>d r. d \<ge> 128 \<or> r \<ge> 16 \<longrightarrow> local_frames (sys_cpu s) d r = h d r)"

lemma arrays_ok_call:
  assumes "arrays_ok g h s" and "procedure_call_typed t ret ct sp (sys_cpu s) = (r, c)"
  shows "arrays_ok g h (s\<lparr>sys_cpu := c\<rparr>)"
  using assms
  by (auto simp: arrays_ok_def procedure_call_typed_def Let_def VF2_I960_MAX_LOCAL_FRAMES_def
      word_le_nat_alt not_le split: if_splits)

lemma arrays_ok_pop: "arrays_ok g h s \<Longrightarrow> arrays_ok g h (s\<lparr>sys_cpu := pop_frame (sys_cpu s)\<rparr>)"
  by (auto simp: arrays_ok_def pop_frame_def Let_def)

lemma preserves_arrays_bus: "preserves (arrays_ok g h) (on_bus p)"
  by (rule preserves_on_bus) (simp add: arrays_ok_def)

interpretation arrays: instruction_invariant "arrays_ok g h"
  by unfold_locales
    (auto intro!: preserves_arrays_bus preserves_on_cpu intro: arrays_ok_call arrays_ok_pop,
      auto simp: arrays_ok_def put_register_def)

end
