(* ===== verification/Vf2_I960_Arch.thy ===== *)
theory Vf2_I960_Arch
  imports Vf2_I960_Invariants
begin

text \<open>
  \<open>src/i960/executor_arch.c\<close>: the architectural stepper \<open>vf2_i960_step\<close>, which decodes ahead,
  runs the legacy step and then corrects the compare-and-branch instructions, and
  \<open>vf2_i960_step_lifted\<close>, which counts the step as lifted.
\<close>

definition arch_operand_value :: "vf2_i960_operand \<Rightarrow> (vf2_i960_cpu, u32) prog" where
  "arch_operand_value p c =
     (let reg = (\<lambda>r. if unat r \<ge> VF2_I960_REGISTER_COUNT then (Inl VF2_ERROR_OUT_OF_BOUNDS, c)
                     else (Inr (registers c (unat r)), c))
      in case opvalue p of
           OPERAND_REGISTER r \<Rightarrow> reg r
         | OPERAND_FP_REGISTER r \<Rightarrow> reg r
         | OPERAND_SPECIAL_REGISTER r \<Rightarrow> reg r
         | OPERAND_LITERAL v \<Rightarrow> (Inr v, c)
         | OPERAND_ADDRESS a \<Rightarrow> (Inr a, c)
         | _ \<Rightarrow> (Inl VF2_ERROR_UNSUPPORTED, c))"

definition arch_set_compare :: "vf2_i960_compare_result \<Rightarrow> vf2_i960_cpu \<Rightarrow> vf2_i960_cpu" where
  "arch_set_compare result c =
     (let bits = (case result of COMPARE_LESS \<Rightarrow> 4 | COMPARE_EQUAL \<Rightarrow> 2 | COMPARE_GREATER \<Rightarrow> 1 | _ \<Rightarrow> 0)
      in c\<lparr>compare_result := result,
           arithmetic_control := (arithmetic_control c AND NOT 7) OR bits\<rparr>)"

definition arch_compare :: "u32 \<Rightarrow> u32 \<Rightarrow> bool \<Rightarrow> vf2_i960_compare_result" where
  "arch_compare left right is_signed =
     (if is_signed then
        (if sint left < sint right then COMPARE_LESS
         else if sint left > sint right then COMPARE_GREATER else COMPARE_EQUAL)
      else if left < right then COMPARE_LESS
      else if left > right then COMPARE_GREATER else COMPARE_EQUAL)"

definition arch_compare_branch_matches :: "string \<Rightarrow> vf2_i960_compare_result \<Rightarrow> bool" where
  "arch_compare_branch_matches mn result =
     (let suffix = drop 4 mn in
      if suffix = ''bg'' then result = COMPARE_GREATER
      else if suffix = ''be'' then result = COMPARE_EQUAL
      else if suffix = ''bge'' then result = COMPARE_GREATER \<or> result = COMPARE_EQUAL
      else if suffix = ''bl'' then result = COMPARE_LESS
      else if suffix = ''bne'' then result \<noteq> COMPARE_EQUAL
      else if suffix = ''ble'' then result = COMPARE_LESS \<or> result = COMPARE_EQUAL
      else if suffix = ''bo'' then True
      else if suffix = ''bno'' then False
      else False)"

text \<open>The new instruction pointer, also in the event.\<close>

definition arch_set_ip ::
  "vf2_i960_trace_event \<Rightarrow> vf2_i960_instruction \<Rightarrow> u32 \<Rightarrow> bool \<Rightarrow> ('h sys, vf2_i960_trace_event) prog"
where
  "arch_set_ip event i before branch =
     (let next = (if branch then target i else before + ucast (i_size i))
      in pbind (cpu_mod (\<lambda>c. c\<lparr>ip := next\<rparr>)) (\<lambda>_. pret (event\<lparr>ip_after := next\<rparr>)))"

definition arch_fix_direct_compare ::
  "vf2_i960_trace_event \<Rightarrow> vf2_i960_instruction \<Rightarrow> u32 \<Rightarrow> u32 \<Rightarrow> u32 \<Rightarrow>
   ('h sys, vf2_i960_trace_event) prog" where
  "arch_fix_direct_compare event i before first second =
     (let mn = mnemonic i in
      if mn = ''bbs'' \<or> mn = ''bbc'' then
        (let set_bit = (second AND push_bit (unat (first AND 31)) 1 \<noteq> 0)
         in pbind (cpu_mod (arch_set_compare (if set_bit then COMPARE_EQUAL else COMPARE_NONE))) (\<lambda>_.
            arch_set_ip event i before (if mn = ''bbs'' then set_bit else \<not> set_bit)))
      else if take 5 mn = ''cmpob'' \<or> take 5 mn = ''cmpib'' then
        (let result = arch_compare first second (take 5 mn = ''cmpib'')
         in pbind (cpu_mod (arch_set_compare result)) (\<lambda>_.
            arch_set_ip event i before (arch_compare_branch_matches mn result)))
      else pret event)"

definition arch_execute_literal_multi_move ::
  "vf2_i960_instruction \<Rightarrow> u32 \<Rightarrow> ('h sys, vf2_i960_trace_event) prog" where
  "arch_execute_literal_multi_move i before =
     (let count = multi_count (mnemonic i);
          alignment = (if count = 2 then 2 else 4)
      in case (opvalue (operands i 0), opvalue (operands i 1)) of
           (OPERAND_LITERAL v, OPERAND_REGISTER r) \<Rightarrow>
             pbind (pcheck (unat r + count \<le> VF2_I960_REGISTER_COUNT) VF2_ERROR_OUT_OF_BOUNDS) (\<lambda>_.
             pbind (pcheck (unat r mod alignment = 0) VF2_ERROR_UNSUPPORTED) (\<lambda>_.
             pbind (cpu_mod (\<lambda>c. retire ((literal_fill (unat r) count v c)
                      \<lparr>ip := before + ucast (i_size i)\<rparr>))) (\<lambda>_.
             cpu_get (trace_event before i))))
         | _ \<Rightarrow> pfail VF2_ERROR_UNSUPPORTED)"

definition is_direct_compare :: "string \<Rightarrow> bool" where
  "is_direct_compare mn \<longleftrightarrow>
     mn = ''bbs'' \<or> mn = ''bbc'' \<or> take 5 mn = ''cmpob'' \<or> take 5 mn = ''cmpib''"

definition is_literal_multi_move :: "vf2_i960_instruction \<Rightarrow> bool" where
  "is_literal_multi_move i \<longleftrightarrow>
     mnemonic i \<in> set [''movl'', ''movt'', ''movq''] \<and>
     (case opvalue (operands i 0) of OPERAND_LITERAL _ \<Rightarrow> True | _ \<Rightarrow> False)"

text \<open>The decision of \<open>bo\<close> and \<open>bno\<close> after an integer compare.\<close>

definition arch_fix_ordered ::
  "vf2_i960_trace_event \<Rightarrow> vf2_i960_instruction \<Rightarrow> u32 \<Rightarrow> ('h sys, vf2_i960_trace_event) prog" where
  "arch_fix_ordered event i before =
     pbind (cpu_get id) (\<lambda>c.
     if (mnemonic i = ''bo'' \<or> mnemonic i = ''bno'') \<and>
        compare_result c \<noteq> COMPARE_OVERFLOW \<and> compare_result c \<noteq> COMPARE_NONE
     then
       let ordered = (arithmetic_control c AND 7 \<noteq> 0)
       in arch_set_ip event i before (if mnemonic i = ''bo'' then ordered else \<not> ordered)
     else pret event)"

text \<open>The operands of a compare-and-branch, read before the step changes a register.\<close>

definition direct_operands :: "vf2_i960_instruction \<Rightarrow> ('h sys, u32 \<times> u32) prog" where
  "direct_operands i =
     (if is_direct_compare (mnemonic i) then
        pbind (on_cpu (arch_operand_value (operands i 0))) (\<lambda>first.
        pbind (on_cpu (arch_operand_value (operands i 1))) (\<lambda>second.
        pret (first, second)))
      else pret (0, 0))"

definition vf2_i960_step :: "('h sys, vf2_i960_trace_event) prog" where
  "vf2_i960_step =
     pbind (cpu_get ip) (\<lambda>before.
     pbind fetch (\<lambda>i.
     pbind (direct_operands i) (\<lambda>(first, second).
     if is_literal_multi_move i then arch_execute_literal_multi_move i before
     else
       pbind vf2_i960_step_legacy (\<lambda>event.
       if is_direct_compare (mnemonic i)
       then arch_fix_direct_compare event i before first second
       else arch_fix_ordered event i before))))"

definition vf2_i960_step_lifted :: "('h sys, vf2_i960_trace_event) prog" where
  "vf2_i960_step_lifted s =
     (let interpreted_before = interpreted_instructions (sys_cpu s)
      in case vf2_i960_step s of (status, s') \<Rightarrow>
           (status, s'\<lparr>sys_cpu := (sys_cpu s')
              \<lparr>lifted_instructions := lifted_instructions (sys_cpu s') +
                 (interpreted_instructions (sys_cpu s') - interpreted_before),
               interpreted_instructions := interpreted_before\<rparr>\<rparr>))"

section \<open>What a step retires\<close>

lemma fetch_state [simp]: "snd (fetch s) = s"
  by (simp add: fetch_def split: prod.split sum.split)

lemma fetch_ok:
  assumes "fetch s = (Inr i, s')"
  shows "s' = s \<and> instruction_ok (area_size (sys_machine s) MAIN_ROM) i"
  using assms
  by (auto simp: fetch_def split: prod.splits sum.splits intro: vf2_i960_decode_ok)

lemma fetch_err: "fetch s = (Inl e, s') \<Longrightarrow> s' = s"
  by (auto simp: fetch_def split: prod.splits sum.splits)

text \<open>The two ways a fetched instruction is executed.\<close>

definition run_literal ::
  "vf2_i960_instruction \<Rightarrow> nat \<Rightarrow> nat \<Rightarrow> u32 \<Rightarrow> ('h sys, vf2_i960_trace_event) prog" where
  "run_literal i destination count v s =
     (let before = ip (sys_cpu s);
          s' = s\<lparr>sys_cpu := retire ((literal_fill destination count v (sys_cpu s))
                                    \<lparr>ip := before + ucast (i_size i)\<rparr>)\<rparr>
      in (Inr (trace_event before i (sys_cpu s')), s'))"

definition run_fetched :: "vf2_i960_instruction \<Rightarrow> ('h sys, vf2_i960_trace_event) prog" where
  "run_fetched i s =
     (let before = ip (sys_cpu s);
          next_ip = before + ucast (i_size i)
      in case execute_instruction i next_ip (s\<lparr>sys_cpu := (sys_cpu s)\<lparr>ip := next_ip\<rparr>\<rparr>) of
           (Inl status, s') \<Rightarrow> (Inl status, s'\<lparr>sys_cpu := (sys_cpu s')\<lparr>ip := before\<rparr>\<rparr>)
         | (Inr _, s') \<Rightarrow>
             (Inr (trace_event before i (retire (sys_cpu s'))), s'\<lparr>sys_cpu := retire (sys_cpu s')\<rparr>))"

lemma step_legacy_cases:
  "vf2_i960_step_legacy s =
     (if area_null (sys_machine s) MAIN_ROM then (Inl VF2_ERROR_INVALID_ARGUMENT, s)
      else case fetch s of
        (Inl e, _) \<Rightarrow> (Inl e, s)
      | (Inr i, _) \<Rightarrow>
          (case literal_multi_move i of
             None \<Rightarrow> run_fetched i s
           | Some (destination, count, v) \<Rightarrow>
               if destination + count \<le> 32 \<and> destination mod (if count = 2 then 2 else 4) = 0
               then run_literal i destination count v s else (Inl VF2_ERROR_UNSUPPORTED, s)))"
proof (cases "fetch s")
  case (Pair r s')
  show ?thesis
  proof (cases r)
    case (Inl e)
    then have "fetch s = (Inl e, s)" using Pair fetch_err by metis
    then show ?thesis by (simp add: vf2_i960_step_legacy_def)
  next
    case (Inr i)
    then have f: "fetch s = (Inr i, s)" "valid i"
      using Pair fetch_ok [of s i s'] by (auto simp: instruction_ok_def)
    show ?thesis
    proof (cases "literal_multi_move i")
      case None
      then show ?thesis
        using f by (simp add: vf2_i960_step_legacy_def run_fetched_def Let_def retire_def
            split: prod.split sum.split)
    next
      case (Some x)
      then show ?thesis
        using f by (cases x) (simp add: vf2_i960_step_legacy_def run_literal_def Let_def)
    qed
  qed
qed

lemma literal_fill_fields [simp]:
  "executed_instructions (literal_fill d n v c) = executed_instructions c"
  "interpreted_instructions (literal_fill d n v c) = interpreted_instructions c"
  "lifted_instructions (literal_fill d n v c) = lifted_instructions c"
proof -
  have "executed_instructions (fold (\<lambda>k. put_register (d + k) 0) ks c) = executed_instructions c \<and>
    interpreted_instructions (fold (\<lambda>k. put_register (d + k) 0) ks c) = interpreted_instructions c \<and>
    lifted_instructions (fold (\<lambda>k. put_register (d + k) 0) ks c) = lifted_instructions c" for ks c
    by (induction ks arbitrary: c) (simp_all add: put_register_def)
  then show "executed_instructions (literal_fill d n v c) = executed_instructions c"
    "interpreted_instructions (literal_fill d n v c) = interpreted_instructions c"
    "lifted_instructions (literal_fill d n v c) = lifted_instructions c"
    by (simp_all add: literal_fill_def) (simp_all add: put_register_def)
qed

lemma run_fetched_counters:
  assumes "operands_ok i" and "counters k j l s" and "run_fetched i s = (r, s')"
  shows "case r of Inl _ \<Rightarrow> counters k j l s' \<and> ip (sys_cpu s') = ip (sys_cpu s)
                 | Inr _ \<Rightarrow> counters (k + 1) (j + 1) l s'"
proof -
  let ?n = "ip (sys_cpu s) + ucast (i_size i)"
  have "counters k j l (s\<lparr>sys_cpu := (sys_cpu s)\<lparr>ip := ?n\<rparr>\<rparr>)"
    using assms(2) by (simp add: counters_def)
  from preservesD [OF counting.preserves_execute_instruction [OF assms(1)] this, of ?n]
  show ?thesis
    using assms(3)
    by (auto simp: run_fetched_def Let_def counters_def retire_def
        split: prod.splits sum.splits)
qed

lemma step_legacy_counters:
  assumes "counters k j l s" and "vf2_i960_step_legacy s = (r, s')"
  shows "case r of Inl _ \<Rightarrow> counters k j l s' \<and> ip (sys_cpu s') = ip (sys_cpu s)
                 | Inr _ \<Rightarrow> counters (k + 1) (j + 1) l s'"
proof (cases "fst (fetch s)")
  case (Inl e)
  then show ?thesis
    using assms by (cases "fetch s") (auto simp: step_legacy_cases split: if_splits)
next
  case (Inr i)
  then have f: "fetch s = (Inr i, s)" and ok: "operands_ok i"
    using fetch_ok [of s i] by (cases "fetch s"; auto intro: instruction_ok_operands)+
  show ?thesis
    using assms f run_fetched_counters [OF ok assms(1)]
    by (auto simp: step_legacy_cases run_literal_def Let_def counters_def retire_def
        split: if_splits option.splits)
qed


lemma arch_operand_state [simp]:
  "on_cpu (arch_operand_value p) s = (fst (arch_operand_value p (sys_cpu s)), s)"
  by (simp add: on_cpu_def arch_operand_value_def Let_def split: vf2_i960_operand_value.split)

lemma direct_operands_state [simp]: "snd (direct_operands i s) = s"
  by (simp add: direct_operands_def pbind_def split: sum.split)

lemma counters_arch_fix:
  "preserves (counters k j l) (arch_fix_direct_compare event i before first second)"
  "preserves (counters k j l) (arch_fix_ordered event i before)"
  unfolding arch_fix_direct_compare_def arch_fix_ordered_def arch_set_ip_def Let_def
  by (intro preserves_intros preserves_cpu_mod;
      simp add: counters_def arch_set_compare_def Let_def)+

lemma arch_fix_returns:
  "\<exists>event'. fst (arch_fix_direct_compare event i before first second s) = Inr event'"
  "\<exists>event'. fst (arch_fix_ordered event i before s) = Inr event'"
  by (simp_all add: arch_fix_direct_compare_def arch_fix_ordered_def arch_set_ip_def Let_def)

lemma literal_multi_counters:
  assumes "counters k j l s" and "arch_execute_literal_multi_move i before s = (r, s')"
  shows "case r of Inl _ \<Rightarrow> s' = s | Inr _ \<Rightarrow> counters (k + 1) (j + 1) l s'"
  using assms
  by (auto simp: arch_execute_literal_multi_move_def Let_def counters_def retire_def
      split: vf2_i960_operand_value.splits if_splits)

lemma sum_cases_eq: "(case r of Inl _ \<Rightarrow> a | Inr _ \<Rightarrow> b) = (if isl r then a else b)"
  by (cases r) simp_all

lemma step_counters:
  assumes "counters k j l s" and "vf2_i960_step s = (r, s')"
  shows "case r of Inl _ \<Rightarrow> counters k j l s' \<and> ip (sys_cpu s') = ip (sys_cpu s)
                 | Inr _ \<Rightarrow> counters (k + 1) (j + 1) l s'"
proof (cases "fst (fetch s)")
  case (Inl e)
  then have "fetch s = (Inl e, s)" using fetch_err by (metis prod.collapse)
  then show ?thesis using assms by (auto simp: vf2_i960_step_def)
next
  case (Inr i)
  then have f: "fetch s = (Inr i, s)" using fetch_state by (metis prod.collapse)
  obtain q where q: "direct_operands i s = (q, s)"
    using direct_operands_state by (metis prod.collapse)
  let ?before = "ip (sys_cpu s)"
  let ?tail = "\<lambda>(first, second). if is_literal_multi_move i then arch_execute_literal_multi_move i ?before
      else pbind vf2_i960_step_legacy (\<lambda>event.
          if is_direct_compare (mnemonic i) then arch_fix_direct_compare event i ?before first second
          else arch_fix_ordered event i ?before)"
  have s: "vf2_i960_step s = (case q of Inl e \<Rightarrow> (Inl e, s) | Inr x \<Rightarrow> ?tail x s)"
    using f q by (cases q) (simp_all add: vf2_i960_step_def Let_def)
  show ?thesis
  proof (cases q)
    case (Inl e)
    then show ?thesis using assms s by auto
  next
    case (Inr x)
    obtain first second where x: "x = (first, second)" by (cases x)
    show ?thesis
    proof (cases "is_literal_multi_move i")
      case True
      then have "arch_execute_literal_multi_move i ?before s = (r, s')"
        using assms(2) s Inr x by simp
      from literal_multi_counters [OF assms(1) this] show ?thesis
        using assms(1) by (cases r) auto
    next
      case False
      obtain r1 s1 where l: "vf2_i960_step_legacy s = (r1, s1)" by fastforce
      note c = step_legacy_counters [OF assms(1) l]
      show ?thesis
      proof (cases r1)
        case (Inl e)
        then show ?thesis using assms(2) s Inr x False l c \<open>q = Inr x\<close> by auto
      next
        case (Inr event)
        let ?fix = "if is_direct_compare (mnemonic i) then arch_fix_direct_compare event i ?before first second
          else arch_fix_ordered event i ?before"
        have r: "?fix s1 = (r, s')"
          using assms(2) s \<open>q = Inr x\<close> x False l Inr by simp
        have "counters (k + 1) (j + 1) l s1" using c Inr by simp
        then have "counters (k + 1) (j + 1) l s'"
          using r preservesD_eq [OF counters_arch_fix(1)] preservesD_eq [OF counters_arch_fix(2)]
          by (cases "is_direct_compare (mnemonic i)") (fastforce, fastforce)
        moreover have "\<exists>event'. r = Inr event'"
          using arch_fix_returns(1) [of event i ?before first second s1] arch_fix_returns(2) [of event i ?before s1] r
          by (metis fst_conv)
        ultimately show ?thesis by auto
      qed
    qed
  qed
qed

end
