(* ===== verification/Vf2_I960_Run.thy ===== *)
theory Vf2_I960_Run
  imports Vf2_I960_Arch
begin

text \<open>
  \<open>vf2_i960_run\<close>: the bounded run. The build chooses the stepper the loop calls: with the
  default option \<open>VF2_LEGACY_STEP_IN_RUN\<close> the call to \<open>vf2_i960_step\<close> in \<open>executor.c\<close> is compiled
  as \<open>vf2_i960_step_legacy\<close>. The choice is the first argument. The trace callback is a function
  over the user data \<open>'t\<close> that the loop threads. The loop terminates because every successful
  step retires exactly one instruction.
\<close>

record 't vf2_i960_run_options =
  stop_address :: u32
  max_steps :: u64
  stop_on_self_branch :: bool
  trace_callback :: "(vf2_i960_trace_event \<Rightarrow> vf2_i960_cpu \<Rightarrow> 't \<Rightarrow> 't) option"

record vf2_i960_run_result =
  halt_reason :: vf2_i960_halt_reason
  run_status :: vf2_status
  halt_address :: u32
  run_executed :: u64

definition stepper :: "bool \<Rightarrow> ('h sys, vf2_i960_trace_event) prog" where
  "stepper legacy = (if legacy then vf2_i960_step_legacy else vf2_i960_step)"

lemma stepper_counters:
  assumes "counters k j l s" and "stepper legacy s = (r, s')"
  shows "case r of Inl _ \<Rightarrow> counters k j l s' \<and> ip (sys_cpu s') = ip (sys_cpu s)
                 | Inr _ \<Rightarrow> counters (k + 1) (j + 1) l s'"
  using assms step_legacy_counters step_counters
  by (cases legacy) (auto simp: stepper_def)

lemma stepper_ok_counters:
  assumes "stepper legacy s = (Inr ev, s')"
  shows "executed_instructions (sys_cpu s') = executed_instructions (sys_cpu s) + 1"
    and "interpreted_instructions (sys_cpu s') = interpreted_instructions (sys_cpu s) + 1"
    and "lifted_instructions (sys_cpu s') = lifted_instructions (sys_cpu s)"
  using stepper_counters [OF _ assms, of "executed_instructions (sys_cpu s)"
      "interpreted_instructions (sys_cpu s)" "lifted_instructions (sys_cpu s)"]
  by (auto simp: counters_def)

lemma stepper_error_counters:
  assumes "stepper legacy s = (Inl e, s')"
  shows "executed_instructions (sys_cpu s') = executed_instructions (sys_cpu s)"
    and "interpreted_instructions (sys_cpu s') = interpreted_instructions (sys_cpu s)"
    and "lifted_instructions (sys_cpu s') = lifted_instructions (sys_cpu s)"
    and "ip (sys_cpu s') = ip (sys_cpu s)"
  using stepper_counters [OF _ assms, of "executed_instructions (sys_cpu s)"
      "interpreted_instructions (sys_cpu s)" "lifted_instructions (sys_cpu s)"]
  by (auto simp: counters_def)

lemma run_loop_decreases:
  assumes "executed_instructions (sys_cpu s) - start_count < limit"
    and "stepper legacy s = (Inr event, s')"
  shows "unat limit - unat (executed_instructions (sys_cpu s') - start_count) <
         unat limit - unat (executed_instructions (sys_cpu s) - start_count)"
proof -
  have "executed_instructions (sys_cpu s') - start_count =
      (executed_instructions (sys_cpu s) - start_count) + 1"
    unfolding stepper_ok_counters(1) [OF assms(2)] by (simp add: algebra_simps)
  then have "unat (executed_instructions (sys_cpu s') - start_count) =
      Suc (unat (executed_instructions (sys_cpu s) - start_count))"
    by (simp only: unat_add_one_less [OF assms(1)])
  then show ?thesis using assms(1) unfolding word_less_nat_alt by linarith
qed

text \<open>The \<open>while\<close> loop: the halt reason, the status, and the state and user data it leaves.\<close>

function run_loop ::
  "bool \<Rightarrow> 't vf2_i960_run_options \<Rightarrow> u64 \<Rightarrow> 'h sys \<Rightarrow> 't \<Rightarrow>
   (vf2_i960_halt_reason \<times> vf2_status) \<times> 'h sys \<times> 't" where
  "run_loop legacy opts start_count s t =
     (if executed_instructions (sys_cpu s) - start_count < max_steps opts then
        if stop_address opts \<noteq> 0 \<and> ip (sys_cpu s) = stop_address opts
        then ((HALT_STOP_ADDRESS, VF2_OK), s, t)
        else
          (case stepper legacy s of
             (Inl status, s') \<Rightarrow>
               ((if status = VF2_ERROR_OUT_OF_BOUNDS then HALT_MEMORY_FAULT
                 else HALT_UNSUPPORTED_INSTRUCTION, status), s', t)
           | (Inr event, s') \<Rightarrow>
               let t' = (case trace_callback opts of None \<Rightarrow> t | Some cb \<Rightarrow> cb event (sys_cpu s') t)
               in if stop_on_self_branch opts \<and> ip_after event = ip_before event
                  then ((HALT_SELF_BRANCH, VF2_OK), s', t')
                  else run_loop legacy opts start_count s' t')
      else ((HALT_NONE, VF2_OK), s, t))"
  by pat_completeness auto

termination
  by (relation "measure (\<lambda>(legacy, opts, start_count, s, t).
      unat (max_steps opts) - unat (executed_instructions (sys_cpu s) - start_count))")
    (auto intro: run_loop_decreases dest: sym)

declare run_loop.simps [simp del]

definition default_options :: "'t vf2_i960_run_options" where
  "default_options = \<lparr>stop_address = 0, max_steps = 2000000, stop_on_self_branch = True,
                      trace_callback = None\<rparr>"

definition vf2_i960_run ::
  "bool \<Rightarrow> 't vf2_i960_run_options option \<Rightarrow> 'h sys \<Rightarrow> 't \<Rightarrow>
   vf2_i960_run_result \<times> 'h sys \<times> 't" where
  "vf2_i960_run legacy options s t =
     (let opts = (case options of
                    None \<Rightarrow> default_options
                  | Some given \<Rightarrow> if max_steps given = 0 then given\<lparr>max_steps := 2000000\<rparr> else given);
          start_count = executed_instructions (sys_cpu s)
      in case run_loop legacy opts start_count s t of
           ((reason, status), s', t') \<Rightarrow>
             (\<lparr>halt_reason = (if reason = HALT_NONE then HALT_MAX_STEPS else reason),
               run_status = status, halt_address = ip (sys_cpu s'),
               run_executed = executed_instructions (sys_cpu s') - start_count\<rparr>, s', t'))"

section \<open>Invariants of steps and runs\<close>

text \<open>
  A property that every instruction keeps and that does not depend on the retirement counters
  is kept by both steppers and by every run.
\<close>

locale step_invariant = instruction_invariant P for P :: "'h sys \<Rightarrow> bool" +
  assumes inv_retire: "P s \<Longrightarrow> P (s\<lparr>sys_cpu := retire (sys_cpu s)\<rparr>)"
begin

lemma inv_literal_fill:
  assumes "P s" and "d + n \<le> 32" and "0 < n"
  shows "P (s\<lparr>sys_cpu := literal_fill d n v (sys_cpu s)\<rparr>)"
proof -
  have "P (s\<lparr>sys_cpu := put_register d v (sys_cpu s)\<rparr>)"
    using assms by (intro inv_register) auto
  moreover have "\<exists>r w. r < 32 \<and> put_register (d + k) 0 c = put_register r w c"
    if "k \<in> set [1..<n]" for k c
    using that assms(2) by (intro exI [of _ "d + k"] exI [of _ 0]) auto
  ultimately show ?thesis
    using inv_fold_registers [of "s\<lparr>sys_cpu := put_register d v (sys_cpu s)\<rparr>" "[1..<n]"
        "\<lambda>k. put_register (d + k) 0"]
    by (simp add: literal_fill_def)
qed

lemma inv_run_literal:
  assumes "P s" and "d + n \<le> 32" and "0 < n"
  shows "P (snd (run_literal i d n v s))"
  using inv_retire [OF inv_ip [OF inv_literal_fill [OF assms]]]
  by (simp add: run_literal_def Let_def)

lemma inv_run_fetched:
  assumes "P s" and "operands_ok i"
  shows "P (snd (run_fetched i s))"
proof -
  let ?n = "ip (sys_cpu s) + ucast (i_size i)"
  from preservesD [OF preserves_execute_instruction [OF assms(2)] inv_ip [OF assms(1)], of ?n ?n]
  show ?thesis
    by (auto simp: run_fetched_def Let_def split: prod.split sum.split intro: inv_ip inv_retire)
qed

lemma multi_count_positive: "0 < multi_count mn"
  by (simp add: multi_count_def)

lemma literal_count: "literal_multi_move i = Some (d, n, v) \<Longrightarrow> 0 < n"
  by (auto simp: literal_multi_move_def multi_count_positive
      split: if_splits vf2_i960_operand_value.splits)

lemma preserves_step_legacy: "preserves P vf2_i960_step_legacy"
proof -
  have "P (snd (vf2_i960_step_legacy s))" if "P s" for s
  proof (cases "fst (fetch s)")
    case (Inl e)
    then show ?thesis using that by (cases "fetch s") (simp add: step_legacy_cases)
  next
    case (Inr i)
    then have f: "fetch s = (Inr i, s)" using fetch_state by (metis prod.collapse)
    then have "operands_ok i" using fetch_ok instruction_ok_operands by blast
    then show ?thesis
      using f that inv_run_fetched inv_run_literal literal_count
      by (auto simp: step_legacy_cases split: option.split)
  qed
  then show ?thesis by (simp add: preserves_def)
qed

lemma preserves_arch_fix:
  "preserves P (arch_fix_direct_compare event i before first second)"
  "preserves P (arch_fix_ordered event i before)"
  unfolding arch_fix_direct_compare_def arch_fix_ordered_def arch_set_ip_def Let_def
  by (intro preserves_intros; (rule preserves_cpu_mod)?;
      auto simp: arch_set_compare_def Let_def intro: inv_compare_ac)+

lemma preserves_arch_literal: "preserves P (arch_execute_literal_multi_move i before)"
proof -
  have "P (snd (arch_execute_literal_multi_move i before s))" if "P s" for s
    using that inv_retire [OF inv_ip [OF inv_literal_fill [OF that]]] multi_count_positive
    by (auto simp: arch_execute_literal_multi_move_def Let_def
        split: vf2_i960_operand_value.split)
  then show ?thesis by (simp add: preserves_def)
qed

lemma preserves_fetch: "preserves P fetch"
  by (simp add: preserves_def)

lemma preserves_direct_operands: "preserves P (direct_operands i)"
  by (simp add: preserves_def)

lemma preserves_step: "preserves P vf2_i960_step"
  unfolding vf2_i960_step_def split_def
  by (intro preserves_intros preserves_fetch preserves_direct_operands preserves_arch_literal
      preserves_step_legacy preserves_arch_fix)

lemma preserves_stepper: "preserves P (stepper legacy)"
  by (simp add: stepper_def preserves_step preserves_step_legacy)

lemma run_loop_keeps: "P s \<Longrightarrow> P (fst (snd (run_loop legacy opts start_count s t)))"
proof (induction legacy opts start_count s t rule: run_loop.induct)
  case (1 legacy opts start_count s t)
  show ?case
  proof (cases "stepper legacy s")
    case (Pair r s')
    then have "P s'" using preservesD_eq [OF preserves_stepper _ 1(2)] by blast
    then show ?thesis
      using 1 Pair by (subst run_loop.simps) (auto simp: Let_def split: sum.split)
  qed
qed

lemma run_keeps: "P s \<Longrightarrow> P (fst (snd (vf2_i960_run legacy options s t)))"
  by (simp add: vf2_i960_run_def Let_def split_def run_loop_keeps)

end

interpretation board_step: step_invariant "board_kept m0 nan"
  by unfold_locales (simp add: board_kept_def)

interpretation frames_step: step_invariant frames_ok
  by unfold_locales (simp add: frames_ok_def frame_stack_ok_def retire_def)

interpretation arrays_step: step_invariant "arrays_ok g h"
  by unfold_locales (simp add: arrays_ok_def retire_def)

section \<open>How far a run goes\<close>

lemma run_loop_bound:
  assumes "executed_instructions (sys_cpu s) - start_count \<le> max_steps opts"
    and "run_loop legacy opts start_count s t = ((reason, status), s', t')"
  shows "executed_instructions (sys_cpu s') - start_count \<le> max_steps opts \<and>
    (reason = HALT_NONE \<longleftrightarrow> executed_instructions (sys_cpu s') - start_count = max_steps opts \<and>
       status = VF2_OK \<and> reason = HALT_NONE) \<and>
    (reason = HALT_STOP_ADDRESS \<longrightarrow> ip (sys_cpu s') = stop_address opts \<and> status = VF2_OK) \<and>
    (status \<noteq> VF2_OK \<longrightarrow> reason \<in> {HALT_MEMORY_FAULT, HALT_UNSUPPORTED_INSTRUCTION})"
  using assms
proof (induction legacy opts start_count s t rule: run_loop.induct)
  case (1 legacy opts start_count s t)
  let ?n = "executed_instructions (sys_cpu s) - start_count"
  show ?case
  proof (cases "?n < max_steps opts \<and> \<not> (stop_address opts \<noteq> 0 \<and> ip (sys_cpu s) = stop_address opts)")
    case False
    then show ?thesis using 1(2,3) by (subst (asm) run_loop.simps) (auto split: if_splits)
  next
    case True
    then have lt: "?n < max_steps opts"
      and go: "\<not> (stop_address opts \<noteq> 0 \<and> ip (sys_cpu s) = stop_address opts)" by auto
    obtain r s1 where st: "stepper legacy s = (r, s1)" by fastforce
    show ?thesis
    proof (cases r)
      case (Inl e)
      then show ?thesis
        using 1(2,3) lt go st stepper_error_counters(1) [of legacy s e s1]
        by (subst (asm) run_loop.simps) (auto split: if_splits)
    next
      case (Inr event)
      have e: "executed_instructions (sys_cpu s1) - start_count = ?n + 1"
        using stepper_ok_counters(1) [of legacy s event s1] st Inr by (simp add: algebra_simps)
      have le: "executed_instructions (sys_cpu s1) - start_count \<le> max_steps opts"
        unfolding e using lt by (rule inc_le)
      let ?t = "case trace_callback opts of None \<Rightarrow> t | Some cb \<Rightarrow> cb event (sys_cpu s1) t"
      show ?thesis
      proof (cases "stop_on_self_branch opts \<and> ip_after event = ip_before event")
        case True
        then show ?thesis
          using 1(3) lt go st Inr le by (subst (asm) run_loop.simps) (auto simp: Let_def)
      next
        case False
        then have "run_loop legacy opts start_count s1 ?t = ((reason, status), s', t')"
          using 1(3) lt go st Inr by (subst (asm) run_loop.simps) (auto simp: Let_def)
        from 1(1) [OF lt go st [symmetric] Inr refl False le this] show ?thesis .
      qed
    qed
  qed
qed

end
