(* ===== verification/Vf2_I960_Arith.thy ===== *)
theory Vf2_I960_Arith
  imports Vf2_I960_Executor
begin

text \<open>
  The arithmetic of the interpreter against mathematical integers: multi-word addition and
  subtraction with the carry bit, the signed, unsigned and extended divisions, and the shift
  that divides. \<open>supplies\<close> and \<open>receives\<close> describe operands that can be read and written.
\<close>

section \<open>Carry chains\<close>

definition join64 :: "u32 \<Rightarrow> u32 \<Rightarrow> u64" where
  "join64 high low = push_bit 32 (ucast high) OR ucast low"

lemma small_sum: "a < 2 ^ 32 \<Longrightarrow> b < 2 ^ 32 \<Longrightarrow> c \<le> 1 \<Longrightarrow> a + b + c < (2 :: nat) ^ 64"
  by simp

lemma unat_join64: "unat (join64 high low) = unat high * 2 ^ 32 + unat low"
proof -
  have "(push_bit 32 (ucast high) :: u64) AND ucast low = 0"
    by (rule bit_word_eqI) (auto simp: bit_simps dest: bit_imp_le_length)
  then have "join64 high low = push_bit 32 (ucast high) + ucast low"
    by (simp add: join64_def disjunctive_add_eq_or)
  moreover have "unat (push_bit 32 (ucast high) :: u64) = unat high * 2 ^ 32"
    using unat_less_u32 [of high]
    by (simp add: push_bit_eq_mult unat_word_ariths unsigned_ucast_eq take_bit_nat_eq_self)
  moreover have "unat high * 2 ^ 32 + unat low < 2 ^ 64"
  proof -
    have "unat high * 4294967296 + unat low < 18446744073709551616"
      using unat_less_u32 [of high] unat_less_u32 [of low] by linarith
    then show ?thesis by simp
  qed
  ultimately show ?thesis
    by (simp only: unat_add_u64 unat_ucast_u64)
qed

definition carry_flag :: "u32 \<Rightarrow> nat" where
  "carry_flag ac = of_bool (bit ac 1)"

definition overflow_flag :: "u32 \<Rightarrow> bool" where
  "overflow_flag ac = bit ac 0"

lemma carry_in: "unat (drop_bit (Suc 0) ac AND 1 :: u32) = carry_flag ac"
  by (simp add: carry_flag_def and_one_eq mod_2_eq_odd bit_iff_odd_drop_bit)

lemma set_flags:
  "bit (if d then (if b then (ac AND NOT 3) OR 2 else ac AND NOT 3) OR (1 :: u32)
        else (if b then (ac AND NOT 3) OR 2 else ac AND NOT 3)) 1 = b"
  "bit (if d then (if b then (ac AND NOT 3) OR 2 else ac AND NOT 3) OR (1 :: u32)
        else (if b then (ac AND NOT 3) OR 2 else ac AND NOT 3)) 0 = d"
  by (auto simp: bit_simps)

lemma drop_32_zero: "drop_bit 32 (w :: u64) = 0 \<longleftrightarrow> unat w < 2 ^ 32"
  by (simp add: word_unat_eq_iff unat_drop_bit_eq drop_bit_eq_div unat_div div_eq_0_iff)

lemma low_word: "unat (ucast (w :: u64) :: u32) = unat w mod 2 ^ 32"
  by (simp add: unsigned_ucast_eq take_bit_eq_mod)

lemma unat_pow32: "unat (w :: u32) < 2 ^ 32"
  by simp

lemma carry_out: "s < 2 * m \<Longrightarrow> s mod m + m * of_bool (\<not> s < m) = (s :: nat)"
  by (simp add: le_mod_geq)

lemma borrow_out:
  assumes "s < 2 ^ 32" and "s < t" and "t \<le> (2 :: nat) ^ 32"
  shows "(s + 2 ^ 64 - t) mod 2 ^ 32 = s + 2 ^ 32 - t" and "\<not> s + 2 ^ 64 - t < 2 ^ 32"
proof -
  have "s + 2 ^ 64 - t = (s + 2 ^ 32 - t) + (2 ^ 32 - 1) * 2 ^ 32" using assms by simp
  moreover have "s + 2 ^ 32 - t < 2 ^ 32" using assms by simp
  ultimately show "(s + 2 ^ 64 - t) mod 2 ^ 32 = s + 2 ^ 32 - t"
    by (metis mod_less mod_mult_self1)
  show "\<not> s + 2 ^ 64 - t < 2 ^ 32" using assms by simp
qed

lemma addc_value:
  assumes "addc_result ac first second = (result, ac')"
  shows "unat result + 2 ^ 32 * carry_flag ac' = unat second + unat first + carry_flag ac"
proof -
  let ?w = "ucast second + ucast first + ucast (drop_bit 1 ac AND 1) :: u64"
  have c: "carry_flag ac \<le> 1" by (simp add: carry_flag_def)
  have w: "unat ?w = unat second + unat first + carry_flag ac"
    using small_sum [of "unat second" "unat first", OF _ _ c] unsigned_less [of first] unsigned_less [of second]
    by (simp add: unat_word_ariths carry_in mod_add_left_eq)
  have "fst (addc_result ac first second) = ucast ?w"
    by (simp add: addc_result_def Let_def)
  moreover have "carry_flag (snd (addc_result ac first second)) = of_bool (drop_bit 32 ?w \<noteq> 0)"
    unfolding addc_result_def Let_def snd_conv carry_flag_def set_flags(1) ..
  ultimately have "result = ucast ?w" "carry_flag ac' = of_bool (drop_bit 32 ?w \<noteq> 0)"
    by (simp_all add: assms)
  moreover have "unat second + unat first + carry_flag ac < 2 * 2 ^ 32"
    using unat_pow32 [of first] unat_pow32 [of second] c by linarith
  ultimately show ?thesis
    using carry_out [of "unat second + unat first + carry_flag ac" "2 ^ 32"]
    by (simp only: drop_32_zero low_word w)
qed

lemma subc_value:
  assumes "subc_result ac first second = (result, ac')"
  shows "unat result + (unat first + carry_flag ac) = unat second + 2 ^ 32 * carry_flag ac'"
proof -
  let ?x = "ucast second :: u64" and ?y = "ucast first + ucast (drop_bit 1 ac AND 1) :: u64"
  have c: "carry_flag ac \<le> 1" by (simp add: carry_flag_def)
  have y: "unat ?y = unat first + carry_flag ac"
    using small_sum [of "unat first" 0, OF _ _ c] unsigned_less [of first]
    by (simp add: unat_word_ariths carry_in)
  have w: "unat (?x - ?y) = (if unat first + carry_flag ac \<le> unat second
      then unat second - (unat first + carry_flag ac)
      else unat second + 2 ^ 64 - (unat first + carry_flag ac))"
    unfolding unat_sub_if' word_le_nat_alt y unat_ucast_u64 by simp
  have "fst (subc_result ac first second) = ucast (?x - ?y)"
    by (simp add: subc_result_def Let_def)
  moreover have "carry_flag (snd (subc_result ac first second)) = of_bool (drop_bit 32 (?x - ?y) \<noteq> 0)"
    unfolding subc_result_def Let_def snd_conv carry_flag_def set_flags(1) ..
  ultimately have "result = ucast (?x - ?y)" "carry_flag ac' = of_bool (drop_bit 32 (?x - ?y) \<noteq> 0)"
    by (simp_all add: assms)
  then have r: "unat result = unat (?x - ?y) mod 2 ^ 32"
    "carry_flag ac' = of_bool (\<not> unat (?x - ?y) < 2 ^ 32)"
    by (simp_all only: drop_32_zero low_word)
  show ?thesis
  proof (cases "unat first + carry_flag ac \<le> unat second")
    case True
    then have "unat (?x - ?y) < 2 ^ 32" unfolding w using unat_pow32 [of second] by (simp only: if_True)
    then show ?thesis using r w True by simp
  next
    case False
    moreover have "unat first + carry_flag ac \<le> 2 ^ 32" using unat_pow32 [of first] c by linarith
    ultimately show ?thesis
      using r w borrow_out [of "unat second" "unat first + carry_flag ac"] by auto
  qed
qed

section \<open>Division\<close>

lemma sint_range: "- (2 ^ 31) \<le> sint (x :: u32)" "sint (x :: u32) < 2 ^ 31"
  using sint_greater_eq [of x] sint_less [of x] by simp_all

lemma sint_of_int: "- (2 ^ 31) \<le> k \<Longrightarrow> k < 2 ^ 31 \<Longrightarrow> sint (word_of_int k :: u32) = k"
  by (simp add: sint_sbintrunc' signed_take_bit_int_eq_self)

lemma sdiv_power_of_two:
  "(k :: int) sdiv 2 ^ n = (if k \<ge> 0 then k else k + (2 ^ n - 1)) div 2 ^ n"
proof -
  let ?l = "2 ^ n :: int"
  have l: "0 < ?l" by simp
  have "(k + (?l - 1)) div ?l = k div ?l + of_bool (\<not> ?l dvd k)"
  proof -
    have k: "k = ?l * (k div ?l) + k mod ?l" "0 \<le> k mod ?l" "k mod ?l < ?l" using l by auto
    have "(k + (?l - 1)) div ?l = (?l * (k div ?l) + (k mod ?l + (?l - 1))) div ?l"
      using k(1) by (metis add.assoc)
    also have "\<dots> = k div ?l + (k mod ?l + (?l - 1)) div ?l"
      using l by (intro div_mult_self4 [THEN trans]) auto
    also have "(k mod ?l + (?l - 1)) div ?l = of_bool (k mod ?l \<noteq> 0)"
    proof (cases "k mod ?l = 0")
      case False
      then have "(k mod ?l - 1) div ?l = 0" using k(2,3) by (intro div_pos_pos_trivial) linarith+
      moreover have "(k mod ?l - 1 + ?l) div ?l = (k mod ?l - 1) div ?l + 1"
        by (rule div_add_self2) simp
      ultimately have "(k mod ?l - 1 + ?l) div ?l = 1" by simp
      moreover have "k mod ?l + (?l - 1) = k mod ?l - 1 + ?l" by simp
      ultimately show ?thesis using False by (simp only: of_bool_eq not_False_eq_True simp_thms)
    qed (simp add: div_pos_pos_trivial)
    finally show ?thesis by (simp add: dvd_eq_mod_eq_0)
  qed
  then show ?thesis
    by (cases "k = 0") (auto simp: signed_divide_int_eq_divide_int sgn_if)
qed

lemma shrdi_sdiv:
  assumes "first < 32"
  shows "sint (shrdi first second) = sint second sdiv 2 ^ unat first"
proof -
  have n: "unat first < 32" using assms by (simp add: word_less_nat_alt)
  show ?thesis
  proof (cases "first = 0 \<or> sint second \<ge> 0")
    case True
    then show ?thesis
      using assms by (auto simp: shrdi_def sint_signed_drop_bit_eq drop_bit_eq_div sdiv_power_of_two)
  next
    case False
    let ?b = "2 ^ unat first - 1 :: int"
    have two: "1 \<le> (2 :: int) ^ unat first" by simp
    have "(2 :: int) ^ unat first \<le> 2 ^ 31" using n by (intro power_increasing) auto
    then have "sint (word_of_int (sint second + ?b) :: u32) = sint second + ?b"
      using False sint_range [of second] by (intro sint_of_int) (use two in linarith)+
    moreover have "second + (push_bit (unat first) 1 - 1) = word_of_int (sint second + ?b)"
      by (simp add: push_bit_eq_mult)
    ultimately show ?thesis
      using assms False by (simp add: shrdi_def sint_signed_drop_bit_eq drop_bit_eq_div sdiv_power_of_two)
  qed
qed

lemma sdiv_in_range:
  assumes "(a :: int) \<noteq> 0" and "- (2 ^ 31) \<le> b" and "b < 2 ^ 31" and "\<not> (b = - (2 ^ 31) \<and> a = - 1)"
  shows "- (2 ^ 31) \<le> b sdiv a \<and> b sdiv a < 2 ^ 31"
proof (cases "b = - (2 ^ 31)")
  case False
  then show ?thesis using sdiv_int_range [of b a] assms by auto
next
  case True
  then have "a \<noteq> - 1" using assms by simp
  show ?thesis
  proof (cases "a = 1")
    case False
    then have "2 \<le> \<bar>a\<bar>" using \<open>a \<noteq> - 1\<close> assms(1) by linarith
    then have "\<bar>b\<bar> div \<bar>a\<bar> < 2 ^ 31" using True int_div_less_self [of "2 ^ 31" "\<bar>a\<bar>"] by simp
    moreover have "0 \<le> \<bar>b\<bar> div \<bar>a\<bar>" using assms(1) by (simp add: pos_imp_zdiv_nonneg_iff)
    ultimately show ?thesis by (auto simp: signed_divide_int_def sgn_if)
  qed (simp add: True)
qed

lemma smod_in_range:
  assumes "(a :: int) \<noteq> 0" and "- (2 ^ 31) \<le> a" and "a < 2 ^ 31"
  shows "- (2 ^ 31) \<le> b smod a \<and> b smod a < 2 ^ 31"
  using smod_int_range [of a b] assms by auto


lemma divide_values:
  assumes "first \<noteq> 0"
  shows "sint (divide_result ''divi'' first second) = signed_take_bit 31 (sint second sdiv sint first)"
    and "sint (divide_result ''remi'' first second) = sint second smod sint first"
    and "sint (divide_result ''modi'' first second) = sint second mod sint first"
    and "unat (divide_result ''divo'' first second) = unat second div unat first"
    and "unat (divide_result ''remo'' first second) = unat second mod unat first"
proof -
  let ?a = "sint first" and ?b = "sint second"
  note ranges = sint_range [of first] sint_range [of second]
  have nz: "?a \<noteq> 0" using assms by (simp add: signed_eq_0_iff)
  show "sint (divide_result ''divi'' first second) = signed_take_bit 31 (?b sdiv ?a)"
    by (simp add: divide_result_def Let_def sint_sbintrunc')
  have one: "k smod 1 = 0" for k :: int by (simp add: signed_modulo_int_def)
  have r: "sint (word_of_int (?b smod ?a) :: u32) = ?b smod ?a"
    using smod_in_range [OF nz ranges(1,2), of ?b] by (intro sint_of_int) auto
  show "sint (divide_result ''remi'' first second) = ?b smod ?a"
    using r by (auto simp: divide_result_def Let_def one)
  have m: "sint (word_of_int (?b mod ?a) :: u32) = ?b mod ?a"
  proof (rule sint_of_int)
    have "\<bar>?b mod ?a\<bar> < \<bar>?a\<bar>" using nz by (rule abs_mod_less)
    then show "- (2 ^ 31) \<le> ?b mod ?a" "?b mod ?a < 2 ^ 31" using ranges by linarith+
  qed
  have fm: "(if ?b smod ?a \<noteq> 0 \<and> (?b smod ?a < 0) \<noteq> (?a < 0) then ?b smod ?a + ?a else ?b smod ?a) =
      ?b mod ?a"
  proof (cases "?a dvd ?b")
    case True
    then have "?b mod ?a = 0" "?b smod ?a = 0"
      by (simp_all add: signed_modulo_int_eq_modulo_int)
    then show ?thesis by simp
  next
    case False
    have "?b smod ?a \<noteq> 0" "(?b smod ?a < 0) = (?b < 0)"
    proof -
      have "\<bar>?b\<bar> mod \<bar>?a\<bar> \<noteq> 0"
        using False by (simp flip: dvd_eq_mod_eq_0)
      then have "0 < \<bar>?b\<bar> mod \<bar>?a\<bar>"
        using nz pos_mod_sign [of "\<bar>?a\<bar>" "\<bar>?b\<bar>"] by linarith
      then show "?b smod ?a \<noteq> 0" "(?b smod ?a < 0) = (?b < 0)"
        by (auto simp: signed_modulo_int_def sgn_if)
    qed
    then show ?thesis
      using False nz by (auto simp: modulo_int_eq_signed_modulo_int sgn_if)
  qed
  show "sint (divide_result ''modi'' first second) = ?b mod ?a"
    using m fm by (auto simp: divide_result_def Let_def)
  show "unat (divide_result ''divo'' first second) = unat second div unat first"
    "unat (divide_result ''remo'' first second) = unat second mod unat first"
    by (simp_all add: divide_result_def unat_div unat_mod)
qed


section \<open>Operands and destinations\<close>

definition supplies :: "vf2_i960_instruction \<Rightarrow> nat \<Rightarrow> 'h sys \<Rightarrow> u32 \<Rightarrow> bool" where
  "supplies i k s v \<longleftrightarrow> operand_value (operands i k) (sys_cpu s) = (Inr v, sys_cpu s)"

definition receives :: "vf2_i960_instruction \<Rightarrow> nat \<Rightarrow> nat \<Rightarrow> bool" where
  "receives i k d \<longleftrightarrow> register_operand (operands i k) = Some d \<and> d < 32"

definition with_register :: "nat \<Rightarrow> u32 \<Rightarrow> 'h sys \<Rightarrow> 'h sys" where
  "with_register d v s = s\<lparr>sys_cpu := put_register d v (sys_cpu s)\<rparr>"

lemma operand_supplies [simp]: "supplies i k s v \<Longrightarrow> operand i k s = (Inr v, s)"
  by (simp add: supplies_def operand_def on_cpu_def)

lemma put_operand_receives [simp]: "receives i k d \<Longrightarrow> put_operand i k v s = (Inr (), with_register d v s)"
  by (auto simp: receives_def put_operand_def on_cpu_def set_register_def register_operand_def
      with_register_def split: vf2_i960_operand_value.splits)

section \<open>What the arithmetic instructions compute\<close>

text \<open>The dispatcher on a mnemonic of a known group.\<close>

lemma execute_divide_dispatch:
  "mnemonic i \<in> {''divo'', ''divi'', ''remo'', ''remi'', ''modi''} \<Longrightarrow>
     execute_instruction i n = execute_divide i"
  by (auto simp: execute_instruction_def alu_mnemonics_def)

lemma execute_alu_dispatch:
  "mnemonic i = ''shrdi'' \<Longrightarrow> execute_instruction i n = execute_alu i"
  by (simp add: execute_instruction_def alu_mnemonics_def)

lemma execute_ediv_dispatch: "mnemonic i = ''ediv'' \<Longrightarrow> execute_instruction i n = execute_ediv i"
  by (simp add: execute_instruction_def alu_mnemonics_def)

definition division_spec :: "string \<Rightarrow> u32 \<Rightarrow> u32 \<Rightarrow> int" where
  "division_spec mn first second =
     (if mn = ''divo'' then uint second div uint first
      else if mn = ''remo'' then uint second mod uint first
      else if mn = ''divi'' then sint second sdiv sint first
      else if mn = ''remi'' then sint second smod sint first
      else sint second mod sint first)"

lemma divide_result_spec:
  assumes "first \<noteq> 0" and "mn \<in> {''divo'', ''divi'', ''remo'', ''remi'', ''modi''}"
  shows "divide_result mn first second = word_of_int (division_spec mn first second)"
proof -
  note v = divide_values [OF assms(1), of second]
  have s: "w = word_of_int k" if "sint w = k" for w :: u32 and k
    using that by auto
  have u: "w = word_of_int (int k)" if "unat w = k" for w :: u32 and k
    using that by auto
  have d: "divide_result ''divi'' first second = word_of_int (sint second sdiv sint first)"
    by (auto simp: divide_result_def Let_def)
  show ?thesis
    using assms(2) s [OF v(2)] s [OF v(3)] u [OF v(4)] u [OF v(5)] d
    by (auto simp: division_spec_def zdiv_int zmod_int)
qed


lemma bit_31_iff: "bit (x :: u32) 31 \<longleftrightarrow> 2 ^ 31 \<le> unat x"
proof -
  have "bit x 31 \<longleftrightarrow> odd (unat x div 2 ^ 31)" 
    using bit_unsigned_iff [of x 31, where ?'a = nat] by (simp add: bit_iff_odd)
  moreover have "unat x div 2 ^ 31 = of_bool (2 ^ 31 \<le> unat x)"
  proof (cases "2 ^ 31 \<le> unat x")
    case True
    then have "unat x div 2 ^ 31 = Suc ((unat x - 2 ^ 31) div 2 ^ 31)" by (simp add: le_div_geq)
    moreover have "unat x - 2147483648 < 2147483648" using unat_less_u32 [of x] True by linarith
    ultimately show ?thesis using True by simp
  qed simp
  ultimately show ?thesis by simp
qed

lemma sint_unat: "sint (x :: u32) = int (unat x) - 2 ^ 32 * of_bool (2 ^ 31 \<le> unat x)"
proof -
  have "take_bit 32 (uint x) = uint x"
    using unsigned_less [of x, where ?'a = int] by (intro take_bit_int_eq_self) simp_all
  moreover have "sint x = take_bit 32 (uint x) - 2 ^ 32 * of_bool (bit x 31)"
    by (simp add: sint_uint signed_take_bit_eq_take_bit_minus bit_uint_iff)
  ultimately show ?thesis unfolding bit_31_iff by simp
qed

text \<open>The overflow bit: the signed sum, or difference, does not fit.\<close>

lemma sign_of_and: "(x AND y AND 0x80000000 \<noteq> (0 :: u32)) \<longleftrightarrow> bit x 31 \<and> bit y 31"
  using bit_iff_and_push_bit_not_eq_0 [of "x AND y" 31] by (simp add: bit_and_iff and.assoc)

lemma overflow_cases:
  assumes "r + 4294967296 * c' = a + b + c" and "r < 4294967296" and "a < 4294967296"
    and "b < 4294967296" and "c \<le> (1 :: nat)"
  shows "((2147483648 \<le> r) \<noteq> (2147483648 \<le> a) \<and> (2147483648 \<le> r) \<noteq> (2147483648 \<le> b)) \<longleftrightarrow>
    int r - 4294967296 * of_bool (2147483648 \<le> r) \<noteq>
    int a - 4294967296 * of_bool (2147483648 \<le> a) + (int b - 4294967296 * of_bool (2147483648 \<le> b)) + int c"
proof -
  have "c' < 2" using assms by linarith
  then consider "c' = 0" | "c' = 1" by linarith
  then show ?thesis
    using assms
    by cases (cases "2147483648 \<le> r"; cases "2147483648 \<le> a"; cases "2147483648 \<le> b"; simp; linarith)+
qed

lemma addc_overflow:
  assumes "addc_result ac first second = (result, ac')"
  shows "overflow_flag ac' \<longleftrightarrow> sint result \<noteq> sint second + sint first + int (carry_flag ac)"
proof -
  have "overflow_flag (snd (addc_result ac first second)) \<longleftrightarrow>
      bit (fst (addc_result ac first second) XOR first) 31 \<and> bit (fst (addc_result ac first second) XOR second) 31"
    unfolding addc_result_def Let_def snd_conv fst_conv overflow_flag_def set_flags(2) sign_of_and ..
  then have o: "overflow_flag ac' \<longleftrightarrow> bit result 31 \<noteq> bit second 31 \<and> bit result 31 \<noteq> bit first 31"
    by (auto simp: assms bit_simps)
  have "carry_flag ac \<le> 1" by (simp add: carry_flag_def)
  moreover have "unat result + 4294967296 * carry_flag ac' = unat second + unat first + carry_flag ac"
    using addc_value [OF assms] by simp
  ultimately show ?thesis
    using overflow_cases [OF _ unat_less_u32 unat_less_u32 unat_less_u32]
    unfolding o bit_31_iff sint_unat by simp
qed


lemma subc_overflow:
  assumes "subc_result ac first second = (result, ac')"
  shows "overflow_flag ac' \<longleftrightarrow> sint result \<noteq> sint second - sint first - int (carry_flag ac)"
proof -
  have "overflow_flag (snd (subc_result ac first second)) \<longleftrightarrow>
      bit (second XOR first) 31 \<and> bit (second XOR fst (subc_result ac first second)) 31"
    unfolding subc_result_def Let_def snd_conv fst_conv overflow_flag_def set_flags(2) sign_of_and ..
  then have o: "overflow_flag ac' \<longleftrightarrow> bit second 31 \<noteq> bit first 31 \<and> bit second 31 \<noteq> bit result 31"
    by (auto simp: assms bit_simps)
  have "carry_flag ac \<le> 1" by (simp add: carry_flag_def)
  moreover have "unat second + 4294967296 * carry_flag ac' = unat first + unat result + carry_flag ac"
    using subc_value [OF assms] by simp
  ultimately have "overflow_flag ac' \<longleftrightarrow> sint second \<noteq> sint first + sint result + int (carry_flag ac)"
    using overflow_cases [OF _ unat_less_u32 unat_less_u32 unat_less_u32]
    unfolding o bit_31_iff sint_unat by simp
  then show ?thesis by linarith
qed

lemma join64_add:
  assumes "unat rl + 2 ^ 32 * c = unat bl + unat al" and "unat rh + 2 ^ 32 * c' = unat bh + unat ah + c"
  shows "join64 rh rl = join64 ah al + join64 bh bl"
    and "unat (join64 ah al) + unat (join64 bh bl) = unat (join64 rh rl) + 2 ^ 64 * c'"
proof -
  show e: "unat (join64 ah al) + unat (join64 bh bl) = unat (join64 rh rl) + 2 ^ 64 * c'"
    using assms by (simp add: unat_join64)
  have "unat (join64 ah al + join64 bh bl) = (unat (join64 ah al) + unat (join64 bh bl)) mod 2 ^ 64"
    by (simp add: unat_word_ariths)
  also have "\<dots> = unat (join64 rh rl)"
    unfolding e using unsigned_less [of "join64 rh rl", where ?'a = nat] by simp
  finally show "join64 rh rl = join64 ah al + join64 bh bl" by (simp add: word_unat_eq_iff)
qed

section \<open>Properties\<close>

text \<open>C17: \<open>addc\<close> and \<open>subc\<close> are carry and borrow chains: run on the low and then on the high words
  with a clear carry bit, they give the 64-bit sum and difference, the final carry bit is the
  carry (borrow) out of 64 bits, and each overflow bit says that the signed result does not fit.\<close>

theorem vf2_i960_carry_chain:
  assumes "carry_flag ac = 0"
  shows "let (rl, ac1) = addc_result ac al bl; (rh, ac2) = addc_result ac1 ah bh;
             (dl, ac3) = subc_result ac al bl; (dh, ac4) = subc_result ac3 ah bh
         in join64 rh rl = join64 ah al + join64 bh bl \<and>
            unat (join64 ah al) + unat (join64 bh bl) = unat (join64 rh rl) + 2 ^ 64 * carry_flag ac2 \<and>
            join64 dh dl = join64 bh bl - join64 ah al \<and>
            (carry_flag ac4 = 0 \<longleftrightarrow> join64 ah al \<le> join64 bh bl) \<and>
            (overflow_flag ac2 \<longleftrightarrow> sint rh \<noteq> sint bh + sint ah + int (carry_flag ac1)) \<and>
            (overflow_flag ac4 \<longleftrightarrow> sint dh \<noteq> sint bh - sint ah - int (carry_flag ac3))"
proof -
  obtain rl ac1 rh ac2 where add: "addc_result ac al bl = (rl, ac1)" "addc_result ac1 ah bh = (rh, ac2)"
    by fastforce
  obtain dl ac3 dh ac4 where sub: "subc_result ac al bl = (dl, ac3)" "subc_result ac3 ah bh = (dh, ac4)"
    by fastforce
  note a = join64_add [of rl "carry_flag ac1" bl al rh "carry_flag ac2" bh ah]
  note d = join64_add [of bl "carry_flag ac3" al dl bh "carry_flag ac4" ah dh]
  have d2: "join64 dh dl + join64 ah al = join64 bh bl"
    "unat (join64 dh dl) + unat (join64 ah al) = unat (join64 bh bl) + 2 ^ 64 * carry_flag ac4"
    using d subc_value [OF sub(1)] subc_value [OF sub(2)] assms by (simp_all add: ac_simps)
  have "carry_flag ac4 = 0 \<longleftrightarrow> join64 ah al \<le> join64 bh bl"
  proof (cases "carry_flag ac4 = 0")
    case True
    then show ?thesis using d2(2) by (simp add: word_le_nat_alt)
  next
    case False
    then have "carry_flag ac4 = 1" by (auto simp: carry_flag_def)
    then show ?thesis
      using d2(2) unsigned_less [of "join64 dh dl", where ?'a = nat] by (auto simp: word_le_nat_alt)
  qed
  moreover have "join64 dh dl = join64 bh bl - join64 ah al" using d2(1) by (simp add: eq_diff_eq)
  ultimately show ?thesis
    using a addc_value [OF add(1)] addc_value [OF add(2)] assms addc_overflow [OF add(2)] subc_overflow [OF sub(2)]
    by (simp add: add sub)
qed


lemma vf2_i960_carry_chain_witness:
  "let (rl, ac1) = addc_result 0 0xffffffff 1; (rh, ac2) = addc_result ac1 0x7fffffff 0
   in join64 rh rl = join64 0x7fffffff 0xffffffff + join64 0 1 \<and> overflow_flag ac2"
  using vf2_i960_carry_chain [of 0 "0xffffffff" 1 "0x7fffffff" 0]
  by (simp add: carry_flag_def Let_def split_def)
     (simp add: addc_result_def Let_def overflow_flag_def bit_0)

text \<open>C24: the integer divisions. A zero divisor is an error that leaves everything as it was;
  otherwise \<open>divo\<close> and \<open>remo\<close> divide the unsigned values, \<open>divi\<close> and \<open>remi\<close> truncate toward zero
  and \<open>modi\<close> takes the sign of the divisor, the most negative dividend by minus one included,
  where the quotient wraps.\<close>

theorem vf2_i960_division:
  assumes "mnemonic i \<in> {''divo'', ''divi'', ''remo'', ''remi'', ''modi''}"
    and "supplies i 0 s first" and "supplies i 1 s second" and "receives i 2 d"
  shows "execute_instruction i n s =
    (if first = 0 then (Inl VF2_ERROR_UNSUPPORTED, s)
     else (Inr (), with_register d (word_of_int (division_spec (mnemonic i) first second)) s))"
  using assms divide_result_spec [OF _ assms(1)]
  by (simp add: execute_divide_dispatch execute_divide_def)

text \<open>Concrete operands for the witnesses.\<close>

definition sample_instruction :: "string \<Rightarrow> u32 \<Rightarrow> u32 \<Rightarrow> u8 \<Rightarrow> vf2_i960_instruction" where
  "sample_instruction mn first second d =
     (init_instruction 0 0)\<lparr>mnemonic := mn,
       operands := (\<lambda>k. [make_literal first, make_literal second, make_register d True] ! k)\<rparr>"

definition sample_system :: "unit sys" where
  "sample_system = \<lparr>sys_cpu = zeroed_cpu, sys_machine = snd (vf2_model2a_initialize () (\<lambda>_. True)),
     sys_nan = (\<lambda>_ _ _. 0)\<rparr>"

lemma sample_operands:
  "supplies (sample_instruction mn first second d) 0 s first"
  "supplies (sample_instruction mn first second d) 1 s second"
  "unat d < 32 \<Longrightarrow> receives (sample_instruction mn first second d) 2 (unat d)"
  "mnemonic (sample_instruction mn first second d) = mn"
  by (simp_all add: sample_instruction_def supplies_def receives_def operand_value_def
      make_literal_def make_register_def register_operand_def empty_operand_def)

lemmas sample_rules = sample_operands(1,2,4) sample_operands(2) [unfolded One_nat_def]

lemma vf2_i960_division_witness:
  "execute_instruction (sample_instruction ''divi'' (- 1) 0x80000000 4) 4 sample_system =
     (Inr (), with_register 4 0x80000000 sample_system) \<and>
   execute_instruction (sample_instruction ''modi'' 3 (- 7) 5) 4 sample_system =
     (Inr (), with_register 5 2 sample_system)"
  using vf2_i960_division [of "sample_instruction ''divi'' (- 1) 0x80000000 4" sample_system "- 1" "0x80000000" 4 4]
    vf2_i960_division [of "sample_instruction ''modi'' 3 (- 7) 5" sample_system 3 "- 7" 5 4]
    sample_operands(3) [of 4 "''divi''"] sample_operands(3) [of 5 "''modi''"]
  by (simp add: sample_rules division_spec_def)

text \<open>C25: \<open>ediv\<close> divides the 64-bit value of a register pair by a word exactly when the quotient
  fits a word: then remainder and quotient are stored in the destination pair, and a zero
  divisor or a quotient out of range is an error that leaves everything as it was.\<close>

theorem vf2_i960_ediv:
  assumes "mnemonic i = ''ediv''" and "supplies i 0 s divisor"
    and "receives i 1 r" and "r + 1 < 32" and "receives i 2 d" and "d + 1 < 32"
  shows "let dividend = unat (join64 (registers (sys_cpu s) (r + 1)) (registers (sys_cpu s) r));
             quotient = dividend div unat divisor
         in execute_instruction i n s =
              (if divisor = 0 \<or> quotient \<ge> 2 ^ 32 then (Inl VF2_ERROR_UNSUPPORTED, s)
               else (Inr (), with_register (d + 1) (of_nat quotient)
                               (with_register d (of_nat (dividend mod unat divisor)) s)))"
proof -
  have q: "unat (j div ucast divisor) = unat j div unat divisor"
    "unat (j mod ucast divisor) = unat j mod unat divisor" for j :: u64
    by (simp_all add: unat_div unat_mod)
  have w: "ucast w = (of_nat k :: u32)" if "unat w = k" for w :: u64 and k
    using that by auto
  have le: "j div ucast divisor \<le> 0xffffffff \<longleftrightarrow> \<not> 2 ^ 32 \<le> unat j div unat divisor" for j :: u64
    unfolding word_le_nat_alt q(1) by auto
  have ops: "register_operand (operands i 1) = Some r" "register_operand (operands i 2) = Some d"
    using assms by (simp_all add: receives_def)
  show ?thesis
    unfolding execute_ediv_dispatch [OF assms(1)] execute_ediv_def ops option.case prod.case
    using assms(2,4,6)
    by (simp add: Let_def join64_def [symmetric] le w [OF q(1)] w [OF q(2)] with_register_def
        del: of_nat_div of_nat_mod)
qed

lemma vf2_i960_ediv_witness:
  "execute_instruction ((sample_instruction ''ediv'' 10 0 6)
       \<lparr>operands := (\<lambda>k. [make_literal 10, make_register 4 False, make_register 6 True] ! k)\<rparr>) 4
     (with_register 5 1 (with_register 4 4 sample_system)) =
   (Inr (), with_register 7 429496730 (with_register 6 0
     (with_register 5 1 (with_register 4 4 sample_system))))"
proof -
  let ?i = "(sample_instruction ''ediv'' 10 0 6)
       \<lparr>operands := (\<lambda>k. [make_literal 10, make_register 4 False, make_register 6 True] ! k)\<rparr>"
  let ?s = "with_register 5 1 (with_register 4 4 sample_system)"
  have "registers (sys_cpu ?s) 5 = 1" "registers (sys_cpu ?s) 4 = 4"
    by (simp_all add: with_register_def put_register_def)
  moreover have "mnemonic ?i = ''ediv''" "supplies ?i 0 ?s 10" "receives ?i 1 4" "receives ?i 2 6"
    by (simp_all add: sample_instruction_def supplies_def receives_def operand_value_def
        make_literal_def make_register_def register_operand_def empty_operand_def)
  ultimately show ?thesis
    using vf2_i960_ediv [of ?i ?s 10 4 6 4] by (simp add: Let_def unat_join64)
qed

text \<open>\<open>shrdi\<close> is the signed division by a power of two that rounds toward zero, for every count.\<close>

theorem vf2_i960_shrdi:
  assumes "mnemonic i = ''shrdi''" and "supplies i 0 s first" and "supplies i 1 s second"
    and "receives i 2 d"
  shows "execute_instruction i n s =
    (Inr (), with_register d (word_of_int (sint second sdiv 2 ^ unat first)) s)"
proof -
  have "shrdi first second = word_of_int (sint second sdiv 2 ^ unat first)"
  proof (cases "first < 32")
    case True
    then show ?thesis by (simp flip: shrdi_sdiv)
  next
    case False
    then have "32 \<le> unat first" by (simp add: word_less_nat_alt)
    then have "(2 :: int) ^ 32 \<le> 2 ^ unat first" by (intro power_increasing) auto
    then have "4294967296 \<le> (2 :: int) ^ unat first" by simp
    then have "\<bar>sint second\<bar> < 2 ^ unat first" using sint_range [of second] by simp
    then have "sint second sdiv 2 ^ unat first = 0" by (simp add: signed_divide_int_def)
    then show ?thesis using False by (auto simp: shrdi_def not_less)
  qed
  then show ?thesis
    using assms by (simp add: execute_alu_dispatch execute_alu_def alu_result_def)
qed

lemma vf2_i960_shrdi_witness:
  "execute_instruction (sample_instruction ''shrdi'' 1 (- 3) 4) 4 sample_system =
     (Inr (), with_register 4 (- 1) sample_system)"
  using vf2_i960_shrdi [of "sample_instruction ''shrdi'' 1 (- 3) 4" sample_system 1 "- 3" 4 4]
    sample_operands(3) [of 4 "''shrdi''"]
  by (simp add: sample_rules)

end
