(* ===== verification/Vf2_I960_Frames.thy ===== *)
theory Vf2_I960_Frames
  imports Vf2_I960_Run Vf2_I960_Arith
begin

text \<open>
  Procedure calls and interrupts as round trips. The memory an interrupt needs (the processor
  control block, the interrupt table, the frame below the new frame pointer) is used through the
  word store of work RAM.
\<close>

section \<open>Frame pointers\<close>

lemma frame_pointer_restored:
  assumes "fp AND 63 = (0 :: u32)"
  shows "((fp AND NOT 7) OR (t AND 7)) AND NOT 63 = fp"
proof -
  have m: "(63 :: u32) = mask 6" "(7 :: u32) = mask 3" by (simp_all add: mask_eq_exp_minus_1)
  show ?thesis
  proof (rule bit_word_eqI)
    fix n assume "n < LENGTH(32)"
    moreover have "n < 6 \<Longrightarrow> \<not> bit fp n"
      using assms unfolding m by (metis bit_and_iff bit_mask_iff bit_0_eq bot_apply bot_bool_def calculation possible_bit_word)
    ultimately show "bit (((fp AND NOT 7) OR (t AND 7)) AND NOT 63) n = bit fp n"
      unfolding m by (auto simp: bit_simps)
  qed
qed

lemma call_type_read: "((fp AND NOT 7) OR (t AND 7)) AND 7 = (t AND 7 :: u32)"
proof -
  have m: "(7 :: u32) = mask 3" by (simp add: mask_eq_exp_minus_1)
  show ?thesis unfolding m by (rule bit_word_eqI) (auto simp: bit_simps)
qed

lemma align_stack_frame_aligned: "align_stack_frame sp AND 63 = 0"
proof -
  have m: "(63 :: u32) = mask 6" by (simp add: mask_eq_exp_minus_1)
  show ?thesis unfolding align_stack_frame_def m by (rule bit_word_eqI) (auto simp: bit_simps)
qed

section \<open>Callers and callees\<close>

text \<open>The part of the processor that a callee may not touch: the register that holds the frame
  linkage, the depth, and the frames saved so far.\<close>

definition same_frames :: "vf2_i960_cpu \<Rightarrow> vf2_i960_cpu \<Rightarrow> bool" where
  "same_frames c c' \<longleftrightarrow> registers c' 0 = registers c 0 \<and> local_frame_depth c' = local_frame_depth c \<and>
     (\<forall>d < unat (local_frame_depth c). \<forall>r < 16. local_frames c' d r = local_frames c d r)"

lemma call_effect:
  assumes "procedure_call_typed tgt ret t sp c = (Inr (), c')"
  shows "local_frame_depth c < 128" and "registers c' 0 = (registers c 31 AND NOT 7) OR (t AND 7)"
    and "local_frame_depth c' = local_frame_depth c + 1"
    and "ip c' = tgt"
    and "\<And>r. r < 16 \<Longrightarrow> local_frames c' (unat (local_frame_depth c)) r = (if r = 2 then ret else registers c r)"
    and "\<And>r. 16 \<le> r \<Longrightarrow> r \<noteq> 31 \<Longrightarrow> registers c' r = registers c r"
    and "registers c' 31 = align_stack_frame sp"
    and "process_control c' = process_control c" and "arithmetic_control c' = arithmetic_control c"
  using assms
  by (auto simp: procedure_call_typed_def Let_def VF2_I960_MAX_LOCAL_FRAMES_def not_le split: if_splits)

lemma depth_succ: "x < 128 \<Longrightarrow> x + 1 - 1 = (x :: u32) \<and> x + 1 \<noteq> 0 \<and> unat (x + 1) = Suc (unat x)"
  by (auto simp: unat_add_one_less) (metis unat_add_one_less nat.simps(3) unat_0)

text \<open>Popping the frame of a callee that kept the linkage brings the caller back.\<close>

lemma pop_after_call:
  assumes "procedure_call_typed tgt ret t sp c = (Inr (), c1)" and "same_frames c1 c2"
    and "registers c 31 AND 63 = 0"
  shows "ip (pop_frame c2) = ret" and "local_frame_depth (pop_frame c2) = local_frame_depth c"
    and "\<And>r. r < 16 \<Longrightarrow> registers (pop_frame c2) r = (if r = 2 then ret else registers c r)"
    and "registers (pop_frame c2) 31 = registers c 31"
    and "\<And>r. 16 \<le> r \<Longrightarrow> r \<noteq> 31 \<Longrightarrow> registers (pop_frame c2) r = registers c2 r"
    and "local_frame_depth c2 \<noteq> 0" and "registers c2 0 AND 7 = t AND 7"
proof -
  note c1 = call_effect [OF assms(1)]
  have d: "local_frame_depth c2 = local_frame_depth c + 1" "registers c2 0 = registers c1 0"
    using assms(2) c1(3) by (simp_all add: same_frames_def)
  have f: "local_frames c2 (unat (local_frame_depth c)) r = local_frames c1 (unat (local_frame_depth c)) r"
    if "r < 16" for r
    using assms(2) that depth_succ [OF c1(1)] c1(3) by (auto simp: same_frames_def)
  show "ip (pop_frame c2) = ret" "local_frame_depth (pop_frame c2) = local_frame_depth c"
    "\<And>r. r < 16 \<Longrightarrow> registers (pop_frame c2) r = (if r = 2 then ret else registers c r)"
    "registers (pop_frame c2) 31 = registers c 31"
    "\<And>r. 16 \<le> r \<Longrightarrow> r \<noteq> 31 \<Longrightarrow> registers (pop_frame c2) r = registers c2 r"
    "local_frame_depth c2 \<noteq> 0"
    using f c1(5) depth_succ [OF c1(1)] frame_pointer_restored [OF assms(3)]
    by (simp_all add: pop_frame_def Let_def d c1(2))
  show "registers c2 0 AND 7 = t AND 7" unfolding d c1(2) by (rule call_type_read)
qed


section \<open>Interrupt frames\<close>

lemma on_bus_ok: "p (sys_machine s) = (Inr v, m) \<Longrightarrow> on_bus p s = (Inr v, s\<lparr>sys_machine := m\<rparr>)"
  by (simp add: on_bus_def)

lemma on_cpu_ok: "p (sys_cpu s) = (Inr v, c) \<Longrightarrow> on_cpu p s = (Inr v, s\<lparr>sys_cpu := c\<rparr>)"
  by (simp add: on_cpu_def)

text \<open>A bus access to work RAM, seen from the processor.\<close>

definition at :: "'h sys \<Rightarrow> vf2_i960_cpu \<Rightarrow> 'h vf2_model2a \<Rightarrow> 'h sys" where
  "at s c m = s\<lparr>sys_cpu := c, sys_machine := m\<rparr>"

lemma at_simps [simp]:
  "sys_cpu (at s c m) = c" "sys_machine (at s c m) = m" "sys_nan (at s c m) = sys_nan s"
  "(at s c m)\<lparr>sys_cpu := c'\<rparr> = at s c' m" "(at s c m)\<lparr>sys_machine := m'\<rparr> = at s c m'"
  "at (at s c m) c' m' = at s c' m'"
  by (cases s; simp add: at_def)+

lemma at_same: "at s (sys_cpu s) (sys_machine s) = s"
  by (simp add: at_def)

lemma ram_read_at:
  assumes "ram_ok m" and "ram_cell a"
  obtains m' where "on_bus (vf2_model2a_read_u32 a) (at s c m) = (Inr (ram_peek m a), at s c m')"
    and "ram_ok m'" and "\<And>b. ram_cell b \<Longrightarrow> ram_peek m' b = ram_peek m b"
proof -
  obtain m' where m': "vf2_model2a_read_u32 a m = (Inr (ram_peek m a), m')" "ram_ok m'"
    "\<And>b. ram_cell b \<Longrightarrow> ram_peek m' b = ram_peek m b"
    using work_ram.rdE [OF assms] by blast
  show thesis by (rule that [OF _ m'(2,3)]) (simp_all add: on_bus_def m'(1))
qed

lemma ram_write_at:
  assumes "ram_ok m" and "ram_cell a"
  obtains m' where "on_bus (vf2_model2a_write_u32 a v) (at s c m) = (Inr (), at s c m')"
    and "ram_ok m'" and "\<And>b. ram_cell b \<Longrightarrow> ram_peek m' b = (if b = a then v else ram_peek m b)"
proof -
  obtain m' where m': "vf2_model2a_write_u32 a v m = (Inr (), m')" "ram_ok m'"
    "\<And>b. ram_cell b \<Longrightarrow> ram_peek m' b = (if b = a then v else ram_peek m b)"
    using work_ram.wrE [OF assms, where v = v] by blast
  show thesis by (rule that [OF _ m'(2,3)]) (simp_all add: on_bus_def m'(1))
qed

text \<open>The frame an interrupt is given: on the interrupt stack, or above the frame in use when an
  interrupt is already being served.\<close>

definition interrupt_frame :: "'h sys \<Rightarrow> u32" where
  "interrupt_frame s =
     (let c = sys_cpu s
      in align_stack_frame (align_stack_frame
           (if process_control c AND 0x2000 \<noteq> 0 then registers c 1
            else ram_peek (sys_machine s) (prcb c + 24)) + 64))"

definition interrupt_handler :: "u32 \<Rightarrow> 'h sys \<Rightarrow> u32" where
  "interrupt_handler vector s =
     ram_peek (sys_machine s) (ram_peek (sys_machine s) (prcb (sys_cpu s) + 20) + 36 + (vector - 8) * 4)"

definition interrupt_possible :: "u32 \<Rightarrow> u32 \<Rightarrow> 'h sys \<Rightarrow> bool" where
  "interrupt_possible vector level s \<longleftrightarrow>
     8 \<le> vector \<and> level \<le> 31 \<and> ram_ok (sys_machine s) \<and> local_frame_depth (sys_cpu s) < 128 \<and>
     ram_cell (prcb (sys_cpu s) + 20) \<and> ram_cell (prcb (sys_cpu s) + 24) \<and>
     ram_cell (ram_peek (sys_machine s) (prcb (sys_cpu s) + 20) + 36 + (vector - 8) * 4) \<and>
     interrupt_handler vector s \<noteq> 0 \<and>
     (\<forall>k \<in> {8, 12, 16}. ram_cell (interrupt_frame s - k))"

lemma enter_interrupt_ok:
  assumes "interrupt_possible vector level s"
  obtains s1 c1 where "vf2_i960_cpu_enter_interrupt vector level s = (Inr (), s1)"
    and "procedure_call_typed (interrupt_handler vector s) (ip (sys_cpu s)) 7 (align_stack_frame
           (if process_control (sys_cpu s) AND 0x2000 \<noteq> 0 then registers (sys_cpu s) 1
            else ram_peek (sys_machine s) (prcb (sys_cpu s) + 24)) + 64) (sys_cpu s) = (Inr (), c1)"
    and "sys_cpu s1 = c1\<lparr>process_control := (process_control (sys_cpu s) AND NOT 0x00001f00) OR
           (push_bit 16 level OR 0x2002)\<rparr>"
    and "registers c1 31 = interrupt_frame s"
    and "ram_ok (sys_machine s1)"
    and "ram_peek (sys_machine s1) (interrupt_frame s - 16) = process_control (sys_cpu s)"
    and "ram_peek (sys_machine s1) (interrupt_frame s - 12) = arithmetic_control (sys_cpu s)"
    and "ram_peek (sys_machine s1) (interrupt_frame s - 8) = vector - 8"
    and "\<forall>b. ram_cell b \<and> b \<notin> {interrupt_frame s - 16, interrupt_frame s - 12, interrupt_frame s - 8} \<longrightarrow>
      ram_peek (sys_machine s1) b = ram_peek (sys_machine s) b"
proof -
  let ?c = "sys_cpu s" and ?m = "sys_machine s"
  let ?f = "interrupt_frame s"
  have possible: "\<not> (vector < 8 \<or> level > 31)" "interrupt_handler vector s \<noteq> 0"
    "local_frame_depth ?c < 128" "ram_ok ?m" "ram_cell (prcb ?c + 20)" "ram_cell (prcb ?c + 24)"
    "ram_cell (ram_peek ?m (prcb ?c + 20) + 36 + (vector - 8) * 4)"
    "ram_cell (?f - 16)" "ram_cell (?f - 12)" "ram_cell (?f - 8)"
    using assms by (auto simp: interrupt_possible_def)
  obtain m1 where m1: "on_bus (vf2_model2a_read_u32 (prcb ?c + 20)) (at s ?c ?m) =
      (Inr (ram_peek ?m (prcb ?c + 20)), at s ?c m1)"
    "ram_ok m1" "\<And>b. ram_cell b \<Longrightarrow> ram_peek m1 b = ram_peek ?m b"
    by (rule ram_read_at [OF possible(4,5), where s = s and c = ?c]) blast
  obtain m2 where m2: "on_bus (vf2_model2a_read_u32 (prcb ?c + 24)) (at s ?c m1) =
      (Inr (ram_peek m1 (prcb ?c + 24)), at s ?c m2)"
    "ram_ok m2" "\<And>b. ram_cell b \<Longrightarrow> ram_peek m2 b = ram_peek m1 b"
    by (rule ram_read_at [OF m1(2) possible(6), where s = s and c = ?c]) blast
  let ?h = "ram_peek ?m (prcb ?c + 20) + 36 + (vector - 8) * 4"
  obtain m3 where m3: "on_bus (vf2_model2a_read_u32 ?h) (at s ?c m2) = (Inr (ram_peek m2 ?h), at s ?c m3)"
    "ram_ok m3" "\<And>b. ram_cell b \<Longrightarrow> ram_peek m3 b = ram_peek m2 b"
    by (rule ram_read_at [OF m2(2) possible(7), where s = s and c = ?c]) blast
  have h: "ram_peek m2 ?h = interrupt_handler vector s" "ram_peek m1 (prcb ?c + 24) = ram_peek ?m (prcb ?c + 24)"
    using m1(3) m2(3) possible(6,7) by (simp_all add: interrupt_handler_def)
  let ?sp = "align_stack_frame (if process_control ?c AND 0x2000 \<noteq> 0 then registers ?c 1
      else ram_peek ?m (prcb ?c + 24)) + 64"
  obtain c1 where c1: "procedure_call_typed (interrupt_handler vector s) (ip ?c) 7 ?sp ?c = (Inr (), c1)"
    using possible(3) by (simp add: procedure_call_typed_def VF2_I960_MAX_LOCAL_FRAMES_def Let_def not_le)
  have f: "registers c1 31 = ?f"
    using call_effect(7) [OF c1] by (simp add: interrupt_frame_def Let_def)
  obtain w1 where w1: "on_bus (vf2_model2a_write_u32 (?f - 16) (process_control ?c)) (at s c1 m3) = (Inr (), at s c1 w1)"
    "ram_ok w1" "\<And>b. ram_cell b \<Longrightarrow> ram_peek w1 b = (if b = ?f - 16 then process_control ?c else ram_peek m3 b)"
    by (rule ram_write_at [OF m3(2) possible(8), where s = s and c = c1]) blast
  obtain w2 where w2: "on_bus (vf2_model2a_write_u32 (?f - 12) (arithmetic_control ?c)) (at s c1 w1) = (Inr (), at s c1 w2)"
    "ram_ok w2" "\<And>b. ram_cell b \<Longrightarrow> ram_peek w2 b = (if b = ?f - 12 then arithmetic_control ?c else ram_peek w1 b)"
    by (rule ram_write_at [OF w1(2) possible(9), where s = s and c = c1]) blast
  obtain w3 where w3: "on_bus (vf2_model2a_write_u32 (?f - 8) (vector - 8)) (at s c1 w2) = (Inr (), at s c1 w3)"
    "ram_ok w3" "\<And>b. ram_cell b \<Longrightarrow> ram_peek w3 b = (if b = ?f - 8 then vector - 8 else ram_peek w2 b)"
    by (rule ram_write_at [OF w2(2) possible(10), where s = s and c = c1]) blast
  let ?pc = "(process_control ?c AND NOT 0x00001f00) OR (push_bit 16 level OR 0x2002)"
  let ?s1 = "at s (c1\<lparr>process_control := ?pc\<rparr>) w3"
  have "vf2_i960_cpu_enter_interrupt vector level (at s ?c ?m) = (Inr (), ?s1)"
    using possible(1,2) m1(1) m2(1) m3(1) [unfolded h(1)] w1(1) w2(1) w3(1)
    by (simp add: vf2_i960_cpu_enter_interrupt_def Let_def on_cpu_def c1 f h call_effect(8) [OF c1])
  then have r: "vf2_i960_cpu_enter_interrupt vector level s = (Inr (), ?s1)"
    by (simp only: at_same)
  show thesis
  proof (rule that [OF r c1])
    show "ram_peek (sys_machine ?s1) (?f - 16) = process_control ?c"
      "ram_peek (sys_machine ?s1) (?f - 12) = arithmetic_control ?c"
      "ram_peek (sys_machine ?s1) (?f - 8) = vector - 8"
      using possible(8-10) by (simp_all add: w1(3) w2(3) w3(3))
  qed (simp_all add: f w3(2,3) w2(3) w1(3) m3(3) m2(3) m1(3))
qed


lemma return_interrupt:
  assumes "ram_ok (sys_machine s)" and "local_frame_depth (sys_cpu s) \<noteq> 0"
    and "registers (sys_cpu s) 0 AND 7 = 7"
    and "ram_cell (registers (sys_cpu s) 31 - 16)" and "ram_cell (registers (sys_cpu s) 31 - 12)"
  obtains s' where "vf2_i960_cpu_return_procedure s = (Inr (), s')"
    and "sys_cpu s' = (pop_frame (sys_cpu s))
      \<lparr>process_control := ram_peek (sys_machine s) (registers (sys_cpu s) 31 - 16),
       arithmetic_control := ram_peek (sys_machine s) (registers (sys_cpu s) 31 - 12),
       interrupt_returns := interrupt_returns (sys_cpu s) + 1\<rparr>"
    and "\<And>b. ram_cell b \<Longrightarrow> ram_peek (sys_machine s') b = ram_peek (sys_machine s) b"
proof -
  let ?c = "sys_cpu s" and ?m = "sys_machine s"
  obtain m1 where m1: "on_bus (vf2_model2a_read_u32 (registers ?c 31 - 16)) (at s ?c ?m) =
      (Inr (ram_peek ?m (registers ?c 31 - 16)), at s ?c m1)" "ram_ok m1"
    "\<And>b. ram_cell b \<Longrightarrow> ram_peek m1 b = ram_peek ?m b"
    by (rule ram_read_at [OF assms(1,4), where s = s and c = ?c]) blast
  obtain m2 where m2: "on_bus (vf2_model2a_read_u32 (registers ?c 31 - 12)) (at s ?c m1) =
      (Inr (ram_peek m1 (registers ?c 31 - 12)), at s ?c m2)"
    "\<And>b. ram_cell b \<Longrightarrow> ram_peek m2 b = ram_peek m1 b"
    by (rule ram_read_at [OF m1(2) assms(5), where s = s and c = ?c]) blast
  have "interrupt_returns (pop_frame ?c) = interrupt_returns ?c" by (simp add: pop_frame_def Let_def)
  then have "vf2_i960_cpu_return_procedure (at s ?c ?m) =
     (Inr (), at s ((pop_frame ?c)\<lparr>process_control := ram_peek ?m (registers ?c 31 - 16),
        arithmetic_control := ram_peek ?m (registers ?c 31 - 12),
        interrupt_returns := interrupt_returns ?c + 1\<rparr>) m2)"
    using assms(2,3) m1(1) m2(1) m1(3) [OF assms(5)]
    by (simp add: vf2_i960_cpu_return_procedure_def procedure_return_def Let_def)
  then have "vf2_i960_cpu_return_procedure s =
     (Inr (), at s ((pop_frame ?c)\<lparr>process_control := ram_peek ?m (registers ?c 31 - 16),
        arithmetic_control := ram_peek ?m (registers ?c 31 - 12),
        interrupt_returns := interrupt_returns ?c + 1\<rparr>) m2)"
    by (simp only: at_same)
  from that [OF this] show thesis by (simp add: m1(3) m2(2))
qed

text \<open>The return of a handler that was entered by the typed call of an interrupt and kept its linkage,
  its frame pointer \<open>f\<close> and the two saved words.\<close>

lemma handler_returns:
  fixes s2 :: "'h sys"
  assumes "procedure_call_typed tgt ret 7 sp c = (Inr (), c1)" and "registers c 31 AND 63 = 0"
    and "same_frames c1 (sys_cpu s2)" and "registers (sys_cpu s2) 31 = f" and "ram_ok (sys_machine s2)"
    and "ram_cell (f - 16)" and "ram_cell (f - 12)"
  shows "\<exists>s3. vf2_i960_cpu_return_procedure s2 = (Inr (), s3) \<and> ip (sys_cpu s3) = ret \<and>
        process_control (sys_cpu s3) = ram_peek (sys_machine s2) (f - 16) \<and>
        arithmetic_control (sys_cpu s3) = ram_peek (sys_machine s2) (f - 12) \<and>
        local_frame_depth (sys_cpu s3) = local_frame_depth c \<and>
        (\<forall>r < 16. registers (sys_cpu s3) r = (if r = 2 then ret else registers c r)) \<and>
        registers (sys_cpu s3) 31 = registers c 31 \<and>
        (\<forall>r \<in> {16..<31}. registers (sys_cpu s3) r = registers (sys_cpu s2) r) \<and>
        compare_result (sys_cpu s3) = compare_result (sys_cpu s2) \<and>
        (\<forall>b. ram_cell b \<longrightarrow> ram_peek (sys_machine s3) b = ram_peek (sys_machine s2) b)"
proof -
  note p = pop_after_call [OF assms(1,3,2)]
  have seven: "registers (sys_cpu s2) 0 AND 7 = 7" using p(7) by simp
  obtain s3 where "vf2_i960_cpu_return_procedure s2 = (Inr (), s3)"
    and "sys_cpu s3 = (pop_frame (sys_cpu s2))
        \<lparr>process_control := ram_peek (sys_machine s2) (f - 16),
         arithmetic_control := ram_peek (sys_machine s2) (f - 12),
         interrupt_returns := interrupt_returns (sys_cpu s2) + 1\<rparr>"
    and "\<And>b. ram_cell b \<Longrightarrow> ram_peek (sys_machine s3) b = ram_peek (sys_machine s2) b"
    using return_interrupt [OF assms(5) p(6) seven] assms(6,7) unfolding assms(4) by metis
  moreover have "compare_result (pop_frame (sys_cpu s2)) = compare_result (sys_cpu s2)"
    by (simp add: pop_frame_def Let_def)
  ultimately show ?thesis using p(1-5) by (intro exI [of _ s3]) simp
qed

section \<open>Properties\<close>

text \<open>C6: a call followed by the return of its callee is a round trip for the caller: whatever the
  callee does to its own registers, the globals, memory and the board, as long as it leaves the
  frame linkage and the frames below alone (\<open>same_frames\<close>), the caller resumes at the return
  address with its sixteen local registers, its 64-byte aligned frame pointer and its depth, and
  the globals as the callee left them. The call itself fails only when all frames are in use.\<close>

theorem vf2_i960_call_return:
  assumes "local_frame_depth c < VF2_I960_MAX_LOCAL_FRAMES" and "registers c VF2_I960_FP_REGISTER AND 63 = 0"
  shows "\<exists>c1. vf2_i960_cpu_enter_procedure tgt ret c = (Inr (), c1) \<and> ip c1 = tgt \<and>
    (\<forall>s. same_frames c1 (sys_cpu s) \<longrightarrow>
      (\<exists>c3. vf2_i960_cpu_return_procedure s = (Inr (), s\<lparr>sys_cpu := c3\<rparr>) \<and> ip c3 = ret \<and>
        local_frame_depth c3 = local_frame_depth c \<and>
        (\<forall>r < 16. registers c3 r = (if r = 2 then ret else registers c r)) \<and>
        registers c3 31 = registers c 31 \<and>
        (\<forall>r \<in> {16..<31}. registers c3 r = registers (sys_cpu s) r)))"
proof -
  obtain c1 where c1: "procedure_call_typed tgt ret 0 (registers c 1) c = (Inr (), c1)"
    using assms(1) by (simp add: procedure_call_typed_def Let_def not_le [symmetric])
  then have "vf2_i960_cpu_enter_procedure tgt ret c = (Inr (), c1)" "ip c1 = tgt"
    by (simp_all add: vf2_i960_cpu_enter_procedure_def procedure_call_def call_effect(4))
  moreover have "\<exists>c3. vf2_i960_cpu_return_procedure s = (Inr (), s\<lparr>sys_cpu := c3\<rparr>) \<and> ip c3 = ret \<and>
        local_frame_depth c3 = local_frame_depth c \<and>
        (\<forall>r < 16. registers c3 r = (if r = 2 then ret else registers c r)) \<and>
        registers c3 31 = registers c 31 \<and>
        (\<forall>r \<in> {16..<31}. registers c3 r = registers (sys_cpu s) r)"
    if "same_frames c1 (sys_cpu s)" for s :: "'a sys"
    using pop_after_call [OF c1 that] assms(2)
    by (intro exI [of _ "pop_frame (sys_cpu s)"])
      (simp add: vf2_i960_cpu_return_procedure_def procedure_return_def Let_def)
  ultimately show ?thesis by blast
qed

lemma same_frames_refl [simp]: "same_frames c c"
  by (simp add: same_frames_def)

lemma vf2_i960_call_return_witness:
  "\<exists>c3. vf2_i960_cpu_return_procedure
      (sample_system\<lparr>sys_cpu := snd (vf2_i960_cpu_enter_procedure 0x100 0x24 (put_register 1 0x510010 zeroed_cpu))\<rparr>) =
      (Inr (), sample_system\<lparr>sys_cpu := c3\<rparr>) \<and> ip c3 = 0x24 \<and> registers c3 1 = 0x510010"
proof -
  let ?c = "put_register 1 0x510010 zeroed_cpu"
  have "local_frame_depth ?c < VF2_I960_MAX_LOCAL_FRAMES" "registers ?c VF2_I960_FP_REGISTER AND 63 = 0"
    "registers ?c 1 = 0x510010"
    by (simp_all add: put_register_def zeroed_cpu_def VF2_I960_MAX_LOCAL_FRAMES_def)
  from vf2_i960_call_return [OF this(1,2), of "0x100" "0x24"] this(3)
  obtain c1 where "vf2_i960_cpu_enter_procedure 0x100 0x24 ?c = (Inr (), c1)"
    and r: "\<forall>s :: unit sys. same_frames c1 (sys_cpu s) \<longrightarrow>
      (\<exists>c3. vf2_i960_cpu_return_procedure s = (Inr (), s\<lparr>sys_cpu := c3\<rparr>) \<and> ip c3 = 0x24 \<and>
        (\<forall>r < 16. registers c3 r = (if r = 2 then 0x24 else registers ?c r)))"
    by blast
  then show ?thesis using r [rule_format, of "sample_system\<lparr>sys_cpu := c1\<rparr>"] \<open>registers ?c 1 = 0x510010\<close> by force
qed

text \<open>C5: interrupt entry and return as a round trip of the interrupted program. Assumed at entry
  (\<open>interrupt_possible\<close>): the vector is at least 8 and the level at most 31, a local frame is free,
  the two words of the processor control block, the entry of the interrupt table and the three words
  below the new frame lie in work RAM, and the handler's address is not zero; moreover the
  interrupted frame pointer is 64-byte aligned. Then entering succeeds: it goes to the handler,
  sets the level and the interrupted-state bits of the process controls, keeps the globals g0 to g14
  (registers 16 to 30), gives the handler the new frame, and writes no word of work RAM but the
  three it saves below that frame. When the handler returns, having kept the frame linkage, its frame
  pointer and the saved process and arithmetic controls, the program resumes at the interrupted
  instruction with its frame pointer, depth, process and arithmetic controls and its local
  registers, except r2, where the entry has put the interrupted address. Not restored, but as the
  handler left them: the globals g0 to g14, work RAM, and \<open>compare_result\<close>, which conditional
  branches read.\<close>

theorem vf2_i960_interrupt_roundtrip:
  fixes s :: "'h sys"
  assumes "interrupt_possible vector level s" and "registers (sys_cpu s) VF2_I960_FP_REGISTER AND 63 = 0"
  shows "\<exists>s1. vf2_i960_cpu_enter_interrupt vector level s = (Inr (), s1) \<and>
    ip (sys_cpu s1) = interrupt_handler vector s \<and>
    process_control (sys_cpu s1) =
      (process_control (sys_cpu s) AND NOT 0x1f00) OR (push_bit 16 level OR 0x2002) \<and>
    (\<forall>r \<in> {16..<31}. registers (sys_cpu s1) r = registers (sys_cpu s) r) \<and>
    registers (sys_cpu s1) 31 = interrupt_frame s \<and>
    (\<forall>b. ram_cell b \<and> b \<notin> {interrupt_frame s - 16, interrupt_frame s - 12, interrupt_frame s - 8} \<longrightarrow>
      ram_peek (sys_machine s1) b = ram_peek (sys_machine s) b) \<and>
    (\<forall>s2 :: 'h sys. same_frames (sys_cpu s1) (sys_cpu s2) \<and>
        registers (sys_cpu s2) 31 = registers (sys_cpu s1) 31 \<and> ram_ok (sys_machine s2) \<and>
        (\<forall>k \<in> {12, 16}. ram_peek (sys_machine s2) (interrupt_frame s - k) =
                        ram_peek (sys_machine s1) (interrupt_frame s - k)) \<longrightarrow>
      (\<exists>s3. vf2_i960_cpu_return_procedure s2 = (Inr (), s3) \<and> ip (sys_cpu s3) = ip (sys_cpu s) \<and>
        process_control (sys_cpu s3) = process_control (sys_cpu s) \<and>
        arithmetic_control (sys_cpu s3) = arithmetic_control (sys_cpu s) \<and>
        local_frame_depth (sys_cpu s3) = local_frame_depth (sys_cpu s) \<and>
        (\<forall>r < 16. registers (sys_cpu s3) r =
                   (if r = 2 then ip (sys_cpu s) else registers (sys_cpu s) r)) \<and>
        registers (sys_cpu s3) 31 = registers (sys_cpu s) 31 \<and>
        (\<forall>r \<in> {16..<31}. registers (sys_cpu s3) r = registers (sys_cpu s2) r) \<and>
        compare_result (sys_cpu s3) = compare_result (sys_cpu s2) \<and>
        (\<forall>b. ram_cell b \<longrightarrow> ram_peek (sys_machine s3) b = ram_peek (sys_machine s2) b)))"
proof -
  obtain s1 c1 where e: "vf2_i960_cpu_enter_interrupt vector level s = (Inr (), s1)"
    and c1: "procedure_call_typed (interrupt_handler vector s) (ip (sys_cpu s)) 7 (align_stack_frame
           (if process_control (sys_cpu s) AND 0x2000 \<noteq> 0 then registers (sys_cpu s) 1
            else ram_peek (sys_machine s) (prcb (sys_cpu s) + 24)) + 64) (sys_cpu s) = (Inr (), c1)"
    and s1: "sys_cpu s1 = c1\<lparr>process_control := (process_control (sys_cpu s) AND NOT 0x00001f00) OR
           (push_bit 16 level OR 0x2002)\<rparr>" "registers c1 31 = interrupt_frame s"
    and saved: "ram_peek (sys_machine s1) (interrupt_frame s - 16) = process_control (sys_cpu s)"
      "ram_peek (sys_machine s1) (interrupt_frame s - 12) = arithmetic_control (sys_cpu s)"
    and kept_ram: "\<forall>b. ram_cell b \<and>
      b \<notin> {interrupt_frame s - 16, interrupt_frame s - 12, interrupt_frame s - 8} \<longrightarrow>
      ram_peek (sys_machine s1) b = ram_peek (sys_machine s) b"
    by (rule enter_interrupt_ok [OF assms(1)])
  have cells: "ram_cell (interrupt_frame s - 16)" "ram_cell (interrupt_frame s - 12)"
    using assms(1) by (simp_all add: interrupt_possible_def)
  have same: "same_frames (sys_cpu s1) c = same_frames c1 c" "registers (sys_cpu s1) 31 = interrupt_frame s" for c
    by (simp_all add: same_frames_def s1)
  note resumes = handler_returns [OF c1 assms(2) [unfolded VF2_I960_FP_REGISTER_def] _ _ _ cells, simplified]
  have start: "ip (sys_cpu s1) = interrupt_handler vector s"
    "process_control (sys_cpu s1) =
      (process_control (sys_cpu s) AND NOT 0x1f00) OR (push_bit 16 level OR 0x2002)"
    "\<forall>r \<in> {16..<31}. registers (sys_cpu s1) r = registers (sys_cpu s) r"
    using call_effect(4,6) [OF c1] by (simp_all add: s1(1))
  show ?thesis
  proof (rule exI [of _ s1], intro conjI e start kept_ram same(2) allI impI, goal_cases)
    case (1 s2)
    then have "same_frames c1 (sys_cpu s2)" "registers (sys_cpu s2) 31 = interrupt_frame s" "ram_ok (sys_machine s2)"
      by (simp_all add: same)
    from resumes [OF this] show ?case using 1 saved by simp
  qed
qed

text \<open>A board whose work RAM holds a processor control block at \<open>0x500000\<close> with an interrupt table
  and an interrupt stack.\<close>

definition interrupt_sample :: "unit sys" where
  "interrupt_sample = sample_system
     \<lparr>sys_cpu := zeroed_cpu\<lparr>prcb := 0x500000, ip := 0x4000, arithmetic_control := 2\<rparr>,
      sys_machine := update_area WORK_RAM (\<lambda>d. write_le32 (write_le32 (write_le32 d 20 0x500100) 24 0x510000)
        0x124 0x1234) (snd (vf2_model2a_initialize () (\<lambda>_. True)))\<rparr>"

lemma interrupt_sample_peeks:
  "ram_peek (sys_machine interrupt_sample) 0x500014 = 0x500100"
  "ram_peek (sys_machine interrupt_sample) 0x500018 = 0x510000"
  "ram_peek (sys_machine interrupt_sample) 0x500124 = 0x1234"
proof -
  have "\<not> area_null (snd (vf2_model2a_initialize () (\<lambda>_. True))) WORK_RAM"
    by (rule machine_ok_device(1) [OF machine_ok_fresh]) simp_all
  then show "ram_peek (sys_machine interrupt_sample) 0x500014 = 0x500100"
    "ram_peek (sys_machine interrupt_sample) 0x500018 = 0x510000"
    "ram_peek (sys_machine interrupt_sample) 0x500124 = 0x1234"
    by (simp_all add: interrupt_sample_def ram_peek_def board_simps read_write_le32_disjoint)
qed

lemma interrupt_sample_possible:
  "interrupt_possible 8 3 interrupt_sample" "interrupt_frame interrupt_sample = 0x510040"
  "registers (sys_cpu interrupt_sample) VF2_I960_FP_REGISTER AND 63 = 0"
  "interrupt_handler 8 interrupt_sample = 0x1234"
proof -
  have c: "sys_cpu interrupt_sample = zeroed_cpu\<lparr>prcb := 0x500000, ip := 0x4000, arithmetic_control := 2\<rparr>"
    by (simp add: interrupt_sample_def)
  have ok: "ram_ok (sys_machine interrupt_sample)"
    by (simp add: interrupt_sample_def ram_ok_def machine_ok_fresh rom_fits_fresh)
  show f: "interrupt_frame interrupt_sample = 0x510040"
    using interrupt_sample_peeks by (simp add: interrupt_frame_def c zeroed_cpu_def align_stack_frame_def)
  show h: "interrupt_handler 8 interrupt_sample = 0x1234"
    using interrupt_sample_peeks by (simp add: interrupt_handler_def c zeroed_cpu_def)
  show "registers (sys_cpu interrupt_sample) VF2_I960_FP_REGISTER AND 63 = 0"
    by (simp add: c zeroed_cpu_def)
  show "interrupt_possible 8 3 interrupt_sample"
    using interrupt_sample_peeks ok
    by (simp add: interrupt_possible_def h f c zeroed_cpu_def ram_cell_def)
qed

lemma vf2_i960_interrupt_roundtrip_witness:
  "\<exists>s1 s3. vf2_i960_cpu_enter_interrupt 8 3 interrupt_sample = (Inr (), s1) \<and> ip (sys_cpu s1) = 0x1234 \<and>
     vf2_i960_cpu_return_procedure s1 = (Inr (), s3) \<and> ip (sys_cpu s3) = 0x4000 \<and>
     arithmetic_control (sys_cpu s3) = 2"
proof -
  have "ip (sys_cpu interrupt_sample) = 0x4000" "arithmetic_control (sys_cpu interrupt_sample) = 2"
    by (simp_all add: interrupt_sample_def)
  moreover obtain s1 where s1: "vf2_i960_cpu_enter_interrupt 8 3 interrupt_sample = (Inr (), s1)" "ram_ok (sys_machine s1)"
    by (rule enter_interrupt_ok [OF interrupt_sample_possible(1)]) blast
  moreover obtain s3 where "vf2_i960_cpu_return_procedure s1 = (Inr (), s3)"
    "ip (sys_cpu s3) = ip (sys_cpu interrupt_sample)"
    "arithmetic_control (sys_cpu s3) = arithmetic_control (sys_cpu interrupt_sample)"
    using vf2_i960_interrupt_roundtrip [OF interrupt_sample_possible(1,3)]
    by (elim exE conjE allE [of _ s1]) (use s1 in \<open>clarsimp; blast\<close>)
  moreover have "ip (sys_cpu s1) = 0x1234"
    using vf2_i960_interrupt_roundtrip [OF interrupt_sample_possible(1,3)] s1(1)
    by (auto simp: interrupt_sample_possible(4))
  ultimately show ?thesis by auto
qed

end
