(* ===== verification/Vf2_I960_Branches.thy ===== *)
theory Vf2_I960_Branches
  imports Vf2_I960_Frames
begin

text \<open>
  The two interpreters of the repository against each other. \<open>vf2_i960_step\<close> wraps
  \<open>vf2_i960_step_legacy\<close> and corrects the compare-and-branch instructions; the decoder lemmas say
  how those come out of the decoder, which both steppers share.
\<close>

section \<open>Decoding\<close>

lemma pbind_at: "f s = f' s \<Longrightarrow> pbind f g s = pbind f' g s"
  by (cases "f' s"; cases "fst (f' s)") (simp_all add: pbind_def)

lemma decode_locality:
  assumes "\<forall>k < n. d k = d' k"
  shows "vf2_i960_decode (Some d) n address i0 = vf2_i960_decode (Some d') n address i0"
proof (cases "address AND 3 \<noteq> 0 \<or> unat address + 4 > n")
  case False
  then have r: "read_le32 d (unat address) = read_le32 d' (unat address)"
    using assms by (simp add: read_le32_def)
  have a: "decode_addressing d n i = decode_addressing d' n i" if "i_address i = address" for i
  proof -
    have "read_le32 d (unat address + 4) = read_le32 d' (unat address + 4)" if "unat address + 8 \<le> n"
      using that assms by (simp add: read_le32_def)
    then show ?thesis
      using that by (auto simp: decode_addressing_def Let_def)
  qed
  have m: "decode_memory d n i = decode_memory d' n i" if "i_address i = address" for i
    using that by (auto simp: decode_memory_def Let_def split: option.split intro!: pbind_at a)
  show ?thesis by (simp add: vf2_i960_decode_def r m init_instruction_def Let_def)
qed (simp add: vf2_i960_decode_def)

lemma decode_success_fresh:
  "fst (vf2_i960_decode img n address i0) = Inr () \<Longrightarrow>
     vf2_i960_decode img n address i0' = vf2_i960_decode img n address i0"
  by (auto simp: vf2_i960_decode_def Let_def split: option.splits if_splits)

section \<open>The compare-and-branch instructions\<close>

definition branch_names :: "string list" where
  "branch_names = [''bbc'', ''cmpobg'', ''cmpobe'', ''cmpobge'', ''cmpobl'', ''cmpobne'', ''cmpoble'',
     ''bbs'', ''cmpibno'', ''cmpibg'', ''cmpibe'', ''cmpibge'', ''cmpibl'', ''cmpibne'', ''cmpible'',
     ''cmpibo'']"

text \<open>How a compare-and-branch comes out of the decoder. The register instructions \<open>cmpob\<close> and
  \<open>cmpib\<close> share the prefix; the interpreter does not execute them (\<open>byte_compare_shape\<close>).\<close>

definition branch_shape :: "vf2_i960_instruction \<Rightarrow> bool" where
  "branch_shape i \<longleftrightarrow> mnemonic i \<in> set branch_names \<and> format i = FORMAT_COBR \<and> flow i = FLOW_BRANCH \<and>
     conditional i \<and> operand_count i = 3 \<and>
     (\<forall>k \<in> {0, 1}. \<forall>c. \<exists>v. operand_value (operands i k) c = (Inr v, c) \<and>
        arch_operand_value (operands i k) c = (Inr v, c))"

lemma decode_source_value:
  "unat r < 32 \<Longrightarrow> \<exists>v. operand_value (decode_source r l sp) c = (Inr v, c) \<and>
     arch_operand_value (decode_source r l sp) c = (Inr v, c)"
  by (auto simp: decode_source_def make_register_def make_special_register_def make_literal_def
      operand_value_def arch_operand_value_def register_value_def empty_operand_def Let_def)

lemma control_not_direct:
  assumes "decode_control j = (Inr (), i)"
  shows "\<not> is_direct_compare (mnemonic i)"
proof -
  have "list_all (\<lambda>x. case x of None \<Rightarrow> True | Some nm \<Rightarrow> \<not> is_direct_compare nm) control_names"
    "length control_names = 32"
    by (simp_all add: control_names_def is_direct_compare_def)
  then have "is_direct_compare nm \<Longrightarrow> k < 32 \<Longrightarrow> control_names ! k \<noteq> Some nm" for k nm
    by (auto simp: list_all_length)
  then show ?thesis
    using assms by (auto simp: decode_control_def Let_def not_le split: if_splits option.splits)
qed

lemma cobr_shape:
  assumes "decode_cobr j = (Inr (), i)" and "is_direct_compare (mnemonic i)"
  shows "branch_shape i"
proof -
  have n: "list_all (\<lambda>x. case x of None \<Rightarrow> True | Some nm \<Rightarrow> is_direct_compare nm \<longrightarrow> nm \<in> set branch_names) cobr_names"
    "list_all (\<lambda>x. case x of None \<Rightarrow> True | Some nm \<Rightarrow> \<not> is_direct_compare nm) (take 8 cobr_names)"
    and len: "length cobr_names = 32"
    by (simp_all add: cobr_names_def is_direct_compare_def branch_names_def)
  have a: "cobr_names ! k = Some nm \<Longrightarrow> k < 32 \<Longrightarrow> is_direct_compare nm \<Longrightarrow> nm \<in> set branch_names" for k nm
    using n(1) len by (auto simp: list_all_length)
  have b: "is_direct_compare nm \<Longrightarrow> op \<le> 0x27 \<Longrightarrow> cobr_names ! (unat op - 32) \<noteq> Some nm" for op :: u8 and nm
  proof
    assume "is_direct_compare nm" "op \<le> 0x27" and e: "cobr_names ! (unat op - 32) = Some nm"
    moreover from this have "unat op - 32 < 8" by (simp add: word_le_nat_alt)
    ultimately show False using n(2) len by (auto simp: list_all_length dest: spec [of _ "unat op - 32"])
  qed
  let ?op = "ucast (drop_bit 24 (word0 j)) :: u8"
  obtain nm where nm: "cobr_names ! (unat ?op - 32) = Some nm" "unat ?op - 32 < 32" "mnemonic i = nm"
    and high: "\<not> ?op \<le> 0x27"
    and i: "format i = FORMAT_COBR" "flow i = FLOW_BRANCH" "conditional i" "operand_count i = 3"
      "operands i 0 = decode_source (ucast (drop_bit 19 (word0 j) AND 0x1f)) (drop_bit 13 (word0 j) AND 1 \<noteq> 0) False"
      "operands i 1 = decode_source (ucast (drop_bit 14 (word0 j) AND 0x1f)) False (word0 j AND 1 \<noteq> 0)"
    using assms b by (auto simp: decode_cobr_def Let_def not_le split: if_splits option.splits)
  show ?thesis
    using a [OF nm(1,2)] assms(2) nm(3) i decode_source_value [OF field5_unat]
    by (simp add: branch_shape_def)
qed

lemma register_names_direct:
  assumes "decode_register j = (Inr (), i)" and "is_direct_compare (mnemonic i)"
  shows "mnemonic i \<in> {''cmpob'', ''cmpib''}"
proof -
  have "list_all (\<lambda>(op, nm, fl). is_direct_compare nm \<longrightarrow> nm \<in> {''cmpob'', ''cmpib''}) register_opcodes"
    by (simp add: register_opcodes_def is_direct_compare_def)
  moreover have "\<exists>op fl. find_register_opcode op = Some (mnemonic i, fl)"
    using assms(1)
    by (auto simp: decode_register_def Let_def set_operands_def split: if_splits option.splits; blast)
  ultimately show ?thesis
    using assms(2) by (auto simp: find_register_opcode_def list_all_iff dest!: map_of_SomeD)
qed

text \<open>The byte compares \<open>cmpob\<close> and \<open>cmpib\<close>: two sources, and no handler in the interpreter.\<close>

definition byte_compare_shape :: "vf2_i960_instruction \<Rightarrow> bool" where
  "byte_compare_shape i \<longleftrightarrow> mnemonic i \<in> {''cmpob'', ''cmpib''} \<and> format i = FORMAT_REG \<and>
     (\<forall>k \<in> {0, 1}. \<forall>c. \<exists>v. arch_operand_value (operands i k) c = (Inr v, c))"

lemma register_byte_compare:
  assumes "decode_register j = (Inr (), i)" and "mnemonic i \<in> {''cmpob'', ''cmpib''}"
  shows "byte_compare_shape i"
proof -
  have "list_all (\<lambda>(op, nm, fl). nm \<in> {''cmpob'', ''cmpib''} \<longrightarrow> fl = 2) register_opcodes"
    by (simp add: register_opcodes_def)
  then have two: "find_register_opcode op = Some (nm, fl) \<Longrightarrow> nm \<in> {''cmpob'', ''cmpib''} \<Longrightarrow> fl = 2" for op nm fl
    by (auto simp: find_register_opcode_def list_all_iff dest!: map_of_SomeD)
  let ?src1 = "ucast (word0 j AND 0x1f) :: u8" and ?src2 = "ucast (drop_bit 14 (word0 j) AND 0x1f) :: u8"
  have "unat ?src1 < 32" "unat ?src2 < 32"
    using field5_unat [of "word0 j"] field5_unat [of "drop_bit 14 (word0 j)"] by simp_all
  note v = decode_source_value [OF this(1)] decode_source_value [OF this(2)]
  let ?w = "word0 j"
  let ?op = "ucast (((drop_bit 20 ?w) AND 0xff0) OR ((drop_bit 7 ?w) AND 0x0f)) :: u16"
  let ?src = "\<lambda>k m t. decode_source k (drop_bit m ?w AND 1 \<noteq> 0) (drop_bit t ?w AND 1 \<noteq> 0)"
  obtain nm fl where f: "find_register_opcode ?op = Some (nm, fl)"
    using assms(1) by (cases "find_register_opcode ?op") (auto simp: decode_register_def Let_def)
  obtain d ops where ops: "register_operands fl (?src ?src1 11 5) (?src ?src2 12 6) ?src1 ?src2 d
      (drop_bit 11 ?w AND 1 \<noteq> 0) (drop_bit 12 ?w AND 1 \<noteq> 0) (drop_bit 13 ?w AND 1 \<noteq> 0) = Some ops"
    and i: "format i = FORMAT_REG" "\<And>k. k < length ops \<Longrightarrow> operands i k = ops ! k" "mnemonic i = nm"
    using assms(1)
    by (simp only: decode_register_def Let_def f option.case prod.case set_operands_def
        split: if_split_asm option.split_asm) force+
  have "fl = 2" using two [OF f] assms(2) i(3) by simp
  then have "ops = [?src ?src1 11 5, ?src ?src2 12 6]"
    using ops by (simp add: register_operands_def)
  then show ?thesis using assms(2) v by (simp add: byte_compare_shape_def i) blast
qed

lemma memory_names_direct:
  assumes "decode_memory d n j = (Inr (), i)"
  shows "\<not> is_direct_compare (mnemonic i)"
proof -
  have "list_all (\<lambda>(op, nm, r). \<not> is_direct_compare nm) memory_opcodes"
    by (simp add: memory_opcodes_def is_direct_compare_def)
  then have "find_memory_opcode op = Some (nm, r) \<Longrightarrow> \<not> is_direct_compare nm" for op nm r
    by (auto simp: find_memory_opcode_def list_all_iff dest: map_of_SomeD)
  moreover have "decode_addressing d n k = (Inr mo, k') \<Longrightarrow> mnemonic k' = mnemonic k" for k k' mo
    by (auto simp: decode_addressing_def Let_def split: if_splits)
  ultimately show ?thesis
    using assms
    by (fastforce simp: decode_memory_def Let_def memory_flow_def memory_roles_def set_operands_def
        split: if_splits option.splits elim!: pbind_okE)
qed

lemma fetched_branch:
  assumes "fetch s = (Inr i, s')" and "is_direct_compare (mnemonic i)"
  shows "branch_shape i \<or> byte_compare_shape i"
  using assms control_not_direct cobr_shape register_byte_compare [OF _ register_names_direct] memory_names_direct
  by (auto simp: fetch_def vf2_i960_decode_def Let_def split: prod.splits sum.splits option.splits if_splits)


section \<open>The two interpreters on compare-and-branch\<close>

lemma execute_branch_dispatch:
  assumes "branch_shape i"
  shows "execute_instruction i n = execute_cobr i"
proof -
  have "mnemonic i \<in> set branch_names" "format i = FORMAT_COBR" "flow i = FLOW_BRANCH" "conditional i"
    "operand_count i = 3" using assms by (simp_all add: branch_shape_def)
  then show ?thesis
    unfolding branch_names_def
    by (simp only: set_simps insert_iff empty_iff)
      (elim disjE; simp add: execute_instruction_def alu_mnemonics_def)
qed

lemma not_literal_branch: "branch_shape i \<Longrightarrow> literal_multi_move i = None"
  by (auto simp: branch_shape_def branch_names_def literal_multi_move_def)

text \<open>The decisions of the two interpreters, by mnemonic.\<close>

lemma sint_eq_iff: "sint a = sint b \<longleftrightarrow> a = (b :: u32)"
  by (auto intro: signed_word_eqI)



lemma cobr_compare_arch: "arch_set_compare (arch_compare a b sg) c = cobr_compare sg a b c"
  by (cases sg) (auto simp: arch_set_compare_def cobr_compare_def arch_compare_def Let_def sint_eq_iff
      not_less_iff_gr_or_eq)


text \<open>What executing a compare-and-branch leaves: the operands are read before anything changes.\<close>

lemma operand_value_ip: "fst (operand_value p (c\<lparr>ip := x\<rparr>)) = fst (operand_value p c)"
  by (simp add: operand_value_def register_value_def split: vf2_i960_operand_value.split)

lemma branch_operands:
  assumes "branch_shape i"
  obtains a b where "\<And>x. operand i 0 (s\<lparr>sys_cpu := (sys_cpu s)\<lparr>ip := x\<rparr>\<rparr>) = (Inr a, s\<lparr>sys_cpu := (sys_cpu s)\<lparr>ip := x\<rparr>\<rparr>)"
    and "\<And>x. operand i 1 (s\<lparr>sys_cpu := (sys_cpu s)\<lparr>ip := x\<rparr>\<rparr>) = (Inr b, s\<lparr>sys_cpu := (sys_cpu s)\<lparr>ip := x\<rparr>\<rparr>)"
    and "direct_operands i s = (Inr (a, b), s)"
proof -
  let ?c = "sys_cpu s"
  have sh: "\<exists>v. operand_value (operands i k) c = (Inr v, c) \<and> arch_operand_value (operands i k) c = (Inr v, c)"
    if "k \<in> {0, 1}" for k c
    using assms that by (auto simp: branch_shape_def)
  obtain a b where ab: "operand_value (operands i 0) ?c = (Inr a, ?c)" "arch_operand_value (operands i 0) ?c = (Inr a, ?c)"
    "operand_value (operands i 1) ?c = (Inr b, ?c)" "arch_operand_value (operands i 1) ?c = (Inr b, ?c)"
    using sh [of 0 ?c] sh [of 1 ?c] by auto
  have x: "operand_value (operands i k) (?c\<lparr>ip := x\<rparr>) = (Inr v, ?c\<lparr>ip := x\<rparr>)"
    if "k \<in> {0, 1}" "operand_value (operands i k) ?c = (Inr v, ?c)" for k x and v :: u32
    using sh [OF that(1), of "?c\<lparr>ip := x\<rparr>"] operand_value_ip [of "operands i k" x ?c] that(2) by auto
  have "is_direct_compare (mnemonic i)"
    using assms by (auto simp: branch_shape_def branch_names_def is_direct_compare_def)
  then have "direct_operands i s = (Inr (a, b), s)"
    by (simp add: direct_operands_def on_cpu_def ab ab(4) [unfolded One_nat_def])
  then show thesis
    using that [of a b] x [OF _ ab(1)] x [OF _ ab(3)] by (simp add: operand_def on_cpu_def)
qed

text \<open>The processor after a compare-and-branch of the legacy interpreter, retired.\<close>

definition branched :: "vf2_i960_instruction \<Rightarrow> u32 \<Rightarrow> u32 \<Rightarrow> vf2_i960_cpu \<Rightarrow> vf2_i960_cpu" where
  "branched i a b c =
     (let mn = mnemonic i;
          stepped = c\<lparr>ip := ip c + ucast (i_size i)\<rparr>;
          compared = (if take 4 mn = ''cmpo'' \<or> take 4 mn = ''cmpi''
                      then cobr_compare (take 4 mn = ''cmpi'') a b stepped else stepped)
      in retire (if direct_compare_condition mn a b then compared\<lparr>ip := target i\<rparr> else compared))"

lemma legacy_branch:
  assumes "branch_shape i" and "fetch s = (Inr i, s)" and "\<not> area_null (sys_machine s) MAIN_ROM"
    and "direct_operands i s = (Inr (a, b), s)"
  shows "vf2_i960_step_legacy s =
    (Inr (trace_event (ip (sys_cpu s)) i (branched i a b (sys_cpu s))), s\<lparr>sys_cpu := branched i a b (sys_cpu s)\<rparr>)"
proof -
  obtain a' b' where r: "\<And>x. operand i 0 (s\<lparr>sys_cpu := (sys_cpu s)\<lparr>ip := x\<rparr>\<rparr>) = (Inr a', s\<lparr>sys_cpu := (sys_cpu s)\<lparr>ip := x\<rparr>\<rparr>)"
    "\<And>x. operand i 1 (s\<lparr>sys_cpu := (sys_cpu s)\<lparr>ip := x\<rparr>\<rparr>) = (Inr b', s\<lparr>sys_cpu := (sys_cpu s)\<lparr>ip := x\<rparr>\<rparr>)"
    and "direct_operands i s = (Inr (a', b'), s)"
    by (rule branch_operands [OF assms(1), of s]) blast
  then have [simp]: "a' = a" "b' = b" using assms(4) by simp_all
  let ?n = "ip (sys_cpu s) + ucast (i_size i)"
  have "vf2_i960_step_legacy s = run_fetched i s"
    using assms(2,3) not_literal_branch [OF assms(1)] by (simp add: step_legacy_cases)
  also have "\<dots> = (Inr (trace_event (ip (sys_cpu s)) i (branched i a b (sys_cpu s))), s\<lparr>sys_cpu := branched i a b (sys_cpu s)\<rparr>)"
    using r(1) [of ?n] r(2) [of ?n]
    by (simp add: run_fetched_def Let_def execute_branch_dispatch [OF assms(1)] execute_cobr_def jump_if_def
        branched_def)
  finally show ?thesis .
qed


lemma cobr_compare_alt:
  "cobr_compare sg a b c = c\<lparr>compare_result := arch_compare a b sg,
     arithmetic_control := (arithmetic_control c AND NOT 7) OR condition_bits (arch_compare a b sg)\<rparr>"
  by (cases sg) (auto simp: cobr_compare_def arch_compare_def condition_bits_def Let_def sint_eq_iff not_less_iff_gr_or_eq)

lemma keep_bits: "((x AND n) OR b) AND n OR b = (x AND n) OR (b :: u32)"
  by (rule bit_word_eqI) (auto simp: bit_simps)




section \<open>Properties\<close>


text \<open>C8: on \<open>cmpibno\<close> and \<open>cmpibo\<close>, branch if unordered and branch if ordered, the two interpreters
  take opposite branches: the architectural step always takes \<open>cmpibo\<close> and never \<open>cmpibno\<close>, the
  step the run loop is built with by default does the reverse. Everything else they leave alike.\<close>

theorem vf2_i960_ordered_branch_divergence:
  assumes "fetch s = (Inr i, s)" and "\<not> area_null (sys_machine s) MAIN_ROM"
    and "mnemonic i = ''cmpibo'' \<or> mnemonic i = ''cmpibno''"
  shows "\<exists>ev ev' c. vf2_i960_step_legacy s = (Inr ev, s\<lparr>sys_cpu := c\<rparr>) \<and>
    ip c = (if mnemonic i = ''cmpibno'' then target i else ip (sys_cpu s) + ucast (i_size i)) \<and>
    vf2_i960_step s = (Inr ev', s\<lparr>sys_cpu := c\<lparr>ip :=
      (if mnemonic i = ''cmpibo'' then target i else ip (sys_cpu s) + ucast (i_size i))\<rparr>\<rparr>)"
proof -
  have dc: "is_direct_compare (mnemonic i)" and nl: "\<not> is_literal_multi_move i"
    using assms(3) by (auto simp: is_direct_compare_def is_literal_multi_move_def)
  then have sh: "branch_shape i"
    using fetched_branch [OF assms(1)] assms(3) by (auto simp: byte_compare_shape_def)
  obtain a b where d: "direct_operands i s = (Inr (a, b), s)"
    by (rule branch_operands [OF sh, of s]) blast
  note l = legacy_branch [OF sh assms(1,2) d]
  let ?ev = "trace_event (ip (sys_cpu s)) i (branched i a b (sys_cpu s))"
  let ?x = "if mnemonic i = ''cmpibo'' then target i else ip (sys_cpu s) + ucast (i_size i)"
  have "vf2_i960_step s = (Inr (?ev\<lparr>ip_after := ?x\<rparr>), s\<lparr>sys_cpu := (branched i a b (sys_cpu s))\<lparr>ip := ?x\<rparr>\<rparr>)"
    "ip (branched i a b (sys_cpu s)) =
       (if mnemonic i = ''cmpibno'' then target i else ip (sys_cpu s) + ucast (i_size i))"
    using assms(1,3) dc nl d l
    by (elim disjE; simp add: vf2_i960_step_def arch_fix_direct_compare_def arch_set_ip_def Let_def branched_def
        cobr_compare_alt cobr_compare_arch keep_bits direct_compare_condition_def arch_compare_branch_matches_def
        retire_def del: bit.conj_disj_distrib2)+
  then show ?thesis using l by blast
qed

text \<open>A processor at reset in front of a program ROM, for the concrete instances.\<close>

definition rom_system :: "u8 list \<Rightarrow> unit sys" where
  "rom_system bytes = sample_system
     \<lparr>sys_machine := snd (vf2_model2a_attach_main_rom (Some (\<lambda>k. if k < length bytes then bytes ! k else 0))
        (length bytes) (sys_machine sample_system))\<rparr>"

lemma rom_system_simps:
  "bytes \<noteq> [] \<Longrightarrow> \<not> area_null (sys_machine (rom_system bytes)) MAIN_ROM"
  "sys_cpu (rom_system bytes) = zeroed_cpu"
  "bytes \<noteq> [] \<Longrightarrow> fetch (rom_system bytes) =
     (case vf2_i960_decode (Some (\<lambda>k. if k < length bytes then bytes ! k else 0)) (length bytes) 0 (init_instruction 0 0) of
        (Inl e, _) \<Rightarrow> (Inl e, rom_system bytes) | (Inr _, i) \<Rightarrow> (Inr i, rom_system bytes))"
  by (simp_all add: rom_system_def sample_system_def fetch_def vf2_model2a_attach_main_rom_def area_null_def
      area_size_def zeroed_cpu_def split: prod.split sum.split)

lemma fetch_cmpibno:
  "\<exists>i. fetch (rom_system [8, 0, 0, 0x38]) = (Inr i, rom_system [8, 0, 0, 0x38]) \<and> mnemonic i = ''cmpibno'' \<and> target i = 8 \<and> i_size i = 4"
  by (simp add: rom_system_simps vf2_i960_decode_def read_le32_def le32_dec_def init_instruction_def decode_cobr_def
      cobr_names_def sign_extend_def Let_def)



lemma vf2_i960_ordered_branch_divergence_witness:
  "\<exists>ev ev' s s'. vf2_i960_step_legacy (rom_system [8, 0, 0, 0x38]) = (Inr ev, s) \<and> ip (sys_cpu s) = 8 \<and>
     vf2_i960_step (rom_system [8, 0, 0, 0x38]) = (Inr ev', s') \<and> ip (sys_cpu s') = 4"
proof -
  obtain i where f: "fetch (rom_system [8, 0, 0, 0x38]) = (Inr i, rom_system [8, 0, 0, 0x38])"
    and i: "mnemonic i = ''cmpibno''" "target i = 8" "i_size i = 4"
    using fetch_cmpibno by blast
  show ?thesis
    using vf2_i960_ordered_branch_divergence [OF f] by (fastforce simp: i rom_system_simps zeroed_cpu_def)
qed

end
