(* ===== verification/Vf2_I960_Properties.thy ===== *)
theory Vf2_I960_Properties
  imports Vf2_I960_Branches
begin

text \<open>
  The guarantees of the decoder, of one step and of the bounded run, from the invariants and the
  counter lemmas of the preceding theories.
\<close>

section \<open>Decoding\<close>

text \<open>C9: a decoded instruction is well formed (valid, register numbers below 32, scales at most 4,
  at most three operands, 4 or 8 bytes long and inside the image) and depends only on bytes of the
  image: no byte beyond it is read, and nothing is left of what the output structure held.\<close>

theorem vf2_i960_decode_wellformed:
  assumes "vf2_i960_decode (Some img) n address i0 = (Inr (), i)"
  shows "instruction_ok n i \<and>
    (\<forall>img' i0'. (\<forall>k < n. img' k = img k) \<longrightarrow> vf2_i960_decode (Some img') n address i0' = (Inr (), i))"
proof -
  have "vf2_i960_decode (Some img') n address i0' = (Inr (), i)" if "\<forall>k < n. img' k = img k" for img' i0'
    using decode_locality [OF that] decode_success_fresh [of "Some img" n address i0 i0'] assms by simp
  then show ?thesis using vf2_i960_decode_ok [OF assms] by blast
qed

lemma vf2_i960_decode_wellformed_witness:
  "instruction_ok 4 (snd (vf2_i960_decode (Some ((!) [8, 0, 0, 0x38])) 4 0 (init_instruction 0 0)))"
proof -
  have "fst (vf2_i960_decode (Some ((!) [8, 0, 0, 0x38])) 4 0 (init_instruction 0 0)) = Inr ()"
    by (simp add: vf2_i960_decode_def read_le32_def le32_dec_def init_instruction_def decode_cobr_def
        cobr_names_def Let_def)
  then show ?thesis
    using vf2_i960_decode_wellformed [of "(!) [8, 0, 0, 0x38]" 4 0 "init_instruction 0 0"]
    by (cases "vf2_i960_decode (Some ((!) [8, 0, 0, 0x38])) 4 0 (init_instruction 0 0)") simp
qed

section \<open>Stepping\<close>

text \<open>C10: a step of either interpreter retires exactly one instruction or, when it fails, none: then
  the counters and the instruction pointer are as before. The lifted tally is never touched.\<close>

theorem vf2_i960_step_accounting:
  "case stepper legacy s of
     (Inr _, s') \<Rightarrow>
       executed_instructions (sys_cpu s') = executed_instructions (sys_cpu s) + 1 \<and>
       interpreted_instructions (sys_cpu s') = interpreted_instructions (sys_cpu s) + 1 \<and>
       lifted_instructions (sys_cpu s') = lifted_instructions (sys_cpu s)
   | (Inl _, s') \<Rightarrow>
       executed_instructions (sys_cpu s') = executed_instructions (sys_cpu s) \<and>
       interpreted_instructions (sys_cpu s') = interpreted_instructions (sys_cpu s) \<and>
       lifted_instructions (sys_cpu s') = lifted_instructions (sys_cpu s) \<and>
       ip (sys_cpu s') = ip (sys_cpu s)"
proof (cases "stepper legacy s")
  case (Pair r s')
  then show ?thesis
    using stepper_ok_counters [of legacy s _ s'] stepper_error_counters [of legacy s _ s']
    by (cases r) simp_all
qed

text \<open>C11: the lifted step refines the interpreted one: same outcome, same processor and board, and
  the instruction it retires moved from the interpreted to the lifted tally.\<close>

theorem vf2_i960_step_lifted_refines:
  "vf2_i960_step_lifted s =
     (case vf2_i960_step s of (r, s') \<Rightarrow>
        (r, s'\<lparr>sys_cpu := (sys_cpu s')
           \<lparr>interpreted_instructions := interpreted_instructions (sys_cpu s),
            lifted_instructions := lifted_instructions (sys_cpu s) + (if isl r then 0 else 1)\<rparr>\<rparr>))"
proof (cases "vf2_i960_step s")
  case (Pair r s')
  then have "stepper False s = (r, s')" by (simp add: stepper_def)
  then show ?thesis
    using stepper_ok_counters(2,3) [of False s _ s'] stepper_error_counters(2,3) [of False s _ s'] Pair
    by (cases r) (simp_all add: vf2_i960_step_lifted_def Let_def)
qed

section \<open>Running\<close>

text \<open>The step budget of a run: the options', two million when absent or zero.\<close>

definition run_limit :: "'t vf2_i960_run_options option \<Rightarrow> u64" where
  "run_limit options =
     (case options of None \<Rightarrow> 2000000
      | Some given \<Rightarrow> if max_steps given = 0 then 2000000 else max_steps given)"

lemma run_loop_reasons:
  "fst (fst (run_loop legacy opts start_count s t)) \<in>
     {HALT_NONE, HALT_STOP_ADDRESS, HALT_SELF_BRANCH, HALT_MEMORY_FAULT, HALT_UNSUPPORTED_INSTRUCTION}"
proof (induction legacy opts start_count s t rule: run_loop.induct)
  case (1 legacy opts start_count s t)
  show ?case
  proof (cases "stepper legacy s")
    case (Pair r s')
    then show ?thesis
      using 1 by (subst run_loop.simps) (cases r; auto simp: Let_def)
  qed
qed

text \<open>C4: a run always returns, after at most its budget of instructions, and its result says why:
  the budget was used up exactly, the stop address was reached, an instruction branched to itself,
  or a step failed, which is the only way to an error status.\<close>

theorem vf2_i960_run_bounded:
  "let (result, s', t') = vf2_i960_run legacy options s t
   in run_executed result \<le> run_limit options \<and>
      run_executed result = executed_instructions (sys_cpu s') - executed_instructions (sys_cpu s) \<and>
      halt_address result = ip (sys_cpu s') \<and>
      halt_reason result \<in> {HALT_MAX_STEPS, HALT_STOP_ADDRESS, HALT_SELF_BRANCH, HALT_MEMORY_FAULT,
                            HALT_UNSUPPORTED_INSTRUCTION} \<and>
      (halt_reason result = HALT_MAX_STEPS \<longrightarrow>
         run_executed result = run_limit options \<and> run_status result = VF2_OK) \<and>
      (halt_reason result = HALT_STOP_ADDRESS \<longrightarrow>
         halt_address result = (case options of None \<Rightarrow> 0 | Some given \<Rightarrow> stop_address given) \<and>
         run_status result = VF2_OK) \<and>
      (run_status result \<noteq> VF2_OK \<longrightarrow>
         halt_reason result \<in> {HALT_MEMORY_FAULT, HALT_UNSUPPORTED_INSTRUCTION})"
proof -
  let ?opts = "case options of None \<Rightarrow> default_options
     | Some given \<Rightarrow> if max_steps given = 0 then given\<lparr>max_steps := 2000000\<rparr> else given"
  have limit: "max_steps ?opts = run_limit options"
    by (simp add: run_limit_def default_options_def split: option.split)
  have stop: "stop_address ?opts = (case options of None \<Rightarrow> 0 | Some given \<Rightarrow> stop_address given)"
    by (simp add: default_options_def split: option.split)
  obtain x s' t' where x: "run_loop legacy ?opts (executed_instructions (sys_cpu s)) s t = (x, s', t')"
    by (rule prod_cases3)
  obtain reason status where "x = (reason, status)" by (rule prod.exhaust)
  with x have l: "run_loop legacy ?opts (executed_instructions (sys_cpu s)) s t = ((reason, status), s', t')"
    by simp
  have "executed_instructions (sys_cpu s) - executed_instructions (sys_cpu s) \<le> max_steps ?opts" by simp
  note b = run_loop_bound [OF this l, unfolded limit stop]
  have reason: "reason \<in> {HALT_NONE, HALT_STOP_ADDRESS, HALT_SELF_BRANCH, HALT_MEMORY_FAULT, HALT_UNSUPPORTED_INSTRUCTION}"
    using run_loop_reasons [of legacy ?opts "executed_instructions (sys_cpu s)" s t] unfolding l by simp
  have r: "vf2_i960_run legacy options s t =
     (\<lparr>halt_reason = (if reason = HALT_NONE then HALT_MAX_STEPS else reason), run_status = status,
       halt_address = ip (sys_cpu s'),
       run_executed = executed_instructions (sys_cpu s') - executed_instructions (sys_cpu s)\<rparr>, s', t')"
    unfolding vf2_i960_run_def Let_def l prod.case ..
  show ?thesis
    unfolding r Let_def prod.case vf2_i960_run_result.simps
    using b reason by (cases reason) simp_all
qed

text \<open>A run of the one-instruction program that branches to itself.\<close>

lemma vf2_i960_run_bounded_witness:
  "run_executed (fst (vf2_i960_run True (None :: unit vf2_i960_run_options option) (rom_system [0, 0, 0, 0x08]) ())) \<le> 2000000"
  using vf2_i960_run_bounded [of True "None :: unit vf2_i960_run_options option" "rom_system [0, 0, 0, 0x08]" "()"]
  unfolding Let_def split_def run_limit_def option.case by blast

text \<open>C3: a run keeps the machine safe: the ROMs are not written and no device buffer is lost, the
  frame stack stays within its 128 frames and balances calls with returns, and nothing outside the
  32 registers and the 128 frames of 16 registers is written, whatever the program does.\<close>

theorem vf2_i960_run_safe:
  assumes "machine_ok (sys_machine s)" and "frame_stack_ok (sys_cpu s)"
  shows "let s' = fst (snd (vf2_i960_run legacy options s t))
         in machine_ok (sys_machine s') \<and> same_roms (sys_machine s) (sys_machine s') \<and>
            frame_stack_ok (sys_cpu s') \<and>
            (\<forall>r \<ge> 32. registers (sys_cpu s') r = registers (sys_cpu s) r) \<and>
            (\<forall>d r. d \<ge> 128 \<or> r \<ge> 16 \<longrightarrow> local_frames (sys_cpu s') d r = local_frames (sys_cpu s) d r)"
proof -
  have "board_kept (sys_machine s) (sys_nan s) s" "frames_ok s"
    "arrays_ok (registers (sys_cpu s)) (local_frames (sys_cpu s)) s"
    using assms board_inv_refl by (simp_all add: board_kept_def frames_ok_def arrays_ok_def)
  note k = board_step.run_keeps [OF this(1), of legacy options t] frames_step.run_keeps [OF this(2), of legacy options t]
    arrays_step.run_keeps [OF this(3), of legacy options t]
  from k
  show ?thesis
    unfolding Let_def board_kept_def board_inv_def frames_ok_def arrays_ok_def by blast
qed

lemma vf2_i960_run_safe_witness:
  "frame_stack_ok (sys_cpu (fst (snd (vf2_i960_run True (None :: unit vf2_i960_run_options option)
     (rom_system [0, 0, 0, 0x08]) ()))))"
proof -
  have "machine_ok (sys_machine (rom_system [0, 0, 0, 0x08]))"
    using machine_ok_fresh [of "()"]
    by (simp add: rom_system_def sample_system_def machine_ok_attach_main_rom)
  moreover have "frame_stack_ok (sys_cpu (rom_system [0, 0, 0, 0x08]))"
    by (simp add: rom_system_simps frame_stack_ok_def zeroed_cpu_def VF2_I960_MAX_LOCAL_FRAMES_def)
  ultimately show ?thesis
    using vf2_i960_run_safe [of "rom_system [0, 0, 0, 0x08]" True "None :: unit vf2_i960_run_options option" "()"]
    by (simp add: Let_def)
qed

end
