(* ===== verification/Vf2_I960_Convert.thy ===== *)
theory Vf2_I960_Convert
  imports Vf2_I960_Properties
begin

text \<open>
  Conversions between integers and floats: integers of at most 24 bits are floats, so the
  conversion instructions are inverse to each other on them.
\<close>

section \<open>Small integers are floats\<close>

lemma sign_bit_split:
  assumes "p < 2 ^ 31"
  shows "bit (sign_bit s OR of_nat p) 31 = s"
    and "unat (drop_bit 23 (sign_bit s OR of_nat p) AND 0xff) = p div 2 ^ 23"
    and "unat ((sign_bit s OR of_nat p) AND 0x7fffff) = p mod 2 ^ 23"
proof -
  have sb: "sign_bit s = push_bit 31 (of_bool s)" by (simp add: sign_bit_def)
  have masks: "(0xff :: u32) = mask 8" "(0x7fffff :: u32) = mask 23" by (simp_all add: mask_eq_exp_minus_1)
  have high: "\<not> bit p k" if "31 \<le> k" for k
    using assms that by (metis bit_take_bit_iff leD take_bit_nat_eq_self)
  have w: "bit (of_nat p :: u32) k \<longleftrightarrow> k < 32 \<and> bit p k" for k by (simp add: bit_of_nat_iff)
  show "bit (sign_bit s OR of_nat p) 31 = s"
    using high [of 31] by (simp add: sb bit_simps)
  have "drop_bit 23 (sign_bit s OR of_nat p) AND 0xff = (of_nat (p div 2 ^ 23) :: u32)"
  proof (rule bit_word_eqI)
    fix k assume "k < LENGTH(32)"
    have "bit (p div 2 ^ 23) k = bit (drop_bit 23 p) k" by (simp only: drop_bit_eq_div)
    then have "bit (p div 2 ^ 23) k = bit p (23 + k)" by (simp add: bit_drop_bit_eq)
    moreover have "k < 8 \<or> \<not> bit p (23 + k)" using high [of "23 + k"] by (cases "8 \<le> k") auto
    ultimately show "bit (drop_bit 23 (sign_bit s OR of_nat p) AND 0xff) k = bit (of_nat (p div 2 ^ 23) :: u32) k"
      using \<open>k < LENGTH(32)\<close>
      unfolding masks sb by (auto simp: bit_simps)
  qed
  moreover have "p div 2 ^ 23 < 2 ^ 32" using assms by (simp add: less_mult_imp_div_less)
  ultimately show "unat (drop_bit 23 (sign_bit s OR of_nat p) AND 0xff) = p div 2 ^ 23"
    by (simp add: unsigned_of_nat take_bit_nat_eq_self)
  have "(sign_bit s OR of_nat p) AND 0x7fffff = (of_nat (p mod 2 ^ 23) :: u32)"
  proof (rule bit_word_eqI)
    fix k assume "k < LENGTH(32)"
    have "bit (p mod 2 ^ 23) k = bit (take_bit 23 p) k" by (simp only: take_bit_eq_mod)
    then have "bit (p mod 2 ^ 23) k = (k < 23 \<and> bit p k)" by (simp add: bit_take_bit_iff)
    then show "bit ((sign_bit s OR of_nat p) AND 0x7fffff) k = bit (of_nat (p mod 2 ^ 23) :: u32) k"
      using \<open>k < LENGTH(32)\<close> unfolding masks sb by (auto simp: bit_simps)
  qed
  moreover have "p mod 2 ^ 23 < 2 ^ 32" by (rule order.strict_trans [of _ "2 ^ 23"]) simp_all
  ultimately show "unat ((sign_bit s OR of_nat p) AND 0x7fffff) = p mod 2 ^ 23"
    by (simp add: unsigned_of_nat take_bit_nat_eq_self)
qed

lemma f32_small:
  assumes "0 < m" and "m < 2 ^ 24"
  shows "f32_of_bits (round_bits s m 0 False) =
    F_Fin s (m * 2 ^ (24 - bit_length m)) (int (bit_length m) - 24)"
proof -
  let ?l = "bit_length m"
  have l: "?l \<le> 24" "0 < ?l" "2 ^ (?l - 1) \<le> m" "m < 2 ^ ?l"
    using bit_length_le [OF assms(2)] bit_length_bounds [of m] assms(1) by auto
  let ?sig = "m * 2 ^ (24 - ?l)"
  have sig: "2 ^ 23 \<le> ?sig" "?sig < 2 ^ 24"
  proof -
    have "2 ^ (?l - 1) * 2 ^ (24 - ?l) \<le> ?sig" using l(3) by (intro mult_le_mono1)
    moreover have "(2 :: nat) ^ (?l - 1) * 2 ^ (24 - ?l) = 2 ^ 23"
      using l(1,2) by (simp flip: power_add)
    ultimately show "2 ^ 23 \<le> ?sig" by (simp only:)
    have "?sig < 2 ^ ?l * 2 ^ (24 - ?l)" using l(4) by (intro mult_less_mono1) auto
    also have "\<dots> = 2 ^ 24" using l(1) by (simp flip: power_add)
    finally show "?sig < 2 ^ 24" .
  qed
  have q: "max (int ?l - 24) (- 149) = int ?l - 24" by simp
  have rs: "round_significand m 0 False (int ?l - 24) = ?sig"
    using l(1) by (simp add: round_significand_def nat_diff_distrib nat_int_add)
  let ?p = "(?l + 125) * 0x800000 + ?sig"
  have p: "nat (int ?l - 24 + 149) = ?l + 125" by simp
  have small: "?p < 0x7f800000" using sig(2) l(1) by simp
  have bits: "round_bits s m 0 False = sign_bit s OR of_nat ?p"
    unfolding round_bits_def Let_def add_0 q rs p using small by (simp only: not_le [symmetric] if_False)
  have "?p < 2 ^ 31" using small by simp
  note u = sign_bit_split [OF this, of s, folded bits]
  have dm: "?p div 2 ^ 23 = ?l + 126" "?p mod 2 ^ 23 = ?sig - 2 ^ 23"
  proof -
    have "?p = (?l + 126) * 2 ^ 23 + (?sig - 2 ^ 23)" "?sig - 2 ^ 23 < 2 ^ 23" using sig by simp_all
    then show "?p div 2 ^ 23 = ?l + 126" "?p mod 2 ^ 23 = ?sig - 2 ^ 23"
      by (metis div_mult_self3 div_less add.right_neutral power_not_zero zero_neq_numeral,
          metis mod_mult_self3 mod_less)
  qed
  show ?thesis
    unfolding f32_of_bits_def Let_def u dm using l(1) sig by simp
qed


text \<open>Every rounding mode gives back a value that is an integer.\<close>

lemma fin_exact:
  assumes "k \<le> 24"
  shows "fin_floor s (m * 2 ^ (24 - k)) (int k - 24) = signed_value s m"
    and "fin_ceil s (m * 2 ^ (24 - k)) (int k - 24) = signed_value s m"
    and "fin_trunc s (m * 2 ^ (24 - k)) (int k - 24) = signed_value s m"
    and "fin_half_even s (m * 2 ^ (24 - k)) (int k - 24) = signed_value s m"
proof -
  have scale: "signed_value t (m * 2 ^ j) = signed_value t m * 2 ^ j" for t j by (simp add: signed_value_def)
  have f: "fin_floor t (m * 2 ^ (24 - k)) (int k - 24) = signed_value t m" for t
    using assms by (auto simp: fin_floor_def scale nat_diff_distrib)
  moreover have neg: "signed_value (\<not> s) m = - signed_value s m" by (simp add: signed_value_def)
  ultimately show "fin_floor s (m * 2 ^ (24 - k)) (int k - 24) = signed_value s m"
    "fin_ceil s (m * 2 ^ (24 - k)) (int k - 24) = signed_value s m"
    "fin_trunc s (m * 2 ^ (24 - k)) (int k - 24) = signed_value s m"
    by (simp_all add: fin_ceil_def fin_trunc_def signed_value_def)
  have "nat (24 - int k) = 24 - k" by simp
  then show "fin_half_even s (m * 2 ^ (24 - k)) (int k - 24) = signed_value s m"
    using assms f [of s]
    by (cases "k = 24") (simp_all add: fin_half_even_def Let_def scale f)
qed

lemma convert_small:
  assumes "\<bar>sint x\<bar> < 2 ^ 24"
  shows "convert_real_to_integer c (f32_of_int (sint x)) tm = Inr x"
proof (cases "sint x = 0")
  case True
  then have "x = 0" by (simp add: signed_eq_0_iff)
  then show ?thesis
    by (simp add: f32_of_int_def convert_real_to_integer_def f32_of_bits_def fin_floor_def fin_ceil_def
        fin_trunc_def fin_half_even_def signed_value_def Let_def)
next
  case False
  let ?m = "nat \<bar>sint x\<bar>" and ?s = "sint x < 0"
  have m: "0 < ?m" "?m < 2 ^ 24" using False assms by auto
  have k: "bit_length ?m \<le> 24" using bit_length_le [OF m(2)] .
  have v: "signed_value ?s ?m = sint x" by (simp add: signed_value_def)
  have "f32_of_int (sint x) = round_bits ?s ?m 0 False" using False by (simp add: f32_of_int_def)
  then have "f32_of_bits (f32_of_int (sint x)) = F_Fin ?s (?m * 2 ^ (24 - bit_length ?m)) (int (bit_length ?m) - 24)"
    by (simp only: f32_small [OF m])
  then show ?thesis
    using sint_range [of x] unfolding convert_real_to_integer_def
    by (simp add: fin_exact [OF k] v Let_def)
qed

lemma execute_convert_dispatch:
  "mnemonic i = ''cvtir'' \<Longrightarrow> execute_instruction i n = execute_cvtir i"
  "mnemonic i \<in> {''cvtri'', ''cvtzri''} \<Longrightarrow> execute_instruction i n = execute_cvtri i"
  by (auto simp: execute_instruction_def alu_mnemonics_def)

text \<open>An integer of at most 24 bits survives the conversion to a float and back, through
  \<open>cvtri\<close> in every rounding mode of the arithmetic controls and through \<open>cvtzri\<close>.\<close>

theorem vf2_i960_convert_roundtrip:
  assumes "mnemonic i = ''cvtir''" and "supplies i 0 s x" and "receives i 1 d" and "\<bar>sint x\<bar> < 2 ^ 24"
    and "mnemonic j \<in> {''cvtri'', ''cvtzri''}" and "opvalue (operands j 0) = OPERAND_REGISTER (of_nat d)"
    and "receives j 1 e"
  shows "\<exists>bits. pbind (execute_instruction i n) (\<lambda>_. execute_instruction j n') s =
    (Inr (), with_register e x (with_register d bits s))"
proof -
  let ?bits = "f32_of_int (sint x)"
  have d: "d < 32" using assms(3) by (simp add: receives_def)
  then have u: "unat (of_nat d :: u8) = d" by (simp add: unsigned_of_nat take_bit_nat_eq_self)
  have "execute_instruction i n s = (Inr (), with_register d ?bits s)"
    using assms(2,3) by (simp add: execute_convert_dispatch(1) [OF assms(1)] execute_cvtir_def)
  moreover have "supplies j 0 (with_register d ?bits s) ?bits"
    using d by (simp add: supplies_def operand_value_def assms(6) register_value_def u with_register_def put_register_def)
  then have "execute_instruction j n' (with_register d ?bits s) = (Inr (), with_register e x (with_register d ?bits s))"
    using assms(7) convert_small [OF assms(4)]
    by (simp add: execute_convert_dispatch(2) [OF assms(5)] execute_cvtri_def)
  ultimately show ?thesis by auto
qed

lemma vf2_i960_convert_roundtrip_witness:
  "\<exists>bits. pbind (execute_instruction ((sample_instruction ''cvtir'' (- 1234567) 0 0)
        \<lparr>operands := (\<lambda>k. [make_literal (- 1234567), make_register 4 True] ! k)\<rparr>) 4)
      (\<lambda>_. execute_instruction ((sample_instruction ''cvtri'' 0 0 0)
        \<lparr>operands := (\<lambda>k. [make_register 4 False, make_register 6 True] ! k)\<rparr>) 8) sample_system =
    (Inr (), with_register 6 (- 1234567) (with_register 4 bits sample_system))"
  by (rule vf2_i960_convert_roundtrip)
    (simp_all add: sample_instruction_def supplies_def receives_def operand_value_def
        make_literal_def make_register_def register_operand_def empty_operand_def)

end
