(* ===== verification/Vf2_I960_Format.thy ===== *)
theory Vf2_I960_Format
  imports Vf2_I960_Properties
begin

text \<open>
  The text of an instruction against the buffer it is written to: \<open>outgrows\<close> relates a formatter
  to itself on a larger buffer.
\<close>

section \<open>Formatting\<close>

text \<open>A formatter that succeeds with a buffer succeeds alike with a larger one.\<close>

definition outgrows :: "(string, 'a) prog \<Rightarrow> (string, 'a) prog \<Rightarrow> bool" where
  "outgrows p q \<longleftrightarrow> (\<forall>s x t. p s = (Inr x, t) \<longrightarrow> q s = (Inr x, t))"

named_theorems outgrows_intros

lemma outgrows_append [outgrows_intros]: "n \<le> m \<Longrightarrow> outgrows (append_text n txt) (append_text m txt)"
  by (auto simp: outgrows_def append_text_def split: if_splits)

lemma outgrows_refl [outgrows_intros]: "outgrows p p"
  by (simp add: outgrows_def)

lemma outgrows_if [outgrows_intros]:
  "outgrows p q \<Longrightarrow> outgrows p' q' \<Longrightarrow> outgrows (if b then p else p') (if b then q else q')"
  by simp

lemma outgrows_bind [outgrows_intros]:
  assumes "outgrows p q" and "\<And>x. outgrows (f x) (g x)"
  shows "outgrows (pbind p f) (pbind q g)"
  unfolding outgrows_def
proof (intro allI impI)
  fix s y t assume "pbind p f s = (Inr y, t)"
  then obtain x s' where "p s = (Inr x, s')" "f x s' = (Inr y, t)" by (rule pbind_okE)
  then have "q s = (Inr x, s')" "g x s' = (Inr y, t)" using assms unfolding outgrows_def by blast+
  then show "pbind q g s = (Inr y, t)" by simp
qed

lemma outgrows_for [outgrows_intros]:
  assumes "\<And>k. outgrows (f k) (g k)"
  shows "outgrows (pfor ks f) (pfor ks g)"
proof (induction ks)
  case Nil
  show ?case unfolding pfor.simps by (rule outgrows_refl)
next
  case (Cons k ks)
  show ?case unfolding pfor.simps by (rule outgrows_bind [OF assms Cons])
qed

lemma outgrows_operand [outgrows_intros]:
  assumes "n \<le> m" shows "outgrows (format_operand n p) (format_operand m p)"
proof -
  note a = outgrows_append [OF assms]
  show ?thesis
    unfolding format_operand_def format_memory_def
    by (cases "opvalue p"; simp only: vf2_i960_operand_value.case)
      (rule a outgrows_refl outgrows_bind outgrows_if)+
qed

lemma append_text_fits: "preserves (\<lambda>out. length out < n) (append_text n txt)"
  by (auto simp: preserves_def append_text_def min_def)

lemma format_operand_fits: "preserves (\<lambda>out. length out < n) (format_operand n p)"
  unfolding format_operand_def format_memory_def
  by (cases "opvalue p"; simp only: vf2_i960_operand_value.case)
    (rule append_text_fits preserves_intros)+

text \<open>Formatting an instruction never writes past the buffer: what it leaves, truncated or not,
  fits with its terminator, and a text that is reported complete is the same in every buffer at
  least as large.\<close>

theorem vf2_i960_format_bounded:
  assumes "vf2_i960_format_instruction n i out = (r, txt)" and "n \<noteq> 0"
  shows "length txt < n \<and>
    (r = Inr () \<longrightarrow> (\<forall>m \<ge> n. \<forall>out'. vf2_i960_format_instruction m i out' = (Inr (), txt)))"
proof
  let ?body = "\<lambda>n. pbind (append_text n (pad9 (mnemonic i))) (\<lambda>_. pfor [0..<unat (operand_count i)]
     (\<lambda>k. pbind (if k \<noteq> 0 then append_text n '', '' else pret ()) (\<lambda>_. format_operand n (operands i k))))"
  let ?word = "\<lambda>n. append_text n (''.word 0x'' @ hex8 (word0 i))"
  have f: "vf2_i960_format_instruction k i x = (if valid i then ?body k [] else ?word k [])" if "k \<noteq> 0" for k x
    using that by (simp add: vf2_i960_format_instruction_def)
  have p: "preserves (\<lambda>out. length out < n) (?body n)" "preserves (\<lambda>out. length out < n) (?word n)"
    by (intro preserves_intros append_text_fits format_operand_fits)+
  show "length txt < n"
    using preservesD_eq [OF p(1), of "[]"] preservesD_eq [OF p(2), of "[]"] assms f [OF assms(2), of out]
    by (auto split: if_splits)
  have g: "outgrows (?body n) (?body m)" "outgrows (?word n) (?word m)" if "n \<le> m" for m
    by (rule outgrows_append [OF that] outgrows_operand [OF that] outgrows_refl outgrows_bind outgrows_for outgrows_if)+
  show "r = Inr () \<longrightarrow> (\<forall>m \<ge> n. \<forall>out'. vf2_i960_format_instruction m i out' = (Inr (), txt))"
  proof (intro impI allI)
    fix m out' assume r: "r = Inr ()" and m: "n \<le> m"
    then have nz: "m \<noteq> 0" using assms(2) by simp
    show "vf2_i960_format_instruction m i out' = (Inr (), txt)"
      using assms(1) g [OF m] r unfolding f [OF assms(2)] f [OF nz] outgrows_def
      by (cases "valid i"; simp only: if_True if_False)
  qed
qed

lemma vf2_i960_format_bounded_witness:
  "length (snd (vf2_i960_format_instruction 8 (sample_instruction ''divi'' 1 2 3) '''')) < 8"
  using vf2_i960_format_bounded [of 8 "sample_instruction ''divi'' 1 2 3" "''''"]
  by (metis prod.collapse zero_neq_numeral)

end
