(* ===== verification/Vf2_Task_Catalog.thy ===== *)
theory Vf2_Task_Catalog
  imports Vf2_Model2a
begin

text \<open>
  The task catalogue of \<open>src/analysis/tasks.c\<close>: the table of task descriptors recovered from a
  ROM image. A name is the bytes before its NUL; \<open>tc_tasks\<close> holds the \<open>count\<close> descriptors of
  the array, with \<open>None\<close> for a NULL pointer. \<open>isalnum\<close> is that of the C locale. Addresses are
  32-bit and wrap, so the scan is a \<open>partial_function\<close>: it need not end on images over 4 GiB.
  Below that size it returns, with the first longest run of records.
\<close>

section \<open>Descriptors\<close>

record vf2_task_descriptor =
  td_descriptor_address :: u32
  td_flags :: u32
  td_instance :: u32
  td_stack_size :: u32
  td_entry_point :: u32
  td_state_address :: u32
  td_scheduler_slot :: u32
  td_name :: "u8 list"

record vf2_task_catalog =
  tc_tasks :: "vf2_task_descriptor list option"
  tc_capacity :: nat
  tc_table_start :: u32
  tc_table_end :: u32

definition tc_count :: "vf2_task_catalog \<Rightarrow> nat" where
  "tc_count catalog = (case tc_tasks catalog of None \<Rightarrow> 0 | Some ts \<Rightarrow> length ts)"

definition VF2_TASK_NAME_CAPACITY :: nat where "VF2_TASK_NAME_CAPACITY = 41"
definition VF2_TASK_RECORD_SIZE :: nat where "VF2_TASK_RECORD_SIZE = 0x40"
definition VF2_TASK_NAME_OFFSET :: nat where "VF2_TASK_NAME_OFFSET = 0x18"
definition VF2_TASK_NAME_FIELD_SIZE :: nat where "VF2_TASK_NAME_FIELD_SIZE = 0x28"

lemmas task_consts = VF2_TASK_NAME_CAPACITY_def VF2_TASK_RECORD_SIZE_def
  VF2_TASK_NAME_OFFSET_def VF2_TASK_NAME_FIELD_SIZE_def

definition valid_name_character :: "u8 \<Rightarrow> bool" where
  "valid_name_character value \<longleftrightarrow> value = 0x20 \<or> value = 0x5f \<or>
     0x30 \<le> value \<and> value \<le> 0x39 \<or> 0x41 \<le> value \<and> value \<le> 0x5a \<or> 0x61 \<le> value \<and> value \<le> 0x7a"

text \<open>The two loops over the name field: the bytes before the first NUL of the field, and the
  name with its trailing spaces dropped.\<close>

definition name_field :: "memory \<Rightarrow> nat \<Rightarrow> u8 list" where
  "name_field rom record_start = takeWhile (\<lambda>b. b \<noteq> 0)
     (read_bytes rom (record_start + VF2_TASK_NAME_OFFSET) VF2_TASK_NAME_FIELD_SIZE)"

definition trim_name :: "u8 list \<Rightarrow> u8 list" where
  "trim_name bs = rev (dropWhile (\<lambda>b. b = 0x20) (rev bs))"

definition parse_task_record :: "memory \<Rightarrow> nat \<Rightarrow> u32 \<Rightarrow> vf2_task_descriptor option" where
  "parse_task_record rom image_size address =
     (if unat address + VF2_TASK_RECORD_SIZE > image_size then None
      else
        let rec = unat address;
            entry = read_le32 rom (rec + 0x0c);
            state = read_le32 rom (rec + 0x10);
            field = name_field rom rec;
            name = trim_name field
        in if entry AND 3 \<noteq> 0 \<or> unat entry \<ge> image_size \<or>
              state < area_base WORK_RAM \<or> unat state \<ge> unat (area_base WORK_RAM) + device_size WORK_RAM
           then None
           else if rom (rec + VF2_TASK_NAME_OFFSET) \<noteq> 0x66 \<or>
                   rom (rec + VF2_TASK_NAME_OFFSET + 1) \<noteq> 0x61 \<or>
                   rom (rec + VF2_TASK_NAME_OFFSET + 2) \<noteq> 0x5f then None
           else if \<not> list_all valid_name_character field then None
           else if length name < 4 \<or> length name \<ge> VF2_TASK_NAME_CAPACITY then None
           else Some \<lparr>td_descriptor_address = address,
                      td_flags = read_le32 rom rec,
                      td_instance = read_le32 rom (rec + 0x04),
                      td_stack_size = read_le32 rom (rec + 0x08),
                      td_entry_point = entry,
                      td_state_address = state,
                      td_scheduler_slot = read_le32 rom (rec + 0x14),
                      td_name = name\<rparr>)"

section \<open>The catalogue\<close>

definition vf2_task_catalog_init :: "vf2_task_catalog \<Rightarrow> vf2_task_catalog" where
  "vf2_task_catalog_init catalog =
     \<lparr>tc_tasks = None, tc_capacity = 0, tc_table_start = 0, tc_table_end = 0\<rparr>"

definition vf2_task_catalog_destroy :: "vf2_task_catalog \<Rightarrow> vf2_task_catalog" where
  "vf2_task_catalog_destroy catalog =
     \<lparr>tc_tasks = None, tc_capacity = 0, tc_table_start = 0, tc_table_end = 0\<rparr>"

text \<open>\<open>size_max\<close> is the host's SIZE\_MAX, \<open>available\<close> whether \<open>realloc\<close> finds room for that
  many descriptors. The doubling stops before it would exceed SIZE\_MAX.\<close>

function grown_capacity :: "nat \<Rightarrow> nat \<Rightarrow> nat \<Rightarrow> nat option" where
  "grown_capacity size_max required capacity =
     (if capacity \<ge> required \<or> capacity = 0 then Some capacity
      else if capacity > size_max div 2 then None
      else grown_capacity size_max required (capacity * 2))"
  by pat_completeness auto

termination
  by (relation "measure (\<lambda>(_, required, capacity). required - capacity)") auto

declare grown_capacity.simps [simp del]

definition reserve_tasks :: "nat \<Rightarrow> (nat \<Rightarrow> bool) \<Rightarrow> nat \<Rightarrow> (vf2_task_catalog, unit) prog" where
  "reserve_tasks size_max available required catalog =
     (if required \<le> tc_capacity catalog then (Inr (), catalog)
      else case grown_capacity size_max required
                  (if tc_capacity catalog = 0 then 32 else tc_capacity catalog) of
             None \<Rightarrow> (Inl VF2_ERROR_OUT_OF_MEMORY, catalog)
           | Some capacity \<Rightarrow>
               if \<not> available capacity then (Inl VF2_ERROR_OUT_OF_MEMORY, catalog)
               else (Inr (), catalog\<lparr>tc_capacity := capacity,
                       tc_tasks := Some (case tc_tasks catalog of None \<Rightarrow> [] | Some ts \<Rightarrow> ts)\<rparr>))"

text \<open>How many records follow one another from an address, and the search for the first longest
  such run. \<open>None\<close> is a loop that does not end.\<close>

partial_function (option) run_length :: "memory \<Rightarrow> nat \<Rightarrow> u32 \<Rightarrow> nat option" where
  "run_length rom image_size cursor =
     (case parse_task_record rom image_size cursor of
        None \<Rightarrow> Some 0
      | Some _ \<Rightarrow> Option.bind (run_length rom image_size (cursor + word_of_nat VF2_TASK_RECORD_SIZE))
                    (\<lambda>n. Some (n + 1)))"

partial_function (option) best_run ::
  "memory \<Rightarrow> nat \<Rightarrow> u32 \<Rightarrow> u32 \<times> nat \<Rightarrow> (u32 \<times> nat) option" where
  "best_run rom image_size address best =
     (if unat address + VF2_TASK_RECORD_SIZE \<le> image_size then
        Option.bind (run_length rom image_size address) (\<lambda>n.
          best_run rom image_size (address + 4) (if n > snd best then (address, n) else best))
      else Some best)"

text \<open>The loop that fills the array: from the state with \<open>count\<close> tasks parsed so far.\<close>

primrec parse_run :: "memory \<Rightarrow> nat \<Rightarrow> nat \<Rightarrow> u32 \<Rightarrow> vf2_task_descriptor list option" where
  "parse_run rom image_size 0 address = Some []"
| "parse_run rom image_size (Suc n) address =
     (case parse_task_record rom image_size address of
        None \<Rightarrow> None
      | Some task \<Rightarrow> map_option ((#) task)
          (parse_run rom image_size n (address + word_of_nat VF2_TASK_RECORD_SIZE)))"

definition vf2_task_catalog_scan ::
  "nat \<Rightarrow> (nat \<Rightarrow> bool) \<Rightarrow> memory option \<Rightarrow> nat \<Rightarrow> vf2_task_catalog \<Rightarrow>
   ((vf2_status + unit) \<times> vf2_task_catalog) option" where
  "vf2_task_catalog_scan size_max available rom_opt image_size catalog =
     (case rom_opt of
        None \<Rightarrow> Some (Inl VF2_ERROR_INVALID_ARGUMENT, catalog)
      | Some rom \<Rightarrow>
          if image_size < VF2_TASK_RECORD_SIZE then Some (Inl VF2_ERROR_INVALID_ARGUMENT, catalog)
          else let emptied = vf2_task_catalog_destroy catalog in
            Option.bind (best_run rom image_size 0 (0, 0)) (\<lambda>(best_start, best_count).
              if best_count = 0 then Some (Inl VF2_ERROR_UNSUPPORTED, emptied)
              else case reserve_tasks size_max available best_count emptied of
                     (Inl e, c) \<Rightarrow> Some (Inl e, c)
                   | (Inr _, c) \<Rightarrow>
                       (case parse_run rom image_size best_count best_start of
                          None \<Rightarrow> Some (Inl VF2_ERROR_BAD_SIZE, vf2_task_catalog_destroy c)
                        | Some ts \<Rightarrow> Some (Inr (), c\<lparr>tc_tasks := Some ts,
                            tc_table_start := best_start,
                            tc_table_end := best_start +
                              word_of_nat (best_count * VF2_TASK_RECORD_SIZE)\<rparr>))))"

definition vf2_task_catalog_find :: "vf2_task_catalog \<Rightarrow> u8 list \<Rightarrow> vf2_task_descriptor option" where
  "vf2_task_catalog_find catalog name =
     (case tc_tasks catalog of None \<Rightarrow> None | Some ts \<Rightarrow> find (\<lambda>t. td_name t = name) ts)"

section \<open>The scan\<close>

text \<open>The run of records from an address.\<close>

definition record_run :: "memory \<Rightarrow> nat \<Rightarrow> u32 \<Rightarrow> nat \<Rightarrow> bool" where
  "record_run rom image_size a n \<longleftrightarrow>
     (\<forall>k < n. parse_task_record rom image_size (a + word_of_nat (k * VF2_TASK_RECORD_SIZE)) \<noteq> None)"

lemma parse_inside:
  "parse_task_record rom image_size a = Some t \<Longrightarrow> unat a + VF2_TASK_RECORD_SIZE \<le> image_size"
  by (auto simp: parse_task_record_def Let_def split: if_splits)

lemma parse_address: "parse_task_record rom image_size a = Some t \<Longrightarrow> td_descriptor_address t = a"
  by (auto simp: parse_task_record_def Let_def split: if_splits)

lemma record_run_Suc:
  "record_run rom image_size a (Suc n) \<longleftrightarrow> parse_task_record rom image_size a \<noteq> None \<and>
     record_run rom image_size (a + word_of_nat VF2_TASK_RECORD_SIZE) n"
  by (simp add: record_run_def All_less_Suc2 algebra_simps)

lemma next_record:
  assumes "image_size < 2 ^ 32" and "unat a + VF2_TASK_RECORD_SIZE \<le> image_size"
  shows "unat ((a :: u32) + word_of_nat VF2_TASK_RECORD_SIZE) = unat a + VF2_TASK_RECORD_SIZE"
  using assms by (simp add: task_consts unat_word_ariths)

lemma next_address:
  assumes "image_size < 2 ^ 32" and "unat a + VF2_TASK_RECORD_SIZE \<le> image_size"
  shows "unat ((a :: u32) + 4) = unat a + 4"
  using assms by (simp add: task_consts unat_word_ariths)

lemma run_length_ends:
  assumes "image_size < 2 ^ 32"
  obtains n where "run_length rom image_size a = Some n"
    and "\<And>m. record_run rom image_size a m \<longleftrightarrow> m \<le> n"
proof -
  have "\<exists>n. run_length rom image_size a = Some n \<and> (\<forall>m. record_run rom image_size a m \<longleftrightarrow> m \<le> n)"
  proof (induction "image_size - unat a" arbitrary: a rule: less_induct)
    case less
    show ?case
    proof (cases "parse_task_record rom image_size a")
      case None
      then have "record_run rom image_size a m \<longleftrightarrow> m \<le> 0" for m
        by (cases m) (simp_all add: record_run_def [of _ _ _ 0] record_run_Suc)
      then show ?thesis using None by (simp add: run_length.simps [of _ _ a])
    next
      case (Some t)
      note inside = parse_inside [OF Some]
      let ?b = "a + word_of_nat VF2_TASK_RECORD_SIZE"
      have "image_size - unat ?b < image_size - unat a"
        using next_record [OF assms inside] inside by (simp add: task_consts)
      from less.hyps [OF this] obtain n where n: "run_length rom image_size ?b = Some n"
        "\<And>m. record_run rom image_size ?b m \<longleftrightarrow> m \<le> n" by blast
      have "record_run rom image_size a m \<longleftrightarrow> m \<le> n + 1" for m
        using Some n(2) by (cases m) (simp_all add: record_run_def [of _ _ _ 0] record_run_Suc)
      then show ?thesis using Some n(1) by (simp add: run_length.simps [of _ _ a])
    qed
  qed
  then show thesis using that by blast
qed

text \<open>The search keeps the first of the longest runs seen.\<close>

definition first_longest :: "(u32 \<Rightarrow> nat) \<Rightarrow> (u32 \<Rightarrow> bool) \<Rightarrow> u32 \<times> nat \<Rightarrow> bool" where
  "first_longest len seen best \<longleftrightarrow>
     (if snd best = 0 then \<forall>a. seen a \<longrightarrow> len a = 0
      else seen (fst best) \<and> len (fst best) = snd best \<and>
        (\<forall>a. seen a \<longrightarrow> len a \<le> snd best \<and> (len a = snd best \<longrightarrow> fst best \<le> a)))"

lemma first_longest_snoc:
  assumes "first_longest len seen best" and "\<And>b. seen b \<Longrightarrow> b < a"
  shows "first_longest len (\<lambda>b. seen b \<or> b = a) (if len a > snd best then (a, len a) else best)"
proof (cases "len a > snd best")
  case True
  have "len b \<le> snd best" if "seen b" for b
    using assms(1) that by (cases "snd best = 0") (simp_all add: first_longest_def)
  then have "seen b \<Longrightarrow> len b < len a" for b using True le_less_trans by blast
  then show ?thesis using True by (fastforce simp: first_longest_def)
next
  case False
  then show ?thesis
    using assms less_imp_le [of "fst best" a]
    by (cases "snd best = 0") (auto simp: first_longest_def)
qed

lemma best_run_ends:
  assumes "image_size < 2 ^ 32" and "\<And>a. run_length rom image_size a = Some (len a)"
    and "first_longest len (\<lambda>b. unat b mod 4 = 0 \<and> b < a) best" and "unat a mod 4 = 0"
  shows "\<exists>best'. best_run rom image_size a best = Some best' \<and>
    first_longest len (\<lambda>b. unat b mod 4 = 0 \<and> (b < a \<or> unat b + VF2_TASK_RECORD_SIZE \<le> image_size)) best'"
  using assms(3,4)
proof (induction "image_size - unat a" arbitrary: a best rule: less_induct)
  case less
  show ?case
  proof (cases "unat a + VF2_TASK_RECORD_SIZE \<le> image_size")
    case False
    then have "unat b + VF2_TASK_RECORD_SIZE \<le> image_size \<Longrightarrow> b < a" for b
      by (simp add: word_less_nat_alt)
    then have "(\<lambda>b. unat b mod 4 = 0 \<and> (b < a \<or> unat b + VF2_TASK_RECORD_SIZE \<le> image_size)) =
        (\<lambda>b. unat b mod 4 = 0 \<and> b < a)" by blast
    then show ?thesis using False less.prems(1) by (simp add: best_run.simps [of _ _ a])
  next
    case True
    have a4: "unat (a + 4) = unat a + 4" by (rule next_address [OF assms(1) True])
    let ?best = "if len a > snd best then (a, len a) else best"
    have lt: "b < a + 4 \<longleftrightarrow> b < a \<or> b = a" if "unat b mod 4 = 0" for b
    proof -
      have "unat b < unat a + 4 \<longleftrightarrow> unat b < unat a \<or> unat b = unat a"
        using that less.prems(2) by presburger
      then show ?thesis by (simp only: word_less_nat_alt word_unat_eq_iff a4)
    qed
    have 1: "first_longest len (\<lambda>b. unat b mod 4 = 0 \<and> b < a + 4) ?best"
    proof -
      have "(\<lambda>b. unat b mod 4 = 0 \<and> b < a + 4) = (\<lambda>b. unat b mod 4 = 0 \<and> b < a \<or> b = a)"
      proof (rule ext)
        fix b show "(unat b mod 4 = 0 \<and> b < a + 4) = (unat b mod 4 = 0 \<and> b < a \<or> b = a)"
          using lt [of b] less.prems(2) by (cases "unat b mod 4 = 0") (blast, metis)
      qed
      then show ?thesis using first_longest_snoc [OF less.prems(1)] by simp
    qed
    have 2: "image_size - unat (a + 4) < image_size - unat a" using True a4 by (simp add: task_consts)
    have 3: "unat (a + 4) mod 4 = 0" using less.prems(2) a4 by simp
    have seen: "(\<lambda>b. unat b mod 4 = 0 \<and> (b < a + 4 \<or> unat b + VF2_TASK_RECORD_SIZE \<le> image_size)) =
        (\<lambda>b. unat b mod 4 = 0 \<and> (b < a \<or> unat b + VF2_TASK_RECORD_SIZE \<le> image_size))"
    proof (rule ext)
      fix b show "(unat b mod 4 = 0 \<and> (b < a + 4 \<or> unat b + VF2_TASK_RECORD_SIZE \<le> image_size)) =
        (unat b mod 4 = 0 \<and> (b < a \<or> unat b + VF2_TASK_RECORD_SIZE \<le> image_size))"
        using lt [of b] True by (cases "unat b mod 4 = 0") (blast, metis)
    qed
    show ?thesis
      using less.hyps [OF 2 1 3] True assms(2) by (simp add: best_run.simps [of _ _ a] seen)
  qed
qed

lemma parse_run_record_run:
  assumes "record_run rom image_size a n"
  obtains ts where "parse_run rom image_size n a = Some ts" and "length ts = n"
    and "\<And>k. k < n \<Longrightarrow> parse_task_record rom image_size (a + word_of_nat (k * VF2_TASK_RECORD_SIZE)) = Some (ts ! k)"
proof -
  have "\<exists>ts. parse_run rom image_size n a = Some ts \<and> length ts = n \<and>
     (\<forall>k < n. parse_task_record rom image_size (a + word_of_nat (k * VF2_TASK_RECORD_SIZE)) = Some (ts ! k))"
    using assms
  proof (induction n arbitrary: a)
    case (Suc n)
    let ?b = "a + word_of_nat VF2_TASK_RECORD_SIZE"
    from Suc.prems obtain t where t: "parse_task_record rom image_size a = Some t"
      by (auto simp: record_run_Suc)
    from Suc.prems have "record_run rom image_size ?b n" by (simp add: record_run_Suc)
    from Suc.IH [OF this] obtain ts where ts: "parse_run rom image_size n ?b = Some ts" "length ts = n"
      "\<forall>k < n. parse_task_record rom image_size (?b + word_of_nat (k * VF2_TASK_RECORD_SIZE)) = Some (ts ! k)"
      by blast
    have "\<forall>k < Suc n. parse_task_record rom image_size (a + word_of_nat (k * VF2_TASK_RECORD_SIZE)) =
        Some ((t # ts) ! k)"
      using ts(3) t by (simp add: All_less_Suc2 algebra_simps)
    then show ?case using t ts(1,2) by (intro exI [of _ "t # ts"]) simp
  qed simp
  then show thesis using that by blast
qed

lemma record_run_inside:
  assumes "image_size < 2 ^ 32" and "record_run rom image_size a n" and "0 < n"
  shows "unat a + n * VF2_TASK_RECORD_SIZE \<le> image_size"
  using assms(2,3)
proof (induction n arbitrary: a)
  case (Suc n)
  from Suc.prems(1) obtain t where t: "parse_task_record rom image_size a = Some t"
    by (auto simp: record_run_Suc)
  note inside = parse_inside [OF t]
  show ?case
  proof (cases n)
    case (Suc m)
    then show ?thesis
      using Suc.IH [of "a + word_of_nat VF2_TASK_RECORD_SIZE"] Suc.prems(1) next_record [OF assms(1) inside]
      by (simp add: record_run_Suc)
  qed (use inside in simp)
qed simp

lemma grown_capacity_enough:
  assumes "0 < capacity" and "required \<le> size_max div 2"
  shows "\<exists>c. grown_capacity size_max required capacity = Some c \<and> required \<le> c"
  using assms
proof (induction size_max required capacity rule: grown_capacity.induct)
  case (1 size_max required capacity)
  then show ?case
    by (cases "required \<le> capacity") (simp_all add: grown_capacity.simps [of _ _ capacity])
qed


section \<open>Properties\<close>

text \<open>C23: on every image below 4 GiB the scan returns, and its catalogue is the first of the
  longest tables of consecutive valid records: entry \<open>k\<close> of the catalogue is the record
  \<open>0x40 * k\<close> bytes after the table start, no aligned address starts a longer run of records, and
  none before the table start an equally long one. Without a record the scan fails and leaves
  the catalogue empty.\<close>

theorem vf2_task_catalog_scan_longest:
  assumes "VF2_TASK_RECORD_SIZE \<le> image_size" and "image_size < 2 ^ 32"
    and "2 ^ 32 \<le> size_max" and "\<And>n. available n"
  shows "(\<forall>a. unat a mod 4 = 0 \<longrightarrow> parse_task_record rom image_size a = None) \<and>
      vf2_task_catalog_scan size_max available (Some rom) image_size catalog =
        Some (Inl VF2_ERROR_UNSUPPORTED, vf2_task_catalog_destroy catalog) \<or>
    (\<exists>c ts. vf2_task_catalog_scan size_max available (Some rom) image_size catalog = Some (Inr (), c) \<and>
      tc_tasks c = Some ts \<and> ts \<noteq> [] \<and> length ts \<le> tc_capacity c \<and>
      tc_table_end c = tc_table_start c + word_of_nat (length ts * VF2_TASK_RECORD_SIZE) \<and>
      (\<forall>k < length ts. parse_task_record rom image_size
         (tc_table_start c + word_of_nat (k * VF2_TASK_RECORD_SIZE)) = Some (ts ! k)) \<and>
      (\<forall>a n. unat a mod 4 = 0 \<and> record_run rom image_size a n \<longrightarrow>
         n \<le> length ts \<and> (n = length ts \<longrightarrow> tc_table_start c \<le> a)))"
proof -
  let ?len = "\<lambda>a. the (run_length rom image_size a)"
  let ?seen = "\<lambda>b. unat b mod 4 = 0 \<and> (b < 0 \<or> unat b + VF2_TASK_RECORD_SIZE \<le> image_size)"
  have len: "run_length rom image_size a = Some (?len a)" "record_run rom image_size a m \<longleftrightarrow> m \<le> ?len a" for a m
    by (rule run_length_ends [OF assms(2), of rom a], simp)+
  have "first_longest ?len (\<lambda>b. unat b mod 4 = 0 \<and> b < 0) (0, 0)" by (simp add: first_longest_def)
  from best_run_ends [OF assms(2) len(1) this]
  obtain s n where best: "best_run rom image_size 0 (0, 0) = Some (s, n)" "first_longest ?len ?seen (s, n)"
    by auto
  have outside: "?len a = 0" if "\<not> unat a + VF2_TASK_RECORD_SIZE \<le> image_size" for a
    using that parse_inside [of rom image_size a] len(2) [of a 1] by (auto simp: record_run_def)
  show ?thesis
  proof (cases "n = 0")
    case True
    have "parse_task_record rom image_size a = None" if "unat a mod 4 = 0" for a
    proof -
      have "?len a = 0"
      proof (cases "unat a + VF2_TASK_RECORD_SIZE \<le> image_size")
        case inside: True
        have "?len b = 0" if "?seen b" for b using best(2) True that by (simp add: first_longest_def)
        from this [of a] show ?thesis using inside that by simp
      qed (rule outside)
      then show ?thesis using len(2) [of a 1] by (simp add: record_run_def)
    qed
    then show ?thesis using assms(1) best(1) True by (simp add: vf2_task_catalog_scan_def Let_def)
  next
    case False
    have s: "?len s = n" "record_run rom image_size s n" "unat s + VF2_TASK_RECORD_SIZE \<le> image_size"
      using best(2) False len(2) [of s n] by (simp_all add: first_longest_def)
    obtain ts where ts: "parse_run rom image_size n s = Some ts" "length ts = n"
      "\<And>k. k < n \<Longrightarrow> parse_task_record rom image_size (s + word_of_nat (k * VF2_TASK_RECORD_SIZE)) = Some (ts ! k)"
      using parse_run_record_run [OF s(2)] by blast
    have longest: "m \<le> n \<and> (m = n \<longrightarrow> s \<le> a)" if "unat a mod 4 = 0" "record_run rom image_size a m" for a m
    proof -
      have "m \<le> ?len a" using len(2) that(2) by blast
      moreover have "?len a \<le> n \<and> (?len a = n \<longrightarrow> s \<le> a)"
        using best(2) False that(1) outside [of a] by (cases "unat a + VF2_TASK_RECORD_SIZE \<le> image_size")
          (simp_all add: first_longest_def)
      ultimately show ?thesis by auto
    qed
    have "n \<le> 2 ^ 31"
      using record_run_inside [OF assms(2) s(2)] False assms(2) by (simp add: task_consts)
    then have "n \<le> size_max div 2" using assms(3) by simp
    from grown_capacity_enough [OF _ this, of 32]
    obtain cap where cap: "grown_capacity size_max n 32 = Some cap" "n \<le> cap" by auto
    let ?c = "(vf2_task_catalog_destroy catalog)\<lparr>tc_capacity := cap, tc_tasks := Some ts,
        tc_table_start := s, tc_table_end := s + word_of_nat (n * VF2_TASK_RECORD_SIZE)\<rparr>"
    have "vf2_task_catalog_scan size_max available (Some rom) image_size catalog = Some (Inr (), ?c)"
      using assms(1,4) best(1) False cap(1) ts(1)
      by (simp add: vf2_task_catalog_scan_def Let_def reserve_tasks_def vf2_task_catalog_destroy_def)
    note scan = this
    have sel: "tc_table_start ?c = s" "tc_tasks ?c = Some ts" "tc_capacity ?c = cap"
      "tc_table_end ?c = s + word_of_nat (n * VF2_TASK_RECORD_SIZE)" by simp_all
    have "ts \<noteq> []" using ts(2) False by auto
    moreover have "\<forall>k < length ts. parse_task_record rom image_size
         (s + word_of_nat (k * VF2_TASK_RECORD_SIZE)) = Some (ts ! k)" unfolding ts(2) using ts(3) by blast
    moreover have "\<forall>a m. unat a mod 4 = 0 \<and> record_run rom image_size a m \<longrightarrow>
         m \<le> length ts \<and> (m = length ts \<longrightarrow> s \<le> a)" unfolding ts(2) by (intro allI impI longest) (erule conjE, assumption)+
    ultimately show ?thesis
      using scan cap(2) sel by (intro disjI2 exI [of _ ?c] exI [of _ ts]) (simp only: ts(2) sel simp_thms)
  qed
qed

text \<open>An image of one descriptor, \<open>fa_ab\<close>.\<close>

definition sample_task_rom :: memory where
  "sample_task_rom = write_bytes (\<lambda>_. 0) 0x0c
     [0x20, 0, 0, 0, 0x00, 0x01, 0x50, 0, 3, 0, 0, 0, 0x66, 0x61, 0x5f, 0x61, 0x62]"

lemma vf2_task_catalog_scan_longest_witness:
  "\<exists>c ts. vf2_task_catalog_scan (2 ^ 32) (\<lambda>_. True) (Some sample_task_rom) 64
      \<lparr>tc_tasks = None, tc_capacity = 0, tc_table_start = 0, tc_table_end = 0\<rparr> = Some (Inr (), c) \<and>
     tc_tasks c = Some ts \<and> length ts = 1"
proof -
  have p: "parse_task_record sample_task_rom 64 0 \<noteq> None"
  proof -
    have upt: "[0..<0x28] = [0, 1, 2, 3, 4, 5] @ [6..<0x28]" by (simp add: upt_conv_Cons)
    have "name_field sample_task_rom 0 = [0x66, 0x61, 0x5f, 0x61, 0x62]"
      unfolding name_field_def task_consts read_bytes_def upt
      by (simp add: sample_task_rom_def write_bytes_def)
    then show ?thesis
      by (simp add: parse_task_record_def task_consts trim_name_def valid_name_character_def Let_def
          read_le32_def le32_dec_def sample_task_rom_def write_bytes_def)
  qed
  have h: "VF2_TASK_RECORD_SIZE \<le> 64" "(64 :: nat) < 2 ^ 32" "(2 :: nat) ^ 32 \<le> 2 ^ 32"
    by (simp_all add: task_consts)
  show ?thesis
    using vf2_task_catalog_scan_longest [OF h TrueI, where rom = sample_task_rom
      and catalog = "\<lparr>tc_tasks = None, tc_capacity = 0, tc_table_start = 0, tc_table_end = 0\<rparr>"]
  proof (elim disjE conjE exE)
    assume 1: "\<forall>a. unat a mod 4 = 0 \<longrightarrow> parse_task_record sample_task_rom 64 a = None"
    show ?thesis using spec [OF 1, of 0] p by simp
  next
    fix c ts
    assume scan: "vf2_task_catalog_scan (2 ^ 32) (\<lambda>_. True) (Some sample_task_rom) 64
        \<lparr>tc_tasks = None, tc_capacity = 0, tc_table_start = 0, tc_table_end = 0\<rparr> = Some (Inr (), c)"
      and ts: "tc_tasks c = Some ts" "ts \<noteq> []"
      and run: "\<forall>k < length ts. parse_task_record sample_task_rom 64
         (tc_table_start c + word_of_nat (k * VF2_TASK_RECORD_SIZE)) = Some (ts ! k)"
    from run have "record_run sample_task_rom 64 (tc_table_start c) (length ts)"
      by (simp add: record_run_def)
    then have "length ts * 64 \<le> 64"
      using record_run_inside [of 64 sample_task_rom "tc_table_start c" "length ts"] ts(2)
      by (simp add: task_consts)
    then have "length ts = 1" using ts(2) by (cases ts) auto
    then show ?thesis using scan ts(1) by blast
  qed
qed

end
