(* ===== verification/Vf2_Ram.thy ===== *)
theory Vf2_Ram
  imports Vf2_Model2a_Laws
begin

text \<open>
  Work RAM as the recovered routines use it: what a word access or a byte write leaves of the
  words around it, in the form in which a routine can be executed symbolically. \<open>ram_peek\<close> is
  the contents, \<open>after_read\<close> and \<open>after_write\<close> the boards after one word access.
\<close>

named_theorems ram_simps \<open>symbolic execution over work RAM\<close>

definition after_read :: "u32 \<Rightarrow> 'h vf2_model2a \<Rightarrow> 'h vf2_model2a" where
  "after_read a m = observe_access MEMORY_READ a (le32_bytes (ram_peek m a)) m"

definition after_write :: "u32 \<Rightarrow> u32 \<Rightarrow> 'h vf2_model2a \<Rightarrow> 'h vf2_model2a" where
  "after_write a v m = observe_access MEMORY_WRITE a (le32_bytes v)
     (update_area WORK_RAM (\<lambda>d. write_le32 d (unat a - 0x500000) v) m)"

lemma ram_read [ram_simps]:
  "ram_ok m \<Longrightarrow> ram_cell a \<Longrightarrow> vf2_model2a_read_u32 a m = (Inr (ram_peek m a), after_read a m)"
  by (simp add: ram_read_u32 after_read_def)

lemma ram_write [ram_simps]:
  "ram_ok m \<Longrightarrow> ram_cell a \<Longrightarrow> vf2_model2a_write_u32 a v m = (Inr (), after_write a v m)"
  by (simp add: ram_write_u32 after_write_def)

lemma ram_ok_after [ram_simps, simp]:
  "ram_ok (after_read a m) = ram_ok m" "ram_ok (after_write a v m) = ram_ok m"
  by (simp_all add: after_read_def after_write_def)

lemma peek_after_read [ram_simps, simp]: "ram_peek (after_read a m) = ram_peek m"
  by (simp add: after_read_def)

lemma peek_after_write [ram_simps]:
  "ram_ok m \<Longrightarrow> ram_cell a \<Longrightarrow> ram_cell b \<Longrightarrow>
     ram_peek (after_write a v m) b = (if b = a then v else ram_peek m b)"
  by (simp add: after_write_def ram_peek_write)

text \<open>Cells are a word apart, so writing four bytes changes one of them.\<close>

lemma ram_cell_between: "0x500000 \<le> unat a \<Longrightarrow> unat a < 0x600000 \<Longrightarrow> unat a mod 4 = 0 \<Longrightarrow> ram_cell a"
  by (simp add: ram_cell_def)

section \<open>Bytes\<close>

definition ram_byte :: "'h vf2_model2a \<Rightarrow> u32 \<Rightarrow> u8" where
  "ram_byte m a = area_mem m WORK_RAM (unat a - 0x500000)"

definition in_ram :: "u32 \<Rightarrow> nat \<Rightarrow> bool" where
  "in_ram a n \<longleftrightarrow> 0x500000 \<le> unat a \<and> unat a + n \<le> 0x600000"

lemma in_ram_hit: "in_ram a n \<Longrightarrow> hit WORK_RAM a n \<and> hit_base WORK_RAM a = 0x500000"
  unfolding in_ram_def hit_def hit_base_def range_contains_iff mirrored_def by simp

definition after_write_bytes :: "u32 \<Rightarrow> u8 list \<Rightarrow> 'h vf2_model2a \<Rightarrow> 'h vf2_model2a" where
  "after_write_bytes a bs m = observe_access MEMORY_WRITE a bs
     (update_area WORK_RAM (\<lambda>d. write_bytes d (unat a - 0x500000) bs) m)"

lemma ram_write_bytes [ram_simps]:
  assumes "ram_ok m" and "in_ram a (length bs)" and "bs \<noteq> []"
  shows "vf2_model2a_write a bs m = (Inr (), after_write_bytes a bs m)"
  using assms in_ram_hit [OF assms(2)] write_plain [of m WORK_RAM a bs]
  by (simp add: ram_ok_def plain_area_def after_write_bytes_def)

lemma ram_read_bytes [ram_simps]:
  assumes "ram_ok m" and "in_ram a n" and "0 < n"
  shows "vf2_model2a_read a n m =
    (Inr (read_bytes (area_mem m WORK_RAM) (unat a - 0x500000) n),
     observe_access MEMORY_READ a (read_bytes (area_mem m WORK_RAM) (unat a - 0x500000) n) m)"
  using assms in_ram_hit [OF assms(2)] read_plain [of m WORK_RAM a n]
  by (simp add: ram_ok_def plain_area_def)

lemma ram_ok_after_bytes [ram_simps, simp]: "ram_ok (after_write_bytes a bs m) = ram_ok m"
  by (simp add: after_write_bytes_def)

lemma work_ram_present: "ram_ok m \<Longrightarrow> \<not> area_null m WORK_RAM"
  using machine_ok_device(1) [of m WORK_RAM] by (simp add: ram_ok_def)

lemma peek_after_bytes [ram_simps]:
  assumes "ram_ok m" and "in_ram a (length bs)" and "ram_cell b"
    and "unat b + 4 \<le> unat a \<or> unat a + length bs \<le> unat b"
  shows "ram_peek (after_write_bytes a bs m) b = ram_peek m b"
proof -
  have "unat a - 0x500000 + length bs \<le> unat b - 0x500000 \<or> unat b - 0x500000 + 4 \<le> unat a - 0x500000"
    using assms(2,3,4) unfolding in_ram_def ram_cell_def by linarith
  then show ?thesis
    using work_ram_present [OF assms(1)]
    by (simp add: after_write_bytes_def ram_peek_def board_simps read_write_bytes_le32_disjoint)
qed

lemma byte_after_bytes:
  assumes "ram_ok m" and "in_ram a (length bs)" and "in_ram b 1"
  shows "ram_byte (after_write_bytes a bs m) b =
    (if unat a \<le> unat b \<and> unat b < unat a + length bs then bs ! (unat b - unat a) else ram_byte m b)"
  using assms work_ram_present [OF assms(1)]
  by (auto simp: after_write_bytes_def ram_byte_def board_simps in_ram_def write_bytes_def)

text \<open>What changes only below or above a border.\<close>

definition ram_same :: "(u32 \<Rightarrow> bool) \<Rightarrow> 'h vf2_model2a \<Rightarrow> 'h vf2_model2a \<Rightarrow> bool" where
  "ram_same A m m' \<longleftrightarrow> ram_ok m' \<and> (\<forall>b. ram_cell b \<longrightarrow> A b \<longrightarrow> ram_peek m' b = ram_peek m b)"

lemma ram_same_refl: "ram_ok m \<Longrightarrow> ram_same A m m"
  by (simp add: ram_same_def)

lemma ram_same_trans: "ram_same A m m' \<Longrightarrow> ram_same A m' m'' \<Longrightarrow> ram_same A m m''"
  by (simp add: ram_same_def)

lemma ram_same_mono: "ram_same A m m' \<Longrightarrow> (\<And>b. B b \<Longrightarrow> A b) \<Longrightarrow> ram_same B m m'"
  by (simp add: ram_same_def)

end
