(* ===== verification/Vf2_Task_Registry.thy ===== *)
theory Vf2_Task_Registry
  imports Vf2_Task_Catalog Vf2_Ram
begin

text \<open>
  The scheduler's task registry in work RAM: its initialisation from the task catalogue
  (\<open>src/recovered/task_registry.c\<close>), the plan of runnable tasks read back from it, and the search
  for the first runnable descriptor (\<open>src/recovered/scheduler.c\<close>). The optional output reports
  are the returned values. What the plan finds is proved from what the initialisation wrote.
\<close>

definition VF2_TASK_REGISTRY_BASE :: u32 where "VF2_TASK_REGISTRY_BASE = 0x00510000"
definition VF2_TASK_SCRATCH_BASE :: u32 where "VF2_TASK_SCRATCH_BASE = 0x0050c000"
definition VF2_TASK_SCRATCH_STRIDE :: u32 where "VF2_TASK_SCRATCH_STRIDE = 0x20"
definition VF2_TASK_RUNNABLE_MASK :: u32 where "VF2_TASK_RUNNABLE_MASK = 0x80000000"
definition VF2_RECOVERED_SCHEDULER_MAX_TASKS :: nat where "VF2_RECOVERED_SCHEDULER_MAX_TASKS = 32"

lemmas registry_consts = VF2_TASK_REGISTRY_BASE_def VF2_TASK_SCRATCH_BASE_def
  VF2_TASK_SCRATCH_STRIDE_def VF2_TASK_RUNNABLE_MASK_def VF2_RECOVERED_SCHEDULER_MAX_TASKS_def

section \<open>Initialisation\<close>

definition write_u8 :: "u32 \<Rightarrow> u8 \<Rightarrow> ('h vf2_model2a, unit) prog" where
  "write_u8 address value = vf2_model2a_write address [value]"

text \<open>The copying loop: chunks of at most \<open>sizeof(zeros)\<close> bytes, at an address that wraps.\<close>

function clear_bytes :: "u32 \<Rightarrow> nat \<Rightarrow> ('h vf2_model2a, unit) prog" where
  "clear_bytes address remaining =
     (if remaining = 0 then pret ()
      else let chunk = min remaining (unat VF2_TASK_SCRATCH_STRIDE) in
        pbind (vf2_model2a_write address (replicate chunk 0)) (\<lambda>_.
          clear_bytes (address + word_of_nat chunk) (remaining - chunk)))"
  by pat_completeness auto

termination
  by (relation "measure snd") (auto simp: VF2_TASK_SCRATCH_STRIDE_def)

declare clear_bytes.simps [simp del]

record vf2_recovered_task_registry_report =
  tr_source_table_start :: u32
  tr_source_table_end :: u32
  tr_registry_start :: u32
  tr_registry_end :: u32
  tr_scratch_start :: u32
  tr_scratch_end :: u32
  tr_task_count :: nat
  tr_state_pointers_written :: nat
  tr_scratch_bytes_cleared :: nat

definition scheduler_value :: "vf2_task_descriptor \<Rightarrow> u32" where
  "scheduler_value task =
     (if td_scheduler_slot task = 0 then 0 else td_scheduler_slot task * 25 + 6)"

definition register_task :: "u32 \<Rightarrow> u32 \<Rightarrow> vf2_task_descriptor \<Rightarrow> ('h vf2_model2a, unit) prog" where
  "register_task registry scratch task =
     pbind (vf2_model2a_write_u32 (registry + 0x00) (td_flags task)) (\<lambda>_.
     pbind (write_u8 (registry + 0x04) (ucast (td_instance task))) (\<lambda>_.
     pbind (vf2_model2a_write_u32 (registry + 0x08) (td_stack_size task)) (\<lambda>_.
     pbind (vf2_model2a_write_u32 (registry + 0x0c) (td_entry_point task)) (\<lambda>_.
     pbind (vf2_model2a_write_u32 (registry + 0x38) (scheduler_value task)) (\<lambda>_.
     pbind (vf2_model2a_write_u32 (td_state_address task) registry) (\<lambda>_.
     clear_bytes scratch (unat VF2_TASK_SCRATCH_STRIDE)))))))"

text \<open>The loop over the tasks returns the report it has accumulated.\<close>

primrec register_tasks :: "vf2_task_descriptor list \<Rightarrow> u32 \<Rightarrow> u32 \<Rightarrow> vf2_recovered_task_registry_report \<Rightarrow>
    ('h vf2_model2a, vf2_recovered_task_registry_report \<times> u32 \<times> u32) prog" where
  "register_tasks [] registry scratch rep = pret (rep, registry, scratch)"
| "register_tasks (task # tasks) registry scratch rep =
     pbind (register_task registry scratch task) (\<lambda>_.
     register_tasks tasks (registry + td_stack_size task) (scratch + VF2_TASK_SCRATCH_STRIDE)
       (rep\<lparr>tr_state_pointers_written := tr_state_pointers_written rep + 1,
            tr_scratch_bytes_cleared := tr_scratch_bytes_cleared rep + unat VF2_TASK_SCRATCH_STRIDE\<rparr>))"

definition vf2_recovered_task_registry_initialize ::
  "vf2_task_catalog \<Rightarrow> ('h vf2_model2a, vf2_recovered_task_registry_report) prog" where
  "vf2_recovered_task_registry_initialize catalog =
     (case tc_tasks catalog of
        None \<Rightarrow> pfail VF2_ERROR_INVALID_ARGUMENT
      | Some tasks \<Rightarrow>
          if tasks = [] then pfail VF2_ERROR_INVALID_ARGUMENT
          else pbind (register_tasks tasks VF2_TASK_REGISTRY_BASE VF2_TASK_SCRATCH_BASE
              \<lparr>tr_source_table_start = tc_table_start catalog,
               tr_source_table_end = tc_table_end catalog,
               tr_registry_start = VF2_TASK_REGISTRY_BASE, tr_registry_end = 0,
               tr_scratch_start = VF2_TASK_SCRATCH_BASE, tr_scratch_end = 0,
               tr_task_count = 0, tr_state_pointers_written = 0, tr_scratch_bytes_cleared = 0\<rparr>)
            (\<lambda>(rep, registry, scratch).
              pret (rep\<lparr>tr_task_count := tc_count catalog,
                        tr_registry_end := registry, tr_scratch_end := scratch\<rparr>)))"

section \<open>The scheduler's plan\<close>

text \<open>The parallel arrays of the report are one list of (index, registry address, entry point).\<close>

record vf2_recovered_scheduler_report =
  sr_registry_start :: u32
  sr_registry_end :: u32
  sr_scratch_start :: u32
  sr_scratch_end :: u32
  sr_descriptor_count :: nat
  sr_runnable :: "(nat \<times> u32 \<times> u32) list"

primrec plan_tasks :: "vf2_task_descriptor list \<Rightarrow> nat \<Rightarrow> u32 \<Rightarrow> u32 \<Rightarrow> (nat \<times> u32 \<times> u32) list \<Rightarrow>
    ('h vf2_model2a, (nat \<times> u32 \<times> u32) list \<times> u32 \<times> u32) prog" where
  "plan_tasks [] i registry scratch runnable = pret (runnable, registry, scratch)"
| "plan_tasks (task # tasks) i registry scratch runnable =
     pbind (vf2_model2a_read_u32 (registry + 0x00)) (\<lambda>flags.
     pbind (vf2_model2a_read_u32 (registry + 0x08)) (\<lambda>stack_size.
     pbind (vf2_model2a_read_u32 (registry + 0x0c)) (\<lambda>entry_point.
     pbind (pcheck (\<not> (stack_size \<noteq> td_stack_size task \<or> entry_point \<noteq> td_entry_point task \<or>
                       stack_size = 0 \<or> stack_size AND 0x1f \<noteq> 0)) VF2_ERROR_BAD_SIZE) (\<lambda>_.
     plan_tasks tasks (i + 1) (registry + stack_size) (scratch + VF2_TASK_SCRATCH_STRIDE)
       (if flags AND VF2_TASK_RUNNABLE_MASK \<noteq> 0 then runnable @ [(i, registry, entry_point)]
        else runnable)))))"

definition vf2_recovered_scheduler_plan ::
  "vf2_task_catalog \<Rightarrow> ('h vf2_model2a, vf2_recovered_scheduler_report) prog" where
  "vf2_recovered_scheduler_plan catalog =
     (case tc_tasks catalog of
        None \<Rightarrow> pfail VF2_ERROR_INVALID_ARGUMENT
      | Some tasks \<Rightarrow>
          if tasks = [] \<or> length tasks > VF2_RECOVERED_SCHEDULER_MAX_TASKS
          then pfail VF2_ERROR_INVALID_ARGUMENT
          else pbind (plan_tasks tasks 0 VF2_TASK_REGISTRY_BASE VF2_TASK_SCRATCH_BASE [])
            (\<lambda>(runnable, registry, scratch).
              pret \<lparr>sr_registry_start = VF2_TASK_REGISTRY_BASE, sr_registry_end = registry,
                    sr_scratch_start = VF2_TASK_SCRATCH_BASE, sr_scratch_end = scratch,
                    sr_descriptor_count = length tasks, sr_runnable = runnable\<rparr>))"

text \<open>\<open>first_runnable_descriptor\<close>: \<open>left\<close> counts the descriptors still to scan.\<close>

primrec scan_descriptors :: "nat \<Rightarrow> nat \<Rightarrow> u32 \<Rightarrow> ('h vf2_model2a, nat \<times> u32 \<times> u32) prog" where
  "scan_descriptors 0 i registry = pret (i, registry, 0)"
| "scan_descriptors (Suc left) i registry =
     pbind (vf2_model2a_read_u32 registry) (\<lambda>flags.
     pbind (vf2_model2a_read_u32 (registry + 8)) (\<lambda>stride.
     pbind (pcheck (\<not> (stride = 0 \<or> stride AND 0x1f \<noteq> 0)) VF2_ERROR_BAD_SIZE) (\<lambda>_.
     if flags AND VF2_TASK_RUNNABLE_MASK \<noteq> 0 then
       pbind (vf2_model2a_read_u32 (registry + 0x0c)) (\<lambda>entry. pret (i, registry, entry))
     else scan_descriptors left (i + 1) (registry + stride))))"

definition first_runnable_descriptor :: "u32 \<Rightarrow> ('h vf2_model2a, nat \<times> u32 \<times> u32) prog" where
  "first_runnable_descriptor task_count =
     scan_descriptors (unat task_count) 0 VF2_TASK_REGISTRY_BASE"

section \<open>What the initialisation leaves\<close>

lemma clear_scratch: "clear_bytes address (unat VF2_TASK_SCRATCH_STRIDE) = vf2_model2a_write address (replicate 32 0)"
proof (rule ext)
  fix m :: "'h vf2_model2a"
  obtain r m' where "vf2_model2a_write address (replicate 32 0) m = (r, m')" by fastforce
  then show "clear_bytes address (unat VF2_TASK_SCRATCH_STRIDE) m = vf2_model2a_write address (replicate 32 0) m"
    by (cases r) (simp_all add: clear_bytes.simps [of address] clear_bytes.simps [of _ 0] registry_consts)
qed

text \<open>The scratch area of 32 tasks, and a task the registry has room for.\<close>

definition in_scratch :: "u32 \<Rightarrow> bool" where
  "in_scratch b \<longleftrightarrow> 0x50c000 \<le> unat b \<and> unat b < 0x50c400"

definition task_fits :: "vf2_task_descriptor \<Rightarrow> bool" where
  "task_fits t \<longleftrightarrow> 0x40 \<le> unat (td_stack_size t) \<and> td_stack_size t AND 0x1f = 0 \<and>
     ram_cell (td_state_address t) \<and> \<not> in_scratch (td_state_address t) \<and>
     unat (td_state_address t) < 0x510000"

definition stacks :: "vf2_task_descriptor list \<Rightarrow> nat" where
  "stacks tasks = sum_list (map (\<lambda>t. unat (td_stack_size t)) tasks)"

text \<open>The record of a task in the registry, and the address of each record.\<close>

definition registry_entry :: "'h vf2_model2a \<Rightarrow> u32 \<Rightarrow> vf2_task_descriptor \<Rightarrow> bool" where
  "registry_entry m r t \<longleftrightarrow> ram_peek m r = td_flags t \<and> ram_peek m (r + 0x08) = td_stack_size t \<and>
     ram_peek m (r + 0x0c) = td_entry_point t \<and> ram_peek m (r + 0x38) = scheduler_value t"

definition place :: "u32 \<Rightarrow> vf2_task_descriptor list \<Rightarrow> nat \<Rightarrow> u32" where
  "place r tasks i = r + sum_list (map td_stack_size (take i tasks))"

lemma place_simps [simp]: "place r tasks 0 = r"
  "place r (t # tasks) (Suc i) = place (r + td_stack_size t) tasks i"
  by (simp_all add: place_def add.assoc)

lemma and_1f: "(x :: u32) AND 0x1f = 0 \<longleftrightarrow> unat x mod 32 = 0"
proof -
  have "(0x1f :: u32) = mask 5" by (simp add: mask_eq_exp_minus_1)
  then have "x AND 0x1f = take_bit 5 x" by (simp add: take_bit_eq_mask)
  then show ?thesis by (simp add: take_bit_eq_mod word_unat_eq_iff unat_mod)
qed

text \<open>The cells of the record at a 32-byte boundary.\<close>

lemma record_offset:
  assumes "unat r + 0x40 \<le> 0x600000" and "unat k < 0x40"
  shows "unat (r + k) = unat (r :: u32) + unat k"
proof -
  have "unat r + unat k < 2 ^ LENGTH(32)" using assms by simp
  then show ?thesis by (simp only: unat_word_ariths mod_less)
qed

lemma record_cells:
  assumes "0x510000 \<le> unat r" and "unat r + 0x40 \<le> 0x600000" and "unat r mod 32 = 0"
  shows "unat (r + 8) = unat (r :: u32) + 8" "unat (r + 0xc) = unat r + 0xc" "unat (r + 0x38) = unat r + 0x38"
    "unat (r + 4) = unat r + 4"
    "ram_cell r" "ram_cell (r + 8)" "ram_cell (r + 0xc)" "ram_cell (r + 0x38)" "in_ram (r + 4) 1"
proof -
  show o: "unat (r + 8) = unat r + 8" "unat (r + 0xc) = unat r + 0xc" "unat (r + 0x38) = unat r + 0x38"
    "unat (r + 4) = unat r + 4"
    using record_offset [OF assms(2), of "8"] record_offset [OF assms(2), of "0xc"]
      record_offset [OF assms(2), of "0x38"] record_offset [OF assms(2), of "4"] by simp_all
  have "unat r mod 4 = 0" using assms(3) by presburger
  then show "ram_cell r" "ram_cell (r + 8)" "ram_cell (r + 0xc)" "ram_cell (r + 0x38)" "in_ram (r + 4) 1"
    unfolding ram_cell_def in_ram_def o using assms by presburger+
qed

lemma register_task_ok:
  assumes "ram_ok m" and "0x510000 \<le> unat r" and "unat r + 0x40 \<le> 0x600000" and "unat r mod 32 = 0"
    and "0x50c000 \<le> unat s" and "unat s + 0x20 \<le> 0x50c400" and "task_fits t"
  obtains m' where "register_task r s t m = (Inr (), m')" and "registry_entry m' r t"
    and "ram_peek m' (td_state_address t) = r"
    and "ram_same (\<lambda>b. b \<noteq> td_state_address t \<and> \<not> in_scratch b \<and>
           \<not> (unat r \<le> unat b \<and> unat b < unat r + 0x40)) m m'"
proof -
  note cells = record_cells [OF assms(2-4)]
  have state: "ram_cell (td_state_address t)" "\<not> in_scratch (td_state_address t)"
    "unat (td_state_address t) < 0x510000" using assms(7) by (simp_all add: task_fits_def)
  have scratch: "in_ram s 0x20" using assms(5,6) by (simp add: in_ram_def)
  let ?m1 = "after_write r (td_flags t) m"
  let ?m2 = "after_write_bytes (r + 4) [ucast (td_instance t)] ?m1"
  let ?m3 = "after_write (r + 8) (td_stack_size t) ?m2"
  let ?m4 = "after_write (r + 0xc) (td_entry_point t) ?m3"
  let ?m5 = "after_write (r + 0x38) (scheduler_value t) ?m4"
  let ?m6 = "after_write (td_state_address t) r ?m5"
  let ?m7 = "after_write_bytes s (replicate 32 0) ?m6"
  have run: "register_task r s t m = (Inr (), ?m7)"
    by (simp add: register_task_def write_u8_def clear_scratch ram_simps assms(1) cells(5-8) cells(9) [unfolded One_nat_def] state scratch)
  have out: "unat b + 4 \<le> unat s \<or> unat s + 32 \<le> unat b" if "ram_cell b" "\<not> in_scratch b" for b
    using that assms(5,6) scratch unfolding in_scratch_def ram_cell_def by presburger
  have p7: "ram_peek ?m7 b = ram_peek ?m6 b" if "ram_cell b" "\<not> in_scratch b" for b
    using out [OF that] that by (simp add: ram_simps assms(1) scratch)
  have p6: "ram_peek ?m6 b = (if b = td_state_address t then r else if b = r + 0x38 then scheduler_value t
      else if b = r + 0xc then td_entry_point t else if b = r + 8 then td_stack_size t else ram_peek ?m2 b)"
    if "ram_cell b" for b
    using that by (simp add: ram_simps assms(1) cells(5-8) cells(9) [unfolded One_nat_def] state)
  have p2: "ram_peek ?m2 b = (if b = r then td_flags t else ram_peek m b)" if "ram_cell b" "unat b \<noteq> unat r + 4" for b
  proof -
    have "unat b + 4 \<le> unat (r + 4) \<or> unat (r + 4) + 1 \<le> unat b"
      using that cells(5) unfolding cells(4) ram_cell_def by presburger
    then show ?thesis using that by (simp add: ram_simps assms(1) cells(5-8) cells(9) [unfolded One_nat_def])
  qed
  have away: "\<not> in_scratch (r + k)" if "unat (r + k) = unat r + unat k" for k
    using that assms(2) by (simp add: in_scratch_def)
  have ne: "r \<noteq> td_state_address t" "r + 8 \<noteq> td_state_address t" "r + 0xc \<noteq> td_state_address t"
    "r + 0x38 \<noteq> td_state_address t"
    using state(3) assms(2) cells(1-3) by (auto simp: word_unat_eq_iff)
  show thesis
  proof (rule that [OF run])
    show "registry_entry ?m7 r t"
      using p7 p6 p2 cells(1-3,5-8) ne away [of 0] away [of 8] away [of "0xc"] away [of "0x38"]
      by (simp add: registry_entry_def word_unat_eq_iff)
    show "ram_peek ?m7 (td_state_address t) = r" using p7 p6 state by simp
    show "ram_same (\<lambda>b. b \<noteq> td_state_address t \<and> \<not> in_scratch b \<and>
           \<not> (unat r \<le> unat b \<and> unat b < unat r + 0x40)) m ?m7"
      unfolding ram_same_def
    proof (intro conjI allI impI)
      fix b assume b: "ram_cell b" "b \<noteq> td_state_address t \<and> \<not> in_scratch b \<and>
           \<not> (unat r \<le> unat b \<and> unat b < unat r + 0x40)"
      then have "b \<noteq> r" "b \<noteq> r + 8" "b \<noteq> r + 0xc" "b \<noteq> r + 0x38" "unat b \<noteq> unat r + 4"
        using cells(1-3) by auto
      then show "ram_peek ?m7 b = ram_peek m b" using p7 p6 p2 b by simp
    qed (simp add: assms(1))
  qed
qed

text \<open>The registry as the initialisation leaves it: a record for every task at its place.\<close>

primrec registered :: "'h vf2_model2a \<Rightarrow> u32 \<Rightarrow> vf2_task_descriptor list \<Rightarrow> bool" where
  "registered m r [] = True"
| "registered m r (t # ts) = (registry_entry m r t \<and> registered m (r + td_stack_size t) ts)"

definition registry_fits :: "u32 \<Rightarrow> vf2_task_descriptor list \<Rightarrow> bool" where
  "registry_fits r tasks \<longleftrightarrow> 0x510000 \<le> unat r \<and> unat r + stacks tasks \<le> 0x600000 \<and>
     unat r mod 32 = 0 \<and> (\<forall>t \<in> set tasks. task_fits t)"

lemma registry_fits_Cons:
  assumes "registry_fits r (t # ts)"
  shows "task_fits t" and "registry_fits (r + td_stack_size t) ts"
    and "unat (r + td_stack_size t) = unat r + unat (td_stack_size t)" and "unat r + 0x40 \<le> 0x600000"
    and "0x40 \<le> unat (td_stack_size t)"
proof -
  have f: "0x510000 \<le> unat r" "unat r + unat (td_stack_size t) + stacks ts \<le> 0x600000" "unat r mod 32 = 0"
    "\<forall>t \<in> set ts. task_fits t"
    using assms by (simp_all add: registry_fits_def stacks_def)
  show t: "task_fits t" using assms by (simp add: registry_fits_def)
  then show s: "0x40 \<le> unat (td_stack_size t)" by (simp add: task_fits_def)
  show "unat r + 0x40 \<le> 0x600000" using f(2) s by linarith
  show a: "unat (r + td_stack_size t) = unat r + unat (td_stack_size t)"
    using f(2) by (simp add: unat_word_ariths)
  have "unat (td_stack_size t) mod 32 = 0" using t by (simp add: task_fits_def and_1f)
  then show "registry_fits (r + td_stack_size t) ts"
    using f a by (simp add: registry_fits_def) presburger
qed

lemma registered_same:
  assumes "registered m r tasks" and "registry_fits r tasks"
    and "\<And>b. ram_cell b \<Longrightarrow> unat r \<le> unat b \<Longrightarrow> unat b < unat r + stacks tasks \<Longrightarrow> ram_peek m' b = ram_peek m b"
  shows "registered m' r tasks"
  using assms
proof (induction tasks arbitrary: r)
  case (Cons t ts)
  note fits = registry_fits_Cons [OF Cons.prems(2)]
  have r: "0x510000 \<le> unat r" "unat r mod 32 = 0" using Cons.prems(2) by (simp_all add: registry_fits_def)
  note cells = record_cells [OF r(1) fits(4) r(2)]
  have st: "stacks (t # ts) = unat (td_stack_size t) + stacks ts" by (simp add: stacks_def)
  have "registry_entry m' r t"
    using Cons.prems(1) Cons.prems(3) cells fits(5) st by (simp add: registry_entry_def)
  moreover have "registered m' (r + td_stack_size t) ts"
    by (rule Cons.IH [OF _ fits(2)]) (use Cons.prems(1,3) fits(3) st in simp_all)
  ultimately show ?case by simp
qed simp

lemma unat_stride: "unat (0x20 :: u32) = 0x20"
  by simp

text \<open>The loop of the initialisation, from any point on.\<close>

lemma register_tasks_ok:
  assumes "ram_ok m" and "registry_fits r tasks"
    and "0x50c000 \<le> unat s" and "unat s + 0x20 * length tasks \<le> 0x50c400"
    and "distinct (map td_state_address tasks)"
  obtains m' where "register_tasks tasks r s rep m = (Inr
      (rep\<lparr>tr_state_pointers_written := tr_state_pointers_written rep + length tasks,
           tr_scratch_bytes_cleared := tr_scratch_bytes_cleared rep + 0x20 * length tasks\<rparr>,
       place r tasks (length tasks), s + 0x20 * word_of_nat (length tasks)), m')"
    and "registered m' r tasks"
    and "\<And>i. i < length tasks \<Longrightarrow> ram_peek m' (td_state_address (tasks ! i)) = place r tasks i"
    and "ram_same (\<lambda>b. b \<notin> td_state_address ` set tasks \<and> \<not> in_scratch b \<and>
           \<not> (unat r \<le> unat b \<and> unat b < unat r + stacks tasks)) m m'"
  using assms
proof (induction tasks arbitrary: m r s rep thesis)
  case Nil
  show ?case
    by (rule Nil.prems(1) [of m]) (simp_all add: ram_same_refl [OF Nil.prems(2)] place_def)
next
  case (Cons t ts)
  note fits = registry_fits_Cons [OF Cons.prems(3)]
  have r: "0x510000 \<le> unat r" "unat r mod 32 = 0" using Cons.prems(3) by (simp_all add: registry_fits_def)
  have s: "unat s + 0x20 \<le> 0x50c400" "unat (s + 0x20) = unat s + 0x20"
    using Cons.prems(5) by (simp_all add: unat_word_ariths)
  have st: "stacks (t # ts) = unat (td_stack_size t) + stacks ts" by (simp add: stacks_def)
  obtain m1 where m1: "register_task r s t m = (Inr (), m1)" "registry_entry m1 r t"
    "ram_peek m1 (td_state_address t) = r"
    "ram_same (\<lambda>b. b \<noteq> td_state_address t \<and> \<not> in_scratch b \<and>
           \<not> (unat r \<le> unat b \<and> unat b < unat r + 0x40)) m m1"
    by (rule register_task_ok [OF Cons.prems(2) r(1) fits(4) r(2) Cons.prems(4) s(1) fits(1)])
  let ?rep = "rep\<lparr>tr_state_pointers_written := tr_state_pointers_written rep + 1,
      tr_scratch_bytes_cleared := tr_scratch_bytes_cleared rep + 0x20\<rparr>"
  have follow: "0x50c000 \<le> unat (s + 0x20)" "unat (s + 0x20) + 0x20 * length ts \<le> 0x50c400"
    "distinct (map td_state_address ts)" "ram_ok m1"
    using Cons.prems(4,5,6) s m1(4) by (simp_all add: ram_same_def)
  obtain m' where m': "register_tasks ts (r + td_stack_size t) (s + 0x20) ?rep m1 = (Inr
      (?rep\<lparr>tr_state_pointers_written := tr_state_pointers_written ?rep + length ts,
           tr_scratch_bytes_cleared := tr_scratch_bytes_cleared ?rep + 0x20 * length ts\<rparr>,
       place (r + td_stack_size t) ts (length ts), s + 0x20 + 0x20 * word_of_nat (length ts)), m')"
    "registered m' (r + td_stack_size t) ts"
    "\<And>i. i < length ts \<Longrightarrow> ram_peek m' (td_state_address (ts ! i)) = place (r + td_stack_size t) ts i"
    "ram_same (\<lambda>b. b \<notin> td_state_address ` set ts \<and> \<not> in_scratch b \<and>
       \<not> (unat (r + td_stack_size t) \<le> unat b \<and> unat b < unat (r + td_stack_size t) + stacks ts)) m1 m'"
    by (rule Cons.IH [OF _ follow(4) fits(2) follow(1-3), where rep = ?rep]) blast
  have kept: "ram_peek m' b = ram_peek m1 b"
    if "ram_cell b" "b \<notin> td_state_address ` set ts" "\<not> in_scratch b" "unat b < unat r + unat (td_stack_size t)" for b
    using m'(4) that fits(3) by (simp add: ram_same_def)
  have low: "unat (td_state_address u) < 0x510000" if "u \<in> set (t # ts)" for u
    using Cons.prems(3) that unfolding registry_fits_def task_fits_def by blast
  show thesis
  proof (rule Cons.prems(1) [of m'])
    show "register_tasks (t # ts) r s rep m = (Inr
      (rep\<lparr>tr_state_pointers_written := tr_state_pointers_written rep + length (t # ts),
           tr_scratch_bytes_cleared := tr_scratch_bytes_cleared rep + 0x20 * length (t # ts)\<rparr>,
       place r (t # ts) (length (t # ts)), s + 0x20 * word_of_nat (length (t # ts))), m')"
      using m1(1) m'(1) unat_stride by (simp add: VF2_TASK_SCRATCH_STRIDE_def algebra_simps)
    have "registry_entry m' r t"
    proof -
      note cells = record_cells [OF r(1) fits(4) r(2)]
      have k: "ram_peek m' b = ram_peek m1 b" if "ram_cell b" "unat r \<le> unat b" "unat b < unat r + 0x40" for b
        using kept [OF that(1)] low that r(1) fits(5) by (fastforce simp: in_scratch_def)
      show ?thesis using m1(2) k cells by (simp add: registry_entry_def)
    qed
    then show "registered m' r (t # ts)" using m'(2) by simp
    show "ram_peek m' (td_state_address ((t # ts) ! i)) = place r (t # ts) i" if "i < length (t # ts)" for i
    proof (cases i)
      case 0
      have "td_state_address t \<notin> td_state_address ` set ts" using Cons.prems(6) by auto
      moreover have "ram_cell (td_state_address t)" "\<not> in_scratch (td_state_address t)"
        using fits(1) by (simp_all add: task_fits_def)
      ultimately show ?thesis using kept m1(3) low [of t] r(1) 0 by simp
    next
      case (Suc j)
      then show ?thesis using m'(3) that by simp
    qed
    show "ram_same (\<lambda>b. b \<notin> td_state_address ` set (t # ts) \<and> \<not> in_scratch b \<and>
           \<not> (unat r \<le> unat b \<and> unat b < unat r + stacks (t # ts))) m m'"
      by (rule ram_same_trans [OF ram_same_mono [OF m1(4)] ram_same_mono [OF m'(4)]])
        (use fits(3,5) st in auto)
  qed
qed

section \<open>What the scheduler finds\<close>

text \<open>The tasks whose flags have the runnable bit, with their places.\<close>

definition runnable_tasks :: "u32 \<Rightarrow> vf2_task_descriptor list \<Rightarrow> (nat \<times> u32 \<times> u32) list" where
  "runnable_tasks r tasks =
     map (\<lambda>i. (i, place r tasks i, td_entry_point (tasks ! i)))
       (filter (\<lambda>i. td_flags (tasks ! i) AND VF2_TASK_RUNNABLE_MASK \<noteq> 0) [0..<length tasks])"

lemma runnable_tasks_Cons:
  "runnable_tasks r (t # ts) =
     (if td_flags t AND VF2_TASK_RUNNABLE_MASK \<noteq> 0 then [(0, r, td_entry_point t)] else []) @
     map (\<lambda>(i, p, e). (Suc i, p, e)) (runnable_tasks (r + td_stack_size t) ts)"
proof -
  have u: "[0..<length (t # ts)] = 0 # map Suc [0..<length ts]"
    by (simp add: upt_conv_Cons map_Suc_upt del: upt_Suc)
  show ?thesis unfolding runnable_tasks_def u by (simp add: filter_map comp_def)
qed

text \<open>A read of the registry changes nothing that can be read.\<close>

lemma registry_reads:
  assumes "ram_ok m" and "registry_fits r (t # ts)" and "registry_entry m r t"
  obtains m' where "vf2_model2a_read_u32 r m = (Inr (td_flags t), after_read r m)"
    and "vf2_model2a_read_u32 (r + 8) (after_read r m) = (Inr (td_stack_size t), after_read (r + 8) (after_read r m))"
    and "vf2_model2a_read_u32 (r + 0xc) (after_read (r + 8) (after_read r m)) = (Inr (td_entry_point t), m')"
    and "ram_ok m'" and "ram_peek m' = ram_peek m"
proof -
  have r: "0x510000 \<le> unat r" "unat r mod 32 = 0" using assms(2) by (simp_all add: registry_fits_def)
  note cells = record_cells [OF r(1) registry_fits_Cons(4) [OF assms(2)] r(2)]
  show thesis
    by (rule that [of "after_read (r + 0xc) (after_read (r + 8) (after_read r m))"])
      (use assms(1,3) cells in \<open>simp_all add: ram_simps registry_entry_def\<close>)
qed

lemma registered_cong: "ram_peek m' = ram_peek m \<Longrightarrow> registered m' r tasks = registered m r tasks"
  by (induction tasks arbitrary: r) (simp_all add: registry_entry_def)

lemma stack_accepted: "task_fits t \<Longrightarrow> td_stack_size t \<noteq> 0 \<and> td_stack_size t AND 0x1f = 0"
  by (auto simp: task_fits_def)

lemma plan_tasks_ok:
  assumes "ram_ok m" and "registry_fits r tasks" and "registered m r tasks"
  obtains m' where "plan_tasks tasks k r s acc m = (Inr
     (acc @ map (\<lambda>(i, p, e). (k + i, p, e)) (runnable_tasks r tasks),
      place r tasks (length tasks), s + 0x20 * word_of_nat (length tasks)), m')"
    and "ram_ok m'" and "ram_peek m' = ram_peek m"
  using assms
proof (induction tasks arbitrary: m r k s acc thesis)
  case Nil
  show ?case by (rule Nil.prems(1) [of m]) (simp_all add: Nil.prems(2) runnable_tasks_def place_def)
next
  case (Cons t ts)
  note fits = registry_fits_Cons [OF Cons.prems(3)]
  obtain m1 where m1: "vf2_model2a_read_u32 r m = (Inr (td_flags t), after_read r m)"
    "vf2_model2a_read_u32 (r + 8) (after_read r m) = (Inr (td_stack_size t), after_read (r + 8) (after_read r m))"
    "vf2_model2a_read_u32 (r + 0xc) (after_read (r + 8) (after_read r m)) = (Inr (td_entry_point t), m1)"
    "ram_ok m1" "ram_peek m1 = ram_peek m"
    by (rule registry_reads [OF Cons.prems(2,3)]) (use Cons.prems(4) in simp_all)
  have reg: "registered m1 (r + td_stack_size t) ts"
    using Cons.prems(4) registered_cong [OF m1(5)] by simp
  let ?acc = "if td_flags t AND VF2_TASK_RUNNABLE_MASK \<noteq> 0 then acc @ [(k, r, td_entry_point t)] else acc"
  obtain m' where m': "plan_tasks ts (k + 1) (r + td_stack_size t) (s + 0x20) ?acc m1 = (Inr
     (?acc @ map (\<lambda>(i, p, e). (k + 1 + i, p, e)) (runnable_tasks (r + td_stack_size t) ts),
      place (r + td_stack_size t) ts (length ts), s + 0x20 + 0x20 * word_of_nat (length ts)), m')"
    "ram_ok m'" "ram_peek m' = ram_peek m1"
    by (rule Cons.IH [OF _ m1(4) fits(2) reg, where k = "k + 1" and acc = ?acc]) blast
  show thesis
  proof (rule Cons.prems(1) [of m'])
    show "plan_tasks (t # ts) k r s acc m = (Inr
     (acc @ map (\<lambda>(i, p, e). (k + i, p, e)) (runnable_tasks r (t # ts)),
      place r (t # ts) (length (t # ts)), s + 0x20 * word_of_nat (length (t # ts))), m')"
      using m1(1-3) m'(1) stack_accepted [OF fits(1)]
      by (simp add: VF2_TASK_SCRATCH_STRIDE_def runnable_tasks_Cons comp_def split_def algebra_simps)
  qed (use m'(2,3) m1(5) in simp_all)
qed

lemma scan_descriptors_ok:
  assumes "ram_ok m" and "registry_fits r tasks" and "registered m r tasks"
  obtains m' where "scan_descriptors (length tasks) k r m = (Inr
     (case runnable_tasks r tasks of
        [] \<Rightarrow> (k + length tasks, place r tasks (length tasks), 0)
      | (i, p, e) # _ \<Rightarrow> (k + i, p, e)), m')"
  using assms
proof (induction tasks arbitrary: m r k thesis)
  case Nil
  show ?case by (rule Nil.prems(1) [of m]) (simp add: runnable_tasks_def place_def)
next
  case (Cons t ts)
  note fits = registry_fits_Cons [OF Cons.prems(3)]
  obtain m1 where m1: "vf2_model2a_read_u32 r m = (Inr (td_flags t), after_read r m)"
    "vf2_model2a_read_u32 (r + 8) (after_read r m) = (Inr (td_stack_size t), after_read (r + 8) (after_read r m))"
    "vf2_model2a_read_u32 (r + 0xc) (after_read (r + 8) (after_read r m)) = (Inr (td_entry_point t), m1)"
    "ram_ok m1" "ram_peek m1 = ram_peek m"
    by (rule registry_reads [OF Cons.prems(2,3)]) (use Cons.prems(4) in simp_all)
  let ?m2 = "after_read (r + 8) (after_read r m)"
  have reg: "ram_ok ?m2" "registered ?m2 (r + td_stack_size t) ts"
    using Cons.prems(2,4) registered_cong [of ?m2 m] by simp_all
  obtain m' where m': "scan_descriptors (length ts) (k + 1) (r + td_stack_size t) ?m2 = (Inr
     (case runnable_tasks (r + td_stack_size t) ts of
        [] \<Rightarrow> (k + 1 + length ts, place (r + td_stack_size t) ts (length ts), 0)
      | (i, p, e) # _ \<Rightarrow> (k + 1 + i, p, e)), m')"
    by (rule Cons.IH [OF _ reg(1) fits(2) reg(2), where k = "k + 1"]) blast
  show thesis
  proof (cases "td_flags t AND VF2_TASK_RUNNABLE_MASK = 0")
    case True
    then show ?thesis
      using m1(1,2) m'(1) stack_accepted [OF fits(1)]
      by (intro Cons.prems(1) [of m']) (simp add: runnable_tasks_Cons split: list.split)
  next
    case False
    then show ?thesis
      using m1(1-3) stack_accepted [OF fits(1)]
      by (intro Cons.prems(1) [of m1]) (simp add: runnable_tasks_Cons)
  qed
qed

section \<open>Properties\<close>

text \<open>A catalogue the registry has room for.\<close>

definition catalog_fits :: "vf2_task_catalog \<Rightarrow> vf2_task_descriptor list \<Rightarrow> bool" where
  "catalog_fits catalog tasks \<longleftrightarrow> tc_tasks catalog = Some tasks \<and> tasks \<noteq> [] \<and>
     length tasks \<le> VF2_RECOVERED_SCHEDULER_MAX_TASKS \<and> registry_fits VF2_TASK_REGISTRY_BASE tasks \<and>
     distinct (map td_state_address tasks)"

lemma initialize_ok:
  assumes "ram_ok m" and "catalog_fits catalog tasks"
  obtains rep m' where "vf2_recovered_task_registry_initialize catalog m = (Inr rep, m')"
    and "ram_ok m'" and "registered m' VF2_TASK_REGISTRY_BASE tasks"
    and "\<And>i. i < length tasks \<Longrightarrow> ram_peek m' (td_state_address (tasks ! i)) = place VF2_TASK_REGISTRY_BASE tasks i"
    and "tr_registry_end rep = place VF2_TASK_REGISTRY_BASE tasks (length tasks)"
    and "tr_scratch_end rep = VF2_TASK_SCRATCH_BASE + 0x20 * word_of_nat (length tasks)"
    and "tr_task_count rep = length tasks" and "tr_state_pointers_written rep = length tasks"
    and "tr_scratch_bytes_cleared rep = 0x20 * length tasks"
proof -
  have c: "tc_tasks catalog = Some tasks" "tasks \<noteq> []" "length tasks \<le> 32"
    "registry_fits VF2_TASK_REGISTRY_BASE tasks" "distinct (map td_state_address tasks)"
    using assms(2) by (simp_all add: catalog_fits_def VF2_RECOVERED_SCHEDULER_MAX_TASKS_def)
  let ?rep = "\<lparr>tr_source_table_start = tc_table_start catalog, tr_source_table_end = tc_table_end catalog,
      tr_registry_start = VF2_TASK_REGISTRY_BASE, tr_registry_end = 0,
      tr_scratch_start = VF2_TASK_SCRATCH_BASE, tr_scratch_end = 0,
      tr_task_count = 0, tr_state_pointers_written = 0, tr_scratch_bytes_cleared = 0\<rparr>"
  have s: "0x50c000 \<le> unat VF2_TASK_SCRATCH_BASE" "unat VF2_TASK_SCRATCH_BASE + 0x20 * length tasks \<le> 0x50c400"
    using c(3) by (simp_all add: VF2_TASK_SCRATCH_BASE_def)
  obtain m' where m': "register_tasks tasks VF2_TASK_REGISTRY_BASE VF2_TASK_SCRATCH_BASE ?rep m = (Inr
      (?rep\<lparr>tr_state_pointers_written := tr_state_pointers_written ?rep + length tasks,
           tr_scratch_bytes_cleared := tr_scratch_bytes_cleared ?rep + 0x20 * length tasks\<rparr>,
       place VF2_TASK_REGISTRY_BASE tasks (length tasks),
       VF2_TASK_SCRATCH_BASE + 0x20 * word_of_nat (length tasks)), m')"
    "registered m' VF2_TASK_REGISTRY_BASE tasks"
    "\<And>i. i < length tasks \<Longrightarrow> ram_peek m' (td_state_address (tasks ! i)) = place VF2_TASK_REGISTRY_BASE tasks i"
    "ram_ok m'"
    by (rule register_tasks_ok [OF assms(1) c(4) s c(5), where rep = ?rep]) (simp add: ram_same_def)
  show thesis
    by (rule that [OF _ m'(4,2,3)])
      (simp add: vf2_recovered_task_registry_initialize_def c(1,2) m'(1) tc_count_def, simp_all)
qed

text \<open>C19: initialising the registry and planning from it is a round trip: the plan succeeds and
  lists exactly the tasks of the catalogue whose flags have the runnable bit, in order, each with
  its index, the address of its record and its entry point; both routines end at the same registry
  and scratch addresses, and every task's state pointer holds the address of its record.\<close>

theorem vf2_recovered_registry_plan:
  assumes "ram_ok m" and "catalog_fits catalog tasks"
  shows "\<exists>rep plan m'.
    pbind (vf2_recovered_task_registry_initialize catalog) (\<lambda>rep.
      pbind (vf2_recovered_scheduler_plan catalog) (\<lambda>plan. pret (rep, plan))) m = (Inr (rep, plan), m') \<and>
    sr_runnable plan = runnable_tasks VF2_TASK_REGISTRY_BASE tasks \<and>
    sr_descriptor_count plan = tr_task_count rep \<and> tr_task_count rep = length tasks \<and>
    sr_registry_end plan = tr_registry_end rep \<and> sr_scratch_end plan = tr_scratch_end rep \<and>
    (\<forall>i < length tasks. ram_peek m' (td_state_address (tasks ! i)) = place VF2_TASK_REGISTRY_BASE tasks i)"
proof -
  have c: "tc_tasks catalog = Some tasks" "tasks \<noteq> []" "\<not> VF2_RECOVERED_SCHEDULER_MAX_TASKS < length tasks"
    "registry_fits VF2_TASK_REGISTRY_BASE tasks" using assms(2) by (simp_all add: catalog_fits_def)
  obtain rep m1 where m1: "vf2_recovered_task_registry_initialize catalog m = (Inr rep, m1)"
    "ram_ok m1" "registered m1 VF2_TASK_REGISTRY_BASE tasks"
    "\<And>i. i < length tasks \<Longrightarrow> ram_peek m1 (td_state_address (tasks ! i)) = place VF2_TASK_REGISTRY_BASE tasks i"
    "tr_registry_end rep = place VF2_TASK_REGISTRY_BASE tasks (length tasks)"
    "tr_scratch_end rep = VF2_TASK_SCRATCH_BASE + 0x20 * word_of_nat (length tasks)"
    "tr_task_count rep = length tasks"
    by (rule initialize_ok [OF assms]) blast
  obtain m2 where m2: "plan_tasks tasks 0 VF2_TASK_REGISTRY_BASE VF2_TASK_SCRATCH_BASE [] m1 = (Inr
     ([] @ map (\<lambda>(i, p, e). (0 + i, p, e)) (runnable_tasks VF2_TASK_REGISTRY_BASE tasks),
      place VF2_TASK_REGISTRY_BASE tasks (length tasks),
      VF2_TASK_SCRATCH_BASE + 0x20 * word_of_nat (length tasks)), m2)" "ram_peek m2 = ram_peek m1"
    by (rule plan_tasks_ok [OF m1(2) c(4) m1(3), where k = 0 and acc = "[]"]) blast
  have plan: "vf2_recovered_scheduler_plan catalog m1 = (Inr
      \<lparr>sr_registry_start = VF2_TASK_REGISTRY_BASE, sr_registry_end = tr_registry_end rep,
       sr_scratch_start = VF2_TASK_SCRATCH_BASE, sr_scratch_end = tr_scratch_end rep,
       sr_descriptor_count = length tasks, sr_runnable = runnable_tasks VF2_TASK_REGISTRY_BASE tasks\<rparr>, m2)"
    using m2(1) by (simp add: vf2_recovered_scheduler_plan_def c m1(5,6))
  show ?thesis using m1(1,4,7) plan m2(2) by simp
qed

text \<open>C20: on an initialised registry the native scheduler's search selects the first task of the
  plan, and runs to the end of the registry when nothing is runnable.\<close>

theorem vf2_native_first_runnable:
  assumes "ram_ok m" and "catalog_fits catalog tasks"
  shows "fst (pbind (vf2_recovered_task_registry_initialize catalog)
      (\<lambda>_. first_runnable_descriptor (word_of_nat (length tasks))) m) = Inr
    (case runnable_tasks VF2_TASK_REGISTRY_BASE tasks of
       [] \<Rightarrow> (length tasks, place VF2_TASK_REGISTRY_BASE tasks (length tasks), 0)
     | first # _ \<Rightarrow> first)"
proof -
  have c: "length tasks \<le> 32" "registry_fits VF2_TASK_REGISTRY_BASE tasks"
    using assms(2) by (simp_all add: catalog_fits_def VF2_RECOVERED_SCHEDULER_MAX_TASKS_def)
  then have n: "unat (word_of_nat (length tasks) :: u32) = length tasks"
    by (simp add: unat_of_nat)
  obtain rep m1 where m1: "vf2_recovered_task_registry_initialize catalog m = (Inr rep, m1)"
    "ram_ok m1" "registered m1 VF2_TASK_REGISTRY_BASE tasks"
    by (rule initialize_ok [OF assms]) blast
  obtain m2 where "scan_descriptors (length tasks) 0 VF2_TASK_REGISTRY_BASE m1 = (Inr
     (case runnable_tasks VF2_TASK_REGISTRY_BASE tasks of
        [] \<Rightarrow> (0 + length tasks, place VF2_TASK_REGISTRY_BASE tasks (length tasks), 0)
      | (i, p, e) # _ \<Rightarrow> (0 + i, p, e)), m2)"
    by (rule scan_descriptors_ok [OF m1(2) c(2) m1(3), where k = 0])
  then show ?thesis
    by (auto simp: m1(1) first_runnable_descriptor_def n split: list.split)
qed

text \<open>Two tasks, the second one runnable.\<close>

definition sample_tasks :: "vf2_task_descriptor list" where
  "sample_tasks =
     [\<lparr>td_descriptor_address = 0x11dc0, td_flags = 0x40, td_instance = 0, td_stack_size = 0x780,
       td_entry_point = 0x1000, td_state_address = 0x500800, td_scheduler_slot = 0, td_name = [0x66]\<rparr>,
      \<lparr>td_descriptor_address = 0x11e00, td_flags = 0x80000000, td_instance = 1, td_stack_size = 0x400,
       td_entry_point = 0x221cc, td_state_address = 0x500804, td_scheduler_slot = 2, td_name = [0x67]\<rparr>]"

definition sample_catalog :: vf2_task_catalog where
  "sample_catalog = \<lparr>tc_tasks = Some sample_tasks, tc_capacity = 32,
     tc_table_start = 0x11dc0, tc_table_end = 0x11e40\<rparr>"

lemma sample_catalog_fits: "catalog_fits sample_catalog sample_tasks"
  by (simp add: catalog_fits_def sample_catalog_def sample_tasks_def registry_consts registry_fits_def
      stacks_def task_fits_def ram_cell_def in_scratch_def)

lemma sample_runnable: "runnable_tasks VF2_TASK_REGISTRY_BASE sample_tasks = [(1, 0x510780, 0x221cc)]"
  by (simp add: runnable_tasks_def sample_tasks_def registry_consts place_def upt_conv_Cons)

lemma fresh_ram_ok: "ram_ok (snd (vf2_model2a_initialize nil (\<lambda>_. True)))"
  by (simp add: ram_ok_def machine_ok_fresh rom_fits_fresh)

lemma vf2_recovered_registry_plan_witness:
  "\<exists>rep plan m'.
    pbind (vf2_recovered_task_registry_initialize sample_catalog) (\<lambda>rep.
      pbind (vf2_recovered_scheduler_plan sample_catalog) (\<lambda>plan. pret (rep, plan)))
        (snd (vf2_model2a_initialize () (\<lambda>_. True))) = (Inr (rep, plan), m') \<and>
    sr_runnable plan = [(1, 0x510780, 0x221cc)] \<and> ram_peek m' 0x500804 = 0x510780"
proof -
  have l: "1 < length sample_tasks" "td_state_address (sample_tasks ! 1) = 0x500804"
    "place VF2_TASK_REGISTRY_BASE sample_tasks 1 = 0x510780"
    by (simp_all add: sample_tasks_def place_def VF2_TASK_REGISTRY_BASE_def)
  obtain rep plan m' where p: "pbind (vf2_recovered_task_registry_initialize sample_catalog) (\<lambda>rep.
      pbind (vf2_recovered_scheduler_plan sample_catalog) (\<lambda>plan. pret (rep, plan)))
        (snd (vf2_model2a_initialize () (\<lambda>_. True))) = (Inr (rep, plan), m')"
    "sr_runnable plan = runnable_tasks VF2_TASK_REGISTRY_BASE sample_tasks"
    "\<forall>i < length sample_tasks. ram_peek m' (td_state_address (sample_tasks ! i)) =
       place VF2_TASK_REGISTRY_BASE sample_tasks i"
    using vf2_recovered_registry_plan [OF fresh_ram_ok sample_catalog_fits, of "()"] by blast
  then show ?thesis using l sample_runnable p(3) [rule_format, OF l(1)] by auto
qed

lemma vf2_native_first_runnable_witness:
  "fst (pbind (vf2_recovered_task_registry_initialize sample_catalog)
     (\<lambda>_. first_runnable_descriptor (word_of_nat (length sample_tasks)))
     (snd (vf2_model2a_initialize () (\<lambda>_. True)))) = Inr (1, 0x510780, 0x221cc)"
  using vf2_native_first_runnable [OF fresh_ram_ok sample_catalog_fits, of "()"] sample_runnable
  by simp

end
