(* ===== verification/Vf2_Lift.thy ===== *)
theory Vf2_Lift
  imports Vf2_I960_Branches
begin

text \<open>
  The run-time support of recompiled code (\<open>src/lift/runtime.c\<close>): a basic block of the guest is
  run through the lifted step until control leaves it, and a dispatcher chooses between a lifted
  function and one interpreted step. The generated functions are parameters of the dispatcher.
  A block may loop for ever, so \<open>vf2_lift_run_block\<close> is a \<open>partial_function\<close>: \<open>None\<close> is a call that
  does not return. Lifting changes the tallies of interpreted and lifted instructions and nothing
  else: that needs every instruction to ignore the tallies, which is proved here once
  for all of them (\<open>commutes\<close>).
\<close>

section \<open>Blocks and dispatch\<close>

partial_function (option) lift_loop :: "u32 \<Rightarrow> u32 \<Rightarrow> 'h sys \<Rightarrow> ((vf2_status + unit) \<times> 'h sys) option" where
  "lift_loop start stop s =
     (if ip (sys_cpu s) \<ge> start \<and> ip (sys_cpu s) < stop then
        (case vf2_i960_step_lifted s of
           (Inl e, s') \<Rightarrow> Some (Inl e, s')
         | (Inr _, s') \<Rightarrow> lift_loop start stop s')
      else Some (Inr (), s))"

definition vf2_lift_run_block :: "u32 \<Rightarrow> u32 \<Rightarrow> 'h sys \<Rightarrow> ((vf2_status + unit) \<times> 'h sys) option" where
  "vf2_lift_run_block start stop s =
     (if start \<ge> stop then Some (Inl VF2_ERROR_INVALID_ARGUMENT, s) else lift_loop start stop s)"

record 'h vf2_lift_entry =
  entry_address :: u32
  entry_end :: u32
  entry_fn :: "'h sys \<Rightarrow> ((vf2_status + unit) \<times> 'h sys) option"
  entry_name :: string

definition vf2_lift_table_lookup :: "'h vf2_lift_entry list option \<Rightarrow> u32 \<Rightarrow> 'h vf2_lift_entry option" where
  "vf2_lift_table_lookup table address =
     (case table of
        None \<Rightarrow> None
      | Some entries \<Rightarrow> find (\<lambda>e. address \<ge> entry_address e \<and> address < entry_end e) entries)"

datatype vf2_lift_tier = LIFT_TIER_LIFTED | LIFT_TIER_INTERPRETED

definition vf2_lift_dispatch_step ::
  "'h vf2_lift_entry list option \<Rightarrow> 'h sys \<Rightarrow> (vf2_lift_tier \<times> (vf2_status + unit) \<times> 'h sys) option" where
  "vf2_lift_dispatch_step table s =
     (case vf2_lift_table_lookup table (ip (sys_cpu s)) of
        Some e \<Rightarrow> map_option (\<lambda>x. (LIFT_TIER_LIFTED, x)) (entry_fn e s)
      | None \<Rightarrow>
          (case vf2_i960_step s of
             (Inl st, s') \<Rightarrow> Some (LIFT_TIER_INTERPRETED, Inl st, s')
           | (Inr _, s') \<Rightarrow> Some (LIFT_TIER_INTERPRETED, Inr (), s')))"

section \<open>No instruction reads the tallies\<close>

text \<open>\<open>k\<close> instructions moved from the interpreted to the lifted tally.\<close>

definition tally :: "u64 \<Rightarrow> vf2_i960_cpu \<Rightarrow> vf2_i960_cpu" where
  "tally k c = c\<lparr>interpreted_instructions := interpreted_instructions c - k,
                 lifted_instructions := lifted_instructions c + k\<rparr>"

definition moved :: "u64 \<Rightarrow> 'h sys \<Rightarrow> 'h sys" where
  "moved k s = s\<lparr>sys_cpu := tally k (sys_cpu s)\<rparr>"

lemma tally_simps [simp]:
  "registers (tally k c) = registers c" "ip (tally k c) = ip c" "sat (tally k c) = sat c"
  "prcb (tally k c) = prcb c" "process_control (tally k c) = process_control c"
  "arithmetic_control (tally k c) = arithmetic_control c"
  "interrupt_control (tally k c) = interrupt_control c" "compare_result (tally k c) = compare_result c"
  "executed_instructions (tally k c) = executed_instructions c"
  "procedure_calls (tally k c) = procedure_calls c" "procedure_returns (tally k c) = procedure_returns c"
  "interrupt_entries (tally k c) = interrupt_entries c" "interrupt_returns (tally k c) = interrupt_returns c"
  "local_frames (tally k c) = local_frames c" "local_frame_depth (tally k c) = local_frame_depth c"
  "maximum_local_frame_depth (tally k c) = maximum_local_frame_depth c"
  "reinitialized (tally k c) = reinitialized c"
  by (simp_all add: tally_def)

lemma moved_simps [simp]:
  "sys_machine (moved k s) = sys_machine s" "sys_nan (moved k s) = sys_nan s"
  "sys_cpu (moved k s) = tally k (sys_cpu s)"
  by (simp_all add: moved_def)

lemma moved_0 [simp]: "moved 0 s = s"
  by (simp add: moved_def tally_def)

lemma moved_moved: "moved k (moved j s) = moved (k + j) s"
  by (simp add: moved_def tally_def algebra_simps)

definition commutes :: "('h sys, 'a) prog \<Rightarrow> bool" where
  "commutes f \<longleftrightarrow> (\<forall>k s. f (moved k s) = (fst (f s), moved k (snd (f s))))"

named_theorems commutes_intros \<open>programs that ignore the tallies\<close>

lemma commutesD: "commutes f \<Longrightarrow> f s = (r, s') \<Longrightarrow> f (moved k s) = (r, moved k s')"
  by (simp add: commutes_def)

lemma commutes_basic [commutes_intros]:
  "commutes (pret x)" "commutes (pfail e)" "commutes (pcheck b e)"
  by (simp_all add: commutes_def)

lemma commutes_pget [commutes_intros]: "(\<And>k s. f (moved k s) = f s) \<Longrightarrow> commutes (pget f)"
  by (simp add: commutes_def)

lemma commutes_cpu_get [commutes_intros]: "(\<And>k c. f (tally k c) = f c) \<Longrightarrow> commutes (cpu_get f)"
  by (simp add: commutes_def)

lemma commutes_cpu_mod [commutes_intros]:
  "(\<And>k c. f (tally k c) = tally k (f c)) \<Longrightarrow> commutes (cpu_mod f)"
  by (simp add: commutes_def moved_def)

lemma commutes_on_cpu:
  "(\<And>k c. p (tally k c) = (fst (p c), tally k (snd (p c)))) \<Longrightarrow> commutes (on_cpu p)"
  by (simp add: commutes_def on_cpu_def moved_def split: prod.split)

lemma commutes_on_bus [commutes_intros]: "commutes (on_bus p)"
  by (simp add: commutes_def on_bus_def moved_def split: prod.split)

lemma commutes_pbind [commutes_intros]:
  assumes "commutes f" and "\<And>a. commutes (g a)"
  shows "commutes (pbind f g)"
proof -
  have "pbind f g (moved k s) = (fst (pbind f g s), moved k (snd (pbind f g s)))" for k s
  proof (cases "f s")
    case (Pair r s')
    note f = commutesD [OF assms(1) Pair, of k]
    show ?thesis
    proof (cases r)
      case (Inr a)
      obtain r2 s2 where g: "g a s' = (r2, s2)" by fastforce
      show ?thesis using f Pair Inr g commutesD [OF assms(2) g] by simp
    qed (use f Pair in simp)
  qed
  then show ?thesis by (simp add: commutes_def)
qed

text \<open>A program that reads the whole processor but uses only what the tallies leave alone.\<close>

lemma commutes_get_bind:
  assumes "\<And>k c. g (tally k c) = g c" and "\<And>c. commutes (g c)"
  shows "commutes (pbind (cpu_get id) g)"
proof -
  have "g (tally k (sys_cpu s)) (moved k s) = (fst (g (sys_cpu s) s), moved k (snd (g (sys_cpu s) s)))" for k s
    using assms(1) [of k "sys_cpu s"] assms(2) [of "sys_cpu s"] by (simp add: commutes_def)
  then show ?thesis by (simp add: commutes_def)
qed

lemma commutes_if [commutes_intros]:
  "(b \<Longrightarrow> commutes f) \<Longrightarrow> (\<not> b \<Longrightarrow> commutes g) \<Longrightarrow> commutes (if b then f else g)"
  by simp

lemma commutes_Let [commutes_intros]: "(\<And>x. commutes (f x)) \<Longrightarrow> commutes (Let e f)"
  by simp

lemma commutes_cases [commutes_intros]:
  "commutes f1 \<Longrightarrow> (\<And>a. commutes (g1 a)) \<Longrightarrow> commutes (case o1 of None \<Rightarrow> f1 | Some a \<Rightarrow> g1 a)"
  "(\<And>e. commutes (f2 e)) \<Longrightarrow> (\<And>a. commutes (g2 a)) \<Longrightarrow> commutes (case s1 of Inl e \<Rightarrow> f2 e | Inr a \<Rightarrow> g2 a)"
  "(\<And>a b. commutes (h a b)) \<Longrightarrow> commutes (case p1 of (a, b) \<Rightarrow> h a b)"
  by (simp_all split: option.split sum.split prod.split)

lemma commutes_pfor [commutes_intros]: "(\<And>i. commutes (body i)) \<Longrightarrow> commutes (pfor is body)"
  by (induction "is") (auto intro: commutes_intros)

subsection \<open>The instructions\<close>

lemma register_value_tally [simp]: "register_value (tally k c) = register_value c"
  by (simp add: register_value_def fun_eq_iff)

lemma put_register_tally [simp]: "put_register r v (tally k c) = tally k (put_register r v c)"
  by (simp add: put_register_def tally_def)

lemma effective_address_tally [simp]: "effective_address (tally k c) = effective_address c"
  by (simp add: effective_address_def fun_eq_iff Let_def)

lemma commutes_bus [commutes_intros]:
  "commutes (bus_read_u32 a)" "commutes (bus_write_u32 a v)" "commutes (bus_read a n)" "commutes (bus_write a bytes)"
  by (simp_all add: bus_read_u32_def bus_write_u32_def bus_read_def bus_write_def commutes_intros)

lemma memory_operand_address_tally [simp]:
  "memory_operand_address p (tally k c) = (fst (memory_operand_address p c), tally k c)"
  by (simp add: memory_operand_address_def split: vf2_i960_operand_value.split)

lemma snd_memory_operand_address [simp]: "snd (memory_operand_address p c) = c"
  by (simp add: memory_operand_address_def split: vf2_i960_operand_value.split)

lemma commutes_operands [commutes_intros]:
  "commutes (on_cpu (operand_value p))" "commutes (on_cpu (memory_operand_address p))"
  "commutes (on_cpu (set_register p v))" "commutes (on_cpu (arch_operand_value p))"
  by (rule commutes_on_cpu; simp add: operand_value_def set_register_def arch_operand_value_def Let_def
      split: vf2_i960_operand_value.split)+

lemma commutes_operand [commutes_intros]: "commutes (operand i n)" "commutes (put_operand i n v)"
  by (simp_all add: operand_def put_operand_def commutes_intros)

lemma call_tally [simp]:
  "procedure_call_typed t ret ct sp (tally k c) =
     (fst (procedure_call_typed t ret ct sp c), tally k (snd (procedure_call_typed t ret ct sp c)))"
  by (simp add: procedure_call_typed_def Let_def tally_def cong: if_cong)

lemma commutes_call [commutes_intros]: "commutes (on_cpu (procedure_call t ret))"
  by (rule commutes_on_cpu) (simp add: procedure_call_def)

lemma pop_tally [simp]: "pop_frame (tally k c) = tally k (pop_frame c)"
  by (simp add: pop_frame_def Let_def tally_def cong: if_cong)

lemma commutes_return [commutes_intros]: "commutes procedure_return"
  unfolding procedure_return_def
  by (rule commutes_get_bind) (auto simp: Let_def intro!: commutes_intros, simp add: tally_def)

lemma set_compare_tally [simp]: "set_compare_result r (tally k c) = tally k (set_compare_result r c)"
  by (simp add: set_compare_result_def tally_def)

lemma compares_tally [simp]:
  "compare_unsigned a b (tally k c) = tally k (compare_unsigned a b c)"
  "compare_signed a b (tally k c) = tally k (compare_signed a b c)"
  "compare_real a b (tally k c) = tally k (compare_real a b c)"
  "cobr_compare sg a b (tally k c) = tally k (cobr_compare sg a b c)"
  by (simp_all add: compare_unsigned_def compare_signed_def compare_real_def)
    (simp add: cobr_compare_def Let_def tally_def)

lemma fields_tally [simp]:
  "(tally k c)\<lparr>ip := v\<rparr> = tally k (c\<lparr>ip := v\<rparr>)"
  "(tally k c)\<lparr>compare_result := cr\<rparr> = tally k (c\<lparr>compare_result := cr\<rparr>)"
  "(tally k c)\<lparr>arithmetic_control := v\<rparr> = tally k (c\<lparr>arithmetic_control := v\<rparr>)"
  "(tally k c)\<lparr>process_control := v\<rparr> = tally k (c\<lparr>process_control := v\<rparr>)"
  "(tally k c)\<lparr>interrupt_control := v\<rparr> = tally k (c\<lparr>interrupt_control := v\<rparr>)"
  by (simp_all add: tally_def)

lemma commutes_jump_if [commutes_intros]: "commutes (jump_if b i)"
  by (simp add: jump_if_def commutes_intros)

lemma fold_registers_tally:
  "fold (\<lambda>n c. put_register (d + n) (f (registers c) n) c) ns (tally k c) =
     tally k (fold (\<lambda>n c. put_register (d + n) (f (registers c) n) c) ns c)"
  by (induction ns arbitrary: c) simp_all

lemma copy_registers_tally [simp]: "copy_registers a b n (tally k c) = tally k (copy_registers a b n c)"
  using fold_registers_tally [of b "\<lambda>regs j. regs (a + j)" "[0..<n]" k c] by (simp add: copy_registers_def)

lemma literal_fill_tally [simp]: "literal_fill d n v (tally k c) = tally k (literal_fill d n v c)"
  using fold_registers_tally [of d "\<lambda>_ _. 0" "[1..<n]" k "put_register d v c"] by (simp add: literal_fill_def)

lemma retire_tally [simp]: "retire (tally k c) = tally k (retire c)"
  by (simp add: retire_def tally_def algebra_simps)

lemma convert_tally [simp]: "convert_real_to_integer (tally k c) = convert_real_to_integer c"
  by (simp add: convert_real_to_integer_def fun_eq_iff cong: f32.case_cong)

lemma commutes_moves [commutes_intros]:
  "commutes (execute_load i w n sg)" "commutes (execute_store i w n)" "commutes (execute_iac a)"
  "commutes (execute_multi_move i count)"
proof -
  show "commutes (execute_load i w n sg)"
    unfolding execute_load_def by (auto intro!: commutes_intros split: sum.split option.split prod.split)
  show "commutes (execute_store i w n)"
    unfolding execute_store_def by (auto intro!: commutes_intros split: option.split)
  have "commutes (on_cpu (iac_message p0 p1 p2 p3))" for p0 p1 p2 p3
    by (rule commutes_on_cpu) (simp add: iac_message_def Let_def tally_def)
  then show "commutes (execute_iac a)" unfolding execute_iac_def by (intro commutes_intros)
  show "commutes (execute_multi_move i count)"
    unfolding execute_multi_move_def by (auto intro!: commutes_intros split: option.split)
qed

lemma commutes_compares [commutes_intros]:
  "commutes (cpu_mod (set_compare_result cr))" "commutes (cpu_mod (compare_unsigned a b))"
  "commutes (cpu_mod (compare_signed a b))" "commutes (cpu_mod (compare_real a b))"
  "commutes (cpu_mod (cobr_compare sg a b))"
  by (rule commutes_cpu_mod; simp)+

lemma commutes_groups [commutes_intros]:
  "commutes (execute_synmov i)" "commutes (execute_synmovq i)"
  "commutes (execute_lda i)" "commutes (execute_mov i)" "commutes (execute_alu i)"
  "commutes (execute_bit i)" "commutes (execute_real i)" "commutes (execute_cmpr i)"
  "commutes (execute_mul i)" "commutes (execute_divide i)" "commutes (execute_not i)"
  "commutes (execute_chkbit i)" "commutes (execute_compare i)" "commutes (execute_concompare i)"
  "commutes (execute_cvtir i)" "commutes (execute_compare_step i)" "commutes (execute_test i)"
  "commutes (execute_control_branch i)" "commutes (execute_cobr i)"
  "commutes (execute_carry i)" "commutes (execute_scan i)" "commutes (execute_cvtri i)"
  "commutes (execute_cvtilr i)" "commutes (execute_indirect i n)" "commutes (execute_ediv i)"
  "commutes (execute_modify_control i)"
  unfolding execute_synmov_def execute_synmovq_def execute_lda_def execute_mov_def execute_alu_def
    execute_bit_def execute_real_def execute_cmpr_def execute_mul_def execute_divide_def execute_not_def
    execute_chkbit_def execute_compare_def execute_concompare_def execute_cvtir_def
    execute_compare_step_def execute_test_def execute_control_branch_def execute_cobr_def
    execute_carry_def execute_scan_def execute_cvtri_def execute_cvtilr_def execute_indirect_def
    execute_ediv_def execute_modify_control_def Let_def
  by (auto intro!: commutes_intros split: option.split sum.split prod.split)

lemma commutes_bal [commutes_intros]: "commutes (cpu_mod (\<lambda>c. (put_register r n c)\<lparr>ip := t\<rparr>))"
  by (rule commutes_cpu_mod) simp

lemma commutes_execute_instruction [commutes_intros]: "commutes (execute_instruction i n)"
  unfolding execute_instruction_def Let_def
  by (intro commutes_if commutes_moves commutes_groups commutes_jump_if commutes_bal commutes_call
      commutes_return commutes_basic)

lemma trace_event_tally [simp]: "trace_event before i (tally k c) = trace_event before i c"
  by (simp add: trace_event_def)

lemma commutes_fetch [commutes_intros]: "commutes fetch"
  by (simp add: commutes_def fetch_def split: prod.split sum.split)

lemma commutes_step_legacy: "commutes vf2_i960_step_legacy"
proof -
  have "commutes (\<lambda>s. case execute_instruction i next_ip s of
          (Inl status, s') \<Rightarrow> (Inl status, s'\<lparr>sys_cpu := (sys_cpu s')\<lparr>ip := before\<rparr>\<rparr>)
        | (Inr _, s') \<Rightarrow> pbind (cpu_mod retire) (\<lambda>_. cpu_get (trace_event before i)) s')" (is "commutes ?f")
    for i next_ip before
  proof -
    have "?f (moved k s) = (fst (?f s), moved k (snd (?f s)))" for k s
    proof (cases "execute_instruction i next_ip s")
      case (Pair r s')
      note e = commutesD [OF commutes_execute_instruction Pair, of k]
      show ?thesis unfolding e Pair by (cases r) (simp_all add: moved_def)
    qed
    then show ?thesis by (simp add: commutes_def)
  qed
  then show ?thesis
    unfolding vf2_i960_step_legacy_def Let_def
    by (intro commutes_intros) (simp_all add: commutes_def)
qed

lemma commutes_arch [commutes_intros]:
  "commutes (arch_execute_literal_multi_move i before)"
  "commutes (arch_fix_direct_compare event i before first second)"
  "commutes (arch_fix_ordered event i before)" "commutes (direct_operands i)"
proof -
  have set: "commutes (cpu_mod (arch_set_compare r))" for r
    by (rule commutes_cpu_mod) (simp add: arch_set_compare_def Let_def tally_def)
  have jump: "commutes (arch_set_ip event i before b)" for b
    unfolding arch_set_ip_def Let_def by (intro commutes_intros) simp
  show "commutes (arch_execute_literal_multi_move i before)"
    unfolding arch_execute_literal_multi_move_def Let_def
    by (auto intro!: commutes_intros split: vf2_i960_operand_value.split)
  show "commutes (arch_fix_direct_compare event i before first second)"
    unfolding arch_fix_direct_compare_def Let_def by (intro commutes_intros set jump)
  show "commutes (arch_fix_ordered event i before)"
    unfolding arch_fix_ordered_def Let_def
    by (rule commutes_get_bind) (simp_all, intro conjI impI commutes_intros jump)
  show "commutes (direct_operands i)"
    unfolding direct_operands_def by (intro commutes_intros)
qed

lemma commutes_step: "commutes vf2_i960_step"
  unfolding vf2_i960_step_def by (intro commutes_intros commutes_step_legacy) simp

section \<open>Lifted steps are interpreted steps\<close>

lemma step_lifted_ok:
  assumes "vf2_i960_step s = (Inr ev, s')"
  shows "vf2_i960_step_lifted s = (Inr ev, moved 1 s')"
proof -
  have "stepper False s = (Inr ev, s')" using assms by (simp add: stepper_def)
  note c = stepper_ok_counters(2) [OF this]
  show ?thesis
    by (simp add: vf2_i960_step_lifted_def Let_def assms moved_def tally_def c)
qed

lemma step_lifted_err:
  assumes "vf2_i960_step s = (Inl e, s')"
  shows "vf2_i960_step_lifted s = (Inl e, s')"
proof -
  have "stepper False s = (Inl e, s')" using assms by (simp add: stepper_def)
  note c = stepper_error_counters(2) [OF this]
  have "sys_cpu s'\<lparr>lifted_instructions := lifted_instructions (sys_cpu s'),
      interpreted_instructions := interpreted_instructions (sys_cpu s)\<rparr> = sys_cpu s'"
    using c by simp
  then show ?thesis
    by (simp add: vf2_i960_step_lifted_def Let_def assms c)
qed

definition in_block :: "u32 \<Rightarrow> u32 \<Rightarrow> 'h sys \<Rightarrow> bool" where
  "in_block start stop s \<longleftrightarrow> start \<le> ip (sys_cpu s) \<and> ip (sys_cpu s) < stop"

lemma in_block_moved [simp]: "in_block start stop (moved k s) = in_block start stop s"
  by (simp add: in_block_def)

text \<open>How the interpreter leaves a block, or fails inside it, after \<open>n\<close> steps.\<close>

inductive leaves :: "u32 \<Rightarrow> u32 \<Rightarrow> nat \<Rightarrow> 'h sys \<Rightarrow> vf2_status + unit \<Rightarrow> 'h sys \<Rightarrow> bool"
  for start stop where
  out: "\<not> in_block start stop s \<Longrightarrow> leaves start stop 0 s (Inr ()) s"
| fault: "in_block start stop s \<Longrightarrow> vf2_i960_step s = (Inl e, s') \<Longrightarrow> leaves start stop 0 s (Inl e) s'"
| step: "in_block start stop s \<Longrightarrow> vf2_i960_step s = (Inr ev, s1) \<Longrightarrow> leaves start stop n s1 r s' \<Longrightarrow>
     leaves start stop (Suc n) s r s'"

lemma lift_loop_unfold:
  "lift_loop start stop s =
     (if in_block start stop s then
        (case vf2_i960_step s of
           (Inl e, s') \<Rightarrow> Some (Inl e, s')
         | (Inr _, s') \<Rightarrow> lift_loop start stop (moved 1 s'))
      else Some (Inr (), s))"
proof (cases "vf2_i960_step s")
  case (Pair r s')
  then show ?thesis
    by (cases r) (simp_all add: lift_loop.simps [of start stop s] in_block_def step_lifted_ok step_lifted_err)
qed

lemma leaves_moved: "leaves start stop n s r s' \<Longrightarrow> leaves start stop n (moved k s) r (moved k s')"
proof (induction rule: leaves.induct)
  case (out s)
  then show ?case by (intro leaves.out) simp
next
  case (fault s e s')
  then show ?case using commutesD [OF commutes_step fault(2), of k] by (intro leaves.fault) simp_all
next
  case (step s ev s1 n r s')
  then show ?case using commutesD [OF commutes_step step(2), of k] by (intro leaves.step) simp_all
qed

lemma leaves_lift_loop:
  "leaves start stop n s r s' \<Longrightarrow> lift_loop start stop s = Some (r, moved (of_nat n) s')"
proof (induction n arbitrary: s s')
  case 0
  then show ?case by (cases rule: leaves.cases) (simp_all add: lift_loop_unfold)
next
  case (Suc n)
  from Suc.prems obtain ev s1 where s1: "in_block start stop s" "vf2_i960_step s = (Inr ev, s1)"
    "leaves start stop n s1 r s'" by (cases rule: leaves.cases) auto
  show ?case
    using Suc.IH [OF leaves_moved [OF s1(3), of 1]] s1(1,2)
    by (simp add: lift_loop_unfold [of _ _ s] moved_moved add.commute)
qed

lemma lift_loop_leaves:
  fixes s :: "'h sys"
  shows "lift_loop start stop s = Some y \<Longrightarrow> \<exists>n t. leaves start stop n s (fst y) t \<and> snd y = moved (of_nat n) t"
proof (rule lift_loop.raw_induct [where P = "\<lambda>start stop s y. \<exists>n t. leaves start stop n s (fst y) t \<and>
      snd y = moved (of_nat n) t"])
  fix loop :: "u32 \<Rightarrow> u32 \<Rightarrow> 'h sys \<Rightarrow> ((vf2_status + unit) \<times> 'h sys) option" and start stop s y
  assume 1: "\<And>start stop s y. loop start stop s = Some y \<Longrightarrow>
      \<exists>n t. leaves start stop n s (fst y) t \<and> snd y = moved (of_nat n) t"
    and 2: "(if start \<le> ip (sys_cpu s) \<and> ip (sys_cpu s) < stop
      then case vf2_i960_step_lifted s of (Inl e, s') \<Rightarrow> Some (Inl e, s') | (Inr _, s') \<Rightarrow> loop start stop s'
      else Some (Inr (), s)) = Some y"
  show "\<exists>n t. leaves start stop n s (fst y) t \<and> snd y = moved (of_nat n) t"
  proof (cases "in_block start stop s")
    case False
    then have "y = (Inr (), s)" using 2 by (auto simp: in_block_def)
    then show ?thesis using leaves.out [OF False] by (intro exI [of _ 0] exI [of _ s]) simp
  next
    case True
    obtain r s1 where step: "vf2_i960_step s = (r, s1)" by fastforce
    show ?thesis
    proof (cases r)
      case (Inl e)
      then have "y = (Inl e, s1)"
        using 2 True step_lifted_err [of s e s1] step by (auto simp: in_block_def)
      then show ?thesis using leaves.fault [OF True step [unfolded Inl]] by (intro exI [of _ 0] exI [of _ s1]) simp
    next
      case (Inr ev)
      then have "loop start stop (moved 1 s1) = Some y"
        using 2 True step_lifted_ok [of s ev s1] step by (auto simp: in_block_def)
      from 1 [OF this] obtain n t where t: "leaves start stop n (moved 1 s1) (fst y) t" "snd y = moved (of_nat n) t"
        by blast
      have "leaves start stop n s1 (fst y) (moved (- 1) t)"
        using leaves_moved [OF t(1), of "- 1"] by (simp add: moved_moved)
      then have "leaves start stop (Suc n) s (fst y) (moved (- 1) t)"
        by (rule leaves.step [OF True step [unfolded Inr]])
      then show ?thesis using t(2) by (intro exI [of _ "Suc n"] exI [of _ "moved (- 1) t"]) (simp add: moved_moved)
    qed
  qed
qed

section \<open>Properties\<close>

text \<open>C18: recompiled blocks are transparent. A block runs exactly when the interpreter, started in
  the same state, leaves the block or faults inside it after some number \<open>n\<close> of steps; then the
  call returns, with the interpreter's outcome and the state the interpreter reaches, except that
  the \<open>n\<close> instructions are counted as lifted and not as interpreted. A block the interpreter never
  leaves never returns either.\<close>

theorem vf2_lift_run_block_transparent:
  assumes "start < stop"
  shows "vf2_lift_run_block start stop s = Some (r, s') \<longleftrightarrow>
    (\<exists>n t. leaves start stop n s r t \<and> s' = moved (of_nat n) t)"
proof -
  have "vf2_lift_run_block start stop s = lift_loop start stop s"
    unfolding vf2_lift_run_block_def by (rule if_not_P) (simp only: not_le assms)
  then show ?thesis
    using leaves_lift_loop lift_loop_leaves [of start stop s "(r, s')"] by fastforce
qed

text \<open>A block that faults on its first instruction.\<close>

lemma fetch_undefined: "fetch (rom_system [0, 0, 0, 0]) = (Inl VF2_ERROR_UNSUPPORTED, rom_system [0, 0, 0, 0])"
  by (simp add: rom_system_simps vf2_i960_decode_def read_le32_def le32_dec_def init_instruction_def Let_def decode_memory_def
      find_memory_opcode_def memory_opcodes_def)

lemma vf2_lift_run_block_transparent_witness:
  "vf2_lift_run_block 0 4 (rom_system [0, 0, 0, 0]) = Some (Inl VF2_ERROR_UNSUPPORTED, rom_system [0, 0, 0, 0])"
proof -
  have lt: "(0 :: u32) < 4" by simp
  have "vf2_i960_step (rom_system [0, 0, 0, 0]) = (Inl VF2_ERROR_UNSUPPORTED, rom_system [0, 0, 0, 0])"
    by (simp add: vf2_i960_step_def fetch_undefined)
  then have "leaves 0 4 0 (rom_system [0, 0, 0, 0]) (Inl VF2_ERROR_UNSUPPORTED) (rom_system [0, 0, 0, 0])"
    by (intro leaves.fault) (simp_all add: in_block_def rom_system_simps zeroed_cpu_def)
  then have "\<exists>n t. leaves 0 4 n (rom_system [0, 0, 0, 0]) (Inl VF2_ERROR_UNSUPPORTED) t \<and>
      rom_system [0, 0, 0, 0] = moved (of_nat n) t"
    by (intro exI [of _ 0] exI [of _ "rom_system [0, 0, 0, 0]"]) simp
  then show ?thesis by (simp only: vf2_lift_run_block_transparent [OF lt])
qed

end
