(* ===== verification/Vf2_Frame_Wait.thy ===== *)
theory Vf2_Frame_Wait
  imports Vf2_Ram Vf2_I960_Frames
begin

text \<open>
  The deterministic frame scheduler of \<open>src/recovered/frame_wait.c\<close>: it counts visits of the
  recognised wait loops and, at the configured count, raises the frame interrupt and enters its
  handler. A state here is the system with the wait state. The early poll loop is total because
  every round that repeats is one more visit below the threshold. The enumeration of bridge
  kinds is the integer it is in C; only the two kinds of this file are named.
\<close>

definition VF2_FRAME_WAIT_EARLY :: u32 where "VF2_FRAME_WAIT_EARLY = 0x00000f7c"
definition VF2_FRAME_WAIT_MAIN :: u32 where "VF2_FRAME_WAIT_MAIN = 0x00010f98"
definition VF2_TEXTURE_INIT_WAIT_POLL :: u32 where "VF2_TEXTURE_INIT_WAIT_POLL = 0x0004afe4"
definition VF2_FRAME_INTERRUPT_MASK :: u32 where "VF2_FRAME_INTERRUPT_MASK = 1"
definition VF2_FRAME_INTERRUPT_VECTOR :: u32 where "VF2_FRAME_INTERRUPT_VECTOR = 12"
definition VF2_FRAME_INTERRUPT_LEVEL :: u32 where "VF2_FRAME_INTERRUPT_LEVEL = 1"

lemmas frame_wait_consts = VF2_FRAME_WAIT_EARLY_def VF2_FRAME_WAIT_MAIN_def
  VF2_TEXTURE_INIT_WAIT_POLL_def VF2_FRAME_INTERRUPT_MASK_def VF2_FRAME_INTERRUPT_VECTOR_def
  VF2_FRAME_INTERRUPT_LEVEL_def

record vf2_hybrid_frame_wait_state =
  visits :: nat
  visits_before_interrupt :: nat
  interrupts_injected :: nat

record vf2_hybrid_frame_wait_report =
  wait_address :: u32
  fw_interrupt_vector :: u32
  fw_interrupt_handler :: u32
  visit_count :: nat
  wait_observed :: bool
  interrupt_injected :: bool

definition zero_wait_report :: vf2_hybrid_frame_wait_report where
  "zero_wait_report = \<lparr>wait_address = 0, fw_interrupt_vector = 0, fw_interrupt_handler = 0,
     visit_count = 0, wait_observed = False, interrupt_injected = False\<rparr>"

definition VF2_HYBRID_BRIDGE_FRAME_WAIT_POLL :: nat where "VF2_HYBRID_BRIDGE_FRAME_WAIT_POLL = 59"
definition VF2_HYBRID_BRIDGE_INTERRUPT_RETURN_WAIT_EXIT :: nat where
  "VF2_HYBRID_BRIDGE_INTERRUPT_RETURN_WAIT_EXIT = 60"

record vf2_hybrid_bridge_report =
  br_kind :: nat
  br_entry_address :: u32
  br_exit_address :: u32
  br_iterations :: u64
  br_rows :: u64
  br_changed_values :: u64
  br_bytes_written :: nat
  br_max_recursion_depth :: u32
  br_recovered_instruction_count :: u64
  br_recovered_procedure_calls :: u64
  br_recovered_procedure_returns :: u64
  br_cpu_poststate_applied :: bool

type_synonym 'h waiting = "'h sys \<times> vf2_hybrid_frame_wait_state"

definition on_sys :: "('h sys, 'a) prog \<Rightarrow> ('h waiting, 'a) prog" where
  "on_sys p st = (case p (fst st) of (r, s) \<Rightarrow> (r, (s, snd st)))"

definition on_wait :: "(vf2_hybrid_frame_wait_state \<Rightarrow> vf2_hybrid_frame_wait_state) \<Rightarrow> ('h waiting, unit) prog" where
  "on_wait f = pmodify (\<lambda>(s, w). (s, f w))"

definition get_wait :: "('h waiting, vf2_hybrid_frame_wait_state) prog" where
  "get_wait = pget snd"

text \<open>A call whose status the caller only looks at.\<close>

definition attempt :: "('s, 'a) prog \<Rightarrow> ('s, vf2_status + 'a) prog" where
  "attempt f s = (case f s of (r, s') \<Rightarrow> (Inr r, s'))"

section \<open>The scheduler\<close>

definition vf2_hybrid_frame_wait_initialize ::
  "nat \<Rightarrow> (vf2_hybrid_frame_wait_state, unit) prog" where
  "vf2_hybrid_frame_wait_initialize before w =
     (if before = 0 then (Inl VF2_ERROR_INVALID_ARGUMENT, w)
      else (Inr (), \<lparr>visits = 0, visits_before_interrupt = before, interrupts_injected = 0\<rparr>))"

definition vf2_hybrid_frame_wait_observe :: "('h waiting, vf2_hybrid_frame_wait_report) prog" where
  "vf2_hybrid_frame_wait_observe =
     pbind get_wait (\<lambda>w0.
     pbind (pcheck (visits_before_interrupt w0 \<noteq> 0) VF2_ERROR_INVALID_ARGUMENT) (\<lambda>_.
     pbind (on_sys (cpu_get ip)) (\<lambda>here.
     if here \<noteq> VF2_FRAME_WAIT_EARLY \<and> here \<noteq> VF2_FRAME_WAIT_MAIN \<and> here \<noteq> VF2_TEXTURE_INIT_WAIT_POLL
     then pret zero_wait_report
     else
       pbind (on_wait (\<lambda>w. w\<lparr>visits := visits w + 1\<rparr>)) (\<lambda>_.
       pbind get_wait (\<lambda>w.
       let rep = zero_wait_report\<lparr>wait_address := here, wait_observed := True, visit_count := visits w\<rparr>
       in if visits w \<ge> visits_before_interrupt w then
            pbind (if here = VF2_FRAME_WAIT_MAIN
                   then on_sys (cpu_mod (set_compare_result COMPARE_EQUAL)) else pret ()) (\<lambda>_.
            pbind (on_sys (on_bus (vf2_model2a_raise_interrupt VF2_FRAME_INTERRUPT_MASK))) (\<lambda>_.
            pbind (on_sys (vf2_i960_cpu_enter_interrupt VF2_FRAME_INTERRUPT_VECTOR VF2_FRAME_INTERRUPT_LEVEL)) (\<lambda>_.
            pbind (on_wait (\<lambda>w. w\<lparr>visits := 0, interrupts_injected := interrupts_injected w + 1\<rparr>)) (\<lambda>_.
            pbind (on_sys (cpu_get ip)) (\<lambda>handler.
            pret (rep\<lparr>fw_interrupt_vector := VF2_FRAME_INTERRUPT_VECTOR, fw_interrupt_handler := handler,
                      interrupt_injected := True\<rparr>))))))
          else pret rep)))))"

text \<open>\<open>cpu->executed_instructions += n\<close>, \<open>cpu->ip = v\<close> and \<open>cpu->registers[r] = v\<close>.\<close>

definition executed :: "u64 \<Rightarrow> ('h sys, unit) prog" where
  "executed n = cpu_mod (\<lambda>c. c\<lparr>executed_instructions := executed_instructions c + n\<rparr>)"

definition set_ip :: "u32 \<Rightarrow> ('h sys, unit) prog" where
  "set_ip v = cpu_mod (\<lambda>c. c\<lparr>ip := v\<rparr>)"

definition put :: "nat \<Rightarrow> u32 \<Rightarrow> ('h sys, unit) prog" where
  "put r v = cpu_mod (put_register r v)"

definition read_byte :: "u32 \<Rightarrow> ('h sys, u8) prog" where
  "read_byte address = pbind (on_bus (vf2_model2a_read address 1)) (\<lambda>data. pret (data ! 0))"

section \<open>The early poll\<close>

text \<open>Reading the frame byte and deciding whether the loop repeats; leaving the loop; and one
  round, which returns whether to go round again.\<close>

definition early_decide :: "('h sys, bool) prog" where
  "early_decide =
     pbind (read_byte 0x00500000) (\<lambda>frame_byte.
     pbind (put 4 (ucast frame_byte)) (\<lambda>_.
     pbind (executed 2) (\<lambda>_.
     pbind (cpu_mod (if 2 < frame_byte then set_compare_result COMPARE_LESS
                     else if 2 > frame_byte then set_compare_result COMPARE_GREATER
                     else set_compare_result COMPARE_EQUAL)) (\<lambda>_.
     if frame_byte < 2 then pret True
     else
       pbind (executed 1) (\<lambda>_.
       let repeats = (frame_byte AND 1 \<noteq> 0)
       in pbind (cpu_mod (set_compare_result (if repeats then COMPARE_EQUAL else COMPARE_NONE)))
            (\<lambda>_. pret repeats))))))"

definition early_exit :: "('h sys, unit) prog" where
  "early_exit =
     pbind (put 3 0) (\<lambda>_.
     pbind (on_bus (vf2_model2a_write 0x00500000 [0])) (\<lambda>_.
     pbind (on_cpu (vf2_i960_cpu_enter_procedure 0x00002ec4 0x00000f9c)) (\<lambda>_.
     executed 3)))"

definition early_poll :: "('h waiting, bool) prog" where
  "early_poll =
     pbind (on_sys early_decide) (\<lambda>repeats.
     if \<not> repeats then pbind (on_sys early_exit) (\<lambda>_. pret False)
     else
       pbind (on_sys (set_ip VF2_FRAME_WAIT_EARLY)) (\<lambda>_.
       pbind vf2_hybrid_frame_wait_observe (\<lambda>rep. pret (\<not> interrupt_injected rep))))"

text \<open>A round that goes round again is one more visit, and still below the threshold.\<close>

lemma on_sys_wait [simp]: "snd (snd (on_sys p st)) = snd st"
  by (simp add: on_sys_def split: prod.split)

lemma on_sys_ok: "on_sys p st = (r, st') \<Longrightarrow> snd st' = snd st"
  by (metis on_sys_wait snd_conv)

lemma observe_continues:
  assumes "vf2_hybrid_frame_wait_observe st = (Inr rep, st')" and "\<not> interrupt_injected rep"
    and "ip (sys_cpu (fst st)) \<in> {VF2_FRAME_WAIT_EARLY, VF2_FRAME_WAIT_MAIN}"
  shows "visits (snd st') = visits (snd st) + 1" and "visits (snd st') < visits_before_interrupt (snd st')"
    and "visits_before_interrupt (snd st') = visits_before_interrupt (snd st)"
proof -
  obtain s w where st: "st = (s, w)" by (cases st)
  show "visits (snd st') = visits (snd st) + 1" "visits (snd st') < visits_before_interrupt (snd st')"
    "visits_before_interrupt (snd st') = visits_before_interrupt (snd st)"
    using assms
    by (auto simp: st vf2_hybrid_frame_wait_observe_def get_wait_def on_wait_def Let_def on_sys_def
        zero_wait_report_def split: if_splits elim!: pbind_okE)
qed

definition wait_left :: "'h waiting \<Rightarrow> nat" where
  "wait_left st = visits_before_interrupt (snd st) - visits (snd st)"

lemma on_sys_set_ip: "on_sys (set_ip v) st = (r, st') \<Longrightarrow> ip (sys_cpu (fst st')) = v \<and> snd st' = snd st"
  by (auto simp: on_sys_def set_ip_def)

lemma early_poll_observes:
  assumes "early_poll st = (Inr True, st')"
  obtains st1 rep where "vf2_hybrid_frame_wait_observe st1 = (Inr rep, st')" and "\<not> interrupt_injected rep"
    and "ip (sys_cpu (fst st1)) = VF2_FRAME_WAIT_EARLY" and "snd st1 = snd st"
proof -
  from assms obtain b st0 where d: "on_sys early_decide st = (Inr b, st0)"
    and r: "(if \<not> b then pbind (on_sys early_exit) (\<lambda>_. pret False)
       else pbind (on_sys (set_ip VF2_FRAME_WAIT_EARLY)) (\<lambda>_.
         pbind vf2_hybrid_frame_wait_observe (\<lambda>rep. pret (\<not> interrupt_injected rep)))) st0 = (Inr True, st')"
    unfolding early_poll_def by (rule pbind_okE)
  have "snd st0 = snd st" using d by (rule on_sys_ok)
  with r show thesis
    by (auto split: if_splits elim!: pbind_okE dest!: on_sys_set_ip intro: that)
qed

lemma early_poll_continues:
  assumes "early_poll st = (Inr True, st')"
  shows "wait_left st' < wait_left st" and "visits_before_interrupt (snd st') = visits_before_interrupt (snd st)"
proof -
  obtain st1 rep where "vf2_hybrid_frame_wait_observe st1 = (Inr rep, st')" "\<not> interrupt_injected rep"
    "ip (sys_cpu (fst st1)) = VF2_FRAME_WAIT_EARLY" "snd st1 = snd st"
    by (rule early_poll_observes [OF assms])
  note o = this
  have "ip (sys_cpu (fst st1)) \<in> {VF2_FRAME_WAIT_EARLY, VF2_FRAME_WAIT_MAIN}" using o(3) by simp
  note c = observe_continues [OF o(1,2) this, unfolded o(4)]
  show "wait_left st' < wait_left st" "visits_before_interrupt (snd st') = visits_before_interrupt (snd st)"
    using c by (simp_all add: wait_left_def)
qed

function early_loop :: "('h waiting, unit) prog" where
  "early_loop st =
     (case early_poll st of
        (Inl e, st') \<Rightarrow> (Inl e, st')
      | (Inr again, st') \<Rightarrow> if again then early_loop st' else (Inr (), st'))"
  by pat_completeness auto

termination
  by (relation "measure wait_left") (auto dest: early_poll_continues(1) [OF sym])

declare early_loop.simps [simp del]

section \<open>One frame-wait phase\<close>

text \<open>The main poll: the visit phase is rebuilt for the proven resume family; the reads that
  only decide about it may fail without consequence.\<close>

definition phase_resumed :: "('h waiting, bool) prog" where
  "phase_resumed =
     pbind get_wait (\<lambda>w.
     pbind (on_sys (cpu_get id)) (\<lambda>c.
     if visits w = 0 \<and> interrupts_injected w = 0 \<and> interrupt_entries c \<noteq> 0 \<and>
        interrupt_entries c = interrupt_returns c then
       pbind (on_sys (attempt (on_bus (vf2_model2a_read_u32 0x00515b00)))) (\<lambda>flags.
       if flags \<in> {Inr 0x80000040, Inr 0x80000080, Inr 0x800000c0} then
         pbind (on_sys (attempt (on_bus (vf2_model2a_read_u32 0x00500020)))) (\<lambda>global20.
         pret (case global20 of Inl _ \<Rightarrow> False | Inr g \<Rightarrow> g \<ge> 7 \<and> g \<le> 501))
       else pret False)
     else pret False))"

text \<open>One round of the main loop: whether the interrupt was injected.\<close>

definition main_round :: "('h waiting, bool) prog" where
  "main_round =
     pbind vf2_hybrid_frame_wait_observe (\<lambda>rep.
     if interrupt_injected rep then pret True
     else
       pbind (on_sys (read_byte 0x00500000)) (\<lambda>frame_byte.
       pbind (on_sys (put 3 (ucast frame_byte))) (\<lambda>_.
       pbind (on_sys (set_ip 0x00010fa0)) (\<lambda>_.
       pbind (on_sys (executed 1)) (\<lambda>_.
       pbind (on_sys (cpu_get registers)) (\<lambda>regs.
       pbind (pcheck (\<not> regs 3 \<noteq> regs 16) VF2_ERROR_UNSUPPORTED) (\<lambda>_.
       pbind (on_sys (set_ip VF2_FRAME_WAIT_MAIN)) (\<lambda>_.
       pbind (on_sys (executed 1)) (\<lambda>_.
       pret False)))))))))"

lemma main_round_continues:
  assumes "main_round st = (Inr False, st')"
  shows "ip (sys_cpu (fst st')) = VF2_FRAME_WAIT_MAIN"
    and "ip (sys_cpu (fst st)) = VF2_FRAME_WAIT_MAIN \<Longrightarrow> wait_left st' < wait_left st"
proof -
  from assms obtain rep st1 where o: "vf2_hybrid_frame_wait_observe st = (Inr rep, st1)" "\<not> interrupt_injected rep"
    and r: "pbind (on_sys (read_byte 0x00500000)) (\<lambda>frame_byte.
       pbind (on_sys (put 3 (ucast frame_byte))) (\<lambda>_.
       pbind (on_sys (set_ip 0x00010fa0)) (\<lambda>_.
       pbind (on_sys (executed 1)) (\<lambda>_.
       pbind (on_sys (cpu_get registers)) (\<lambda>regs.
       pbind (pcheck (\<not> regs 3 \<noteq> regs 16) VF2_ERROR_UNSUPPORTED) (\<lambda>_.
       pbind (on_sys (set_ip VF2_FRAME_WAIT_MAIN)) (\<lambda>_.
       pbind (on_sys (executed 1)) (\<lambda>_. pret False)))))))) st1 = (Inr False, st')"
    unfolding main_round_def by (auto elim!: pbind_okE split: if_splits)
  from r obtain f st2 where f: "on_sys (read_byte 0x00500000) st1 = (Inr f, st2)"
    and t: "ip (sys_cpu (fst st')) = VF2_FRAME_WAIT_MAIN \<and> snd st' = snd st2"
    by (elim pbind_okE) (auto simp: on_sys_def put_def set_ip_def executed_def split: if_splits)
  have w: "snd st' = snd st1" using t on_sys_ok [OF f] by simp
  show "ip (sys_cpu (fst st')) = VF2_FRAME_WAIT_MAIN" using t by simp
  show "wait_left st' < wait_left st" if "ip (sys_cpu (fst st)) = VF2_FRAME_WAIT_MAIN"
    using observe_continues [OF o] that w by (simp add: wait_left_def)
qed

function main_loop :: "('h waiting, unit) prog" where
  "main_loop st =
     (case main_round st of
        (Inl e, st') \<Rightarrow> (Inl e, st')
      | (Inr injected, st') \<Rightarrow> if injected then (Inr (), st') else main_loop st')"
  by pat_completeness auto

termination
  by (relation "measures [\<lambda>st. if ip (sys_cpu (fst st)) = VF2_FRAME_WAIT_MAIN then 0 else 1, wait_left]")
    (auto dest: main_round_continues [OF sym])

declare main_loop.simps [simp del]

definition execute_early :: "('h waiting, nat \<times> u64) prog" where
  "execute_early = pbind early_loop (\<lambda>_. pret (VF2_HYBRID_BRIDGE_FRAME_WAIT_POLL, 0))"

definition execute_main :: "('h waiting, nat \<times> u64) prog" where
  "execute_main =
     pbind phase_resumed (\<lambda>resumed.
     pbind (if resumed then on_wait (\<lambda>w. w\<lparr>visits := 1\<rparr>) else pret ()) (\<lambda>_.
     pbind (on_sys (read_byte 0x00500000)) (\<lambda>frame_byte.
     pbind (on_sys (put 16 (ucast frame_byte))) (\<lambda>_.
     pbind (on_sys (set_ip VF2_FRAME_WAIT_MAIN)) (\<lambda>_.
     pbind (on_sys (executed 1)) (\<lambda>_.
     pbind main_loop (\<lambda>_.
     pbind get_wait (\<lambda>w.
     pret (VF2_HYBRID_BRIDGE_FRAME_WAIT_POLL,
           of_nat (visits_before_interrupt w - (if resumed then 1 else 0)))))))))))"

text \<open>Back from the interrupt: the resumed visit, and the exit of the main loop on a changed
  frame byte.\<close>

definition execute_return :: "('h waiting, nat \<times> u64) prog" where
  "execute_return =
     pbind (on_sys vf2_i960_cpu_return_procedure) (\<lambda>_.
     pbind (on_sys (executed 1)) (\<lambda>_.
     pbind (on_sys (cpu_get ip)) (\<lambda>here.
     if here = VF2_TEXTURE_INIT_WAIT_POLL \<or> here = VF2_FRAME_WAIT_EARLY then
       pbind vf2_hybrid_frame_wait_observe (\<lambda>rep.
       pbind (pcheck (\<not> interrupt_injected rep) VF2_ERROR_UNSUPPORTED) (\<lambda>_.
       pret (VF2_HYBRID_BRIDGE_INTERRUPT_RETURN_WAIT_EXIT, 1)))
     else if here \<noteq> VF2_FRAME_WAIT_MAIN then pfail VF2_ERROR_UNSUPPORTED
     else
       pbind vf2_hybrid_frame_wait_observe (\<lambda>rep.
       pbind (pcheck (\<not> interrupt_injected rep) VF2_ERROR_UNSUPPORTED) (\<lambda>_.
       pbind (on_sys (read_byte 0x00500000)) (\<lambda>frame_byte.
       pbind (on_sys (put 3 (ucast frame_byte))) (\<lambda>_.
       pbind (on_sys (set_ip 0x00010fa0)) (\<lambda>_.
       pbind (on_sys (executed 1)) (\<lambda>_.
       pbind (on_sys (cpu_get registers)) (\<lambda>regs.
       pbind (pcheck (regs 3 \<noteq> regs 16) VF2_ERROR_UNSUPPORTED) (\<lambda>_.
       pbind (on_sys (cpu_mod (set_compare_result
         (if sint (regs 3) < sint (regs 16) then COMPARE_LESS else COMPARE_GREATER)))) (\<lambda>_.
       pbind (on_sys (set_ip 0x00010fa4)) (\<lambda>_.
       pbind (on_sys (executed 1)) (\<lambda>_.
       pret (VF2_HYBRID_BRIDGE_INTERRUPT_RETURN_WAIT_EXIT, 1)))))))))))))))"

definition vf2_hybrid_frame_wait_execute :: "('h waiting, vf2_hybrid_bridge_report) prog" where
  "vf2_hybrid_frame_wait_execute =
     pbind (on_sys (cpu_get id)) (\<lambda>c0.
     pbind get_wait (\<lambda>w0.
     pbind (pcheck (visits_before_interrupt w0 \<noteq> 0) VF2_ERROR_INVALID_ARGUMENT) (\<lambda>_.
     pbind (if ip c0 = VF2_FRAME_WAIT_EARLY then execute_early
            else if ip c0 = 0x00010f90 then execute_main
            else if ip c0 = 0x00000d20 then execute_return
            else pfail VF2_ERROR_UNSUPPORTED) (\<lambda>(kind, iterations).
     pbind (on_sys (cpu_get id)) (\<lambda>c.
     pret \<lparr>br_kind = kind, br_entry_address = ip c0, br_exit_address = ip c,
           br_iterations = iterations, br_rows = 0, br_changed_values = 0, br_bytes_written = 0,
           br_max_recursion_depth = 0,
           br_recovered_instruction_count = executed_instructions c - executed_instructions c0,
           br_recovered_procedure_calls = procedure_calls c - procedure_calls c0,
           br_recovered_procedure_returns = procedure_returns c - procedure_returns c0,
           br_cpu_poststate_applied = True\<rparr>)))))"

section \<open>The main wait reaches the interrupt\<close>

lemma read_byte_ram:
  assumes "ram_ok (sys_machine s)" and "in_ram a 1"
  obtains m' where "read_byte a s = (Inr (ram_byte (sys_machine s) a), s\<lparr>sys_machine := m'\<rparr>)"
    and "ram_ok m'" and "ram_peek m' = ram_peek (sys_machine s)" and "ram_byte m' = ram_byte (sys_machine s)"
proof -
  let ?m' = "observe_access MEMORY_READ a
      (read_bytes (area_mem (sys_machine s) WORK_RAM) (unat a - 0x500000) 1) (sys_machine s)"
  show thesis
  proof (rule that [of ?m'])
    show "read_byte a s = (Inr (ram_byte (sys_machine s) a), s\<lparr>sys_machine := ?m'\<rparr>)"
      using ram_read_bytes [OF assms, simplified]
      by (simp add: read_byte_def on_bus_def ram_byte_def)
  qed (simp_all add: assms(1) ram_byte_def fun_eq_iff)
qed

lemma raise_ram:
  assumes "ram_ok m"
  obtains m' where "vf2_model2a_raise_interrupt irqs m = (Inr (), m')" and "ram_ok m'"
    and "ram_peek m' = ram_peek m"
proof -
  have n: "\<not> area_null m INTERRUPT_CONTROL"
    using assms machine_ok_device(1) [of m INTERRUPT_CONTROL] by (simp add: ram_ok_def)
  show thesis
    by (rule that [of "update_area INTERRUPT_CONTROL (\<lambda>d. write_le32 d 0 (read_le32 d 0 OR irqs)) m"])
      (use n assms in \<open>simp_all add: vf2_model2a_raise_interrupt_def ram_peek_def fun_eq_iff board_simps\<close>)
qed

text \<open>What the rounds of the loop leave alone, and what the interrupt entry depends on.\<close>

definition waits_like :: "'h sys \<Rightarrow> 'h sys \<Rightarrow> bool" where
  "waits_like s0 s \<longleftrightarrow> ram_ok (sys_machine s) \<and> ram_peek (sys_machine s) = ram_peek (sys_machine s0) \<and>
     (let c0 = sys_cpu s0; c = sys_cpu s in
      process_control c = process_control c0 \<and> prcb c = prcb c0 \<and> registers c 1 = registers c0 1 \<and>
      local_frame_depth c = local_frame_depth c0 \<and>
      arithmetic_control c AND NOT 7 = arithmetic_control c0 AND NOT 7)"

lemma waits_like_interrupt:
  assumes "waits_like s0 s"
  shows "interrupt_possible v l s = interrupt_possible v l s0 \<or> \<not> ram_ok (sys_machine s0)"
    and "interrupt_frame s = interrupt_frame s0" and "interrupt_handler v s = interrupt_handler v s0"
  using assms
  by (auto simp: waits_like_def Let_def interrupt_possible_def interrupt_frame_def interrupt_handler_def)

lemma call_executed:
  "procedure_call_typed t ret ct sp c = (r, c') \<Longrightarrow> executed_instructions c' = executed_instructions c"
  using call_fields(1) [of t ret ct sp c] by simp

text \<open>The visit that reaches the threshold.\<close>

lemma observe_injects:
  assumes "waits_like s0 s" and "interrupt_possible 12 1 s0" and "ip (sys_cpu s) = VF2_FRAME_WAIT_MAIN"
    and "visits w + 1 \<ge> visits_before_interrupt w" and "visits_before_interrupt w \<noteq> 0"
  obtains rep s' where "vf2_hybrid_frame_wait_observe (s, w) =
      (Inr rep, (s', w\<lparr>visits := 0, interrupts_injected := interrupts_injected w + 1\<rparr>))"
    and "interrupt_injected rep" and "ip (sys_cpu s') = interrupt_handler 12 s0"
    and "local_frame_depth (sys_cpu s') = local_frame_depth (sys_cpu s0) + 1"
    and "executed_instructions (sys_cpu s') = executed_instructions (sys_cpu s)"
    and "ram_peek (sys_machine s') (interrupt_frame s0 - 12) = (arithmetic_control (sys_cpu s0) AND NOT 7) OR 2"
proof -
  have ok: "ram_ok (sys_machine s0)" using assms(2) by (simp add: interrupt_possible_def)
  let ?c = "set_compare_result COMPARE_EQUAL (sys_cpu s)"
  have okm: "ram_ok (sys_machine s)" using assms(1) by (simp add: waits_like_def)
  obtain m' where m': "vf2_model2a_raise_interrupt 1 (sys_machine s) = (Inr (), m')" "ram_ok m'"
    "ram_peek m' = ram_peek (sys_machine s)"
    by (rule raise_ram [OF okm])
  let ?s = "s\<lparr>sys_cpu := ?c, sys_machine := m'\<rparr>"
  have like: "waits_like s0 ?s"
    using assms(1) m'(2,3)
    by (simp add: waits_like_def Let_def set_compare_result_def condition_bits_def bit.conj_disj_distrib2)
  have possible: "interrupt_possible 12 1 ?s"
    using waits_like_interrupt(1) [OF like, of 12 1] ok assms(2) by simp
  obtain s1 c1 where s1: "vf2_i960_cpu_enter_interrupt 12 1 ?s = (Inr (), s1)"
    "procedure_call_typed (interrupt_handler 12 ?s) (ip (sys_cpu ?s)) 7 (align_stack_frame
           (if process_control (sys_cpu ?s) AND 0x2000 \<noteq> 0 then registers (sys_cpu ?s) 1
            else ram_peek (sys_machine ?s) (prcb (sys_cpu ?s) + 24)) + 64) (sys_cpu ?s) = (Inr (), c1)"
    "sys_cpu s1 = c1\<lparr>process_control := (process_control (sys_cpu ?s) AND NOT 0x00001f00) OR
           (push_bit 16 1 OR 0x2002)\<rparr>"
    "ram_peek (sys_machine s1) (interrupt_frame ?s - 12) = arithmetic_control (sys_cpu ?s)"
    by (rule enter_interrupt_ok [OF possible]) blast
  have e: "executed_instructions c1 = executed_instructions (sys_cpu s)"
    using call_executed [OF s1(2)] by (simp add: set_compare_result_def)
  note f = call_effect [OF s1(2)] waits_like_interrupt(2,3) [OF like]
  have depth: "local_frame_depth (sys_cpu ?s) = local_frame_depth (sys_cpu s0)"
    "arithmetic_control (sys_cpu ?s) = (arithmetic_control (sys_cpu s0) AND NOT 7) OR 2"
    using assms(1) by (simp_all add: waits_like_def Let_def set_compare_result_def condition_bits_def)
  let ?rep = "zero_wait_report\<lparr>wait_address := VF2_FRAME_WAIT_MAIN, wait_observed := True,
      visit_count := visits w + 1, fw_interrupt_vector := 12,
      fw_interrupt_handler := ip (sys_cpu s1), interrupt_injected := True\<rparr>"
  have "vf2_hybrid_frame_wait_observe (s, w) =
      (Inr ?rep, (s1, w\<lparr>visits := 0, interrupts_injected := interrupts_injected w + 1\<rparr>))"
    using assms(3-5) m'(1) s1(1)
    by (simp add: vf2_hybrid_frame_wait_observe_def get_wait_def on_wait_def on_sys_def on_bus_def Let_def
        VF2_FRAME_INTERRUPT_MASK_def VF2_FRAME_INTERRUPT_VECTOR_def VF2_FRAME_INTERRUPT_LEVEL_def)
  from that [OF this] show thesis
    using f(3,4) depth e s1(3,4) f(10,11) by simp
qed

text \<open>A visit below the threshold, and the round it belongs to.\<close>

lemma observe_counts:
  assumes "ip (sys_cpu s) = VF2_FRAME_WAIT_MAIN" and "visits w + 1 < visits_before_interrupt w"
  obtains rep where "vf2_hybrid_frame_wait_observe (s, w) = (Inr rep, (s, w\<lparr>visits := visits w + 1\<rparr>))"
    and "\<not> interrupt_injected rep"
  using assms
  by (intro that [of "zero_wait_report\<lparr>wait_address := VF2_FRAME_WAIT_MAIN, wait_observed := True,
      visit_count := visits w + 1\<rparr>"])
    (auto simp: vf2_hybrid_frame_wait_observe_def get_wait_def on_wait_def on_sys_def Let_def zero_wait_report_def)

lemma main_round_counts:
  assumes "waits_like s0 s" and "ip (sys_cpu s) = VF2_FRAME_WAIT_MAIN"
    and "visits w + 1 < visits_before_interrupt w"
    and "registers (sys_cpu s) 16 = ucast (ram_byte (sys_machine s) 0x500000)"
  obtains s' where "main_round (s, w) = (Inr False, (s', w\<lparr>visits := visits w + 1\<rparr>))" and "waits_like s0 s'"
    and "ip (sys_cpu s') = VF2_FRAME_WAIT_MAIN"
    and "registers (sys_cpu s') 16 = ucast (ram_byte (sys_machine s') 0x500000)"
    and "executed_instructions (sys_cpu s') = executed_instructions (sys_cpu s) + 2"
proof -
  have ok: "ram_ok (sys_machine s)" using assms(1) by (simp add: waits_like_def)
  have cell: "in_ram 0x500000 1" by (simp add: in_ram_def)
  obtain rep where rep: "vf2_hybrid_frame_wait_observe (s, w) = (Inr rep, (s, w\<lparr>visits := visits w + 1\<rparr>))"
    "\<not> interrupt_injected rep" by (rule observe_counts [OF assms(2,3)])
  obtain m' where m': "read_byte 0x500000 s = (Inr (ram_byte (sys_machine s) 0x500000), s\<lparr>sys_machine := m'\<rparr>)"
    "ram_ok m'" "ram_peek m' = ram_peek (sys_machine s)" "ram_byte m' = ram_byte (sys_machine s)"
    by (rule read_byte_ram [OF ok cell])
  let ?c = "(put_register 3 (ucast (ram_byte (sys_machine s) 0x500000)) (sys_cpu s))
      \<lparr>ip := VF2_FRAME_WAIT_MAIN, executed_instructions := executed_instructions (sys_cpu s) + 1 + 1\<rparr>"
  let ?s = "s\<lparr>sys_machine := m', sys_cpu := ?c\<rparr>"
  have "main_round (s, w) = (Inr False, (?s, w\<lparr>visits := visits w + 1\<rparr>))"
    using rep m'(1) assms(4)
    by (simp add: main_round_def on_sys_def put_def set_ip_def executed_def put_register_def)
  moreover have "waits_like s0 ?s" using assms(1) m'(2,3) by (simp add: waits_like_def Let_def put_register_def)
  ultimately show thesis
    using m'(4) assms(4) by (intro that [of ?s]) (simp_all add: put_register_def)
qed

lemma main_loop_injects:
  assumes "waits_like s0 s" and "interrupt_possible 12 1 s0" and "ip (sys_cpu s) = VF2_FRAME_WAIT_MAIN"
    and "visits_before_interrupt w \<noteq> 0"
    and "registers (sys_cpu s) 16 = ucast (ram_byte (sys_machine s) 0x500000)"
  obtains s' where "main_loop (s, w) =
      (Inr (), (s', w\<lparr>visits := 0, interrupts_injected := interrupts_injected w + 1\<rparr>))"
    and "ip (sys_cpu s') = interrupt_handler 12 s0"
    and "local_frame_depth (sys_cpu s') = local_frame_depth (sys_cpu s0) + 1"
    and "executed_instructions (sys_cpu s') = executed_instructions (sys_cpu s) +
           2 * of_nat (visits_before_interrupt w - visits w - 1)"
    and "ram_peek (sys_machine s') (interrupt_frame s0 - 12) = (arithmetic_control (sys_cpu s0) AND NOT 7) OR 2"
  using assms
proof (induction "visits_before_interrupt w - visits w - 1" arbitrary: s w thesis)
  case 0
  then have t: "visits w + 1 \<ge> visits_before_interrupt w" "visits_before_interrupt w \<noteq> 0" by simp_all
  obtain rep s' where o: "vf2_hybrid_frame_wait_observe (s, w) =
      (Inr rep, (s', w\<lparr>visits := 0, interrupts_injected := interrupts_injected w + 1\<rparr>))"
    "interrupt_injected rep" "ip (sys_cpu s') = interrupt_handler 12 s0"
    "local_frame_depth (sys_cpu s') = local_frame_depth (sys_cpu s0) + 1"
    "executed_instructions (sys_cpu s') = executed_instructions (sys_cpu s)"
    "ram_peek (sys_machine s') (interrupt_frame s0 - 12) = (arithmetic_control (sys_cpu s0) AND NOT 7) OR 2"
    by (rule observe_injects [OF 0(3,4,5) t])
  have "main_loop (s, w) = (Inr (), (s', w\<lparr>visits := 0, interrupts_injected := interrupts_injected w + 1\<rparr>))"
    using o(1,2) by (simp add: main_loop.simps [of "(s, w)"] main_round_def)
  from 0(2) [OF this] show ?case using o(3-6) 0(1) by simp
next
  case (Suc n)
  then have t: "visits w + 1 < visits_before_interrupt w" by simp
  obtain s1 where s1: "main_round (s, w) = (Inr False, (s1, w\<lparr>visits := visits w + 1\<rparr>))" "waits_like s0 s1"
    "ip (sys_cpu s1) = VF2_FRAME_WAIT_MAIN"
    "registers (sys_cpu s1) 16 = ucast (ram_byte (sys_machine s1) 0x500000)"
    "executed_instructions (sys_cpu s1) = executed_instructions (sys_cpu s) + 2"
    by (rule main_round_counts [OF Suc.prems(2,4) t Suc.prems(6)])
  let ?w = "w\<lparr>visits := visits w + 1\<rparr>"
  have n: "n = visits_before_interrupt ?w - visits ?w - 1" "visits_before_interrupt ?w \<noteq> 0"
    using Suc.hyps(2) t by simp_all
  obtain s' where s': "main_loop (s1, ?w) =
      (Inr (), (s', ?w\<lparr>visits := 0, interrupts_injected := interrupts_injected ?w + 1\<rparr>))"
    "ip (sys_cpu s') = interrupt_handler 12 s0"
    "local_frame_depth (sys_cpu s') = local_frame_depth (sys_cpu s0) + 1"
    "executed_instructions (sys_cpu s') = executed_instructions (sys_cpu s1) +
           2 * of_nat (visits_before_interrupt ?w - visits ?w - 1)"
    "ram_peek (sys_machine s') (interrupt_frame s0 - 12) = (arithmetic_control (sys_cpu s0) AND NOT 7) OR 2"
    by (rule Suc.hyps(1) [OF n(1) _ s1(2) Suc.prems(3) s1(3) n(2) s1(4)])
  have "main_loop (s, w) = (Inr (), (s', w\<lparr>visits := 0, interrupts_injected := interrupts_injected w + 1\<rparr>))"
    using s1(1) s'(1) by (simp add: main_loop.simps [of "(s, w)"])
  moreover have "executed_instructions (sys_cpu s') = executed_instructions (sys_cpu s) +
      2 * of_nat (visits_before_interrupt w - visits w - 1)"
    using s'(4) s1(5) n(1) Suc.hyps(2) by (simp flip: Suc.hyps(2) n(1) add: algebra_simps)
  ultimately show ?case using s'(2,3,5) by (intro Suc.prems(1))
qed

text \<open>The visit a resumed game display is credited with: no visit and no injection counted yet,
  balanced interrupt counters that are not zero, and the flags and the counter of the display in
  the measured family.\<close>

definition phase_seed :: "'h sys \<Rightarrow> vf2_hybrid_frame_wait_state \<Rightarrow> nat" where
  "phase_seed s w =
     (if visits w = 0 \<and> interrupts_injected w = 0 \<and> interrupt_entries (sys_cpu s) \<noteq> 0 \<and>
         interrupt_entries (sys_cpu s) = interrupt_returns (sys_cpu s) \<and>
         ram_peek (sys_machine s) 0x515b00 \<in> {0x80000040, 0x80000080, 0x800000c0} \<and>
         7 \<le> ram_peek (sys_machine s) 0x500020 \<and> ram_peek (sys_machine s) 0x500020 \<le> 501
      then 1 else 0)"

lemma phase_resumed_seed:
  assumes "ram_ok (sys_machine s)"
  obtains m' where "phase_resumed (s, w) = (Inr (phase_seed s w = 1), (s\<lparr>sys_machine := m'\<rparr>, w))"
    and "ram_ok m'" and "ram_peek m' = ram_peek (sys_machine s)" and "ram_byte m' = ram_byte (sys_machine s)"
proof -
  have cells: "ram_cell 0x515b00" "ram_cell 0x500020" by (simp_all add: ram_cell_def)
  let ?c = "visits w = 0 \<and> interrupts_injected w = 0 \<and> interrupt_entries (sys_cpu s) \<noteq> 0 \<and>
         interrupt_entries (sys_cpu s) = interrupt_returns (sys_cpu s)"
  let ?f = "ram_peek (sys_machine s) 0x515b00 \<in> {0x80000040, 0x80000080, 0x800000c0}"
  let ?m1 = "after_read 0x515b00 (sys_machine s)"
  let ?m' = "if \<not> ?c then sys_machine s else if \<not> ?f then ?m1 else after_read 0x500020 ?m1"
  have "phase_resumed (s, w) = (Inr (phase_seed s w = 1), (s\<lparr>sys_machine := ?m'\<rparr>, w))"
  proof (cases ?c)
    case False
    then show ?thesis by (auto simp: phase_resumed_def phase_seed_def get_wait_def on_sys_def)
  next
    case c: True
    then show ?thesis
      using assms cells
      by (cases ?f) (simp_all add: phase_resumed_def phase_seed_def get_wait_def on_sys_def attempt_def
          on_bus_def ram_read)
  qed
  then show thesis
    by (rule that) (use assms in \<open>simp_all add: fun_eq_iff ram_byte_def after_read_def\<close>)
qed

section \<open>Properties\<close>

text \<open>C21: the main frame wait always gets its frame. Entered at 0x10f90 with the frame interrupt
  deliverable (\<open>interrupt_possible\<close>) and a threshold other than zero, whatever visits had been
  counted, and resumed from a snapshot or not, the phase polls as many times as visits are missing,
  then raises the interrupt and enters the handler of vector 12: it returns with the visit count
  cleared, one more interrupt injected, one more procedure frame, two instructions for every poll
  but the last and one before the loop, and the interrupted condition code set to equal in the saved
  arithmetic controls. A state of the resume family starts with one visit counted
  (\<open>phase_seed\<close>), so it polls once less; at a threshold of one that visit already exceeds it and the
  single poll delivers. The report counts the whole threshold less that seed as iterations, whatever
  visits had been counted before.\<close>

theorem vf2_frame_wait_main_injects:
  assumes "interrupt_possible 12 1 s" and "ip (sys_cpu s) = 0x00010f90"
    and "visits_before_interrupt w \<noteq> 0"
  shows "\<exists>rep s'. vf2_hybrid_frame_wait_execute (s, w) =
      (Inr rep, (s', w\<lparr>visits := 0, interrupts_injected := interrupts_injected w + 1\<rparr>)) \<and>
    ip (sys_cpu s') = interrupt_handler 12 s \<and> br_exit_address rep = interrupt_handler 12 s \<and>
    local_frame_depth (sys_cpu s') = local_frame_depth (sys_cpu s) + 1 \<and>
    br_recovered_instruction_count rep =
      1 + 2 * of_nat (visits_before_interrupt w - (visits w + phase_seed s w) - 1) \<and>
    br_iterations rep = of_nat (visits_before_interrupt w - phase_seed s w) \<and>
    ram_peek (sys_machine s') (interrupt_frame s - 12) = (arithmetic_control (sys_cpu s) AND NOT 7) OR 2"
proof -
  have ok: "ram_ok (sys_machine s)" using assms(1) by (simp add: interrupt_possible_def)
  obtain m1 where phase: "phase_resumed (s, w) = (Inr (phase_seed s w = 1), (s\<lparr>sys_machine := m1\<rparr>, w))"
    and m1: "ram_ok m1" "ram_peek m1 = ram_peek (sys_machine s)" "ram_byte m1 = ram_byte (sys_machine s)"
    by (rule phase_resumed_seed [OF ok])
  let ?s1 = "s\<lparr>sys_machine := m1\<rparr>"
  let ?w = "w\<lparr>visits := visits w + phase_seed s w\<rparr>"
  let ?after = "w\<lparr>visits := 0, interrupts_injected := interrupts_injected w + 1\<rparr>"
  have seed: "(if phase_seed s w = 1 then on_wait (\<lambda>w. w\<lparr>visits := 1\<rparr>) else pret ()) (t, w) = (Inr (), (t, ?w))"
    "(if phase_seed s w = 1 then 1 else 0) = phase_seed s w" for t :: "'a sys"
    by (simp_all add: phase_seed_def on_wait_def)
  have cell: "in_ram 0x500000 1" by (simp add: in_ram_def)
  obtain m' where m': "read_byte 0x500000 ?s1 = (Inr (ram_byte m1 0x500000), ?s1\<lparr>sys_machine := m'\<rparr>)"
    "ram_ok m'" "ram_peek m' = ram_peek m1" "ram_byte m' = ram_byte m1"
    by (rule read_byte_ram [of ?s1, OF _ cell]) (simp_all add: m1(1))
  let ?c = "(put_register 16 (ucast (ram_byte m1 0x500000)) (sys_cpu s))
      \<lparr>ip := VF2_FRAME_WAIT_MAIN, executed_instructions := executed_instructions (sys_cpu s) + 1\<rparr>"
  let ?s = "s\<lparr>sys_machine := m', sys_cpu := ?c\<rparr>"
  have like: "waits_like s ?s" using m'(2,3) m1(2) by (simp add: waits_like_def Let_def put_register_def)
  have at_main: "ip (sys_cpu ?s) = VF2_FRAME_WAIT_MAIN" "visits_before_interrupt ?w \<noteq> 0"
    "registers (sys_cpu ?s) 16 = ucast (ram_byte (sys_machine ?s) 0x500000)"
    using m'(4) assms(3) by (simp_all add: put_register_def)
  obtain s' where s': "main_loop (?s, ?w) = (Inr (), (s', ?after))"
    "ip (sys_cpu s') = interrupt_handler 12 s"
    "local_frame_depth (sys_cpu s') = local_frame_depth (sys_cpu s) + 1"
    "executed_instructions (sys_cpu s') = executed_instructions (sys_cpu ?s) +
           2 * of_nat (visits_before_interrupt w - (visits w + phase_seed s w) - 1)"
    "ram_peek (sys_machine s') (interrupt_frame s - 12) = (arithmetic_control (sys_cpu s) AND NOT 7) OR 2"
    by (rule main_loop_injects [OF like assms(1) at_main]) simp
  have main: "execute_main (s, w) =
      (Inr (VF2_HYBRID_BRIDGE_FRAME_WAIT_POLL, of_nat (visits_before_interrupt w - phase_seed s w)), (s', ?after))"
    unfolding execute_main_def pbind_ok [where f = phase_resumed, OF phase]
      pbind_ok [where f = "if phase_seed s w = 1 then on_wait (\<lambda>w. w\<lparr>visits := 1\<rparr>) else pret ()", OF seed(1)]
      seed(2)
    using m'(1) s'(1)
    by (simp add: on_sys_def put_def set_ip_def executed_def get_wait_def put_register_def)
  have cnt: "executed_instructions (sys_cpu s') - executed_instructions (sys_cpu s) =
      1 + 2 * of_nat (visits_before_interrupt w - (visits w + phase_seed s w) - 1)"
    using s'(4) by (simp add: put_register_def)
  show ?thesis
    using main assms(3) s'(2,3,5) cnt
    by (simp add: vf2_hybrid_frame_wait_execute_def get_wait_def on_sys_def assms(2) VF2_FRAME_WAIT_EARLY_def)
qed

text \<open>A processor in front of the main wait, with a handler for vector 12.\<close>

definition wait_sample :: "unit sys" where
  "wait_sample = sample_system
     \<lparr>sys_cpu := zeroed_cpu\<lparr>prcb := 0x500010, ip := 0x10f90, arithmetic_control := 1\<rparr>,
      sys_machine := update_area WORK_RAM (\<lambda>d. write_le32 (write_le32 (write_le32 d 0x24 0x500100) 0x28 0x510000)
        0x134 0x2000) (snd (vf2_model2a_initialize () (\<lambda>_. True)))\<rparr>"

lemma wait_sample_peeks:
  "ram_peek (sys_machine wait_sample) 0x500024 = 0x500100"
  "ram_peek (sys_machine wait_sample) 0x500028 = 0x510000"
  "ram_peek (sys_machine wait_sample) 0x500134 = 0x2000"
proof -
  have "\<not> area_null (snd (vf2_model2a_initialize () (\<lambda>_. True))) WORK_RAM"
    by (rule machine_ok_device(1) [OF machine_ok_fresh]) simp_all
  then show "ram_peek (sys_machine wait_sample) 0x500024 = 0x500100"
    "ram_peek (sys_machine wait_sample) 0x500028 = 0x510000"
    "ram_peek (sys_machine wait_sample) 0x500134 = 0x2000"
    by (simp_all add: wait_sample_def ram_peek_def board_simps read_write_le32_disjoint)
qed

lemma wait_sample_possible:
  "interrupt_possible 12 1 wait_sample" "interrupt_handler 12 wait_sample = 0x2000"
proof -
  have c: "sys_cpu wait_sample = zeroed_cpu\<lparr>prcb := 0x500010, ip := 0x10f90, arithmetic_control := 1\<rparr>"
    by (simp add: wait_sample_def)
  have ok: "ram_ok (sys_machine wait_sample)"
    by (simp add: wait_sample_def ram_ok_def machine_ok_fresh rom_fits_fresh)
  have f: "interrupt_frame wait_sample = 0x510040"
    using wait_sample_peeks by (simp add: interrupt_frame_def c zeroed_cpu_def align_stack_frame_def)
  show h: "interrupt_handler 12 wait_sample = 0x2000"
    using wait_sample_peeks by (simp add: interrupt_handler_def c zeroed_cpu_def)
  show "interrupt_possible 12 1 wait_sample"
    using wait_sample_peeks ok
    by (simp add: interrupt_possible_def h f c zeroed_cpu_def ram_cell_def)
qed

text \<open>The same processor back in the resume family.\<close>

definition resume_sample :: "unit sys" where
  "resume_sample = wait_sample
     \<lparr>sys_cpu := (sys_cpu wait_sample)\<lparr>interrupt_entries := 3, interrupt_returns := 3\<rparr>,
      sys_machine := update_area WORK_RAM (\<lambda>d. write_le32 (write_le32 d 0x15b00 0x80000040) 0x20 9)
        (sys_machine wait_sample)\<rparr>"

lemma resume_sample_facts:
  "interrupt_possible 12 1 resume_sample" "interrupt_handler 12 resume_sample = 0x2000"
  "ip (sys_cpu resume_sample) = 0x00010f90"
  "phase_seed resume_sample \<lparr>visits = 0, visits_before_interrupt = 4, interrupts_injected = 0\<rparr> = 1"
proof -
  have c: "sys_cpu resume_sample = zeroed_cpu\<lparr>prcb := 0x500010, ip := 0x10f90, arithmetic_control := 1,
      interrupt_entries := 3, interrupt_returns := 3\<rparr>"
    by (simp add: resume_sample_def wait_sample_def)
  have w: "\<not> area_null (sys_machine wait_sample) WORK_RAM"
    using machine_ok_device(1) [OF machine_ok_fresh, of WORK_RAM]
    by (simp add: wait_sample_def board_simps)
  have ok: "ram_ok (sys_machine resume_sample)"
    by (simp add: resume_sample_def wait_sample_def ram_ok_def machine_ok_fresh rom_fits_fresh)
  have p: "ram_peek (sys_machine resume_sample) 0x500024 = 0x500100"
    "ram_peek (sys_machine resume_sample) 0x500028 = 0x510000"
    "ram_peek (sys_machine resume_sample) 0x500134 = 0x2000"
    "ram_peek (sys_machine resume_sample) 0x515b00 = 0x80000040"
    "ram_peek (sys_machine resume_sample) 0x500020 = 9"
    using wait_sample_peeks w
    by (simp_all add: resume_sample_def ram_peek_def board_simps read_write_le32_disjoint)
  have f: "interrupt_frame resume_sample = 0x510040"
    using p by (simp add: interrupt_frame_def c zeroed_cpu_def align_stack_frame_def)
  show h: "interrupt_handler 12 resume_sample = 0x2000"
    using p by (simp add: interrupt_handler_def c zeroed_cpu_def)
  show "interrupt_possible 12 1 resume_sample"
    using p ok by (simp add: interrupt_possible_def h f c zeroed_cpu_def ram_cell_def)
  show "ip (sys_cpu resume_sample) = 0x00010f90"
    "phase_seed resume_sample \<lparr>visits = 0, visits_before_interrupt = 4, interrupts_injected = 0\<rparr> = 1"
    by (simp_all add: phase_seed_def c p)
qed

text \<open>An ordinary wait with one visit counted, and the first wait after a resume.\<close>

lemma vf2_frame_wait_main_injects_witness:
  "(\<exists>rep s'. vf2_hybrid_frame_wait_execute
      (wait_sample, \<lparr>visits = 1, visits_before_interrupt = 4, interrupts_injected = 7\<rparr>) =
      (Inr rep, (s', \<lparr>visits = 0, visits_before_interrupt = 4, interrupts_injected = 8\<rparr>)) \<and>
    ip (sys_cpu s') = 0x2000 \<and> br_recovered_instruction_count rep = 5 \<and> br_iterations rep = 4) \<and>
   (\<exists>rep s'. vf2_hybrid_frame_wait_execute
      (resume_sample, \<lparr>visits = 0, visits_before_interrupt = 4, interrupts_injected = 0\<rparr>) =
      (Inr rep, (s', \<lparr>visits = 0, visits_before_interrupt = 4, interrupts_injected = 1\<rparr>)) \<and>
    ip (sys_cpu s') = 0x2000 \<and> br_recovered_instruction_count rep = 5 \<and> br_iterations rep = 3)"
proof
  have ip: "ip (sys_cpu wait_sample) = 0x00010f90" by (simp add: wait_sample_def)
  show "\<exists>rep s'. vf2_hybrid_frame_wait_execute
      (wait_sample, \<lparr>visits = 1, visits_before_interrupt = 4, interrupts_injected = 7\<rparr>) =
      (Inr rep, (s', \<lparr>visits = 0, visits_before_interrupt = 4, interrupts_injected = 8\<rparr>)) \<and>
    ip (sys_cpu s') = 0x2000 \<and> br_recovered_instruction_count rep = 5 \<and> br_iterations rep = 4"
    using vf2_frame_wait_main_injects [OF wait_sample_possible(1) ip,
        of "\<lparr>visits = 1, visits_before_interrupt = 4, interrupts_injected = 7\<rparr>"]
    by (simp add: wait_sample_possible(2) phase_seed_def) blast
  show "\<exists>rep s'. vf2_hybrid_frame_wait_execute
      (resume_sample, \<lparr>visits = 0, visits_before_interrupt = 4, interrupts_injected = 0\<rparr>) =
      (Inr rep, (s', \<lparr>visits = 0, visits_before_interrupt = 4, interrupts_injected = 1\<rparr>)) \<and>
    ip (sys_cpu s') = 0x2000 \<and> br_recovered_instruction_count rep = 5 \<and> br_iterations rep = 3"
    using vf2_frame_wait_main_injects [OF resume_sample_facts(1,3),
        of "\<lparr>visits = 0, visits_before_interrupt = 4, interrupts_injected = 0\<rparr>"]
    by (simp add: resume_sample_facts(2,4)) blast
qed

end
