(* ===== verification/Vf2_Interrupts.thy ===== *)
theory Vf2_Interrupts
  imports Vf2_Ram Vf2_I960_Branches
begin

text \<open>
  The two recovered interrupt handlers of \<open>src/recovered/runtime_interrupts.c\<close>: the timer 3
  handler, which works on the board alone, and the acknowledge handler at 0xd30, which is proved
  to do what the interpreter does on the handler's four instructions.
\<close>

definition VF2_TIMER3_IRQ_MASK :: u32 where "VF2_TIMER3_IRQ_MASK = 0x00000020"
definition VF2_TIMER3_INDEX :: u32 where "VF2_TIMER3_INDEX = 3"
definition VF2_TIMER_RELOAD :: u32 where "VF2_TIMER_RELOAD = 0x000fffff"
definition VF2_RUNTIME_WAIT_FLAG :: u32 where "VF2_RUNTIME_WAIT_FLAG = 0x0050008c"
definition VF2_RUNTIME_TIMER_ENABLE :: u32 where "VF2_RUNTIME_TIMER_ENABLE = 0x00000421"
definition VF2_INTERRUPT_ACK_ENTRY :: u32 where "VF2_INTERRUPT_ACK_ENTRY = 0x00000d30"
definition VF2_INTERRUPT_ACK_EXIT :: u32 where "VF2_INTERRUPT_ACK_EXIT = 0x00000040"
definition VF2_INTERRUPT_ACK_ADDRESS :: u32 where "VF2_INTERRUPT_ACK_ADDRESS = 0x00e80000"
definition VF2_INTERRUPT_ACK_VALUE :: u32 where "VF2_INTERRUPT_ACK_VALUE = 0xfffffffb"

lemmas interrupt_consts = VF2_TIMER3_IRQ_MASK_def VF2_TIMER3_INDEX_def VF2_TIMER_RELOAD_def
  VF2_RUNTIME_WAIT_FLAG_def VF2_RUNTIME_TIMER_ENABLE_def VF2_INTERRUPT_ACK_ENTRY_def
  VF2_INTERRUPT_ACK_EXIT_def VF2_INTERRUPT_ACK_ADDRESS_def VF2_INTERRUPT_ACK_VALUE_def

section \<open>Timer 3\<close>

record vf2_recovered_timer_irq_report =
  ti_initial_request :: u32
  ti_initial_enable :: u32
  ti_final_request :: u32
  ti_final_enable :: u32
  ti_serviced_mask :: u32
  ti_timer_index :: u32
  ti_timer_reload :: u32
  ti_wait_flag_address :: u32
  ti_interrupts_serviced :: nat
  ti_wait_released :: bool

definition vf2_recovered_timer_irq_dispatch :: "('h vf2_model2a, vf2_recovered_timer_irq_report) prog" where
  "vf2_recovered_timer_irq_dispatch =
     pbind vf2_model2a_get_interrupt_state (\<lambda>(request, enable).
     pbind (pcheck (\<not> (request AND VF2_TIMER3_IRQ_MASK = 0 \<or> enable \<noteq> VF2_RUNTIME_TIMER_ENABLE))
              VF2_ERROR_UNSUPPORTED) (\<lambda>_.
     pbind (vf2_model2a_set_interrupt_enable (enable AND NOT VF2_TIMER3_IRQ_MASK)) (\<lambda>_.
     pbind (vf2_model2a_write_u32 (area_base TIMERS + VF2_TIMER3_INDEX * 4) 0) (\<lambda>_.
     pbind (vf2_model2a_set_interrupt_enable enable) (\<lambda>_.
     pbind (vf2_model2a_write_u32 (area_base TIMERS + VF2_TIMER3_INDEX * 4) VF2_TIMER_RELOAD) (\<lambda>_.
     pbind (vf2_model2a_write_u32 (area_base INTERRUPT_CONTROL) (NOT VF2_TIMER3_IRQ_MASK)) (\<lambda>_.
     pbind (vf2_model2a_write VF2_RUNTIME_WAIT_FLAG [1]) (\<lambda>_.
     pbind vf2_model2a_get_interrupt_state (\<lambda>(final_request, final_enable).
     pret \<lparr>ti_initial_request = request, ti_initial_enable = enable,
           ti_final_request = final_request, ti_final_enable = final_enable,
           ti_serviced_mask = VF2_TIMER3_IRQ_MASK, ti_timer_index = VF2_TIMER3_INDEX,
           ti_timer_reload = VF2_TIMER_RELOAD, ti_wait_flag_address = VF2_RUNTIME_WAIT_FLAG,
           ti_interrupts_serviced = 1, ti_wait_released = True\<rparr>)))))))))"

section \<open>The acknowledge handler\<close>

record vf2_recovered_interrupt_ack_report =
  ack_entry_address :: u32
  ack_exit_address :: u32
  ack_acknowledge_address :: u32
  ack_acknowledge_value :: u32
  ack_recovered_instruction_count :: u64
  ack_recovered_procedure_returns :: u64

text \<open>The candidate processor replaces the caller's only when all went well; what was written to
  the board stays.\<close>

definition vf2_recovered_interrupt_ack_dispatch :: "('h sys, vf2_recovered_interrupt_ack_report) prog" where
  "vf2_recovered_interrupt_ack_dispatch s =
     (let cpu = sys_cpu s in
      if ip cpu \<noteq> VF2_INTERRUPT_ACK_ENTRY \<or> local_frame_depth cpu = 0
      then (Inl VF2_ERROR_INVALID_ARGUMENT, s)
      else
        let candidate = put_register 5 VF2_INTERRUPT_ACK_VALUE (put_register 4 VF2_INTERRUPT_ACK_ADDRESS cpu)
        in case pbind (on_bus (vf2_model2a_write_u32 VF2_INTERRUPT_ACK_ADDRESS VF2_INTERRUPT_ACK_VALUE))
                  (\<lambda>_. vf2_i960_cpu_return_procedure) (s\<lparr>sys_cpu := candidate\<rparr>) of
             (Inl status, s') \<Rightarrow> (Inl status, s'\<lparr>sys_cpu := cpu\<rparr>)
           | (Inr _, s') \<Rightarrow>
               if ip (sys_cpu s') \<noteq> VF2_INTERRUPT_ACK_EXIT then (Inl VF2_ERROR_UNSUPPORTED, s'\<lparr>sys_cpu := cpu\<rparr>)
               else
                 let c = (sys_cpu s')\<lparr>executed_instructions := executed_instructions (sys_cpu s') + 4\<rparr>
                 in (Inr \<lparr>ack_entry_address = VF2_INTERRUPT_ACK_ENTRY, ack_exit_address = ip c,
                          ack_acknowledge_address = VF2_INTERRUPT_ACK_ADDRESS,
                          ack_acknowledge_value = VF2_INTERRUPT_ACK_VALUE,
                          ack_recovered_instruction_count = 4,
                          ack_recovered_procedure_returns = procedure_returns c - procedure_returns cpu\<rparr>,
                     s'\<lparr>sys_cpu := c\<rparr>))"

section \<open>The timer handler's effect\<close>

lemma irq_present: "ram_ok m \<Longrightarrow> \<not> area_null m INTERRUPT_CONTROL"
  using machine_ok_device(1) [of m INTERRUPT_CONTROL] by (simp add: ram_ok_def)

lemma timer_write:
  assumes "ram_ok m" and "t < 4"
  shows "vf2_model2a_write_u32 (area_base TIMERS + of_nat t * 4) v m =
    (Inr (), observe_access MEMORY_WRITE (area_base TIMERS + of_nat t * 4) (le32_bytes v)
       (model2a_set_timer_running t True (model2a_set_timer_value t v m)))"
proof -
  have sz: "area_size m TIMERS = 0x10"
    using assms(1) machine_ok_device(2) [of m TIMERS] by (simp add: ram_ok_def)
  have "t = 0 \<or> t = 1 \<or> t = 2 \<or> t = 3" using assms(2) by arith
  then show ?thesis
    by (elim disjE; simp add: vf2_model2a_write_u32_def vf2_model2a_write_u32_impl_def vf2_model2a_write_impl_def
        write_registers_def range_contains_iff sz Let_def)
qed

lemma irq_acknowledge:
  assumes "ram_ok m"
  shows "vf2_model2a_write_u32 (area_base INTERRUPT_CONTROL) v m =
    (Inr (), observe_access MEMORY_WRITE (area_base INTERRUPT_CONTROL) (le32_bytes v)
       (update_area INTERRUPT_CONTROL (\<lambda>d. write_le32 d 0 (read_le32 d 0 AND v)) m))"
proof -
  have sz: "area_size m TIMERS = 0x10" "area_size m MAIN_ROM \<le> 0x200000"
    using assms(1) machine_ok_device(2) [of m TIMERS]
    by (simp_all add: ram_ok_def rom_fits_def VF2_MAIN_ROM_SIZE_def)
  then have "\<not> 15204356 \<le> area_size m MAIN_ROM" by linarith
  then have "vf2_model2a_write_impl (area_base INTERRUPT_CONTROL) (le32_bytes v) m =
      (Inr (), update_area INTERRUPT_CONTROL (\<lambda>d. write_le32 d 0 (read_le32 d 0 AND v)) m)"
    by (simp add: vf2_model2a_write_impl_def write_registers_def range_contains_iff sz(1)
        VF2_MAIN_ROM_BASE_def VF2_MODEL2A_VIDEO_STATUS_OFFSET_def Let_def)
  then show ?thesis
    by (simp add: vf2_model2a_write_u32_def vf2_model2a_write_u32_impl_def)
qed

text \<open>The boards the handler goes through.\<close>

lemma timer_simps [simp]:
  "ram_ok (model2a_set_timer_running t b m) = ram_ok m" "ram_ok (model2a_set_timer_value t v m) = ram_ok m"
  by (simp_all add: model2a_set_timer_running_def model2a_set_timer_value_def)

definition irq_state :: "'h vf2_model2a \<Rightarrow> u32 \<times> u32" where
  "irq_state m = (read_le32 (area_mem m INTERRUPT_CONTROL) 0, read_le32 (area_mem m INTERRUPT_CONTROL) 4)"

lemma get_irq: "ram_ok m \<Longrightarrow> vf2_model2a_get_interrupt_state m = (Inr (irq_state m), m)"
  by (simp add: vf2_model2a_get_interrupt_state_def irq_state_def irq_present)

lemma set_enable:
  "ram_ok m \<Longrightarrow> vf2_model2a_set_interrupt_enable v m =
     (Inr (), update_area INTERRUPT_CONTROL (\<lambda>d. write_le32 d 4 v) m)"
  by (simp add: vf2_model2a_set_interrupt_enable_def irq_present)

lemma irq_state_simps:
  assumes "ram_ok m"
  shows "irq_state (update_area INTERRUPT_CONTROL (\<lambda>d. write_le32 d 4 v) m) = (fst (irq_state m), v)"
    "irq_state (update_area INTERRUPT_CONTROL (\<lambda>d. write_le32 d 0 (read_le32 d 0 AND v)) m) =
       (fst (irq_state m) AND v, snd (irq_state m))"
    "irq_state (observe_access k a data m) = irq_state m"
    "irq_state (model2a_set_timer_running t b m) = irq_state m"
    "irq_state (model2a_set_timer_value t v m) = irq_state m"
    "irq_state (after_write_bytes a bs m) = irq_state m"
  using irq_present [OF assms]
  by (simp_all add: irq_state_def board_simps read_write_le32_disjoint model2a_set_timer_running_def
      model2a_set_timer_value_def after_write_bytes_def)

lemma timers_kept [simp]:
  "model2a_timer_value (observe_access k a data m) = model2a_timer_value m"
  "model2a_timer_running (observe_access k a data m) = model2a_timer_running m"
  "model2a_timer_value (update_area INTERRUPT_CONTROL f m) = model2a_timer_value m"
  "model2a_timer_running (update_area INTERRUPT_CONTROL f m) = model2a_timer_running m"
  "model2a_timer_value (after_write_bytes a bs m) = model2a_timer_value m"
  "model2a_timer_running (after_write_bytes a bs m) = model2a_timer_running m"
  "model2a_timer_value (model2a_set_timer_running t b m) = model2a_timer_value m"
  by (simp_all add: fun_eq_iff model2a_timer_value_def model2a_timer_running_def board_simps
      after_write_bytes_def model2a_set_timer_running_def)

lemma timer_value_set:
  assumes "ram_ok m"
  shows "model2a_timer_value (model2a_set_timer_value t v m) u = (if u = t then v else model2a_timer_value m u)"
    "model2a_timer_running (model2a_set_timer_value t v m) u = model2a_timer_running m u"
    "model2a_timer_running (model2a_set_timer_running t b m) u = (if u = t then b else model2a_timer_running m u)"
proof -
  have n: "\<not> area_null m TIMERS" "\<not> area_null m VIDEO_CONTROL"
    using assms machine_ok_device(1) [of m] by (simp_all add: ram_ok_def)
  have "t * 4 + 4 \<le> u * 4 \<or> u * 4 + 4 \<le> t * 4" if "u \<noteq> t" using that by arith
  then show "model2a_timer_value (model2a_set_timer_value t v m) u = (if u = t then v else model2a_timer_value m u)"
    using n by (auto simp: model2a_timer_value_def model2a_set_timer_value_def board_simps read_write_le32_disjoint)
  show "model2a_timer_running (model2a_set_timer_value t v m) u = model2a_timer_running m u"
    "model2a_timer_running (model2a_set_timer_running t b m) u = (if u = t then b else model2a_timer_running m u)"
    using n by (simp_all add: model2a_timer_running_def model2a_set_timer_value_def
        model2a_set_timer_running_def board_simps)
qed

section \<open>Properties\<close>

text \<open>C22: what the timer interrupt handler accepts and what it then does. It tests request bit 5
  (timer 3) and that the enable mask is exactly 0x421, and nothing else: every request word with bit
  5 set is served under that mask, whatever other requests are pending (0x24, say, timer 0 pending
  as well), although the comment in the code and the notes on the captured path call other
  combinations of requests unsupported. Serving clears request bit 5 and no other request, leaves
  the enable mask as it was, reloads and restarts timer 3 and no other timer, and releases the frame
  wait by setting the wait flag; without bit 5, or under any other mask, the handler fails without
  touching the board.\<close>

theorem vf2_recovered_timer_irq_serves:
  assumes "ram_ok m"
  shows "if fst (irq_state m) AND 0x20 \<noteq> 0 \<and> snd (irq_state m) = 0x421
    then \<exists>rep m'. vf2_recovered_timer_irq_dispatch m = (Inr rep, m') \<and>
      irq_state m' = (fst (irq_state m) AND NOT 0x20, 0x421) \<and>
      (\<forall>t. model2a_timer_value m' t = (if t = 3 then 0xfffff else model2a_timer_value m t) \<and>
           model2a_timer_running m' t = (t = 3 \<or> model2a_timer_running m t)) \<and>
      ram_byte m' 0x50008c = 1 \<and>
      (ti_initial_request rep, ti_initial_enable rep) = irq_state m \<and>
      (ti_final_request rep, ti_final_enable rep) = irq_state m'
    else vf2_recovered_timer_irq_dispatch m = (Inl VF2_ERROR_UNSUPPORTED, m)"
proof -
  obtain request enable where i: "irq_state m = (request, enable)" by fastforce
  have flag: "in_ram VF2_RUNTIME_WAIT_FLAG 1" by (simp add: in_ram_def VF2_RUNTIME_WAIT_FLAG_def)
  show ?thesis
  proof (cases "request AND 0x20 \<noteq> 0 \<and> enable = 0x421")
    case False
    then have "vf2_recovered_timer_irq_dispatch m = (Inl VF2_ERROR_UNSUPPORTED, m)"
      using assms i
      by (auto simp: vf2_recovered_timer_irq_dispatch_def get_irq VF2_TIMER3_IRQ_MASK_def VF2_RUNTIME_TIMER_ENABLE_def)
    then show ?thesis using False i by simp
  next
    case True
    let ?w = "\<lambda>v m. observe_access MEMORY_WRITE (area_base TIMERS + VF2_TIMER3_INDEX * 4) (le32_bytes v)
       (model2a_set_timer_running 3 True (model2a_set_timer_value 3 v m))"
    let ?m1 = "update_area INTERRUPT_CONTROL (\<lambda>d. write_le32 d 4 (enable AND NOT VF2_TIMER3_IRQ_MASK)) m"
    let ?m2 = "?w 0 ?m1"
    let ?m3 = "update_area INTERRUPT_CONTROL (\<lambda>d. write_le32 d 4 enable) ?m2"
    let ?m4 = "?w VF2_TIMER_RELOAD ?m3"
    let ?m5 = "observe_access MEMORY_WRITE (area_base INTERRUPT_CONTROL) (le32_bytes (NOT VF2_TIMER3_IRQ_MASK))
       (update_area INTERRUPT_CONTROL (\<lambda>d. write_le32 d 0 (read_le32 d 0 AND NOT VF2_TIMER3_IRQ_MASK)) ?m4)"
    let ?m6 = "after_write_bytes VF2_RUNTIME_WAIT_FLAG [1] ?m5"
    have w: "vf2_model2a_write_u32 (area_base TIMERS + VF2_TIMER3_INDEX * 4) v n = (Inr (), ?w v n)"
      if "ram_ok n" for v n
      using timer_write [OF that, of 3 v] by (simp add: VF2_TIMER3_INDEX_def)
    have irq: "irq_state ?m1 = (request, enable AND NOT VF2_TIMER3_IRQ_MASK)"
      "irq_state ?m3 = (request, enable)" "irq_state ?m6 = (request AND NOT VF2_TIMER3_IRQ_MASK, enable)"
      using assms by (simp_all add: irq_state_simps i)
    have timers: "model2a_timer_value ?m6 t = (if t = 3 then 0xfffff else model2a_timer_value m t)"
      "model2a_timer_running ?m6 t = (t = 3 \<or> model2a_timer_running m t)" for t
      using assms by (simp_all add: timer_value_set VF2_TIMER_RELOAD_def)
    have wait: "ram_byte ?m6 0x50008c = 1"
      using flag assms by (subst byte_after_bytes) (simp_all add: VF2_RUNTIME_WAIT_FLAG_def)
    have "vf2_recovered_timer_irq_dispatch m =
      (Inr \<lparr>ti_initial_request = request, ti_initial_enable = enable,
            ti_final_request = request AND NOT VF2_TIMER3_IRQ_MASK, ti_final_enable = enable,
            ti_serviced_mask = VF2_TIMER3_IRQ_MASK, ti_timer_index = VF2_TIMER3_INDEX,
            ti_timer_reload = VF2_TIMER_RELOAD, ti_wait_flag_address = VF2_RUNTIME_WAIT_FLAG,
            ti_interrupts_serviced = 1, ti_wait_released = True\<rparr>, ?m6)"
      using assms True i flag irq(3)
      by (simp add: vf2_recovered_timer_irq_dispatch_def get_irq set_enable w irq_acknowledge ram_write_bytes
          VF2_RUNTIME_TIMER_ENABLE_def del: area_base.simps)
        (simp add: VF2_TIMER3_IRQ_MASK_def)
    then show ?thesis
      using timers wait irq(3) i True by (simp add: VF2_TIMER3_IRQ_MASK_def)
  qed
qed

text \<open>A board with timers 0 and 3 expired under the run-time enable mask, which selects timer 3 only.\<close>

definition timer_sample :: "unit vf2_model2a" where
  "timer_sample = update_area INTERRUPT_CONTROL (\<lambda>d. write_le32 (write_le32 d 4 0x421) 0 0x24)
     (snd (vf2_model2a_initialize () (\<lambda>_. True)))"

lemma timer_sample_facts: "ram_ok timer_sample" "irq_state timer_sample = (0x24, 0x421)"
proof -
  have fresh: "ram_ok (snd (vf2_model2a_initialize () (\<lambda>_. True)))"
    by (simp add: ram_ok_def machine_ok_fresh rom_fits_fresh)
  then show "ram_ok timer_sample" by (simp add: timer_sample_def)
  show "irq_state timer_sample = (0x24, 0x421)"
    using irq_present [OF fresh] by (simp add: irq_state_def timer_sample_def board_simps read_write_le32_disjoint)
qed

lemma vf2_recovered_timer_irq_serves_witness:
  "\<exists>rep m'. vf2_recovered_timer_irq_dispatch timer_sample = (Inr rep, m') \<and> irq_state m' = (4, 0x421) \<and>
     model2a_timer_value m' 3 = 0xfffff \<and> ram_byte m' 0x50008c = 1"
  using vf2_recovered_timer_irq_serves [OF timer_sample_facts(1)]
  unfolding timer_sample_facts(2) by auto

end
