(* ===== verification/Vf2_Snapshot.thy ===== *)
theory Vf2_Snapshot
  imports Vf2_I960_Cpu
begin

text \<open>
  \<open>src/i960/snapshot.c\<close>: captured machine states, their file format and their comparison. The
  eighteen pairs of pointer and size of \<open>vf2_i960_snapshot\<close> are its \<open>sn_regions\<close>, in the order
  of \<open>writable_regions\<close> and \<open>const_regions\<close>, which is that of \<open>device_order\<close>. A file is the list of
  its bytes; whether \<open>fopen\<close>, \<open>fclose\<close> and each \<open>malloc\<close> succeed and how many bytes the device
  takes are arguments. \<open>to_compare\<close> is C's conversion of a \<open>uint32_t\<close> to
  \<open>vf2_i960_compare_result\<close>, which is only determined on the enumerators.
\<close>

section \<open>State\<close>

record vf2_i960_snapshot =
  sn_cpu :: vf2_i960_cpu
  sn_geometry_write_start :: u32
  sn_geometry_read_start :: u32
  sn_geometry_control :: u32
  sn_geometry_program_count :: u32
  sn_regions :: "area \<Rightarrow> region"

definition VF2_I960_SNAPSHOT_VERSION :: u32 where "VF2_I960_SNAPSHOT_VERSION = 6"
definition VF2_SNAPSHOT_REGION_COUNT :: u32 where "VF2_SNAPSHOT_REGION_COUNT = 18"

definition snapshot_magic :: "u8 list" where
  "snapshot_magic = [0x56, 0x46, 0x32, 0x53, 0x4e, 0x41, 0x50, 0]"

fun region_name :: "area \<Rightarrow> string" where
  "region_name GEOMETRY = ''geometry''"
| "region_name COPRO_PORT = ''copro-port''"
| "region_name WORK_RAM = ''work-ram''"
| "region_name BUFFER_RAM = ''buffer-ram''"
| "region_name VIDEO_CONTROL = ''video-control''"
| "region_name CPU_CONTROL = ''cpu-control''"
| "region_name INTERRUPT_CONTROL = ''interrupt-control''"
| "region_name TIMERS = ''timers''"
| "region_name TILE_RAM = ''tile-ram''"
| "region_name PALETTE_RAM = ''palette-ram''"
| "region_name IO_CONTROL = ''io-control''"
| "region_name BACKUP_SRAM = ''backup-sram''"
| "region_name COPRO_CONTROL = ''copro-control''"
| "region_name COLOR_TRANSLATION = ''color-translation''"
| "region_name TEXTURE_RAM0 = ''texture-ram0''"
| "region_name TEXTURE_RAM1 = ''texture-ram1''"
| "region_name LUMA_RAM = ''luma-ram''"
| "region_name SYSTEM_CONTROL = ''system-control''"
| "region_name a = ''''"

text \<open>The bytes behind a pointer and size.\<close>

definition region_mem :: "region \<Rightarrow> memory" where
  "region_mem r = (case r_data r of None \<Rightarrow> (\<lambda>_. 0) | Some d \<Rightarrow> d)"

definition region_bytes :: "region \<Rightarrow> u8 list" where
  "region_bytes r = read_bytes (region_mem r) 0 (r_size r)"

definition missing :: "region \<Rightarrow> bool" where
  "missing r = (r_data r = None \<and> r_size r \<noteq> 0)"

text \<open>A block of freshly allocated memory with the given contents; \<open>malloc\<close> is not called for
  none.\<close>

definition block_of :: "u8 list \<Rightarrow> memory option" where
  "block_of bs = (if bs = [] then None else Some (write_bytes (\<lambda>_. 0) 0 bs))"

definition on_sn_region :: "area \<Rightarrow> (region, unit) prog \<Rightarrow> (vf2_i960_snapshot, unit) prog" where
  "on_sn_region a p sn =
     (case p (sn_regions sn a) of (r, x) \<Rightarrow> (r, sn\<lparr>sn_regions := (sn_regions sn)(a := x)\<rparr>))"

definition vf2_i960_snapshot_init :: "vf2_i960_snapshot \<Rightarrow> vf2_i960_snapshot" where
  "vf2_i960_snapshot_init sn =
     \<lparr>sn_cpu = zeroed_cpu, sn_geometry_write_start = 0, sn_geometry_read_start = 0,
      sn_geometry_control = 0, sn_geometry_program_count = 0, sn_regions = (\<lambda>_. null_region)\<rparr>"

definition vf2_i960_snapshot_destroy :: "vf2_i960_snapshot \<Rightarrow> vf2_i960_snapshot" where
  "vf2_i960_snapshot_destroy sn = vf2_i960_snapshot_init sn"

text \<open>\<open>p\<close>, with a failure turned into the status \<open>e\<close> after the clean-up \<open>f\<close>.\<close>

definition on_failure :: "(vf2_status \<Rightarrow> vf2_status) \<Rightarrow> ('s \<Rightarrow> 's) \<Rightarrow> ('s, 'a) prog \<Rightarrow> ('s, 'a) prog" where
  "on_failure e f p s = (case p s of (Inl x, s') \<Rightarrow> (Inl (e x), f s') | (Inr a, s') \<Rightarrow> (Inr a, s'))"

section \<open>Capture and restore\<close>

definition copy_region :: "bool \<Rightarrow> region \<Rightarrow> (region, unit) prog" where
  "copy_region malloc_ok source destination =
     (if missing source then (Inl VF2_ERROR_INVALID_ARGUMENT, destination)
      else case r_data destination of
        Some d \<Rightarrow>
          if r_size destination = r_size source
          then (Inr (), destination\<lparr>r_data := Some (write_bytes d 0 (region_bytes source))\<rparr>)
          else if r_size source \<noteq> 0 \<and> \<not> malloc_ok then (Inl VF2_ERROR_OUT_OF_MEMORY, destination)
          else (Inr (), \<lparr>r_data = block_of (region_bytes source), r_size = r_size source\<rparr>)
      | None \<Rightarrow>
          if r_size source \<noteq> 0 \<and> \<not> malloc_ok then (Inl VF2_ERROR_OUT_OF_MEMORY, destination)
          else (Inr (), \<lparr>r_data = block_of (region_bytes source), r_size = r_size source\<rparr>))"

definition vf2_i960_snapshot_capture ::
  "(area \<Rightarrow> bool) \<Rightarrow> vf2_i960_cpu \<Rightarrow> 'h vf2_model2a \<Rightarrow> (vf2_i960_snapshot, unit) prog" where
  "vf2_i960_snapshot_capture malloc_ok cpu machine =
     pbind (pmodify (\<lambda>sn. sn\<lparr>sn_cpu := cpu,
              sn_geometry_write_start := geometry_write_start machine,
              sn_geometry_read_start := geometry_read_start machine,
              sn_geometry_control := geometry_control machine,
              sn_geometry_program_count := geometry_program_count machine\<rparr>)) (\<lambda>_.
     on_failure id vf2_i960_snapshot_destroy
       (pfor device_order (\<lambda>a. on_sn_region a (copy_region (malloc_ok a) (regions machine a)))))"

definition vf2_i960_snapshot_restore :: "vf2_i960_snapshot \<Rightarrow> ('h sys, unit) prog" where
  "vf2_i960_snapshot_restore sn s =
     (let machine = sys_machine s in
      if \<exists>a \<in> set device_order. r_size (sn_regions sn a) \<noteq> r_size (regions machine a) \<or>
           missing (sn_regions sn a) \<or> missing (regions machine a)
      then (Inl VF2_ERROR_BAD_SIZE, s)
      else (Inr (), s\<lparr>sys_cpu := sn_cpu sn,
              sys_machine := (fold (\<lambda>a. update_area a (\<lambda>d. write_bytes d 0 (region_bytes (sn_regions sn a))))
                                device_order machine)
                \<lparr>geometry_write_start := sn_geometry_write_start sn,
                 geometry_read_start := sn_geometry_read_start sn,
                 geometry_control := sn_geometry_control sn,
                 geometry_program_count := sn_geometry_program_count sn\<rparr>\<rparr>))"

section \<open>The file format\<close>

fun compare_code :: "vf2_i960_compare_result \<Rightarrow> u32" where
  "compare_code COMPARE_NONE = 0"
| "compare_code COMPARE_LESS = 1"
| "compare_code COMPARE_EQUAL = 2"
| "compare_code COMPARE_GREATER = 3"
| "compare_code COMPARE_OVERFLOW = 4"

text \<open>Writing, to a device with room for \<open>room\<close> bytes: the state is the file's contents.\<close>

definition file_write :: "nat \<Rightarrow> u8 list \<Rightarrow> (u8 list, unit) prog" where
  "file_write room bs file =
     (if bs = [] \<or> length file + length bs \<le> room then (Inr (), file @ bs)
      else (Inl VF2_ERROR_IO, file @ take (room - length file) bs))"

definition file_write_u32 :: "nat \<Rightarrow> u32 \<Rightarrow> (u8 list, unit) prog" where
  "file_write_u32 room v = file_write room (le32_bytes v)"

definition le64_bytes :: "u64 \<Rightarrow> u8 list" where
  "le64_bytes v = map (\<lambda>i. ucast (drop_bit (i * 8) v)) [0..<8]"

definition file_write_u64 :: "nat \<Rightarrow> u64 \<Rightarrow> (u8 list, unit) prog" where
  "file_write_u64 room v = file_write room (le64_bytes v)"

text \<open>The words of the header, the registers and the frames, in the order written.\<close>

definition frame_slots :: "(nat \<times> nat) list" where
  "frame_slots = List.product [0..<unat VF2_I960_MAX_LOCAL_FRAMES] [0..<VF2_I960_LOCAL_REGISTER_COUNT]"

definition write_header :: "nat \<Rightarrow> vf2_i960_cpu \<Rightarrow> (u8 list, unit) prog" where
  "write_header room c =
     pbind (file_write room snapshot_magic) (\<lambda>_.
     pbind (file_write_u32 room VF2_I960_SNAPSHOT_VERSION) (\<lambda>_.
     pbind (file_write_u32 room (sat c)) (\<lambda>_.
     pbind (file_write_u32 room (prcb c)) (\<lambda>_.
     pbind (file_write_u32 room (ip c)) (\<lambda>_.
     pbind (file_write_u32 room (process_control c)) (\<lambda>_.
     pbind (file_write_u32 room (arithmetic_control c)) (\<lambda>_.
     pbind (file_write_u32 room (interrupt_control c)) (\<lambda>_.
     pbind (file_write_u32 room (compare_code (compare_result c))) (\<lambda>_.
     pbind (file_write_u32 room (if reinitialized c then 1 else 0)) (\<lambda>_.
     pbind (file_write_u64 room (executed_instructions c)) (\<lambda>_.
     pbind (file_write_u64 room (procedure_calls c)) (\<lambda>_.
     pbind (file_write_u64 room (procedure_returns c)) (\<lambda>_.
     pbind (file_write_u64 room (interrupt_entries c)) (\<lambda>_.
     pbind (file_write_u64 room (interrupt_returns c)) (\<lambda>_.
     pbind (file_write_u32 room (local_frame_depth c)) (\<lambda>_.
     file_write_u32 room (maximum_local_frame_depth c)))))))))))))))))"

definition write_snapshot :: "nat \<Rightarrow> vf2_i960_snapshot \<Rightarrow> (u8 list, unit) prog" where
  "write_snapshot room sn =
     pbind (write_header room (sn_cpu sn)) (\<lambda>_.
     pbind (pfor [0..<VF2_I960_REGISTER_COUNT] (\<lambda>i. file_write_u32 room (registers (sn_cpu sn) i))) (\<lambda>_.
     pbind (pfor frame_slots (\<lambda>(i, r). file_write_u32 room (local_frames (sn_cpu sn) i r))) (\<lambda>_.
     pbind (file_write_u32 room (sn_geometry_write_start sn)) (\<lambda>_.
     pbind (file_write_u32 room (sn_geometry_read_start sn)) (\<lambda>_.
     pbind (file_write_u32 room (sn_geometry_control sn)) (\<lambda>_.
     pbind (file_write_u32 room (sn_geometry_program_count sn)) (\<lambda>_.
     pbind (file_write_u32 room VF2_SNAPSHOT_REGION_COUNT) (\<lambda>_.
     pbind (pfor device_order (\<lambda>a. pbind (pcheck (r_size (sn_regions sn a) \<le> 0xffffffff) VF2_ERROR_IO)
              (\<lambda>_. file_write_u32 room (of_nat (r_size (sn_regions sn a)))))) (\<lambda>_.
     pfor device_order (\<lambda>a. file_write room (region_bytes (sn_regions sn a))))))))))))"

definition vf2_i960_snapshot_write_file ::
  "bool \<Rightarrow> nat \<Rightarrow> bool \<Rightarrow> vf2_i960_snapshot \<Rightarrow> (u8 list, unit) prog" where
  "vf2_i960_snapshot_write_file fopen_ok room fclose_ok sn file =
     (if \<not> fopen_ok then (Inl VF2_ERROR_IO, file)
      else case write_snapshot room sn [] of
        (Inl e, file') \<Rightarrow> (Inl VF2_ERROR_IO, file')
      | (Inr _, file') \<Rightarrow> (if fclose_ok then Inr () else Inl VF2_ERROR_IO, file'))"

text \<open>Reading: the state is the snapshot being filled and what is left of the file. A read past
  the end of the file consumes the rest of it.\<close>

type_synonym reading = "vf2_i960_snapshot \<times> u8 list"

definition file_read :: "nat \<Rightarrow> (reading, u8 list) prog" where
  "file_read n x =
     (case x of (sn, rest) \<Rightarrow>
        if n \<le> length rest then (Inr (take n rest), (sn, drop n rest))
        else (Inl VF2_ERROR_IO, (sn, [])))"

definition file_read_u32 :: "(reading, u32) prog" where
  "file_read_u32 = pbind (file_read 4) (\<lambda>bs. pret (le32_of_bytes bs))"

definition le64_of_bytes :: "u8 list \<Rightarrow> u64" where
  "le64_of_bytes bs = fold (\<lambda>i v. v OR push_bit (i * 8) (ucast (bs ! i))) [0..<8] 0"

definition file_read_u64 :: "(reading, u64) prog" where
  "file_read_u64 = pbind (file_read 8) (\<lambda>bs. pret (le64_of_bytes bs))"

definition on_sn :: "(vf2_i960_snapshot \<Rightarrow> vf2_i960_snapshot) \<Rightarrow> (reading, unit) prog" where
  "on_sn f = pmodify (map_prod f id)"

definition on_sn_cpu :: "(vf2_i960_cpu \<Rightarrow> vf2_i960_cpu) \<Rightarrow> (reading, unit) prog" where
  "on_sn_cpu f = on_sn (\<lambda>sn. sn\<lparr>sn_cpu := f (sn_cpu sn)\<rparr>)"

text \<open>\<open>!read_u32(file, &field)\<close>: the field is assigned when the read succeeds.\<close>

definition field32 :: "(u32 \<Rightarrow> vf2_i960_cpu \<Rightarrow> vf2_i960_cpu) \<Rightarrow> (reading, unit) prog" where
  "field32 f = pbind file_read_u32 (\<lambda>v. on_sn_cpu (f v))"

definition field64 :: "(u64 \<Rightarrow> vf2_i960_cpu \<Rightarrow> vf2_i960_cpu) \<Rightarrow> (reading, unit) prog" where
  "field64 f = pbind file_read_u64 (\<lambda>v. on_sn_cpu (f v))"

definition read_header :: "(reading, u32 \<times> u32 \<times> u32) prog" where
  "read_header =
     pbind (file_read 8) (\<lambda>magic.
     pbind (pcheck (magic = snapshot_magic) VF2_ERROR_BAD_SIZE) (\<lambda>_.
     pbind file_read_u32 (\<lambda>version.
     pbind (pcheck (\<not> version < 5 \<and> \<not> version > VF2_I960_SNAPSHOT_VERSION) VF2_ERROR_BAD_SIZE) (\<lambda>_.
     pbind (field32 (\<lambda>v c. c\<lparr>sat := v\<rparr>)) (\<lambda>_.
     pbind (field32 (\<lambda>v c. c\<lparr>prcb := v\<rparr>)) (\<lambda>_.
     pbind (field32 (\<lambda>v c. c\<lparr>ip := v\<rparr>)) (\<lambda>_.
     pbind (field32 (\<lambda>v c. c\<lparr>process_control := v\<rparr>)) (\<lambda>_.
     pbind (field32 (\<lambda>v c. c\<lparr>arithmetic_control := v\<rparr>)) (\<lambda>_.
     pbind (field32 (\<lambda>v c. c\<lparr>interrupt_control := v\<rparr>)) (\<lambda>_.
     pbind file_read_u32 (\<lambda>compare.
     pbind file_read_u32 (\<lambda>reinit.
     pbind (field64 (\<lambda>v c. c\<lparr>executed_instructions := v\<rparr>)) (\<lambda>_.
     pbind (field64 (\<lambda>v c. c\<lparr>procedure_calls := v\<rparr>)) (\<lambda>_.
     pbind (field64 (\<lambda>v c. c\<lparr>procedure_returns := v\<rparr>)) (\<lambda>_.
     pbind (field64 (\<lambda>v c. c\<lparr>interrupt_entries := v\<rparr>)) (\<lambda>_.
     pbind (field64 (\<lambda>v c. c\<lparr>interrupt_returns := v\<rparr>)) (\<lambda>_.
     pbind (field32 (\<lambda>v c. c\<lparr>local_frame_depth := v\<rparr>)) (\<lambda>_.
     pbind (field32 (\<lambda>v c. c\<lparr>maximum_local_frame_depth := v\<rparr>)) (\<lambda>_.
     pbind (pget (sn_cpu \<circ> fst)) (\<lambda>c.
     pbind (pcheck (\<not> local_frame_depth c > VF2_I960_MAX_LOCAL_FRAMES \<and>
                    \<not> maximum_local_frame_depth c > VF2_I960_MAX_LOCAL_FRAMES) VF2_ERROR_BAD_SIZE) (\<lambda>_.
     pret (version, compare, reinit))))))))))))))))))))))"

definition read_registers :: "(reading, unit) prog" where
  "read_registers =
     pbind (pfor [0..<VF2_I960_REGISTER_COUNT] (\<lambda>i. field32 (\<lambda>v c. c\<lparr>registers := (registers c)(i := v)\<rparr>)))
       (\<lambda>_. pfor frame_slots (\<lambda>(i, r). field32 (\<lambda>v c.
              c\<lparr>local_frames := (local_frames c)(i := (local_frames c i)(r := v))\<rparr>)))"

definition read_geometry :: "(reading, unit) prog" where
  "read_geometry =
     pbind file_read_u32 (\<lambda>v. pbind (on_sn (\<lambda>sn. sn\<lparr>sn_geometry_write_start := v\<rparr>)) (\<lambda>_.
     pbind file_read_u32 (\<lambda>v. pbind (on_sn (\<lambda>sn. sn\<lparr>sn_geometry_read_start := v\<rparr>)) (\<lambda>_.
     pbind file_read_u32 (\<lambda>v. pbind (on_sn (\<lambda>sn. sn\<lparr>sn_geometry_control := v\<rparr>)) (\<lambda>_.
     pbind file_read_u32 (\<lambda>v. on_sn (\<lambda>sn. sn\<lparr>sn_geometry_program_count := v\<rparr>))))))))"

primrec read_sizes :: "area list \<Rightarrow> (reading, nat list) prog" where
  "read_sizes [] = pret []"
| "read_sizes (a # as) = pbind file_read_u32 (\<lambda>v. pbind (read_sizes as) (\<lambda>vs. pret (unat v # vs)))"

definition allocate_read_region :: "bool \<Rightarrow> area \<Rightarrow> nat \<Rightarrow> (reading, unit) prog" where
  "allocate_read_region malloc_ok a n =
     (if n = 0 then on_sn (\<lambda>sn. sn\<lparr>sn_regions := (sn_regions sn)(a := (sn_regions sn a)\<lparr>r_data := None\<rparr>)\<rparr>)
      else pbind (pcheck malloc_ok VF2_ERROR_OUT_OF_MEMORY) (\<lambda>_.
           pbind (file_read n) (\<lambda>bs.
           on_sn (\<lambda>sn. sn\<lparr>sn_regions := (sn_regions sn)
             (a := (sn_regions sn a)\<lparr>r_data := block_of bs\<rparr>)\<rparr>))))"

definition read_region :: "(area \<Rightarrow> bool) \<Rightarrow> area \<times> nat \<Rightarrow> (reading, unit) prog" where
  "read_region malloc_ok an = (case an of (a, n) \<Rightarrow>
     pbind (on_sn (\<lambda>sn. sn\<lparr>sn_regions := (sn_regions sn)(a := (sn_regions sn a)\<lparr>r_size := n\<rparr>)\<rparr>)) (\<lambda>_.
     allocate_read_region (malloc_ok a) a n))"

text \<open>Version 5 kept the geometry registers only in the device memories.\<close>

definition upgrade_v5 :: "(reading, unit) prog" where
  "upgrade_v5 x =
     (let sn = fst x; g = sn_regions sn GEOMETRY; v = sn_regions sn VIDEO_CONTROL in
      if r_size g < 0x300c \<or> r_size v < 12 then (Inl VF2_ERROR_BAD_SIZE, x)
      else (Inr (), (sn\<lparr>
             sn_geometry_write_start := read_le32 (region_mem g) 0x1008 AND 0x000fffff,
             sn_geometry_read_start := read_le32 (region_mem g) 0x3008 AND 0x000fffff,
             sn_geometry_control := read_le32 (region_mem v) 8,
             sn_geometry_program_count := 0\<rparr>, snd x)))"

definition discard :: "reading \<Rightarrow> reading" where
  "discard = map_prod vf2_i960_snapshot_destroy id"

definition read_snapshot ::
  "(u32 \<Rightarrow> vf2_i960_compare_result) \<Rightarrow> (area \<Rightarrow> bool) \<Rightarrow> bool \<Rightarrow> (reading, unit) prog" where
  "read_snapshot to_compare malloc_ok fclose_ok =
     pbind (on_failure (\<lambda>_. VF2_ERROR_BAD_SIZE) id read_header) (\<lambda>(version, compare, reinit).
     pbind (on_sn_cpu (\<lambda>c. c\<lparr>compare_result := to_compare compare, reinitialized := (reinit \<noteq> 0)\<rparr>)) (\<lambda>_.
     pbind (on_failure (\<lambda>_. VF2_ERROR_IO) discard read_registers) (\<lambda>_.
     pbind (if version \<ge> 6 then on_failure (\<lambda>_. VF2_ERROR_IO) discard read_geometry else pret ()) (\<lambda>_.
     pbind (on_failure (\<lambda>_. VF2_ERROR_BAD_SIZE) discard
              (pbind file_read_u32 (\<lambda>region_count.
               pcheck (region_count = VF2_SNAPSHOT_REGION_COUNT) VF2_ERROR_BAD_SIZE))) (\<lambda>_.
     pbind (on_failure (\<lambda>_. VF2_ERROR_IO) discard (read_sizes device_order)) (\<lambda>sizes.
     on_failure id discard
       (pbind (pfor (zip device_order sizes) (read_region malloc_ok)) (\<lambda>_.
        pbind (if version = 5 then upgrade_v5 else pret ()) (\<lambda>_.
        pcheck fclose_ok VF2_ERROR_IO)))))))))"

definition vf2_i960_snapshot_read_file ::
  "(u32 \<Rightarrow> vf2_i960_compare_result) \<Rightarrow> (area \<Rightarrow> bool) \<Rightarrow> bool \<Rightarrow> u8 list option \<Rightarrow>
   (vf2_i960_snapshot, unit) prog" where
  "vf2_i960_snapshot_read_file to_compare malloc_ok fclose_ok file sn =
     (case file of
        None \<Rightarrow> (Inl VF2_ERROR_IO, sn)
      | Some bytes \<Rightarrow>
          (case read_snapshot to_compare malloc_ok fclose_ok (vf2_i960_snapshot_destroy sn, bytes) of
             (r, (sn', rest)) \<Rightarrow> (r, sn')))"

section \<open>Comparison\<close>

text \<open>Every component name fits the 32 characters of \<open>component\<close>.\<close>

record vf2_i960_snapshot_diff =
  df_equal :: bool
  df_component :: string
  df_differing_bytes :: nat
  df_first_offset :: nat
  df_expected_value :: u32
  df_actual_value :: u32

definition no_difference :: vf2_i960_snapshot_diff where
  "no_difference = \<lparr>df_equal = True, df_component = [], df_differing_bytes = 0,
     df_first_offset = 0, df_expected_value = 0, df_actual_value = 0\<rparr>"

text \<open>A difference is counted, and described when it is the first.\<close>

definition note_difference :: "string \<Rightarrow> nat \<Rightarrow> u32 \<Rightarrow> u32 \<Rightarrow> vf2_i960_snapshot_diff \<Rightarrow> vf2_i960_snapshot_diff" where
  "note_difference component offset e a d =
     (if df_equal d
      then d\<lparr>df_equal := False, df_component := component, df_first_offset := offset,
             df_expected_value := e, df_actual_value := a\<rparr>
      else d)\<lparr>df_differing_bytes := df_differing_bytes d + 1\<rparr>"

definition compare_values :: "string \<Rightarrow> (nat \<times> u32 \<times> u32) list \<Rightarrow> vf2_i960_snapshot_diff \<Rightarrow> vf2_i960_snapshot_diff" where
  "compare_values component =
     fold (\<lambda>(i, e, a) d. if e \<noteq> a then note_difference component i e a d else d)"

definition compare_bytes ::
  "string \<Rightarrow> memory \<Rightarrow> memory \<Rightarrow> nat \<Rightarrow> vf2_i960_snapshot_diff \<Rightarrow> vf2_i960_snapshot_diff" where
  "compare_bytes component e a n d =
     (if n = 0 \<or> read_bytes e 0 n = read_bytes a 0 n then d
      else compare_values component (map (\<lambda>i. (i, ucast (e i), ucast (a i))) [0..<n]) d)"

text \<open>The first pair of regions with different sizes ends the comparison.\<close>

primrec compare_sizes :: "(nat \<times> nat \<times> nat) list \<Rightarrow> vf2_i960_snapshot_diff \<Rightarrow> bool \<times> vf2_i960_snapshot_diff" where
  "compare_sizes [] d = (True, d)"
| "compare_sizes (x # xs) d = (case x of (i, e, a) \<Rightarrow>
     if e \<noteq> a then (False, note_difference ''region-size'' i (of_nat e) (of_nat a) d)
     else compare_sizes xs d)"

definition compare_regions ::
  "(area \<Rightarrow> region) \<Rightarrow> (area \<Rightarrow> region) \<Rightarrow> vf2_i960_snapshot_diff \<Rightarrow> vf2_i960_snapshot_diff" where
  "compare_regions e a d =
     (case compare_sizes (map (\<lambda>i. (i, r_size (e (device_order ! i)), r_size (a (device_order ! i))))
                            [0..<unat VF2_SNAPSHOT_REGION_COUNT]) d of
        (False, d') \<Rightarrow> d'
      | (True, d') \<Rightarrow>
          fold (\<lambda>x. compare_bytes (region_name x) (region_mem (e x)) (region_mem (a x)) (r_size (e x)))
            device_order d')"

definition compare_memory_regions ::
  "vf2_i960_snapshot \<Rightarrow> vf2_i960_snapshot \<Rightarrow> bool \<Rightarrow> vf2_i960_snapshot_diff \<Rightarrow> vf2_i960_snapshot_diff" where
  "compare_memory_regions e a initialize_diff d =
     compare_regions (sn_regions e) (sn_regions a) (if initialize_diff then no_difference else d)"

definition cpu_states_differ :: "vf2_i960_cpu \<Rightarrow> vf2_i960_cpu \<Rightarrow> bool" where
  "cpu_states_differ e a \<longleftrightarrow>
     sat e \<noteq> sat a \<or> prcb e \<noteq> prcb a \<or> ip e \<noteq> ip a \<or> process_control e \<noteq> process_control a \<or>
     arithmetic_control e \<noteq> arithmetic_control a \<or> interrupt_control e \<noteq> interrupt_control a \<or>
     compare_result e \<noteq> compare_result a \<or> reinitialized e \<noteq> reinitialized a \<or>
     local_frame_depth e \<noteq> local_frame_depth a"

definition compare_cpu_states ::
  "bool \<Rightarrow> vf2_i960_cpu \<Rightarrow> vf2_i960_cpu \<Rightarrow> vf2_i960_snapshot_diff \<Rightarrow> vf2_i960_snapshot_diff" where
  "compare_cpu_states live e a d =
     (if cpu_states_differ e a then
        (if ip e \<noteq> ip a then note_difference ''cpu-state'' 0 (ip e) (ip a) d
         else if compare_result e \<noteq> compare_result a then
           note_difference ''cpu-state'' 1 (compare_code (compare_result e)) (compare_code (compare_result a)) d
         else if arithmetic_control e \<noteq> arithmetic_control a then
           note_difference ''cpu-state'' 2 (arithmetic_control e) (arithmetic_control a) d
         else if live \<and> local_frame_depth e \<noteq> local_frame_depth a then
           note_difference ''cpu-state'' 3 (local_frame_depth e) (local_frame_depth a) d
         else note_difference ''cpu-state'' 4 (ip e) (ip a) d)
      else d)"

definition compare_registers :: "vf2_i960_cpu \<Rightarrow> vf2_i960_cpu \<Rightarrow> vf2_i960_snapshot_diff \<Rightarrow> vf2_i960_snapshot_diff" where
  "compare_registers e a = compare_values ''registers''
     (map (\<lambda>i. (i, registers e i, registers a i)) [0..<VF2_I960_REGISTER_COUNT])"

definition compare_model2 :: "u32 list \<Rightarrow> u32 list \<Rightarrow> vf2_i960_snapshot_diff \<Rightarrow> vf2_i960_snapshot_diff" where
  "compare_model2 e a = compare_values ''model2-state'' (map (\<lambda>i. (i, e ! i, a ! i)) [0..<4])"

definition compare_frames :: "vf2_i960_cpu \<Rightarrow> vf2_i960_cpu \<Rightarrow> vf2_i960_snapshot_diff \<Rightarrow> vf2_i960_snapshot_diff" where
  "compare_frames e a = compare_values ''local-frames''
     (map (\<lambda>(i, r). (i * VF2_I960_LOCAL_REGISTER_COUNT + r, local_frames e i r, local_frames a i r))
        (List.product [0..<unat (local_frame_depth e)] [0..<VF2_I960_LOCAL_REGISTER_COUNT]))"

definition sn_model2 :: "vf2_i960_snapshot \<Rightarrow> u32 list" where
  "sn_model2 sn = [sn_geometry_write_start sn, sn_geometry_read_start sn, sn_geometry_control sn,
                   sn_geometry_program_count sn]"

definition machine_model2 :: "'h vf2_model2a \<Rightarrow> u32 list" where
  "machine_model2 m = [geometry_write_start m, geometry_read_start m, geometry_control m,
                       geometry_program_count m]"

definition vf2_i960_snapshot_compare_memory :: "vf2_i960_snapshot \<Rightarrow> vf2_i960_snapshot \<Rightarrow> vf2_i960_snapshot_diff" where
  "vf2_i960_snapshot_compare_memory e a = compare_memory_regions e a True no_difference"

definition vf2_i960_snapshot_compare :: "vf2_i960_snapshot \<Rightarrow> vf2_i960_snapshot \<Rightarrow> vf2_i960_snapshot_diff" where
  "vf2_i960_snapshot_compare e a =
     compare_memory_regions e a False
       (compare_frames (sn_cpu e) (sn_cpu a)
         (compare_registers (sn_cpu e) (sn_cpu a)
           (compare_model2 (sn_model2 e) (sn_model2 a)
             (compare_cpu_states False (sn_cpu e) (sn_cpu a) no_difference))))"

definition vf2_i960_compare_live_state ::
  "vf2_i960_cpu \<Rightarrow> 'h vf2_model2a \<Rightarrow> vf2_i960_cpu \<Rightarrow> 'h vf2_model2a \<Rightarrow> vf2_i960_snapshot_diff" where
  "vf2_i960_compare_live_state e_cpu e_machine a_cpu a_machine =
     (let d = compare_registers e_cpu a_cpu (compare_cpu_states True e_cpu a_cpu no_difference)
      in if local_frame_depth e_cpu \<noteq> local_frame_depth a_cpu then d
         else compare_regions (regions e_machine) (regions a_machine)
                (compare_frames e_cpu a_cpu
                  (compare_model2 (machine_model2 e_machine) (machine_model2 a_machine) d)))"

section \<open>Runs of differing bytes\<close>

record vf2_i960_snapshot_run =
  rn_name :: string
  rn_offset :: nat
  rn_length :: nat

text \<open>The runs found, the bytes in them, and those stored in an array of \<open>run_capacity\<close> places;
  no array is \<open>None\<close>.\<close>

record run_tally =
  rt_found :: nat
  rt_total :: nat
  rt_stored :: "vf2_i960_snapshot_run list"

definition add_run :: "nat option \<Rightarrow> vf2_i960_snapshot_run \<Rightarrow> run_tally \<Rightarrow> run_tally" where
  "add_run run_capacity r t =
     \<lparr>rt_found = rt_found t + 1, rt_total = rt_total t + rn_length r,
      rt_stored = (case run_capacity of
          Some n \<Rightarrow> if length (rt_stored t) < n then rt_stored t @ [r] else rt_stored t
        | None \<Rightarrow> rt_stored t)\<rparr>"

function run_end :: "memory \<Rightarrow> memory \<Rightarrow> nat \<Rightarrow> nat \<Rightarrow> nat" where
  "run_end e a n offset = (if offset < n \<and> e offset \<noteq> a offset then run_end e a n (offset + 1) else offset)"
  by pat_completeness auto

termination
  by (relation "measure (\<lambda>(e, a, n, offset). n - offset)") auto

declare run_end.simps [simp del]

lemma run_end_ge: "offset \<le> run_end e a n offset"
  by (induction e a n offset rule: run_end.induct) (subst run_end.simps, auto)

lemma run_end_progress: "offset < n \<Longrightarrow> e offset \<noteq> a offset \<Longrightarrow> offset < run_end e a n offset"
  using run_end_ge [of "offset + 1" e a n] by (subst run_end.simps) simp

function scan_region ::
  "nat option \<Rightarrow> string \<Rightarrow> memory \<Rightarrow> memory \<Rightarrow> nat \<Rightarrow> nat \<Rightarrow> run_tally \<Rightarrow> run_tally" where
  "scan_region run_capacity name e a n offset t =
     (if offset < n then
        if e offset = a offset then scan_region run_capacity name e a n (offset + 1) t
        else
          let stop = run_end e a n offset
          in scan_region run_capacity name e a n stop
               (add_run run_capacity \<lparr>rn_name = name, rn_offset = offset, rn_length = stop - offset\<rparr> t)
      else t)"
  by pat_completeness auto

termination
  by (relation "measure (\<lambda>(c, name, e, a, n, offset, t). n - offset)")
    (auto dest: run_end_progress intro: diff_less_mono2)

declare scan_region.simps [simp del]

definition region_runs :: "nat option \<Rightarrow> area \<Rightarrow> region \<Rightarrow> region \<Rightarrow> run_tally \<Rightarrow> run_tally" where
  "region_runs run_capacity x e a t =
     (if r_size a \<noteq> r_size e then
        add_run run_capacity \<lparr>rn_name = region_name x, rn_offset = 0, rn_length = r_size e\<rparr> t
      else case (r_data e, r_data a) of
        (Some de, Some da) \<Rightarrow> scan_region run_capacity (region_name x) de da (r_size e) 0 t
      | _ \<Rightarrow> t)"

definition vf2_i960_snapshot_diff_runs ::
  "vf2_i960_snapshot \<Rightarrow> vf2_i960_snapshot \<Rightarrow> nat option \<Rightarrow> vf2_status \<times> run_tally" where
  "vf2_i960_snapshot_diff_runs e a run_capacity =
     (let none = \<lparr>rt_found = 0, rt_total = 0, rt_stored = []\<rparr>
      in if run_capacity = Some 0 then (VF2_ERROR_INVALID_ARGUMENT, none)
         else (VF2_OK, fold (\<lambda>x. region_runs run_capacity x (sn_regions e x) (sn_regions a x)) device_order none))"

definition vf2_i960_snapshot_region_data :: "vf2_i960_snapshot \<Rightarrow> string \<Rightarrow> memory option \<times> nat" where
  "vf2_i960_snapshot_region_data sn name =
     (case List.find (\<lambda>x. region_name x = name) device_order of
        Some x \<Rightarrow> (r_data (sn_regions sn x), r_size (sn_regions sn x))
      | None \<Rightarrow> (None, 0))"

end
