(* ===== verification/Vf2_Snapshot_File.thy ===== *)
theory Vf2_Snapshot_File
  imports Vf2_Snapshot
begin

text \<open>
  The snapshot file is a concatenation of fields. A writer emits its bytes, or as many of them as
  the device takes; a reader parses the bytes of its field off the front and leaves the rest. Both
  compose along the file, so that reading what was written gives the snapshot back, and reading
  anything shorter fails.
\<close>

named_theorems codec_intros \<open>what writers emit and readers parse\<close>

section \<open>Writers\<close>

definition emits :: "nat \<Rightarrow> (u8 list, unit) prog \<Rightarrow> u8 list \<Rightarrow> bool" where
  "emits room p bs \<longleftrightarrow> (\<forall>file. length file \<le> room \<longrightarrow>
     p file = (if length file + length bs \<le> room then (Inr (), file @ bs)
               else (Inl VF2_ERROR_IO, file @ take (room - length file) bs)))"

lemma emitsD:
  "emits room p bs \<Longrightarrow> length file \<le> room \<Longrightarrow>
   p file = (if length file + length bs \<le> room then (Inr (), file @ bs)
             else (Inl VF2_ERROR_IO, file @ take (room - length file) bs))"
  by (simp add: emits_def)

lemma emits_write [codec_intros]: "emits room (file_write room bs) bs"
  by (auto simp: emits_def file_write_def)

lemma emits_pret [codec_intros]: "emits room (pret ()) []"
  by (simp add: emits_def)

lemma emits_bind [codec_intros]:
  assumes p: "emits room p bs" and q: "emits room q cs"
  shows "emits room (pbind p (\<lambda>_. q)) (bs @ cs)"
  unfolding emits_def
proof (intro allI impI)
  fix out :: "u8 list" assume le: "length out \<le> room"
  show "pbind p (\<lambda>_. q) out = (if length out + length (bs @ cs) \<le> room then (Inr (), out @ bs @ cs)
      else (Inl VF2_ERROR_IO, out @ take (room - length out) (bs @ cs)))"
  proof (cases "length out + length bs \<le> room")
    case True
    then have len: "length (out @ bs) \<le> room" by simp
    from True have "p out = (Inr (), out @ bs)" using emitsD [OF p le] by simp
    then show ?thesis using emitsD [OF q len] True by (auto simp: add.assoc)
  next
    case False
    then have "p out = (Inl VF2_ERROR_IO, out @ take (room - length out) bs)"
      using emitsD [OF p le] by simp
    then show ?thesis using False by simp
  qed
qed

lemma emits_pfor [codec_intros]:
  "(\<And>i. i \<in> set is \<Longrightarrow> emits room (p i) (f i)) \<Longrightarrow> emits room (pfor is p) (concat (map f is))"
  by (induction "is") (simp_all add: codec_intros)

lemma emits_pcheck [codec_intros]: "b \<Longrightarrow> emits room p bs \<Longrightarrow> emits room (pbind (pcheck b e) (\<lambda>_. p)) bs"
  by (simp add: emits_def)

section \<open>Readers\<close>

definition parses ::
  "(reading, 'a) prog \<Rightarrow> u8 list \<Rightarrow> vf2_i960_snapshot \<Rightarrow> 'a \<Rightarrow> vf2_i960_snapshot \<Rightarrow> bool" where
  "parses p bs sn a sn' \<longleftrightarrow> (\<forall>rest. p (sn, bs @ rest) = (Inr a, (sn', rest)))"

lemma parsesD: "parses p bs sn a sn' \<Longrightarrow> p (sn, bs @ rest) = (Inr a, (sn', rest))"
  by (simp add: parses_def)

lemma parses_read: "n = length bs \<Longrightarrow> parses (file_read n) bs sn bs sn"
  by (simp add: parses_def file_read_def)

lemma parses_pret: "a = b \<Longrightarrow> sn = sn' \<Longrightarrow> parses (pret a) [] sn b sn'"
  by (simp add: parses_def)

lemma parses_bind:
  "parses p bs sn a sn1 \<Longrightarrow> parses (q a) cs sn1 b sn2 \<Longrightarrow> parses (pbind p q) (bs @ cs) sn b sn2"
  by (simp add: parses_def)

lemma parses_pcheck: "b \<Longrightarrow> parses p bs sn a sn' \<Longrightarrow> parses (pbind (pcheck b e) (\<lambda>_. p)) bs sn a sn'"
  by (simp add: parses_def)

lemma parses_on_sn: "sn' = f sn \<Longrightarrow> parses (on_sn f) [] sn () sn'"
  by (simp add: parses_def on_sn_def)

lemma parses_on_failure: "parses p bs sn a sn' \<Longrightarrow> parses (on_failure e f p) bs sn a sn'"
  by (simp add: parses_def on_failure_def)

text \<open>A reader that succeeds is not disturbed by further bytes at the end of the file.\<close>

definition extends :: "(reading, 'a) prog \<Rightarrow> bool" where
  "extends p \<longleftrightarrow> (\<forall>sn xs ys a sn' rest. p (sn, xs) = (Inr a, (sn', rest)) \<longrightarrow>
     p (sn, xs @ ys) = (Inr a, (sn', rest @ ys)))"

named_theorems extends_intros \<open>readers that further bytes do not disturb\<close>

lemma extendsD: "extends p \<Longrightarrow> p (sn, xs) = (Inr a, (sn', rest)) \<Longrightarrow> p (sn, xs @ ys) = (Inr a, (sn', rest @ ys))"
  by (simp add: extends_def)

lemma extends_read [extends_intros]: "extends (file_read n)"
  by (auto simp: extends_def file_read_def split: if_splits)

lemma extends_pret [extends_intros]: "extends (pret a)"
  by (simp add: extends_def)

lemma extends_pcheck [extends_intros]: "extends (pcheck b e)"
  by (simp add: extends_def)

lemma extends_on_sn [extends_intros]: "extends (on_sn f)"
  by (simp add: extends_def on_sn_def)

lemma extends_get [extends_intros]: "extends (pget (f \<circ> fst))"
  by (simp add: extends_def)

lemma extends_bind [extends_intros]:
  assumes p: "extends p" and q: "\<And>a. extends (q a)"
  shows "extends (pbind p q)"
  unfolding extends_def
proof (intro allI impI)
  fix sn xs ys b sn' rest
  assume "pbind p q (sn, xs) = (Inr b, (sn', rest))"
  then obtain a x where pa: "p (sn, xs) = (Inr a, x)" and qb: "q a x = (Inr b, (sn', rest))"
    by (rule pbind_okE)
  obtain sn1 r1 where x: "x = (sn1, r1)" by (rule prod.exhaust)
  from pa x have "p (sn, xs @ ys) = (Inr a, (sn1, r1 @ ys))" by (simp add: extendsD [OF p])
  moreover from qb x have "q a (sn1, r1 @ ys) = (Inr b, (sn', rest @ ys))" by (simp add: extendsD [OF q])
  ultimately show "pbind p q (sn, xs @ ys) = (Inr b, (sn', rest @ ys))" by simp
qed

lemma extends_on_failure [extends_intros]: "extends p \<Longrightarrow> extends (on_failure e f p)"
  by (auto simp: extends_def on_failure_def split: prod.splits sum.splits)

lemma extends_pfor [extends_intros]: "(\<And>i. extends (p i)) \<Longrightarrow> extends (pfor is p)"
  by (induction "is") (auto intro: extends_intros)

lemma extends_if [extends_intros]: "extends p \<Longrightarrow> extends q \<Longrightarrow> extends (if b then p else q)"
  by simp

section \<open>Fields\<close>

text \<open>A field of the file: how it is written, read and laid out.\<close>

locale field_codec =
  fixes put :: "nat \<Rightarrow> 'v \<Rightarrow> (u8 list, unit) prog"
    and get :: "(reading, 'v) prog"
    and enc :: "'v \<Rightarrow> u8 list"
  assumes put_emits: "emits room (put room v) (enc v)"
    and get_parses: "parses get (enc v) sn v sn"
    and get_extends: "extends get"
begin

lemma put_all: "emits room (pfor is (\<lambda>i. put room (f i))) (concat (map (\<lambda>i. enc (f i)) is))"
  by (rule emits_pfor) (rule put_emits)

lemma get_field: "parses (pbind get (\<lambda>v. on_sn (f v))) (enc v) sn () (f v sn)"
  using parses_bind [where q = "\<lambda>v. on_sn (f v)", OF get_parses parses_on_sn [OF refl]] by simp

lemma get_fields:
  "parses (pfor is (\<lambda>i. pbind get (\<lambda>v. on_sn (f i v)))) (concat (map (\<lambda>i. enc (g i)) is)) sn ()
     (fold (\<lambda>i. f i (g i)) is sn)"
proof (induction "is" arbitrary: sn)
  case Nil
  show ?case by (simp add: parses_def)
next
  case (Cons i "is")
  show ?case using parses_bind [OF get_field Cons.IH] by simp
qed

lemma extends_field: "extends (pbind get (\<lambda>v. on_sn (f v)))"
  by (rule extends_bind [OF get_extends]) (rule extends_on_sn)

end

lemma length_le64_bytes [simp]: "length (le64_bytes v) = 8"
  by (simp add: le64_bytes_def)

lemma bit_byte_of_word:
  "bit (push_bit (i * 8) (ucast (ucast (drop_bit (i * 8) v) :: u8)) :: u64) n \<longleftrightarrow>
   n < 64 \<and> n div 8 = i \<and> bit (v :: u64) n"
proof (cases "i * 8 \<le> n \<and> n < i * 8 + 8")
  case True
  then have "n div 8 = i" by auto
  with True show ?thesis by (auto simp: bit_simps)
next
  case False
  then have "n div 8 \<noteq> i" by auto
  with False show ?thesis by (auto simp: bit_simps)
qed

lemma bit_le64_fold:
  "bit (fold (\<lambda>i w. w OR push_bit (i * 8) (ucast (ucast (drop_bit (i * 8) (v :: u64)) :: u8))) is (w :: u64)) n \<longleftrightarrow>
   bit w n \<or> (n < 64 \<and> n div 8 \<in> set is \<and> bit v n)"
proof (induction "is" arbitrary: w)
  case Nil
  show ?case by simp
next
  case (Cons i "is")
  show ?case
    by (simp only: fold_simps Cons.IH bit_or_iff bit_byte_of_word list.set insert_iff) blast
qed

lemma le64_of_bytes_le64_bytes [simp]: "le64_of_bytes (le64_bytes v) = v"
proof (rule bit_word_eqI)
  fix n assume n: "n < LENGTH(64)"
  have "le64_of_bytes (le64_bytes v) =
      fold (\<lambda>i w. w OR push_bit (i * 8) (ucast (ucast (drop_bit (i * 8) v) :: u8))) [0..<8] 0"
    unfolding le64_of_bytes_def le64_bytes_def by (rule fold_cong) simp_all
  moreover have "n div 8 \<in> set [0..<8]" using n by auto
  ultimately show "bit (le64_of_bytes (le64_bytes v)) n = bit v n"
    using n by (simp only: bit_le64_fold) simp
qed

interpretation u32: field_codec file_write_u32 file_read_u32 le32_bytes
proof
  show "emits room (file_write_u32 room v) (le32_bytes v)" for room v
    by (auto simp: file_write_u32_def [abs_def] intro: codec_intros)
  show "parses file_read_u32 (le32_bytes v) sn v sn" for v sn
    by (simp add: file_read_u32_def parses_def file_read_def pbind_def)
  show "extends file_read_u32"
    by (auto simp: file_read_u32_def intro: extends_intros)
qed

interpretation u64: field_codec file_write_u64 file_read_u64 le64_bytes
proof
  show "emits room (file_write_u64 room v) (le64_bytes v)" for room v
    by (auto simp: file_write_u64_def [abs_def] intro: codec_intros)
  show "parses file_read_u64 (le64_bytes v) sn v sn" for v sn
    by (simp add: file_read_u64_def parses_def file_read_def pbind_def)
  show "extends file_read_u64"
    by (auto simp: file_read_u64_def intro: extends_intros)
qed

lemmas field_intros [codec_intros] = u32.put_emits u64.put_emits
lemmas field_extends [extends_intros] = u32.get_extends u64.get_extends

section \<open>The layout of a snapshot file\<close>

definition header_bytes :: "vf2_i960_cpu \<Rightarrow> u8 list" where
  "header_bytes c = snapshot_magic @ le32_bytes VF2_I960_SNAPSHOT_VERSION @ le32_bytes (sat c) @
     le32_bytes (prcb c) @ le32_bytes (ip c) @ le32_bytes (process_control c) @
     le32_bytes (arithmetic_control c) @ le32_bytes (interrupt_control c) @
     le32_bytes (compare_code (compare_result c)) @ le32_bytes (if reinitialized c then 1 else 0) @
     le64_bytes (executed_instructions c) @ le64_bytes (procedure_calls c) @
     le64_bytes (procedure_returns c) @ le64_bytes (interrupt_entries c) @
     le64_bytes (interrupt_returns c) @ le32_bytes (local_frame_depth c) @
     le32_bytes (maximum_local_frame_depth c)"

definition register_bytes :: "vf2_i960_cpu \<Rightarrow> u8 list" where
  "register_bytes c = concat (map (\<lambda>i. le32_bytes (registers c i)) [0..<VF2_I960_REGISTER_COUNT]) @
     concat (map (\<lambda>(i, r). le32_bytes (local_frames c i r)) frame_slots)"

definition geometry_bytes :: "vf2_i960_snapshot \<Rightarrow> u8 list" where
  "geometry_bytes sn = le32_bytes (sn_geometry_write_start sn) @ le32_bytes (sn_geometry_read_start sn) @
     le32_bytes (sn_geometry_control sn) @ le32_bytes (sn_geometry_program_count sn)"

definition size_bytes :: "vf2_i960_snapshot \<Rightarrow> u8 list" where
  "size_bytes sn = concat (map (\<lambda>a. le32_bytes (of_nat (r_size (sn_regions sn a)))) device_order)"

definition data_bytes :: "vf2_i960_snapshot \<Rightarrow> u8 list" where
  "data_bytes sn = concat (map (\<lambda>a. region_bytes (sn_regions sn a)) device_order)"

definition snapshot_bytes :: "vf2_i960_snapshot \<Rightarrow> u8 list" where
  "snapshot_bytes sn = header_bytes (sn_cpu sn) @ register_bytes (sn_cpu sn) @ geometry_bytes sn @
     le32_bytes VF2_SNAPSHOT_REGION_COUNT @ size_bytes sn @ data_bytes sn"

lemmas layout_defs = header_bytes_def register_bytes_def geometry_bytes_def size_bytes_def
  data_bytes_def snapshot_bytes_def

lemma set_frame_slots: "set frame_slots = {0..<128} \<times> {0..<16}"
  by (simp add: frame_slots_def VF2_I960_MAX_LOCAL_FRAMES_def)

lemma length_frame_slots: "length frame_slots = 2048"
  by (simp add: frame_slots_def VF2_I960_MAX_LOCAL_FRAMES_def)

lemma length_words: "length (concat (map (\<lambda>x. le32_bytes (f x)) xs)) = 4 * length xs"
  by (induction xs) simp_all

lemma length_region_bytes [simp]: "length (region_bytes r) = r_size r"
  by (simp add: region_bytes_def)

lemma length_data_bytes: "length (data_bytes sn) = (\<Sum>a\<leftarrow>device_order. r_size (sn_regions sn a))"
  by (simp add: data_bytes_def length_concat comp_def)

lemma length_snapshot_bytes:
  "length (snapshot_bytes sn) = 8504 + (\<Sum>a\<leftarrow>device_order. r_size (sn_regions sn a))"
proof -
  have "length (header_bytes c) = 92" for c
    by (simp add: header_bytes_def snapshot_magic_def)
  moreover have "length (register_bytes c) = 8320" for c
    using length_words [of "\<lambda>i. registers c i" "[0..<32]"]
      length_words [of "\<lambda>ir. local_frames c (fst ir) (snd ir)" frame_slots]
    by (simp add: register_bytes_def case_prod_unfold length_frame_slots)
  moreover have "length (geometry_bytes sn) = 16" by (simp add: geometry_bytes_def)
  moreover have "length (size_bytes sn) = 72"
    by (simp add: size_bytes_def length_words) (simp add: device_order_def)
  ultimately show ?thesis by (simp add: snapshot_bytes_def length_data_bytes)
qed

section \<open>Writing\<close>

lemma emits_header: "emits room (write_header room c) (header_bytes c)"
  unfolding write_header_def header_bytes_def by (intro codec_intros)

lemma emits_frames:
  "emits room (pfor is (\<lambda>(i, r). file_write_u32 room (f i r))) (concat (map (\<lambda>(i, r). le32_bytes (f i r)) is))"
  using u32.put_all [of room "is" "\<lambda>(i, r). f i r"] by (simp add: case_prod_unfold)

lemma emits_snapshot:
  assumes sizes: "\<forall>a \<in> set device_order. r_size (sn_regions sn a) \<le> 0xffffffff"
  shows "emits room (write_snapshot room sn) (snapshot_bytes sn)"
proof -
  have s: "emits room (pfor device_order (\<lambda>a. pbind (pcheck (r_size (sn_regions sn a) \<le> 0xffffffff) VF2_ERROR_IO)
      (\<lambda>_. file_write_u32 room (of_nat (r_size (sn_regions sn a)))))) (size_bytes sn)"
    unfolding size_bytes_def by (rule emits_pfor, rule emits_pcheck) (use sizes in blast, rule u32.put_emits)
  have d: "emits room (pfor device_order (\<lambda>a. file_write room (region_bytes (sn_regions sn a)))) (data_bytes sn)"
    unfolding data_bytes_def by (intro codec_intros)
  show ?thesis
    unfolding write_snapshot_def snapshot_bytes_def register_bytes_def geometry_bytes_def append_assoc
    by (intro emits_bind emits_header u32.put_all emits_frames u32.put_emits s d)
qed

section \<open>Reading\<close>

text \<open>What a snapshot file keeps of a snapshot.\<close>

definition saved_cpu :: "vf2_i960_cpu \<Rightarrow> vf2_i960_cpu" where
  "saved_cpu c = c\<lparr>registers := (\<lambda>i. if i < VF2_I960_REGISTER_COUNT then registers c i else 0),
     local_frames := (\<lambda>i r. if i < 128 \<and> r < VF2_I960_LOCAL_REGISTER_COUNT then local_frames c i r else 0),
     interpreted_instructions := 0, lifted_instructions := 0\<rparr>"

definition saved_region :: "region \<Rightarrow> region" where
  "saved_region r = \<lparr>r_data = block_of (region_bytes r), r_size = r_size r\<rparr>"

definition saved :: "vf2_i960_snapshot \<Rightarrow> vf2_i960_snapshot" where
  "saved sn = sn\<lparr>sn_cpu := saved_cpu (sn_cpu sn),
     sn_regions := (\<lambda>a. if a \<in> set device_order then saved_region (sn_regions sn a) else null_region)\<rparr>"

lemma read_bytes_append [simp]: "length bs = n \<Longrightarrow> file_read n (sn, bs @ rest) = (Inr bs, (sn, rest))"
  by (simp add: file_read_def)

lemma read_u32_append [simp]: "file_read_u32 (sn, le32_bytes v @ rest) = (Inr v, (sn, rest))"
  by (rule parsesD [OF u32.get_parses])

lemma read_u64_append [simp]: "file_read_u64 (sn, le64_bytes v @ rest) = (Inr v, (sn, rest))"
  by (rule parsesD [OF u64.get_parses])

lemma on_sn_apply [simp]: "on_sn f (sn, rest) = (Inr (), (f sn, rest))"
  by (simp add: on_sn_def)

lemma field32_append [simp]:
  "field32 f (sn, le32_bytes v @ rest) = (Inr (), (sn\<lparr>sn_cpu := f v (sn_cpu sn)\<rparr>, rest))"
  by (simp add: field32_def on_sn_cpu_def)

lemma field64_append [simp]:
  "field64 f (sn, le64_bytes v @ rest) = (Inr (), (sn\<lparr>sn_cpu := f v (sn_cpu sn)\<rparr>, rest))"
  by (simp add: field64_def on_sn_cpu_def)

definition header_cpu :: "vf2_i960_cpu \<Rightarrow> vf2_i960_cpu \<Rightarrow> vf2_i960_cpu" where
  "header_cpu c d = d\<lparr>sat := sat c, prcb := prcb c, ip := ip c, process_control := process_control c,
     arithmetic_control := arithmetic_control c, interrupt_control := interrupt_control c,
     executed_instructions := executed_instructions c, procedure_calls := procedure_calls c,
     procedure_returns := procedure_returns c, interrupt_entries := interrupt_entries c,
     interrupt_returns := interrupt_returns c, local_frame_depth := local_frame_depth c,
     maximum_local_frame_depth := maximum_local_frame_depth c\<rparr>"

lemma parses_header:
  assumes "local_frame_depth c \<le> VF2_I960_MAX_LOCAL_FRAMES" and "maximum_local_frame_depth c \<le> VF2_I960_MAX_LOCAL_FRAMES"
  shows "parses read_header (header_bytes c) sn
     (VF2_I960_SNAPSHOT_VERSION, compare_code (compare_result c), if reinitialized c then 1 else 0)
     (sn\<lparr>sn_cpu := header_cpu c (sn_cpu sn)\<rparr>)"
proof -
  have m: "length snapshot_magic = 8" by (simp add: snapshot_magic_def)
  have v: "\<not> VF2_I960_SNAPSHOT_VERSION < 5" by (simp add: VF2_I960_SNAPSHOT_VERSION_def)
  show ?thesis
    unfolding parses_def read_header_def header_bytes_def append_assoc
    using assms by (simp add: m v header_cpu_def not_less del: if_split)
qed

lemma fold_registers:
  "fold (\<lambda>i c. c\<lparr>registers := (registers c)(i := f i)\<rparr>) is c =
   c\<lparr>registers := (\<lambda>i. if i \<in> set is then f i else registers c i)\<rparr>"
  by (induction "is" arbitrary: c) (auto simp: fun_eq_iff)

lemma fold_frames:
  "fold (\<lambda>(i, r) c. c\<lparr>local_frames := (local_frames c)(i := (local_frames c i)(r := f i r))\<rparr>) is c =
   c\<lparr>local_frames := (\<lambda>i r. if (i, r) \<in> set is then f i r else local_frames c i r)\<rparr>"
  by (induction "is" arbitrary: c) (auto simp: fun_eq_iff)

lemma fold_sn_cpu:
  "fold (\<lambda>i sn. sn\<lparr>sn_cpu := f i (sn_cpu sn)\<rparr>) is sn = sn\<lparr>sn_cpu := fold f is (sn_cpu sn)\<rparr>"
  by (induction "is" arbitrary: sn) simp_all

lemma parses_field32s:
  "parses (pfor is (\<lambda>i. field32 (f i))) (concat (map (\<lambda>i. le32_bytes (g i)) is)) sn ()
     (sn\<lparr>sn_cpu := fold (\<lambda>i. f i (g i)) is (sn_cpu sn)\<rparr>)"
  unfolding field32_def on_sn_cpu_def
  using u32.get_fields [of "is" "\<lambda>i v sn. sn\<lparr>sn_cpu := f i v (sn_cpu sn)\<rparr>" g sn]
  by (simp only: fold_sn_cpu [of "\<lambda>i. f i (g i)"])

lemma parses_registers:
  "parses read_registers (register_bytes c) sn ()
     (sn\<lparr>sn_cpu := (sn_cpu sn)\<lparr>
        registers := (\<lambda>i. if i < VF2_I960_REGISTER_COUNT then registers c i else registers (sn_cpu sn) i),
        local_frames := (\<lambda>i r. if i < 128 \<and> r < VF2_I960_LOCAL_REGISTER_COUNT then local_frames c i r
                               else local_frames (sn_cpu sn) i r)\<rparr>\<rparr>)"
proof -
  let ?sn1 = "sn\<lparr>sn_cpu := (sn_cpu sn)\<lparr>registers := (\<lambda>i. if i < VF2_I960_REGISTER_COUNT then registers c i
      else registers (sn_cpu sn) i)\<rparr>\<rparr>"
  have r: "parses (pfor [0..<VF2_I960_REGISTER_COUNT] (\<lambda>i. field32 (\<lambda>v c. c\<lparr>registers := (registers c)(i := v)\<rparr>)))
      (concat (map (\<lambda>i. le32_bytes (registers c i)) [0..<VF2_I960_REGISTER_COUNT])) sn () ?sn1"
    using parses_field32s [of "[0..<VF2_I960_REGISTER_COUNT]" "\<lambda>i v c. c\<lparr>registers := (registers c)(i := v)\<rparr>"
        "registers c" sn]
    by (simp add: fold_registers del: upt_rec_numeral)
  have f: "parses (pfor frame_slots (\<lambda>(i, r). field32 (\<lambda>v c.
        c\<lparr>local_frames := (local_frames c)(i := (local_frames c i)(r := v))\<rparr>)))
      (concat (map (\<lambda>(i, r). le32_bytes (local_frames c i r)) frame_slots)) ?sn1 ()
      (?sn1\<lparr>sn_cpu := (sn_cpu ?sn1)\<lparr>local_frames := (\<lambda>i r. if (i, r) \<in> set frame_slots then local_frames c i r
         else local_frames (sn_cpu ?sn1) i r)\<rparr>\<rparr>)"
    using parses_field32s [of frame_slots
        "\<lambda>ir v c. c\<lparr>local_frames := (local_frames c)(fst ir := (local_frames c (fst ir))(snd ir := v))\<rparr>"
        "\<lambda>ir. local_frames c (fst ir) (snd ir)" ?sn1]
      fold_frames [of "local_frames c" frame_slots "sn_cpu ?sn1"]
    by (simp only: case_prod_unfold)
  show ?thesis
    unfolding read_registers_def register_bytes_def
    using parses_bind [OF r, where q = "\<lambda>_. pfor frame_slots (\<lambda>(i, r). field32 (\<lambda>v c.
        c\<lparr>local_frames := (local_frames c)(i := (local_frames c i)(r := v))\<rparr>))", OF f]
    by (simp add: set_frame_slots cong: if_cong)
qed

lemma parses_geometry:
  "parses read_geometry (geometry_bytes sn0) sn ()
     (sn\<lparr>sn_geometry_write_start := sn_geometry_write_start sn0,
         sn_geometry_read_start := sn_geometry_read_start sn0,
         sn_geometry_control := sn_geometry_control sn0,
         sn_geometry_program_count := sn_geometry_program_count sn0\<rparr>)"
  by (simp add: parses_def read_geometry_def geometry_bytes_def)

lemma parses_sizes:
  assumes "\<forall>a \<in> set as. f a \<le> 0xffffffff"
  shows "parses (read_sizes as) (concat (map (\<lambda>a. le32_bytes (of_nat (f a))) as)) sn (map f as) sn"
  using assms
proof (induction as)
  case Nil
  show ?case by (simp add: parses_def)
next
  case (Cons a as)
  then have "parses (read_sizes as) (concat (map (\<lambda>a. le32_bytes (of_nat (f a))) as)) sn (map f as) sn" by simp
  note p = parsesD [OF this]
  have "unat (of_nat (f a) :: u32) = f a" using Cons.prems by (simp add: unsigned_of_nat take_bit_nat_eq_self_iff)
  then show ?case by (simp add: parses_def p)
qed

lemma parses_region:
  assumes "malloc_ok a" and "r_data (sn_regions sn a) = None"
  shows "parses (read_region malloc_ok (a, r_size r)) (region_bytes r) sn ()
     (sn\<lparr>sn_regions := (sn_regions sn)(a := saved_region r)\<rparr>)"
proof (cases "r_size r = 0")
  case True
  then have "region_bytes r = []" by (simp flip: length_0_conv)
  with True assms show ?thesis
    by (cases "sn_regions sn a")
      (simp add: parses_def read_region_def allocate_read_region_def saved_region_def block_of_def)
next
  case False
  with assms show ?thesis
    by (cases "sn_regions sn a") (simp add: parses_def read_region_def allocate_read_region_def saved_region_def)
qed

lemma parses_regions:
  assumes "distinct as" and "\<forall>a \<in> set as. malloc_ok a \<and> r_data (sn_regions sn a) = None"
  shows "parses (pfor (zip as (map (\<lambda>a. r_size (f a)) as)) (read_region malloc_ok))
     (concat (map (\<lambda>a. region_bytes (f a)) as)) sn ()
     (sn\<lparr>sn_regions := (\<lambda>a. if a \<in> set as then saved_region (f a) else sn_regions sn a)\<rparr>)"
  using assms
proof (induction as arbitrary: sn)
  case Nil
  show ?case by (simp add: parses_def)
next
  case (Cons a as)
  let ?sn1 = "sn\<lparr>sn_regions := (sn_regions sn)(a := saved_region (f a))\<rparr>"
  have p: "parses (read_region malloc_ok (a, r_size (f a))) (region_bytes (f a)) sn () ?sn1"
    using Cons.prems by (intro parses_region) simp_all
  have "parses (pfor (zip as (map (\<lambda>a. r_size (f a)) as)) (read_region malloc_ok))
     (concat (map (\<lambda>a. region_bytes (f a)) as)) ?sn1 ()
     (?sn1\<lparr>sn_regions := (\<lambda>a. if a \<in> set as then saved_region (f a) else sn_regions ?sn1 a)\<rparr>)"
    using Cons.prems by (intro Cons.IH) auto
  note parses_bind [OF p, where q = "\<lambda>_. pfor (zip as (map (\<lambda>a. r_size (f a)) as)) (read_region malloc_ok)", OF this]
  moreover have "?sn1\<lparr>sn_regions := (\<lambda>b. if b \<in> set as then saved_region (f b) else sn_regions ?sn1 b)\<rparr> =
      sn\<lparr>sn_regions := (\<lambda>b. if b \<in> set (a # as) then saved_region (f b) else sn_regions sn b)\<rparr>"
    using Cons.prems(1) by (auto simp: fun_eq_iff)
  ultimately show ?case by simp
qed

lemma extends_field32 [extends_intros]: "extends (field32 f)"
  unfolding field32_def on_sn_cpu_def by (rule u32.extends_field)

lemma extends_field64 [extends_intros]: "extends (field64 f)"
  unfolding field64_def on_sn_cpu_def by (rule u64.extends_field)

lemma extends_sizes [extends_intros]: "extends (read_sizes as)"
proof (induction as)
  case Nil
  show ?case unfolding read_sizes.simps by (rule extends_pret)
next
  case (Cons a as)
  then show ?case unfolding read_sizes.simps by (intro extends_intros)
qed

lemma extends_region [extends_intros]: "extends (read_region malloc_ok an)"
  unfolding read_region_def allocate_read_region_def case_prod_unfold by (intro extends_intros)

lemma extends_upgrade [extends_intros]: "extends upgrade_v5"
  by (auto simp: extends_def upgrade_v5_def Let_def split: if_splits)

lemma extends_case_prod [extends_intros]:
  "(\<And>x y. extends (f x y)) \<Longrightarrow> extends (case p of (x, y) \<Rightarrow> f x y)"
  by (cases p) simp

lemma extends_snapshot: "extends (read_snapshot to_compare malloc_ok fclose_ok)"
  unfolding read_snapshot_def read_header_def read_registers_def read_geometry_def on_sn_cpu_def
  by (intro extends_intros)

lemma parses_count:
  "parses (pbind file_read_u32 (\<lambda>n. pcheck (n = c) e)) (le32_bytes c) sn () sn"
  by (simp add: parses_def)

lemma parses_snapshot:
  assumes depth: "local_frame_depth (sn_cpu sn) \<le> VF2_I960_MAX_LOCAL_FRAMES"
      "maximum_local_frame_depth (sn_cpu sn) \<le> VF2_I960_MAX_LOCAL_FRAMES"
    and sizes: "\<forall>a \<in> set device_order. r_size (sn_regions sn a) \<le> 0xffffffff"
    and cast: "to_compare (compare_code (compare_result (sn_cpu sn))) = compare_result (sn_cpu sn)"
    and malloc: "\<forall>a \<in> set device_order. malloc_ok a"
  shows "parses (read_snapshot to_compare malloc_ok True) (snapshot_bytes sn)
     (vf2_i960_snapshot_destroy sn0) () (saved sn)"
proof -
  let ?e = "vf2_i960_snapshot_destroy sn0"
  let ?c = "sn_cpu sn"
  let ?sn1 = "?e\<lparr>sn_cpu := header_cpu ?c zeroed_cpu\<rparr>"
  let ?sn2 = "?e\<lparr>sn_cpu := (header_cpu ?c zeroed_cpu)\<lparr>compare_result := compare_result ?c,
     reinitialized := reinitialized ?c\<rparr>\<rparr>"
  let ?sn3 = "?e\<lparr>sn_cpu := saved_cpu ?c\<rparr>"
  let ?sn4 = "sn\<lparr>sn_cpu := saved_cpu ?c, sn_regions := (\<lambda>_. null_region)\<rparr>"
  have e: "sn_cpu ?e = zeroed_cpu" "sn_regions ?e = (\<lambda>_. null_region)"
    by (simp_all add: vf2_i960_snapshot_destroy_def vf2_i960_snapshot_init_def)
  have 1: "parses (on_failure (\<lambda>_. VF2_ERROR_BAD_SIZE) id read_header) (header_bytes ?c) ?e
     (VF2_I960_SNAPSHOT_VERSION, compare_code (compare_result ?c), if reinitialized ?c then 1 else 0) ?sn1"
    using parses_on_failure [OF parses_header [OF depth, of ?e]] by (simp add: e)
  have 2: "parses (on_sn_cpu (\<lambda>c. c\<lparr>compare_result := to_compare (compare_code (compare_result ?c)),
      reinitialized := ((if reinitialized ?c then 1 else 0 :: u32) \<noteq> 0)\<rparr>)) [] ?sn1 () ?sn2"
    by (simp add: parses_def on_sn_cpu_def cast)
  have 3: "parses (on_failure (\<lambda>_. VF2_ERROR_IO) discard read_registers) (register_bytes ?c) ?sn2 () ?sn3"
  proof -
    have "saved_cpu ?c = (header_cpu ?c zeroed_cpu)\<lparr>compare_result := compare_result ?c,
        reinitialized := reinitialized ?c,
        registers := (\<lambda>i. if i < VF2_I960_REGISTER_COUNT then registers ?c i else 0),
        local_frames := (\<lambda>i r. if i < 128 \<and> r < VF2_I960_LOCAL_REGISTER_COUNT then local_frames ?c i r else 0)\<rparr>"
      by (cases ?c) (simp add: saved_cpu_def header_cpu_def zeroed_cpu_def cong: if_cong)
    then show ?thesis
      using parses_on_failure [OF parses_registers [of ?c ?sn2], of "\<lambda>_. VF2_ERROR_IO" discard]
      by (simp add: header_cpu_def zeroed_cpu_def cong: if_cong)
  qed
  have 4: "parses (if VF2_I960_SNAPSHOT_VERSION \<ge> 6 then on_failure (\<lambda>_. VF2_ERROR_IO) discard read_geometry
      else pret ()) (geometry_bytes sn) ?sn3 () ?sn4"
  proof -
    have "?sn3\<lparr>sn_geometry_write_start := sn_geometry_write_start sn,
         sn_geometry_read_start := sn_geometry_read_start sn,
         sn_geometry_control := sn_geometry_control sn,
         sn_geometry_program_count := sn_geometry_program_count sn\<rparr> = ?sn4"
      by (cases sn) (simp add: vf2_i960_snapshot_destroy_def vf2_i960_snapshot_init_def)
    then show ?thesis
      using parses_on_failure [OF parses_geometry [of sn ?sn3]] by (simp add: VF2_I960_SNAPSHOT_VERSION_def)
  qed
  have 5: "parses (on_failure (\<lambda>_. VF2_ERROR_BAD_SIZE) discard (pbind file_read_u32 (\<lambda>n.
      pcheck (n = VF2_SNAPSHOT_REGION_COUNT) VF2_ERROR_BAD_SIZE))) (le32_bytes VF2_SNAPSHOT_REGION_COUNT) ?sn4 () ?sn4"
    by (rule parses_on_failure [OF parses_count])
  have 6: "parses (on_failure (\<lambda>_. VF2_ERROR_IO) discard (read_sizes device_order)) (size_bytes sn) ?sn4
      (map (\<lambda>a. r_size (sn_regions sn a)) device_order) ?sn4"
    unfolding size_bytes_def using sizes by (intro parses_on_failure parses_sizes)
  have d: "distinct device_order" by (simp add: device_order_def)
  have 7: "parses (pfor (zip device_order (map (\<lambda>a. r_size (sn_regions sn a)) device_order)) (read_region malloc_ok))
      (data_bytes sn) ?sn4 () (saved sn)"
    using parses_regions [OF d, of malloc_ok ?sn4 "sn_regions sn"] malloc
    by (simp add: data_bytes_def saved_def null_region_def cong: if_cong)
  have 8: "parses (on_failure id discard (pbind (pfor (zip device_order (map (\<lambda>a. r_size (sn_regions sn a))
      device_order)) (read_region malloc_ok)) (\<lambda>_. pbind (if VF2_I960_SNAPSHOT_VERSION = 5 then upgrade_v5 else pret ())
      (\<lambda>_. pcheck True VF2_ERROR_IO)))) (data_bytes sn) ?sn4 () (saved sn)"
  proof (rule parses_on_failure)
    have "parses (pbind (if VF2_I960_SNAPSHOT_VERSION = 5 then upgrade_v5 else pret ())
      (\<lambda>_. pcheck True VF2_ERROR_IO)) [] (saved sn) () (saved sn)"
      by (simp add: parses_def VF2_I960_SNAPSHOT_VERSION_def)
    from parses_bind [OF 7, where q = "\<lambda>_. pbind (if VF2_I960_SNAPSHOT_VERSION = 5 then upgrade_v5 else pret ())
      (\<lambda>_. pcheck True VF2_ERROR_IO)", OF this]
    show "parses (pbind (pfor (zip device_order (map (\<lambda>a. r_size (sn_regions sn a))
      device_order)) (read_region malloc_ok)) (\<lambda>_. pbind (if VF2_I960_SNAPSHOT_VERSION = 5 then upgrade_v5 else pret ())
      (\<lambda>_. pcheck True VF2_ERROR_IO))) (data_bytes sn) ?sn4 () (saved sn)"
      by simp
  qed
  note step [simp] = parsesD [OF 1] parsesD [OF 2, unfolded append_Nil] parsesD [OF 3] parsesD [OF 4] parsesD [OF 5]
    parsesD [OF 6] parsesD [OF 8]
  show ?thesis
    unfolding parses_def read_snapshot_def snapshot_bytes_def append_assoc
    by (simp del: if_split)
qed

section \<open>Properties\<close>

lemma write_file_spec:
  assumes "\<forall>a \<in> set device_order. r_size (sn_regions sn a) \<le> 0xffffffff"
  shows "vf2_i960_snapshot_write_file True room fclose_ok sn old =
    (if fclose_ok \<and> length (snapshot_bytes sn) \<le> room then (Inr (), snapshot_bytes sn)
     else (Inl VF2_ERROR_IO, take room (snapshot_bytes sn)))"
  using emitsD [OF emits_snapshot [OF assms], of "[]" room]
  by (simp add: vf2_i960_snapshot_write_file_def)

text \<open>A proper prefix of what a reader parses to the last byte cannot be read.\<close>

lemma truncated_fails:
  assumes p: "parses p bs sn a sn'" and ext: "extends p" and n: "n < length bs"
  shows "\<exists>e. fst (p (sn, take n bs)) = Inl e"
proof (rule ccontr)
  assume "\<not> ?thesis"
  then obtain b sn1 rest where "p (sn, take n bs) = (Inr b, (sn1, rest))"
    by (cases "p (sn, take n bs)"; cases "fst (p (sn, take n bs))") auto
  from extendsD [OF ext this, of "drop n bs"]
  have "p (sn, bs) = (Inr b, (sn1, rest @ drop n bs))" by simp
  moreover have "p (sn, bs) = (Inr a, (sn', []))" using parsesD [OF p, of "[]"] by simp
  ultimately show False using n by simp
qed

text \<open>C13: a snapshot survives its file. Whatever room the device has, writing either succeeds, and
  reading the file then gives the captured state back, with only the two host-side instruction
  tallies reset, or it fails with an I/O error because the 8504 bytes of header and registers and
  the memories do not fit, and reading the file it left behind fails.\<close>

theorem vf2_i960_snapshot_file_roundtrip:
  assumes "local_frame_depth (sn_cpu sn) \<le> VF2_I960_MAX_LOCAL_FRAMES"
    and "maximum_local_frame_depth (sn_cpu sn) \<le> VF2_I960_MAX_LOCAL_FRAMES"
    and "\<forall>a \<in> set device_order. r_size (sn_regions sn a) \<le> 0xffffffff"
    and "\<forall>c. to_compare (compare_code c) = c"
    and "\<forall>a \<in> set device_order. malloc_ok a"
  shows "let (status, file) = vf2_i960_snapshot_write_file True room True sn old;
             (status', sn') = vf2_i960_snapshot_read_file to_compare malloc_ok True (Some file) sn0
         in if 8504 + (\<Sum>a\<leftarrow>device_order. r_size (sn_regions sn a)) \<le> room
            then status = Inr () \<and> status' = Inr () \<and> sn' = saved sn
            else status = Inl VF2_ERROR_IO \<and> (\<exists>e. status' = Inl e)"
proof -
  have p: "parses (read_snapshot to_compare malloc_ok True) (snapshot_bytes sn)
     (vf2_i960_snapshot_destroy sn0) () (saved sn)"
    using assms by (intro parses_snapshot) simp_all
  show ?thesis
  proof (cases "length (snapshot_bytes sn) \<le> room")
    case True
    then have "vf2_i960_snapshot_write_file True room True sn old = (Inr (), snapshot_bytes sn)"
      using assms(3) by (simp add: write_file_spec)
    moreover have "vf2_i960_snapshot_read_file to_compare malloc_ok True (Some (snapshot_bytes sn)) sn0 =
        (Inr (), saved sn)"
      using parsesD [OF p, of "[]"] by (simp add: vf2_i960_snapshot_read_file_def)
    ultimately show ?thesis using True by (simp add: length_snapshot_bytes)
  next
    case False
    then have "vf2_i960_snapshot_write_file True room True sn old =
        (Inl VF2_ERROR_IO, take room (snapshot_bytes sn))"
      using assms(3) by (simp add: write_file_spec)
    moreover have "\<exists>e. fst (vf2_i960_snapshot_read_file to_compare malloc_ok True
        (Some (take room (snapshot_bytes sn))) sn0) = Inl e"
      using truncated_fails [OF p extends_snapshot, of room] False
      by (auto simp: vf2_i960_snapshot_read_file_def split: prod.split)
    ultimately show ?thesis using False
      by (auto simp: length_snapshot_bytes split: prod.split)
  qed
qed

text \<open>Three bytes of work RAM and a latched compare result.\<close>

definition sample_snapshot :: vf2_i960_snapshot where
  "sample_snapshot = \<lparr>sn_cpu = zeroed_cpu\<lparr>compare_result := COMPARE_GREATER, local_frame_depth := 2\<rparr>,
     sn_geometry_write_start = 16, sn_geometry_read_start = 0, sn_geometry_control = 0,
     sn_geometry_program_count = 0,
     sn_regions = (\<lambda>_. null_region)(WORK_RAM := \<lparr>r_data = Some (\<lambda>i. of_nat (i + 7)), r_size = 3\<rparr>)\<rparr>"

definition sample_cast :: "u32 \<Rightarrow> vf2_i960_compare_result" where
  "sample_cast v = (if v = 1 then COMPARE_LESS else if v = 2 then COMPARE_EQUAL else if v = 3 then COMPARE_GREATER
     else if v = 4 then COMPARE_OVERFLOW else COMPARE_NONE)"

lemma sample_cast: "\<forall>c. sample_cast (compare_code c) = c"
proof
  show "sample_cast (compare_code c) = c" for c by (cases c) (simp_all add: sample_cast_def)
qed

lemma sample_sizes: "(\<Sum>a\<leftarrow>device_order. r_size (sn_regions sample_snapshot a)) = 3"
  "\<forall>a \<in> set device_order. r_size (sn_regions sample_snapshot a) \<le> 0xffffffff"
  by (simp_all add: sample_snapshot_def device_order_def null_region_def)

theorem vf2_i960_snapshot_file_roundtrip_witness:
  "let (status, file) = vf2_i960_snapshot_write_file True 8507 True sample_snapshot [];
       (status', sn') = vf2_i960_snapshot_read_file sample_cast (\<lambda>_. True) True (Some file) sample_snapshot
   in status = Inr () \<and> status' = Inr () \<and> sn' = saved sample_snapshot"
proof -
  have "local_frame_depth (sn_cpu sample_snapshot) \<le> VF2_I960_MAX_LOCAL_FRAMES"
    "maximum_local_frame_depth (sn_cpu sample_snapshot) \<le> VF2_I960_MAX_LOCAL_FRAMES"
    by (simp_all add: sample_snapshot_def zeroed_cpu_def VF2_I960_MAX_LOCAL_FRAMES_def)
  from vf2_i960_snapshot_file_roundtrip [OF this sample_sizes(2) sample_cast, of "\<lambda>_. True" 8507 "[]" sample_snapshot]
  show ?thesis by (simp only: sample_sizes(1)) simp
qed

end
