(* ===== verification/Vf2_Snapshot_Compare.thy ===== *)
theory Vf2_Snapshot_Compare
  imports Vf2_Snapshot_File
begin

text \<open>
  What capturing and restoring a machine keeps, and what the comparisons decide: a comparison
  finds no difference exactly when the compared components are equal, on captured states and on
  live ones alike, and the enumerated runs are the maximal spans of differing bytes.
\<close>

section \<open>Capture and restore\<close>

lemma region_bytes_write [simp]:
  "length bs = r_size r \<Longrightarrow> region_bytes (r\<lparr>r_data := Some (write_bytes d 0 bs)\<rparr>) = bs"
  using read_write_bytes_same [of d 0 bs] by (simp add: region_bytes_def region_mem_def)

lemma region_bytes_block [simp]: "length bs = n \<Longrightarrow> region_bytes \<lparr>r_data = block_of bs, r_size = n\<rparr> = bs"
  using read_write_bytes_same [of "\<lambda>_. 0" 0 bs]
  by (auto simp: region_bytes_def region_mem_def block_of_def read_bytes_def)

lemma missing_block [simp]: "length bs = n \<Longrightarrow> \<not> missing \<lparr>r_data = block_of bs, r_size = n\<rparr>"
  by (auto simp: missing_def block_of_def)

definition copied :: "region \<Rightarrow> region \<Rightarrow> bool" where
  "copied source r \<longleftrightarrow> r_size r = r_size source \<and> region_bytes r = region_bytes source \<and> \<not> missing r"

lemma copy_region_ok:
  assumes "\<not> missing source"
  shows "fst (copy_region True source destination) = Inr ()"
    and "copied source (snd (copy_region True source destination))"
  using assms
  by (simp_all add: copy_region_def copied_def split: option.split) (simp add: missing_def)

lemma capture_loop:
  assumes "\<forall>a \<in> set as. \<not> missing (f a)" and "\<forall>a \<in> set as. malloc_ok a" and "distinct as"
  shows "\<exists>sn'. pfor as (\<lambda>a. on_sn_region a (copy_region (malloc_ok a) (f a))) sn = (Inr (), sn') \<and>
    sn' = sn\<lparr>sn_regions := sn_regions sn'\<rparr> \<and> (\<forall>a \<in> set as. copied (f a) (sn_regions sn' a)) \<and>
    (\<forall>a. a \<notin> set as \<longrightarrow> sn_regions sn' a = sn_regions sn a)"
  using assms
proof (induction as arbitrary: sn)
  case Nil
  show ?case by simp
next
  case (Cons a as)
  let ?r = "snd (copy_region True (f a) (sn_regions sn a))"
  let ?sn1 = "sn\<lparr>sn_regions := (sn_regions sn)(a := ?r)\<rparr>"
  have "\<not> missing (f a)" "malloc_ok a" using Cons.prems by simp_all
  then have step: "on_sn_region a (copy_region (malloc_ok a) (f a)) sn = (Inr (), ?sn1)"
    using copy_region_ok(1) [of "f a" "sn_regions sn a"]
    by (cases "copy_region True (f a) (sn_regions sn a)") (simp add: on_sn_region_def)
  have r: "copied (f a) ?r" using copy_region_ok(2) \<open>\<not> missing (f a)\<close> by blast
  obtain sn' where sn': "pfor as (\<lambda>a. on_sn_region a (copy_region (malloc_ok a) (f a))) ?sn1 = (Inr (), sn')"
    "sn' = ?sn1\<lparr>sn_regions := sn_regions sn'\<rparr>" "\<forall>a \<in> set as. copied (f a) (sn_regions sn' a)"
    "\<forall>b. b \<notin> set as \<longrightarrow> sn_regions sn' b = sn_regions ?sn1 b"
    using Cons.IH [of ?sn1] Cons.prems by auto
  have "sn_regions sn' a = ?r" using sn'(4) Cons.prems(3) by simp
  with r sn'(3) have "\<forall>b \<in> set (a # as). copied (f b) (sn_regions sn' b)" by simp
  moreover have "sn' = sn\<lparr>sn_regions := sn_regions sn'\<rparr>" using sn'(2) by simp
  moreover have "\<forall>b. b \<notin> set (a # as) \<longrightarrow> sn_regions sn' b = sn_regions sn b" using sn'(4) by simp
  ultimately show ?case using sn'(1) by (simp add: step)
qed

text \<open>The state a capture leaves.\<close>

definition captured :: "vf2_i960_cpu \<Rightarrow> 'h vf2_model2a \<Rightarrow> vf2_i960_snapshot \<Rightarrow> bool" where
  "captured cpu m sn \<longleftrightarrow> sn_cpu sn = cpu \<and> sn_model2 sn = machine_model2 m \<and>
     (\<forall>a \<in> set device_order. copied (regions m a) (sn_regions sn a))"

lemma distinct_device_order [simp]: "distinct device_order"
  by (simp add: device_order_def)

lemma machine_ok_missing: "machine_ok m \<Longrightarrow> a \<in> set device_order \<Longrightarrow> \<not> missing (regions m a)"
  by (simp add: machine_ok_def missing_def area_null_def)

lemma capture_ok:
  assumes "machine_ok m" and "\<forall>a \<in> set device_order. malloc_ok a"
  shows "\<exists>sn'. vf2_i960_snapshot_capture malloc_ok cpu m sn = (Inr (), sn') \<and> captured cpu m sn'"
proof -
  let ?sn = "sn\<lparr>sn_cpu := cpu, sn_geometry_write_start := geometry_write_start m,
              sn_geometry_read_start := geometry_read_start m,
              sn_geometry_control := geometry_control m,
              sn_geometry_program_count := geometry_program_count m\<rparr>"
  have "\<forall>a \<in> set device_order. \<not> missing (regions m a)" using assms(1) machine_ok_missing by blast
  from capture_loop [OF this assms(2) distinct_device_order, of ?sn]
  obtain sn' where sn': "pfor device_order (\<lambda>a. on_sn_region a (copy_region (malloc_ok a) (regions m a))) ?sn = (Inr (), sn')"
    "sn' = ?sn\<lparr>sn_regions := sn_regions sn'\<rparr>" "\<forall>a \<in> set device_order. copied (regions m a) (sn_regions sn' a)"
    by blast
  have "captured cpu m sn'"
  proof -
    have "sn_cpu sn' = cpu" "sn_model2 sn' = machine_model2 m"
      by (subst sn'(2), simp add: sn_model2_def machine_model2_def)+
    with sn'(3) show ?thesis by (simp add: captured_def)
  qed
  with sn'(1) show ?thesis by (simp add: vf2_i960_snapshot_capture_def on_failure_def)
qed

text \<open>The parts of a board a snapshot covers, and the rest.\<close>

definition same_devices :: "'h vf2_model2a \<Rightarrow> 'h vf2_model2a \<Rightarrow> bool" where
  "same_devices m m' \<longleftrightarrow> machine_model2 m' = machine_model2 m \<and>
     (\<forall>a \<in> set device_order. r_size (regions m' a) = r_size (regions m a) \<and>
        region_bytes (regions m' a) = region_bytes (regions m a))"

definition same_wiring :: "'h vf2_model2a \<Rightarrow> 'h vf2_model2a \<Rightarrow> bool" where
  "same_wiring m m' \<longleftrightarrow> same_roms m m' \<and> owned_main_data m' = owned_main_data m \<and>
     copro_read_callback m' = copro_read_callback m \<and> copro_write_callback m' = copro_write_callback m \<and>
     copro_callback_context m' = copro_callback_context m \<and> memory_observer m' = memory_observer m \<and>
     memory_observer_context m' = memory_observer_context m \<and> input_mask m' = input_mask m"

lemma same_wiring_refl: "same_wiring m m"
  by (simp add: same_wiring_def same_roms_def)

lemma restore_loop:
  assumes "distinct as" and "set as \<subseteq> set device_order"
    and "\<forall>a \<in> set as. r_data (regions m a) \<noteq> None \<and> length (f a) = r_size (regions m a)"
  defines "m' \<equiv> fold (\<lambda>a. update_area a (\<lambda>d. write_bytes d 0 (f a))) as m"
  shows "(\<forall>a \<in> set as. region_bytes (regions m' a) = f a) \<and> (\<forall>a. r_size (regions m' a) = r_size (regions m a)) \<and>
    (\<forall>a. a \<notin> set as \<longrightarrow> regions m' a = regions m a) \<and> same_wiring m m'"
  using assms(1-3) unfolding m'_def
proof (induction as arbitrary: m)
  case Nil
  show ?case by (simp add: same_wiring_refl)
next
  case (Cons a as)
  let ?m1 = "update_area a (\<lambda>d. write_bytes d 0 (f a)) m"
  let ?m2 = "fold (\<lambda>a. update_area a (\<lambda>d. write_bytes d 0 (f a))) as ?m1"
  have sz: "r_size (regions ?m1 b) = r_size (regions m b)" for b by (simp add: update_area_def)
  have other: "regions ?m1 b = regions m b" if "b \<noteq> a" for b using that by (simp add: update_area_def)
  have "\<forall>b \<in> set as. r_data (regions ?m1 b) \<noteq> None \<and> length (f b) = r_size (regions ?m1 b)"
    using Cons.prems by (auto simp: update_area_def)
  then have ih: "(\<forall>b \<in> set as. region_bytes (regions ?m2 b) = f b) \<and> (\<forall>b. r_size (regions ?m2 b) = r_size (regions ?m1 b)) \<and>
    (\<forall>b. b \<notin> set as \<longrightarrow> regions ?m2 b = regions ?m1 b) \<and> same_wiring ?m1 ?m2"
    using Cons.IH [of ?m1] Cons.prems by simp
  have a: "region_bytes (regions ?m1 a) = f a"
    using Cons.prems(3) by (auto simp: update_area_def)
  have "a \<noteq> MAIN_ROM" "a \<noteq> MAIN_DATA" using Cons.prems(2) by simp_all
  then have w: "same_wiring m ?m1" by (simp add: same_wiring_def same_roms_def update_area_def)
  have "same_wiring m ?m2" using w ih by (simp add: same_wiring_def same_roms_def)
  moreover have "region_bytes (regions ?m2 a) = f a" using ih Cons.prems(1) a by simp
  ultimately show ?case using ih sz other by auto
qed

lemma restore_ok:
  assumes "\<forall>a \<in> set device_order. \<not> missing (sn_regions sn a)" and ok: "machine_ok (sys_machine t)"
    and sizes: "\<forall>a \<in> set device_order. r_size (sn_regions sn a) = r_size (regions (sys_machine t) a)"
  shows "\<exists>m'. vf2_i960_snapshot_restore sn t = (Inr (), t\<lparr>sys_cpu := sn_cpu sn, sys_machine := m'\<rparr>) \<and>
    machine_model2 m' = sn_model2 sn \<and> same_wiring (sys_machine t) m' \<and>
    (\<forall>a \<in> set device_order. r_size (regions m' a) = r_size (sn_regions sn a) \<and>
       region_bytes (regions m' a) = region_bytes (sn_regions sn a))"
proof -
  let ?m = "sys_machine t"
  let ?f = "\<lambda>a. region_bytes (sn_regions sn a)"
  let ?m1 = "fold (\<lambda>a. update_area a (\<lambda>d. write_bytes d 0 (?f a))) device_order ?m"
  let ?m2 = "?m1\<lparr>geometry_write_start := sn_geometry_write_start sn,
                 geometry_read_start := sn_geometry_read_start sn,
                 geometry_control := sn_geometry_control sn,
                 geometry_program_count := sn_geometry_program_count sn\<rparr>"
  have "\<forall>a \<in> set device_order. r_data (regions ?m a) \<noteq> None \<and> length (?f a) = r_size (regions ?m a)"
    using ok sizes by (simp add: machine_ok_def area_null_def)
  note l = restore_loop [OF distinct_device_order subset_refl this]
  have "\<not> (\<exists>a \<in> set device_order. r_size (sn_regions sn a) \<noteq> r_size (regions ?m a) \<or>
      missing (sn_regions sn a) \<or> missing (regions ?m a))"
    using assms machine_ok_missing by blast
  then have "vf2_i960_snapshot_restore sn t = (Inr (), t\<lparr>sys_cpu := sn_cpu sn, sys_machine := ?m2\<rparr>)"
    by (simp only: vf2_i960_snapshot_restore_def Let_def if_False)
  moreover have "machine_model2 ?m2 = sn_model2 sn" by (simp add: machine_model2_def sn_model2_def)
  moreover have "same_wiring ?m ?m2" using l by (simp add: same_wiring_def same_roms_def)
  moreover have "\<forall>a \<in> set device_order. r_size (regions ?m2 a) = r_size (sn_regions sn a) \<and>
       region_bytes (regions ?m2 a) = region_bytes (sn_regions sn a)"
    using l sizes by simp
  ultimately show ?thesis by blast
qed

section \<open>What the comparisons decide\<close>

lemma note_difference_fields [simp]:
  "df_equal (note_difference c i e a d) = False"
  "df_differing_bytes (note_difference c i e a d) = df_differing_bytes d + 1"
  by (simp_all add: note_difference_def)

lemma no_difference_fields [simp]: "df_equal no_difference" "df_differing_bytes no_difference = 0"
  by (simp_all add: no_difference_def)

definition differing :: "(nat \<times> u32 \<times> u32) list \<Rightarrow> nat" where
  "differing xs = length (filter (\<lambda>(i, e, a). e \<noteq> a) xs)"

lemma differing_0: "differing xs = 0 \<longleftrightarrow> (\<forall>(i, e, a) \<in> set xs. e = a)"
  by (auto simp: differing_def filter_empty_conv)

lemma compare_values_none: "differing xs = 0 \<Longrightarrow> compare_values c xs d = d"
  unfolding compare_values_def by (induction xs) (auto simp: differing_def)

lemma compare_values_fields [simp]:
  "df_equal (compare_values c xs d) \<longleftrightarrow> df_equal d \<and> differing xs = 0"
  "df_differing_bytes (compare_values c xs d) = df_differing_bytes d + differing xs"
  unfolding compare_values_def by (induction xs arbitrary: d) (auto simp: differing_def)

text \<open>The number of differences each comparison adds.\<close>

definition register_differences :: "vf2_i960_cpu \<Rightarrow> vf2_i960_cpu \<Rightarrow> nat" where
  "register_differences e a = differing (map (\<lambda>i. (i, registers e i, registers a i)) [0..<VF2_I960_REGISTER_COUNT])"

definition frame_differences :: "vf2_i960_cpu \<Rightarrow> vf2_i960_cpu \<Rightarrow> nat" where
  "frame_differences e a = differing (map (\<lambda>(i, r). (i * VF2_I960_LOCAL_REGISTER_COUNT + r, local_frames e i r,
     local_frames a i r)) (List.product [0..<unat (local_frame_depth e)] [0..<VF2_I960_LOCAL_REGISTER_COUNT]))"

definition model2_differences :: "u32 list \<Rightarrow> u32 list \<Rightarrow> nat" where
  "model2_differences e a = differing (map (\<lambda>i. (i, e ! i, a ! i)) [0..<4])"

definition byte_differences :: "u8 list \<Rightarrow> u8 list \<Rightarrow> nat" where
  "byte_differences e a = length (filter (\<lambda>i. e ! i \<noteq> a ! i) [0..<length e])"

definition region_differences :: "(area \<Rightarrow> region) \<Rightarrow> (area \<Rightarrow> region) \<Rightarrow> nat" where
  "region_differences e a =
     (if \<exists>x \<in> set device_order. r_size (e x) \<noteq> r_size (a x) then 1
      else \<Sum>x\<leftarrow>device_order. byte_differences (region_bytes (e x)) (region_bytes (a x)))"

lemma compare_cpu_states_fields [simp]:
  "df_equal (compare_cpu_states live e a d) \<longleftrightarrow> df_equal d \<and> \<not> cpu_states_differ e a"
  "df_differing_bytes (compare_cpu_states live e a d) = df_differing_bytes d + of_bool (cpu_states_differ e a)"
  by (simp_all add: compare_cpu_states_def)

lemma compare_groups_fields [simp]:
  "df_equal (compare_registers e a d) \<longleftrightarrow> df_equal d \<and> register_differences e a = 0"
  "df_differing_bytes (compare_registers e a d) = df_differing_bytes d + register_differences e a"
  "df_equal (compare_frames e a d) \<longleftrightarrow> df_equal d \<and> frame_differences e a = 0"
  "df_differing_bytes (compare_frames e a d) = df_differing_bytes d + frame_differences e a"
  "df_equal (compare_model2 v w d) \<longleftrightarrow> df_equal d \<and> model2_differences v w = 0"
  "df_differing_bytes (compare_model2 v w d) = df_differing_bytes d + model2_differences v w"
  by (simp_all add: compare_registers_def compare_frames_def compare_model2_def register_differences_def
      frame_differences_def model2_differences_def)

lemma compare_bytes_fields:
  assumes "r_size e = n" and "r_size a = n"
  shows "df_equal (compare_bytes c (region_mem e) (region_mem a) n d) \<longleftrightarrow>
      df_equal d \<and> byte_differences (region_bytes e) (region_bytes a) = 0"
    and "df_differing_bytes (compare_bytes c (region_mem e) (region_mem a) n d) =
      df_differing_bytes d + byte_differences (region_bytes e) (region_bytes a)"
proof -
  let ?xs = "map (\<lambda>i. (i, ucast (region_mem e i) :: u32, ucast (region_mem a i))) [0..<n]"
  have count: "byte_differences (region_bytes e) (region_bytes a) = differing ?xs"
    using assms by (auto simp: byte_differences_def differing_def filter_map comp_def region_bytes_def
        ucast_u8_u32_inj intro!: arg_cong [where f = length] filter_cong)
  have same: "differing ?xs = 0" if "n = 0 \<or> read_bytes (region_mem e) 0 n = read_bytes (region_mem a) 0 n"
    using that by (auto simp: differing_0 read_bytes_def list_eq_iff_nth_eq)
  show "df_equal (compare_bytes c (region_mem e) (region_mem a) n d) \<longleftrightarrow>
      df_equal d \<and> byte_differences (region_bytes e) (region_bytes a) = 0"
    "df_differing_bytes (compare_bytes c (region_mem e) (region_mem a) n d) =
      df_differing_bytes d + byte_differences (region_bytes e) (region_bytes a)"
    using same by (auto simp: compare_bytes_def count)
qed

lemma compare_sizes_same:
  "\<forall>(i, e, a) \<in> set xs. e = a \<Longrightarrow> compare_sizes xs d = (True, d)"
  by (induction xs) auto

lemma compare_sizes_other:
  "\<exists>(i, e, a) \<in> set xs. e \<noteq> a \<Longrightarrow>
   \<exists>d'. compare_sizes xs d = (False, d') \<and> \<not> df_equal d' \<and> df_differing_bytes d' = df_differing_bytes d + 1"
proof (induction xs)
  case (Cons x xs)
  obtain i e a where x: "x = (i, e, a)" by (rule prod_cases3)
  show ?case
  proof (cases "e = a")
    case True
    then have "\<exists>(i, e, a) \<in> set xs. e \<noteq> a" using Cons.prems x by simp
    from Cons.IH [OF this] show ?thesis using True by (simp add: x)
  next
    case False
    then show ?thesis by (simp add: x)
  qed
qed simp

lemma device_order_nth: "set (map (\<lambda>i. device_order ! i) [0..<unat VF2_SNAPSHOT_REGION_COUNT]) = set device_order"
proof -
  have "length device_order = unat VF2_SNAPSHOT_REGION_COUNT"
    by (simp add: device_order_def VF2_SNAPSHOT_REGION_COUNT_def)
  then show ?thesis by (metis map_nth)
qed

lemma compare_regions_fields [simp]:
  "df_equal (compare_regions e a d) \<longleftrightarrow> df_equal d \<and> region_differences e a = 0"
  "df_differing_bytes (compare_regions e a d) = df_differing_bytes d + region_differences e a"
proof -
  let ?sizes = "map (\<lambda>i. (i, r_size (e (device_order ! i)), r_size (a (device_order ! i))))
                 [0..<unat VF2_SNAPSHOT_REGION_COUNT]"
  let ?bytes = "\<lambda>x. compare_bytes (region_name x) (region_mem (e x)) (region_mem (a x)) (r_size (e x))"
  have mem: "(\<exists>(i, x, y) \<in> set ?sizes. x \<noteq> y) \<longleftrightarrow> (\<exists>x \<in> set device_order. r_size (e x) \<noteq> r_size (a x))"
    by (subst device_order_nth [symmetric]) (simp add: image_iff)
  have fold: "(df_equal (fold ?bytes xs d) \<longleftrightarrow> df_equal d \<and>
        (\<Sum>x\<leftarrow>xs. byte_differences (region_bytes (e x)) (region_bytes (a x))) = 0) \<and>
      df_differing_bytes (fold ?bytes xs d) = df_differing_bytes d +
        (\<Sum>x\<leftarrow>xs. byte_differences (region_bytes (e x)) (region_bytes (a x)))"
    if "\<forall>x \<in> set xs. r_size (e x) = r_size (a x)" for xs d
    using that
  proof (induction xs arbitrary: d)
    case Nil
    show ?case by simp
  next
    case (Cons x xs)
    then have "r_size (a x) = r_size (e x)" "\<forall>x \<in> set xs. r_size (e x) = r_size (a x)" by simp_all
    note f = compare_bytes_fields [OF refl this(1)] and ih = Cons.IH [OF this(2), of "?bytes x d"]
    show ?case by (simp only: fold_simps ih f list.map sum_list.Cons add_eq_0_iff_both_eq_0 add.assoc conj_assoc)
  qed
  have "(df_equal (compare_regions e a d) \<longleftrightarrow> df_equal d \<and> region_differences e a = 0) \<and>
    df_differing_bytes (compare_regions e a d) = df_differing_bytes d + region_differences e a"
  proof (cases "\<exists>x \<in> set device_order. r_size (e x) \<noteq> r_size (a x)")
    case True
    with mem obtain d' where "compare_sizes ?sizes d = (False, d')" "\<not> df_equal d'"
      "df_differing_bytes d' = df_differing_bytes d + 1"
      using compare_sizes_other [of ?sizes d] by blast
    then show ?thesis using True by (simp add: compare_regions_def region_differences_def del: device_order_areas)
  next
    case False
    with mem have "\<forall>(i, x, y) \<in> set ?sizes. x = y" by blast
    then have "compare_sizes ?sizes d = (True, d)" by (rule compare_sizes_same)
    then show ?thesis using False fold [of device_order d]
      by (simp add: compare_regions_def region_differences_def del: device_order_areas)
  qed
  then show "df_equal (compare_regions e a d) \<longleftrightarrow> df_equal d \<and> region_differences e a = 0"
    "df_differing_bytes (compare_regions e a d) = df_differing_bytes d + region_differences e a" by simp_all
qed

lemma byte_differences_0: "length e = length a \<Longrightarrow> byte_differences e a = 0 \<longleftrightarrow> e = a"
  by (simp add: byte_differences_def filter_empty_conv list_eq_iff_nth_eq [of e a] Ball_def)

lemma region_differences_0:
  "region_differences e a = 0 \<longleftrightarrow>
   (\<forall>x \<in> set device_order. r_size (e x) = r_size (a x) \<and> region_bytes (e x) = region_bytes (a x))"
proof (cases "\<exists>x \<in> set device_order. r_size (e x) \<noteq> r_size (a x)")
  case True
  then have "region_differences e a = 1" by (simp only: region_differences_def if_True)
  with True show ?thesis by (metis zero_neq_one)
next
  case False
  then have "region_differences e a = (\<Sum>x\<leftarrow>device_order. byte_differences (region_bytes (e x)) (region_bytes (a x)))"
    by (simp only: region_differences_def if_False)
  then have "region_differences e a = 0 \<longleftrightarrow>
      (\<forall>x \<in> set device_order. byte_differences (region_bytes (e x)) (region_bytes (a x)) = 0)"
    by (simp only: sum_list_eq_0_iff set_map ball_simps)
  moreover have "\<forall>x \<in> set device_order. byte_differences (region_bytes (e x)) (region_bytes (a x)) = 0 \<longleftrightarrow>
      region_bytes (e x) = region_bytes (a x)"
    using False by (metis byte_differences_0 length_region_bytes)
  ultimately show ?thesis using False by metis
qed

lemma register_differences_0: "register_differences e a = 0 \<longleftrightarrow> (\<forall>i < VF2_I960_REGISTER_COUNT. registers e i = registers a i)"
  by (auto simp: register_differences_def differing_0)

lemma frame_differences_0:
  "frame_differences e a = 0 \<longleftrightarrow> (\<forall>i < unat (local_frame_depth e). \<forall>r < VF2_I960_LOCAL_REGISTER_COUNT.
     local_frames e i r = local_frames a i r)"
  by (auto simp: frame_differences_def differing_0)

lemma model2_differences_0:
  assumes "length v = 4" and "length w = 4"
  shows "model2_differences v w = 0 \<longleftrightarrow> v = w"
  using assms by (auto simp: model2_differences_def differing_0 list_eq_iff_nth_eq)

text \<open>The states a comparison cannot tell apart.\<close>

definition same_cpu :: "vf2_i960_cpu \<Rightarrow> vf2_i960_cpu \<Rightarrow> bool" where
  "same_cpu e a \<longleftrightarrow> \<not> cpu_states_differ e a \<and>
     (\<forall>i < VF2_I960_REGISTER_COUNT. registers e i = registers a i) \<and>
     (\<forall>i < unat (local_frame_depth e). \<forall>r < VF2_I960_LOCAL_REGISTER_COUNT. local_frames e i r = local_frames a i r)"

definition same_regions :: "(area \<Rightarrow> region) \<Rightarrow> (area \<Rightarrow> region) \<Rightarrow> bool" where
  "same_regions e a \<longleftrightarrow>
     (\<forall>x \<in> set device_order. r_size (e x) = r_size (a x) \<and> region_bytes (e x) = region_bytes (a x))"

lemma same_regions_iff: "same_regions e a \<longleftrightarrow> region_differences e a = 0"
  by (simp only: same_regions_def region_differences_0)

lemma length_model2 [simp]: "length (sn_model2 sn) = 4" "length (machine_model2 m) = 4"
  by (simp_all add: sn_model2_def machine_model2_def)

text \<open>C15: the snapshot comparison is exact. It reports equality exactly when the two states have the
  same control registers, general registers, active frames, geometry registers and memories, and it
  counts at least one difference otherwise.\<close>

theorem vf2_i960_snapshot_compare_exact:
  "let d = vf2_i960_snapshot_compare e a
   in (df_equal d \<longleftrightarrow> same_cpu (sn_cpu e) (sn_cpu a) \<and> sn_model2 e = sn_model2 a \<and>
                      same_regions (sn_regions e) (sn_regions a)) \<and>
      (df_equal d \<longleftrightarrow> df_differing_bytes d = 0)"
  unfolding vf2_i960_snapshot_compare_def compare_memory_regions_def Let_def same_cpu_def same_regions_def
  by (auto simp: region_differences_0 register_differences_0 frame_differences_0 model2_differences_0
      simp del: device_order_areas)

lemma live_equal:
  "df_equal (vf2_i960_compare_live_state c m c' m') \<longleftrightarrow>
   same_cpu c c' \<and> machine_model2 m = machine_model2 m' \<and> same_regions (regions m) (regions m')"
proof (cases "local_frame_depth c = local_frame_depth c'")
  case True
  then show ?thesis
    unfolding vf2_i960_compare_live_state_def Let_def same_cpu_def same_regions_def
    by (auto simp: region_differences_0 register_differences_0 frame_differences_0 model2_differences_0
        simp del: device_order_areas)
next
  case False
  then show ?thesis
    by (simp add: vf2_i960_compare_live_state_def same_cpu_def cpu_states_differ_def)
qed

lemma region_differences_cong:
  assumes "same_regions e e'" and "same_regions a a'"
  shows "region_differences e a = region_differences e' a'"
proof -
  have "(\<exists>x \<in> set device_order. r_size (e x) \<noteq> r_size (a x)) \<longleftrightarrow> (\<exists>x \<in> set device_order. r_size (e' x) \<noteq> r_size (a' x))"
    using assms unfolding same_regions_def by metis
  moreover have "map (\<lambda>x. byte_differences (region_bytes (e x)) (region_bytes (a x))) device_order =
      map (\<lambda>x. byte_differences (region_bytes (e' x)) (region_bytes (a' x))) device_order"
    using assms unfolding same_regions_def by simp
  ultimately show ?thesis by (simp only: region_differences_def)
qed

lemma captured_regions: "captured c m sn \<Longrightarrow> same_regions (regions m) (sn_regions sn)"
  by (simp add: captured_def same_regions_def copied_def)

text \<open>C14: comparing two live machines without buffers gives the same verdict as capturing both and
  comparing the snapshots, and the same number of differences unless the frame depths differ.\<close>

theorem vf2_i960_compare_live_state_agrees:
  assumes "machine_ok m" and "machine_ok m'" and "\<forall>a \<in> set device_order. malloc_ok a"
    and "vf2_i960_snapshot_capture malloc_ok c m sn0 = (r, sn)"
    and "vf2_i960_snapshot_capture malloc_ok c' m' sn0' = (r', sn')"
  shows "let live = vf2_i960_compare_live_state c m c' m'; stored = vf2_i960_snapshot_compare sn sn'
         in df_equal live = df_equal stored \<and>
            (local_frame_depth c = local_frame_depth c' \<longrightarrow>
               df_differing_bytes live = df_differing_bytes stored)"
proof -
  have cap: "captured c m sn" "captured c' m' sn'"
    using capture_ok [OF assms(1,3), of c sn0] capture_ok [OF assms(2,3), of c' sn0'] assms(4,5) by auto
  have sn: "sn_cpu sn = c" "sn_cpu sn' = c'" "sn_model2 sn = machine_model2 m" "sn_model2 sn' = machine_model2 m'"
    using cap by (simp_all add: captured_def)
  have reg: "same_regions (regions m) (sn_regions sn)" "same_regions (regions m') (sn_regions sn')"
    using cap captured_regions by blast+
  have "same_regions (regions m) (regions m') \<longleftrightarrow> same_regions (sn_regions sn) (sn_regions sn')"
    by (simp only: same_regions_iff region_differences_cong [OF reg])
  moreover have "df_differing_bytes (vf2_i960_compare_live_state c m c' m') = df_differing_bytes (vf2_i960_snapshot_compare sn sn')"
    if "local_frame_depth c = local_frame_depth c'"
    using that region_differences_cong [OF reg]
    by (simp add: vf2_i960_compare_live_state_def vf2_i960_snapshot_compare_def compare_memory_regions_def sn)
  moreover have "df_equal (vf2_i960_snapshot_compare sn sn') \<longleftrightarrow> same_cpu c c' \<and> machine_model2 m = machine_model2 m' \<and>
      same_regions (sn_regions sn) (sn_regions sn')"
    unfolding vf2_i960_snapshot_compare_def compare_memory_regions_def same_cpu_def same_regions_def
    by (auto simp: sn region_differences_0 register_differences_0 frame_differences_0 model2_differences_0
        simp del: device_order_areas)
  ultimately show ?thesis by (simp add: live_equal Let_def)
qed

section \<open>Resuming from a file\<close>

lemma saved_region_bytes [simp]: "region_bytes (saved_region r) = region_bytes r" "r_size (saved_region r) = r_size r"
    "\<not> missing (saved_region r)"
  by (simp_all add: saved_region_def)

lemma saved_same_cpu:
  assumes "local_frame_depth c \<le> VF2_I960_MAX_LOCAL_FRAMES"
  shows "same_cpu c (saved_cpu c)"
proof -
  have "unat (local_frame_depth c) \<le> 128"
    using assms by (simp add: word_le_nat_alt VF2_I960_MAX_LOCAL_FRAMES_def)
  then show ?thesis by (simp add: same_cpu_def saved_cpu_def cpu_states_differ_def)
qed

lemma device_sizes: "(\<Sum>a\<leftarrow>device_order. device_size a) = 11284752"
  by (simp add: device_order_def)

text \<open>C12: a machine resumes from its snapshot file. Captured, written to a device with room for the
  11.3 million bytes, read back and restored into any board, it goes on from the processor state and
  the memories it was captured with, on the ROMs and callbacks of that board, and the live comparison
  with the machine captured finds no difference.\<close>

theorem vf2_i960_snapshot_resume:
  fixes s t :: "'h sys"
  assumes "machine_ok (sys_machine s)" and "machine_ok (sys_machine t)"
    and "local_frame_depth (sys_cpu s) \<le> VF2_I960_MAX_LOCAL_FRAMES"
    and "maximum_local_frame_depth (sys_cpu s) \<le> VF2_I960_MAX_LOCAL_FRAMES"
    and "\<forall>c. to_compare (compare_code c) = c" and "\<forall>a \<in> set device_order. malloc_ok a"
    and "8504 + 11284752 \<le> room"
  shows "\<exists>sn file sn' m'.
    vf2_i960_snapshot_capture malloc_ok (sys_cpu s) (sys_machine s) sn0 = (Inr (), sn) \<and>
    vf2_i960_snapshot_write_file True room True sn old = (Inr (), file) \<and>
    vf2_i960_snapshot_read_file to_compare malloc_ok True (Some file) sn1 = (Inr (), sn') \<and>
    vf2_i960_snapshot_restore sn' t = (Inr (), t\<lparr>sys_cpu := saved_cpu (sys_cpu s), sys_machine := m'\<rparr>) \<and>
    same_devices (sys_machine s) m' \<and> same_wiring (sys_machine t) m' \<and>
    df_equal (vf2_i960_compare_live_state (sys_cpu s) (sys_machine s) (saved_cpu (sys_cpu s)) m')"
proof -
  obtain sn where capture: "vf2_i960_snapshot_capture malloc_ok (sys_cpu s) (sys_machine s) sn0 = (Inr (), sn)"
    and cap: "captured (sys_cpu s) (sys_machine s) sn"
    using capture_ok [OF assms(1,6), of "sys_cpu s" sn0] by blast
  have sz: "r_size (sn_regions sn a) = device_size a" if "a \<in> set device_order" for a
    using cap that assms(1) unfolding captured_def copied_def machine_ok_def area_size_def by metis
  have small: "\<forall>a \<in> set device_order. r_size (sn_regions sn a) \<le> 0xffffffff"
    using sz by (simp add: device_order_def)
  have "(\<Sum>a\<leftarrow>device_order. r_size (sn_regions sn a)) = 11284752"
    using sz device_sizes by (metis (mono_tags, lifting) map_eq_conv)
  then have written: "vf2_i960_snapshot_write_file True room True sn old = (Inr (), snapshot_bytes sn)"
    using small assms(7) by (simp add: write_file_spec length_snapshot_bytes)
  have c: "sn_cpu sn = sys_cpu s" using cap by (simp add: captured_def)
  have p: "parses (read_snapshot to_compare malloc_ok True) (snapshot_bytes sn)
     (vf2_i960_snapshot_destroy sn1) () (saved sn)"
    using assms small by (intro parses_snapshot) (simp_all add: c)
  have reread: "vf2_i960_snapshot_read_file to_compare malloc_ok True (Some (snapshot_bytes sn)) sn1 = (Inr (), saved sn)"
    using parsesD [OF p, of "[]"] by (simp add: vf2_i960_snapshot_read_file_def)
  have saved: "\<forall>a \<in> set device_order. sn_regions (saved sn) a = saved_region (sn_regions sn a)"
    by (simp add: saved_def)
  have "\<forall>a \<in> set device_order. \<not> missing (sn_regions (saved sn) a)" using saved by simp
  moreover have "\<forall>a \<in> set device_order. r_size (sn_regions (saved sn) a) = r_size (regions (sys_machine t) a)"
    using saved sz assms(2) unfolding machine_ok_def area_size_def by simp
  ultimately obtain m' where m': "vf2_i960_snapshot_restore (saved sn) t =
      (Inr (), t\<lparr>sys_cpu := sn_cpu (saved sn), sys_machine := m'\<rparr>)"
    "machine_model2 m' = sn_model2 (saved sn)" "same_wiring (sys_machine t) m'"
    "\<forall>a \<in> set device_order. r_size (regions m' a) = r_size (sn_regions (saved sn) a) \<and>
       region_bytes (regions m' a) = region_bytes (sn_regions (saved sn) a)"
    using restore_ok [OF _ assms(2), of "saved sn"] by blast
  have "same_devices (sys_machine s) m'"
    using m' cap saved by (simp add: same_devices_def captured_def copied_def) (simp add: saved_def sn_model2_def)
  moreover from this have "df_equal (vf2_i960_compare_live_state (sys_cpu s) (sys_machine s) (saved_cpu (sys_cpu s)) m')"
    using saved_same_cpu [OF assms(3)] by (simp add: live_equal same_devices_def same_regions_def)
  moreover have "sn_cpu (saved sn) = saved_cpu (sys_cpu s)" by (simp add: saved_def c)
  ultimately show ?thesis using capture written reread m' by auto
qed

section \<open>The enumerated runs are the maximal ones\<close>

definition maximal_run :: "memory \<Rightarrow> memory \<Rightarrow> nat \<Rightarrow> nat \<Rightarrow> nat \<Rightarrow> bool" where
  "maximal_run e a n i k \<longleftrightarrow> 0 < k \<and> i + k \<le> n \<and> (\<forall>j. i \<le> j \<and> j < i + k \<longrightarrow> e j \<noteq> a j) \<and>
     (i = 0 \<or> e (i - 1) = a (i - 1)) \<and> (i + k = n \<or> e (i + k) = a (i + k))"

lemma run_end_spec:
  assumes "offset \<le> n"
  shows "run_end e a n offset \<le> n \<and> (\<forall>j. offset \<le> j \<and> j < run_end e a n offset \<longrightarrow> e j \<noteq> a j) \<and>
    (run_end e a n offset < n \<longrightarrow> e (run_end e a n offset) = a (run_end e a n offset))"
  using assms
proof (induction e a n offset rule: run_end.induct)
  case (1 e a n offset)
  show ?case
  proof (cases "offset < n \<and> e offset \<noteq> a offset")
    case True
    then have "run_end e a n offset = run_end e a n (offset + 1)" by (subst run_end.simps) simp
    moreover have "offset + 1 \<le> n" using True by simp
    ultimately show ?thesis using 1(1) [OF True \<open>offset + 1 \<le> n\<close>] True
      by (metis add.commute le_neq_implies_less less_iff_succ_less_eq)
  next
    case False
    then have "run_end e a n offset = offset" by (subst run_end.simps) auto
    with False 1(2) show ?thesis by auto
  qed
qed

text \<open>The runs from an offset on, as a list.\<close>

function runs_from :: "memory \<Rightarrow> memory \<Rightarrow> nat \<Rightarrow> nat \<Rightarrow> (nat \<times> nat) list" where
  "runs_from e a n offset =
     (if offset < n then
        if e offset = a offset then runs_from e a n (offset + 1)
        else (offset, run_end e a n offset - offset) # runs_from e a n (run_end e a n offset)
      else [])"
  by pat_completeness auto

termination
  by (relation "measure (\<lambda>(e, a, n, offset). n - offset)")
    (auto dest: run_end_progress intro: diff_less_mono2)

declare runs_from.simps [simp del]

definition record_runs :: "nat option \<Rightarrow> vf2_i960_snapshot_run list \<Rightarrow> run_tally \<Rightarrow> run_tally" where
  "record_runs run_capacity = fold (add_run run_capacity)"

lemma record_runs_found:
  "rt_found (record_runs c rs t) = rt_found t + length rs"
  "rt_total (record_runs c rs t) = rt_total t + sum_list (map rn_length rs)"
  by (induction rs arbitrary: t) (simp_all add: record_runs_def add_run_def)

lemma record_runs_stored:
  "rt_stored (record_runs None rs t) = rt_stored t"
  "length (rt_stored t) \<le> n \<Longrightarrow> rt_stored (record_runs (Some n) rs t) = take n (rt_stored t @ rs)"
  by (induction rs arbitrary: t) (auto simp: record_runs_def add_run_def take_Cons')

lemma scan_region_runs:
  "scan_region c name e a n offset t =
   record_runs c (map (\<lambda>(i, k). \<lparr>rn_name = name, rn_offset = i, rn_length = k\<rparr>) (runs_from e a n offset)) t"
proof (induction e a n offset arbitrary: t rule: runs_from.induct)
  case (1 e a n offset)
  then show ?case
    by (subst scan_region.simps, subst runs_from.simps) (simp add: record_runs_def Let_def)
qed

text \<open>From a boundary on, the list holds exactly the maximal runs, in ascending order.\<close>

lemma runs_from_maximal:
  assumes "offset = 0 \<or> offset \<ge> n \<or> e offset = a offset \<or> e (offset - 1) = a (offset - 1)"
  shows "set (runs_from e a n offset) = {(i, k). offset \<le> i \<and> maximal_run e a n i k} \<and>
    sorted_wrt (\<lambda>x y. fst x + snd x < fst y) (runs_from e a n offset) \<and>
    sum_list (map snd (runs_from e a n offset)) = card {j. offset \<le> j \<and> j < n \<and> e j \<noteq> a j}"
  using assms
proof (induction e a n offset rule: runs_from.induct)
  case (1 e a n offset)
  let ?all = "\<lambda>x. {(i, k). x \<le> i \<and> maximal_run e a n i k}"
  let ?bytes = "\<lambda>x. {j. x \<le> j \<and> j < n \<and> e j \<noteq> a j}"
  consider (stop) "\<not> offset < n" | (same) "offset < n" "e offset = a offset" | (run) "offset < n" "e offset \<noteq> a offset"
    by blast
  then show ?case
  proof cases
    case stop
    then have "runs_from e a n offset = []" by (subst runs_from.simps) simp
    moreover have "?all offset = {}" using stop by (auto simp: maximal_run_def)
    moreover have "?bytes offset = {}" using stop by auto
    ultimately show ?thesis by (simp only: list.set list.map sum_list.Nil card.empty sorted_wrt.simps)
  next
    case same
    have r: "runs_from e a n offset = runs_from e a n (offset + 1)" using same by (subst runs_from.simps) simp
    have "\<not> maximal_run e a n offset k" for k using same by (auto simp: maximal_run_def)
    then have all: "?all offset = ?all (offset + 1)" by (auto simp: Suc_le_eq order.order_iff_strict)
    have bytes: "?bytes offset = ?bytes (offset + 1)" using same by (auto simp: Suc_le_eq order.order_iff_strict)
    have "e (offset + 1 - 1) = a (offset + 1 - 1)" using same by simp
    then show ?thesis using 1(1) [OF same] by (simp only: r all bytes) blast
  next
    case run
    let ?e = "run_end e a n offset"
    have e: "?e \<le> n" "\<forall>j. offset \<le> j \<and> j < ?e \<longrightarrow> e j \<noteq> a j" "?e < n \<longrightarrow> e ?e = a ?e"
      using run_end_spec [of offset n e a] run by simp_all
    have lt: "offset < ?e" using run_end_progress run by blast
    have r: "runs_from e a n offset = (offset, ?e - offset) # runs_from e a n ?e"
      using run by (subst runs_from.simps) simp
    have ih: "set (runs_from e a n ?e) = ?all ?e \<and> sorted_wrt (\<lambda>x y. fst x + snd x < fst y) (runs_from e a n ?e) \<and>
        sum_list (map snd (runs_from e a n ?e)) = card (?bytes ?e)"
      using 1(2) [OF run] e(3) by (meson not_le)
    have start: "offset = 0 \<or> e (offset - 1) = a (offset - 1)" using 1(3) run by auto
    have first: "maximal_run e a n offset (?e - offset)"
      using e lt start by (auto simp: maximal_run_def)
    have only: "i = offset \<and> k = ?e - offset" if m: "maximal_run e a n i k" and i: "offset \<le> i" "i < ?e" for i k
    proof -
      have "i = offset"
      proof (rule ccontr)
        assume "i \<noteq> offset"
        then have "offset \<le> i - 1" "i - 1 < ?e" "i \<noteq> 0" using i by auto
        then show False using m e(2) by (auto simp: maximal_run_def)
      qed
      moreover have "offset + k = ?e"
      proof (rule linorder_cases [of "offset + k" ?e])
        assume "offset + k < ?e"
        then show ?thesis using m e(1,2) \<open>i = offset\<close> by (auto simp: maximal_run_def)
      next
        assume "?e < offset + k"
        then show ?thesis using m e lt \<open>i = offset\<close> by (auto simp: maximal_run_def)
      qed
      ultimately show ?thesis by auto
    qed
    have all: "?all offset = insert (offset, ?e - offset) (?all ?e)"
    proof (rule set_eqI)
      fix x :: "nat \<times> nat"
      obtain i k where x: "x = (i, k)" by (rule prod.exhaust)
      have "offset \<le> i \<and> maximal_run e a n i k \<longleftrightarrow>
          i = offset \<and> k = ?e - offset \<or> ?e \<le> i \<and> maximal_run e a n i k"
        using first only [of i k] lt by (metis less_imp_le not_le order.trans)
      then show "x \<in> ?all offset \<longleftrightarrow> x \<in> insert (offset, ?e - offset) (?all ?e)" by (simp add: x)
    qed
    have after: "offset + (?e - offset) < fst x" if "x \<in> set (runs_from e a n ?e)" for x
    proof -
      obtain i k where x: "x = (i, k)" by (rule prod.exhaust)
      with that ih have "?e \<le> i" "maximal_run e a n i k" by auto
      moreover from this e(3) have "i \<noteq> ?e" by (auto simp: maximal_run_def)
      ultimately show ?thesis using lt x by simp
    qed
    have "?bytes offset = {offset..<?e} \<union> ?bytes ?e" using e lt by auto
    moreover have "{offset..<?e} \<inter> ?bytes ?e = {}" by auto
    ultimately have "card (?bytes offset) = (?e - offset) + card (?bytes ?e)"
      by (simp add: card_Un_disjoint)
    then show ?thesis using ih all after by (simp add: r)
  qed
qed

text \<open>The runs of a pair of snapshots.\<close>

definition region_run_list :: "area \<Rightarrow> region \<Rightarrow> region \<Rightarrow> vf2_i960_snapshot_run list" where
  "region_run_list x e a = map (\<lambda>(i, k). \<lparr>rn_name = region_name x, rn_offset = i, rn_length = k\<rparr>)
     (runs_from (region_mem e) (region_mem a) (r_size e) 0)"

lemma region_runs_list:
  assumes "r_size a = r_size e" and "\<not> missing e" and "\<not> missing a"
  shows "region_runs c x e a t = record_runs c (region_run_list x e a) t"
proof (cases "r_data e = None \<or> r_data a = None")
  case True
  then have "r_size e = 0" using assms by (auto simp: missing_def)
  then have "region_run_list x e a = []" by (simp add: region_run_list_def) (subst runs_from.simps, simp)
  with True assms(1) show ?thesis by (auto simp: region_runs_def record_runs_def split: option.split)
next
  case False
  with assms(1) show ?thesis
    by (auto simp: region_runs_def region_run_list_def region_mem_def scan_region_runs)
qed

lemma diff_runs_list:
  assumes "\<forall>x \<in> set xs. r_size (a x) = r_size (e x) \<and> \<not> missing (e x) \<and> \<not> missing (a x)"
  shows "fold (\<lambda>x. region_runs c x (e x) (a x)) xs t =
    record_runs c (concat (map (\<lambda>x. region_run_list x (e x) (a x)) xs)) t"
  using assms by (induction xs arbitrary: t) (simp_all add: region_runs_list record_runs_def)

lemma differing_card:
  "byte_differences (region_bytes e) (region_bytes a) = card {j. j < r_size e \<and> region_mem e j \<noteq> region_mem a j}"
  if "r_size a = r_size e"
proof -
  have "byte_differences (region_bytes e) (region_bytes a) =
      length (filter (\<lambda>j. region_mem e j \<noteq> region_mem a j) [0..<r_size e])"
    using that by (auto simp: byte_differences_def region_bytes_def intro!: arg_cong [where f = length] filter_cong)
  also have "\<dots> = card (set (filter (\<lambda>j. region_mem e j \<noteq> region_mem a j) [0..<r_size e]))"
    by (rule distinct_card [symmetric]) simp
  also have "set (filter (\<lambda>j. region_mem e j \<noteq> region_mem a j) [0..<r_size e]) =
      {j. j < r_size e \<and> region_mem e j \<noteq> region_mem a j}" by auto
  finally show ?thesis .
qed

text \<open>The runs of a region are those of its bytes, by ascending offset, and all of them are different.\<close>

definition ascending_runs :: "vf2_i960_snapshot_run list \<Rightarrow> bool" where
  "ascending_runs = sorted_wrt (\<lambda>r r'. rn_offset r + rn_length r < rn_offset r')"

lemma region_run_list_exact:
  "r \<in> set (region_run_list x e a) \<longleftrightarrow>
     rn_name r = region_name x \<and> maximal_run (region_mem e) (region_mem a) (r_size e) (rn_offset r) (rn_length r)"
  "ascending_runs (region_run_list x e a)"
proof -
  note max = runs_from_maximal [where offset = 0, OF disjI1 [OF refl]]
  show "r \<in> set (region_run_list x e a) \<longleftrightarrow>
      rn_name r = region_name x \<and> maximal_run (region_mem e) (region_mem a) (r_size e) (rn_offset r) (rn_length r)"
    by (cases r) (auto simp: region_run_list_def max image_iff)
  show "ascending_runs (region_run_list x e a)"
    using max [where n = "r_size e" and e = "region_mem e" and a = "region_mem a"]
    by (simp add: ascending_runs_def region_run_list_def sorted_wrt_map case_prod_unfold)
qed

lemma ascending_distinct: "ascending_runs rs \<Longrightarrow> distinct rs"
  unfolding ascending_runs_def by (induction rs) auto

lemma concat_distinct:
  assumes "distinct (map region_name xs)" and "\<And>x r. r \<in> set (f x) \<Longrightarrow> rn_name r = region_name x"
    and "\<And>x. distinct (f x)"
  shows "distinct (concat (map f xs))"
  using assms(1)
proof (induction xs)
  case (Cons x xs)
  have "set (f x) \<inter> set (concat (map f xs)) = {}"
  proof (rule equals0I)
    fix r assume r: "r \<in> set (f x) \<inter> set (concat (map f xs))"
    then obtain y where "y \<in> set xs" "r \<in> set (f y)" by auto
    then have "region_name x = region_name y" using r assms(2) by (metis IntD1)
    then show False using Cons.prems \<open>y \<in> set xs\<close> by auto
  qed
  with Cons assms(3) show ?case by simp
qed simp

lemma device_names_distinct: "distinct (map region_name device_order)"
  by (simp add: device_order_def)

text \<open>C16: the run enumeration is complete and exact. On snapshots of the same shape the runs of a region
  are exactly its maximal spans of differing bytes, each once and by ascending offset, and the list of
  runs is theirs in the order of the regions. The count is the length of that whole list and the byte
  total is the number of differing bytes the comparison counts, whether no array is given or one of any
  number \<open>n > 0\<close> of places, which receives the first \<open>n\<close> runs. So an array that is too small does not
  stop the enumeration early, as the comment in \<open>snapshot.h\<close> has it: the count reported is the total
  and not the count found until the array was full. An array of no places is refused as an invalid
  argument, with both numbers zero.\<close>

theorem vf2_i960_snapshot_diff_runs_complete:
  assumes "\<forall>x \<in> set device_order. r_size (sn_regions a x) = r_size (sn_regions e x) \<and>
     \<not> missing (sn_regions e x) \<and> \<not> missing (sn_regions a x)"
  shows "\<exists>runs_of rs. rs = concat (map runs_of device_order) \<and> distinct rs \<and>
     (\<forall>x \<in> set device_order. ascending_runs (runs_of x) \<and>
        (\<forall>r. r \<in> set (runs_of x) \<longleftrightarrow> rn_name r = region_name x \<and>
          maximal_run (region_mem (sn_regions e x)) (region_mem (sn_regions a x)) (r_size (sn_regions e x))
            (rn_offset r) (rn_length r))) \<and>
     (\<forall>c. case vf2_i960_snapshot_diff_runs e a c of (status, t) \<Rightarrow>
        if c = Some 0 then status = VF2_ERROR_INVALID_ARGUMENT \<and> rt_found t = 0 \<and> rt_total t = 0 \<and> rt_stored t = []
        else status = VF2_OK \<and> rt_found t = length rs \<and>
          rt_total t = df_differing_bytes (vf2_i960_snapshot_compare_memory e a) \<and>
          rt_stored t = (case c of None \<Rightarrow> [] | Some n \<Rightarrow> take n rs))"
proof -
  let ?e = "sn_regions e" and ?a = "sn_regions a"
  let ?f = "\<lambda>x. region_run_list x (?e x) (?a x)"
  let ?rs = "concat (map ?f device_order)"
  let ?none = "\<lparr>rt_found = 0, rt_total = 0, rt_stored = []\<rparr>"
  have fold: "fold (\<lambda>x. region_runs c x (?e x) (?a x)) device_order ?none = record_runs c ?rs ?none" for c
    by (rule diff_runs_list) (rule assms)
  note max = runs_from_maximal [where offset = 0, OF disjI1 [OF refl]]
  have bytes: "sum_list (map rn_length (?f x)) = byte_differences (region_bytes (?e x)) (region_bytes (?a x))"
    if "x \<in> set device_order" for x
    using that assms by (simp add: region_run_list_def comp_def case_prod_unfold max differing_card flip: snd_def)
  have "sum_list (map rn_length ?rs) = (\<Sum>x\<leftarrow>xs. byte_differences (region_bytes (?e x)) (region_bytes (?a x)))"
    if "?rs = concat (map ?f xs)" "set xs \<subseteq> set device_order" for xs
    unfolding that(1) using that(2) by (induction xs) (simp_all add: bytes)
  from this [OF refl subset_refl] have "sum_list (map rn_length ?rs) = region_differences ?e ?a"
    using assms by (simp add: region_differences_def)
  then have total: "sum_list (map rn_length ?rs) = df_differing_bytes (vf2_i960_snapshot_compare_memory e a)"
    by (simp add: vf2_i960_snapshot_compare_memory_def compare_memory_regions_def)
  have "distinct ?rs"
    by (rule concat_distinct [OF device_names_distinct])
      (simp_all add: region_run_list_exact ascending_distinct)
  moreover have "case vf2_i960_snapshot_diff_runs e a c of (status, t) \<Rightarrow>
        if c = Some 0 then status = VF2_ERROR_INVALID_ARGUMENT \<and> rt_found t = 0 \<and> rt_total t = 0 \<and> rt_stored t = []
        else status = VF2_OK \<and> rt_found t = length ?rs \<and>
          rt_total t = df_differing_bytes (vf2_i960_snapshot_compare_memory e a) \<and>
          rt_stored t = (case c of None \<Rightarrow> [] | Some n \<Rightarrow> take n ?rs)" for c
  proof (cases "c = Some 0")
    case True
    then show ?thesis by (simp add: vf2_i960_snapshot_diff_runs_def)
  next
    case False
    then have "vf2_i960_snapshot_diff_runs e a c = (VF2_OK, record_runs c ?rs ?none)"
      by (simp only: vf2_i960_snapshot_diff_runs_def Let_def if_False fold)
    with False show ?thesis
      by (simp add: record_runs_found record_runs_stored total del: set_concat split: option.split)
  qed
  ultimately show ?thesis
    by (intro exI [of _ ?f] exI [of _ ?rs] conjI ballI allI refl region_run_list_exact) assumption+
qed

definition other_snapshot :: vf2_i960_snapshot where
  "other_snapshot = sample_snapshot\<lparr>sn_regions := (sn_regions sample_snapshot)
     (WORK_RAM := \<lparr>r_data = Some (\<lambda>_. 7), r_size = 3\<rparr>)\<rparr>"

theorem vf2_i960_snapshot_diff_runs_complete_witness:
  "\<exists>runs_of rs. rs = concat (map runs_of device_order) \<and> distinct rs \<and>
    (\<forall>r. r \<in> set (runs_of WORK_RAM) \<longleftrightarrow> rn_name r = ''work-ram'' \<and>
      maximal_run (region_mem (sn_regions sample_snapshot WORK_RAM)) (region_mem (sn_regions other_snapshot WORK_RAM))
        (r_size (sn_regions sample_snapshot WORK_RAM)) (rn_offset r) (rn_length r)) \<and>
    rt_stored (snd (vf2_i960_snapshot_diff_runs sample_snapshot other_snapshot (Some 1))) = take 1 rs \<and>
    rt_found (snd (vf2_i960_snapshot_diff_runs sample_snapshot other_snapshot (Some 1))) = length rs"
proof -
  have "\<forall>x \<in> set device_order. r_size (sn_regions other_snapshot x) = r_size (sn_regions sample_snapshot x) \<and>
     \<not> missing (sn_regions sample_snapshot x) \<and> \<not> missing (sn_regions other_snapshot x)"
    by (simp add: sample_snapshot_def other_snapshot_def missing_def null_region_def)
  from vf2_i960_snapshot_diff_runs_complete [OF this]
  obtain runs_of rs where rs: "rs = concat (map runs_of device_order)" "distinct rs"
    and exact: "\<forall>x \<in> set device_order. \<forall>r. r \<in> set (runs_of x) \<longleftrightarrow> rn_name r = region_name x \<and>
      maximal_run (region_mem (sn_regions sample_snapshot x)) (region_mem (sn_regions other_snapshot x))
        (r_size (sn_regions sample_snapshot x)) (rn_offset r) (rn_length r)"
    and runs: "\<forall>c. case vf2_i960_snapshot_diff_runs sample_snapshot other_snapshot c of (status, t) \<Rightarrow>
        if c = Some 0 then status = VF2_ERROR_INVALID_ARGUMENT \<and> rt_found t = 0 \<and> rt_total t = 0 \<and> rt_stored t = []
        else status = VF2_OK \<and> rt_found t = length rs \<and>
          rt_total t = df_differing_bytes (vf2_i960_snapshot_compare_memory sample_snapshot other_snapshot) \<and>
          rt_stored t = (case c of None \<Rightarrow> [] | Some n \<Rightarrow> take n rs)"
    by blast
  from runs [rule_format, of "Some 1"]
  have "rt_stored (snd (vf2_i960_snapshot_diff_runs sample_snapshot other_snapshot (Some 1))) = take 1 rs"
    "rt_found (snd (vf2_i960_snapshot_diff_runs sample_snapshot other_snapshot (Some 1))) = length rs"
    by (simp_all split: prod.splits)
  moreover have "\<forall>r. r \<in> set (runs_of WORK_RAM) \<longleftrightarrow> rn_name r = ''work-ram'' \<and>
      maximal_run (region_mem (sn_regions sample_snapshot WORK_RAM)) (region_mem (sn_regions other_snapshot WORK_RAM))
        (r_size (sn_regions sample_snapshot WORK_RAM)) (rn_offset r) (rn_length r)"
    using exact by simp
  ultimately show ?thesis using rs by blast
qed

text \<open>Boards as initialised.\<close>

definition sample_board :: "unit vf2_model2a" where
  "sample_board = snd (vf2_model2a_initialize () (\<lambda>_. True))"

definition sample_sys :: "unit sys" where
  "sample_sys = \<lparr>sys_cpu = zeroed_cpu\<lparr>ip := 0x40\<rparr>, sys_machine = sample_board, sys_nan = (\<lambda>_ _ _. 0)\<rparr>"

lemma sample_board_ok: "machine_ok sample_board" "machine_ok (sample_board\<lparr>geometry_control := 1\<rparr>)"
proof -
  show "machine_ok sample_board"
    by (simp add: sample_board_def machine_ok_fresh)
  then show "machine_ok (sample_board\<lparr>geometry_control := 1\<rparr>)"
    by (simp add: machine_ok_def area_null_def area_size_def)
qed

theorem vf2_i960_compare_live_state_agrees_witness:
  "df_equal (vf2_i960_compare_live_state zeroed_cpu sample_board zeroed_cpu (sample_board\<lparr>geometry_control := 1\<rparr>)) =
   df_equal (vf2_i960_snapshot_compare
     (snd (vf2_i960_snapshot_capture (\<lambda>_. True) zeroed_cpu sample_board sample_snapshot))
     (snd (vf2_i960_snapshot_capture (\<lambda>_. True) zeroed_cpu (sample_board\<lparr>geometry_control := 1\<rparr>) sample_snapshot)))"
proof -
  have all: "\<forall>a \<in> set device_order. (\<lambda>_. True) a" by blast
  show ?thesis
    using vf2_i960_compare_live_state_agrees [OF sample_board_ok all prod.collapse [symmetric] prod.collapse [symmetric],
        of zeroed_cpu zeroed_cpu sample_snapshot sample_snapshot]
    by (simp only: Let_def)
qed

theorem vf2_i960_snapshot_resume_witness:
  "\<exists>sn file sn' m'.
    vf2_i960_snapshot_capture (\<lambda>_. True) (sys_cpu sample_sys) (sys_machine sample_sys) sample_snapshot = (Inr (), sn) \<and>
    vf2_i960_snapshot_write_file True 20000000 True sn [] = (Inr (), file) \<and>
    vf2_i960_snapshot_read_file sample_cast (\<lambda>_. True) True (Some file) sample_snapshot = (Inr (), sn') \<and>
    vf2_i960_snapshot_restore sn' sample_sys =
      (Inr (), sample_sys\<lparr>sys_cpu := saved_cpu (sys_cpu sample_sys), sys_machine := m'\<rparr>) \<and>
    same_devices (sys_machine sample_sys) m'"
proof -
  have ok: "machine_ok (sys_machine sample_sys)" by (simp add: sample_sys_def sample_board_ok)
  have "local_frame_depth (sys_cpu sample_sys) \<le> VF2_I960_MAX_LOCAL_FRAMES"
    "maximum_local_frame_depth (sys_cpu sample_sys) \<le> VF2_I960_MAX_LOCAL_FRAMES"
    by (simp_all add: sample_sys_def zeroed_cpu_def)
  moreover have "\<forall>a \<in> set device_order. (\<lambda>_. True) a" by blast
  moreover have "8504 + 11284752 \<le> (20000000 :: nat)" by simp
  ultimately show ?thesis
    using vf2_i960_snapshot_resume [OF ok ok _ _ sample_cast, of "\<lambda>_. True" 20000000 sample_snapshot "[]" sample_snapshot]
    by blast
qed

end
