(* ===== verification/Vf2_Scsp.thy ===== *)
theory Vf2_Scsp
  imports Vf2_Prelude
begin

text \<open>
  \<open>src/hardware/scsp.c\<close>: the sound processor's register file, its MIDI FIFO and the rendering of its
  32 PCM voices. Registers are big-endian bytes. \<open>int16_t\<close> and \<open>int32_t\<close> quantities of the mixer are
  integers: theory \<open>Vf2_Scsp_Voices\<close> shows that no operation on them leaves its type, so that the C
  arithmetic is the mathematical one; \<open>to_int16\<close> is C's conversion to \<open>int16_t\<close>. The 0/1 bytes \<open>slot_active\<close> and
  \<open>slot_backward\<close> are booleans.
\<close>

section \<open>State\<close>

definition VF2_SCSP_REGISTER_BYTES :: u32 where "VF2_SCSP_REGISTER_BYTES = 0x1000"
definition VF2_SCSP_SLOT_COUNT :: nat where "VF2_SCSP_SLOT_COUNT = 32"
definition VF2_SCSP_SLOT_BYTES :: nat where "VF2_SCSP_SLOT_BYTES = 0x20"
definition VF2_SCSP_MASTER_BASE :: u32 where "VF2_SCSP_MASTER_BASE = 0x0400"
definition VF2_SCSP_MIDI_FIFO_BYTES :: u8 where "VF2_SCSP_MIDI_FIFO_BYTES = 32"
definition VF2_SCSP_PENDING_MIDI :: u16 where "VF2_SCSP_PENDING_MIDI = 0x0008"
definition VF2_SCSP_FIXED_SHIFT :: nat where "VF2_SCSP_FIXED_SHIFT = 12"
definition VF2_SCSP_FIXED_ONE :: u32 where "VF2_SCSP_FIXED_ONE = push_bit VF2_SCSP_FIXED_SHIFT 1"
definition VF2_SCSP_KEYONB :: u16 where "VF2_SCSP_KEYONB = 0x0800"
definition VF2_SCSP_PCM8B :: u16 where "VF2_SCSP_PCM8B = 0x0010"
definition VF2_SCSP_SLOT_ENVELOPE_MAX :: int where "VF2_SCSP_SLOT_ENVELOPE_MAX = 32767"

datatype envelope_state = ENVELOPE_ATTACK | ENVELOPE_DECAY1 | ENVELOPE_DECAY2 | ENVELOPE_RELEASE

record vf2_scsp =
  scsp_registers :: memory
  sample_ram :: "memory option"
  sample_ram_size :: nat
  sample_rom :: "memory option"
  sample_rom_size :: nat
  midi_input :: memory
  midi_read_index :: u8
  midi_write_index :: u8
  slot_address :: "nat \<Rightarrow> u32"
  slot_stride :: "nat \<Rightarrow> u32"
  slot_envelope :: "nat \<Rightarrow> int"
  slot_active :: "nat \<Rightarrow> bool"
  slot_envelope_state :: "nat \<Rightarrow> envelope_state"
  slot_backward :: "nat \<Rightarrow> bool"

section \<open>Registers\<close>

definition read_be16 :: "memory \<Rightarrow> nat \<Rightarrow> u16" where
  "read_be16 d i = push_bit 8 (ucast (d i)) OR ucast (d (i + 1))"

definition write_be16 :: "memory \<Rightarrow> nat \<Rightarrow> u16 \<Rightarrow> memory" where
  "write_be16 d i v = d(i := ucast (drop_bit 8 v), i + 1 := ucast v)"

definition slot_word :: "vf2_scsp \<Rightarrow> nat \<Rightarrow> nat \<Rightarrow> u16" where
  "slot_word s slot offset = read_be16 (scsp_registers s) (slot * VF2_SCSP_SLOT_BYTES + offset)"

definition slot_start :: "vf2_scsp \<Rightarrow> nat \<Rightarrow> u32" where
  "slot_start s slot =
     push_bit 16 (ucast (slot_word s slot 0 AND 0x000f)) OR ucast (slot_word s slot 2)"

definition slot_step :: "vf2_scsp \<Rightarrow> nat \<Rightarrow> u32" where
  "slot_step s slot =
     (let pitch = slot_word s slot 0x10;
          fns = ucast (pitch AND 0x03ff) :: u32;
          field = uint (drop_bit 11 pitch AND 0x0f);
          octave = (if field < 8 then field + 8 else field - 8) - 8 + 2;
          step = (if octave \<ge> 0 then push_bit (nat octave) (fns + 0x0400)
                  else drop_bit (nat (- octave)) (fns + 0x0400))
      in if step = 0 then 1 else step)"

definition start_slot :: "nat \<Rightarrow> vf2_scsp \<Rightarrow> vf2_scsp" where
  "start_slot slot s = s\<lparr>slot_address := (slot_address s)(slot := 0),
     slot_envelope := (slot_envelope s)(slot := 0),
     slot_envelope_state := (slot_envelope_state s)(slot := ENVELOPE_ATTACK)\<rparr>"

definition synchronize_slot :: "nat \<Rightarrow> vf2_scsp \<Rightarrow> vf2_scsp" where
  "synchronize_slot slot s =
     (let key_on = slot_word s slot 0 AND VF2_SCSP_KEYONB \<noteq> 0;
          s' = (if key_on \<and> \<not> slot_active s slot then
                  start_slot slot (s\<lparr>slot_active := (slot_active s)(slot := True),
                    slot_backward := (slot_backward s)(slot := False),
                    slot_stride := (slot_stride s)(slot := slot_step s slot)\<rparr>)
                else if key_on \<and> slot_active s slot \<and> slot_envelope_state s slot = ENVELOPE_RELEASE then
                  start_slot slot s
                else if \<not> key_on \<and> slot_active s slot then
                  s\<lparr>slot_envelope_state := (slot_envelope_state s)(slot := ENVELOPE_RELEASE)\<rparr>
                else s)
      in if slot_active s' slot then s'\<lparr>slot_stride := (slot_stride s')(slot := slot_step s' slot)\<rparr>
         else s')"

section \<open>The MIDI FIFO\<close>

definition vf2_scsp_midi_empty :: "vf2_scsp \<Rightarrow> bool" where
  "vf2_scsp_midi_empty s \<longleftrightarrow> midi_read_index s = midi_write_index s"

definition vf2_scsp_midi_full :: "vf2_scsp \<Rightarrow> bool" where
  "vf2_scsp_midi_full s \<longleftrightarrow>
     (midi_write_index s + 1) AND (VF2_SCSP_MIDI_FIFO_BYTES - 1) = midi_read_index s"

definition update_midi_pending :: "vf2_scsp \<Rightarrow> vf2_scsp" where
  "update_midi_pending s =
     (let pending = read_be16 (scsp_registers s) 0x0420;
          pending' = (if vf2_scsp_midi_empty s then pending AND NOT VF2_SCSP_PENDING_MIDI
                      else pending OR VF2_SCSP_PENDING_MIDI)
      in s\<lparr>scsp_registers := write_be16 (scsp_registers s) 0x0420 pending'\<rparr>)"

definition vf2_scsp_midi_receive :: "u8 \<Rightarrow> (vf2_scsp, unit) prog" where
  "vf2_scsp_midi_receive v s =
     (if vf2_scsp_midi_full s then (Inl VF2_ERROR_OUT_OF_BOUNDS, s)
      else (Inr (), update_midi_pending (s\<lparr>
             midi_input := (midi_input s)(unat (midi_write_index s) := v),
             midi_write_index := (midi_write_index s + 1) AND (VF2_SCSP_MIDI_FIFO_BYTES - 1)\<rparr>)))"

definition vf2_scsp_midi_read :: "(vf2_scsp, u8) prog" where
  "vf2_scsp_midi_read s =
     (if vf2_scsp_midi_empty s then (Inl VF2_ERROR_OUT_OF_BOUNDS, s)
      else (Inr (midi_input s (unat (midi_read_index s))), update_midi_pending (s\<lparr>
             midi_read_index := (midi_read_index s + 1) AND (VF2_SCSP_MIDI_FIFO_BYTES - 1)\<rparr>)))"

section \<open>The register interface\<close>

definition vf2_scsp_read_u16 :: "u32 \<Rightarrow> (vf2_scsp, u16) prog" where
  "vf2_scsp_read_u16 address s =
     (if address AND 1 \<noteq> 0 \<or> address > VF2_SCSP_REGISTER_BYTES - 2
      then (Inl VF2_ERROR_INVALID_ARGUMENT, s)
      else if address = 0x0404 \<and> \<not> vf2_scsp_midi_empty s then
        pbind vf2_scsp_midi_read (\<lambda>v.
        pbind (pget (\<lambda>s. read_be16 (scsp_registers s) (unat address))) (\<lambda>w.
        pret ((w AND 0xff00) OR ucast v))) s
      else (Inr (read_be16 (scsp_registers s) (unat address)), s))"

definition vf2_scsp_read_u8 :: "u32 \<Rightarrow> (vf2_scsp, u8) prog" where
  "vf2_scsp_read_u8 address s =
     (if address \<ge> VF2_SCSP_REGISTER_BYTES then (Inl VF2_ERROR_INVALID_ARGUMENT, s)
      else if address = 0x0405 \<and> \<not> vf2_scsp_midi_empty s then vf2_scsp_midi_read s
      else (Inr (scsp_registers s (unat address)), s))"

definition vf2_scsp_write_u16 :: "u32 \<Rightarrow> u16 \<Rightarrow> (vf2_scsp, unit) prog" where
  "vf2_scsp_write_u16 address v s =
     (if address AND 1 \<noteq> 0 \<or> address > VF2_SCSP_REGISTER_BYTES - 2
      then (Inl VF2_ERROR_INVALID_ARGUMENT, s)
      else
        let i = unat address;
            stored = (if address = 0x0420 \<or> address = 0x042e
                      then read_be16 (scsp_registers s) i OR (v AND 0x0020) else v);
            s' = s\<lparr>scsp_registers := write_be16 (scsp_registers s) i stored\<rparr>
        in (Inr (), if address < VF2_SCSP_MASTER_BASE \<and> i div VF2_SCSP_SLOT_BYTES < VF2_SCSP_SLOT_COUNT \<and>
                       (i mod VF2_SCSP_SLOT_BYTES \<le> 1 \<or> i mod VF2_SCSP_SLOT_BYTES = 0x10)
                    then synchronize_slot (i div VF2_SCSP_SLOT_BYTES) s' else s'))"

definition vf2_scsp_write_u8 :: "u32 \<Rightarrow> u8 \<Rightarrow> (vf2_scsp, unit) prog" where
  "vf2_scsp_write_u8 address v s =
     (if address \<ge> VF2_SCSP_REGISTER_BYTES then (Inl VF2_ERROR_INVALID_ARGUMENT, s)
      else
        let i = unat address;
            stored = (if address = 0x0420 \<or> address = 0x042e
                      then scsp_registers s i OR (v AND 0x20) else v);
            s' = s\<lparr>scsp_registers := (scsp_registers s)(i := stored)\<rparr>
        in (Inr (), if address < VF2_SCSP_MASTER_BASE \<and> i div VF2_SCSP_SLOT_BYTES < VF2_SCSP_SLOT_COUNT \<and>
                       (i mod VF2_SCSP_SLOT_BYTES \<le> 1 \<or> i mod VF2_SCSP_SLOT_BYTES = 0x10 \<or>
                        i mod VF2_SCSP_SLOT_BYTES = 0x11)
                    then synchronize_slot (i div VF2_SCSP_SLOT_BYTES) s' else s'))"

definition vf2_scsp_timer_a_interval_frames :: "u16 \<Rightarrow> vf2_status + u32" where
  "vf2_scsp_timer_a_interval_frames tima_word =
     (if tima_word AND 0xf800 \<noteq> 0 \<or> tima_word AND 0x00ff = 0x00ff then Inl VF2_ERROR_UNSUPPORTED
      else Inr ((255 - ucast (tima_word AND 255)) * push_bit (unat (drop_bit 8 tima_word AND 7)) 1))"

section \<open>Lifecycle and sample memory\<close>

definition vf2_scsp_initialize :: "vf2_scsp \<Rightarrow> vf2_scsp" where
  "vf2_scsp_initialize s = \<lparr>scsp_registers = (\<lambda>_. 0), sample_ram = None, sample_ram_size = 0,
     sample_rom = None, sample_rom_size = 0, midi_input = (\<lambda>_. 0), midi_read_index = 0,
     midi_write_index = 0, slot_address = (\<lambda>_. 0), slot_stride = (\<lambda>_. 0), slot_envelope = (\<lambda>_. 0),
     slot_active = (\<lambda>_. False), slot_envelope_state = (\<lambda>_. ENVELOPE_ATTACK), slot_backward = (\<lambda>_. False)\<rparr>"

definition vf2_scsp_reset :: "vf2_scsp \<Rightarrow> vf2_scsp" where
  "vf2_scsp_reset s = (vf2_scsp_initialize s)\<lparr>sample_ram := sample_ram s, sample_ram_size := sample_ram_size s,
     sample_rom := sample_rom s, sample_rom_size := sample_rom_size s\<rparr>"

definition vf2_scsp_attach_sample_ram :: "memory option \<Rightarrow> nat \<Rightarrow> (vf2_scsp, unit) prog" where
  "vf2_scsp_attach_sample_ram ram ram_size s =
     (if ram = None \<or> ram_size = 0 then (Inl VF2_ERROR_INVALID_ARGUMENT, s)
      else (Inr (), s\<lparr>sample_ram := ram, sample_ram_size := ram_size\<rparr>))"

definition vf2_scsp_attach_sample_rom :: "memory option \<Rightarrow> nat \<Rightarrow> (vf2_scsp, unit) prog" where
  "vf2_scsp_attach_sample_rom rom rom_size s =
     (if rom = None \<or> rom_size = 0 then (Inl VF2_ERROR_INVALID_ARGUMENT, s)
      else (Inr (), s\<lparr>sample_rom := rom, sample_rom_size := rom_size\<rparr>))"

definition vf2_scsp_read_sample :: "u32 \<Rightarrow> nat \<Rightarrow> vf2_scsp \<Rightarrow> vf2_status + u8 list" where
  "vf2_scsp_read_sample address n s =
     (let available = (if sample_ram s \<noteq> None then sample_ram_size s else sample_rom_size s)
      in if unat address > available \<or> n > available - unat address then Inl VF2_ERROR_OUT_OF_BOUNDS
         else case (sample_ram s, sample_rom s) of
           (Some d, _) \<Rightarrow> Inr (read_bytes d (unat address) n)
         | (None, Some d) \<Rightarrow> Inr (read_bytes d (unat address) n)
         | (None, None) \<Rightarrow> if n \<noteq> 0 then Inl VF2_ERROR_INVALID_ARGUMENT else Inr [])"

definition vf2_scsp_write_sample :: "u32 \<Rightarrow> u8 list \<Rightarrow> (vf2_scsp, unit) prog" where
  "vf2_scsp_write_sample address bytes s =
     (case sample_ram s of
        None \<Rightarrow> (Inl VF2_ERROR_OUT_OF_BOUNDS, s)
      | Some d \<Rightarrow>
          if unat address > sample_ram_size s \<or> length bytes > sample_ram_size s - unat address
          then (Inl VF2_ERROR_OUT_OF_BOUNDS, s)
          else (Inr (), s\<lparr>sample_ram := Some (write_bytes d (unat address) bytes)\<rparr>))"

section \<open>Voices\<close>

definition to_int16 :: "int \<Rightarrow> int" where
  "to_int16 x = sint (word_of_int x :: 16 word)"

text \<open>C's division by a positive number, which rounds toward zero.\<close>

definition cdiv :: "int \<Rightarrow> int \<Rightarrow> int" where
  "cdiv a b = (if a < 0 then - ((- a) div b) else a div b)"

definition advance_envelope :: "nat \<Rightarrow> vf2_scsp \<Rightarrow> vf2_scsp" where
  "advance_envelope slot s =
     (let attack_decay = slot_word s slot 8;
          sustain_release = slot_word s slot 10;
          attack = uint (attack_decay AND 0x1f);
          decay1 = uint (drop_bit 6 attack_decay AND 0x1f);
          decay2 = uint (drop_bit 11 attack_decay AND 0x1f);
          release = uint (sustain_release AND 0x1f);
          decay_level = uint (drop_bit 5 sustain_release AND 0x1f);
          sustain = (31 - decay_level) * 1024;
          env = slot_envelope s slot;
          put = (\<lambda>e. s\<lparr>slot_envelope := (slot_envelope s)(slot := e)\<rparr>);
          go = (\<lambda>e st. (put e)\<lparr>slot_envelope_state := (slot_envelope_state s)(slot := st)\<rparr>)
      in case slot_envelope_state s slot of
           ENVELOPE_ATTACK \<Rightarrow>
             (let e = env + (attack + 1) * 256
              in if e \<ge> VF2_SCSP_SLOT_ENVELOPE_MAX then go VF2_SCSP_SLOT_ENVELOPE_MAX ENVELOPE_DECAY1 else put e)
         | ENVELOPE_DECAY1 \<Rightarrow>
             (let e = env - (decay1 + 1) * 64 in if e \<le> sustain then go sustain ENVELOPE_DECAY2 else put e)
         | ENVELOPE_DECAY2 \<Rightarrow>
             (let e = env - (decay2 + 1) * 32 in if e \<le> sustain then put sustain else put e)
         | ENVELOPE_RELEASE \<Rightarrow>
             (let e = env - (release + 1) * 64
              in if e \<le> 0 then (put 0)\<lparr>slot_active := (slot_active s)(slot := False)\<rparr> else put e))"

definition read_sample_byte :: "vf2_scsp \<Rightarrow> u32 \<Rightarrow> vf2_status + u8" where
  "read_sample_byte s address =
     (case sample_ram s of
        Some d \<Rightarrow> if unat address < sample_ram_size s then Inr (d (unat address))
          else (case sample_rom s of
                  Some d \<Rightarrow> if unat address < sample_rom_size s then Inr (d (unat address))
                            else Inl VF2_ERROR_OUT_OF_BOUNDS
                | None \<Rightarrow> Inl VF2_ERROR_OUT_OF_BOUNDS)
      | None \<Rightarrow>
          (case sample_rom s of
             Some d \<Rightarrow> if unat address < sample_rom_size s then Inr (d (unat address))
                       else Inl VF2_ERROR_OUT_OF_BOUNDS
           | None \<Rightarrow> Inl VF2_ERROR_OUT_OF_BOUNDS))"

definition read_sample_pcm16 :: "vf2_scsp \<Rightarrow> u32 \<Rightarrow> int" where
  "read_sample_pcm16 s address =
     (case (read_sample_byte s address, read_sample_byte s (address + 1)) of
        (Inr high, Inr low) \<Rightarrow> sint (push_bit 8 (ucast high) OR ucast low :: u16)
      | _ \<Rightarrow> 0)"

definition slot_sample_at :: "vf2_scsp \<Rightarrow> nat \<Rightarrow> u32 \<Rightarrow> int" where
  "slot_sample_at s slot address =
     (if slot_word s slot 0 AND VF2_SCSP_PCM8B \<noteq> 0 then
        (case read_sample_byte s (slot_start s slot + address) of
           Inr v \<Rightarrow> to_int16 (sint v * 256)
         | Inl _ \<Rightarrow> 0)
      else read_sample_pcm16 s (slot_start s slot + (address AND NOT 1)))"

definition slot_interpolated_sample :: "vf2_scsp \<Rightarrow> nat \<Rightarrow> int" where
  "slot_interpolated_sample s slot =
     (let eight = slot_word s slot 0 AND VF2_SCSP_PCM8B \<noteq> 0;
          address = slot_address s slot;
          sample_address = (if eight then drop_bit VF2_SCSP_FIXED_SHIFT address
                            else drop_bit (VF2_SCSP_FIXED_SHIFT - 1) address AND NOT 1);
          fraction = address AND (VF2_SCSP_FIXED_ONE - 1);
          first = slot_sample_at s slot sample_address;
          second = slot_sample_at s slot (sample_address + (if eight then 1 else 2));
          mixed = first * uint (VF2_SCSP_FIXED_ONE - fraction) + second * uint fraction
      in to_int16 (mixed div 2 ^ VF2_SCSP_FIXED_SHIFT))"

definition advance_slot :: "nat \<Rightarrow> vf2_scsp \<Rightarrow> vf2_scsp" where
  "advance_slot slot s =
     (let control = slot_word s slot 0;
          loop = drop_bit 5 control AND 3;
          loop_start = ucast (slot_word s slot 4) :: u32;
          loop_end = ucast (slot_word s slot 6) :: u32;
          address = (if slot_backward s slot then slot_address s slot - slot_stride s slot
                     else slot_address s slot + slot_stride s slot);
          position = drop_bit VF2_SCSP_FIXED_SHIFT address;
          s' = s\<lparr>slot_address := (slot_address s)(slot := address)\<rparr>
      in if loop = 0 then
           (if loop_end \<noteq> 0 \<and> position \<ge> loop_end
            then s'\<lparr>slot_active := (slot_active s)(slot := False)\<rparr> else s')
         else if loop = 1 then
           (if loop_end \<noteq> 0 \<and> position \<ge> loop_end
            then s'\<lparr>slot_address := (slot_address s)
                   (slot := push_bit VF2_SCSP_FIXED_SHIFT (loop_start + (position - loop_end)))\<rparr>
            else s')
         else if \<not> slot_backward s slot \<and> loop_end \<noteq> 0 \<and> position \<ge> loop_end then
           s'\<lparr>slot_backward := (slot_backward s)(slot := True)\<rparr>
         else if slot_backward s slot \<and> position \<le> loop_start then
           s'\<lparr>slot_backward := (slot_backward s)(slot := False)\<rparr>
         else s')"

definition scsp_pan_atten_q15 :: "int list" where
  "scsp_pan_atten_q15 =
     [32768, 23198, 16423, 11627, 8231, 5827, 4125, 2920,
      2068, 1464, 1036, 734, 519, 368, 260, 0]"

definition clamp_sample :: "int \<Rightarrow> int" where
  "clamp_sample v = (if v < -32768 then -32768 else if v > 32767 then 32767 else v)"

text \<open>The intermediate values of one voice in one frame: the sample, after its level, after its
  envelope, its dry part and the two gains.\<close>

definition levelled :: "u16 \<Rightarrow> int \<Rightarrow> int" where
  "levelled level sample =
     (if level AND 0x0100 = 0
      then cdiv (sample * (VF2_SCSP_SLOT_ENVELOPE_MAX - uint (level AND 0xff) * 128)) VF2_SCSP_SLOT_ENVELOPE_MAX
      else sample)"

definition dry_part :: "u16 \<Rightarrow> int \<Rightarrow> int" where
  "dry_part pan_word sample =
     (let direct_level = unat (drop_bit 13 pan_word AND 7)
      in if direct_level = 0 then 0 else cdiv sample (2 ^ (7 - direct_level)))"

definition pan_gains :: "u16 \<Rightarrow> int \<times> int" where
  "pan_gains pan_word =
     (let pan = drop_bit 8 pan_word AND 0x1f;
          atten = scsp_pan_atten_q15 ! unat (pan AND 0x0f)
      in if pan AND 0x10 \<noteq> 0 then (32768, atten) else (atten, 32768))"

definition render_slot :: "nat \<Rightarrow> vf2_scsp \<times> int \<times> int \<Rightarrow> vf2_scsp \<times> int \<times> int" where
  "render_slot slot x = (case x of (s0, mix_left, mix_right) \<Rightarrow>
     let level = slot_word s0 slot 0x0c;
         pan_word = slot_word s0 slot 0x16;
         s = synchronize_slot slot s0
     in if \<not> slot_active s slot then (s, mix_left, mix_right)
        else
          let sample = slot_interpolated_sample s slot;
              s' = advance_envelope slot s;
              voice = cdiv (levelled level sample * slot_envelope s' slot) VF2_SCSP_SLOT_ENVELOPE_MAX;
              dry = dry_part pan_word voice;
              (left_gain, right_gain) = pan_gains pan_word
          in (advance_slot slot s', mix_left + cdiv (dry * left_gain) 32768,
              mix_right + cdiv (dry * right_gain) 32768))"

definition render_frame :: "vf2_scsp \<Rightarrow> vf2_scsp \<times> int \<times> int" where
  "render_frame s =
     (case fold render_slot [0..<VF2_SCSP_SLOT_COUNT] (s, 0, 0) of
        (s', mix_left, mix_right) \<Rightarrow> (s', to_int16 (clamp_sample mix_left), to_int16 (clamp_sample mix_right)))"

primrec render_frames :: "nat \<Rightarrow> vf2_scsp \<Rightarrow> vf2_scsp \<times> int list \<times> int list" where
  "render_frames 0 s = (s, [], [])"
| "render_frames (Suc n) s =
     (case render_frame s of (s1, l, r) \<Rightarrow>
      case render_frames n s1 of (s2, ls, rs) \<Rightarrow> (s2, l # ls, r # rs))"

text \<open>\<open>buffers\<close>: whether both output pointers are given.\<close>

definition vf2_scsp_render :: "bool \<Rightarrow> nat \<Rightarrow> (vf2_scsp, int list \<times> int list) prog" where
  "vf2_scsp_render buffers frames s =
     (if frames \<noteq> 0 \<and> \<not> buffers then (Inl VF2_ERROR_INVALID_ARGUMENT, s)
      else case render_frames frames s of (s', out) \<Rightarrow> (Inr out, s'))"

end
