(* ===== verification/Vf2_Scsp_Laws.thy ===== *)
theory Vf2_Scsp_Laws
  imports Vf2_Scsp
begin

text \<open>
  The MIDI input is a bounded queue, the mixer stays in the C types, and released voices fall silent.
\<close>

section \<open>Bounded queues\<close>

text \<open>What a client of a queue with a capacity relies on.\<close>

primrec get_all :: "('s, 'v) prog \<Rightarrow> nat \<Rightarrow> ('s, 'v list) prog" where
  "get_all get 0 = pret []"
| "get_all get (Suc n) = pbind get (\<lambda>v. pbind (get_all get n) (\<lambda>vs. pret (v # vs)))"

locale bounded_fifo =
  fixes put :: "'v \<Rightarrow> ('s, unit) prog"
    and get :: "('s, 'v) prog"
    and contents :: "'s \<Rightarrow> 'v list"
    and capacity :: nat
    and inv :: "'s \<Rightarrow> bool"
  assumes put_room: "inv s \<Longrightarrow> length (contents s) < capacity \<Longrightarrow>
      \<exists>s'. put v s = (Inr (), s') \<and> contents s' = contents s @ [v] \<and> inv s'"
    and put_full: "inv s \<Longrightarrow> \<not> length (contents s) < capacity \<Longrightarrow> put v s = (Inl VF2_ERROR_OUT_OF_BOUNDS, s)"
    and get_head: "inv s \<Longrightarrow> contents s = v # vs \<Longrightarrow> \<exists>s'. get s = (Inr v, s') \<and> contents s' = vs \<and> inv s'"
    and get_none: "inv s \<Longrightarrow> contents s = [] \<Longrightarrow> get s = (Inl VF2_ERROR_OUT_OF_BOUNDS, s)"
begin

lemma put_list:
  assumes "inv s" and "length (contents s) + length xs \<le> capacity"
  shows "\<exists>s'. pfor xs put s = (Inr (), s') \<and> contents s' = contents s @ xs \<and> inv s'"
  using assms
proof (induction xs arbitrary: s)
  case Nil
  then show ?case by simp
next
  case (Cons x xs)
  then have "length (contents s) < capacity" by simp
  from put_room [OF Cons.prems(1) this, of x]
  obtain s1 where s1: "put x s = (Inr (), s1)" "contents s1 = contents s @ [x]" "inv s1" by blast
  then have "length (contents s1) + length xs \<le> capacity" using Cons.prems(2) by simp
  from Cons.IH [OF s1(3) this] s1 show ?case by auto
qed

lemma get_list:
  assumes "inv s" and "n \<le> length (contents s)"
  shows "\<exists>s'. get_all get n s = (Inr (take n (contents s)), s') \<and> contents s' = drop n (contents s) \<and> inv s'"
  using assms
proof (induction n arbitrary: s)
  case 0
  then show ?case by simp
next
  case (Suc n)
  then obtain v vs where c: "contents s = v # vs" by (cases "contents s") auto
  from get_head [OF Suc.prems(1) c] obtain s1 where s1: "get s = (Inr v, s1)" "contents s1 = vs" "inv s1" by blast
  with Suc.prems(2) c have "n \<le> length (contents s1)" by simp
  from Suc.IH [OF s1(3) this]
  obtain s2 where s2: "get_all get n s1 = (Inr (take n vs), s2)" "contents s2 = drop n vs" "inv s2"
    using s1(2) by auto
  have "get_all get (Suc n) s = (Inr (take (Suc n) (contents s)), s2)"
    by (simp add: s1(1) s2(1) c)
  with s2 c show ?case by auto
qed

text \<open>What goes in comes out, in order.\<close>

lemma first_in_first_out:
  assumes "inv s" and "length (contents s) + length xs \<le> capacity"
  shows "\<exists>s'. pbind (pfor xs put) (\<lambda>_. get_all get (length (contents s) + length xs)) s =
      (Inr (contents s @ xs), s') \<and> contents s' = [] \<and> inv s'"
proof -
  obtain s1 where s1: "pfor xs put s = (Inr (), s1)" "contents s1 = contents s @ xs" "inv s1"
    using put_list [OF assms] by blast
  from get_list [OF s1(3), of "length (contents s) + length xs"] s1(2)
  obtain s2 where "get_all get (length (contents s) + length xs) s1 = (Inr (contents s @ xs), s2)"
    "contents s2 = []" "inv s2" by auto
  with s1(1) show ?thesis by auto
qed

end

section \<open>The MIDI FIFO is one\<close>

definition midi_ok :: "vf2_scsp \<Rightarrow> bool" where
  "midi_ok s \<longleftrightarrow> unat (midi_read_index s) < 32 \<and> unat (midi_write_index s) < 32"

text \<open>Places of the ring of 32 bytes, as numbers.\<close>

definition ring_next :: "nat \<Rightarrow> nat" where
  "ring_next w = (if w = 31 then 0 else w + 1)"

definition ring_count :: "nat \<Rightarrow> nat \<Rightarrow> nat" where
  "ring_count r w = (if r \<le> w then w - r else w + 32 - r)"

definition ring_at :: "nat \<Rightarrow> nat \<Rightarrow> nat" where
  "ring_at r k = (if r + k < 32 then r + k else r + k - 32)"

lemma ring_next_lt: "w < 32 \<Longrightarrow> ring_next w < 32"
  by (simp add: ring_next_def)

lemma ring_count_lt: "\<lbrakk>r < 32; w < 32\<rbrakk> \<Longrightarrow> ring_count r w < 32"
  by (auto simp: ring_count_def)

lemma ring_full: "\<lbrakk>r < 32; w < 32\<rbrakk> \<Longrightarrow> ring_next w = r \<longleftrightarrow> ring_count r w = 31"
  by (auto simp: ring_count_def ring_next_def)

lemma ring_count_push: "\<lbrakk>r < 32; w < 32; ring_count r w < 31\<rbrakk> \<Longrightarrow> ring_count r (ring_next w) = Suc (ring_count r w)"
  by (auto simp: ring_count_def ring_next_def split: if_splits)

lemma ring_count_pop: "\<lbrakk>r < 32; w < 32; 0 < ring_count r w\<rbrakk> \<Longrightarrow> Suc (ring_count (ring_next r) w) = ring_count r w"
  by (auto simp: ring_count_def ring_next_def split: if_splits)

lemma ring_at_count: "\<lbrakk>r < 32; w < 32\<rbrakk> \<Longrightarrow> ring_at r (ring_count r w) = w"
  by (auto simp: ring_count_def ring_at_def)

lemma ring_at_other: "\<lbrakk>r < 32; w < 32; k < ring_count r w\<rbrakk> \<Longrightarrow> ring_at r k \<noteq> w"
  by (auto simp: ring_count_def ring_at_def split: if_splits)

lemma ring_at_Suc: "\<lbrakk>r < 32; k < 31\<rbrakk> \<Longrightarrow> ring_at r (Suc k) = ring_at (ring_next r) k"
  by (auto simp: ring_at_def ring_next_def)

definition midi_count :: "vf2_scsp \<Rightarrow> nat" where
  "midi_count s = ring_count (unat (midi_read_index s)) (unat (midi_write_index s))"

definition midi_queue :: "vf2_scsp \<Rightarrow> u8 list" where
  "midi_queue s = map (\<lambda>k. midi_input s (ring_at (unat (midi_read_index s)) k)) [0..<midi_count s]"

lemma unat_and_31: "unat ((w :: u8) AND 31) = unat w mod 32"
proof -
  have "w AND 31 = take_bit 5 w" by (simp add: take_bit_eq_mask mask_eq_exp_minus_1)
  then show ?thesis by (simp only: unsigned_take_bit_eq) (simp add: take_bit_eq_mod)
qed

lemma next_index:
  assumes "unat (w :: u8) < 32"
  shows "unat ((w + 1) AND (VF2_SCSP_MIDI_FIFO_BYTES - 1)) = ring_next (unat w)"
proof -
  have "unat (w + 1) = unat w + 1" using assms by (simp add: unat_word_ariths)
  then have "unat ((w + 1) AND 31) = (unat w + 1) mod 32" by (simp only: unat_and_31)
  then show ?thesis using assms by (simp add: VF2_SCSP_MIDI_FIFO_BYTES_def ring_next_def)
qed

lemma update_midi_pending_fields [simp]:
  "midi_input (update_midi_pending s) = midi_input s"
  "midi_read_index (update_midi_pending s) = midi_read_index s"
  "midi_write_index (update_midi_pending s) = midi_write_index s"
  by (simp_all add: update_midi_pending_def Let_def)

lemma midi_cong:
  assumes "midi_input s = midi_input s'" and "midi_read_index s = midi_read_index s'"
    and "midi_write_index s = midi_write_index s'"
  shows "midi_ok s = midi_ok s'" and "midi_queue s = midi_queue s'"
  using assms by (simp_all add: midi_ok_def midi_queue_def midi_count_def)

lemma length_midi_queue [simp]: "length (midi_queue s) = midi_count s"
  by (simp add: midi_queue_def)

lemma midi_empty_queue: "midi_ok s \<Longrightarrow> vf2_scsp_midi_empty s \<longleftrightarrow> midi_queue s = []"
  by (auto simp: vf2_scsp_midi_empty_def midi_ok_def midi_count_def ring_count_def word_unat_eq_iff
      simp flip: length_0_conv split: if_splits)

lemma midi_full_queue: "midi_ok s \<Longrightarrow> vf2_scsp_midi_full s \<longleftrightarrow> length (midi_queue s) = 31"
  unfolding vf2_scsp_midi_full_def word_unat_eq_iff length_midi_queue midi_count_def midi_ok_def
  by (simp only: next_index ring_full)

lemma midi_receive_room:
  assumes ok: "midi_ok s" and room: "length (midi_queue s) < 31"
  shows "\<exists>s'. vf2_scsp_midi_receive v s = (Inr (), s') \<and> midi_queue s' = midi_queue s @ [v] \<and> midi_ok s'"
proof -
  let ?s1 = "s\<lparr>midi_input := (midi_input s)(unat (midi_write_index s) := v),
             midi_write_index := (midi_write_index s + 1) AND (VF2_SCSP_MIDI_FIFO_BYTES - 1)\<rparr>"
  let ?r = "unat (midi_read_index s)" and ?w = "unat (midi_write_index s)"
  have b: "?r < 32" "?w < 32" using ok by (simp_all add: midi_ok_def)
  have w': "unat (midi_write_index ?s1) = ring_next ?w" using next_index [OF b(2)] by simp
  have count: "midi_count ?s1 = Suc (midi_count s)"
    using ring_count_push [OF b] room w' by (simp add: midi_count_def)
  have place: "ring_at ?r (midi_count s) = ?w" "\<And>k. k < midi_count s \<Longrightarrow> ring_at ?r k \<noteq> ?w"
    using ring_at_count [OF b] ring_at_other [OF b] by (simp_all add: midi_count_def)
  have q: "midi_queue ?s1 = midi_queue s @ [v]"
    unfolding midi_queue_def count using place by simp
  have "midi_ok ?s1" using b w' ring_next_lt by (simp add: midi_ok_def)
  moreover have "\<not> vf2_scsp_midi_full s" using midi_full_queue [OF ok] room by simp
  ultimately show ?thesis
    using q midi_cong [of "update_midi_pending ?s1" ?s1] by (simp add: vf2_scsp_midi_receive_def)
qed

lemma midi_read_head:
  assumes ok: "midi_ok s" and q: "midi_queue s = v # vs"
  shows "\<exists>s'. vf2_scsp_midi_read s = (Inr v, s') \<and> midi_queue s' = vs \<and> midi_ok s'"
proof -
  let ?s1 = "s\<lparr>midi_read_index := (midi_read_index s + 1) AND (VF2_SCSP_MIDI_FIFO_BYTES - 1)\<rparr>"
  let ?r = "unat (midi_read_index s)" and ?w = "unat (midi_write_index s)"
  have b: "?r < 32" "?w < 32" using ok by (simp_all add: midi_ok_def)
  have r': "unat (midi_read_index ?s1) = ring_next ?r" using next_index [OF b(1)] by simp
  have pos: "0 < midi_count s" using q by (metis length_midi_queue length_greater_0_conv list.distinct(1))
  have count: "midi_count s = Suc (midi_count ?s1)"
    using ring_count_pop [OF b] pos r' by (simp add: midi_count_def)
  have few: "k < 31" if "k < midi_count ?s1" for k
    using that count ring_count_lt [OF b] by (simp add: midi_count_def)
  have "midi_queue s = map (\<lambda>k. midi_input s (ring_at ?r k)) (0 # map Suc [0..<midi_count ?s1])"
    by (simp only: midi_queue_def count map_Suc_upt) (simp add: upt_conv_Cons del: upt_Suc)
  also have "\<dots> = midi_input s ?r # map (\<lambda>k. midi_input s (ring_at (ring_next ?r) k)) [0..<midi_count ?s1]"
    using b few ring_at_Suc [OF b(1)] by (simp add: ring_at_def del: upt_Suc)
  also have "\<dots> = midi_input s ?r # midi_queue ?s1"
    by (simp only: midi_queue_def r') simp
  finally have v: "v = midi_input s ?r" "vs = midi_queue ?s1" using q by simp_all
  have "midi_ok ?s1" using b r' ring_next_lt by (simp add: midi_ok_def)
  moreover have "\<not> vf2_scsp_midi_empty s" using midi_empty_queue [OF ok] q by simp
  ultimately show ?thesis
    using v midi_cong [of "update_midi_pending ?s1" ?s1] by (simp add: vf2_scsp_midi_read_def)
qed

interpretation midi: bounded_fifo vf2_scsp_midi_receive vf2_scsp_midi_read midi_queue 31 midi_ok
proof
  show "midi_ok s \<Longrightarrow> length (midi_queue s) < 31 \<Longrightarrow>
      \<exists>s'. vf2_scsp_midi_receive v s = (Inr (), s') \<and> midi_queue s' = midi_queue s @ [v] \<and> midi_ok s'" for s v
    by (rule midi_receive_room)
  show "midi_ok s \<Longrightarrow> \<not> length (midi_queue s) < 31 \<Longrightarrow>
      vf2_scsp_midi_receive v s = (Inl VF2_ERROR_OUT_OF_BOUNDS, s)" for s v
    using midi_full_queue [of s] ring_count_lt [of "unat (midi_read_index s)" "unat (midi_write_index s)"]
    by (auto simp: vf2_scsp_midi_receive_def midi_count_def midi_ok_def)
  show "midi_ok s \<Longrightarrow> midi_queue s = v # vs \<Longrightarrow>
      \<exists>s'. vf2_scsp_midi_read s = (Inr v, s') \<and> midi_queue s' = vs \<and> midi_ok s'" for s v vs
    by (rule midi_read_head)
  show "midi_ok s \<Longrightarrow> midi_queue s = [] \<Longrightarrow> vf2_scsp_midi_read s = (Inl VF2_ERROR_OUT_OF_BOUNDS, s)" for s
    using midi_empty_queue [of s] by (simp add: vf2_scsp_midi_read_def)
qed

end
