(* ===== verification/Vf2_Scsp_Checked.thy ===== *)
theory Vf2_Scsp_Checked
  imports Vf2_Scsp
begin

text \<open>
  The renderer of \<open>src/hardware/scsp.c\<close> once more, with every signed operation checked: an
  \<open>int32_t\<close> (or \<open>int\<close>) or \<open>int64_t\<close> sum, difference, product or quotient whose mathematical value
  leaves the type makes the checked renderer fail, and so does a shift by a count outside the word
  and a narrowing conversion that changes the value. Two conversions are meant to change it and are
  not checked: \<open>(int8_t)value\<close> and \<open>(int16_t)(high << 8 | low)\<close> of the sample readers reinterpret the
  bytes of a sample in two's complement (\<open>sint\<close> and \<open>to_int16\<close>). Unsigned quantities are words at
  their C width, which wrap as C's do; \<open>advance_slot\<close> computes on unsigned quantities only and is used
  as it is.
\<close>

section \<open>Checks\<close>

definition int64 :: "int \<Rightarrow> int option" where
  "int64 x = (if - (2 ^ 63) \<le> x \<and> x < 2 ^ 63 then Some x else None)"

definition int32 :: "int \<Rightarrow> int option" where
  "int32 x = (if - (2 ^ 31) \<le> x \<and> x < 2 ^ 31 then Some x else None)"

definition int16 :: "int \<Rightarrow> int option" where
  "int16 x = (if - (2 ^ 15) \<le> x \<and> x < 2 ^ 15 then Some x else None)"

text \<open>A shift count of a 32-bit word.\<close>

definition shift_count :: "int \<Rightarrow> nat option" where
  "shift_count k = (if 0 \<le> k \<and> k < 32 then Some (nat k) else None)"

section \<open>The voice's pitch and envelope\<close>

definition slot_step_checked :: "vf2_scsp \<Rightarrow> nat \<Rightarrow> u32 option" where
  "slot_step_checked s slot =
     (let pitch = slot_word s slot 0x10;
          step = ucast (pitch AND 0x03ff) + 0x0400 :: u32
      in Option.bind (int32 (uint (drop_bit 11 pitch AND 0x0f))) (\<lambda>field.
         Option.bind (int32 (field XOR 8)) (\<lambda>flipped.
         Option.bind (int32 (flipped - 8)) (\<lambda>signed.
         Option.bind (int32 (signed + 2)) (\<lambda>octave.
         Option.bind (if octave \<ge> 0 then Option.bind (shift_count octave) (\<lambda>k. Some (push_bit k step))
                      else Option.bind (int32 (- octave)) (\<lambda>down.
                           Option.bind (shift_count down) (\<lambda>k. Some (drop_bit k step)))) (\<lambda>shifted.
         Some (if shifted = 0 then 1 else shifted)))))))"

text \<open>The increment a voice left active is given.\<close>

definition synchronize_slot_checked :: "nat \<Rightarrow> vf2_scsp \<Rightarrow> vf2_scsp option" where
  "synchronize_slot_checked slot s =
     (let s' = synchronize_slot slot s
      in if slot_active s' slot
         then Option.bind (slot_step_checked s slot) (\<lambda>step. Some (s'\<lparr>slot_stride := (slot_stride s')(slot := step)\<rparr>))
         else Some s')"

text \<open>\<open>(int32_t)(rate + 1u) * k\<close>\<close>

definition envelope_step_checked :: "u32 \<Rightarrow> int \<Rightarrow> int option" where
  "envelope_step_checked rate k = Option.bind (int32 (uint (rate + 1))) (\<lambda>n. int32 (n * k))"

definition advance_envelope_checked :: "nat \<Rightarrow> vf2_scsp \<Rightarrow> vf2_scsp option" where
  "advance_envelope_checked slot s =
     (let attack_decay = slot_word s slot 8;
          sustain_release = slot_word s slot 10;
          attack = ucast (attack_decay AND 0x1f) :: u32;
          decay1 = ucast (drop_bit 6 attack_decay AND 0x1f) :: u32;
          decay2 = ucast (drop_bit 11 attack_decay AND 0x1f) :: u32;
          release = ucast (sustain_release AND 0x1f) :: u32;
          decay_level = ucast (drop_bit 5 sustain_release AND 0x1f) :: u32;
          env = slot_envelope s slot;
          put = (\<lambda>e. s\<lparr>slot_envelope := (slot_envelope s)(slot := e)\<rparr>);
          go = (\<lambda>e st. (put e)\<lparr>slot_envelope_state := (slot_envelope_state s)(slot := st)\<rparr>)
      in Option.bind (int32 (uint (31 - decay_level))) (\<lambda>level.
         Option.bind (int32 (level * 1024)) (\<lambda>sustain.
         case slot_envelope_state s slot of
           ENVELOPE_ATTACK \<Rightarrow>
             Option.bind (envelope_step_checked attack 256) (\<lambda>step.
             Option.bind (int32 (env + step)) (\<lambda>e.
             Some (if e \<ge> VF2_SCSP_SLOT_ENVELOPE_MAX then go VF2_SCSP_SLOT_ENVELOPE_MAX ENVELOPE_DECAY1 else put e)))
         | ENVELOPE_DECAY1 \<Rightarrow>
             Option.bind (envelope_step_checked decay1 64) (\<lambda>step.
             Option.bind (int32 (env - step)) (\<lambda>e.
             Some (if e \<le> sustain then go sustain ENVELOPE_DECAY2 else put e)))
         | ENVELOPE_DECAY2 \<Rightarrow>
             Option.bind (envelope_step_checked decay2 32) (\<lambda>step.
             Option.bind (int32 (env - step)) (\<lambda>e.
             Some (if e \<le> sustain then put sustain else put e)))
         | ENVELOPE_RELEASE \<Rightarrow>
             Option.bind (envelope_step_checked release 64) (\<lambda>step.
             Option.bind (int32 (env - step)) (\<lambda>e.
             Some (if e \<le> 0 then (put 0)\<lparr>slot_active := (slot_active s)(slot := False)\<rparr> else put e))))))"

section \<open>Samples\<close>

definition read_sample_pcm16_checked :: "vf2_scsp \<Rightarrow> u32 \<Rightarrow> int option" where
  "read_sample_pcm16_checked s address =
     (case (read_sample_byte s address, read_sample_byte s (address + 1)) of
        (Inr high, Inr low) \<Rightarrow> Option.bind (int32 (uint high * 256)) (\<lambda>shifted. Some (to_int16 (shifted OR uint low)))
      | _ \<Rightarrow> Some 0)"

definition slot_sample_checked :: "vf2_scsp \<Rightarrow> nat \<Rightarrow> u32 \<Rightarrow> int option" where
  "slot_sample_checked s slot address =
     (if slot_word s slot 0 AND VF2_SCSP_PCM8B \<noteq> 0 then
        (case read_sample_byte s (slot_start s slot + address) of
           Inr v \<Rightarrow> Option.bind (int32 (sint v * 256)) int16
         | Inl _ \<Rightarrow> Some 0)
      else read_sample_pcm16_checked s (slot_start s slot + (address AND NOT 1)))"

definition interpolated_checked :: "vf2_scsp \<Rightarrow> nat \<Rightarrow> int option" where
  "interpolated_checked s slot =
     (let eight = slot_word s slot 0 AND VF2_SCSP_PCM8B \<noteq> 0;
          address = slot_address s slot;
          sample_address = (if eight then drop_bit VF2_SCSP_FIXED_SHIFT address
                            else drop_bit (VF2_SCSP_FIXED_SHIFT - 1) address AND NOT 1);
          fraction = address AND (VF2_SCSP_FIXED_ONE - 1)
      in Option.bind (slot_sample_checked s slot sample_address) (\<lambda>first.
         Option.bind (slot_sample_checked s slot (sample_address + (if eight then 1 else 2))) (\<lambda>second.
         Option.bind (int64 (first * uint (VF2_SCSP_FIXED_ONE - fraction))) (\<lambda>p.
         Option.bind (int64 (second * uint fraction)) (\<lambda>q.
         Option.bind (int64 (p + q)) (\<lambda>mixed.
         int16 (mixed div 2 ^ VF2_SCSP_FIXED_SHIFT)))))))"

section \<open>The mix\<close>

definition levelled_checked :: "u16 \<Rightarrow> int \<Rightarrow> int option" where
  "levelled_checked level sample =
     (if level AND 0x0100 = 0
      then Option.bind (int32 (uint (level AND 0xff) * 128)) (\<lambda>attenuation.
           Option.bind (int32 (VF2_SCSP_SLOT_ENVELOPE_MAX - attenuation)) (\<lambda>factor.
           Option.bind (int32 (sample * factor)) (\<lambda>p.
           int32 (cdiv p VF2_SCSP_SLOT_ENVELOPE_MAX))))
      else Some sample)"

definition dry_checked :: "u16 \<Rightarrow> int \<Rightarrow> int option" where
  "dry_checked pan_word sample =
     (let direct_level = drop_bit 13 pan_word AND 7
      in if direct_level = 0 then Some 0
         else Option.bind (shift_count (uint (7 - ucast direct_level :: u32))) (\<lambda>k.
              Option.bind (int32 (uint (push_bit k 1 :: u32))) (\<lambda>divisor.
              int32 (cdiv sample divisor))))"

definition gain_checked :: "int \<Rightarrow> int \<Rightarrow> int option" where
  "gain_checked dry gain = Option.bind (int32 (dry * gain)) (\<lambda>p. int32 (cdiv p 32768))"

definition voice_checked :: "u16 \<Rightarrow> u16 \<Rightarrow> int \<Rightarrow> int \<Rightarrow> (int \<times> int) option" where
  "voice_checked level pan_word envelope sample =
     Option.bind (levelled_checked level sample) (\<lambda>l.
     Option.bind (int32 (l * envelope)) (\<lambda>p.
     Option.bind (int32 (cdiv p VF2_SCSP_SLOT_ENVELOPE_MAX)) (\<lambda>v.
     Option.bind (dry_checked pan_word v) (\<lambda>dry.
     (case pan_gains pan_word of (gl, gr) \<Rightarrow>
        Option.bind (gain_checked dry gl) (\<lambda>l.
        Option.bind (gain_checked dry gr) (\<lambda>r.
        Some (l, r))))))))"

definition render_slot_checked :: "nat \<Rightarrow> vf2_scsp \<times> int \<times> int \<Rightarrow> (vf2_scsp \<times> int \<times> int) option" where
  "render_slot_checked slot x = (case x of (s0, mix_left, mix_right) \<Rightarrow>
     Option.bind (synchronize_slot_checked slot s0) (\<lambda>s.
     if \<not> slot_active s slot then Some (s, mix_left, mix_right)
     else
       Option.bind (interpolated_checked s slot) (\<lambda>sample.
       Option.bind (advance_envelope_checked slot s) (\<lambda>s'.
       Option.bind (voice_checked (slot_word s0 slot 0x0c) (slot_word s0 slot 0x16) (slot_envelope s' slot) sample)
         (\<lambda>(l, r).
       Option.bind (int32 (mix_left + l)) (\<lambda>ml.
       Option.bind (int32 (mix_right + r)) (\<lambda>mr.
       Some (advance_slot slot s', ml, mr))))))))"

primrec render_slots_checked :: "nat list \<Rightarrow> vf2_scsp \<times> int \<times> int \<Rightarrow> (vf2_scsp \<times> int \<times> int) option" where
  "render_slots_checked [] x = Some x"
| "render_slots_checked (k # ks) x = Option.bind (render_slot_checked k x) (render_slots_checked ks)"

definition render_frame_checked :: "vf2_scsp \<Rightarrow> (vf2_scsp \<times> int \<times> int) option" where
  "render_frame_checked s =
     Option.bind (render_slots_checked [0..<VF2_SCSP_SLOT_COUNT] (s, 0, 0)) (\<lambda>(s', ml, mr).
     Option.bind (int16 (clamp_sample ml)) (\<lambda>l.
     Option.bind (int16 (clamp_sample mr)) (\<lambda>r.
     Some (s', l, r))))"

primrec render_frames_checked :: "nat \<Rightarrow> vf2_scsp \<Rightarrow> (vf2_scsp \<times> int list \<times> int list) option" where
  "render_frames_checked 0 s = Some (s, [], [])"
| "render_frames_checked (Suc n) s =
     Option.bind (render_frame_checked s) (\<lambda>(s1, l, r).
     Option.bind (render_frames_checked n s1) (\<lambda>(s2, ls, rs).
     Some (s2, l # ls, r # rs)))"

section \<open>The checks that cannot fail\<close>

lemma int32_some: "\<lbrakk>\<bar>x\<bar> \<le> b; b < 2 ^ 31\<rbrakk> \<Longrightarrow> int32 x = Some x"
  by (auto simp: int32_def abs_le_iff)

lemma int64_some: "\<lbrakk>\<bar>x\<bar> \<le> b; b < 2 ^ 63\<rbrakk> \<Longrightarrow> int64 x = Some x"
  by (auto simp: int64_def abs_le_iff)

lemma int16_some: "\<lbrakk>-32768 \<le> x; x \<le> 32767\<rbrakk> \<Longrightarrow> int16 x = Some x"
  by (simp add: int16_def)

lemma uint_and_le: "uint ((w :: 'a::len word) AND m) \<le> uint m"
  by (simp add: word_and_le1 flip: word_le_def)

text \<open>The fields of four and five bits, as numbers.\<close>

lemma field_as_int: "\<exists>n. uint ((w :: u16) AND 31) = int n \<and> n \<le> 31"
proof -
  obtain n where n: "uint (w AND 31) = int n" by (metis nonneg_int_cases uint_nonnegative)
  with uint_and_le [of w 31] have "n \<le> 31" by simp
  with n show ?thesis by blast
qed

lemma flip_octave:
  assumes "0 \<le> f" and "f \<le> (15 :: int)"
  shows "f XOR 8 = (if f < 8 then f + 8 else f - 8)"
proof -
  have "f = 0 \<or> f = 1 \<or> f = 2 \<or> f = 3 \<or> f = 4 \<or> f = 5 \<or> f = 6 \<or> f = 7 \<or> f = 8 \<or> f = 9 \<or>
      f = 10 \<or> f = 11 \<or> f = 12 \<or> f = 13 \<or> f = 14 \<or> f = 15" using assms by presburger
  then show ?thesis by (elim disjE) simp_all
qed

lemma slot_step_ok: "slot_step_checked s slot = Some (slot_step s slot)"
proof -
  define f where "f = uint (drop_bit 11 (slot_word s slot 0x10) AND 0x0f)"
  define q where "q = (if f < 8 then f + 8 else f - 8)"
  have f: "0 \<le> f" "f \<le> 15" using uint_and_le [of "drop_bit 11 (slot_word s slot 0x10)" "0x0f"] by (simp_all add: f_def)
  have q: "f XOR 8 = q" "0 \<le> q" "q \<le> 15" using f by (auto simp: flip_octave q_def)
  have i: "int32 f = Some f" "int32 q = Some q" "int32 (q - 8) = Some (q - 8)"
    "int32 (q - 8 + 2) = Some (q - 8 + 2)" "int32 (- (q - 8 + 2)) = Some (- (q - 8 + 2))"
    using f q by (simp_all add: int32_def)
  have k: "0 \<le> q - 8 + 2 \<Longrightarrow> shift_count (q - 8 + 2) = Some (nat (q - 8 + 2))"
    "\<not> 0 \<le> q - 8 + 2 \<Longrightarrow> shift_count (- (q - 8 + 2)) = Some (nat (- (q - 8 + 2)))"
    using q by (simp_all add: shift_count_def)
  show ?thesis
    unfolding slot_step_checked_def slot_step_def Let_def f_def [symmetric] q_def [symmetric]
    by (cases "0 \<le> q - 8 + 2") (simp_all only: i q(1) k bind.simps if_True if_False simp_thms)
qed

lemma slot_step_updates:
  "slot_step (s\<lparr>slot_address := a\<rparr>) k = slot_step s k"
  "slot_step (s\<lparr>slot_stride := b\<rparr>) k = slot_step s k"
  "slot_step (s\<lparr>slot_envelope := c\<rparr>) k = slot_step s k"
  "slot_step (s\<lparr>slot_active := d\<rparr>) k = slot_step s k"
  "slot_step (s\<lparr>slot_envelope_state := e\<rparr>) k = slot_step s k"
  "slot_step (s\<lparr>slot_backward := f\<rparr>) k = slot_step s k"
  by (simp_all add: slot_step_def slot_word_def)

lemma synchronized_stride:
  "slot_active (synchronize_slot k s) k \<Longrightarrow> slot_stride (synchronize_slot k s) k = slot_step s k"
  by (simp add: synchronize_slot_def start_slot_def Let_def slot_step_updates split: if_splits)

lemma synchronized_ok: "synchronize_slot_checked slot s = Some (synchronize_slot slot s)"
  by (simp add: synchronize_slot_checked_def Let_def slot_step_ok fun_upd_idem synchronized_stride)

lemma rate_word:
  "uint (ucast (w AND 0x1f :: u16) + 1 :: u32) = uint (w AND 0x1f) + 1"
  "uint (31 - ucast (w AND 0x1f :: u16) :: u32) = 31 - uint (w AND 0x1f)"
proof -
  obtain n where n: "uint (w AND 31) = int n" "n \<le> 31" using field_as_int by blast
  have u: "uint (ucast (w AND 31) :: u32) = int n"
    using n by (simp add: unsigned_ucast_eq take_bit_int_eq_self)
  show "uint (ucast (w AND 0x1f) + 1 :: u32) = uint (w AND 0x1f) + 1"
    "uint (31 - ucast (w AND 0x1f) :: u32) = 31 - uint (w AND 0x1f)"
    using n(2) by (simp_all add: uint_word_ariths u n(1))
qed

lemma envelope_step_ok:
  assumes "k \<in> {32, 64, 256}"
  shows "envelope_step_checked (ucast (w AND 0x1f :: u16)) k = Some ((uint (w AND 0x1f) + 1) * k)"
proof -
  obtain n where n: "uint (w AND 31) = int n" "n \<le> 31" using field_as_int by blast
  then show ?thesis using assms by (auto simp: envelope_step_checked_def rate_word int32_def)
qed

text \<open>Neither the sum of the attack nor the differences leave the type when the envelope is between
  silence and full scale; a wild envelope makes the check fail.\<close>

lemma envelope_ok:
  assumes "0 \<le> slot_envelope s slot" and "slot_envelope s slot \<le> VF2_SCSP_SLOT_ENVELOPE_MAX"
  shows "advance_envelope_checked slot s = Some (advance_envelope slot s)"
proof -
  have env: "int32 (slot_envelope s slot + (uint (w AND 0x1f) + 1) * k) = Some (slot_envelope s slot + (uint (w AND 0x1f) + 1) * k)"
    "int32 (slot_envelope s slot - (uint (w AND 0x1f) + 1) * k) = Some (slot_envelope s slot - (uint (w AND 0x1f) + 1) * k)"
    if "k \<in> {32, 64, 256}" for k and w :: u16
  proof -
    obtain n where "uint (w AND 31) = int n" "n \<le> 31" using field_as_int by blast
    then show "int32 (slot_envelope s slot + (uint (w AND 0x1f) + 1) * k) = Some (slot_envelope s slot + (uint (w AND 0x1f) + 1) * k)"
      "int32 (slot_envelope s slot - (uint (w AND 0x1f) + 1) * k) = Some (slot_envelope s slot - (uint (w AND 0x1f) + 1) * k)"
      using assms that by (auto simp: int32_def VF2_SCSP_SLOT_ENVELOPE_MAX_def)
  qed
  have sustain: "int32 (31 - uint (w AND 0x1f)) = Some (31 - uint (w AND 0x1f))"
    "int32 ((31 - uint (w AND 0x1f)) * 1024) = Some ((31 - uint (w AND 0x1f)) * 1024)" for w :: u16
  proof -
    obtain n where "uint (w AND 31) = int n" "n \<le> 31" using field_as_int by blast
    then show "int32 (31 - uint (w AND 0x1f)) = Some (31 - uint (w AND 0x1f))"
      "int32 ((31 - uint (w AND 0x1f)) * 1024) = Some ((31 - uint (w AND 0x1f)) * 1024)"
      by (simp_all add: int32_def)
  qed
  have k: "(256 :: int) \<in> {32, 64, 256}" "(64 :: int) \<in> {32, 64, 256}" "(32 :: int) \<in> {32, 64, 256}" by simp_all
  note steps = k [THEN envelope_step_ok] k [THEN env(1)] k [THEN env(2)]
  show ?thesis
    unfolding advance_envelope_checked_def advance_envelope_def Let_def rate_word(2) sustain bind.bind_lunit
    by (cases "slot_envelope_state s slot") (simp_all only: envelope_state.case steps bind.bind_lunit)
qed

lemma wild_envelope_fails:
  assumes "slot_envelope_state s slot = ENVELOPE_ATTACK" and "slot_envelope s slot = 2 ^ 31 - 1"
  shows "advance_envelope_checked slot s = None"
proof -
  obtain n where n: "uint (slot_word s slot 8 AND 31) = int n" using field_as_int by blast
  have "envelope_step_checked (ucast (slot_word s slot 8 AND 31)) 256 = Some ((int n + 1) * 256)"
    using envelope_step_ok [of 256 "slot_word s slot 8"] by (simp add: n)
  moreover have "int32 (2 ^ 31 - 1 + (int n + 1) * 256) = None" by (simp add: int32_def)
  ultimately show ?thesis
    using assms by (simp add: advance_envelope_checked_def Let_def bind_eq_None_conv)
qed

end
