(* ===== verification/Vf2_Scsp_Voices.thy ===== *)
theory Vf2_Scsp_Voices
  imports Vf2_Scsp_Checked
begin

text \<open>
  The mixer: with every envelope between silence and full scale, which every operation keeps, the
  checked renderer of theory \<open>Vf2_Scsp_Checked\<close> never fails and is the renderer, and a voice whose
  key is up falls silent.
\<close>

section \<open>Bounds\<close>

lemma uint_as_int: "\<exists>n. uint (w :: 'a::len word) = int n"
  by (metis nonneg_int_cases uint_nonnegative)

lemma cdiv_abs: "0 < b \<Longrightarrow> \<bar>cdiv a b\<bar> = \<bar>a\<bar> div b"
  by (auto simp: cdiv_def pos_imp_zdiv_nonneg_iff)

lemma scaled_bound:
  assumes "\<bar>a\<bar> \<le> m" and "0 \<le> f" and "f \<le> d" and "0 < d"
  shows "\<bar>a * f\<bar> \<le> m * d" and "\<bar>cdiv (a * f) d\<bar> \<le> m"
proof -
  have "\<bar>a * f\<bar> = \<bar>a\<bar> * f" using assms by (simp add: abs_mult)
  also have "\<dots> \<le> m * d" using assms by (intro mult_mono) auto
  finally show p: "\<bar>a * f\<bar> \<le> m * d" .
  then have "\<bar>a * f\<bar> div d \<le> m * d div d" using assms by (intro zdiv_mono1)
  then show "\<bar>cdiv (a * f) d\<bar> \<le> m" using assms by (simp add: cdiv_abs)
qed

lemma level_factor:
  "0 \<le> VF2_SCSP_SLOT_ENVELOPE_MAX - uint ((level :: u16) AND 0xff) * 128"
  "VF2_SCSP_SLOT_ENVELOPE_MAX - uint ((level :: u16) AND 0xff) * 128 \<le> VF2_SCSP_SLOT_ENVELOPE_MAX"
  using uint_and_le [of level "0xff"] by (simp_all add: VF2_SCSP_SLOT_ENVELOPE_MAX_def)

lemma level_attenuation:
  "int32 (uint ((level :: u16) AND 0xff) * 128) = Some (uint (level AND 0xff) * 128)"
  "int32 (VF2_SCSP_SLOT_ENVELOPE_MAX - uint ((level :: u16) AND 0xff) * 128) =
     Some (VF2_SCSP_SLOT_ENVELOPE_MAX - uint (level AND 0xff) * 128)"
proof -
  show "int32 (VF2_SCSP_SLOT_ENVELOPE_MAX - uint (level AND 0xff) * 128) =
     Some (VF2_SCSP_SLOT_ENVELOPE_MAX - uint (level AND 0xff) * 128)"
    using level_factor [of level]
    by (intro int32_some [of _ VF2_SCSP_SLOT_ENVELOPE_MAX]) (simp_all add: VF2_SCSP_SLOT_ENVELOPE_MAX_def)
  show "int32 (uint (level AND 0xff) * 128) = Some (uint (level AND 0xff) * 128)"
    using uint_and_le [of level "0xff"] by (intro int32_some [of _ 32640]) (simp_all add: abs_mult)
qed

lemma levelled_ok:
  assumes "\<bar>x\<bar> \<le> 32768"
  shows "levelled_checked level x = Some (levelled level x)" and "\<bar>levelled level x\<bar> \<le> 32768"
proof -
  note b = scaled_bound [OF assms level_factor(1) level_factor(2), of level]
  have pos: "0 < VF2_SCSP_SLOT_ENVELOPE_MAX" and small: "32768 * VF2_SCSP_SLOT_ENVELOPE_MAX < 2 ^ 31"
    by (simp_all add: VF2_SCSP_SLOT_ENVELOPE_MAX_def)
  show "\<bar>levelled level x\<bar> \<le> 32768" using b(2) [OF pos] assms by (simp add: levelled_def)
  show "levelled_checked level x = Some (levelled level x)"
    using int32_some [OF b(1) [OF pos] small] int32_some [OF b(2) [OF pos]] level_attenuation [of level]
    by (simp only: levelled_checked_def levelled_def bind.bind_lunit split: if_split) simp
qed

lemma dry_bound: "\<bar>x\<bar> \<le> m \<Longrightarrow> \<bar>dry_part pan_word x\<bar> \<le> m"
proof -
  assume m: "\<bar>x\<bar> \<le> m"
  have "\<bar>x\<bar> div 2 ^ k \<le> \<bar>x\<bar>" for k :: nat
    using zdiv_mono2 [of "\<bar>x\<bar>" 1 "2 ^ k"] by simp
  then show ?thesis using m by (auto simp: dry_part_def Let_def cdiv_abs intro: order_trans)
qed

lemma dry_ok:
  assumes "\<bar>x\<bar> \<le> 32768"
  shows "dry_checked pan_word x = Some (dry_part pan_word x)"
proof -
  let ?d = "drop_bit 13 pan_word AND 7 :: u16"
  have le: "uint ?d \<le> 7" using uint_and_le [of "drop_bit 13 pan_word" 7] by simp
  obtain d where d: "uint ?d = int d" using uint_as_int by blast
  then have u: "unat ?d = d" "d \<le> 7" using le by (simp_all flip: nat_uint_eq)
  have "uint (ucast ?d :: u32) = int d" using d u(2) by (simp add: unsigned_ucast_eq take_bit_int_eq_self)
  then have count: "uint (7 - ucast ?d :: u32) = int (7 - d)" using u(2) by (simp add: uint_word_ariths)
  have "7 - d = 0 \<or> 7 - d = 1 \<or> 7 - d = 2 \<or> 7 - d = 3 \<or> 7 - d = 4 \<or> 7 - d = 5 \<or> 7 - d = 6 \<or> 7 - d = 7"
    by linarith
  then have p: "uint (push_bit (7 - d) 1 :: u32) = 2 ^ (7 - d)"
    by (elim disjE) (simp_all only:, simp_all)
  have "(2 :: int) ^ (7 - d) \<le> 2 ^ 7" by (intro power_increasing) simp_all
  then have q: "int32 (2 ^ (7 - d)) = Some (2 ^ (7 - d))" by (intro int32_some [of _ 128]) simp_all
  have "int32 (cdiv x (2 ^ (7 - d))) = Some (cdiv x (2 ^ (7 - d)))" if "?d \<noteq> 0"
    using dry_bound [OF assms, of pan_word] that u
    by (intro int32_some [of _ 32768]) (auto simp: dry_part_def Let_def unat_eq_0 split: if_splits)
  moreover have "shift_count (uint (7 - ucast ?d :: u32)) = Some (7 - d)"
    unfolding count using u(2) by (simp add: shift_count_def)
  moreover have "?d = 0 \<longleftrightarrow> d = 0" using unat_eq_0 [of "?d"] unfolding u(1) by simp
  ultimately show ?thesis
    by (cases "d = 0") (simp_all only: dry_checked_def dry_part_def Let_def p q u(1) if_True if_False
        bind.bind_lunit simp_thms unat_0)
qed

lemma atten_range: "\<forall>g \<in> set scsp_pan_atten_q15. 0 \<le> g \<and> g \<le> 32768"
  by (simp add: scsp_pan_atten_q15_def)

lemma gains_range:
  assumes "pan_gains pan_word = (gl, gr)"
  shows "0 \<le> gl" "gl \<le> 32768" "0 \<le> gr" "gr \<le> 32768"
proof -
  let ?i = "unat ((drop_bit 8 pan_word AND 0x1f) AND 0x0f :: u16)"
  have "?i \<le> 15"
    using uint_and_le [of "drop_bit 8 pan_word AND 0x1f :: u16" "0x0f"] by (simp add: nat_le_iff flip: nat_uint_eq)
  then have "scsp_pan_atten_q15 ! ?i \<in> set scsp_pan_atten_q15"
    by (intro nth_mem) (simp add: scsp_pan_atten_q15_def)
  with atten_range have "0 \<le> scsp_pan_atten_q15 ! ?i \<and> scsp_pan_atten_q15 ! ?i \<le> 32768" by blast
  then show "0 \<le> gl" "gl \<le> 32768" "0 \<le> gr" "gr \<le> 32768"
    using assms by (auto simp: pan_gains_def Let_def split: if_splits)
qed

text \<open>The part of one voice, and its bounds.\<close>

definition voice_parts :: "u16 \<Rightarrow> u16 \<Rightarrow> int \<Rightarrow> int \<Rightarrow> int \<times> int" where
  "voice_parts level pan_word envelope sample =
     (let dry = dry_part pan_word (cdiv (levelled level sample * envelope) VF2_SCSP_SLOT_ENVELOPE_MAX)
      in (cdiv (dry * fst (pan_gains pan_word)) 32768, cdiv (dry * snd (pan_gains pan_word)) 32768))"

lemma voice_ok:
  assumes x: "\<bar>x\<bar> \<le> 32768" and e: "0 \<le> e" "e \<le> VF2_SCSP_SLOT_ENVELOPE_MAX"
  shows "voice_checked level pan_word e x = Some (voice_parts level pan_word e x)"
    and "\<bar>fst (voice_parts level pan_word e x)\<bar> \<le> 32768"
    and "\<bar>snd (voice_parts level pan_word e x)\<bar> \<le> 32768"
proof -
  obtain gl gr where g: "pan_gains pan_word = (gl, gr)" by (cases "pan_gains pan_word")
  have pos: "0 < VF2_SCSP_SLOT_ENVELOPE_MAX" and small: "32768 * VF2_SCSP_SLOT_ENVELOPE_MAX < 2 ^ 31"
    by (simp_all add: VF2_SCSP_SLOT_ENVELOPE_MAX_def)
  note v = scaled_bound [OF levelled_ok(2) [OF x, of level] e pos]
  let ?v = "cdiv (levelled level x * e) VF2_SCSP_SLOT_ENVELOPE_MAX"
  note d = dry_bound [OF v(2), of pan_word]
  note l = scaled_bound [OF d gains_range(1,2) [OF g]] and r = scaled_bound [OF d gains_range(3,4) [OF g]]
  have le: "(32768 :: int) < 2 ^ 31" "(32768 * 32768 :: int) < 2 ^ 31" "(0 :: int) < 32768" by simp_all
  show "voice_checked level pan_word e x = Some (voice_parts level pan_word e x)"
    by (simp add: voice_checked_def voice_parts_def Let_def levelled_ok(1) [OF x] int32_some [OF v(1) small]
        int32_some [OF v(2) le(1)] dry_ok [OF v(2)] gain_checked_def g int32_some [OF l(1) [OF le(3)] le(2)]
        int32_some [OF r(1) [OF le(3)] le(2)] int32_some [OF l(2) [OF le(3)] le(1)] int32_some [OF r(2) [OF le(3)] le(1)])
  show "\<bar>fst (voice_parts level pan_word e x)\<bar> \<le> 32768" "\<bar>snd (voice_parts level pan_word e x)\<bar> \<le> 32768"
    using l(2) r(2) by (simp_all add: voice_parts_def Let_def g)
qed

lemma to_int16_range: "-32768 \<le> to_int16 x" "to_int16 x \<le> 32767"
  using sint_greater_eq [of "word_of_int x :: 16 word"] sint_less [of "word_of_int x :: 16 word"]
  by (simp_all add: to_int16_def)

lemma to_int16_id: "\<lbrakk>-32768 \<le> x; x \<le> 32767\<rbrakk> \<Longrightarrow> to_int16 x = x"
  by (simp add: to_int16_def sint_sbintrunc' signed_take_bit_int_eq_self)

lemma sample_range: "-32768 \<le> slot_sample_at s slot a" "slot_sample_at s slot a \<le> 32767"
proof -
  have w: "-32768 \<le> sint (w :: u16)" "sint w \<le> 32767" for w
    using sint_greater_eq [of w] sint_less [of w] by simp_all
  show "-32768 \<le> slot_sample_at s slot a" "slot_sample_at s slot a \<le> 32767"
    using to_int16_range w
    by (auto simp: slot_sample_at_def read_sample_pcm16_def split: sum.splits)
qed

lemma interpolation_range:
  assumes "-32768 \<le> a" "a \<le> 32767" "-32768 \<le> b" "b \<le> (32767 :: int)" "0 \<le> f" "f \<le> (4096 :: int)"
  shows "-32768 \<le> (a * (4096 - f) + b * f) div 4096" "(a * (4096 - f) + b * f) div 4096 \<le> 32767"
proof -
  have "a * (4096 - f) + b * f \<le> 32767 * (4096 - f) + 32767 * f"
    using assms by (intro add_mono mult_right_mono) auto
  moreover have "-32768 * (4096 - f) + -32768 * f \<le> a * (4096 - f) + b * f"
    using assms by (intro add_mono mult_right_mono) auto
  ultimately show "-32768 \<le> (a * (4096 - f) + b * f) div 4096" "(a * (4096 - f) + b * f) div 4096 \<le> 32767"
    by (simp_all add: algebra_simps)
qed

lemma fraction_split:
  fixes a :: u32
  defines "f \<equiv> a AND (VF2_SCSP_FIXED_ONE - 1)"
  shows "uint (VF2_SCSP_FIXED_ONE - f) = 4096 - uint f" and "uint f \<le> 4096"
proof -
  have one: "VF2_SCSP_FIXED_ONE = 4096" by (simp add: VF2_SCSP_FIXED_ONE_def VF2_SCSP_FIXED_SHIFT_def)
  have "uint f \<le> uint (4095 :: u32)" unfolding f_def one using uint_and_le [of a 4095] by simp
  then have le: "uint f \<le> 4095" by simp
  then show "uint f \<le> 4096" by simp
  have "f \<le> 4096" using le by (simp add: word_le_def)
  then show "uint (VF2_SCSP_FIXED_ONE - f) = 4096 - uint f" unfolding one by (simp add: uint_minus_simple_alt)
qed

text \<open>The sample readers.\<close>

lemma pcm16_pattern: "to_int16 (uint high * 256 OR uint low) = sint (push_bit 8 (ucast high) OR ucast low :: u16)"
  for high low :: u8
proof -
  have "uint high * 256 = push_bit 8 (uint high)" by (simp add: push_bit_eq_mult)
  moreover have "(word_of_int (push_bit 8 (uint high) OR uint low) :: u16) = push_bit 8 (ucast high) OR ucast low"
    by (rule bit_word_eqI) (auto simp: bit_simps)
  ultimately show ?thesis by (simp add: to_int16_def)
qed

lemma sample_ok: "slot_sample_checked s slot a = Some (slot_sample_at s slot a)"
proof -
  have "int32 (uint h * 256) = Some (uint h * 256)" for h :: u8
    using uint_lt2p [of h] by (intro int32_some [of _ 65536]) (simp_all add: abs_mult)
  then have wide: "read_sample_pcm16_checked s b = Some (read_sample_pcm16 s b)" for b
    by (simp add: read_sample_pcm16_checked_def read_sample_pcm16_def pcm16_pattern split: sum.split)
  have v: "-32768 \<le> sint v * 256" "sint v * 256 \<le> 32767" for v :: u8
    using sint_greater_eq [of v] sint_less [of v] by simp_all
  have "int32 (sint v * 256) = Some (sint v * 256)" for v :: u8
    using v [of v] by (simp add: int32_def)
  then show ?thesis
    by (simp add: slot_sample_checked_def slot_sample_at_def wide int16_some [OF v] to_int16_id [OF v] split: sum.split)
qed

lemma interpolated_ok: "interpolated_checked s slot = Some (slot_interpolated_sample s slot)"
proof -
  let ?p = "\<lambda>a w. slot_sample_at s slot a * uint (VF2_SCSP_FIXED_ONE - (w AND (VF2_SCSP_FIXED_ONE - 1)))"
  let ?q = "\<lambda>b w. slot_sample_at s slot b * uint (w AND (VF2_SCSP_FIXED_ONE - 1))"
  have r: "-32768 \<le> x" "x \<le> 32767" if "x = (?p a w + ?q b w) div 2 ^ VF2_SCSP_FIXED_SHIFT" for x a b w
    using interpolation_range [OF sample_range [of s slot a] sample_range [of s slot b] _ fraction_split(2) [of w]]
    unfolding that fraction_split(1) by (simp_all add: VF2_SCSP_FIXED_SHIFT_def)
  have small: "\<bar>slot_sample_at s slot a * f\<bar> \<le> 32768 * 4096" if "0 \<le> f" "f \<le> 4096" for a f
    using sample_range [of s slot a] that by (intro scaled_bound) auto
  have f: "0 \<le> uint (w AND (VF2_SCSP_FIXED_ONE - 1))" "uint (w AND (VF2_SCSP_FIXED_ONE - 1)) \<le> 4096"
    "0 \<le> uint (VF2_SCSP_FIXED_ONE - (w AND (VF2_SCSP_FIXED_ONE - 1)))"
    "uint (VF2_SCSP_FIXED_ONE - (w AND (VF2_SCSP_FIXED_ONE - 1))) \<le> 4096" for w :: u32
    using fraction_split [of w] by simp_all
  have pq: "\<bar>?p a w\<bar> \<le> 32768 * 4096" "\<bar>?q b w\<bar> \<le> 32768 * 4096" for a b w
    by (rule small, (rule f)+)+
  have sum: "\<bar>?p a w + ?q b w\<bar> \<le> 2 * (32768 * 4096)" for a b w
    using pq(1) [of a w] pq(2) [of b w] by linarith
  have le: "32768 * 4096 < (2 :: int) ^ 63" "2 * (32768 * 4096) < (2 :: int) ^ 63" by simp_all
  show ?thesis
    unfolding interpolated_checked_def slot_interpolated_sample_def Let_def sample_ok bind.bind_lunit
      int64_some [OF pq(1) le(1)] int64_some [OF pq(2) le(1)] int64_some [OF sum le(2)]
    by (subst to_int16_id [OF r [OF refl]], subst int16_some [OF r [OF refl]]) (rule refl)
qed

lemma interpolated_bound: "\<bar>slot_interpolated_sample s slot\<bar> \<le> 32768"
proof -
  have "\<bar>to_int16 x\<bar> \<le> 32768" for x using to_int16_range [of x] by linarith
  then show ?thesis by (simp add: slot_interpolated_sample_def Let_def)
qed

section \<open>What rendering one voice changes\<close>

definition voice_ok_at :: "vf2_scsp \<Rightarrow> nat \<Rightarrow> bool" where
  "voice_ok_at s k \<longleftrightarrow> 0 \<le> slot_envelope s k \<and> slot_envelope s k \<le> VF2_SCSP_SLOT_ENVELOPE_MAX"

definition scsp_ok :: "vf2_scsp \<Rightarrow> bool" where
  "scsp_ok s \<longleftrightarrow> (\<forall>k. voice_ok_at s k)"

lemma start_slot_fields [simp]:
  "scsp_registers (start_slot k s) = scsp_registers s"
  "slot_active (start_slot k s) = slot_active s"
  "slot_envelope (start_slot k s) = (slot_envelope s)(k := 0)"
  "slot_envelope_state (start_slot k s) = (slot_envelope_state s)(k := ENVELOPE_ATTACK)"
  by (simp_all add: start_slot_def)

lemma synchronize_registers [simp]: "scsp_registers (synchronize_slot k s) = scsp_registers s"
  by (simp add: synchronize_slot_def Let_def)

lemma synchronize_midi [simp]:
  "midi_input (synchronize_slot k s) = midi_input s"
  "midi_read_index (synchronize_slot k s) = midi_read_index s"
  "midi_write_index (synchronize_slot k s) = midi_write_index s"
  by (simp_all add: synchronize_slot_def start_slot_def Let_def)

lemma synchronize_other:
  assumes "j \<noteq> k"
  shows "slot_active (synchronize_slot k s) j = slot_active s j"
    and "slot_envelope (synchronize_slot k s) j = slot_envelope s j"
    and "slot_envelope_state (synchronize_slot k s) j = slot_envelope_state s j"
  using assms by (simp_all add: synchronize_slot_def Let_def)

lemma synchronize_ok: "scsp_ok s \<Longrightarrow> scsp_ok (synchronize_slot k s)"
  by (simp add: scsp_ok_def voice_ok_at_def synchronize_slot_def Let_def VF2_SCSP_SLOT_ENVELOPE_MAX_def)

lemma advance_slot_fields [simp]:
  "scsp_registers (advance_slot k s) = scsp_registers s"
  "slot_envelope (advance_slot k s) = slot_envelope s"
  "slot_envelope_state (advance_slot k s) = slot_envelope_state s"
  "midi_input (advance_slot k s) = midi_input s"
  "midi_read_index (advance_slot k s) = midi_read_index s"
  "midi_write_index (advance_slot k s) = midi_write_index s"
  by (simp_all add: advance_slot_def Let_def)

lemma advance_slot_active: "slot_active (advance_slot k s) j \<Longrightarrow> slot_active s j"
  by (auto simp: advance_slot_def Let_def split: if_splits)

lemma advance_slot_other: "j \<noteq> k \<Longrightarrow> slot_active (advance_slot k s) j = slot_active s j"
  by (simp add: advance_slot_def Let_def)

lemma advance_envelope_fields [simp]:
  "scsp_registers (advance_envelope k s) = scsp_registers s"
  "midi_input (advance_envelope k s) = midi_input s"
  "midi_read_index (advance_envelope k s) = midi_read_index s"
  "midi_write_index (advance_envelope k s) = midi_write_index s"
  by (simp_all add: advance_envelope_def Let_def split: envelope_state.split)

lemma advance_envelope_other:
  assumes "j \<noteq> k"
  shows "slot_active (advance_envelope k s) j = slot_active s j"
    and "slot_envelope (advance_envelope k s) j = slot_envelope s j"
    and "slot_envelope_state (advance_envelope k s) j = slot_envelope_state s j"
  using assms by (simp_all add: advance_envelope_def Let_def split: envelope_state.split)

lemma advance_envelope_ok:
  assumes "voice_ok_at s j"
  shows "voice_ok_at (advance_envelope k s) j"
proof (cases "j = k")
  case True
  obtain a where a: "uint (slot_word s k 8 AND 31) = int a" using uint_as_int by blast
  obtain d1 where d1: "uint (drop_bit 6 (slot_word s k 8) AND 31) = int d1" using uint_as_int by blast
  obtain d2 where d2: "uint (drop_bit 11 (slot_word s k 8) AND 31) = int d2" using uint_as_int by blast
  obtain r where r: "uint (slot_word s k 10 AND 31) = int r" using uint_as_int by blast
  obtain l where l: "uint (drop_bit 5 (slot_word s k 10) AND 31) = int l" "l \<le> 31" using field_as_int by blast
  show ?thesis
    using assms True l(2)
    by (cases "slot_envelope_state s k") (auto simp: voice_ok_at_def advance_envelope_def Let_def
        VF2_SCSP_SLOT_ENVELOPE_MAX_def a d1 d2 r l(1))
next
  case False
  then show ?thesis using assms advance_envelope_other by (simp add: voice_ok_at_def)
qed

lemma scsp_ok_step: "scsp_ok s \<Longrightarrow> scsp_ok (advance_slot k (advance_envelope k (synchronize_slot k s)))"
  using synchronize_ok [of s k] advance_envelope_ok [of "synchronize_slot k s"]
  by (simp add: scsp_ok_def voice_ok_at_def)

section \<open>No overflow\<close>

text \<open>One voice of the renderer, with the parts of the mix named.\<close>

lemma render_slot_parts:
  "render_slot k (s, l, r) =
    (let s1 = synchronize_slot k s; s2 = advance_envelope k s1;
         v = voice_parts (slot_word s k 0x0c) (slot_word s k 0x16) (slot_envelope s2 k) (slot_interpolated_sample s1 k)
     in if slot_active s1 k then (advance_slot k s2, l + fst v, r + snd v) else (s1, l, r))"
  by (simp add: render_slot_def voice_parts_def Let_def split: prod.split)

lemma render_slot_ok:
  assumes s: "scsp_ok s" and l: "\<bar>l\<bar> \<le> m" and r: "\<bar>r\<bar> \<le> m" and m: "m + 32768 < 2 ^ 31"
  shows "\<exists>s' l' r'. render_slot k (s, l, r) = (s', l', r') \<and>
      render_slot_checked k (s, l, r) = Some (s', l', r') \<and>
      scsp_ok s' \<and> \<bar>l'\<bar> \<le> m + 32768 \<and> \<bar>r'\<bar> \<le> m + 32768"
proof (cases "slot_active (synchronize_slot k s) k")
  case False
  then show ?thesis using synchronize_ok [OF s] l r
    by (simp add: render_slot_parts render_slot_checked_def synchronized_ok)
next
  case True
  let ?s1 = "synchronize_slot k s"
  let ?s2 = "advance_envelope k ?s1"
  let ?v = "voice_parts (slot_word s k 0x0c) (slot_word s k 0x16) (slot_envelope ?s2 k) (slot_interpolated_sample ?s1 k)"
  have e: "0 \<le> slot_envelope ?s2 k" "slot_envelope ?s2 k \<le> VF2_SCSP_SLOT_ENVELOPE_MAX"
    using advance_envelope_ok [of ?s1 k k] synchronize_ok [OF s] by (simp_all add: scsp_ok_def voice_ok_at_def)
  note v = voice_ok [OF interpolated_bound [of ?s1 k] e, where level = "slot_word s k 0x0c"
      and pan_word = "slot_word s k 0x16"]
  have sums: "\<bar>l + fst ?v\<bar> \<le> m + 32768" "\<bar>r + snd ?v\<bar> \<le> m + 32768" using l r v(2,3) by linarith+
  have env: "advance_envelope_checked k ?s1 = Some ?s2"
    using synchronize_ok [OF s] by (intro envelope_ok) (simp_all add: scsp_ok_def voice_ok_at_def)
  have "render_slot_checked k (s, l, r) = Some (advance_slot k ?s2, l + fst ?v, r + snd ?v)"
    using True by (simp add: render_slot_checked_def synchronized_ok interpolated_ok env v(1) split_beta
        int32_some [OF sums(1) m] int32_some [OF sums(2) m])
  moreover have "render_slot k (s, l, r) = (advance_slot k ?s2, l + fst ?v, r + snd ?v)"
    using True by (simp add: render_slot_parts Let_def)
  ultimately show ?thesis using scsp_ok_step [OF s] sums by auto
qed

lemma render_slots_ok:
  assumes "scsp_ok s" and "\<bar>l\<bar> \<le> m" and "\<bar>r\<bar> \<le> m" and "m + 32768 * int (length ks) < 2 ^ 31"
  shows "\<exists>s' l' r'. fold render_slot ks (s, l, r) = (s', l', r') \<and>
      render_slots_checked ks (s, l, r) = Some (s', l', r') \<and> scsp_ok s'"
  using assms
proof (induction ks arbitrary: s l r m)
  case Nil
  then show ?case by simp
next
  case (Cons k ks)
  from Cons.prems(4) have "m + 32768 < 2 ^ 31" by simp
  from render_slot_ok [OF Cons.prems(1-3) this, of k]
  obtain s1 l1 r1 where 1: "render_slot k (s, l, r) = (s1, l1, r1)" "render_slot_checked k (s, l, r) = Some (s1, l1, r1)"
    "scsp_ok s1" "\<bar>l1\<bar> \<le> m + 32768" "\<bar>r1\<bar> \<le> m + 32768" by blast
  from Cons.prems(4) have "m + 32768 + 32768 * int (length ks) < 2 ^ 31" by (simp add: algebra_simps)
  from Cons.IH [OF 1(3,4,5) this] 1(1,2) show ?case by simp
qed

lemma clamp_range: "-32768 \<le> clamp_sample x" "clamp_sample x \<le> 32767"
  by (simp_all add: clamp_sample_def)

lemma render_frame_ok:
  assumes "scsp_ok s"
  shows "\<exists>s' l r. render_frame s = (s', l, r) \<and> render_frame_checked s = Some (s', l, r) \<and> scsp_ok s' \<and>
      l \<in> {-32768..32767} \<and> r \<in> {-32768..32767}"
proof -
  from render_slots_ok [OF assms, of 0 0 0 "[0..<VF2_SCSP_SLOT_COUNT]"]
  obtain s' ml mr where 1: "fold render_slot [0..<VF2_SCSP_SLOT_COUNT] (s, 0, 0) = (s', ml, mr)"
    "render_slots_checked [0..<VF2_SCSP_SLOT_COUNT] (s, 0, 0) = Some (s', ml, mr)" "scsp_ok s'"
    by (auto simp: VF2_SCSP_SLOT_COUNT_def simp del: upt_Suc)
  show ?thesis
    using 1 by (simp add: render_frame_def render_frame_checked_def int16_some [OF clamp_range]
        to_int16_id [OF clamp_range] clamp_range)
qed

lemma render_frames_ok:
  "scsp_ok s \<Longrightarrow> \<exists>s' ls rs. render_frames n s = (s', ls, rs) \<and> render_frames_checked n s = Some (s', ls, rs) \<and>
     scsp_ok s' \<and> length ls = n \<and> length rs = n \<and> set ls \<subseteq> {-32768..32767} \<and> set rs \<subseteq> {-32768..32767}"
proof (induction n arbitrary: s)
  case 0
  then show ?case by simp
next
  case (Suc n)
  from render_frame_ok [OF Suc.prems] obtain s1 l r where 1: "render_frame s = (s1, l, r)"
    "render_frame_checked s = Some (s1, l, r)" "scsp_ok s1" "l \<in> {-32768..32767}" "r \<in> {-32768..32767}" by blast
  from Suc.IH [OF 1(3)] obtain s2 ls rs where "render_frames n s1 = (s2, ls, rs)"
    "render_frames_checked n s1 = Some (s2, ls, rs)" "scsp_ok s2" "length ls = n" "length rs = n"
    "set ls \<subseteq> {-32768..32767}" "set rs \<subseteq> {-32768..32767}" by blast
  with 1 show ?case by simp
qed

section \<open>A released voice falls silent\<close>

text \<open>Voice \<open>k\<close> with its key up: silent, or at most \<open>b\<close> loud.\<close>

definition fading :: "nat \<Rightarrow> int \<Rightarrow> vf2_scsp \<Rightarrow> bool" where
  "fading k b s \<longleftrightarrow> slot_word s k 0 AND VF2_SCSP_KEYONB = 0 \<and> (slot_active s k \<longrightarrow> slot_envelope s k \<le> b)"

lemma slot_word_render [simp]:
  "slot_word (synchronize_slot j s) k i = slot_word s k i"
  "slot_word (advance_envelope j s) k i = slot_word s k i"
  "slot_word (advance_slot j s) k i = slot_word s k i"
  by (simp_all add: slot_word_def)

lemma fading_other: "\<lbrakk>j \<noteq> k; fading k b s\<rbrakk> \<Longrightarrow> fading k b (fst (render_slot j (s, l, r)))"
  by (simp add: fading_def render_slot_parts Let_def synchronize_other advance_envelope_other advance_slot_other)

lemma release_step:
  assumes "slot_envelope_state s k = ENVELOPE_RELEASE" and "slot_envelope s k \<le> b"
    and "slot_active (advance_envelope k s) k"
  shows "slot_envelope (advance_envelope k s) k \<le> b - 64" and "0 < b - 64"
proof -
  obtain n where "uint (slot_word s k 10 AND 31) = int n" using uint_as_int by blast
  with assms show "slot_envelope (advance_envelope k s) k \<le> b - 64" "0 < b - 64"
    by (auto simp: advance_envelope_def Let_def split: if_splits)
qed

lemma fading_self:
  assumes "fading k b s"
  shows "fading k (b - 64) (fst (render_slot k (s, l, r)))"
    and "b \<le> 64 \<Longrightarrow> \<not> slot_active (fst (render_slot k (s, l, r))) k"
proof -
  let ?s1 = "synchronize_slot k s"
  let ?s2 = "advance_envelope k ?s1"
  have key: "slot_word s k 0 AND VF2_SCSP_KEYONB = 0" using assms by (simp add: fading_def)
  have s1: "slot_active ?s1 k = slot_active s k" "slot_envelope ?s1 k = slot_envelope s k"
    "slot_active s k \<Longrightarrow> slot_envelope_state ?s1 k = ENVELOPE_RELEASE"
    using key by (simp_all add: synchronize_slot_def Let_def)
  have bound: "slot_envelope ?s2 k \<le> b - 64 \<and> 0 < b - 64" if "slot_active s k" "slot_active ?s2 k"
    using release_step [of ?s1 k b] that s1 assms by (simp add: fading_def)
  have "slot_envelope (fst (render_slot k (s, l, r))) k \<le> b - 64 \<and> 0 < b - 64"
    if "slot_active (fst (render_slot k (s, l, r))) k"
    using that bound s1 by (auto simp: render_slot_parts Let_def split: if_splits dest: advance_slot_active)
  then show "fading k (b - 64) (fst (render_slot k (s, l, r)))"
    "b \<le> 64 \<Longrightarrow> \<not> slot_active (fst (render_slot k (s, l, r))) k"
    using key by (auto simp: fading_def render_slot_parts Let_def)
qed

lemma fading_others:
  "\<lbrakk>k \<notin> set js; fading k b (fst x)\<rbrakk> \<Longrightarrow> fading k b (fst (fold render_slot js x))"
proof (induction js arbitrary: x)
  case (Cons j js)
  obtain s l r where "x = (s, l, r)" by (cases x)
  with Cons fading_other [of j k b s l r] show ?case by auto
qed simp

lemma fading_frame:
  assumes k: "k < VF2_SCSP_SLOT_COUNT" and s: "fading k b s" and "render_frame s = (s', l, r)"
  shows "fading k (b - 64) s'"
proof -
  have split: "[0..<VF2_SCSP_SLOT_COUNT] = [0..<k] @ k # [Suc k..<VF2_SCSP_SLOT_COUNT]"
    using k by (metis le_add1 less_imp_add_positive upt_add_eq_append upt_conv_Cons add_0 less_imp_le_nat)
  obtain s1 l1 r1 where 1: "fold render_slot [0..<k] (s, 0, 0) = (s1, l1, r1)"
    by (cases "fold render_slot [0..<k] (s, 0, 0)")
  have "fading k b s1" using fading_others [of k "[0..<k]" b "(s, 0, 0)"] s 1 by simp
  from fading_others [OF _ fading_self(1) [OF this, of l1 r1], of "[Suc k..<VF2_SCSP_SLOT_COUNT]"]
  have "fading k (b - 64) (fst (fold render_slot [0..<VF2_SCSP_SLOT_COUNT] (s, 0, 0)))"
    by (simp add: split 1 del: upt_Suc)
  then show ?thesis using assms(3) by (simp add: render_frame_def split: prod.splits)
qed

lemma fading_frames:
  "\<lbrakk>k < VF2_SCSP_SLOT_COUNT; fading k b s; render_frames n s = (s', ls, rs)\<rbrakk> \<Longrightarrow> fading k (b - 64 * int n) s'"
proof (induction n arbitrary: b s ls rs)
  case 0
  then show ?case by simp
next
  case (Suc n)
  obtain s1 l r where 1: "render_frame s = (s1, l, r)" by (cases "render_frame s")
  obtain s2 ls' rs' where 2: "render_frames n s1 = (s2, ls', rs')" by (cases "render_frames n s1")
  from Suc.prems(3) 1 2 have "s2 = s'" by simp
  with Suc.IH [OF Suc.prems(1) fading_frame [OF Suc.prems(1,2) 1]] 2
  show ?case by (simp add: algebra_simps)
qed

end
