(* ===== verification/Vf2_Scsp_Calls.thy ===== *)
theory Vf2_Scsp_Calls
  imports Vf2_Scsp_Laws Vf2_Scsp_Voices
begin

text \<open>
  What holds of the sound processor after any sequence of calls of its interface: the MIDI bytes come
  out in order, the MIDI pending bit tracks the FIFO, the mixer does not overflow and a voice whose key
  is up falls silent.
\<close>

section \<open>Sequences of calls\<close>

datatype scsp_call =
    Reset
  | Attach_ram "memory option" nat
  | Attach_rom "memory option" nat
  | Write_sample u32 "u8 list"
  | Read_u8 u32
  | Read_u16 u32
  | Write_u8 u32 u8
  | Write_u16 u32 u16
  | Midi_receive u8
  | Midi_read
  | Render bool nat

fun scsp_call_state :: "scsp_call \<Rightarrow> vf2_scsp \<Rightarrow> vf2_scsp" where
  "scsp_call_state Reset s = vf2_scsp_reset s"
| "scsp_call_state (Attach_ram ram n) s = snd (vf2_scsp_attach_sample_ram ram n s)"
| "scsp_call_state (Attach_rom rom n) s = snd (vf2_scsp_attach_sample_rom rom n s)"
| "scsp_call_state (Write_sample a bytes) s = snd (vf2_scsp_write_sample a bytes s)"
| "scsp_call_state (Read_u8 a) s = snd (vf2_scsp_read_u8 a s)"
| "scsp_call_state (Read_u16 a) s = snd (vf2_scsp_read_u16 a s)"
| "scsp_call_state (Write_u8 a v) s = snd (vf2_scsp_write_u8 a v s)"
| "scsp_call_state (Write_u16 a v) s = snd (vf2_scsp_write_u16 a v s)"
| "scsp_call_state (Midi_receive v) s = snd (vf2_scsp_midi_receive v s)"
| "scsp_call_state Midi_read s = snd (vf2_scsp_midi_read s)"
| "scsp_call_state (Render buffers n) s = snd (vf2_scsp_render buffers n s)"

text \<open>The state after initialising the chip, whatever it held, and making the calls.\<close>

definition scsp_after :: "scsp_call list \<Rightarrow> vf2_scsp \<Rightarrow> vf2_scsp" where
  "scsp_after calls s0 = fold scsp_call_state calls (vf2_scsp_initialize s0)"

lemma scsp_after_invariant:
  assumes "P (vf2_scsp_initialize s0)"
    and "\<And>c s. \<lbrakk>c \<in> set calls; P s\<rbrakk> \<Longrightarrow> P (scsp_call_state c s)"
  shows "P (scsp_after calls s0)"
proof -
  have "P (fold scsp_call_state cs s)" if "P s" "set cs \<subseteq> set calls" for cs s
    using that by (induction cs arbitrary: s) (simp_all add: assms(2))
  then show ?thesis using assms(1) by (simp add: scsp_after_def)
qed

section \<open>What every call keeps\<close>

text \<open>The invariant: the queue's indices are in the ring and the envelopes in their range.\<close>

definition scsp_inv :: "vf2_scsp \<Rightarrow> bool" where
  "scsp_inv s \<longleftrightarrow> midi_ok s \<and> scsp_ok s"

definition midi_pending :: "vf2_scsp \<Rightarrow> bool" where
  "midi_pending s \<longleftrightarrow> bit (scsp_registers s 0x421) 3"

definition pending_tracks :: "vf2_scsp \<Rightarrow> bool" where
  "pending_tracks s \<longleftrightarrow> (midi_pending s \<longleftrightarrow> \<not> vf2_scsp_midi_empty s)"

lemma update_midi_pending_tracks: "pending_tracks (update_midi_pending s)"
  by (simp add: pending_tracks_def midi_pending_def update_midi_pending_def Let_def write_be16_def
      vf2_scsp_midi_empty_def VF2_SCSP_PENDING_MIDI_def bit_simps)

lemma update_midi_pending_envelope [simp]: "slot_envelope (update_midi_pending s) = slot_envelope s"
  by (simp add: update_midi_pending_def Let_def)

lemma same_midi:
  assumes "scsp_registers s' = scsp_registers s" and "midi_read_index s' = midi_read_index s"
    and "midi_write_index s' = midi_write_index s"
  shows "midi_ok s' = midi_ok s" and "pending_tracks s' = pending_tracks s"
  using assms by (simp_all add: midi_ok_def pending_tracks_def midi_pending_def vf2_scsp_midi_empty_def)

lemma receive_keeps:
  assumes "midi_ok s"
  shows "midi_ok (snd (vf2_scsp_midi_receive v s))"
    and "scsp_ok (snd (vf2_scsp_midi_receive v s)) = scsp_ok s"
    and "pending_tracks s \<Longrightarrow> pending_tracks (snd (vf2_scsp_midi_receive v s))"
proof -
  have "unat (midi_read_index s) < 32" "ring_next (unat (midi_write_index s)) < 32"
    using assms ring_next_lt by (simp_all add: midi_ok_def)
  then show "midi_ok (snd (vf2_scsp_midi_receive v s))"
    using assms by (simp add: vf2_scsp_midi_receive_def midi_ok_def next_index)
qed (simp_all add: vf2_scsp_midi_receive_def scsp_ok_def voice_ok_at_def update_midi_pending_tracks)

lemma read_keeps:
  assumes "midi_ok s"
  shows "midi_ok (snd (vf2_scsp_midi_read s))"
    and "scsp_ok (snd (vf2_scsp_midi_read s)) = scsp_ok s"
    and "pending_tracks s \<Longrightarrow> pending_tracks (snd (vf2_scsp_midi_read s))"
proof -
  have "ring_next (unat (midi_read_index s)) < 32" using assms ring_next_lt by (simp add: midi_ok_def)
  then show "midi_ok (snd (vf2_scsp_midi_read s))"
    using assms by (simp add: vf2_scsp_midi_read_def midi_ok_def next_index)
qed (simp_all add: vf2_scsp_midi_read_def scsp_ok_def voice_ok_at_def update_midi_pending_tracks)

lemma read_u16_state: "snd (vf2_scsp_read_u16 a s) = s \<or> snd (vf2_scsp_read_u16 a s) = snd (vf2_scsp_midi_read s)"
  by (simp add: vf2_scsp_read_u16_def vf2_scsp_midi_read_def)

lemma read_u8_state: "snd (vf2_scsp_read_u8 a s) = s \<or> snd (vf2_scsp_read_u8 a s) = snd (vf2_scsp_midi_read s)"
  by (simp add: vf2_scsp_read_u8_def)

text \<open>A write changes registers and, through \<open>synchronize_slot\<close>, voices.\<close>

lemma write_keeps:
  "midi_ok (snd (vf2_scsp_write_u16 a v s)) = midi_ok s"
  "midi_ok (snd (vf2_scsp_write_u8 a b s)) = midi_ok s"
  by (simp_all add: vf2_scsp_write_u16_def vf2_scsp_write_u8_def Let_def midi_ok_def)

lemma scsp_ok_registers [simp]: "scsp_ok (s\<lparr>scsp_registers := r\<rparr>) = scsp_ok s"
  by (simp add: scsp_ok_def voice_ok_at_def)

lemma write_keeps_voices:
  assumes "scsp_ok s"
  shows "scsp_ok (snd (vf2_scsp_write_u16 a v s))" and "scsp_ok (snd (vf2_scsp_write_u8 a b s))"
  using assms by (simp_all add: vf2_scsp_write_u16_def vf2_scsp_write_u8_def Let_def synchronize_ok)

lemma even_address:
  assumes "(a :: u32) AND 1 = 0"
  shows "even (unat a)"
proof -
  have "\<not> bit (a AND 1) 0" using assms by simp
  then have "\<not> bit a 0" by (simp add: bit_simps)
  then have "\<not> bit (unat a) 0" by (simp add: bit_unsigned_iff)
  then show ?thesis by (simp add: bit_0)
qed

lemma numeral_address: "unat (a :: u32) = numeral n \<Longrightarrow> a = numeral n"
  by (metis of_nat_numeral of_nat_unat ucast_id)

lemma write_u16_registers:
  "scsp_registers (snd (vf2_scsp_write_u16 a v s)) =
     (if a AND 1 \<noteq> 0 \<or> a > VF2_SCSP_REGISTER_BYTES - 2 then scsp_registers s
      else write_be16 (scsp_registers s) (unat a)
             (if a = 0x0420 \<or> a = 0x042e then read_be16 (scsp_registers s) (unat a) OR (v AND 0x0020) else v))"
  by (simp add: vf2_scsp_write_u16_def Let_def)

lemma or_status: "bit (write_be16 d 0x420 (read_be16 d 0x420 OR (v AND 0x0020)) 0x421) 3 = bit (d 0x421) 3"
  by (simp add: write_be16_def read_be16_def bit_simps)

lemma write_u16_status:
  "bit (scsp_registers (snd (vf2_scsp_write_u16 a v s)) 0x421) 3 = bit (scsp_registers s 0x421) 3"
proof (cases "a AND 1 \<noteq> 0 \<or> a > VF2_SCSP_REGISTER_BYTES - 2")
  case True
  then show ?thesis by (simp only: write_u16_registers if_True)
next
  case False
  then have even: "even (unat a)" using even_address by blast
  show ?thesis
  proof (cases "a = 0x420")
    case True
    then show ?thesis using False or_status [of "scsp_registers s" v] by (simp add: write_u16_registers)
  next
    case other: False
    have "unat a \<noteq> 0x420" using other numeral_address by blast
    with even have "0x421 \<noteq> unat a" "0x421 \<noteq> unat a + 1" by auto
    then show ?thesis using False by (simp add: write_u16_registers write_be16_def del: fun_upd_apply add: fun_upd_other)
  qed
qed

lemma write_u8_status:
  assumes "a \<noteq> 0x421"
  shows "scsp_registers (snd (vf2_scsp_write_u8 a b s)) 0x421 = scsp_registers s 0x421"
proof -
  have "0x421 \<noteq> unat a" using assms numeral_address by metis
  then show ?thesis by (simp add: vf2_scsp_write_u8_def Let_def)
qed

lemma write_indices [simp]:
  "midi_read_index (snd (vf2_scsp_write_u16 a v s)) = midi_read_index s"
  "midi_write_index (snd (vf2_scsp_write_u16 a v s)) = midi_write_index s"
  "midi_read_index (snd (vf2_scsp_write_u8 a b s)) = midi_read_index s"
  "midi_write_index (snd (vf2_scsp_write_u8 a b s)) = midi_write_index s"
  by (simp_all add: vf2_scsp_write_u16_def vf2_scsp_write_u8_def Let_def)

lemma render_slot_keeps:
  "scsp_registers (fst (render_slot k x)) = scsp_registers (fst x)"
  "midi_read_index (fst (render_slot k x)) = midi_read_index (fst x)"
  "midi_write_index (fst (render_slot k x)) = midi_write_index (fst x)"
  by (cases x, simp add: render_slot_parts Let_def)+

lemma render_keeps:
  "scsp_registers (fst (render_frames n s)) = scsp_registers s"
  "midi_read_index (fst (render_frames n s)) = midi_read_index s"
  "midi_write_index (fst (render_frames n s)) = midi_write_index s"
proof -
  have slots: "scsp_registers (fst (fold render_slot ks x)) = scsp_registers (fst x)"
    "midi_read_index (fst (fold render_slot ks x)) = midi_read_index (fst x)"
    "midi_write_index (fst (fold render_slot ks x)) = midi_write_index (fst x)" for ks x
    by (induction ks arbitrary: x) (simp_all add: render_slot_keeps)
  have frame: "scsp_registers (fst (render_frame s)) = scsp_registers s"
    "midi_read_index (fst (render_frame s)) = midi_read_index s"
    "midi_write_index (fst (render_frame s)) = midi_write_index s" for s
    using slots [of _ "(s, 0, 0)"] by (simp_all add: render_frame_def split_beta)
  show "scsp_registers (fst (render_frames n s)) = scsp_registers s"
    "midi_read_index (fst (render_frames n s)) = midi_read_index s"
    "midi_write_index (fst (render_frames n s)) = midi_write_index s"
    by (induction n arbitrary: s) (simp_all add: frame split_beta)
qed

lemma render_keeps_voices: "scsp_ok s \<Longrightarrow> scsp_ok (fst (render_frames n s))"
  using render_frames_ok [of s n] by auto

lemma render_state:
  "snd (vf2_scsp_render buffers n s) = s \<or> snd (vf2_scsp_render buffers n s) = fst (render_frames n s)"
  by (simp add: vf2_scsp_render_def split_beta)

lemmas invariant_defs = midi_ok_def scsp_ok_def voice_ok_at_def pending_tracks_def midi_pending_def vf2_scsp_midi_empty_def

lemma sample_keeps:
  "midi_ok (snd (vf2_scsp_attach_sample_ram d n s)) = midi_ok s"
  "midi_ok (snd (vf2_scsp_attach_sample_rom d n s)) = midi_ok s"
  "midi_ok (snd (vf2_scsp_write_sample a bytes s)) = midi_ok s"
  "scsp_ok (snd (vf2_scsp_attach_sample_ram d n s)) = scsp_ok s"
  "scsp_ok (snd (vf2_scsp_attach_sample_rom d n s)) = scsp_ok s"
  "scsp_ok (snd (vf2_scsp_write_sample a bytes s)) = scsp_ok s"
  "pending_tracks (snd (vf2_scsp_attach_sample_ram d n s)) = pending_tracks s"
  "pending_tracks (snd (vf2_scsp_attach_sample_rom d n s)) = pending_tracks s"
  "pending_tracks (snd (vf2_scsp_write_sample a bytes s)) = pending_tracks s"
  by (simp_all add: vf2_scsp_attach_sample_ram_def vf2_scsp_attach_sample_rom_def vf2_scsp_write_sample_def
      invariant_defs split: option.split)

lemma initial_inv:
  "midi_ok (vf2_scsp_initialize s)" "scsp_ok (vf2_scsp_initialize s)" "pending_tracks (vf2_scsp_initialize s)"
  "midi_ok (vf2_scsp_reset s)" "scsp_ok (vf2_scsp_reset s)" "pending_tracks (vf2_scsp_reset s)"
  by (simp_all add: vf2_scsp_reset_def vf2_scsp_initialize_def midi_ok_def scsp_ok_def voice_ok_at_def
      pending_tracks_def midi_pending_def vf2_scsp_midi_empty_def VF2_SCSP_SLOT_ENVELOPE_MAX_def)

lemma call_keeps_inv:
  assumes "scsp_inv s"
  shows "scsp_inv (scsp_call_state c s)"
proof -
  have s: "midi_ok s" "scsp_ok s" using assms by (simp_all add: scsp_inv_def)
  show ?thesis
  proof (cases c)
    case (Read_u8 a)
    then show ?thesis using s read_keeps read_u8_state [of a s] by (auto simp: scsp_inv_def)
  next
    case (Read_u16 a)
    then show ?thesis using s read_keeps read_u16_state [of a s] by (auto simp: scsp_inv_def)
  next
    case (Render buffers n)
    then show ?thesis using s render_keeps_voices render_state [of buffers n s] render_keeps [of n s]
      by (auto simp: scsp_inv_def midi_ok_def)
  qed (use s in \<open>simp_all add: scsp_inv_def initial_inv sample_keeps write_keeps write_keeps_voices receive_keeps read_keeps\<close>)
qed

lemma call_keeps_pending:
  assumes i: "scsp_inv s" and t: "pending_tracks s" and c: "\<And>b. c \<noteq> Write_u8 0x421 b"
  shows "pending_tracks (scsp_call_state c s)"
proof -
  have s: "midi_ok s" using i by (simp add: scsp_inv_def)
  show ?thesis
  proof (cases c)
    case (Read_u8 a)
    then show ?thesis using s t read_keeps read_u8_state [of a s] by auto
  next
    case (Read_u16 a)
    then show ?thesis using s t read_keeps read_u16_state [of a s] by auto
  next
    case (Write_u8 a b)
    with c have "a \<noteq> 0x421" by blast
    with Write_u8 t show ?thesis
      by (simp add: pending_tracks_def midi_pending_def vf2_scsp_midi_empty_def write_u8_status)
  next
    case (Write_u16 a v)
    with t show ?thesis
      by (simp add: pending_tracks_def midi_pending_def vf2_scsp_midi_empty_def write_u16_status)
  next
    case (Render buffers n)
    then show ?thesis using t render_state [of buffers n s] render_keeps [of n s] same_midi(2) [of "fst (render_frames n s)" s]
      by auto
  qed (use s t in \<open>simp_all add: initial_inv sample_keeps receive_keeps read_keeps\<close>)
qed

lemma after_inv: "midi_ok (scsp_after calls s0)" "scsp_ok (scsp_after calls s0)"
proof -
  have "scsp_inv (scsp_after calls s0)"
    by (rule scsp_after_invariant) (simp_all add: scsp_inv_def initial_inv call_keeps_inv [unfolded scsp_inv_def])
  then show "midi_ok (scsp_after calls s0)" "scsp_ok (scsp_after calls s0)" by (simp_all add: scsp_inv_def)
qed

section \<open>Properties\<close>

text \<open>C34: The MIDI input is a first-in first-out queue of 31 bytes. After any calls of the chip's
  interface, bytes received while they fit are read back in order after the bytes already waiting,
  and leave the queue empty. A byte that does not fit and a read of an empty queue report
  \<open>VF2_ERROR_OUT_OF_BOUNDS\<close> and change nothing.\<close>

theorem scsp_midi_first_in_first_out:
  assumes "s = scsp_after calls s0"
  shows "(length (midi_queue s) + length xs \<le> 31 \<longrightarrow>
      (\<exists>s'. pbind (pfor xs vf2_scsp_midi_receive)
              (\<lambda>_. get_all vf2_scsp_midi_read (length (midi_queue s) + length xs)) s =
            (Inr (midi_queue s @ xs), s') \<and> midi_queue s' = [])) \<and>
    (length (midi_queue s) = 31 \<longrightarrow> vf2_scsp_midi_receive v s = (Inl VF2_ERROR_OUT_OF_BOUNDS, s)) \<and>
    (midi_queue s = [] \<longrightarrow> vf2_scsp_midi_read s = (Inl VF2_ERROR_OUT_OF_BOUNDS, s))"
  using after_inv(1) [of calls s0] midi.first_in_first_out [of s xs] midi.put_full [of s v] midi.get_none [of s] assms
  by auto

text \<open>A sound processor before its initialisation.\<close>

definition blank_scsp :: vf2_scsp where
  "blank_scsp = \<lparr>scsp_registers = (\<lambda>_. 0), sample_ram = None, sample_ram_size = 0, sample_rom = None,
     sample_rom_size = 0, midi_input = (\<lambda>_. 0), midi_read_index = 0, midi_write_index = 0,
     slot_address = (\<lambda>_. 0), slot_stride = (\<lambda>_. 0), slot_envelope = (\<lambda>_. 0), slot_active = (\<lambda>_. False),
     slot_envelope_state = (\<lambda>_. ENVELOPE_RELEASE), slot_backward = (\<lambda>_. False)\<rparr>"

lemma scsp_midi_first_in_first_out_witness:
  "(\<exists>s'. pbind (pfor [7, 8] vf2_scsp_midi_receive) (\<lambda>_. get_all vf2_scsp_midi_read 3)
       (scsp_after [Midi_receive 6] blank_scsp) = (Inr [6, 7, 8], s') \<and> midi_queue s' = [])"
proof -
  have q: "midi_queue (scsp_after [Midi_receive 6] blank_scsp) = [6]"
    using midi.put_room [of "vf2_scsp_initialize blank_scsp" 6] initial_inv(1) [of blank_scsp]
    by (auto simp: scsp_after_def midi_queue_def midi_count_def ring_count_def vf2_scsp_initialize_def)
  have n: "length [6 :: u8] + length [7 :: u8, 8] = 3" by simp
  from scsp_midi_first_in_first_out [OF refl, of "[Midi_receive 6]" blank_scsp "[7, 8]"] show ?thesis
    unfolding q n by simp
qed

text \<open>C35: Rendering is free of overflow. After any calls, for every one of the 32 voices and every
  frame, no signed operation of the renderer leaves its type: the pitch's octave and shift counts, the
  steps, sums and differences of the envelope before they are clamped, the sample readers, the 64-bit
  interpolation, level, envelope, direct level, pan and the two accumulators; and the conversions of
  the interpolated sample and of the two clamped outputs to 16 bits keep their value. That is, the
  checked renderer, which fails at the first operation that does not, never fails and agrees with the
  renderer; and the samples returned are 16-bit. Not covered, because they are meant to reinterpret
  the bytes of a sample in two's complement: \<open>(int8_t)value\<close> in \<open>slot_sample_at\<close> and the conversion of
  \<open>high << 8 | low\<close> in \<open>read_sample_pcm16\<close>.\<close>

theorem scsp_render_no_overflow:
  "\<exists>s' ls rs. vf2_scsp_render True n (scsp_after calls s0) = (Inr (ls, rs), s') \<and>
     render_frames_checked n (scsp_after calls s0) = Some (s', ls, rs) \<and>
     length ls = n \<and> length rs = n \<and> set ls \<subseteq> {-32768..32767} \<and> set rs \<subseteq> {-32768..32767}"
  using render_frames_ok [OF after_inv(2), of n calls s0] by (auto simp: vf2_scsp_render_def)

text \<open>A voice keyed on at full attack; with an envelope no call can give it, its check fails.\<close>

definition keyed_calls :: "scsp_call list" where
  "keyed_calls = [Write_u16 0x08 0x001f, Write_u16 0x00 0x0800]"

lemma keyed_voice:
  "slot_active (scsp_after keyed_calls blank_scsp) 0"
  "slot_envelope_state (scsp_after keyed_calls blank_scsp) 0 = ENVELOPE_ATTACK"
  "slot_word (scsp_after keyed_calls blank_scsp) 0 0 = 0x0800"
  by (simp_all add: keyed_calls_def scsp_after_def vf2_scsp_write_u16_def vf2_scsp_initialize_def Let_def
      synchronize_slot_def start_slot_def slot_word_def read_be16_def write_be16_def VF2_SCSP_KEYONB_def
      VF2_SCSP_REGISTER_BYTES_def VF2_SCSP_MASTER_BASE_def VF2_SCSP_SLOT_BYTES_def VF2_SCSP_SLOT_COUNT_def)

lemma wild_voice_fails:
  assumes "slot_active s 0" and "slot_envelope_state s 0 = ENVELOPE_ATTACK" and "slot_word s 0 0 = 0x0800"
    and "slot_envelope s 0 = 2 ^ 31 - 1"
  shows "render_frames_checked (Suc n) s = None"
proof -
  let ?s = "s\<lparr>slot_stride := (slot_stride s)(0 := slot_step s 0)\<rparr>"
  have "synchronize_slot 0 s = ?s"
    using assms by (simp add: synchronize_slot_def Let_def VF2_SCSP_KEYONB_def)
  moreover have "advance_envelope_checked 0 ?s = None"
    using assms by (intro wild_envelope_fails) simp_all
  ultimately have "render_slot_checked 0 (s, 0, 0) = None"
    using assms(1) by (simp add: render_slot_checked_def synchronized_ok interpolated_ok)
  moreover have "[0..<VF2_SCSP_SLOT_COUNT] = 0 # [1..<VF2_SCSP_SLOT_COUNT]"
    by (simp add: VF2_SCSP_SLOT_COUNT_def upt_rec)
  ultimately have "render_frame_checked s = None" by (simp add: render_frame_checked_def)
  then show ?thesis by simp
qed

lemma scsp_render_no_overflow_witness:
  "slot_active (scsp_after keyed_calls blank_scsp) 0 \<and>
   (\<exists>s' ls rs. render_frames_checked 2 (scsp_after keyed_calls blank_scsp) = Some (s', ls, rs) \<and> length ls = 2) \<and>
   render_frames_checked 2 ((scsp_after keyed_calls blank_scsp)\<lparr>slot_envelope := (\<lambda>_. 2 ^ 31 - 1)\<rparr>) = None"
proof -
  have "render_frames_checked (Suc 1) ((scsp_after keyed_calls blank_scsp)\<lparr>slot_envelope := (\<lambda>_. 2 ^ 31 - 1)\<rparr>) = None"
    using keyed_voice by (intro wild_voice_fails) (simp_all add: slot_word_def)
  then show ?thesis
    using keyed_voice(1) scsp_render_no_overflow [of 2 keyed_calls blank_scsp] by (auto simp: numeral_2_eq_2)
qed

text \<open>C36: A released voice falls silent. After any calls that leave the key of a voice up, rendering 512
  frames or more leaves the voice inactive, whatever its envelope registers say.\<close>

theorem scsp_released_voice_stops:
  assumes s: "s = scsp_after calls s0" and k: "k < VF2_SCSP_SLOT_COUNT"
    and key: "slot_word s k 0 AND VF2_SCSP_KEYONB = 0" and n: "512 \<le> n"
  shows "\<not> slot_active (snd (vf2_scsp_render True n s)) k"
proof -
  obtain s' ls rs where r: "render_frames n s = (s', ls, rs)" "scsp_ok s'"
    using render_frames_ok [OF after_inv(2), of n calls s0] s by auto
  have "fading k VF2_SCSP_SLOT_ENVELOPE_MAX s"
    using after_inv(2) [of calls s0] s key by (simp add: fading_def scsp_ok_def voice_ok_at_def)
  from fading_frames [OF k this r(1)]
  have "slot_active s' k \<longrightarrow> slot_envelope s' k \<le> VF2_SCSP_SLOT_ENVELOPE_MAX - 64 * int n"
    by (simp add: fading_def)
  moreover have "0 \<le> slot_envelope s' k" using r(2) by (simp add: scsp_ok_def voice_ok_at_def)
  moreover have "VF2_SCSP_SLOT_ENVELOPE_MAX - 64 * int n < 0" using n by (simp add: VF2_SCSP_SLOT_ENVELOPE_MAX_def)
  ultimately have "\<not> slot_active s' k" by linarith
  then show ?thesis using r(1) by (simp add: vf2_scsp_render_def)
qed

lemma scsp_released_voice_stops_witness:
  "slot_active (scsp_after [Write_u16 0x60 0x0800, Write_u16 0x60 0] blank_scsp) 3 \<and>
   \<not> slot_active (snd (vf2_scsp_render True 512 (scsp_after [Write_u16 0x60 0x0800, Write_u16 0x60 0] blank_scsp))) 3"
proof -
  let ?s = "scsp_after [Write_u16 0x60 0x0800, Write_u16 0x60 0] blank_scsp"
  have "slot_word ?s 3 0 AND VF2_SCSP_KEYONB = 0" and active: "slot_active ?s 3"
    by (simp_all add: scsp_after_def vf2_scsp_write_u16_def vf2_scsp_initialize_def Let_def synchronize_slot_def
        start_slot_def slot_word_def read_be16_def write_be16_def VF2_SCSP_KEYONB_def VF2_SCSP_REGISTER_BYTES_def
        VF2_SCSP_MASTER_BASE_def VF2_SCSP_SLOT_BYTES_def VF2_SCSP_SLOT_COUNT_def)
  with scsp_released_voice_stops [OF refl, of 3 "[Write_u16 0x60 0x0800, Write_u16 0x60 0]" blank_scsp 512]
  show ?thesis by (simp add: VF2_SCSP_SLOT_COUNT_def)
qed

text \<open>C37: The MIDI pending bit of the interrupt status register tracks the queue. After any calls among
  which no byte is written to the register's low byte, the bit is set exactly when a byte waits.\<close>

theorem scsp_pending_bit_tracks_queue:
  assumes "\<forall>b. Write_u8 0x421 b \<notin> set calls"
  shows "midi_pending (scsp_after calls s0) \<longleftrightarrow> midi_queue (scsp_after calls s0) \<noteq> []"
proof -
  have "scsp_inv (scsp_after calls s0) \<and> pending_tracks (scsp_after calls s0)"
  proof (rule scsp_after_invariant)
    show "scsp_inv (vf2_scsp_initialize s0) \<and> pending_tracks (vf2_scsp_initialize s0)"
      by (simp add: scsp_inv_def initial_inv)
    show "scsp_inv (scsp_call_state c s) \<and> pending_tracks (scsp_call_state c s)"
      if "c \<in> set calls" "scsp_inv s \<and> pending_tracks s" for c s
      using that assms call_keeps_inv [of s c] call_keeps_pending [of s c] by blast
  qed
  then show ?thesis using midi_empty_queue [of "scsp_after calls s0"] by (simp add: pending_tracks_def scsp_inv_def)
qed

lemma scsp_pending_bit_tracks_queue_witness:
  "midi_pending (scsp_after [Midi_receive 6, Write_u8 0x420 0, Write_u16 0x420 0] blank_scsp) \<longleftrightarrow>
   midi_queue (scsp_after [Midi_receive 6, Write_u8 0x420 0, Write_u16 0x420 0] blank_scsp) \<noteq> []"
  by (rule scsp_pending_bit_tracks_queue) simp

text \<open>A byte written to the low byte replaces the bit, which is then set with nothing waiting.\<close>

lemma status_byte_write_replaces_pending:
  "midi_pending (scsp_after [Write_u8 0x421 8] s0) \<and> midi_queue (scsp_after [Write_u8 0x421 8] s0) = []"
  by (simp add: scsp_after_def vf2_scsp_write_u8_def Let_def vf2_scsp_initialize_def midi_pending_def
      midi_queue_def midi_count_def ring_count_def VF2_SCSP_REGISTER_BYTES_def VF2_SCSP_MASTER_BASE_def)

end
