(* ===== verification/Vf2_M68k_Decoder.thy ===== *)
theory Vf2_M68k_Decoder
  imports Vf2_Prelude
begin

text \<open>
  \<open>src/m68k/decoder.c\<close>: the decoder of the sound processor's instructions. One definition per branch
  of \<open>vf2_m68k_decode\<close>, in its order: the length, the status, whether the instruction is supported,
  and its text. Texts go to a buffer of 128 bytes; the operand buffers of 64 bytes are never filled.
\<close>

section \<open>Reading the program\<close>

definition in_range :: "nat \<Rightarrow> u32 \<Rightarrow> nat \<Rightarrow> bool" where
  "in_range n address access_size \<longleftrightarrow> unat address \<le> n \<and> access_size \<le> n - unat address"

definition vf2_m68k_read_u16 :: "memory \<Rightarrow> nat \<Rightarrow> u32 \<Rightarrow> vf2_status + u16" where
  "vf2_m68k_read_u16 program n address =
     (if \<not> in_range n address 2 then Inl VF2_ERROR_OUT_OF_BOUNDS
      else Inr (push_bit 8 (ucast (program (unat address))) OR ucast (program (unat address + 1))))"

definition vf2_m68k_read_u32 :: "memory \<Rightarrow> nat \<Rightarrow> u32 \<Rightarrow> vf2_status + u32" where
  "vf2_m68k_read_u32 program n address =
     (case vf2_m68k_read_u16 program n address of
        Inl e \<Rightarrow> Inl e
      | Inr high \<Rightarrow> (case vf2_m68k_read_u16 program n (address + 2) of
          Inl e \<Rightarrow> Inl e
        | Inr low \<Rightarrow> Inr (push_bit 16 (ucast high) OR ucast low)))"

section \<open>Texts\<close>

definition VF2_M68K_TEXT_BYTES :: nat where "VF2_M68K_TEXT_BYTES = 128"

text \<open>\<open>%0nx\<close> of a number of at most \<open>n\<close> digits, \<open>%x\<close>, and the names of registers.\<close>

definition hexn :: "nat \<Rightarrow> u32 \<Rightarrow> string" where
  "hexn n v = map (\<lambda>k. ''0123456789abcdef'' ! unat (drop_bit (4 * (n - 1 - k)) v AND 0xf)) [0..<n]"

definition hexm :: "u32 \<Rightarrow> string" where
  "hexm v = (let t = dropWhile (\<lambda>c. c = CHR ''0'') (hexn 8 v) in if t = [] then ''0'' else t)"

definition hex16 :: "u16 \<Rightarrow> string" where "hex16 v = hexn 4 (ucast v)"

definition an :: "nat \<Rightarrow> string" where "an r = ''a'' @ decimal r"
definition dn :: "nat \<Rightarrow> string" where "dn r = ''d'' @ decimal r"

definition indirect :: "nat \<Rightarrow> string" where "indirect r = ''('' @ an r @ '')''"

definition displaced :: "u16 \<Rightarrow> nat \<Rightarrow> string" where
  "displaced v r = ''$'' @ hex16 v @ indirect r"

definition index_size :: "u16 \<Rightarrow> string" where
  "index_size extension = (if extension AND 0x0800 \<noteq> 0 then ''l'' else ''w'')"

definition index_register :: "u16 \<Rightarrow> nat" where
  "index_register extension = unat (drop_bit 12 extension AND 7)"

text \<open>\<open>$%02x(base,dn.s)\<close>, and the form that tells address from data registers.\<close>

definition indexed :: "string \<Rightarrow> u16 \<Rightarrow> string" where
  "indexed b extension = ''$'' @ hexn 2 (ucast (extension AND 0xff)) @ ''('' @ b @ '','' @
     dn (index_register extension) @ ''.'' @ index_size extension @ '')''"

definition indexed_either :: "string \<Rightarrow> u16 \<Rightarrow> string" where
  "indexed_either b extension = ''$'' @ hexn 2 (ucast (extension AND 0xff)) @ ''('' @ b @ '','' @
     (if drop_bit 15 extension AND 1 \<noteq> 0 then an (index_register extension)
      else dn (index_register extension)) @ ''.'' @ index_size extension @ '')''"

definition format_indexed_operand :: "nat \<Rightarrow> u16 \<Rightarrow> string" where
  "format_indexed_operand base_register extension = indexed_either (an base_register) extension"

section \<open>Operands\<close>

text \<open>The text of an operand and its number of extension bytes.\<close>

definition format_bit_ea :: "memory \<Rightarrow> nat \<Rightarrow> u32 \<Rightarrow> nat \<Rightarrow> nat \<Rightarrow> vf2_status + string \<times> nat" where
  "format_bit_ea program n extension_address mode register_number =
     (let word = (\<lambda>f. case vf2_m68k_read_u16 program n extension_address of
                    Inl e \<Rightarrow> Inl VF2_ERROR_OUT_OF_BOUNDS | Inr x \<Rightarrow> Inr (f x, 2))
      in if mode = 0 then Inr (dn register_number, 0)
         else if mode = 2 then Inr (indirect register_number, 0)
         else if mode = 3 then Inr (indirect register_number @ ''+'', 0)
         else if mode = 4 then Inr (''-'' @ indirect register_number, 0)
         else if mode = 5 then word (\<lambda>x. displaced x register_number)
         else if mode = 6 then word (\<lambda>x. indexed (an register_number) x)
         else if mode = 7 \<and> register_number = 0 then word (\<lambda>x. ''$'' @ hex16 x)
         else if mode = 7 \<and> register_number = 1 then
           (case vf2_m68k_read_u32 program n extension_address of
              Inl e \<Rightarrow> Inl VF2_ERROR_OUT_OF_BOUNDS | Inr x \<Rightarrow> Inr (''$'' @ hexn 8 x, 4))
         else if mode = 7 \<and> register_number = 2 then
           word (\<lambda>x. ''$'' @ hexn 8 (extension_address + 2 + scast x) @ ''(pc)'')
         else if mode = 7 \<and> register_number = 3 then word (\<lambda>x. indexed ''pc'' x)
         else Inl VF2_ERROR_UNSUPPORTED)"

text \<open>\<open>operation.s #$imm,\<close> and an absolute or PC-relative destination.\<close>

definition format_imm_absolute :: "memory \<Rightarrow> nat \<Rightarrow> u32 \<Rightarrow> nat \<Rightarrow> string \<Rightarrow> vf2_status + string" where
  "format_imm_absolute program n extension_address submode start =
     (if submode = 1 then
        (case vf2_m68k_read_u32 program n extension_address of
           Inl e \<Rightarrow> Inl VF2_ERROR_OUT_OF_BOUNDS
         | Inr w \<Rightarrow> Inr (start @ ''$'' @ hexn 8 w))
      else
        (case vf2_m68k_read_u16 program n extension_address of
           Inl e \<Rightarrow> Inl VF2_ERROR_OUT_OF_BOUNDS
         | Inr extension \<Rightarrow> Inr (start @
             (if submode = 0 then ''$'' @ hex16 extension
              else if submode = 2 then ''$'' @ hex16 extension @ ''(pc)''
              else indexed_either ''pc'' extension))))"

section \<open>Fields of the opcode\<close>

definition ea_mode :: "u16 \<Rightarrow> nat" where "ea_mode opcode = unat (drop_bit 3 opcode AND 7)"
definition ea_register :: "u16 \<Rightarrow> nat" where "ea_register opcode = unat (opcode AND 7)"
definition op_mode :: "u16 \<Rightarrow> nat" where "op_mode opcode = unat (drop_bit 6 opcode AND 7)"
definition op_register :: "u16 \<Rightarrow> nat" where "op_register opcode = unat (drop_bit 9 opcode AND 7)"
definition op_size :: "u16 \<Rightarrow> nat" where "op_size opcode = unat (drop_bit 6 opcode AND 3)"
definition op_condition :: "u16 \<Rightarrow> nat" where "op_condition opcode = unat (drop_bit 8 opcode AND 15)"

definition size_name :: "nat \<Rightarrow> string" where
  "size_name code = (if code = 0 then ''b'' else if code = 1 then ''w'' else ''l'')"

definition move_size_name :: "u16 \<Rightarrow> string" where
  "move_size_name opcode = (if opcode AND 0xf000 = 0x2000 then ''l''
     else if opcode AND 0xf000 = 0x3000 then ''w'' else ''b'')"

section \<open>Outcomes\<close>

text \<open>Length, status, whether supported, and text.\<close>

type_synonym decoded = "nat \<times> vf2_status \<times> bool \<times> string"

definition printed :: "nat \<Rightarrow> string \<Rightarrow> decoded" where
  "printed len txt = (len, VF2_OK, True, take (VF2_M68K_TEXT_BYTES - 1) txt)"

definition undecoded :: "nat \<Rightarrow> vf2_status \<Rightarrow> u16 \<Rightarrow> decoded" where
  "undecoded len status opcode = (len, status, False, ''.word $'' @ hex16 opcode)"

definition unread :: "nat \<Rightarrow> vf2_status \<Rightarrow> decoded" where
  "unread len status = (len, status, True, [])"

definition printing :: "nat \<Rightarrow> vf2_status + 'a \<Rightarrow> ('a \<Rightarrow> string) \<Rightarrow> decoded" where
  "printing len r txt = (case r of Inl e \<Rightarrow> unread len e | Inr x \<Rightarrow> printed len (txt x))"

section \<open>Immediate operations\<close>

text \<open>The length of an operation with an immediate and a destination, and its immediate.\<close>

definition imm_length :: "nat \<Rightarrow> nat \<Rightarrow> nat \<Rightarrow> nat" where
  "imm_length immediate_bytes mode register_number = 2 + immediate_bytes +
     (if mode = 5 \<or> mode = 6 then 2
      else if mode = 7 \<and> register_number \<le> 3 then (if register_number = 1 then 4 else 2)
      else 0)"

definition read_immediate :: "memory \<Rightarrow> nat \<Rightarrow> u32 \<Rightarrow> nat \<Rightarrow> vf2_status + u32" where
  "read_immediate program n address immediate_bytes =
     (if immediate_bytes = 4 then vf2_m68k_read_u32 program n (address + 2)
      else (case vf2_m68k_read_u16 program n (address + 2) of Inl e \<Rightarrow> Inl e | Inr v \<Rightarrow> Inr (ucast v)))"

text \<open>The steps the five groups share: \<open>modes\<close> are the plain modes a group admits, \<open>brief\<close> its form of
  an indexed operand, \<open>system\<close> whether it may address the condition codes or the status register.\<close>

definition decode_imm_op ::
    "memory \<Rightarrow> nat \<Rightarrow> u32 \<Rightarrow> u16 \<Rightarrow> string \<Rightarrow> nat set \<Rightarrow> (nat \<Rightarrow> u16 \<Rightarrow> string) \<Rightarrow> bool \<Rightarrow> decoded" where
  "decode_imm_op program n address opcode operation modes brief system =
     (let mode = ea_mode opcode; r = ea_register opcode; code = op_size opcode;
          immediate_bytes = (if code = 2 then 4 else 2);
          len = imm_length immediate_bytes mode r
      in case read_immediate program n address immediate_bytes of
           Inl e \<Rightarrow> unread len e
         | Inr v \<Rightarrow>
             (let imm = (if code = 0 then v AND 0xff else v);
                  start = operation @ ''.'' @ size_name code @ '' #$'' @ hexm imm @ '','';
                  extension = vf2_m68k_read_u16 program n (address + 2 + of_nat immediate_bytes)
              in if system \<and> mode = 7 \<and> r = 4 \<and> code \<noteq> 2 then
                   printed len (start @ (if code = 0 then ''ccr'' else ''sr''))
                 else if mode \<in> modes \<and> mode = 0 then printed len (start @ dn r)
                 else if mode \<in> modes \<and> (mode = 1 \<or> mode = 2) then printed len (start @ indirect r)
                 else if mode \<in> modes \<and> mode = 3 then printed len (start @ indirect r @ ''+'')
                 else if mode \<in> modes \<and> mode = 4 then printed len (start @ ''-'' @ indirect r)
                 else if mode = 5 then printing len extension (\<lambda>x. start @ displaced x r)
                 else if mode = 6 then printing len extension (\<lambda>x. start @ brief r x)
                 else if mode = 7 \<and> r \<le> 3 then
                   printing len (format_imm_absolute program n (address + 2 + of_nat immediate_bytes) r start) id
                 else undecoded len VF2_OK opcode))"

definition decode_ori_eori :: "memory \<Rightarrow> nat \<Rightarrow> u32 \<Rightarrow> u16 \<Rightarrow> decoded" where
  "decode_ori_eori program n address opcode =
     decode_imm_op program n address opcode (if opcode AND 0x0f00 = 0x0a00 then ''eori'' else ''ori'')
       {0, 1, 2, 3, 4} format_indexed_operand True"

definition decode_andi :: "memory \<Rightarrow> nat \<Rightarrow> u32 \<Rightarrow> u16 \<Rightarrow> decoded" where
  "decode_andi program n address opcode =
     decode_imm_op program n address opcode ''andi'' {0, 2, 3, 4} format_indexed_operand False"

definition decode_subi :: "memory \<Rightarrow> nat \<Rightarrow> u32 \<Rightarrow> u16 \<Rightarrow> decoded" where
  "decode_subi program n address opcode =
     decode_imm_op program n address opcode ''subi'' {0, 2, 3, 4} format_indexed_operand False"

definition decode_addi :: "memory \<Rightarrow> nat \<Rightarrow> u32 \<Rightarrow> u16 \<Rightarrow> decoded" where
  "decode_addi program n address opcode =
     decode_imm_op program n address opcode ''addi'' {0, 2, 3, 4} (\<lambda>r. indexed (an r)) False"

definition decode_cmpi :: "memory \<Rightarrow> nat \<Rightarrow> u32 \<Rightarrow> u16 \<Rightarrow> decoded" where
  "decode_cmpi program n address opcode =
     decode_imm_op program n address opcode ''cmpi'' {0, 2, 3, 4} format_indexed_operand False"

section \<open>Branches, bits and quick operations\<close>

definition branch_target :: "u32 \<Rightarrow> u32 \<Rightarrow> string" where
  "branch_target address disp = ''$'' @ hexn 8 (address + 2 + disp)"

definition decode_bcc :: "memory \<Rightarrow> nat \<Rightarrow> u32 \<Rightarrow> u16 \<Rightarrow> decoded" where
  "decode_bcc program n address opcode =
     (let name = [''bra'', ''bsr'', ''bhi'', ''bls'', ''bcc'', ''bcs'', ''bne'', ''beq'',
                  ''bvc'', ''bvs'', ''bpl'', ''bmi'', ''bge'', ''blt'', ''bgt'', ''ble''] ! op_condition opcode
      in if opcode AND 0xff = 0 then
           printing 4 (vf2_m68k_read_u16 program n (address + 2)) (\<lambda>x. name @ '' '' @ branch_target address (scast x))
         else printed 2 (name @ '' '' @ branch_target address (scast (ucast opcode :: u8))))"

definition decode_dbcc :: "memory \<Rightarrow> nat \<Rightarrow> u32 \<Rightarrow> u16 \<Rightarrow> decoded" where
  "decode_dbcc program n address opcode =
     (let name = [''dbt'', ''dbf'', ''dbhi'', ''dbls'', ''dbcc'', ''dbcs'', ''dbne'', ''dbeq'',
                  ''dbvc'', ''dbvs'', ''dbpl'', ''dbmi'', ''dbge'', ''dblt'', ''dbgt'', ''dble''] ! op_condition opcode
      in printing 4 (vf2_m68k_read_u16 program n (address + 2))
           (\<lambda>x. name @ '' '' @ dn (ea_register opcode) @ '','' @ branch_target address (scast x)))"

definition decode_bit_op :: "memory \<Rightarrow> nat \<Rightarrow> u32 \<Rightarrow> u16 \<Rightarrow> decoded" where
  "decode_bit_op program n address opcode =
     (let name = [''btst'', ''bchg'', ''bclr'', ''bset''] ! op_size opcode;
          immediate_bit = opcode AND 0xf100 \<noteq> 0x0100;
          mode = ea_mode opcode;
          len = (if immediate_bit then 4 else 2)
      in case (if immediate_bit then vf2_m68k_read_u16 program n (address + 2)
               else Inr (drop_bit 9 opcode AND 7)) of
           Inl e \<Rightarrow> unread len e
         | Inr number \<Rightarrow>
             (case format_bit_ea program n (if immediate_bit then address + 4 else address + 2) mode (ea_register opcode) of
                Inl e \<Rightarrow> if e = VF2_ERROR_UNSUPPORTED then undecoded len VF2_OK opcode else unread len e
              | Inr (ea_text, extension_bytes) \<Rightarrow>
                  (let shown = (if immediate_bit then (if mode = 0 then number AND 31 else number AND 7) else number)
                   in printed (len + extension_bytes)
                        (name @ '' '' @ (if immediate_bit then ''#'' else ''d'') @ decimal (unat shown) @ '','' @ ea_text))))"

definition quick_modes :: "u16 \<Rightarrow> bool" where
  "quick_modes opcode \<longleftrightarrow> ea_mode opcode \<in> {0, 1, 2, 3, 5, 6}"

text \<open>The two quick groups print alike.\<close>

definition decode_quick :: "memory \<Rightarrow> nat \<Rightarrow> u32 \<Rightarrow> u16 \<Rightarrow> string \<Rightarrow> decoded" where
  "decode_quick program n address opcode operation =
     (let mode = ea_mode opcode; r = ea_register opcode; count = op_register opcode;
          len = (if mode = 5 \<or> mode = 6 then 4 else 2);
          start = operation @ ''.'' @ size_name (op_size opcode) @ '' #'' @
            decimal (if count = 0 then 8 else count) @ '','';
          extension = vf2_m68k_read_u16 program n (address + 2)
      in if mode = 0 then printed len (start @ dn r)
         else if mode = 1 then printed len (start @ an r)
         else if mode = 2 then printed len (start @ indirect r)
         else if mode = 3 then printed len (start @ indirect r @ ''+'')
         else if mode = 6 then printing len extension (\<lambda>x. start @ indexed (an r) x)
         else printing len extension (\<lambda>x. start @ displaced x r))"

definition decode_subq :: "memory \<Rightarrow> nat \<Rightarrow> u32 \<Rightarrow> u16 \<Rightarrow> decoded" where
  "decode_subq program n address opcode = decode_quick program n address opcode ''subq''"

definition decode_addq :: "memory \<Rightarrow> nat \<Rightarrow> u32 \<Rightarrow> u16 \<Rightarrow> decoded" where
  "decode_addq program n address opcode = decode_quick program n address opcode ''addq''"

section \<open>Arithmetic on registers\<close>

definition decode_unary :: "u16 \<Rightarrow> string \<Rightarrow> decoded" where
  "decode_unary opcode operation =
     (if ea_mode opcode = 0 then printed 2 (operation @ ''.'' @ size_name (op_size opcode) @ '' '' @ dn (ea_register opcode))
      else undecoded 2 VF2_OK opcode)"

definition decode_neg :: "u16 \<Rightarrow> decoded" where
  "decode_neg opcode = decode_unary opcode ''neg''"

definition decode_not :: "u16 \<Rightarrow> decoded" where
  "decode_not opcode = decode_unary opcode ''not''"

definition decode_tst :: "memory \<Rightarrow> nat \<Rightarrow> u32 \<Rightarrow> u16 \<Rightarrow> decoded" where
  "decode_tst program n address opcode =
     (let mode = ea_mode opcode; r = ea_register opcode; start = ''tst.'' @ size_name (op_size opcode) @ '' ''
      in if mode = 0 then printed 2 (start @ dn r)
         else if mode = 5 then printing 4 (vf2_m68k_read_u16 program n (address + 2)) (\<lambda>x. start @ displaced x r)
         else undecoded 2 VF2_OK opcode)"

definition decode_or :: "memory \<Rightarrow> nat \<Rightarrow> u32 \<Rightarrow> u16 \<Rightarrow> decoded" where
  "decode_or program n address opcode =
     (let operation_mode = op_mode opcode; source_mode = ea_mode opcode; source_register = ea_register opcode;
          start = ''or.'' @ (if operation_mode = 0 then ''b'' else if operation_mode = 1 then ''w''
            else if operation_mode = 2 then ''l'' else ''b'') @ '' '';
          finish = '','' @ dn (op_register opcode)
      in if operation_mode \<le> 2 \<and> source_mode = 0 then printed 2 (start @ dn source_register @ finish)
         else if operation_mode \<le> 2 \<and> source_mode \<in> {2, 3, 5, 6} then
           (case format_bit_ea program n (address + 2) source_mode source_register of
              Inl e \<Rightarrow> unread 2 e
            | Inr (source_text, extension_bytes) \<Rightarrow> printed (2 + extension_bytes) (start @ source_text @ finish))
         else undecoded 2 VF2_OK opcode)"

definition decode_shift :: "u16 \<Rightarrow> decoded" where
  "decode_shift opcode =
     (let name = [''as'', ''ls'', ''rox'', ''ro''] ! unat (drop_bit 3 opcode AND 3);
          left = opcode AND 0x0100 \<noteq> 0;
          count = op_register opcode;
          start = name @ (if left then ''l'' else ''r'') @ ''.'' @ size_name (op_size opcode) @ '' ''
      in if opcode AND 0x0020 \<noteq> 0 then printed 2 (start @ dn count @ '','' @ dn (ea_register opcode))
         else printed 2 (start @ ''#'' @ decimal (if count = 0 then 8 else count) @ '','' @ dn (ea_register opcode)))"

definition decode_adda_imm :: "memory \<Rightarrow> nat \<Rightarrow> u32 \<Rightarrow> u16 \<Rightarrow> decoded" where
  "decode_adda_imm program n address opcode =
     (let is_long = opcode AND 0x0100 \<noteq> 0; is_sub = opcode AND 0xf000 = 0x9000
      in printing (if is_long then 6 else 4) (read_immediate program n address (if is_long then 4 else 2))
           (\<lambda>v. (if is_sub then ''sub'' else ''add'') @ ''a.'' @ (if is_long then ''l'' else ''w'') @
              '' #$'' @ hexm v @ '','' @ an (op_register opcode)))"

text \<open>The source operand of the register forms of \<open>sub\<close>, \<open>cmp\<close> and \<open>add\<close>.\<close>

definition plain_source :: "nat \<Rightarrow> nat \<Rightarrow> u16 \<Rightarrow> string" where
  "plain_source mode r disp =
     (if mode = 0 then dn r else if mode = 2 then indirect r else if mode = 3 then indirect r @ ''+''
      else displaced disp r)"

definition decode_sub :: "memory \<Rightarrow> nat \<Rightarrow> u32 \<Rightarrow> u16 \<Rightarrow> decoded" where
  "decode_sub program n address opcode =
     (let operation_mode = op_mode opcode; mode = ea_mode opcode;
          len = 2 + (if mode = 5 then 2 else 0)
      in case (if mode = 5 then vf2_m68k_read_u16 program n (address + 2) else Inr 0) of
           Inl e \<Rightarrow> undecoded len e opcode
         | Inr disp \<Rightarrow>
             if operation_mode \<le> 2 \<and> mode \<in> {0, 2, 3, 5} then
               printed len (''sub.'' @ size_name operation_mode @ '' '' @ plain_source mode (ea_register opcode) disp @
                 '','' @ dn (op_register opcode))
             else undecoded len VF2_OK opcode)"

definition decode_cmpa_imm :: "memory \<Rightarrow> nat \<Rightarrow> u32 \<Rightarrow> u16 \<Rightarrow> decoded" where
  "decode_cmpa_imm program n address opcode =
     (let is_long = opcode AND 0x0100 \<noteq> 0
      in printing (if is_long then 6 else 4) (read_immediate program n address (if is_long then 4 else 2))
           (\<lambda>v. ''cmpa.'' @ (if is_long then ''l'' else ''w'') @ '' #$'' @ hexm v @ '','' @ an (op_register opcode)))"

definition decode_cmp :: "memory \<Rightarrow> nat \<Rightarrow> u32 \<Rightarrow> u16 \<Rightarrow> decoded" where
  "decode_cmp program n address opcode =
     (let mode = ea_mode opcode
      in printing (if mode = 5 then 4 else 2)
           (if mode = 5 then vf2_m68k_read_u16 program n (address + 2) else Inr 0)
           (\<lambda>disp. ''cmp.'' @ size_name (op_size opcode) @ '' '' @ plain_source mode (ea_register opcode) disp @
              '','' @ dn (op_register opcode)))"

definition decode_add :: "memory \<Rightarrow> nat \<Rightarrow> u32 \<Rightarrow> u16 \<Rightarrow> decoded" where
  "decode_add program n address opcode =
     (let operation_mode = op_mode opcode; mode = ea_mode opcode; r = ea_register opcode;
          destination = op_register opcode;
          name = ''add.'' @ (if operation_mode = 0 \<or> operation_mode = 4 then ''b''
            else if operation_mode = 1 \<or> operation_mode = 5 then ''w'' else ''l'') @ '' '';
          extended = mode = 5 \<or> mode = 0 \<and> operation_mode \<in> {4, 5, 6};
          len = 2 + (if extended then 2 else 0)
      in case (if extended then vf2_m68k_read_u16 program n (address + 2) else Inr 0) of
           Inl e \<Rightarrow> undecoded len e opcode
         | Inr disp \<Rightarrow>
             if operation_mode \<le> 2 \<and> mode \<in> {0, 2, 3, 5} then
               printed len (name @ plain_source mode r disp @ '','' @ dn destination)
             else if (operation_mode = 3 \<or> operation_mode = 7) \<and> mode \<in> {0, 2, 3, 5} then
               printed len (''adda.'' @ (if operation_mode = 7 then ''l'' else ''w'') @ '' '' @
                 plain_source mode r disp @ '','' @ an destination)
             else if operation_mode \<ge> 4 \<and> operation_mode \<le> 6 \<and> mode \<in> {0, 2, 3, 5} then
               printed len (name @ dn destination @ '','' @ plain_source mode r disp)
             else undecoded len VF2_OK opcode)"

section \<open>Jumps, sign extension and register lists\<close>

definition decode_jump_absolute :: "memory \<Rightarrow> nat \<Rightarrow> u32 \<Rightarrow> u16 \<Rightarrow> decoded" where
  "decode_jump_absolute program n address opcode =
     printing 6 (vf2_m68k_read_u32 program n (address + 2))
       (\<lambda>v. (if opcode = 0x4eb9 then ''jsr'' else ''jmp'') @ '' $'' @ hexn 8 v)"

definition decode_jump_relative :: "memory \<Rightarrow> nat \<Rightarrow> u32 \<Rightarrow> u16 \<Rightarrow> decoded" where
  "decode_jump_relative program n address opcode =
     printing 4 (vf2_m68k_read_u16 program n (address + 2))
       (\<lambda>v. (if opcode = 0x4eba then ''jsr'' else ''jmp'') @ '' '' @ branch_target address (scast v))"

definition decode_ext :: "u16 \<Rightarrow> decoded" where
  "decode_ext opcode =
     printed 2 (''ext.'' @ (if opcode AND 0x0040 \<noteq> 0 then ''l'' else ''w'') @ '' '' @ dn (ea_register opcode))"

definition decode_movem :: "memory \<Rightarrow> nat \<Rightarrow> u32 \<Rightarrow> u16 \<Rightarrow> decoded" where
  "decode_movem program n address opcode =
     (case vf2_m68k_read_u16 program n (address + 2) of
        Inl e \<Rightarrow> unread 4 e
      | Inr register_list \<Rightarrow>
          (let to_memory = opcode AND 0xffc0 = 0x48c0; r = ea_register opcode; mode = ea_mode opcode;
               legal = (if to_memory then mode \<in> {2, 4, 5, 6} \<or> mode = 7 \<and> r \<in> {0, 1}
                        else mode \<in> {2, 3, 5, 6} \<or> mode = 7 \<and> r \<le> 3);
               start = ''movem.'' @ (if opcode AND 0x0040 \<noteq> 0 then ''l'' else ''w'') @ '' ''
           in if \<not> legal then undecoded 4 VF2_OK opcode
              else if to_memory then
                printed 4 (start @ ''$'' @ hex16 register_list @ '','' @ (if mode = 2 then [] else ''-'') @ indirect r)
              else printed 4 (start @ indirect r @ ''+,$'' @ hex16 register_list)))"

section \<open>Moves\<close>

definition is_move :: "u16 \<Rightarrow> bool" where
  "is_move opcode \<longleftrightarrow> opcode AND 0xf000 \<in> {0x1000, 0x2000, 0x3000}"

definition move_start :: "u16 \<Rightarrow> string" where
  "move_start opcode = ''move.'' @ move_size_name opcode @ '' ''"

definition decode_move_dn_an :: "u16 \<Rightarrow> decoded" where
  "decode_move_dn_an opcode =
     printed 2 (move_start opcode @ dn (ea_register opcode) @ '','' @ an (op_register opcode))"

definition decode_move_dn_dn :: "u16 \<Rightarrow> decoded" where
  "decode_move_dn_dn opcode =
     printed 2 (move_start opcode @ dn (ea_register opcode) @ '','' @ dn (op_register opcode))"

definition decode_move_an_dn :: "u16 \<Rightarrow> decoded" where
  "decode_move_an_dn opcode =
     printed 2 (move_start opcode @ an (ea_register opcode) @ '','' @ dn (op_register opcode))"

definition decode_movea_an_an :: "u16 \<Rightarrow> decoded" where
  "decode_movea_an_an opcode =
     printed 2 (''movea.'' @ move_size_name opcode @ '' '' @ an (ea_register opcode) @ '','' @ an (op_register opcode))"

definition decode_move_an_mem :: "memory \<Rightarrow> nat \<Rightarrow> u32 \<Rightarrow> u16 \<Rightarrow> decoded" where
  "decode_move_an_mem program n address opcode =
     (case format_bit_ea program n (address + 2) (op_mode opcode) (op_register opcode) of
        Inl e \<Rightarrow> unread 2 e
      | Inr (destination_text, extension_bytes) \<Rightarrow>
          printed (2 + extension_bytes) (move_start opcode @ an (ea_register opcode) @ '','' @ destination_text))"

definition decode_move_imm :: "memory \<Rightarrow> nat \<Rightarrow> u32 \<Rightarrow> u16 \<Rightarrow> decoded" where
  "decode_move_imm program n address opcode =
     (let destination = op_register opcode; mode = op_mode opcode;
          code = unat (drop_bit 12 opcode AND 3);
          name = (if code = 2 then ''l'' else if code = 3 then ''w'' else ''b'');
          immediate_bytes = (if code = 2 then 4 else 2);
          extension_address = address + 2 + of_nat immediate_bytes;
          extension_bytes = (if mode = 5 \<or> mode = 6 \<or> mode = 7 \<and> destination = 0 then 2
                             else if mode = 7 \<and> destination = 1 then 4 else 0);
          len = 2 + immediate_bytes + extension_bytes
      in case read_immediate program n address immediate_bytes of
           Inl e \<Rightarrow> undecoded len e opcode
         | Inr v \<Rightarrow>
             (let imm = (if code \<noteq> 2 \<and> code \<noteq> 3 then v AND 0xff else v);
                  start = ''move.'' @ name @ '' #$'' @ hexm imm @ '',''
              in if extension_bytes = 2 then
                   printing len (vf2_m68k_read_u16 program n extension_address) (\<lambda>x. start @
                     (if mode = 5 then displaced x destination
                      else if mode = 6 then indexed_either (an destination) x
                      else ''$'' @ hex16 x))
                 else if extension_bytes = 4 then
                   printing len (vf2_m68k_read_u32 program n extension_address) (\<lambda>x. start @ ''$'' @ hexn 8 x)
                 else if mode = 0 then printed len (start @ dn destination)
                 else if mode = 2 then printed len (start @ indirect destination)
                 else if mode = 3 then printed len (start @ indirect destination @ ''+'')
                 else if mode = 4 then printed len (start @ ''-'' @ indirect destination)
                 else if mode = 1 then printed len (''movea.'' @ name @ '' #$'' @ hexm imm @ '','' @ an destination)
                 else undecoded len VF2_OK opcode))"

definition decode_move_to_register :: "memory \<Rightarrow> nat \<Rightarrow> u32 \<Rightarrow> u16 \<Rightarrow> decoded" where
  "decode_move_to_register program n address opcode =
     (let mode = ea_mode opcode; r = ea_register opcode;
          finish = '','' @ (if op_mode opcode = 1 then an (op_register opcode) else dn (op_register opcode));
          extended = mode = 5 \<or> mode = 6 \<or> mode = 7 \<and> r \<le> 3;
          len = (if extended then (if mode = 7 \<and> r = 1 then 6 else 4) else 2)
      in if mode = 7 \<and> r = 1 then
           printing len (vf2_m68k_read_u32 program n (address + 2))
             (\<lambda>x. move_start opcode @ ''$'' @ hexn 8 x @ finish)
         else
           printing len (if extended then vf2_m68k_read_u16 program n (address + 2) else Inr 0)
             (\<lambda>x. move_start opcode @
                (if mode = 2 then indirect r
                 else if mode = 3 then indirect r @ ''+''
                 else if mode = 4 then ''-'' @ indirect r
                 else if mode = 6 then indexed (an r) x
                 else if mode = 7 \<and> r = 3 then indexed ''pc'' x
                 else if mode = 7 \<and> r = 0 then ''$'' @ hex16 x
                 else if mode = 7 \<and> r = 2 then ''$'' @ hex16 x @ ''(pc)''
                 else displaced x r) @ finish))"

definition decode_move_dn_mem :: "u16 \<Rightarrow> decoded" where
  "decode_move_dn_mem opcode =
     (let r = op_register opcode
      in printed 2 (move_start opcode @ dn (ea_register opcode) @ '','' @
           (if op_mode opcode = 2 then indirect r
            else if op_mode opcode = 3 then indirect r @ ''+'' else ''-'' @ indirect r)))"

definition decode_move_dn_disp :: "memory \<Rightarrow> nat \<Rightarrow> u32 \<Rightarrow> u16 \<Rightarrow> decoded" where
  "decode_move_dn_disp program n address opcode =
     printing 4 (vf2_m68k_read_u16 program n (address + 2))
       (\<lambda>x. move_start opcode @ dn (ea_register opcode) @ '','' @
          (if op_mode opcode = 5 then displaced x (op_register opcode)
           else indexed_either (an (op_register opcode)) x))"

definition decode_move_an_disp :: "memory \<Rightarrow> nat \<Rightarrow> u32 \<Rightarrow> u16 \<Rightarrow> decoded" where
  "decode_move_an_disp program n address opcode =
     printing 4 (vf2_m68k_read_u16 program n (address + 2))
       (\<lambda>x. move_start opcode @ an (ea_register opcode) @ '','' @ displaced x (op_register opcode))"

definition decode_move_mem_mem :: "u16 \<Rightarrow> decoded" where
  "decode_move_mem_mem opcode =
     printed 2 (move_start opcode @ indirect (ea_register opcode) @ (if ea_mode opcode = 3 then ''+'' else []) @
       '','' @ indirect (op_register opcode) @ (if op_mode opcode = 3 then ''+'' else []))"

definition decode_move_imm_dn :: "memory \<Rightarrow> nat \<Rightarrow> u32 \<Rightarrow> u16 \<Rightarrow> decoded" where
  "decode_move_imm_dn program n address opcode =
     (let immediate_bytes = (if opcode AND 0xf000 = 0x2000 then 4 else 2)
      in printing (immediate_bytes + 2) (read_immediate program n address immediate_bytes)
           (\<lambda>v. move_start opcode @ ''#$'' @ hexm (if opcode AND 0xf000 = 0x1000 then v AND 0xff else v) @
              '','' @ dn (op_register opcode)))"

definition decode_mul :: "memory \<Rightarrow> nat \<Rightarrow> u32 \<Rightarrow> u16 \<Rightarrow> decoded" where
  "decode_mul program n address opcode =
     (let name = (if opcode AND 0x0100 \<noteq> 0 then ''muls'' else ''mulu''); finish = '','' @ dn (op_register opcode)
      in if opcode AND 0x003f = 0x003c then
           printing 4 (vf2_m68k_read_u16 program n (address + 2)) (\<lambda>x. name @ '' #$'' @ hex16 x @ finish)
         else if opcode AND 0x0038 = 0 then printed 2 (name @ ''.w '' @ dn (ea_register opcode) @ finish)
         else undecoded 2 VF2_OK opcode)"

definition decode_move_general :: "memory \<Rightarrow> nat \<Rightarrow> u32 \<Rightarrow> u16 \<Rightarrow> decoded" where
  "decode_move_general program n address opcode =
     (case format_bit_ea program n (address + 2) (ea_mode opcode) (ea_register opcode) of
        Inl e \<Rightarrow> if e = VF2_ERROR_UNSUPPORTED then undecoded 2 VF2_OK opcode else unread 2 e
      | Inr (source_text, source_bytes) \<Rightarrow>
          (case format_bit_ea program n (address + 2 + of_nat source_bytes) (op_mode opcode) (op_register opcode) of
             Inl e \<Rightarrow> if e = VF2_ERROR_UNSUPPORTED then undecoded (2 + source_bytes) VF2_OK opcode
                      else unread (2 + source_bytes) e
           | Inr (destination_text, destination_bytes) \<Rightarrow>
               printed (2 + source_bytes + destination_bytes)
                 (move_start opcode @ take 55 source_text @ '','' @ take 55 destination_text)))"

definition decode_move_imm_abs :: "memory \<Rightarrow> nat \<Rightarrow> u32 \<Rightarrow> u16 \<Rightarrow> decoded" where
  "decode_move_imm_abs program n address opcode =
     (let immediate_bytes = (if opcode = 0x23fc then 4 else 2); len = immediate_bytes + 6
      in case vf2_m68k_read_u32 program n (address + 4) of
           Inl e \<Rightarrow> unread len e
         | Inr destination \<Rightarrow>
             printing len (read_immediate program n address immediate_bytes)
               (\<lambda>v. ''move.'' @ (if opcode = 0x13fc then ''b'' else if opcode = 0x33fc then ''w'' else ''l'') @
                  '' #$'' @ hexm (if opcode = 0x13fc then v AND 0xff else v) @ '',$'' @ hexn 8 destination))"

definition decode_move_dn_abs :: "memory \<Rightarrow> nat \<Rightarrow> u32 \<Rightarrow> u16 \<Rightarrow> decoded" where
  "decode_move_dn_abs program n address opcode =
     printing 6 (vf2_m68k_read_u32 program n (address + 2))
       (\<lambda>v. move_start opcode @ dn (ea_register opcode) @ '',$'' @ hexn 8 v)"

definition decode_lea :: "memory \<Rightarrow> nat \<Rightarrow> u32 \<Rightarrow> u16 \<Rightarrow> decoded" where
  "decode_lea program n address opcode =
     (let finish = '','' @ an (op_register opcode); word = vf2_m68k_read_u16 program n (address + 2)
      in if opcode AND 0x003f = 0x0038 then printing 4 word (\<lambda>x. ''lea $'' @ hex16 x @ finish)
         else if opcode AND 0x003f = 0x0039 then
           printing 6 (vf2_m68k_read_u32 program n (address + 2)) (\<lambda>x. ''lea $'' @ hexn 8 x @ finish)
         else if opcode AND 0x003f = 0x003a then
           printing 4 word (\<lambda>x. ''lea '' @ branch_target address (scast x) @ ''(pc)'' @ finish)
         else if opcode AND 0x003f = 0x003b then printing 4 word (\<lambda>x. ''lea '' @ indexed ''pc'' x @ finish)
         else if opcode AND 0x0038 = 0x0010 then printed 2 (''lea '' @ indirect (ea_register opcode) @ finish)
         else if opcode AND 0x0038 = 0x0028 then
           printing 4 word (\<lambda>x. ''lea '' @ displaced x (ea_register opcode) @ finish)
         else undecoded 2 VF2_OK opcode)"

definition decode_clr :: "u16 \<Rightarrow> decoded" where
  "decode_clr opcode = printed 2 (''clr.'' @ size_name (op_size opcode) @ '' '' @ dn (ea_register opcode))"

section \<open>The decoder\<close>

definition decode_system :: "memory \<Rightarrow> nat \<Rightarrow> u32 \<Rightarrow> u16 \<Rightarrow> decoded option" where
  "decode_system program n address opcode =
     (let word = vf2_m68k_read_u16 program n (address + 2)
      in if opcode = 0x4e71 then Some (printed 2 ''nop'')
         else if opcode = 0x46fc then Some (printing 4 word (\<lambda>x. ''move.w #$'' @ hex16 x @ '',sr''))
         else if opcode = 0x4e75 then Some (printed 2 ''rts'')
         else if opcode = 0x4e73 then Some (printed 2 ''rte'')
         else if opcode = 0x4e5e then Some (printed 2 ''unlk a6'')
         else if opcode = 0x4e56 then Some (printing 4 word (\<lambda>x. ''link a6,#$'' @ hex16 x))
         else None)"

definition decode_opcode :: "memory \<Rightarrow> nat \<Rightarrow> u32 \<Rightarrow> u16 \<Rightarrow> decoded" where
  "decode_opcode program n address opcode =
     (case decode_system program n address opcode of Some d \<Rightarrow> d | None \<Rightarrow>
      if opcode AND 0xffc0 \<in> {0x0000, 0x0040, 0x0080, 0x0a00, 0x0a40, 0x0a80} then decode_ori_eori program n address opcode
      else if opcode AND 0xf000 = 0x7000 then
        printed 2 (''moveq #'' @ signed_decimal (scast (ucast opcode :: u8)) @ '','' @ dn (op_register opcode))
      else if opcode AND 0xf000 = 0x6000 then decode_bcc program n address opcode
      else if opcode AND 0xf0f8 = 0x50c8 then decode_dbcc program n address opcode
      else if opcode AND 0xff00 = 0x0800 \<or> opcode AND 0xf100 = 0x0100 then decode_bit_op program n address opcode
      else if opcode AND 0xffc0 \<in> {0x0200, 0x0240, 0x0280} then decode_andi program n address opcode
      else if opcode AND 0xffc0 \<in> {0x0400, 0x0440, 0x0480} then decode_subi program n address opcode
      else if opcode AND 0xffc0 \<in> {0x0600, 0x0640, 0x0680} then decode_addi program n address opcode
      else if opcode AND 0xf100 = 0x5100 \<and> quick_modes opcode then decode_subq program n address opcode
      else if opcode AND 0xf1c0 \<in> {0x5000, 0x5040, 0x5080} \<and> quick_modes opcode then decode_addq program n address opcode
      else if opcode AND 0xffc0 \<in> {0x4400, 0x4440, 0x4480} then decode_neg opcode
      else if opcode AND 0xffc0 \<in> {0x4600, 0x4640, 0x4680} then decode_not opcode
      else if opcode AND 0xff00 = 0x4a00 then decode_tst program n address opcode
      else if opcode AND 0xf000 = 0x8000 then decode_or program n address opcode
      else if opcode AND 0xf000 = 0xe000 \<and> op_size opcode \<noteq> 3 then decode_shift opcode
      else if opcode AND 0xf1ff \<in> {0xd0fc, 0xd1fc, 0x90fc, 0x91fc} then decode_adda_imm program n address opcode
      else if opcode AND 0xff00 = 0x0c00 then decode_cmpi program n address opcode
      else if opcode AND 0xf000 = 0x9000 then decode_sub program n address opcode
      else if opcode AND 0xf1ff \<in> {0xb0fc, 0xb1fc} then decode_cmpa_imm program n address opcode
      else if opcode AND 0xf000 = 0xb000 \<and> ea_mode opcode \<in> {0, 2, 3, 5} then decode_cmp program n address opcode
      else if opcode AND 0xf000 = 0xd000 then decode_add program n address opcode
      else if opcode = 0x4eb9 \<or> opcode = 0x4ef9 then decode_jump_absolute program n address opcode
      else if opcode = 0x4eba \<or> opcode = 0x4efa then decode_jump_relative program n address opcode
      else if opcode AND 0xfff8 = 0x4e90 then printed 2 (''jsr '' @ indirect (ea_register opcode))
      else if opcode AND 0xfff8 = 0x4ed0 then printed 2 (''jmp '' @ indirect (ea_register opcode))
      else if opcode AND 0xfff8 \<in> {0x4880, 0x48c0} then decode_ext opcode
      else if opcode AND 0xffc0 \<in> {0x48c0, 0x4cc0} then decode_movem program n address opcode
      else if opcode AND 0xf1f8 \<in> {0x2040, 0x3040, 0x1040} then decode_move_dn_an opcode
      else if opcode AND 0xf1f8 \<in> {0x2000, 0x3000, 0x1000} then decode_move_dn_dn opcode
      else if is_move opcode \<and> ea_mode opcode = 1 \<and> op_mode opcode = 0 then decode_move_an_dn opcode
      else if is_move opcode \<and> ea_mode opcode = 1 \<and> op_mode opcode = 1 then decode_movea_an_an opcode
      else if is_move opcode \<and> ea_mode opcode = 1 \<and> op_mode opcode \<in> {5, 6} then decode_move_an_mem program n address opcode
      else if is_move opcode \<and> opcode AND 0x003f = 0x003c then decode_move_imm program n address opcode
      else if is_move opcode \<and> ea_mode opcode \<ge> 2 \<and>
          (ea_mode opcode \<le> 6 \<or> ea_mode opcode = 7 \<and> ea_register opcode \<le> 3) \<and> op_mode opcode \<in> {0, 1} then
        decode_move_to_register program n address opcode
      else if is_move opcode \<and> ea_mode opcode = 0 \<and> op_mode opcode \<in> {2, 3, 4} then decode_move_dn_mem opcode
      else if is_move opcode \<and> ea_mode opcode = 0 \<and> op_mode opcode \<in> {5, 6} then decode_move_dn_disp program n address opcode
      else if is_move opcode \<and> ea_mode opcode = 1 \<and> op_mode opcode = 5 then decode_move_an_disp program n address opcode
      else if is_move opcode \<and> ea_mode opcode \<in> {2, 3} \<and> op_mode opcode \<in> {2, 3} then decode_move_mem_mem opcode
      else if opcode AND 0xf1ff \<in> {0x203c, 0x303c, 0x103c} then decode_move_imm_dn program n address opcode
      else if opcode AND 0xf1c0 \<in> {0xc0c0, 0xc1c0} then decode_mul program n address opcode
      else if is_move opcode \<and> ea_mode opcode \<ge> 2 \<and> op_mode opcode \<ge> 2 \<and>
          \<not> (ea_mode opcode = 7 \<and> ea_register opcode = 4) then decode_move_general program n address opcode
      else if opcode \<in> {0x13fc, 0x33fc, 0x23fc} then decode_move_imm_abs program n address opcode
      else if opcode AND 0xf1c0 \<in> {0x11c0, 0x31c0, 0x21c0} \<and> opcode AND 0x0038 = 0 then
        decode_move_dn_abs program n address opcode
      else if opcode AND 0xf1c0 = 0x41c0 \<and>
          (opcode AND 0x003f \<in> {0x0038, 0x0039, 0x003a, 0x003b} \<or> opcode AND 0x0038 \<in> {0x0010, 0x0028}) then
        decode_lea program n address opcode
      else if opcode AND 0xff00 = 0x4200 then decode_clr opcode
      else undecoded 2 VF2_OK opcode)"

record vf2_m68k_instruction =
  insn_address :: u32
  insn_opcode :: u16
  insn_length :: nat
  insn_supported :: bool
  insn_text :: string

text \<open>The status returned, and the instruction the caller's structure holds afterwards.\<close>

definition vf2_m68k_decode :: "memory \<Rightarrow> nat \<Rightarrow> u32 \<Rightarrow> vf2_status \<times> vf2_m68k_instruction" where
  "vf2_m68k_decode program n address =
     (case vf2_m68k_read_u16 program n address of
        Inl e \<Rightarrow> (e, \<lparr>insn_address = address, insn_opcode = 0, insn_length = 0, insn_supported = False, insn_text = []\<rparr>)
      | Inr opcode \<Rightarrow>
          (case decode_opcode program n address opcode of
             (len, status, supported, txt) \<Rightarrow>
               (status, \<lparr>insn_address = address, insn_opcode = opcode, insn_length = len,
                         insn_supported = supported, insn_text = txt\<rparr>)))"

end
