(* ===== verification/Vf2_M68k.thy ===== *)
theory Vf2_M68k
  imports Vf2_M68k_Decoder Vf2_Scsp
begin

text \<open>
  \<open>src/m68k/stepper.c\<close>: the interpreter of the sound processor's code: registers, bus, operands, one
  definition per instruction group, the run loop, interrupts, cycle-budgeted slices.
  Flags and \<open>irq_active\<close>, which the code keeps as 0/1 bytes, are booleans.
\<close>

section \<open>State\<close>

definition VF2_STEP_SCSP_BASE :: u32 where "VF2_STEP_SCSP_BASE = 0x100000"
definition VF2_STEP_ROM_MIRROR_BASE :: u32 where "VF2_STEP_ROM_MIRROR_BASE = 0x600000"
definition VF2_STEP_SAMPLE_BASE :: u32 where "VF2_STEP_SAMPLE_BASE = 0x800000"
definition VF2_M68K_STEP_MAX_EVENTS :: nat where "VF2_M68K_STEP_MAX_EVENTS = 64"

record vf2_m68k_regs =
  rd :: "nat \<Rightarrow> u32"
  ra :: "nat \<Rightarrow> u32"
  rpc :: u32
  fx :: bool
  fn :: bool
  fz :: bool
  fv :: bool
  fc :: bool
  sr_high :: u16
  usp :: u32
  ssp :: u32
  irq_active :: bool

record vf2_m68k_bus_event =
  event_address :: u32
  event_value :: u32
  event_size :: nat
  event_is_write :: bool

record vf2_m68k_bus =
  bus_ram :: "memory option"
  bus_ram_size :: nat
  bus_rom :: memory
  bus_rom_size :: nat
  bus_sample_rom :: "memory option"
  bus_sample_rom_size :: nat
  bus_scsp :: "vf2_scsp option"
  bus_events :: "nat \<Rightarrow> vf2_m68k_bus_event"
  bus_event_count :: nat

record m68k =
  m68k_regs :: vf2_m68k_regs
  m68k_bus :: vf2_m68k_bus

type_synonym 'a m68k_prog = "(m68k, 'a) prog"

definition vf2_m68k_regs_reset :: "vf2_m68k_regs \<Rightarrow> vf2_m68k_regs" where
  "vf2_m68k_regs_reset r = \<lparr>rd = (\<lambda>i. if i < 8 then 0 else rd r i), ra = (\<lambda>i. if i < 8 then 0 else ra r i), rpc = 0,
     fx = False, fn = False, fz = False, fv = False, fc = False, sr_high = 0x2000, usp = 0, ssp = 0,
     irq_active = False\<rparr>"

definition get_regs :: "(vf2_m68k_regs \<Rightarrow> 'a) \<Rightarrow> 'a m68k_prog" where
  "get_regs f = pget (\<lambda>s. f (m68k_regs s))"

definition mod_regs :: "(vf2_m68k_regs \<Rightarrow> vf2_m68k_regs) \<Rightarrow> unit m68k_prog" where
  "mod_regs f = pmodify (\<lambda>s. s\<lparr>m68k_regs := f (m68k_regs s)\<rparr>)"

definition get_a :: "nat \<Rightarrow> u32 m68k_prog" where "get_a r = get_regs (\<lambda>x. ra x r)"
definition get_d :: "nat \<Rightarrow> u32 m68k_prog" where "get_d r = get_regs (\<lambda>x. rd x r)"
definition set_a :: "nat \<Rightarrow> u32 \<Rightarrow> unit m68k_prog" where "set_a r v = mod_regs (\<lambda>x. x\<lparr>ra := (ra x)(r := v)\<rparr>)"
definition set_d :: "nat \<Rightarrow> u32 \<Rightarrow> unit m68k_prog" where "set_d r v = mod_regs (\<lambda>x. x\<lparr>rd := (rd x)(r := v)\<rparr>)"

section \<open>Program space\<close>

definition sext16 :: "u32 \<Rightarrow> u32" where
  "sext16 v = ((v AND 0xffff) XOR 0x8000) - 0x8000"

definition rom_u16 :: "vf2_m68k_bus \<Rightarrow> u32 \<Rightarrow> vf2_status + u16" where
  "rom_u16 b address =
     (if unat address + 2 > bus_rom_size b then Inl VF2_ERROR_OUT_OF_BOUNDS
      else Inr (read_be16 (bus_rom b) (unat address)))"

definition rom_u32 :: "vf2_m68k_bus \<Rightarrow> u32 \<Rightarrow> vf2_status + u32" where
  "rom_u32 b address =
     (case rom_u16 b address of
        Inl e \<Rightarrow> Inl e
      | Inr high \<Rightarrow> (case rom_u16 b (address + 2) of
          Inl e \<Rightarrow> Inl e | Inr low \<Rightarrow> Inr (push_bit 16 (ucast high) OR ucast low)))"

definition prog_read :: "u32 \<Rightarrow> nat \<Rightarrow> u32 m68k_prog" where
  "prog_read address sz s =
     (let b = m68k_bus s;
          r = (if sz = 0 then
                 (case rom_u16 b (address AND NOT 1) of
                    Inl e \<Rightarrow> Inl e
                  | Inr word \<Rightarrow> Inr (if address AND 1 \<noteq> 0 then ucast word AND 0xff else ucast (drop_bit 8 word)))
               else if sz = 1 then
                 (case rom_u16 b address of Inl e \<Rightarrow> Inl e | Inr word \<Rightarrow> Inr (ucast word))
               else rom_u32 b address)
      in (r, s))"

section \<open>The bus\<close>

definition log_event :: "u32 \<Rightarrow> u32 \<Rightarrow> nat \<Rightarrow> bool \<Rightarrow> unit m68k_prog" where
  "log_event address v sz is_write s =
     (let b = m68k_bus s
      in if bus_event_count b \<ge> VF2_M68K_STEP_MAX_EVENTS then (Inl VF2_ERROR_UNSUPPORTED, s)
         else (Inr (), s\<lparr>m68k_bus := b\<lparr>bus_events := (bus_events b)(bus_event_count b :=
                  \<lparr>event_address = address, event_value = v, event_size = sz, event_is_write = is_write\<rparr>),
                bus_event_count := bus_event_count b + 1\<rparr>\<rparr>))"

definition on_scsp :: "(vf2_scsp, 'a) prog \<Rightarrow> 'a m68k_prog" where
  "on_scsp p s =
     (case bus_scsp (m68k_bus s) of
        None \<Rightarrow> (Inl VF2_ERROR_UNSUPPORTED, s)
      | Some c \<Rightarrow> (case p c of (r, c') \<Rightarrow> (r, s\<lparr>m68k_bus := (m68k_bus s)\<lparr>bus_scsp := Some c'\<rparr>\<rparr>)))"

definition access_width :: "nat \<Rightarrow> nat" where
  "access_width sz = (if sz = 2 then 4 else if sz = 1 then 2 else 1)"

text \<open>A big-endian value of 1, 2 or 4 bytes, and its bytes.\<close>

definition read_be :: "memory \<Rightarrow> nat \<Rightarrow> nat \<Rightarrow> u32" where
  "read_be d i sz =
     (if sz = 0 then ucast (d i)
      else if sz = 1 then push_bit 8 (ucast (d i)) OR ucast (d (i + 1))
      else push_bit 24 (ucast (d i)) OR push_bit 16 (ucast (d (i + 1))) OR
           push_bit 8 (ucast (d (i + 2))) OR ucast (d (i + 3)))"

definition be_bytes :: "nat \<Rightarrow> u32 \<Rightarrow> u8 list" where
  "be_bytes sz v =
     (if sz = 0 then [ucast v]
      else if sz = 1 then [ucast (drop_bit 8 v), ucast v]
      else [ucast (drop_bit 24 v), ucast (drop_bit 16 v), ucast (drop_bit 8 v), ucast v])"

definition in_scsp :: "u32 \<Rightarrow> nat \<Rightarrow> bool" where
  "in_scsp address sz \<longleftrightarrow> address \<ge> VF2_STEP_SCSP_BASE \<and>
     unat address + access_width sz \<le> unat VF2_STEP_SCSP_BASE + unat VF2_SCSP_REGISTER_BYTES"

definition in_rom_mirror :: "vf2_m68k_bus \<Rightarrow> u32 \<Rightarrow> bool" where
  "in_rom_mirror b address \<longleftrightarrow> address \<ge> VF2_STEP_ROM_MIRROR_BASE \<and>
     unat address - unat VF2_STEP_ROM_MIRROR_BASE < bus_rom_size b"

definition in_sample_rom :: "vf2_m68k_bus \<Rightarrow> u32 \<Rightarrow> bool" where
  "in_sample_rom b address \<longleftrightarrow> address \<ge> VF2_STEP_SAMPLE_BASE \<and>
     unat address - unat VF2_STEP_SAMPLE_BASE < bus_sample_rom_size b"

definition scsp_read :: "u32 \<Rightarrow> nat \<Rightarrow> u32 m68k_prog" where
  "scsp_read slot sz =
     (if sz = 0 then pbind (on_scsp (vf2_scsp_read_u8 slot)) (\<lambda>v. pret (ucast v))
      else if sz = 1 then pbind (on_scsp (vf2_scsp_read_u16 slot)) (\<lambda>v. pret (ucast v))
      else pbind (on_scsp (vf2_scsp_read_u16 slot)) (\<lambda>high.
           pbind (on_scsp (vf2_scsp_read_u16 (slot + 2))) (\<lambda>low.
           pret (push_bit 16 (ucast high) OR ucast low))))"

definition rom_window :: "memory \<Rightarrow> nat \<Rightarrow> nat \<Rightarrow> nat \<Rightarrow> vf2_status + u32" where
  "rom_window d n i sz = (if sz \<noteq> 0 \<and> i + access_width sz > n then Inl VF2_ERROR_OUT_OF_BOUNDS else Inr (read_be d i sz))"

definition is_port :: "u32 \<Rightarrow> bool" where
  "is_port address \<longleftrightarrow> address = 0x400000 \<or> address = 0x400001"

definition m68k_bus_read :: "u32 \<Rightarrow> nat \<Rightarrow> u32 m68k_prog" where
  "m68k_bus_read address sz s =
     (let b = m68k_bus s
      in if sz > 2 then (Inl VF2_ERROR_INVALID_ARGUMENT, s)
         else if sz \<noteq> 0 \<and> address AND 1 \<noteq> 0 then (Inl VF2_ERROR_UNSUPPORTED, s)
         else if in_scsp address sz then scsp_read (address - VF2_STEP_SCSP_BASE) sz s
         else if in_rom_mirror b address then
           (rom_window (bus_rom b) (bus_rom_size b) (unat (address - VF2_STEP_ROM_MIRROR_BASE)) sz, s)
         else if in_sample_rom b address then
           (case bus_sample_rom b of
              None \<Rightarrow> (Inl VF2_ERROR_UNSUPPORTED, s)
            | Some d \<Rightarrow> (rom_window d (bus_sample_rom_size b) (unat (address - VF2_STEP_SAMPLE_BASE)) sz, s))
         else if unat address + access_width sz \<le> bus_ram_size b then
           (case bus_ram b of
              None \<Rightarrow> (Inl VF2_ERROR_UNSUPPORTED, s)
            | Some d \<Rightarrow> (Inr (read_be d (unat address) sz), s))
         else if is_port address then pbind (log_event address 0 sz False) (\<lambda>_. pret 0) s
         else (Inl VF2_ERROR_UNSUPPORTED, s))"

definition scsp_write :: "u32 \<Rightarrow> nat \<Rightarrow> u32 \<Rightarrow> unit m68k_prog" where
  "scsp_write slot sz v =
     (if sz = 0 then on_scsp (vf2_scsp_write_u8 slot (ucast v))
      else if sz = 1 then on_scsp (vf2_scsp_write_u16 slot (ucast v))
      else pbind (on_scsp (vf2_scsp_write_u16 slot (ucast (drop_bit 16 v)))) (\<lambda>_.
           on_scsp (vf2_scsp_write_u16 (slot + 2) (ucast v))))"

definition m68k_bus_write :: "u32 \<Rightarrow> nat \<Rightarrow> u32 \<Rightarrow> unit m68k_prog" where
  "m68k_bus_write address sz v s =
     (let b = m68k_bus s
      in if sz > 2 then (Inl VF2_ERROR_INVALID_ARGUMENT, s)
         else if sz \<noteq> 0 \<and> address AND 1 \<noteq> 0 then (Inl VF2_ERROR_UNSUPPORTED, s)
         else if in_scsp address sz then scsp_write (address - VF2_STEP_SCSP_BASE) sz v s
         else if in_rom_mirror b address \<or> in_sample_rom b address then (Inl VF2_ERROR_UNSUPPORTED, s)
         else if unat address + access_width sz \<le> bus_ram_size b then
           (case bus_ram b of
              None \<Rightarrow> (Inl VF2_ERROR_UNSUPPORTED, s)
            | Some d \<Rightarrow> (Inr (), s\<lparr>m68k_bus := b\<lparr>bus_ram := Some (write_bytes d (unat address) (be_bytes sz v))\<rparr>\<rparr>))
         else if is_port address then log_event address v sz True s
         else (Inl VF2_ERROR_UNSUPPORTED, s))"

section \<open>Flags\<close>

definition size_mask :: "nat \<Rightarrow> u32" where
  "size_mask sz = (if sz = 0 then 0xff else if sz = 1 then 0xffff else 0xffffffff)"

definition size_msb :: "nat \<Rightarrow> u32" where
  "size_msb sz = (if sz = 0 then 0x80 else if sz = 1 then 0x8000 else 0x80000000)"

definition flags_logic :: "nat \<Rightarrow> u32 \<Rightarrow> vf2_m68k_regs \<Rightarrow> vf2_m68k_regs" where
  "flags_logic sz result r = r\<lparr>fn := result AND size_msb sz \<noteq> 0, fz := result AND size_mask sz = 0,
     fv := False, fc := False\<rparr>"

definition flags_add :: "nat \<Rightarrow> u32 \<Rightarrow> u32 \<Rightarrow> u32 \<Rightarrow> vf2_m68k_regs \<Rightarrow> vf2_m68k_regs" where
  "flags_add sz a b result r =
     (let mask = size_mask sz; msb = size_msb sz;
          full = unat (a AND mask) + unat (b AND mask);
          carry = bit full (if sz = 0 then 8 else if sz = 1 then 16 else 32)
      in r\<lparr>fn := result AND msb \<noteq> 0, fz := result AND mask = 0,
           fv := (NOT (a XOR b) AND (a XOR result)) AND msb \<noteq> 0, fc := carry, fx := carry\<rparr>)"

definition flags_sub :: "nat \<Rightarrow> u32 \<Rightarrow> u32 \<Rightarrow> u32 \<Rightarrow> bool \<Rightarrow> vf2_m68k_regs \<Rightarrow> vf2_m68k_regs" where
  "flags_sub sz a b result set_x r =
     (let mask = size_mask sz; msb = size_msb sz; borrow = a AND mask < b AND mask
      in r\<lparr>fn := result AND msb \<noteq> 0, fz := result AND mask = 0,
           fv := ((a XOR b) AND (a XOR result)) AND msb \<noteq> 0, fc := borrow,
           fx := (if set_x then borrow else fx r)\<rparr>)"

definition bcc_holds :: "vf2_m68k_regs \<Rightarrow> nat \<Rightarrow> bool" where
  "bcc_holds r cond =
     (if cond = 0 then True else if cond = 1 then False
      else if cond = 2 then \<not> fc r \<and> \<not> fz r else if cond = 3 then fc r \<or> fz r
      else if cond = 4 then \<not> fc r else if cond = 5 then fc r
      else if cond = 6 then \<not> fz r else if cond = 7 then fz r
      else if cond = 8 then \<not> fv r else if cond = 9 then fv r
      else if cond = 10 then \<not> fn r else if cond = 11 then fn r
      else if cond = 12 then fn r = fv r else if cond = 13 then fn r \<noteq> fv r
      else if cond = 14 then \<not> fz r \<and> fn r = fv r else fz r \<or> fn r \<noteq> fv r)"

section \<open>Operands\<close>

text \<open>\<open>(uint32_t)(int32_t)(int16_t)v\<close>.\<close>

definition sign16 :: "u32 \<Rightarrow> u32" where "sign16 v = scast (ucast v :: u16)"
definition sign8 :: "u32 \<Rightarrow> u32" where "sign8 v = scast (ucast v :: u8)"

definition an_stride :: "nat \<Rightarrow> nat \<Rightarrow> u32" where
  "an_stride areg sz = (if sz = 2 then 4 else if sz = 1 then 2 else if areg = 7 then 2 else 1)"

text \<open>\<open>off\<close> is the number of instruction bytes consumed so far; operand functions return it advanced.\<close>

definition brief_index :: "u32 \<Rightarrow> vf2_m68k_regs \<Rightarrow> u32" where
  "brief_index ext r =
     (let xn = unat (drop_bit 12 ext AND 7)
      in if drop_bit 15 ext AND 1 \<noteq> 0 then ra r xn
         else if drop_bit 11 ext AND 1 \<noteq> 0 then rd r xn
         else sign16 (rd r xn))"

definition ea_param_addr :: "nat \<Rightarrow> nat \<Rightarrow> u32 \<Rightarrow> nat \<Rightarrow> (u32 \<times> nat) m68k_prog" where
  "ea_param_addr mode r pc off =
     (if mode \<noteq> 5 \<and> mode \<noteq> 6 \<and> mode \<noteq> 7 then pfail VF2_ERROR_UNSUPPORTED
      else pbind (prog_read (pc + of_nat off) 1) (\<lambda>word.
        let ext = word AND 0xffff; here = pc + of_nat off
        in if mode = 5 then pbind (get_a r) (\<lambda>b. pret (b + sext16 ext, off + 2))
           else if mode = 6 then
             pbind (get_a r) (\<lambda>b. pbind (get_regs (brief_index ext)) (\<lambda>i. pret (b + sign8 ext + i, off + 2)))
           else if r = 0 then pret (sext16 ext, off + 2)
           else if r = 1 then
             pbind (prog_read (pc + of_nat (off + 2)) 1) (\<lambda>low. pret (push_bit 16 ext OR (low AND 0xffff), off + 4))
           else if r = 2 then pret (here + sext16 ext, off + 2)
           else if r = 3 then pbind (get_regs (brief_index ext)) (\<lambda>i. pret (here + sign8 ext + i, off + 2))
           else pfail VF2_ERROR_UNSUPPORTED))"

definition ea_is_program :: "nat \<Rightarrow> nat \<Rightarrow> bool" where
  "ea_is_program mode r \<longleftrightarrow> mode = 7 \<and> (r = 2 \<or> r = 3)"

text \<open>The address of the modes 2, 5, 6 and 7.\<close>

definition ea_addr :: "nat \<Rightarrow> nat \<Rightarrow> u32 \<Rightarrow> nat \<Rightarrow> (u32 \<times> nat) m68k_prog" where
  "ea_addr mode r pc off =
     (if mode = 2 then pbind (get_a r) (\<lambda>a. pret (a, off)) else ea_param_addr mode r pc off)"

definition ea_read :: "nat \<Rightarrow> nat \<Rightarrow> nat \<Rightarrow> u32 \<Rightarrow> nat \<Rightarrow> (u32 \<times> nat) m68k_prog" where
  "ea_read mode r sz pc off =
     (if mode = 0 then pbind (get_d r) (\<lambda>v. pret (v AND size_mask sz, off))
      else if mode = 1 then
        (if sz = 0 then pfail VF2_ERROR_UNSUPPORTED
         else pbind (get_a r) (\<lambda>v. pret (if sz = 1 then v AND 0xffff else v, off)))
      else if mode = 3 then
        pbind (get_a r) (\<lambda>address.
        pbind (m68k_bus_read address sz) (\<lambda>v.
        pbind (set_a r (address + an_stride r sz)) (\<lambda>_. pret (v, off))))
      else if mode = 4 then
        pbind (get_a r) (\<lambda>a. let address = a - an_stride r sz in
        pbind (m68k_bus_read address sz) (\<lambda>v.
        pbind (set_a r address) (\<lambda>_. pret (v, off))))
      else if mode = 2 \<or> mode = 5 \<or> mode = 6 \<or> mode = 7 then
        pbind (ea_addr mode r pc off) (\<lambda>(address, off').
        pbind (if ea_is_program mode r then prog_read address sz else m68k_bus_read address sz) (\<lambda>v. pret (v, off')))
      else pfail VF2_ERROR_UNSUPPORTED)"

definition merge_sized :: "nat \<Rightarrow> u32 \<Rightarrow> u32 \<Rightarrow> u32" where
  "merge_sized sz old v = (if sz = 2 then v else (old AND NOT (size_mask sz)) OR (v AND size_mask sz))"

definition write_d :: "nat \<Rightarrow> nat \<Rightarrow> u32 \<Rightarrow> unit m68k_prog" where
  "write_d r sz v = pbind (get_d r) (\<lambda>old. set_d r (merge_sized sz old v))"

definition ea_write :: "nat \<Rightarrow> nat \<Rightarrow> nat \<Rightarrow> u32 \<Rightarrow> nat \<Rightarrow> u32 \<Rightarrow> nat m68k_prog" where
  "ea_write mode r sz pc off v =
     (if mode = 0 then pbind (write_d r sz v) (\<lambda>_. pret off)
      else if mode = 1 then pfail VF2_ERROR_UNSUPPORTED
      else if mode = 3 then
        pbind (get_a r) (\<lambda>address.
        pbind (m68k_bus_write address sz v) (\<lambda>_.
        pbind (set_a r (address + an_stride r sz)) (\<lambda>_. pret off)))
      else if mode = 4 then
        pbind (get_a r) (\<lambda>a. let address = a - an_stride r sz in
        pbind (m68k_bus_write address sz v) (\<lambda>_.
        pbind (set_a r address) (\<lambda>_. pret off)))
      else if mode = 2 \<or> mode = 5 \<or> mode = 6 \<or> mode = 7 then
        pbind (ea_addr mode r pc off) (\<lambda>(address, off').
        if ea_is_program mode r then pfail VF2_ERROR_UNSUPPORTED
        else pbind (m68k_bus_write address sz v) (\<lambda>_. pret off'))
      else pfail VF2_ERROR_UNSUPPORTED)"

definition ea_rmw_addr :: "nat \<Rightarrow> nat \<Rightarrow> nat \<Rightarrow> u32 \<Rightarrow> nat \<Rightarrow> (u32 \<times> nat) m68k_prog" where
  "ea_rmw_addr mode r sz pc off =
     (if mode = 2 \<or> mode = 1 \<or> mode = 3 then pbind (get_a r) (\<lambda>a. pret (a, off))
      else if mode = 4 then
        pbind (get_a r) (\<lambda>a. let address = a - an_stride r sz in pbind (set_a r address) (\<lambda>_. pret (address, off)))
      else if mode = 5 \<or> mode = 6 \<or> mode = 7 \<and> r \<le> 1 then ea_param_addr mode r pc off
      else pfail VF2_ERROR_UNSUPPORTED)"

definition fetch_imm :: "u32 \<Rightarrow> nat \<Rightarrow> nat \<Rightarrow> (u32 \<times> nat) m68k_prog" where
  "fetch_imm pc off sz =
     (if sz = 2 then pbind (prog_read (pc + of_nat off) 2) (\<lambda>v. pret (v, off + 4))
      else pbind (prog_read (pc + of_nat off) 1) (\<lambda>v. pret (if sz = 0 then v AND 0xff else v, off + 2)))"

text \<open>Reading a memory operand that is written back: the address is resolved once, \<open>(An)+\<close> advances after
  the read.\<close>

definition rmw_read :: "nat \<Rightarrow> nat \<Rightarrow> nat \<Rightarrow> u32 \<Rightarrow> nat \<Rightarrow> (u32 \<times> u32 \<times> nat) m68k_prog" where
  "rmw_read mode r sz pc off =
     pbind (ea_rmw_addr mode r sz pc off) (\<lambda>(address, off').
     pbind (m68k_bus_read address sz) (\<lambda>dst.
     pbind (if mode = 3 then set_a r (address + an_stride r sz) else pret ()) (\<lambda>_.
     pret (address, dst, off'))))"

section \<open>Moves and immediate operations\<close>

definition step_move :: "u16 \<Rightarrow> u32 \<Rightarrow> nat \<Rightarrow> nat \<Rightarrow> nat m68k_prog" where
  "step_move opcode pc off sz =
     (let smode = ea_mode opcode; sreg = ea_register opcode; dmode = op_mode opcode; dreg = op_register opcode
      in if smode = 1 \<and> sz = 0 then pfail VF2_ERROR_UNSUPPORTED
         else pbind (if smode = 7 \<and> sreg = 4 then fetch_imm pc off sz
                     else if smode \<le> 6 \<or> smode = 7 \<and> sreg \<le> 3 then ea_read smode sreg sz pc off
                     else pfail VF2_ERROR_UNSUPPORTED) (\<lambda>(src, off1).
           if dmode = 1 then
             (if sz = 0 then pfail VF2_ERROR_UNSUPPORTED
              else pbind (set_a dreg (if sz = 1 then sign16 src else src)) (\<lambda>_. pret off1))
           else if dmode = 0 then
             pbind (write_d dreg sz src) (\<lambda>_. pbind (mod_regs (flags_logic sz src)) (\<lambda>_. pret off1))
           else if dmode \<le> 6 \<or> dmode = 7 \<and> (dreg = 0 \<or> dreg = 1) then
             pbind (ea_write dmode dreg sz pc off1 src) (\<lambda>off2.
             pbind (mod_regs (flags_logic sz src)) (\<lambda>_. pret off2))
           else pfail VF2_ERROR_UNSUPPORTED))"

text \<open>The operations of the \<open>kind\<close> codes.\<close>

datatype alu_kind = OP_OR | OP_AND | OP_SUB | OP_ADD | OP_CMP | OP_EOR

definition alu_value :: "alu_kind \<Rightarrow> nat \<Rightarrow> u32 \<Rightarrow> u32 \<Rightarrow> u32" where
  "alu_value kind sz dst src =
     (case kind of OP_OR \<Rightarrow> (dst OR src) AND size_mask sz | OP_EOR \<Rightarrow> (dst XOR src) AND size_mask sz
      | OP_AND \<Rightarrow> (dst AND src) AND size_mask sz | OP_ADD \<Rightarrow> (dst + src) AND size_mask sz
      | _ \<Rightarrow> (dst - src) AND size_mask sz)"

definition alu_flags :: "alu_kind \<Rightarrow> nat \<Rightarrow> u32 \<Rightarrow> u32 \<Rightarrow> u32 \<Rightarrow> vf2_m68k_regs \<Rightarrow> vf2_m68k_regs" where
  "alu_flags kind sz dst src result =
     (case kind of OP_ADD \<Rightarrow> flags_add sz dst src result | OP_SUB \<Rightarrow> flags_sub sz dst src result True
      | OP_CMP \<Rightarrow> flags_sub sz dst src result False | _ \<Rightarrow> flags_logic sz result)"

definition ccr_or :: "u32 \<Rightarrow> vf2_m68k_regs \<Rightarrow> vf2_m68k_regs" where
  "ccr_or imm r =
     (let ccr = (push_bit 4 (of_bool (fx r)) OR push_bit 3 (of_bool (fn r)) OR push_bit 2 (of_bool (fz r)) OR
                 push_bit 1 (of_bool (fv r)) OR of_bool (fc r)) OR ucast imm :: u8
      in r\<lparr>fx := bit ccr 4, fn := bit ccr 3, fz := bit ccr 2, fv := bit ccr 1, fc := bit ccr 0\<rparr>)"

definition step_imm_op :: "u16 \<Rightarrow> u32 \<Rightarrow> nat \<Rightarrow> nat \<Rightarrow> alu_kind \<Rightarrow> nat m68k_prog" where
  "step_imm_op opcode pc off sz kind =
     (let mode = ea_mode opcode; r = ea_register opcode
      in pbind (fetch_imm pc off sz) (\<lambda>(imm, off1).
         if mode = 7 \<and> r = 4 then
           (if kind \<noteq> OP_OR \<or> sz \<noteq> 0 then pfail VF2_ERROR_UNSUPPORTED
            else pbind (mod_regs (ccr_or imm)) (\<lambda>_. pret off1))
         else if \<not> (mode \<le> 6 \<or> mode = 7 \<and> (r = 0 \<or> r = 1)) then pfail VF2_ERROR_UNSUPPORTED
         else if mode = 0 then
           pbind (ea_read mode r sz pc off1) (\<lambda>(dst, off2).
           let result = alu_value kind sz dst imm in
           pbind (if kind = OP_CMP then pret off2 else ea_write mode r sz pc off2 result) (\<lambda>off3.
           pbind (mod_regs (alu_flags kind sz dst imm result)) (\<lambda>_. pret off3)))
         else
           pbind (rmw_read mode r sz pc off1) (\<lambda>(address, dst, off2).
           let result = alu_value kind sz dst imm in
           pbind (if kind = OP_CMP then pret () else m68k_bus_write address sz result) (\<lambda>_.
           pbind (mod_regs (alu_flags kind sz dst imm result)) (\<lambda>_. pret off2)))))"

section \<open>Register arithmetic\<close>

definition true_alu_size :: "nat \<Rightarrow> nat" where
  "true_alu_size opmode = (if opmode = 0 \<or> opmode = 4 then 0 else if opmode = 1 \<or> opmode = 5 then 1 else 2)"

definition step_alu_address :: "u16 \<Rightarrow> u32 \<Rightarrow> nat \<Rightarrow> nat \<Rightarrow> alu_kind \<Rightarrow> nat m68k_prog" where
  "step_alu_address opcode pc off opmode kind =
     (let smode = ea_mode opcode; sreg = ea_register opcode; dreg = op_register opcode;
          isz = (if opmode = 7 then 2 else 1)
      in if kind \<notin> {OP_ADD, OP_SUB, OP_CMP} then pfail VF2_ERROR_UNSUPPORTED
         else if \<not> (smode \<le> 6 \<or> smode = 7 \<and> sreg \<in> {0, 1, 4}) then pfail VF2_ERROR_UNSUPPORTED
         else pbind (if smode = 7 \<and> sreg = 4 then fetch_imm pc off isz
                     else ea_read smode sreg isz pc off) (\<lambda>(raw, off1).
           let src = (if isz = 1 then sign16 raw else raw) in
           pbind (get_a dreg) (\<lambda>a.
           pbind (if kind = OP_CMP then mod_regs (flags_sub 2 a src (a - src) False)
                  else set_a dreg (if kind = OP_ADD then a + src else a - src)) (\<lambda>_. pret off1))))"

definition step_alu :: "u16 \<Rightarrow> u32 \<Rightarrow> nat \<Rightarrow> nat \<Rightarrow> alu_kind \<Rightarrow> nat m68k_prog" where
  "step_alu opcode pc off opmode kind =
     (let smode = ea_mode opcode; sreg = ea_register opcode; dreg = op_register opcode; sz = true_alu_size opmode
      in if opmode = 3 \<or> opmode = 7 then step_alu_address opcode pc off opmode kind
         else if opmode \<le> 2 then
           (if smode \<notin> {0, 2, 3, 5} then pfail VF2_ERROR_UNSUPPORTED
            else pbind (ea_read smode sreg sz pc off) (\<lambda>(src, off1).
              pbind (get_d dreg) (\<lambda>d. let dst = d AND size_mask sz; result = alu_value kind sz dst src in
              pbind (if kind = OP_CMP then pret () else set_d dreg ((d AND NOT (size_mask sz)) OR result)) (\<lambda>_.
              pbind (mod_regs (alu_flags kind sz dst src result)) (\<lambda>_. pret off1)))))
         else if opmode \<le> 6 then
           (if kind = OP_CMP then pfail VF2_ERROR_UNSUPPORTED
            else if smode \<notin> {0, 2, 3, 5} then pfail VF2_ERROR_UNSUPPORTED
            else pbind (get_d dreg) (\<lambda>d. let src = d AND size_mask sz in
              if smode = 0 then
                pbind (ea_read smode sreg sz pc off) (\<lambda>(dst, off1).
                let result = alu_value kind sz dst src in
                pbind (ea_write smode sreg sz pc off1 result) (\<lambda>off2.
                pbind (mod_regs (alu_flags kind sz dst src result)) (\<lambda>_. pret off2)))
              else
                pbind (rmw_read smode sreg sz pc off) (\<lambda>(address, dst, off1).
                let result = alu_value kind sz dst src in
                pbind (m68k_bus_write address sz result) (\<lambda>_.
                pbind (mod_regs (alu_flags kind sz dst src result)) (\<lambda>_. pret off1)))))
         else pfail VF2_ERROR_UNSUPPORTED)"

definition step_quick :: "u16 \<Rightarrow> u32 \<Rightarrow> nat \<Rightarrow> bool \<Rightarrow> nat m68k_prog" where
  "step_quick opcode pc off is_sub =
     (let mode = ea_mode opcode; r = ea_register opcode; count = op_register opcode; sz = op_size opcode;
          amount = (if count = 0 then 8 else of_nat count); kind = (if is_sub then OP_SUB else OP_ADD)
      in if sz = 3 then pfail VF2_ERROR_UNSUPPORTED
         else if mode = 1 then
           (if sz = 0 then pfail VF2_ERROR_UNSUPPORTED
            else pbind (get_a r) (\<lambda>a.
              pbind (set_a r (if is_sub then a - amount else a + amount)) (\<lambda>_. pret off)))
         else if \<not> (mode \<le> 6) then pfail VF2_ERROR_UNSUPPORTED
         else if mode = 0 then
           pbind (ea_read mode r sz pc off) (\<lambda>(dst, off1).
           let result = alu_value kind sz dst amount in
           pbind (ea_write mode r sz pc off1 result) (\<lambda>off2.
           pbind (mod_regs (alu_flags kind sz dst amount result)) (\<lambda>_. pret off2)))
         else
           pbind (rmw_read mode r sz pc off) (\<lambda>(address, dst, off1).
           let result = alu_value kind sz dst amount in
           pbind (m68k_bus_write address sz result) (\<lambda>_.
           pbind (mod_regs (alu_flags kind sz dst amount result)) (\<lambda>_. pret off1))))"

definition step_mulu :: "u16 \<Rightarrow> u32 \<Rightarrow> nat \<Rightarrow> bool \<Rightarrow> nat m68k_prog" where
  "step_mulu opcode pc off is_signed =
     (let dreg = op_register opcode; smode = ea_mode opcode; sreg = ea_register opcode
      in pbind (if smode = 7 \<and> sreg = 4 then fetch_imm pc off 1
                else if smode = 0 then ea_read smode sreg 1 pc off
                else pfail VF2_ERROR_UNSUPPORTED) (\<lambda>(src, off1).
         pbind (get_d dreg) (\<lambda>d.
         let result = (if is_signed then word_of_int (sint (ucast d :: u16) * sint (ucast src :: u16))
                       else (d AND 0xffff) * (src AND 0xffff)) in
         pbind (set_d dreg result) (\<lambda>_.
         pbind (mod_regs (flags_logic 2 result)) (\<lambda>_. pret off1)))))"

section \<open>Rotations, shifts and bits\<close>

definition ror_width :: "nat \<Rightarrow> nat" where
  "ror_width code = (if code = 0 then 8 else if code = 1 then 16 else 32)"

primrec ror_loop :: "nat \<Rightarrow> nat \<Rightarrow> u32 \<times> bool \<Rightarrow> u32 \<times> bool" where
  "ror_loop width 0 x = x"
| "ror_loop width (Suc n) x =
     (let low = fst x AND 1 in ror_loop width n (drop_bit 1 (fst x) OR push_bit (width - 1) low, low \<noteq> 0))"

definition step_ror_reg :: "u16 \<Rightarrow> nat \<Rightarrow> nat m68k_prog" where
  "step_ror_reg opcode off =
     (let code = op_size opcode; count = op_register opcode; r = ea_register opcode; width = ror_width code;
          mask = size_mask code
      in pbind (get_d r) (\<lambda>d. pbind (get_regs fc) (\<lambda>c.
         case ror_loop width (if count = 0 then 8 else count) (d AND mask, c) of (raw, carry) \<Rightarrow>
         let v = raw AND mask in
         pbind (set_d r ((d AND NOT mask) OR v)) (\<lambda>_.
         pbind (mod_regs (\<lambda>x. x\<lparr>fc := carry, fn := v AND push_bit (width - 1) 1 \<noteq> 0, fz := v = 0, fv := False\<rparr>)) (\<lambda>_.
         pret off)))))"

text \<open>One place of an arithmetic or logical shift: value, bit shifted out, overflow so far.\<close>

definition shift_once :: "bool \<Rightarrow> bool \<Rightarrow> nat \<Rightarrow> u32 \<times> u32 \<times> bool \<Rightarrow> u32 \<times> u32 \<times> bool" where
  "shift_once arithmetic left sz x = (case x of (v, _, overflow) \<Rightarrow>
     let msb = size_msb sz; mask = size_mask sz
     in if arithmetic \<and> \<not> left then (drop_bit 1 v OR (v AND msb), v AND 1, overflow)
        else if \<not> left then (drop_bit 1 v AND mask, v AND 1, overflow)
        else (push_bit 1 v AND mask, if v AND msb \<noteq> 0 then 1 else 0,
              overflow \<or> arithmetic \<and> v AND msb \<noteq> (push_bit 1 v AND mask) AND msb))"

definition step_shift :: "u16 \<Rightarrow> nat \<Rightarrow> nat m68k_prog" where
  "step_shift opcode off =
     (let kind = unat (drop_bit 3 opcode AND 3); code = op_size opcode; count = op_register opcode;
          dreg = ea_register opcode; times = (if count = 0 then 8 else count); left = opcode AND 0x0100 \<noteq> 0
      in if kind > 1 then pfail VF2_ERROR_UNSUPPORTED
         else if code = 3 then pfail VF2_ERROR_UNSUPPORTED
         else pbind (get_d dreg) (\<lambda>d.
           case (shift_once (kind = 0) left code ^^ times) (d AND size_mask code, 0, False) of (v, out, overflow) \<Rightarrow>
           pbind (mod_regs (\<lambda>x. x\<lparr>fx := out \<noteq> 0, fc := out \<noteq> 0, fv := kind = 0 \<and> left \<and> overflow,
                                   fn := v AND size_msb code \<noteq> 0, fz := v = 0\<rparr>)) (\<lambda>_.
           pbind (write_d dreg code v) (\<lambda>_. pret off))))"

text \<open>The effect of \<open>btst\<close>, \<open>bchg\<close>, \<open>bclr\<close> and \<open>bset\<close>.\<close>

definition bit_effect :: "nat \<Rightarrow> nat \<Rightarrow> u32 \<Rightarrow> u32" where
  "bit_effect kind n v =
     (if kind = 1 then v XOR push_bit n 1 else if kind = 2 then v AND NOT (push_bit n 1)
      else if kind = 3 then v OR push_bit n 1 else v)"

definition step_bit :: "u16 \<Rightarrow> u32 \<Rightarrow> nat \<Rightarrow> nat m68k_prog" where
  "step_bit opcode pc off =
     (let kind = op_size opcode; mode = ea_mode opcode; r = ea_register opcode
      in pbind (prog_read (pc + of_nat off) 1) (\<lambda>bitword.
         if \<not> (mode \<in> {0, 2, 3, 4, 5, 6} \<or> mode = 7 \<and> (r = 0 \<or> r = 1)) then pfail VF2_ERROR_UNSUPPORTED
         else if mode = 0 then
           (let n = unat (bitword AND 31) in
            pbind (get_d r) (\<lambda>d.
            pbind (mod_regs (\<lambda>x. x\<lparr>fz := drop_bit n d AND 1 = 0\<rparr>)) (\<lambda>_.
            pbind (set_d r (bit_effect kind n d)) (\<lambda>_. pret (off + 2)))))
         else
           (let n = unat (bitword AND 7) in
            pbind (rmw_read mode r 0 pc (off + 2)) (\<lambda>(address, v, off2).
            pbind (mod_regs (\<lambda>x. x\<lparr>fz := drop_bit n v AND 1 = 0\<rparr>)) (\<lambda>_.
            pbind (if kind \<noteq> 0 then m68k_bus_write address 0 (bit_effect kind n v) else pret ()) (\<lambda>_. pret off2))))))"

section \<open>Register lists\<close>

primrec movem_load :: "nat list \<Rightarrow> u32 \<Rightarrow> u32 \<Rightarrow> u32 m68k_prog" where
  "movem_load [] regs address = pret address"
| "movem_load (k # ks) regs address =
     (if \<not> bit regs k then movem_load ks regs address
      else pbind (m68k_bus_read address 2) (\<lambda>v.
           pbind (if k < 8 then set_d k v else set_a (k - 8) v) (\<lambda>_. movem_load ks regs (address + 4))))"

primrec movem_store :: "nat list \<Rightarrow> u32 \<Rightarrow> u32 \<Rightarrow> u32 m68k_prog" where
  "movem_store [] regs address = pret address"
| "movem_store (k # ks) regs address =
     (if \<not> bit regs k then movem_store ks regs address
      else pbind (if k < 8 then get_d k else get_a (k - 8)) (\<lambda>v.
           pbind (m68k_bus_write address 2 v) (\<lambda>_. movem_store ks regs (address + 4))))"

text \<open>\<open>-(An)\<close>: bit 0 is A7, downwards through memory.\<close>

primrec movem_push :: "nat list \<Rightarrow> u32 \<Rightarrow> u32 \<Rightarrow> u32 m68k_prog" where
  "movem_push [] regs address = pret address"
| "movem_push (k # ks) regs address =
     (if \<not> bit regs k then movem_push ks regs address
      else pbind (if k < 8 then get_a (7 - k) else get_d (15 - k)) (\<lambda>v.
           pbind (m68k_bus_write (address - 4) 2 v) (\<lambda>_. movem_push ks regs (address - 4))))"

definition step_movem :: "u16 \<Rightarrow> u32 \<Rightarrow> nat \<Rightarrow> nat m68k_prog" where
  "step_movem opcode pc off =
     (let mode = ea_mode opcode; r = ea_register opcode
      in pbind (prog_read (pc + of_nat off) 1) (\<lambda>word.
         let mask = word AND 0xffff; off1 = off + 2 in
         if opcode AND 0x0040 = 0 then pfail VF2_ERROR_UNSUPPORTED
         else if opcode AND 0xffc0 \<noteq> 0x48c0 then
           (if \<not> (mode \<in> {2, 3, 5, 6} \<or> mode = 7 \<and> r \<le> 3) then pfail VF2_ERROR_UNSUPPORTED
            else if mode = 3 then
              pbind (get_a r) (\<lambda>address. pbind (movem_load [0..<16] mask address) (\<lambda>address'.
              pbind (set_a r address') (\<lambda>_. pret off1)))
            else
              pbind (ea_param_addr mode r pc off1) (\<lambda>(address, off2).
              if ea_is_program mode r then pfail VF2_ERROR_UNSUPPORTED
              else pbind (movem_load [0..<16] mask address) (\<lambda>_. pret off2)))
         else if \<not> (mode \<in> {2, 4, 5, 6} \<or> mode = 7 \<and> (r = 0 \<or> r = 1)) then pfail VF2_ERROR_UNSUPPORTED
         else if mode = 4 then
           pbind (get_a r) (\<lambda>address. pbind (movem_push [0..<16] mask address) (\<lambda>address'.
           pbind (set_a r address') (\<lambda>_. pret off1)))
         else
           pbind (ea_addr mode r pc off1) (\<lambda>(address, off2).
           if ea_is_program mode r then pfail VF2_ERROR_UNSUPPORTED
           else pbind (movem_store [0..<16] mask address) (\<lambda>_. pret off2))))"

section \<open>Branches and jumps\<close>

text \<open>These return the consumed bytes and the next program counter.\<close>

definition step_bcc :: "u16 \<Rightarrow> u32 \<Rightarrow> nat \<Rightarrow> (nat \<times> u32) m68k_prog" where
  "step_bcc opcode pc off =
     (let cond = op_condition opcode; low = opcode AND 0xff
      in if low = 0xff then pfail VF2_ERROR_UNSUPPORTED
         else pbind (if low = 0 then pbind (prog_read (pc + of_nat off) 1) (\<lambda>v. pret (sign16 v, off + 2))
                     else pret (sign8 (ucast low), off)) (\<lambda>(disp, off1).
           let after = pc + of_nat off1; destination = pc + 2 + disp in
           if cond = 1 then
             pbind (get_a 7) (\<lambda>sp.
             if sp AND 1 \<noteq> 0 \<or> sp < 4 then pfail VF2_ERROR_UNSUPPORTED
             else pbind (m68k_bus_write (sp - 4) 2 after) (\<lambda>_.
                  pbind (set_a 7 (sp - 4)) (\<lambda>_. pret (off1, destination))))
           else pbind (get_regs (\<lambda>x. bcc_holds x cond)) (\<lambda>holds.
             pret (off1, if holds then destination else after))))"

definition step_dbc :: "u16 \<Rightarrow> u32 \<Rightarrow> nat \<Rightarrow> (nat \<times> u32) m68k_prog" where
  "step_dbc opcode pc off =
     (let r = ea_register opcode; off1 = off + 2; after = pc + of_nat off1
      in pbind (prog_read (pc + of_nat off) 1) (\<lambda>v.
         pbind (get_regs (\<lambda>x. bcc_holds x (op_condition opcode))) (\<lambda>holds.
         if holds then pret (off1, after)
         else pbind (get_d r) (\<lambda>d. let low = (d - 1) AND 0xffff in
           pbind (set_d r ((d AND 0xffff0000) OR low)) (\<lambda>_.
           pret (off1, if low = 0xffff then after else pc + 2 + sign16 v))))))"

definition step_jsr_jmp :: "u16 \<Rightarrow> u32 \<Rightarrow> nat \<Rightarrow> bool \<Rightarrow> u32 \<Rightarrow> (nat \<times> u32) m68k_prog" where
  "step_jsr_jmp opcode pc off is_jsr ret_pc =
     pbind (if opcode = 0x4eb9 \<or> opcode = 0x4ef9 then
              pbind (prog_read (pc + of_nat off) 2) (\<lambda>v. pret (v, off + 4))
            else if opcode = 0x4eba \<or> opcode = 0x4efa then
              pbind (prog_read (pc + of_nat off) 1) (\<lambda>v. pret (pc + 2 + sext16 v, off + 2))
            else if opcode AND 0xfff8 = 0x4e90 \<or> opcode AND 0xfff8 = 0x4ed0 then
              pbind (get_a (ea_register opcode)) (\<lambda>v. pret (v, off))
            else pfail VF2_ERROR_UNSUPPORTED) (\<lambda>(destination, off1).
     pbind (if is_jsr then
              pbind (get_a 7) (\<lambda>sp. pbind (set_a 7 (sp - 4)) (\<lambda>_. m68k_bus_write (sp - 4) 2 ret_pc))
            else pret ()) (\<lambda>_. pret (off1, destination)))"

section \<open>One instruction\<close>

definition sized :: "u16 \<Rightarrow> (nat \<Rightarrow> 'a m68k_prog) \<Rightarrow> 'a m68k_prog" where
  "sized opcode p = (if op_size opcode > 2 then pfail VF2_ERROR_UNSUPPORTED else p (op_size opcode))"

definition execute_lea :: "u16 \<Rightarrow> u32 \<Rightarrow> nat m68k_prog" where
  "execute_lea opcode pc =
     (let mode = ea_mode opcode; r = ea_register opcode; dreg = op_register opcode
      in if \<not> (mode \<in> {2, 5, 6} \<or> mode = 7 \<and> r \<le> 3) then pfail VF2_ERROR_UNSUPPORTED
         else pbind (ea_param_addr mode r pc 2) (\<lambda>(address, off).
              pbind (get_a r) (\<lambda>b. pbind (set_a dreg (if mode = 2 then b else address)) (\<lambda>_. pret off))))"

definition execute_adda_imm :: "u16 \<Rightarrow> u32 \<Rightarrow> nat m68k_prog" where
  "execute_adda_imm opcode pc =
     (let dreg = op_register opcode; is_long = opcode AND 0x0100 \<noteq> 0; is_sub = opcode AND 0xf000 = 0x9000
      in pbind (fetch_imm pc 2 (if is_long then 2 else 1)) (\<lambda>(imm, off).
         let delta = (if is_long then imm else sign16 imm) in
         pbind (get_a dreg) (\<lambda>a.
         pbind (set_a dreg (if is_sub then a - delta else a + delta)) (\<lambda>_. pret off))))"

definition execute_cmpa_imm :: "u16 \<Rightarrow> u32 \<Rightarrow> nat m68k_prog" where
  "execute_cmpa_imm opcode pc =
     (let dreg = op_register opcode; is_long = opcode AND 0x0100 \<noteq> 0
      in pbind (fetch_imm pc 2 (if is_long then 2 else 1)) (\<lambda>(raw, off).
         let imm = (if is_long then raw else sign16 raw) in
         pbind (get_a dreg) (\<lambda>a.
         pbind (mod_regs (flags_sub 2 a imm (a - imm) False)) (\<lambda>_. pret off))))"

definition execute_or :: "u16 \<Rightarrow> u32 \<Rightarrow> nat m68k_prog" where
  "execute_or opcode pc =
     (if op_mode opcode > 2 \<or> ea_mode opcode \<notin> {0, 2, 3, 5, 6} then pfail VF2_ERROR_UNSUPPORTED
      else step_alu opcode pc 2 (op_mode opcode) OP_OR)"

definition execute_sub :: "u16 \<Rightarrow> u32 \<Rightarrow> nat m68k_prog" where
  "execute_sub opcode pc =
     (if op_mode opcode > 2 \<or> ea_mode opcode \<notin> {0, 2, 3, 5} then pfail VF2_ERROR_UNSUPPORTED
      else step_alu opcode pc 2 (op_mode opcode) OP_SUB)"

definition execute_add :: "u16 \<Rightarrow> u32 \<Rightarrow> nat m68k_prog" where
  "execute_add opcode pc =
     (if ea_mode opcode \<notin> {0, 2, 3, 5} then pfail VF2_ERROR_UNSUPPORTED
      else step_alu opcode pc 2 (op_mode opcode) OP_ADD)"

definition execute_ext :: "u16 \<Rightarrow> nat m68k_prog" where
  "execute_ext opcode =
     (let dreg = ea_register opcode
      in pbind (get_d dreg) (\<lambda>d.
         if opcode AND 0xfff8 = 0x4880 then
           (let v = (d AND 0xffff0000) OR sign16 (d AND 0xff) in
            pbind (set_d dreg v) (\<lambda>_. pbind (mod_regs (flags_logic 1 v)) (\<lambda>_. pret 2)))
         else
           (let v = sign16 (d AND 0xffff) in
            pbind (set_d dreg v) (\<lambda>_. pbind (mod_regs (flags_logic 2 v)) (\<lambda>_. pret 2)))))"

definition execute_neg :: "u16 \<Rightarrow> nat m68k_prog" where
  "execute_neg opcode =
     (let sz = op_size opcode; dreg = ea_register opcode
      in if sz > 2 \<or> ea_mode opcode \<noteq> 0 then pfail VF2_ERROR_UNSUPPORTED
         else pbind (get_d dreg) (\<lambda>d.
           let v = d AND size_mask sz; result = (0 - v) AND size_mask sz in
           pbind (write_d dreg sz result) (\<lambda>_.
           pbind (mod_regs (flags_sub sz 0 v result True)) (\<lambda>_. pret 2))))"

definition execute_m68k_not :: "u16 \<Rightarrow> nat m68k_prog" where
  "execute_m68k_not opcode =
     (let sz = op_size opcode; dreg = ea_register opcode
      in if sz > 2 \<or> ea_mode opcode \<noteq> 0 then pfail VF2_ERROR_UNSUPPORTED
         else pbind (get_d dreg) (\<lambda>d.
           let result = NOT d AND size_mask sz in
           pbind (write_d dreg sz result) (\<lambda>_.
           pbind (mod_regs (flags_logic sz result)) (\<lambda>_. pret 2))))"

definition execute_tst :: "u16 \<Rightarrow> u32 \<Rightarrow> nat m68k_prog" where
  "execute_tst opcode pc =
     (let sz = op_size opcode; mode = ea_mode opcode
      in if sz > 2 \<or> (mode \<noteq> 0 \<and> mode \<noteq> 5) then pfail VF2_ERROR_UNSUPPORTED
         else pbind (ea_read mode (ea_register opcode) sz pc 2) (\<lambda>(v, off).
              pbind (mod_regs (flags_logic sz v)) (\<lambda>_. pret off)))"

definition execute_clr :: "u16 \<Rightarrow> nat m68k_prog" where
  "execute_clr opcode =
     sized opcode (\<lambda>sz. pbind (write_d (ea_register opcode) sz 0) (\<lambda>_.
       pbind (mod_regs (flags_logic sz 0)) (\<lambda>_. pret 2)))"

definition execute_moveq :: "u16 \<Rightarrow> nat m68k_prog" where
  "execute_moveq opcode =
     (let v = sign8 (ucast opcode)
      in pbind (set_d (op_register opcode) v) (\<lambda>_. pbind (mod_regs (flags_logic 2 v)) (\<lambda>_. pret 2)))"

text \<open>The flags and the upper byte of a status register.\<close>

definition load_sr :: "u32 \<Rightarrow> vf2_m68k_regs \<Rightarrow> vf2_m68k_regs" where
  "load_sr v r = r\<lparr>fx := drop_bit 4 v AND 1 \<noteq> 0, fn := drop_bit 3 v AND 1 \<noteq> 0, fz := drop_bit 2 v AND 1 \<noteq> 0,
     fv := drop_bit 1 v AND 1 \<noteq> 0, fc := v AND 1 \<noteq> 0, sr_high := ucast (v AND 0xffe0)\<rparr>"

definition execute_move_sr :: "u32 \<Rightarrow> nat m68k_prog" where
  "execute_move_sr pc =
     pbind (fetch_imm pc 2 1) (\<lambda>(imm, off).
     pbind (mod_regs (load_sr imm)) (\<lambda>_.
     pbind (log_event pc imm 1 True) (\<lambda>_. pret off)))"

text \<open>Control flow: consumed bytes and next program counter, or nothing when the run is to return.\<close>

definition execute_rts :: "bool \<Rightarrow> (nat \<times> u32) option m68k_prog" where
  "execute_rts stop_on_return =
     (if stop_on_return then pret None
      else pbind (get_a 7) (\<lambda>sp. pbind (m68k_bus_read sp 2) (\<lambda>v.
           pbind (set_a 7 (sp + 4)) (\<lambda>_. pret (Some (2, v))))))"

definition execute_rte :: "bool \<Rightarrow> (nat \<times> u32) option m68k_prog" where
  "execute_rte stop_on_return =
     pbind (get_regs id) (\<lambda>r.
     if \<not> irq_active r then pret None
     else if sr_high r AND 0x2000 = 0 then pfail VF2_ERROR_UNSUPPORTED
     else
       pbind (m68k_bus_read (ra r 7) 1) (\<lambda>stacked_sr.
       pbind (m68k_bus_read (ra r 7 + 2) 2) (\<lambda>stacked_pc.
       pbind (pget (\<lambda>s. bus_rom_size (m68k_bus s))) (\<lambda>rom_size.
       if stacked_pc AND 1 \<noteq> 0 \<or> unat stacked_pc \<ge> rom_size then pfail VF2_ERROR_UNSUPPORTED
       else
         pbind (mod_regs (\<lambda>x. let y = load_sr stacked_sr (x\<lparr>ssp := ra r 7 + 6\<rparr>)
                in y\<lparr>ra := (ra y)(7 := if sr_high y AND 0x2000 = 0 then usp y else ssp y), irq_active := False\<rparr>)) (\<lambda>_.
         if stop_on_return then pbind (mod_regs (\<lambda>x. x\<lparr>rpc := stacked_pc\<rparr>)) (\<lambda>_. pret None)
         else pret (Some (2, stacked_pc)))))))"

definition is_jump :: "u16 \<Rightarrow> bool" where
  "is_jump opcode \<longleftrightarrow> opcode \<in> {0x4eb9, 0x4ef9, 0x4eba, 0x4efa} \<or> opcode AND 0xfff8 \<in> {0x4e90, 0x4ed0}"

definition imm_kind :: "u16 \<Rightarrow> alu_kind option" where
  "imm_kind opcode =
     (if opcode AND 0xffc0 \<in> {0x0000, 0x0040, 0x0080} then Some OP_OR
      else if opcode AND 0xffc0 \<in> {0x0a00, 0x0a40, 0x0a80} then Some OP_EOR
      else if opcode AND 0xffc0 \<in> {0x0200, 0x0240, 0x0280} then Some OP_AND
      else if opcode AND 0xffc0 \<in> {0x0400, 0x0440, 0x0480} then Some OP_SUB
      else if opcode AND 0xffc0 \<in> {0x0600, 0x0640, 0x0680} then Some OP_ADD
      else if opcode AND 0xff00 = 0x0c00 then Some OP_CMP else None)"

text \<open>The instructions that go on to the next one, before the branches in the code's order.\<close>

definition execute_first :: "u16 \<Rightarrow> u32 \<Rightarrow> nat m68k_prog option" where
  "execute_first opcode pc =
     (let cls = drop_bit 12 opcode
      in if cls \<ge> 1 \<and> cls \<le> 3 then Some (step_move opcode pc 2 (if cls = 1 then 0 else if cls = 3 then 1 else 2))
         else if opcode AND 0xf1c0 = 0x41c0 then Some (execute_lea opcode pc)
         else if imm_kind opcode \<noteq> None then
           Some (sized opcode (\<lambda>sz. step_imm_op opcode pc 2 sz (the (imm_kind opcode))))
         else if opcode AND 0xf1ff \<in> {0xd0fc, 0xd1fc, 0x90fc, 0x91fc} then Some (execute_adda_imm opcode pc)
         else if opcode AND 0xf000 = 0x8000 then Some (execute_or opcode pc)
         else if opcode AND 0xf000 = 0x9000 then Some (execute_sub opcode pc)
         else if opcode AND 0xf000 = 0xd000 then Some (execute_add opcode pc)
         else if opcode AND 0xf000 = 0xb000 \<and> ea_mode opcode \<in> {0, 2, 3, 5} then
           Some (sized opcode (\<lambda>sz. step_alu opcode pc 2 sz OP_CMP))
         else if opcode AND 0xf1ff \<in> {0xb0fc, 0xb1fc} then Some (execute_cmpa_imm opcode pc)
         else if opcode AND 0xf1c0 \<in> {0xc0c0, 0xc1c0} then
           Some (if opcode AND 0x003f \<noteq> 0x003c \<and> opcode AND 0x0038 \<noteq> 0 then pfail VF2_ERROR_UNSUPPORTED
                 else step_mulu opcode pc 2 (opcode AND 0x0100 \<noteq> 0))
         else if opcode AND 0xf000 = 0xe000 \<and> op_size opcode \<noteq> 3 \<and> opcode AND 0x0020 = 0 \<and>
             unat (drop_bit 3 opcode AND 3) \<in> {0, 1, 3} then
           Some (if unat (drop_bit 3 opcode AND 3) = 3 then step_ror_reg opcode 2 else step_shift opcode 2)
         else None)"

definition execute_last :: "u16 \<Rightarrow> u32 \<Rightarrow> nat m68k_prog" where
  "execute_last opcode pc =
     (if opcode = 0x4e71 then pret 2
      else if opcode = 0x46fc then execute_move_sr pc
      else if opcode AND 0xf000 = 0x7000 \<and> opcode AND 0x0100 = 0 then execute_moveq opcode
      else if opcode AND 0xfff8 \<in> {0x4880, 0x48c0} then execute_ext opcode
      else if opcode AND 0xffc0 \<in> {0x4400, 0x4440, 0x4480} then execute_neg opcode
      else if opcode AND 0xff00 = 0x4a00 then execute_tst opcode pc
      else if opcode AND 0xffc0 \<in> {0x4600, 0x4640, 0x4680} then execute_m68k_not opcode
      else if opcode AND 0xf000 = 0x5000 then
        (if ea_mode opcode \<in> {0, 1, 2, 3, 5, 6} then step_quick opcode pc 2 (opcode AND 0x0100 \<noteq> 0)
         else pfail VF2_ERROR_UNSUPPORTED)
      else if opcode AND 0xff00 = 0x0800 then step_bit opcode pc 2
      else if opcode AND 0xff38 = 0x4200 \<and> ea_mode opcode = 0 then execute_clr opcode
      else if opcode AND 0xffc0 = 0x48c0 \<and> ea_mode opcode \<in> {2, 4} \<or> opcode AND 0xffc0 = 0x4cc0 \<and> ea_mode opcode = 3 then
        step_movem opcode pc 2
      else pfail VF2_ERROR_UNSUPPORTED)"

definition m68k_execute :: "bool \<Rightarrow> u16 \<Rightarrow> u32 \<Rightarrow> nat \<Rightarrow> (nat \<times> u32) option m68k_prog" where
  "m68k_execute stop_on_return opcode pc len =
     (case execute_first opcode pc of
        Some p \<Rightarrow> pbind p (\<lambda>off. pret (Some (off, pc + of_nat len)))
      | None \<Rightarrow>
          if opcode AND 0xf000 = 0x6000 then pbind (step_bcc opcode pc 2) (\<lambda>x. pret (Some x))
          else if opcode AND 0xf0f8 = 0x50c8 then pbind (step_dbc opcode pc 2) (\<lambda>x. pret (Some x))
          else if is_jump opcode then
            pbind (step_jsr_jmp opcode pc 2 (opcode \<in> {0x4eb9, 0x4eba} \<or> opcode AND 0xfff8 = 0x4e90) (pc + of_nat len))
              (\<lambda>x. pret (Some x))
          else if opcode = 0x4e75 then execute_rts stop_on_return
          else if opcode = 0x4e73 then execute_rte stop_on_return
          else pbind (execute_last opcode pc) (\<lambda>off. pret (Some (off, pc + of_nat len))))"

section \<open>Runs\<close>

text \<open>One round of the run loop after the fetch: whether the run goes on.\<close>

definition m68k_step :: "bool \<Rightarrow> u16 \<Rightarrow> bool m68k_prog" where
  "m68k_step stop_on_return opcode s =
     (let pc = rpc (m68k_regs s); b = m68k_bus s
      in case vf2_m68k_decode (bus_rom b) (bus_rom_size b) pc of
           (status, insn) \<Rightarrow>
             if status \<noteq> VF2_OK \<or> \<not> insn_supported insn then (Inl VF2_ERROR_UNSUPPORTED, s)
             else pbind (m68k_execute stop_on_return opcode pc (insn_length insn)) (\<lambda>x.
               case x of
                 None \<Rightarrow> pret False
               | Some (off, new_pc) \<Rightarrow>
                   if off \<noteq> insn_length insn then pfail VF2_ERROR_UNSUPPORTED
                   else pbind (mod_regs (\<lambda>r. r\<lparr>rpc := new_pc\<rparr>)) (\<lambda>_. pret True)) s)"

text \<open>Status, instructions executed, and the state left. A fetch outside the ROM leaves \<open>*steps_done\<close> at 0.\<close>

primrec m68k_run_loop :: "nat \<Rightarrow> nat \<Rightarrow> u32 \<Rightarrow> bool \<Rightarrow> m68k \<Rightarrow> vf2_status \<times> nat \<times> m68k" where
  "m68k_run_loop 0 executed stop_pc stop_on_return s = (VF2_ERROR_UNSUPPORTED, executed, s)"
| "m68k_run_loop (Suc n) executed stop_pc stop_on_return s =
     (if rpc (m68k_regs s) = stop_pc then (VF2_OK, executed, s)
      else case rom_u16 (m68k_bus s) (rpc (m68k_regs s)) of
        Inl e \<Rightarrow> (e, 0, s)
      | Inr opcode \<Rightarrow>
          (case m68k_step stop_on_return opcode s of
             (Inl e, s') \<Rightarrow> (e, executed, s')
           | (Inr goes_on, s') \<Rightarrow>
               if goes_on then m68k_run_loop n (executed + 1) stop_pc stop_on_return s'
               else (VF2_OK, executed + 1, s')))"

definition vf2_m68k_run :: "u32 \<Rightarrow> bool \<Rightarrow> u32 \<Rightarrow> m68k \<Rightarrow> vf2_status \<times> nat \<times> m68k" where
  "vf2_m68k_run stop_pc stop_on_return max_steps = m68k_run_loop (unat max_steps) 0 stop_pc stop_on_return"

text \<open>Status, steps, whether suspended, and the state.\<close>

definition vf2_m68k_run_slice :: "u32 \<Rightarrow> bool \<Rightarrow> u32 \<Rightarrow> m68k \<Rightarrow> vf2_status \<times> nat \<times> bool \<times> m68k" where
  "vf2_m68k_run_slice stop_pc stop_on_return max_instructions s =
     (if max_instructions = 0 then (VF2_ERROR_INVALID_ARGUMENT, 0, False, s)
      else case vf2_m68k_run stop_pc stop_on_return max_instructions s of
        (status, steps, s') \<Rightarrow>
          if status = VF2_ERROR_UNSUPPORTED \<and> steps = unat max_instructions
          then (VF2_OK, steps, rpc (m68k_regs s') \<noteq> stop_pc, s')
          else (status, steps, False, s'))"

section \<open>Interrupts and timer A\<close>

definition sr_word :: "vf2_m68k_regs \<Rightarrow> u16" where
  "sr_word r = (sr_high r AND 0xffe0) OR push_bit 4 (of_bool (fx r)) OR push_bit 3 (of_bool (fn r)) OR
     push_bit 2 (of_bool (fz r)) OR push_bit 1 (of_bool (fv r)) OR of_bool (fc r)"

definition vf2_m68k_irq_autovector_enter :: "nat \<Rightarrow> unit m68k_prog" where
  "vf2_m68k_irq_autovector_enter level s =
     (let r = m68k_regs s; b = m68k_bus s;
          stack = (if sr_high r AND 0x2000 \<noteq> 0 then ra r 7 else ssp r)
      in if bus_ram b = None \<or> level < 1 \<or> level > 7 then (Inl VF2_ERROR_INVALID_ARGUMENT, s)
         else if irq_active r \<or> level \<le> unat (drop_bit 8 (sr_high r) AND 7) then (Inl VF2_ERROR_UNSUPPORTED, s)
         else case rom_u32 b (of_nat (24 + level) * 4) of
           Inl e \<Rightarrow> (Inl e, s)
         | Inr entry \<Rightarrow>
             (let vector_pc = (if entry \<ge> VF2_STEP_ROM_MIRROR_BASE then entry - VF2_STEP_ROM_MIRROR_BASE else entry)
              in if vector_pc AND 1 \<noteq> 0 \<or> unat vector_pc + 2 > bus_rom_size b then (Inl VF2_ERROR_UNSUPPORTED, s)
                 else if stack AND 1 \<noteq> 0 \<or> stack < 6 \<or> unat stack > bus_ram_size b then (Inl VF2_ERROR_UNSUPPORTED, s)
                 else
                   pbind (m68k_bus_write (stack - 6 + 2) 2 (rpc r)) (\<lambda>_.
                   pbind (m68k_bus_write (stack - 6) 1 (ucast (sr_word r))) (\<lambda>_.
                   mod_regs (\<lambda>x. x\<lparr>usp := (if sr_high x AND 0x2000 = 0 then ra x 7 else usp x),
                     ssp := stack - 6, ra := (ra x)(7 := stack - 6),
                     sr_high := (sr_word r AND 0xf8e0) OR 0x2000 OR push_bit 8 (of_nat level),
                     rpc := vector_pc, irq_active := True\<rparr>))) s))"

record vf2_m68k_timer_a_phase =
  cpu_cycle_phase :: u32
  total_expiries :: u64

definition vf2_m68k_timer_a_advance :: "u32 \<Rightarrow> (vf2_m68k_timer_a_phase, u32) prog" where
  "vf2_m68k_timer_a_advance executed_cpu_cycles clock =
     (if cpu_cycle_phase clock \<ge> 12544 then (Inl VF2_ERROR_INVALID_ARGUMENT, clock)
      else
        let sum = ucast (cpu_cycle_phase clock) + ucast executed_cpu_cycles :: u64; periods = sum div 12544
        in (Inr (ucast periods), clock\<lparr>cpu_cycle_phase := ucast (sum mod 12544),
                                       total_expiries := total_expiries clock + periods\<rparr>))"

text \<open>The cycles charged are the value; a refusal charges none.\<close>

definition vf2_m68k_irq_autovector_enter_timed :: "nat \<Rightarrow> u32 m68k_prog" where
  "vf2_m68k_irq_autovector_enter_timed level = pbind (vf2_m68k_irq_autovector_enter level) (\<lambda>_. pret 44)"

section \<open>Cycle-budgeted slices\<close>

definition vf2_m68k_cycle_cost :: "vf2_m68k_bus \<Rightarrow> vf2_m68k_regs \<Rightarrow> vf2_status + u32" where
  "vf2_m68k_cycle_cost b r =
     (case rom_u16 b (rpc r) of Inl e \<Rightarrow> Inl e | Inr op \<Rightarrow>
      if op = 0x4e71 \<or> op AND 0xf100 = 0x7000 then Inr 4
      else if op = 0x4e75 then Inr 16
      else if op AND 0xf1ff = 0x317c then Inr 16
      else if op AND 0xf1f8 = 0x1028 then Inr 12
      else if op AND 0xfff8 = 0x0c00 then Inr 8
      else if op AND 0xfff8 = 0x0828 then Inr 16
      else if op AND 0xfff8 = 0x5368 then Inr 16
      else if op AND 0xff00 = 0x4a00 \<and> op_size op < 3 \<and> ea_mode op = 0 then Inr 4
      else if op AND 0xfff8 = 0x4a28 then Inr 12
      else if op = 0x4eba \<or> op AND 0xfff8 = 0x4e90 then Inr (if op = 0x4eba then 18 else 16)
      else if op = 0x4eb9 then Inr 20
      else if op = 0x4efa \<or> op AND 0xfff8 = 0x4ed0 then Inr (if op = 0x4efa then 10 else 8)
      else if op = 0x4ef9 then Inr 12
      else if op AND 0xf1f8 = 0x41e8 then Inr 8
      else if op AND 0xf1f8 = 0x41d0 then Inr 4
      else if op = 0x4e73 \<and> irq_active r then Inr 20
      else if op = 0x48e7 \<or> op = 0x4cdf then
        (case rom_u16 b (rpc r + 2) of
           Inl e \<Rightarrow> Inl e
         | Inr regs \<Rightarrow>
             Inr ((if op = 0x48e7 then 8 else 12) + 8 * of_nat (length (filter (bit regs) [0..<16]))))
      else if op AND 0xf0f8 = 0x50c8 then
        Inr (if bcc_holds r (op_condition op) then 12
             else if rd r (ea_register op) AND 0xffff = 0 then 14 else 10)
      else if op AND 0xf000 = 0x6000 then
        (if op AND 0xff = 0xff then Inl VF2_ERROR_UNSUPPORTED
         else if op_condition op = 0 then Inr 10
         else if op_condition op = 1 then Inr 18
         else Inr (if bcc_holds r (op_condition op) then 10 else if op AND 0xff = 0 then 12 else 8))
      else Inl VF2_ERROR_UNSUPPORTED)"

lemma movem_cost_range:
  assumes "n \<le> 16"
  shows "4 \<le> (8 :: u32) + 8 * of_nat n" "(8 :: u32) + 8 * of_nat n \<le> 140"
    "4 \<le> (12 :: u32) + 8 * of_nat n" "(12 :: u32) + 8 * of_nat n \<le> 140"
proof -
  have "n \<in> set [0..<17]" using assms by auto
  then have n: "n \<in> {0, 1, 2, 3, 4, 5, 6, 7, 8, 9, 10, 11, 12, 13, 14, 15, 16}"
    by (simp add: upt_rec numeral_nat)
  show "4 \<le> (8 :: u32) + 8 * of_nat n" "(8 :: u32) + 8 * of_nat n \<le> 140"
    "4 \<le> (12 :: u32) + 8 * of_nat n" "(12 :: u32) + 8 * of_nat n \<le> 140"
    using n by auto
qed

definition cost_ok :: "vf2_status + u32 \<Rightarrow> bool" where
  "cost_ok x \<longleftrightarrow> (case x of Inl e \<Rightarrow> e \<noteq> VF2_OK | Inr c \<Rightarrow> 4 \<le> c \<and> c \<le> 140)"

lemma rom_u16_error: "rom_u16 b a = Inl e \<Longrightarrow> e = VF2_ERROR_OUT_OF_BOUNDS"
  by (simp add: rom_u16_def split: if_splits)

lemma cost_ok_rom:
  assumes "\<And>w. cost_ok (f w)"
  shows "cost_ok (case rom_u16 b a of Inl e \<Rightarrow> Inl e | Inr w \<Rightarrow> f w)"
proof (cases "rom_u16 b a")
  case (Inl e)
  then show ?thesis using rom_u16_error [OF Inl] by (simp add: cost_ok_def)
qed (use assms in simp)

lemma cost_ok_intros:
  "cost_ok (Inl VF2_ERROR_UNSUPPORTED)"
  "\<lbrakk>cost_ok x; cost_ok y\<rbrakk> \<Longrightarrow> cost_ok (if p then x else y)"
  "\<lbrakk>cost_ok (Inr c); cost_ok (Inr d)\<rbrakk> \<Longrightarrow> cost_ok (Inr (if p then c else d))"
  by (simp_all add: cost_ok_def)

lemma cost_ok_values:
  "cost_ok (Inr 4)" "cost_ok (Inr 8)" "cost_ok (Inr 10)" "cost_ok (Inr 12)" "cost_ok (Inr 14)"
  "cost_ok (Inr 16)" "cost_ok (Inr 18)" "cost_ok (Inr 20)"
  by (simp_all add: cost_ok_def)

lemma cost_ok_movem: "cost_ok (Inr ((if p then 8 else 12) + 8 * of_nat (length (filter (bit (regs :: u16)) [0..<16]))))"
  using movem_cost_range [of "length (filter (bit regs) [0..<16])"] length_filter_le [of "bit regs" "[0..<16]"]
  by (simp add: cost_ok_def del: upt_Suc)

lemma cost_ok_cycle_cost: "cost_ok (vf2_m68k_cycle_cost b r)"
  unfolding vf2_m68k_cycle_cost_def by (intro cost_ok_intros cost_ok_rom cost_ok_values cost_ok_movem)

lemma cycle_cost_range:
  assumes "vf2_m68k_cycle_cost b r = Inr cost"
  shows "4 \<le> cost" and "cost \<le> 140"
  using assms cost_ok_cycle_cost [of b r] by (simp_all add: cost_ok_def)

lemma budget_decreases:
  fixes budget cycles cost :: u32
  assumes "4 \<le> cost" and "\<not> budget - cycles < cost"
  shows "unat (budget - (cycles + cost)) + 4 \<le> unat (budget - cycles)"
proof -
  have "unat (budget - cycles - cost) = unat (budget - cycles) - unat cost" "unat cost \<le> unat (budget - cycles)"
    using assms(2) by (simp_all add: unat_sub not_less word_le_nat_alt)
  moreover have "4 \<le> unat cost" using assms(1) by (simp add: word_le_nat_alt)
  ultimately show ?thesis by (simp add: diff_diff_eq)
qed

text \<open>Status, cycles, steps, whether suspended, and the state.\<close>

function cycle_slice_loop :: "u32 \<Rightarrow> u32 \<Rightarrow> u32 \<Rightarrow> u32 \<Rightarrow> m68k \<Rightarrow> vf2_status \<times> u32 \<times> u32 \<times> bool \<times> m68k" where
  "cycle_slice_loop stop_pc budget cycles steps s =
     (if rpc (m68k_regs s) = stop_pc then (VF2_OK, cycles, steps, False, s)
      else case vf2_m68k_cycle_cost (m68k_bus s) (m68k_regs s) of
        Inl e \<Rightarrow> (e, cycles, steps, False, s)
      | Inr cost \<Rightarrow>
          if cost > budget - cycles then (VF2_OK, cycles, steps, True, s)
          else case vf2_m68k_run_slice stop_pc False 1 s of
            (status, n, _, s') \<Rightarrow>
              if status \<noteq> VF2_OK then (status, cycles, steps, False, s')
              else if n \<noteq> 1 then (VF2_ERROR_UNSUPPORTED, cycles, steps, False, s')
              else if cycles + cost = budget \<and> rpc (m68k_regs s') \<noteq> stop_pc
              then (VF2_OK, cycles + cost, steps + 1, True, s')
              else cycle_slice_loop stop_pc budget (cycles + cost) (steps + 1) s')"
  by pat_completeness auto

termination
proof (relation "measure (\<lambda>(stop_pc, budget, cycles, steps, s). unat (budget - cycles))")
  fix stop_pc budget cycles steps cost :: u32 and s s' :: m68k
  assume "vf2_m68k_cycle_cost (m68k_bus s) (m68k_regs s) = Inr cost" and "\<not> budget - cycles < cost"
  then have "unat (budget - (cycles + cost)) < unat (budget - cycles)"
    using budget_decreases cycle_cost_range(1) by fastforce
  then show "((stop_pc, budget, cycles + cost, steps + 1, s'), stop_pc, budget, cycles, steps, s)
      \<in> measure (\<lambda>(stop_pc, budget, cycles, steps, s). unat (budget - cycles))" by simp
qed simp

declare cycle_slice_loop.simps [simp del]

definition vf2_m68k_run_cycle_slice :: "u32 \<Rightarrow> u32 \<Rightarrow> m68k \<Rightarrow> vf2_status \<times> u32 \<times> u32 \<times> bool \<times> m68k" where
  "vf2_m68k_run_cycle_slice stop_pc cycle_budget s =
     (if cycle_budget = 0 then (VF2_ERROR_INVALID_ARGUMENT, 0, 0, False, s)
      else cycle_slice_loop stop_pc cycle_budget 0 0 s)"

end
