(* ===== verification/Vf2_M68k_Slices.thy ===== *)
theory Vf2_M68k_Slices
  imports Vf2_M68k
begin

text \<open>
  Slices of a run: running in slices is running, and a cycle budget is never exceeded.
\<close>

section \<open>The run loop\<close>

text \<open>A run that used up its steps goes on; any other outcome is final.\<close>

lemma run_loop_steps:
  "m68k_run_loop n e stop ret s = (status, k, s') \<Longrightarrow> k \<le> e + n \<and> (status = VF2_ERROR_UNSUPPORTED \<longrightarrow> e \<le> k)"
proof (induction n arbitrary: e s)
  case 0
  then show ?case by simp
next
  case (Suc n)
  show ?case
  proof (cases "rpc (m68k_regs s) = stop")
    case True
    then show ?thesis using Suc.prems by simp
  next
    case running: False
    show ?thesis
    proof (cases "rom_u16 (m68k_bus s) (rpc (m68k_regs s))")
      case (Inl x)
      then have "x = VF2_ERROR_OUT_OF_BOUNDS" by (simp add: rom_u16_def split: if_splits)
      then show ?thesis using Suc.prems running Inl by auto
    next
      case (Inr opcode)
      obtain r s1 where step: "m68k_step ret opcode s = (r, s1)" by (cases "m68k_step ret opcode s")
      show ?thesis
      proof (cases r)
        case (Inl x)
        then show ?thesis using Suc.prems running Inr step by auto
      next
        case goes: (Inr b)
        then show ?thesis
          using Suc.prems running Inr step Suc.IH [of "e + 1" s1] by (cases b) auto
      qed
    qed
  qed
qed

text \<open>The outcomes of a run of \<open>n\<close> steps: stopped in between, or to go on from a state.\<close>

lemma run_loop_split:
  "m68k_run_loop (n + m) e stop ret s =
     (case m68k_run_loop n e stop ret s of
        (status, k, s') \<Rightarrow>
          if status = VF2_ERROR_UNSUPPORTED \<and> k = e + n then m68k_run_loop m (e + n) stop ret s'
          else (status, k, s'))"
proof (induction n arbitrary: e s)
  case 0
  then show ?case by simp
next
  case (Suc n)
  show ?case
  proof (cases "rpc (m68k_regs s) = stop")
    case True
    then show ?thesis by simp
  next
    case running: False
    show ?thesis
    proof (cases "rom_u16 (m68k_bus s) (rpc (m68k_regs s))")
      case (Inl x)
      then have "x = VF2_ERROR_OUT_OF_BOUNDS" by (simp add: rom_u16_def split: if_splits)
      then show ?thesis using running Inl by simp
    next
      case (Inr opcode)
      obtain r s1 where step: "m68k_step ret opcode s = (r, s1)" by (cases "m68k_step ret opcode s")
      show ?thesis
      proof (cases r)
        case (Inl x)
        then show ?thesis using running Inr step by simp
      next
        case goes: (Inr b)
        have shift: "e + 1 + n = e + Suc n" by simp
        show ?thesis using goes running Inr step Suc.IH [of "e + 1" s1, unfolded shift] by simp
      qed
    qed
  qed
qed

text \<open>The counter of executed instructions is only carried along.\<close>

lemma run_loop_shift:
  assumes "m68k_run_loop n e stop ret s = (status, k, s')"
  shows "\<exists>k'. m68k_run_loop n (e + d) stop ret s = (status, k', s') \<and>
     (status = VF2_OK \<or> status = VF2_ERROR_UNSUPPORTED \<longrightarrow> k' = k + d)"
  using assms
proof (induction n arbitrary: e s)
  case 0
  then show ?case by simp
next
  case (Suc n)
  show ?case
  proof (cases "rpc (m68k_regs s) = stop")
    case True
    then show ?thesis using Suc.prems by simp
  next
    case running: False
    show ?thesis
    proof (cases "rom_u16 (m68k_bus s) (rpc (m68k_regs s))")
      case (Inl x)
      then have "x = VF2_ERROR_OUT_OF_BOUNDS" by (simp add: rom_u16_def split: if_splits)
      then show ?thesis using Suc.prems running Inl by auto
    next
      case (Inr opcode)
      obtain r s1 where step: "m68k_step ret opcode s = (r, s1)" by (cases "m68k_step ret opcode s")
      show ?thesis
      proof (cases r)
        case (Inl x)
        then show ?thesis using Suc.prems running Inr step by auto
      next
        case goes: (Inr b)
        have shift: "e + 1 + d = e + d + 1" by simp
        show ?thesis
          using Suc.prems goes running Inr step Suc.IH [of "e + 1" s1, unfolded shift] by (cases b) auto
      qed
    qed
  qed
qed

section \<open>Slices\<close>

lemma run_slice_eq:
  assumes "0 < n"
  shows "vf2_m68k_run_slice stop ret n s =
     (case m68k_run_loop (unat n) 0 stop ret s of
        (status, k, s') \<Rightarrow>
          if status = VF2_ERROR_UNSUPPORTED \<and> k = unat n then (VF2_OK, k, rpc (m68k_regs s') \<noteq> stop, s')
          else (status, k, False, s'))"
  using assms by (auto simp: vf2_m68k_run_slice_def vf2_m68k_run_def)

text \<open>A run that is at its stopping address stays there.\<close>

lemma run_loop_at_stop: "\<lbrakk>rpc (m68k_regs s) = stop; 0 < n\<rbrakk> \<Longrightarrow> m68k_run_loop n e stop ret s = (VF2_OK, e, s)"
  by (cases n) simp_all

text \<open>C38: Running in slices is running: a slice of \<open>a + b\<close> instructions does what a slice of \<open>a\<close> does
  when that one is not suspended, and otherwise what the slice of \<open>b\<close> from the suspended state does,
  with the same status, suspension and state, and on success with the instructions added up.\<close>

theorem m68k_slices_compose:
  assumes "0 < a" and "0 < b" and "unat a + unat b < 2 ^ 32"
    and first: "vf2_m68k_run_slice stop ret a s = (status1, k1, suspended1, s1)"
    and second: "vf2_m68k_run_slice stop ret b s1 = (status2, k2, suspended2, s2)"
    and whole: "vf2_m68k_run_slice stop ret (a + b) s = (status, k, suspended, s')"
  shows "if suspended1
    then k1 = unat a \<and> status = status2 \<and> suspended = suspended2 \<and> s' = s2 \<and> (status = VF2_OK \<longrightarrow> k = k1 + k2)
    else (status, k, suspended, s') = (status1, k1, suspended1, s1)"
proof -
  have sum: "unat (a + b) = unat a + unat b" using assms(3) by (simp add: unat_word_ariths)
  then have pos: "0 < a + b" using assms(1) by (simp add: word_less_nat_alt)
  obtain st m t where A: "m68k_run_loop (unat a) 0 stop ret s = (st, m, t)"
    by (cases "m68k_run_loop (unat a) 0 stop ret s")
  note split = run_loop_split [of "unat a" "unat b" 0 stop ret s, unfolded A]
  note ab = run_slice_eq [OF pos, of stop ret s, unfolded sum split]
  show ?thesis
  proof (cases "st = VF2_ERROR_UNSUPPORTED \<and> m = unat a")
    case False
    then show ?thesis using run_slice_eq [OF assms(1), of stop ret s] A ab first whole run_loop_steps [OF A] by auto
  next
    case True
    obtain st2 m2 t2 where B: "m68k_run_loop (unat b) 0 stop ret t = (st2, m2, t2)"
      by (cases "m68k_run_loop (unat b) 0 stop ret t")
    from run_loop_shift [OF B, of "unat a"] obtain m' where
      B': "m68k_run_loop (unat b) (unat a) stop ret t = (st2, m', t2)"
      and m': "st2 = VF2_OK \<or> st2 = VF2_ERROR_UNSUPPORTED \<longrightarrow> m' = m2 + unat a" by auto
    have t: "s1 = t" "k1 = unat a" "status1 = VF2_OK" "suspended1 \<longleftrightarrow> rpc (m68k_regs t) \<noteq> stop"
      using first run_slice_eq [OF assms(1), of stop ret s] A True by auto
    note b = run_slice_eq [OF assms(2), of stop ret t, unfolded B]
    show ?thesis
    proof (cases "rpc (m68k_regs t) = stop")
      case at: True
      have "0 < unat b" using assms(2) by (simp add: word_less_nat_alt)
      then show ?thesis using at t True whole ab run_loop_at_stop [OF at, of "unat b"] assms(2)
        by (auto simp: word_less_nat_alt)
    next
      case False
      then show ?thesis using t True whole second ab b B' m' run_loop_steps [OF B] by (auto split: if_splits)
    qed
  qed
qed

text \<open>A program of no-operations.\<close>

definition nops :: "u32 \<Rightarrow> m68k" where
  "nops pc = \<lparr>m68k_regs = \<lparr>rd = (\<lambda>_. 0), ra = (\<lambda>_. 0), rpc = pc, fx = False, fn = False, fz = False, fv = False,
       fc = False, sr_high = 0x2000, usp = 0, ssp = 0, irq_active = False\<rparr>,
     m68k_bus = \<lparr>bus_ram = None, bus_ram_size = 0, bus_rom = (\<lambda>i. if even i then 0x4e else 0x71), bus_rom_size = 256,
       bus_sample_rom = None, bus_sample_rom_size = 0, bus_scsp = None, 
       bus_events = (\<lambda>_. \<lparr>event_address = 0, event_value = 0, event_size = 0, event_is_write = False\<rparr>),
       bus_event_count = 0\<rparr>\<rparr>"

lemma nop_fetch: "unat pc + 2 \<le> 256 \<Longrightarrow> even (unat pc) \<Longrightarrow> rom_u16 (m68k_bus (nops pc)) pc = Inr 0x4e71"
  by (simp add: rom_u16_def nops_def read_be16_def)

lemma nop_decode:
  assumes "unat pc + 2 \<le> 256" and "even (unat pc)"
  shows "\<exists>insn. vf2_m68k_decode (bus_rom (m68k_bus (nops pc))) 256 pc = (VF2_OK, insn) \<and> insn_supported insn \<and>
    insn_length insn = 2"
proof -
  have "vf2_m68k_read_u16 (bus_rom (m68k_bus (nops pc))) 256 pc = Inr 0x4e71"
    using nop_fetch [OF assms] assms(1)
    by (auto simp: rom_u16_def vf2_m68k_read_u16_def in_range_def read_be16_def nops_def split: if_splits)
  then show ?thesis
    by (simp add: vf2_m68k_decode_def decode_opcode_def decode_system_def printed_def Let_def)
qed

lemma nop_step:
  assumes "unat pc + 2 \<le> 256" and "even (unat pc)"
  shows "m68k_step ret 0x4e71 (nops pc) = (Inr True, nops (pc + 2))"
proof -
  obtain insn where d: "vf2_m68k_decode (bus_rom (m68k_bus (nops pc))) 256 pc = (VF2_OK, insn)"
    "insn_supported insn" "insn_length insn = 2" using nop_decode [OF assms] by blast
  have e: "m68k_execute ret 0x4e71 pc 2 s = (Inr (Some (2, pc + 2)), s)" for s
    by (simp add: m68k_execute_def execute_first_def execute_last_def is_jump_def imm_kind_def ea_mode_def op_size_def Let_def)
  have n: "rpc (m68k_regs (nops pc)) = pc" "bus_rom_size (m68k_bus (nops pc)) = 256" by (simp_all add: nops_def)
  show ?thesis unfolding m68k_step_def Let_def n d(1) prod.case using d e by (simp add: mod_regs_def nops_def)
qed

lemma nop_run:
  assumes "unat pc + 2 * n \<le> 256" and "even (unat pc)" and "\<And>k. k < n \<Longrightarrow> pc + 2 * of_nat k \<noteq> stop"
  shows "m68k_run_loop n e stop ret (nops pc) = (VF2_ERROR_UNSUPPORTED, e + n, nops (pc + 2 * of_nat n))"
  using assms
proof (induction n arbitrary: pc e)
  case 0
  then show ?case by simp
next
  case (Suc n)
  have u: "unat (pc + 2) = unat pc + 2" using Suc.prems(1) by (simp add: unat_word_ariths)
  have "pc + 2 + 2 * of_nat k \<noteq> stop" if "k < n" for k
    using Suc.prems(3) [of "Suc k"] that by (simp add: algebra_simps)
  then have "m68k_run_loop n (e + 1) stop ret (nops (pc + 2)) =
      (VF2_ERROR_UNSUPPORTED, e + 1 + n, nops (pc + 2 + 2 * of_nat n))"
    using Suc.IH [of "pc + 2" "e + 1"] Suc.prems(1,2) u by simp
  moreover have "rpc (m68k_regs (nops pc)) \<noteq> stop" "rpc (m68k_regs (nops pc)) = pc"
    using Suc.prems(3) [of 0] by (simp_all add: nops_def)
  ultimately show ?case
    using nop_fetch [of pc] nop_step [of pc ret] Suc.prems(1,2) by (simp add: algebra_simps)
qed

lemma nop_slice:
  assumes "0 < n" and "unat pc + 2 * unat n \<le> 256" and "even pc"
  shows "vf2_m68k_run_slice 0xff ret n (nops pc) = (VF2_OK, unat n, True, nops (pc + 2 * n))"
proof -
  have odd: "odd (0xff :: u32)" "even (pc + 2 * w)" for w using assms(3) by simp_all
  then have "pc + 2 * w \<noteq> 0xff" for w by metis
  moreover have "even (unat pc)"
  proof -
    have "bit pc 0 = bit (unat pc) 0" by (simp add: bit_unsigned_iff)
    then show ?thesis using assms(3) by (simp add: bit_0)
  qed
  moreover have "rpc (m68k_regs (nops w)) = w" for w by (simp add: nops_def)
  ultimately show ?thesis using nop_run [of pc "unat n" "0xff" 0 ret] assms by (simp add: run_slice_eq)
qed

lemma m68k_slices_compose_witness:
  "vf2_m68k_run_slice 0xff False 5 (nops 8) = (VF2_OK, 5, True, nops 18)"
proof -
  obtain st k su t where w: "vf2_m68k_run_slice 0xff False (2 + 3) (nops 8) = (st, k, su, t)"
    by (cases "vf2_m68k_run_slice 0xff False (2 + 3) (nops 8)")
  have second: "vf2_m68k_run_slice 0xff False 3 (nops 12) = (VF2_OK, 3, True, nops 18)"
    using nop_slice [of 3 12] by simp
  have first: "vf2_m68k_run_slice 0xff False 2 (nops 8) = (VF2_OK, 2, True, nops 12)"
    using nop_slice [of 2 8] by simp
  show ?thesis using m68k_slices_compose [OF _ _ _ first second w] w by simp
qed

section \<open>Cycle budgets\<close>

text \<open>\<open>executes n s s'\<close>: running from \<open>s\<close> executes \<open>n\<close> instructions and reaches \<open>s'\<close>.\<close>

definition executes :: "u32 \<Rightarrow> nat \<Rightarrow> m68k \<Rightarrow> m68k \<Rightarrow> bool" where
  "executes stop n s s' \<longleftrightarrow> m68k_run_loop n 0 stop False s = (VF2_ERROR_UNSUPPORTED, n, s')"

lemma executes_0: "executes stop 0 s s"
  by (simp add: executes_def)

lemma executes_Suc:
  assumes "executes stop 1 s s1" and "executes stop n s1 s2"
  shows "executes stop (Suc n) s s2"
proof -
  from run_loop_shift [OF assms(2) [unfolded executes_def], of 1]
  have "m68k_run_loop n 1 stop False s1 = (VF2_ERROR_UNSUPPORTED, n + 1, s2)" by simp
  then show ?thesis using run_loop_split [of 1 n 0 stop False s] assms(1) by (simp add: executes_def)
qed

text \<open>Only a return from an interrupt that is not active ends a run that does not stop on returns.\<close>

definition goes_on :: "'a option m68k_prog \<Rightarrow> bool" where
  "goes_on p \<longleftrightarrow> (\<forall>s. fst (p s) \<noteq> Inr None)"

lemma some_result:
  "fst (pbind p (\<lambda>x. pret (Some (f x))) s) \<noteq> Inr None"
  "fst (pbind p (\<lambda>x. pret (Some x)) s) \<noteq> Inr None"
  by (simp_all add: pbind_def split: sum.split)

lemma goes_on_rts: "goes_on (execute_rts False)"
  by (simp add: goes_on_def execute_rts_def pbind_def Let_def split: sum.split)

lemma rte_goes_on:
  assumes "irq_active (m68k_regs s)"
  shows "fst (execute_rte False s) \<noteq> Inr None"
  using assms by (simp add: execute_rte_def get_regs_def pbind_def mod_regs_def Let_def split: sum.split)

lemma execute_goes_on:
  assumes "opcode = 0x4e73 \<longrightarrow> irq_active (m68k_regs s)"
  shows "fst (m68k_execute False opcode pc len s) \<noteq> Inr None"
proof -
  have rts: "fst (execute_rts False s) \<noteq> Inr None" using goes_on_rts by (simp add: goes_on_def)
  have rte: "fst (execute_rte False s) \<noteq> Inr None" if "opcode = 0x4e73" using assms that rte_goes_on by blast
  show ?thesis
    by (simp only: m68k_execute_def if_distrib [of "\<lambda>p. fst (p s)"] option.case_distrib [of "\<lambda>p. fst (p s)"]
        some_result rts simp_thms split: option.split if_split) (use rte in blast)
qed

lemma step_goes_on:
  assumes "m68k_step False opcode s = (Inr b, s')" and "opcode = 0x4e73 \<longrightarrow> irq_active (m68k_regs s)"
  shows b
  using assms(1) execute_goes_on [OF assms(2)]
  by (auto simp: m68k_step_def Let_def pbind_def mod_regs_def split: prod.splits if_splits sum.splits option.splits)

text \<open>What a charged instruction is: not the return that ends a run.\<close>

lemma cost_rte:
  assumes "vf2_m68k_cycle_cost b r = Inr cost" and "rom_u16 b (rpc r) = Inr 0x4e73"
  shows "irq_active r"
  using assms by (simp add: vf2_m68k_cycle_cost_def split: if_splits)

lemma slice_one:
  assumes "rpc (m68k_regs s) \<noteq> stop" and "vf2_m68k_cycle_cost (m68k_bus s) (m68k_regs s) = Inr cost"
    and "vf2_m68k_run_slice stop False 1 s = (VF2_OK, 1, susp, s')"
  shows "executes stop 1 s s'"
proof -
  obtain opcode where op: "rom_u16 (m68k_bus s) (rpc (m68k_regs s)) = Inr opcode"
    using assms(2) by (auto simp: vf2_m68k_cycle_cost_def split: sum.splits)
  obtain r t where step: "m68k_step False opcode s = (r, t)" by (cases "m68k_step False opcode s")
  show ?thesis
  proof (cases r)
    case (Inl e)
    then have "m68k_run_loop (unat (1 :: u32)) 0 stop False s = (e, 0, t)" using assms(1) op step by simp
    then show ?thesis using assms(3) run_slice_eq [of 1 stop False s] by (auto split: if_splits)
  next
    case (Inr b)
    then have b using step_goes_on step cost_rte [OF assms(2)] op by blast
    then show ?thesis using assms(1,3) op step Inr run_slice_eq [of 1 stop False s] by (auto simp: executes_def)
  qed
qed

lemma charge_fits:
  fixes budget cycles cost steps :: u32
  assumes "cycles \<le> budget" and "\<not> budget - cycles < cost" and "4 \<le> cost" and "cost \<le> 140"
    and "4 * unat steps \<le> unat cycles"
  shows "unat (cycles + cost) = unat cycles + unat cost" and "cycles + cost \<le> budget"
    and "4 \<le> unat cost" and "unat cost \<le> 140" and "unat (steps + 1) = unat steps + 1"
proof -
  have c: "unat cycles + unat cost \<le> unat budget" "unat budget < 2 ^ 32"
    using assms(1,2) unat_less_u32 [of budget] by (simp_all add: unat_sub word_le_nat_alt not_less le_diff_conv2 add.commute)
  then have "unat cycles + unat cost < 2 ^ 32" by linarith
  then show sum: "unat (cycles + cost) = unat cycles + unat cost" by (simp add: unat_word_ariths)
  then show "cycles + cost \<le> budget" using c by (simp add: word_le_nat_alt)
  show "4 \<le> unat cost" "unat cost \<le> 140" using assms(3,4) by (simp_all add: word_le_nat_alt)
  have "unat cycles < 4294967296" by simp
  then have "unat steps + 1 < 4294967296" using assms(5) by linarith
  then show "unat (steps + 1) = unat steps + 1" by (simp add: unat_word_ariths)
qed

text \<open>The invariant of the slice loop: what is charged fits the budget, and every instruction takes
  at least 4 and at most 140 cycles.\<close>

lemma cycle_slice_loop_spec:
  assumes "cycle_slice_loop stop budget cycles steps s = (status, c, n, susp, s')"
    and "cycles \<le> budget" and "4 * unat steps \<le> unat cycles" and "unat cycles \<le> 140 * unat steps"
  shows "c \<le> budget \<and> unat steps \<le> unat n \<and> 4 * unat n \<le> unat c \<and> unat c \<le> 140 * unat n \<and>
    (status = VF2_OK \<longrightarrow> executes stop (unat n - unat steps) s s' \<and> (susp \<longleftrightarrow> rpc (m68k_regs s') \<noteq> stop) \<and>
       (susp \<longrightarrow> c = budget \<or> (\<exists>cost. vf2_m68k_cycle_cost (m68k_bus s') (m68k_regs s') = Inr cost \<and> budget - c < cost)))"
  using assms
proof (induction stop budget cycles steps s rule: cycle_slice_loop.induct)
  case (1 stop budget cycles steps s)
  note unfolded = "1.prems"(1) [unfolded cycle_slice_loop.simps [of stop budget cycles steps s]]
  show ?case
  proof (cases "rpc (m68k_regs s) = stop")
    case True
    then show ?thesis using unfolded "1.prems"(2-4) executes_0 by auto
  next
    case running: False
    show ?thesis
    proof (cases "vf2_m68k_cycle_cost (m68k_bus s) (m68k_regs s)")
      case (Inl e)
      then have "e \<noteq> VF2_OK" using cost_ok_cycle_cost [of "m68k_bus s" "m68k_regs s"] by (simp add: cost_ok_def)
      then show ?thesis using unfolded running Inl "1.prems"(2-4) by auto
    next
      case cost: (Inr cost)
      show ?thesis
      proof (cases "budget - cycles < cost")
        case True
        then show ?thesis using unfolded running cost "1.prems"(2-4) executes_0 by auto
      next
        case fits: False
        obtain st m sp t where slice: "vf2_m68k_run_slice stop False 1 s = (st, m, sp, t)"
          by (cases "vf2_m68k_run_slice stop False 1 s")
        show ?thesis
        proof (cases "st = VF2_OK \<and> m = 1")
          case False
          then show ?thesis using unfolded running cost fits slice "1.prems"(2-4) by (auto split: if_splits)
        next
          case True
          have one: "executes stop 1 s t" using slice_one [OF running cost] slice True by simp
          note add = charge_fits [OF "1.prems"(2) fits cycle_cost_range [OF cost] "1.prems"(3)]
          show ?thesis
          proof (cases "cycles + cost = budget \<and> rpc (m68k_regs t) \<noteq> stop")
            case full: True
            then have "status = VF2_OK" "c = budget" "n = steps + 1" "susp" "s' = t"
              using unfolded running cost fits slice True by auto
            then show ?thesis using full add one "1.prems"(3,4) by simp
          next
            case more: False
            from unfolded running cost fits slice True more
            have rest: "cycle_slice_loop stop budget (cycles + cost) (steps + 1) t = (status, c, n, susp, s')"
              by (auto split: if_splits)
            have again: "4 * unat (steps + 1) \<le> unat (cycles + cost)" "unat (cycles + cost) \<le> 140 * unat (steps + 1)"
              unfolding add(1) add(5) using add(3,4) "1.prems"(3,4) by simp_all
            have IH: "c \<le> budget \<and> unat (steps + 1) \<le> unat n \<and> 4 * unat n \<le> unat c \<and> unat c \<le> 140 * unat n \<and>
              (status = VF2_OK \<longrightarrow> executes stop (unat n - unat (steps + 1)) t s' \<and> (susp \<longleftrightarrow> rpc (m68k_regs s') \<noteq> stop) \<and>
                (susp \<longrightarrow> c = budget \<or> (\<exists>cost. vf2_m68k_cycle_cost (m68k_bus s') (m68k_regs s') = Inr cost \<and> budget - c < cost)))"
              using "1.IH" [OF running cost fits slice [symmetric] refl refl _ _ more rest add(2) again] True by simp
            have "executes stop (unat n - unat steps) s s'" if "status = VF2_OK"
              using executes_Suc [OF one, of "unat n - unat (steps + 1)" s'] IH that add(5)
              by (simp add: Suc_diff_Suc)
            then show ?thesis using IH add(5) by auto
          qed
        qed
      qed
    qed
  qed
qed

text \<open>C40: A cycle budget is kept. Whatever the program, a slice with a positive budget returns, charges at
  most its budget and between 4 and 140 cycles for each instruction executed. A slice that reports success has executed exactly the
  instructions it counts, as a run would, and reports suspension exactly when it is not at the
  stopping address; it is suspended only when its budget is used up or the next instruction costs
  more than what is left.\<close>

theorem m68k_cycle_budget_kept:
  assumes "0 < budget"
  shows "\<exists>status cycles steps suspended s'.
    vf2_m68k_run_cycle_slice stop budget s = (status, cycles, steps, suspended, s') \<and>
    cycles \<le> budget \<and> 4 * unat steps \<le> unat cycles \<and> unat cycles \<le> 140 * unat steps \<and>
    (status = VF2_OK \<longrightarrow>
       (unat steps = 0 \<and> s' = s \<or> m68k_run_loop (unat steps) 0 stop False s = (VF2_ERROR_UNSUPPORTED, unat steps, s')) \<and>
       (suspended \<longleftrightarrow> rpc (m68k_regs s') \<noteq> stop) \<and>
       (suspended \<longrightarrow> cycles = budget \<or>
         (\<exists>cost. vf2_m68k_cycle_cost (m68k_bus s') (m68k_regs s') = Inr cost \<and> budget - cycles < cost)))"
proof -
  obtain status cycles steps suspended s' where
    r: "cycle_slice_loop stop budget 0 0 s = (status, cycles, steps, suspended, s')"
    by (cases "cycle_slice_loop stop budget 0 0 s")
  moreover have "budget \<noteq> 0" using assms by simp
  ultimately show ?thesis
    using cycle_slice_loop_spec [OF r] by (simp add: vf2_m68k_run_cycle_slice_def executes_def)
qed

lemma m68k_cycle_budget_kept_witness:
  "\<exists>status cycles steps suspended s'.
     vf2_m68k_run_cycle_slice 0xff 10 (nops 8) = (status, cycles, steps, suspended, s') \<and>
     cycles \<le> 10 \<and> 4 * unat steps \<le> unat cycles"
  using m68k_cycle_budget_kept [of 10 "0xff" "nops 8"] by auto

end
