(* ===== verification/Vf2_M68k_Interrupts.thy ===== *)
theory Vf2_M68k_Interrupts
  imports Vf2_M68k_Slices
begin

text \<open>
  Entering an interrupt and returning from it: whatever the handler did, as long as it left its stack
  frame and the stack pointer as it found them, the interrupted program goes on where it was.
\<close>

section \<open>Memory below the device windows\<close>

lemma read_be_cong:
  assumes "\<And>k. k < access_width sz \<Longrightarrow> d (i + k) = d' (i + k)" and "sz \<le> 2"
  shows "read_be d i sz = read_be d' i sz"
  using assms(1) [of 0] assms(1) [of 1] assms(1) [of 2] assms(1) [of 3] assms(2)
  by (auto simp: read_be_def access_width_def)

lemma read_be_long: "read_be (write_bytes d i (be_bytes 2 v)) i 2 = v"
proof (rule bit_word_eqI)
  fix n assume "n < LENGTH(32)"
  then consider "n < 8" | "8 \<le> n" "n < 16" | "16 \<le> n" "n < 24" | "24 \<le> n" "n < 32" by fastforce
  then show "bit (read_be (write_bytes d i (be_bytes 2 v)) i 2) n = bit v n"
    by cases (auto simp: read_be_def be_bytes_def write_bytes_def bit_simps)
qed

lemma low_half: "(v :: u32) AND 0xffff = take_bit 16 v"
  by (simp add: take_bit_eq_mask mask_eq_exp_minus_1)

lemma read_be_word: "read_be (write_bytes d i (be_bytes 1 v)) i 1 = v AND 0xffff"
  unfolding low_half
proof (rule bit_word_eqI)
  fix n assume "n < LENGTH(32)"
  then consider "n < 8" | "8 \<le> n" "n < 16" | "16 \<le> n" "n < 32" by fastforce
  then show "bit (read_be (write_bytes d i (be_bytes 1 v)) i 1) n = bit (take_bit 16 v) n"
    by cases (auto simp: read_be_def be_bytes_def write_bytes_def bit_simps)
qed

lemma length_be_bytes: "sz \<le> 2 \<Longrightarrow> length (be_bytes sz v) = access_width sz"
  by (simp add: be_bytes_def access_width_def)

text \<open>RAM below the first device window.\<close>

definition plain_ram :: "vf2_m68k_bus \<Rightarrow> memory \<Rightarrow> bool" where
  "plain_ram b d \<longleftrightarrow> bus_ram b = Some d \<and> bus_ram_size b \<le> 0x100000"

lemma plain_address:
  assumes "plain_ram b d" and "unat a + access_width sz \<le> bus_ram_size b"
  shows "\<not> in_scsp a sz" and "\<not> in_rom_mirror b a" and "\<not> in_sample_rom b a"
proof -
  have "unat a < 0x100000" using assms by (simp add: plain_ram_def access_width_def split: if_splits)
  then show "\<not> in_scsp a sz" "\<not> in_rom_mirror b a" "\<not> in_sample_rom b a"
    by (simp_all add: in_scsp_def in_rom_mirror_def in_sample_rom_def VF2_STEP_SCSP_BASE_def
        VF2_STEP_ROM_MIRROR_BASE_def VF2_STEP_SAMPLE_BASE_def word_le_nat_alt)
qed

lemma plain_write:
  assumes "plain_ram (m68k_bus s) d" and "unat a + access_width sz \<le> bus_ram_size (m68k_bus s)"
    and "sz \<le> 2" and "sz = 0 \<or> a AND 1 = 0"
  shows "m68k_bus_write a sz v s =
    (Inr (), s\<lparr>m68k_bus := (m68k_bus s)\<lparr>bus_ram := Some (write_bytes d (unat a) (be_bytes sz v))\<rparr>\<rparr>)"
  using assms plain_address [OF assms(1,2)] by (auto simp: m68k_bus_write_def Let_def plain_ram_def)

lemma plain_read:
  assumes "plain_ram (m68k_bus s) d" and "unat a + access_width sz \<le> bus_ram_size (m68k_bus s)"
    and "sz \<le> 2" and "sz = 0 \<or> a AND 1 = 0"
  shows "m68k_bus_read a sz s = (Inr (read_be d (unat a) sz), s)"
  using assms plain_address [OF assms(1,2)] by (auto simp: m68k_bus_read_def Let_def plain_ram_def)

section \<open>The stack frame\<close>

lemma low_five:
  assumes "(w :: u16) AND 0x1f = 0" and "n < 5"
  shows "\<not> bit w n"
proof
  assume "bit w n"
  have "w AND 0x1f = take_bit 5 w" by (simp add: take_bit_eq_mask mask_eq_exp_minus_1)
  with assms have "\<not> bit (take_bit 5 w) n" by simp
  with assms(2) \<open>bit w n\<close> show False by (simp add: bit_take_bit_iff)
qed

lemma sr_word_high:
  assumes "sr_high r AND 0x1f = 0"
  shows "sr_word r AND 0xffe0 = sr_high r"
proof (rule bit_word_eqI)
  fix n assume n: "n < LENGTH(16)"
  have m: "(0xffe0 :: u16) = NOT (mask 5)" by (simp add: mask_eq_exp_minus_1)
  have e: "bit (0xffe0 :: u16) n = (5 \<le> n)"
    unfolding m using n by (simp only: bit_not_iff bit_mask_iff possible_bit_word) auto
  have "bit (sr_high r) n \<Longrightarrow> 5 \<le> n" using low_five [OF assms, of n] by (meson not_less)
  then show "bit (sr_word r AND 0xffe0) n = bit (sr_high r) n"
    using n by (simp only: sr_word_def bit_and_iff bit_or_iff e) (auto simp: bit_simps)
qed

lemma sr_word_flags:
  assumes "sr_high r AND 0x1f = 0"
  shows "bit (sr_word r) 4 = fx r" "bit (sr_word r) 3 = fn r" "bit (sr_word r) 2 = fz r"
    "bit (sr_word r) 1 = fv r" "bit (sr_word r) 0 = fc r"
  using low_five [OF assms] by (simp_all add: sr_word_def bit_simps)

lemma sr_word_bits:
  assumes "sr_high r AND 0x1f = 0"
  shows "load_sr (ucast (sr_word r)) r' =
    r'\<lparr>fx := fx r, fn := fn r, fz := fz r, fv := fv r, fc := fc r, sr_high := sr_high r\<rparr>"
proof -
  have field: "drop_bit k (v :: u32) AND 1 \<noteq> 0 \<longleftrightarrow> bit v k" for k v
    by (simp add: and_one_bit bit_drop_bit_eq)
  have field0: "(v :: u32) AND 1 \<noteq> 0 \<longleftrightarrow> bit v 0" for v
    by (simp add: and_one_bit)
  have high: "(ucast (ucast (sr_word r) AND 0xffe0 :: u32) :: u16) = sr_word r AND 0xffe0"
    by (rule bit_word_eqI) (auto simp: bit_simps)
  show ?thesis
    unfolding load_sr_def field field0 high sr_word_high [OF assms]
    using sr_word_flags [OF assms] by (simp add: bit_simps)
qed

section \<open>Entering\<close>

text \<open>A bus the interrupt can be entered on leaves the frame in RAM.\<close>

definition frame_state :: "nat \<Rightarrow> m68k \<Rightarrow> u32 \<Rightarrow> u32 \<Rightarrow> memory \<Rightarrow> m68k" where
  "frame_state level s stack entry d =
     (let r = m68k_regs s in
      \<lparr>m68k_regs = r\<lparr>usp := (if sr_high r AND 0x2000 = 0 then ra r 7 else usp r), ssp := stack - 6,
         ra := (ra r)(7 := stack - 6), sr_high := (sr_word r AND 0xf8e0) OR 0x2000 OR push_bit 8 (of_nat level),
         rpc := entry, irq_active := True\<rparr>,
       m68k_bus = (m68k_bus s)\<lparr>bus_ram := Some (write_bytes (write_bytes d (unat (stack - 4)) (be_bytes 2 (rpc r)))
         (unat (stack - 6)) (be_bytes 1 (ucast (sr_word r))))\<rparr>\<rparr>)"

lemma word_even: "(a :: u32) AND 1 = 0 \<longleftrightarrow> even (unat a)"
proof -
  have "bit a 0 = bit (unat a) 0" by (simp add: bit_unsigned_iff)
  then show ?thesis by (simp add: and_one_bit bit_0)
qed

lemma frame_addresses:
  assumes "(stack :: u32) AND 1 = 0" and "6 \<le> stack"
  shows "unat (stack - 6) = unat stack - 6" "unat (stack - 4) = unat stack - 4" "6 \<le> unat stack"
    "(stack - 6) AND 1 = 0" "(stack - 4) AND 1 = 0" "stack - 6 + 2 = stack - 4"
proof -
  show six: "6 \<le> unat stack" using assms(2) by (simp add: word_le_nat_alt)
  show u: "unat (stack - 6) = unat stack - 6" "unat (stack - 4) = unat stack - 4"
    using six by (simp_all add: unat_sub word_le_nat_alt)
  show "(stack - 6) AND 1 = 0" "(stack - 4) AND 1 = 0"
    using assms(1) six unfolding word_even u by simp_all
  show "stack - 6 + 2 = stack - 4" by simp
qed

lemma enter_state:
  assumes "vf2_m68k_irq_autovector_enter level s = (Inr (), s1)" and "plain_ram (m68k_bus s) d"
  defines "stack \<equiv> (if sr_high (m68k_regs s) AND 0x2000 \<noteq> 0 then ra (m68k_regs s) 7 else ssp (m68k_regs s))"
  shows "\<exists>entry. s1 = frame_state level s stack entry d"
    and "stack AND 1 = 0" and "6 \<le> stack" and "unat stack \<le> bus_ram_size (m68k_bus s)"
    and "\<not> irq_active (m68k_regs s)"
proof -
  let ?r = "m68k_regs s" and ?b = "m68k_bus s"
  obtain entry where entry: "rom_u32 ?b (of_nat (24 + level) * 4) = Inr entry"
    using assms(1) by (cases "rom_u32 ?b (of_nat (24 + level) * 4)")
      (simp_all add: vf2_m68k_irq_autovector_enter_def Let_def split: if_splits)
  define vector where "vector = (if entry \<ge> VF2_STEP_ROM_MIRROR_BASE then entry - VF2_STEP_ROM_MIRROR_BASE else entry)"
  have g: "\<not> irq_active ?r" "stack AND 1 = 0" "6 \<le> stack" "unat stack \<le> bus_ram_size ?b"
    and body: "pbind (m68k_bus_write (stack - 6 + 2) 2 (rpc ?r)) (\<lambda>_.
       pbind (m68k_bus_write (stack - 6) 1 (ucast (sr_word ?r))) (\<lambda>_.
       mod_regs (\<lambda>x. x\<lparr>usp := (if sr_high x AND 0x2000 = 0 then ra x 7 else usp x),
         ssp := stack - 6, ra := (ra x)(7 := stack - 6),
         sr_high := (sr_word ?r AND 0xf8e0) OR 0x2000 OR push_bit 8 (of_nat level),
         rpc := vector, irq_active := True\<rparr>))) s = (Inr (), s1)"
    using assms(1) entry unfolding vf2_m68k_irq_autovector_enter_def Let_def stack_def [symmetric]
    by (simp_all only: sum.case vector_def [symmetric] prod.inject sum.simps simp_thms not_less not_le de_Morgan_disj
        split: if_splits)
  show "\<not> irq_active ?r" "stack AND 1 = 0" "6 \<le> stack" "unat stack \<le> bus_ram_size ?b" by (fact g)+
  note a = frame_addresses [OF g(2,3)]
  let ?d1 = "write_bytes d (unat (stack - 4)) (be_bytes 2 (rpc ?r))"
  let ?s1 = "s\<lparr>m68k_bus := ?b\<lparr>bus_ram := Some ?d1\<rparr>\<rparr>"
  have w1: "m68k_bus_write (stack - 6 + 2) 2 (rpc ?r) s = (Inr (), ?s1)"
    unfolding a(6) by (rule plain_write [OF assms(2)]) (use a g in \<open>simp_all add: access_width_def\<close>)
  have w2: "m68k_bus_write (stack - 6) 1 (ucast (sr_word ?r)) ?s1 =
      (Inr (), s\<lparr>m68k_bus := ?b\<lparr>bus_ram := Some (write_bytes ?d1 (unat (stack - 6)) (be_bytes 1 (ucast (sr_word ?r))))\<rparr>\<rparr>)"
    using plain_write [of ?s1 ?d1 "stack - 6" 1 "ucast (sr_word ?r)"] assms(2) a g
    by (simp add: plain_ram_def access_width_def)
  have "s1 = frame_state level s stack vector d"
    using body
    unfolding pbind_ok [where f = "m68k_bus_write (stack - 6 + 2) 2 (rpc ?r)" and s = s, OF w1]
      pbind_ok [where f = "m68k_bus_write (stack - 6) 1 (ucast (sr_word ?r))" and s = ?s1, OF w2]
    by (cases s) (simp add: mod_regs_def frame_state_def Let_def cong: if_cong)
  then show "\<exists>entry. s1 = frame_state level s stack entry d" by blast
qed

section \<open>Returning\<close>

text \<open>The decoder and the dispatcher on the return instruction.\<close>

lemma decode_rte:
  assumes "rom_u16 b pc = Inr 0x4e73"
  shows "\<exists>insn. vf2_m68k_decode (bus_rom b) (bus_rom_size b) pc = (VF2_OK, insn) \<and> insn_supported insn \<and> insn_length insn = 2"
proof -
  have "vf2_m68k_read_u16 (bus_rom b) (bus_rom_size b) pc = Inr 0x4e73"
    using assms by (auto simp: rom_u16_def vf2_m68k_read_u16_def in_range_def read_be16_def split: if_splits)
  then show ?thesis
    by (simp add: vf2_m68k_decode_def decode_opcode_def decode_system_def printed_def Let_def)
qed

lemma execute_is_rte: "m68k_execute False 0x4e73 pc len = execute_rte False"
  by (simp add: m68k_execute_def execute_first_def imm_kind_def is_jump_def ea_mode_def op_size_def Let_def)

lemma step_rte:
  assumes "rom_u16 (m68k_bus s) (rpc (m68k_regs s)) = Inr 0x4e73" and "plain_ram (m68k_bus s) d"
    and "irq_active (m68k_regs s)" and "sr_high (m68k_regs s) AND 0x2000 \<noteq> 0"
    and sp: "ra (m68k_regs s) 7 = sp" "sp AND 1 = 0" "unat sp + 6 \<le> bus_ram_size (m68k_bus s)"
    and frame: "read_be d (unat sp) 1 = sr" "read_be d (unat sp + 2) 2 = pc"
    and pc: "pc AND 1 = 0" "unat pc < bus_rom_size (m68k_bus s)"
  shows "m68k_step False 0x4e73 s = (Inr True, s\<lparr>m68k_regs :=
     (let y = load_sr sr ((m68k_regs s)\<lparr>ssp := sp + 6\<rparr>)
      in y\<lparr>ra := (ra y)(7 := if sr_high y AND 0x2000 = 0 then usp y else ssp y), irq_active := False, rpc := pc\<rparr>)\<rparr>)"
proof -
  have "unat (sp + 2) = unat sp + 2"
  proof -
    have "unat sp + 2 < 2 ^ 32" using sp(3) assms(2) by (simp add: plain_ram_def)
    then show ?thesis by (simp add: unat_word_ariths)
  qed
  moreover have "(sp + 2) AND 1 = 0" using sp(2) calculation unfolding word_even by simp
  ultimately have r: "m68k_bus_read sp 1 s = (Inr sr, s)" "m68k_bus_read (sp + 2) 2 s = (Inr pc, s)"
    using plain_read [OF assms(2), of sp 1] plain_read [OF assms(2), of "sp + 2" 2] sp frame
    by (simp_all add: access_width_def)
  obtain insn where d: "vf2_m68k_decode (bus_rom (m68k_bus s)) (bus_rom_size (m68k_bus s)) (rpc (m68k_regs s)) = (VF2_OK, insn)"
    "insn_supported insn" "insn_length insn = 2" using decode_rte [OF assms(1)] by blast
  have e: "execute_rte False s = (Inr (Some (2, pc)), s\<lparr>m68k_regs :=
     (let y = load_sr sr ((m68k_regs s)\<lparr>ssp := sp + 6\<rparr>)
      in y\<lparr>ra := (ra y)(7 := if sr_high y AND 0x2000 = 0 then usp y else ssp y), irq_active := False\<rparr>)\<rparr>)"
    unfolding execute_rte_def get_regs_def mod_regs_def using assms(3,4) r pc sp(1) by (simp add: Let_def)
  show ?thesis
    unfolding m68k_step_def Let_def d(1) prod.case execute_is_rte
    using d e by (simp add: mod_regs_def Let_def load_sr_def)
qed

section \<open>The interrupted program goes on\<close>

text \<open>C39: An interrupt returns to the interrupted program. Let an autovector interrupt be entered from a
  program at an even address of the ROM, with the RAM below the device windows, and let the handler
  get to a return instruction with its stack frame, stack pointer, user stack pointer and supervisor
  state as they were on entry, whatever else it did. Then that instruction restores the program
  counter, the flags, the status register's upper byte, the interrupt mask with it, and the stack
  pointer of the interrupted program, and leaves everything else to the handler.\<close>

theorem m68k_interrupt_returns:
  assumes enter: "vf2_m68k_irq_autovector_enter level s = (Inr (), s1)"
    and ram: "plain_ram (m68k_bus s) d"
    and at: "rpc (m68k_regs s) AND 1 = 0" "unat (rpc (m68k_regs s)) < bus_rom_size (m68k_bus s)"
    and sr: "sr_high (m68k_regs s) AND 0x1f = 0"
    and rte: "rom_u16 (m68k_bus s2) (rpc (m68k_regs s2)) = Inr 0x4e73" "rpc (m68k_regs s2) \<noteq> stop"
    and kept: "ra (m68k_regs s2) 7 = ra (m68k_regs s1) 7" "usp (m68k_regs s2) = usp (m68k_regs s1)"
      "irq_active (m68k_regs s2)" "sr_high (m68k_regs s2) AND 0x2000 \<noteq> 0"
    and bus: "plain_ram (m68k_bus s2) d2" "bus_ram_size (m68k_bus s2) = bus_ram_size (m68k_bus s)"
      "bus_rom_size (m68k_bus s2) = bus_rom_size (m68k_bus s)"
    and frame: "\<And>k. k < 6 \<Longrightarrow> d2 (unat (ra (m68k_regs s1) 7) + k) = the (bus_ram (m68k_bus s1)) (unat (ra (m68k_regs s1) 7) + k)"
  shows "vf2_m68k_run_slice stop False 1 s2 = (VF2_OK, 1, rpc (m68k_regs s) \<noteq> stop,
    s2\<lparr>m68k_regs := (m68k_regs s2)\<lparr>rpc := rpc (m68k_regs s), fx := fx (m68k_regs s), fn := fn (m68k_regs s),
      fz := fz (m68k_regs s), fv := fv (m68k_regs s), fc := fc (m68k_regs s), sr_high := sr_high (m68k_regs s),
      ra := (ra (m68k_regs s2))(7 := ra (m68k_regs s) 7), ssp := ra (m68k_regs s1) 7 + 6, irq_active := False\<rparr>\<rparr>)"
proof -
  define stack where "stack = (if sr_high (m68k_regs s) AND 0x2000 \<noteq> 0 then ra (m68k_regs s) 7 else ssp (m68k_regs s))"
  obtain entry where s1: "s1 = frame_state level s stack entry d" and st: "stack AND 1 = 0" "6 \<le> stack"
    "unat stack \<le> bus_ram_size (m68k_bus s)"
    using enter_state [OF enter ram] unfolding stack_def by blast
  note a = frame_addresses [OF st(1,2)]
  define sp where "sp = stack - 6"
  have sp: "ra (m68k_regs s1) 7 = sp" "unat sp = unat stack - 6" "sp + 6 = stack" "sp AND 1 = 0"
    using a by (simp_all add: s1 frame_state_def Let_def sp_def)
  define d1 where "d1 = write_bytes d (unat (stack - 4)) (be_bytes 2 (rpc (m68k_regs s)))"
  have b1: "the (bus_ram (m68k_bus s1)) = write_bytes d1 (unat sp) (be_bytes 1 (ucast (sr_word (m68k_regs s))))"
    by (simp add: s1 frame_state_def Let_def d1_def sp_def)
  have "read_be d2 (unat sp) 1 = read_be (the (bus_ram (m68k_bus s1))) (unat sp) 1"
    using frame unfolding sp(1) by (intro read_be_cong) (simp_all add: access_width_def)
  also have "\<dots> = ucast (sr_word (m68k_regs s)) AND 0xffff" unfolding b1 by (rule read_be_word)
  also have "\<dots> = ucast (sr_word (m68k_regs s))" by (rule bit_word_eqI) (auto simp: low_half bit_simps dest: bit_imp_le_length)
  finally have r1: "read_be d2 (unat sp) 1 = ucast (sr_word (m68k_regs s))" .
  have pc_at: "unat (stack - 4) = unat sp + 2" using a sp(2) by simp
  have "read_be d2 (unat sp + 2) 2 = read_be d1 (unat sp + 2) 2"
  proof (rule read_be_cong)
    fix k assume "k < access_width 2"
    then have "d2 (unat sp + (2 + k)) = the (bus_ram (m68k_bus s1)) (unat sp + (2 + k))"
      using frame [of "2 + k"] unfolding sp(1) by (simp add: access_width_def)
    then show "d2 (unat sp + 2 + k) = d1 (unat sp + 2 + k)"
      unfolding b1 by (simp add: write_bytes_other length_be_bytes access_width_def add.assoc)
  qed simp
  also have "\<dots> = rpc (m68k_regs s)" unfolding d1_def pc_at by (rule read_be_long)
  finally have r2: "read_be d2 (unat sp + 2) 2 = rpc (m68k_regs s)" .
  have fits: "unat sp + 6 \<le> bus_ram_size (m68k_bus s2)" using st(3) a(3) sp(2) bus(2) by simp
  have restored: "(if sr_high (m68k_regs s) AND 0x2000 = 0 then usp (m68k_regs s2) else sp + 6) = ra (m68k_regs s) 7"
    unfolding kept(2) sp(3) by (simp add: s1 frame_state_def Let_def stack_def)
  have y: "(let y = load_sr (ucast (sr_word (m68k_regs s))) ((m68k_regs s2)\<lparr>ssp := sp + 6\<rparr>)
      in y\<lparr>ra := (ra y)(7 := if sr_high y AND 0x2000 = 0 then usp y else ssp y), irq_active := False, rpc := rpc (m68k_regs s)\<rparr>) =
    (m68k_regs s2)\<lparr>rpc := rpc (m68k_regs s), fx := fx (m68k_regs s), fn := fn (m68k_regs s),
      fz := fz (m68k_regs s), fv := fv (m68k_regs s), fc := fc (m68k_regs s), sr_high := sr_high (m68k_regs s),
      ra := (ra (m68k_regs s2))(7 := ra (m68k_regs s) 7), ssp := sp + 6, irq_active := False\<rparr>"
    using restored by (cases "m68k_regs s2") (simp add: sr_word_bits [OF sr] Let_def cong: if_cong)
  note step = step_rte [OF rte(1) bus(1) kept(3,4) trans [OF kept(1) sp(1)] sp(4) fits r1 r2 at(1),
      unfolded bus(3), OF at(2), unfolded y]
  have "(0 :: u32) < 1" by simp
  from run_slice_eq [OF this] show ?thesis using rte step sp(1) by simp
qed

text \<open>A machine at address 8 whose interrupt 1 leads to a return instruction at 32.\<close>

definition irq_machine :: m68k where
  "irq_machine = \<lparr>m68k_regs = \<lparr>rd = (\<lambda>_. 0), ra = (\<lambda>i. if i = 7 then 128 else 0), rpc = 8, fx = False, fn = True,
       fz = False, fv = False, fc = True, sr_high = 0x2000, usp = 0, ssp = 0, irq_active = False\<rparr>,
     m68k_bus = \<lparr>bus_ram = Some (\<lambda>_. 0), bus_ram_size = 256,
       bus_rom = (\<lambda>i. if i = 103 then 32 else if i = 32 then 0x4e else if i = 33 then 0x73 else 0), bus_rom_size = 256,
       bus_sample_rom = None, bus_sample_rom_size = 0, bus_scsp = None,
       bus_events = (\<lambda>_. \<lparr>event_address = 0, event_value = 0, event_size = 0, event_is_write = False\<rparr>),
       bus_event_count = 0\<rparr>\<rparr>"

lemma irq_machine_ram: "plain_ram (m68k_bus irq_machine) (\<lambda>_. 0)"
  by (simp add: plain_ram_def irq_machine_def)

lemma irq_machine_enters:
  "vf2_m68k_irq_autovector_enter 1 irq_machine = (Inr (), frame_state 1 irq_machine 128 32 (\<lambda>_. 0))"
proof -
  have w: "m68k_bus_write a sz v (irq_machine\<lparr>m68k_bus := (m68k_bus irq_machine)\<lparr>bus_ram := Some d\<rparr>\<rparr>) =
      (Inr (), irq_machine\<lparr>m68k_bus := (m68k_bus irq_machine)\<lparr>bus_ram := Some (write_bytes d (unat a) (be_bytes sz v))\<rparr>\<rparr>)"
    if "unat a + access_width sz \<le> 256" "sz \<le> 2" "a AND 1 = 0" for a sz v d
    using plain_write [of "irq_machine\<lparr>m68k_bus := (m68k_bus irq_machine)\<lparr>bus_ram := Some d\<rparr>\<rparr>" d a sz v] that
    by (simp add: plain_ram_def irq_machine_def)
  have i: "irq_machine\<lparr>m68k_bus := (m68k_bus irq_machine)\<lparr>bus_ram := Some (\<lambda>_. 0)\<rparr>\<rparr> = irq_machine"
    by (simp add: irq_machine_def)
  have e: "rom_u32 (m68k_bus irq_machine) 100 = Inr 32"
    by (simp add: rom_u32_def rom_u16_def read_be16_def irq_machine_def)
  have p: "m68k_bus_write 124 2 8 irq_machine = (Inr (), irq_machine\<lparr>m68k_bus := (m68k_bus irq_machine)
      \<lparr>bus_ram := Some (write_bytes (\<lambda>_. 0) 124 (be_bytes 2 8))\<rparr>\<rparr>)"
    using w [of 124 2 8 "\<lambda>_. 0"] unfolding i by (simp add: access_width_def)
  have q: "m68k_bus_write 122 1 v (irq_machine\<lparr>m68k_bus := (m68k_bus irq_machine)\<lparr>bus_ram := Some d\<rparr>\<rparr>) =
      (Inr (), irq_machine\<lparr>m68k_bus := (m68k_bus irq_machine)\<lparr>bus_ram := Some (write_bytes d 122 (be_bytes 1 v))\<rparr>\<rparr>)" for v d
    using w [of 122 1 v d] by (simp add: access_width_def)
  have r: "bus_ram (m68k_bus irq_machine) \<noteq> None" "\<not> irq_active (m68k_regs irq_machine)" "sr_high (m68k_regs irq_machine) = 0x2000"
    "ra (m68k_regs irq_machine) 7 = 128" "rpc (m68k_regs irq_machine) = 8" "bus_ram_size (m68k_bus irq_machine) = 256"
    "bus_rom_size (m68k_bus irq_machine) = 256"
    by (simp_all add: irq_machine_def)
  show ?thesis
    using r e p q
    by (simp add: vf2_m68k_irq_autovector_enter_def Let_def VF2_STEP_ROM_MIRROR_BASE_def pbind_def mod_regs_def
        frame_state_def)
qed

lemma m68k_interrupt_returns_witness:
  "rpc (m68k_regs (snd (snd (snd (vf2_m68k_run_slice 0xff False 1 (frame_state 1 irq_machine 128 32 (\<lambda>_. 0))))))) = 8"
proof -
  let ?s1 = "frame_state 1 irq_machine 128 32 (\<lambda>_. 0)"
  have r: "rpc (m68k_regs irq_machine) = 8" "bus_rom_size (m68k_bus irq_machine) = 256" "sr_high (m68k_regs irq_machine) = 0x2000"
    by (simp_all add: irq_machine_def)
  have f: "rom_u16 (m68k_bus ?s1) (rpc (m68k_regs ?s1)) = Inr 0x4e73" "rpc (m68k_regs ?s1) \<noteq> 0xff" "irq_active (m68k_regs ?s1)"
    "plain_ram (m68k_bus ?s1) (the (bus_ram (m68k_bus ?s1)))" "bus_ram_size (m68k_bus ?s1) = bus_ram_size (m68k_bus irq_machine)"
    "bus_rom_size (m68k_bus ?s1) = bus_rom_size (m68k_bus irq_machine)"
    by (simp_all add: frame_state_def Let_def rom_u16_def read_be16_def plain_ram_def irq_machine_def)
  have sr: "sr_high (m68k_regs ?s1) AND 0x2000 \<noteq> 0"
    by (simp add: frame_state_def Let_def sr_word_def irq_machine_def)
  show ?thesis
    using m68k_interrupt_returns [OF irq_machine_enters irq_machine_ram _ _ _ f(1,2) refl refl f(3) sr f(4-6) refl] r by simp
qed

end
