(* ===== verification/Vf2_Analysis.thy ===== *)
theory Vf2_Analysis
  imports Vf2_I960_Decoder_Laws Vf2_Task_Catalog
begin

text \<open>
  The data of the static analysis (\<open>include/vf2/analysis/\<close> \<open>cfg.h\<close>, \<open>xref.h\<close>, \<open>image_map.h\<close>, \<open>semantics.h\<close>,
  \<open>boundaries.h\<close>) and its growing arrays. An array with its count is a list, kept with its capacity.
  An \<open>int64_t\<close> is its 64-bit pattern. \<open>an_allocations\<close> counts the requests made of the host's
  allocator, whose answers are an argument; it is no field of the C structure.
\<close>

section \<open>Data\<close>

datatype vf2_image_class = IMAGE_UNKNOWN | IMAGE_CODE | IMAGE_DATA | IMAGE_STRING | IMAGE_POINTER_TABLE | IMAGE_PADDING

definition vf2_image_class_name :: "vf2_image_class \<Rightarrow> string" where
  "vf2_image_class_name classification = (case classification of
     IMAGE_CODE \<Rightarrow> ''code'' | IMAGE_DATA \<Rightarrow> ''data'' | IMAGE_STRING \<Rightarrow> ''string''
   | IMAGE_POINTER_TABLE \<Rightarrow> ''pointer-table'' | IMAGE_PADDING \<Rightarrow> ''padding'' | IMAGE_UNKNOWN \<Rightarrow> ''unknown'')"

datatype vf2_xref_type = XREF_CALL | XREF_BRANCH | XREF_READ | XREF_WRITE | XREF_ADDRESS | XREF_STRING

definition vf2_xref_type_name :: "vf2_xref_type \<Rightarrow> string" where
  "vf2_xref_type_name type = (case type of
     XREF_CALL \<Rightarrow> ''call'' | XREF_BRANCH \<Rightarrow> ''branch'' | XREF_READ \<Rightarrow> ''read'' | XREF_WRITE \<Rightarrow> ''write''
   | XREF_ADDRESS \<Rightarrow> ''address'' | XREF_STRING \<Rightarrow> ''string'')"

record vf2_xref =
  x_source :: u32
  x_target :: u32
  x_type :: vf2_xref_type

datatype vf2_value_kind = VALUE_UNKNOWN | VALUE_CONSTANT | VALUE_STACK_RELATIVE | VALUE_ARGUMENT | VALUE_TABLE_LOOKUP

definition vf2_value_kind_name :: "vf2_value_kind \<Rightarrow> string" where
  "vf2_value_kind_name kind = (case kind of
     VALUE_CONSTANT \<Rightarrow> ''constant'' | VALUE_STACK_RELATIVE \<Rightarrow> ''stack-relative'' | VALUE_ARGUMENT \<Rightarrow> ''argument''
   | VALUE_TABLE_LOOKUP \<Rightarrow> ''table-lookup'' | VALUE_UNKNOWN \<Rightarrow> ''unknown'')"

record vf2_abstract_value =
  v_kind :: vf2_value_kind
  v_value :: u64
  v_table_base :: u32
  v_table_scale :: u8
  v_argument_register :: u8

record vf2_constant_fact =
  cf_address :: u32
  cf_reg :: u8
  cf_value :: vf2_abstract_value

datatype vf2_indirect_target_kind = INDIRECT_BRANCH | INDIRECT_CALL | INDIRECT_JUMP_TABLE

definition vf2_indirect_target_kind_name :: "vf2_indirect_target_kind \<Rightarrow> string" where
  "vf2_indirect_target_kind_name kind = (case kind of
     INDIRECT_CALL \<Rightarrow> ''call'' | INDIRECT_JUMP_TABLE \<Rightarrow> ''jump-table'' | INDIRECT_BRANCH \<Rightarrow> ''branch'')"

record vf2_indirect_target =
  it_source :: u32
  it_target :: u32
  it_table_base :: u32
  it_kind :: vf2_indirect_target_kind
  it_confidence :: u8

datatype vf2_split_reason = SPLIT_OVERLAPPING_ENTRY | SPLIT_TAIL_BRANCH

definition vf2_split_reason_name :: "vf2_split_reason \<Rightarrow> string" where
  "vf2_split_reason_name reason = (case reason of
     SPLIT_TAIL_BRANCH \<Rightarrow> ''tail-branch'' | SPLIT_OVERLAPPING_ENTRY \<Rightarrow> ''overlapping-entry'')"

record vf2_function_split =
  fs_source_function :: u32
  fs_target_function :: u32
  fs_instruction_address :: u32
  fs_reason :: vf2_split_reason

definition VF2_MAX_BLOCK_SUCCESSORS :: nat where "VF2_MAX_BLOCK_SUCCESSORS = 16"

record vf2_basic_block =
  bb_start :: u32
  bb_end :: u32
  bb_function :: u32
  bb_successors :: "u32 list"
  bb_terminal :: bool
  bb_indirect :: bool

record vf2_function =
  fn_address :: u32
  fn_name :: string
  fn_end :: u32
  fn_first_block :: nat
  fn_block_count :: nat
  fn_indirect :: bool
  fn_confirmed :: bool
  fn_leaf :: bool
  fn_frame_pointer :: bool
  fn_return_value :: bool
  fn_frame_size :: u32
  fn_arguments :: u16
  fn_returns :: u16
  fn_resolved :: nat
  fn_unresolved :: nat
  fn_tail_calls :: nat
  fn_splits :: nat
  fn_user_named :: bool

record vf2_i960_analysis =
  an_image :: memory
  an_size :: nat
  an_map :: "nat \<Rightarrow> vf2_image_class"
  an_blocks :: "vf2_basic_block list"
  an_block_capacity :: nat
  an_functions :: "vf2_function list"
  an_function_capacity :: nat
  an_xrefs :: "vf2_xref list"
  an_xref_capacity :: nat
  an_decoded :: nat
  an_invalid :: nat
  an_facts :: "vf2_constant_fact list"
  an_fact_capacity :: nat
  an_targets :: "vf2_indirect_target list"
  an_target_capacity :: nat
  an_resolved :: nat
  an_unresolved :: nat
  an_splits :: "vf2_function_split list"
  an_split_capacity :: nat
  an_allocations :: nat

section \<open>Growing arrays\<close>

text \<open>A statement under a condition on the state.\<close>

definition pwhen :: "('s \<Rightarrow> bool) \<Rightarrow> ('s, unit) prog \<Rightarrow> ('s, unit) prog" where
  "pwhen c p s = (if c s then p s else (Inr (), s))"

lemma preserves_pwhen [preserves_intros]: "preserves P p \<Longrightarrow> preserves P (pwhen c p)"
  by (simp add: preserves_def pwhen_def)

text \<open>The host: its SIZE\_MAX, and whether its \<open>k\<close>-th allocation succeeds.\<close>

record host =
  size_max :: nat
  grants :: "nat \<Rightarrow> bool"

text \<open>\<open>reserve_array\<close>: the capacity afterwards, and the number of requests made so far.\<close>

definition reserve_array :: "host \<Rightarrow> nat \<Rightarrow> nat \<Rightarrow> nat \<Rightarrow> nat \<Rightarrow> (vf2_status + nat) \<times> nat" where
  "reserve_array h first required capacity n =
     (if required \<le> capacity then (Inr capacity, n)
      else case grown_capacity (size_max h) required (if capacity = 0 then first else capacity) of
        None \<Rightarrow> (Inl VF2_ERROR_OUT_OF_MEMORY, n)
      | Some c \<Rightarrow> (if grants h n then Inr c else Inl VF2_ERROR_OUT_OF_MEMORY, n + 1))"

text \<open>Appending to an array of the analysis: \<open>get\<close> and \<open>put\<close> its capacity, \<open>app\<close> the element.\<close>

definition append_array ::
    "host \<Rightarrow> nat \<Rightarrow> nat \<Rightarrow> nat \<Rightarrow> (nat \<Rightarrow> vf2_i960_analysis \<Rightarrow> vf2_i960_analysis) \<Rightarrow> (vf2_i960_analysis, unit) prog" where
  "append_array h first count capacity app a =
     (case reserve_array h first (count + 1) capacity (an_allocations a) of
        (Inl e, n) \<Rightarrow> (Inl e, a\<lparr>an_allocations := n\<rparr>)
      | (Inr c, n) \<Rightarrow> (Inr (), app c (a\<lparr>an_allocations := n\<rparr>)))"

definition add_xref :: "host \<Rightarrow> u32 \<Rightarrow> u32 \<Rightarrow> vf2_xref_type \<Rightarrow> (vf2_i960_analysis, unit) prog" where
  "add_xref h source targ type a =
     (let x = \<lparr>x_source = source, x_target = targ, x_type = type\<rparr>
      in if x \<in> set (an_xrefs a) then (Inr (), a)
         else append_array h 32 (length (an_xrefs a)) (an_xref_capacity a)
                (\<lambda>c a. a\<lparr>an_xref_capacity := c, an_xrefs := an_xrefs a @ [x]\<rparr>) a)"

definition vf2_i960_analysis_record_xref :: "host \<Rightarrow> u32 \<Rightarrow> u32 \<Rightarrow> vf2_xref_type \<Rightarrow> (vf2_i960_analysis, unit) prog" where
  "vf2_i960_analysis_record_xref = add_xref"

definition add_block :: "host \<Rightarrow> vf2_basic_block \<Rightarrow> (vf2_i960_analysis, unit) prog" where
  "add_block h block a =
     append_array h 32 (length (an_blocks a)) (an_block_capacity a)
       (\<lambda>c a. a\<lparr>an_block_capacity := c, an_blocks := an_blocks a @ [block]\<rparr>) a"

text \<open>The new function is the last one.\<close>

definition new_function :: "u32 \<Rightarrow> nat \<Rightarrow> vf2_function" where
  "new_function address first_block =
     \<lparr>fn_address = address, fn_name = ''sub_'' @ hex8 address, fn_end = address, fn_first_block = first_block,
      fn_block_count = 0, fn_indirect = False, fn_confirmed = True, fn_leaf = False, fn_frame_pointer = False,
      fn_return_value = False, fn_frame_size = 0, fn_arguments = 0, fn_returns = 0, fn_resolved = 0,
      fn_unresolved = 0, fn_tail_calls = 0, fn_splits = 0, fn_user_named = False\<rparr>"

definition add_function :: "host \<Rightarrow> u32 \<Rightarrow> (vf2_i960_analysis, unit) prog" where
  "add_function h address a =
     append_array h 32 (length (an_functions a)) (an_function_capacity a)
       (\<lambda>c a. a\<lparr>an_function_capacity := c,
               an_functions := an_functions a @ [new_function address (length (an_blocks a))]\<rparr>) a"

definition has_function :: "vf2_i960_analysis \<Rightarrow> u32 \<Rightarrow> bool" where
  "has_function a address \<longleftrightarrow> (\<exists>f \<in> set (an_functions a). fn_address f = address)"

definition vf2_i960_find_function :: "vf2_i960_analysis \<Rightarrow> u32 \<Rightarrow> vf2_function option" where
  "vf2_i960_find_function a address = find (\<lambda>f. fn_address f = address) (an_functions a)"

definition vf2_i960_function_name :: "vf2_i960_analysis \<Rightarrow> u32 \<Rightarrow> string option" where
  "vf2_i960_function_name a address = map_option fn_name (vf2_i960_find_function a address)"

text \<open>An update of the function at an index, through the pointer the code holds.\<close>

definition update_function :: "nat \<Rightarrow> (vf2_function \<Rightarrow> vf2_function) \<Rightarrow> vf2_i960_analysis \<Rightarrow> vf2_i960_analysis" where
  "update_function k f a = a\<lparr>an_functions := (an_functions a)[k := f (an_functions a ! k)]\<rparr>"

lemma update_function_keeps [simp]:
  "an_image (update_function k f a) = an_image a" "an_size (update_function k f a) = an_size a"
  "an_map (update_function k f a) = an_map a" "an_blocks (update_function k f a) = an_blocks a"
  "an_xrefs (update_function k f a) = an_xrefs a" "an_allocations (update_function k f a) = an_allocations a"
  "length (an_functions (update_function k f a)) = length (an_functions a)"
  by (simp_all add: update_function_def)

lemma update_function_addresses:
  assumes "\<And>x. fn_address (f x) = fn_address x"
  shows "map fn_address (an_functions (update_function k f a)) = map fn_address (an_functions a)"
  using assms
  by (cases "k < length (an_functions a)") (simp_all add: update_function_def map_update list_update_same_conv list_update_beyond)

section \<open>Lifecycle\<close>

definition vf2_i960_analysis_init :: "host \<Rightarrow> memory \<Rightarrow> nat \<Rightarrow> (vf2_i960_analysis, unit) prog" where
  "vf2_i960_analysis_init h img image_size a =
     (if image_size = 0 then (Inl VF2_ERROR_INVALID_ARGUMENT, a)
      else
        let n = an_allocations a;
            zero = \<lparr>an_image = (\<lambda>_. 0), an_size = 0, an_map = (\<lambda>_. IMAGE_UNKNOWN), an_blocks = [], an_block_capacity = 0,
              an_functions = [], an_function_capacity = 0, an_xrefs = [], an_xref_capacity = 0, an_decoded = 0,
              an_invalid = 0, an_facts = [], an_fact_capacity = 0, an_targets = [], an_target_capacity = 0,
              an_resolved = 0, an_unresolved = 0, an_splits = [], an_split_capacity = 0, an_allocations = n + 1\<rparr>
        in if \<not> grants h n then (Inl VF2_ERROR_OUT_OF_MEMORY, zero)
           else (Inr (), zero\<lparr>an_image := img, an_size := image_size\<rparr>))"

section \<open>Instructions of the image\<close>

text \<open>\<open>vf2_i960_decode\<close> into a local instruction.\<close>

definition decoded_at :: "memory \<Rightarrow> nat \<Rightarrow> u32 \<Rightarrow> vf2_i960_instruction option" where
  "decoded_at img image_size address =
     (case vf2_i960_decode (Some img) image_size address (init_instruction 0 0) of
        (Inl _, _) \<Rightarrow> None | (Inr _, i) \<Rightarrow> Some i)"

abbreviation instruction_at :: "vf2_i960_analysis \<Rightarrow> u32 \<Rightarrow> vf2_i960_instruction option" where
  "instruction_at a \<equiv> decoded_at (an_image a) (an_size a)"

lemma decoded_ok:
  assumes "decoded_at img n address = Some i"
  shows "instruction_ok n i" and "i_size i = 4 \<or> i_size i = 8"
  using assms vf2_i960_decode_ok [of "Some img" n address "init_instruction 0 0" i]
  by (auto simp: decoded_at_def instruction_ok_def split: prod.splits sum.splits)

section \<open>What appending keeps\<close>

lemma add_xref_keeps:
  assumes "add_xref h s t ty a = (r, a')"
  shows "a' = a\<lparr>an_allocations := an_allocations a', an_xref_capacity := an_xref_capacity a', an_xrefs := an_xrefs a'\<rparr>"
    and "r = Inr () \<longrightarrow> set (an_xrefs a') = insert \<lparr>x_source = s, x_target = t, x_type = ty\<rparr> (set (an_xrefs a))"
    and "\<exists>xs. an_xrefs a' = an_xrefs a @ xs"
  using assms
  by (auto simp: add_xref_def append_array_def Let_def split: if_splits prod.splits sum.splits)

lemma add_function_keeps:
  assumes "add_function h address a = (r, a')"
  shows "an_size a' = an_size a" "an_image a' = an_image a" "an_blocks a' = an_blocks a" "an_xrefs a' = an_xrefs a"
    and "an_map a' = an_map a"
    and "r = Inr () \<Longrightarrow> an_functions a' = an_functions a @ [new_function address (length (an_blocks a))]"
    and "r \<noteq> Inr () \<Longrightarrow> an_functions a' = an_functions a"
  using assms by (auto simp: add_function_def append_array_def split: prod.splits sum.splits)

lemma add_block_keeps:
  assumes "add_block h block a = (r, a')"
  shows "a' = a\<lparr>an_allocations := an_allocations a', an_block_capacity := an_block_capacity a', an_blocks := an_blocks a'\<rparr>"
    and "r = Inr () \<Longrightarrow> an_blocks a' = an_blocks a @ [block]"
  using assms by (auto simp: add_block_def append_array_def split: prod.splits sum.splits)

end
