(* ===== verification/Vf2_Cfg.thy ===== *)
theory Vf2_Cfg
  imports Vf2_Analysis
begin

text \<open>
  Control-flow recovery (\<open>src/analysis/cfg.c\<close>): the instructions of a function reached by direct flow,
  its basic blocks, the functions reached by direct calls, and the classification of strings and
  padding. The images are those below 4 GiB: a walk over a block ends where its address would wrap.
\<close>

section \<open>Queues\<close>

record address_queue =
  q_items :: "u32 list"
  q_capacity :: nat
  q_cursor :: nat

definition empty_queue :: address_queue where
  "empty_queue = \<lparr>q_items = [], q_capacity = 0, q_cursor = 0\<rparr>"

definition queue_pending :: "address_queue \<Rightarrow> nat" where
  "queue_pending q = length (q_items q) - q_cursor q"

definition queue_push_unique :: "host \<Rightarrow> u32 \<Rightarrow> address_queue \<Rightarrow> nat \<Rightarrow> (vf2_status + address_queue) \<times> nat" where
  "queue_push_unique h address q n =
     (if address \<in> set (q_items q) then (Inr q, n)
      else case reserve_array h 32 (length (q_items q) + 1) (q_capacity q) n of
        (Inl e, n') \<Rightarrow> (Inl e, n')
      | (Inr c, n') \<Rightarrow> (Inr (q\<lparr>q_capacity := c, q_items := q_items q @ [address]\<rparr>), n'))"

text \<open>What the analysis of a function works on: the analysis, the queue of functions, the queue of
  paths, and the two byte arrays with a word for each word of the image.\<close>

record discovery =
  ds_analysis :: vf2_i960_analysis
  ds_functions :: address_queue
  ds_path :: address_queue
  ds_reachable :: "nat list"
  ds_leaders :: "bool list"

definition on_analysis :: "(vf2_i960_analysis, 'a) prog \<Rightarrow> (discovery, 'a) prog" where
  "on_analysis p s = (case p (ds_analysis s) of (r, a) \<Rightarrow> (r, s\<lparr>ds_analysis := a\<rparr>))"

definition push_function :: "host \<Rightarrow> u32 \<Rightarrow> (discovery, unit) prog" where
  "push_function h address s =
     (case queue_push_unique h address (ds_functions s) (an_allocations (ds_analysis s)) of
        (Inl e, n) \<Rightarrow> (Inl e, s\<lparr>ds_analysis := (ds_analysis s)\<lparr>an_allocations := n\<rparr>\<rparr>)
      | (Inr q, n) \<Rightarrow> (Inr (), s\<lparr>ds_functions := q, ds_analysis := (ds_analysis s)\<lparr>an_allocations := n\<rparr>\<rparr>))"

definition push_path :: "host \<Rightarrow> u32 \<Rightarrow> (discovery, unit) prog" where
  "push_path h address s =
     (case queue_push_unique h address (ds_path s) (an_allocations (ds_analysis s)) of
        (Inl e, n) \<Rightarrow> (Inl e, s\<lparr>ds_analysis := (ds_analysis s)\<lparr>an_allocations := n\<rparr>\<rparr>)
      | (Inr q, n) \<Rightarrow> (Inr (), s\<lparr>ds_path := q, ds_analysis := (ds_analysis s)\<lparr>an_allocations := n\<rparr>\<rparr>))"

section \<open>Marking an instruction\<close>

definition is_valid_code_address :: "vf2_i960_analysis \<Rightarrow> u32 \<Rightarrow> bool" where
  "is_valid_code_address a address \<longleftrightarrow> address AND 3 = 0 \<and> unat address + 4 \<le> an_size a"

definition word_of :: "u32 \<Rightarrow> nat" where "word_of address = unat address div 4"

definition mark_code :: "u32 \<Rightarrow> u8 \<Rightarrow> vf2_i960_analysis \<Rightarrow> vf2_i960_analysis" where
  "mark_code address sz a = a\<lparr>
     an_map := (\<lambda>k. if unat address \<le> k \<and> k < unat address + unat sz \<and> k < an_size a then IMAGE_CODE else an_map a k),
     an_decoded := (if an_map a (unat address) \<noteq> IMAGE_CODE then an_decoded a + 1 else an_decoded a)\<rparr>"

definition memory_target :: "vf2_i960_operand \<Rightarrow> u32 option" where
  "memory_target operand =
     (case opvalue operand of
        OPERAND_MEMORY m \<Rightarrow> if absolute m \<or> ip_relative m then Some (resolved_address m) else None
      | _ \<Rightarrow> None)"

definition record_target :: "host \<Rightarrow> vf2_i960_instruction \<Rightarrow> (discovery, unit) prog" where
  "record_target h i =
     (if has_target i then
        pbind (on_analysis (add_xref h (i_address i) (target i)
                 (if flow i = FLOW_CALL then XREF_CALL else XREF_BRANCH)))
          (\<lambda>_. pwhen (\<lambda>s. flow i = FLOW_CALL \<and> is_valid_code_address (ds_analysis s) (target i))
                 (push_function h (target i)))
      else pret ())"

definition record_operand :: "host \<Rightarrow> vf2_i960_instruction \<Rightarrow> nat \<Rightarrow> (discovery, unit) prog" where
  "record_operand h i k =
     (case memory_target (operands i k) of
        None \<Rightarrow> pret ()
      | Some t \<Rightarrow>
          if flow i \<noteq> FLOW_NONE then pret ()
          else on_analysis (add_xref h (i_address i) t
                 (if mnemonic i = ''lda'' then XREF_ADDRESS
                  else if is_destination (operands i k) then XREF_WRITE else XREF_READ)))"

definition record_instruction_xrefs :: "host \<Rightarrow> vf2_i960_instruction \<Rightarrow> (discovery, unit) prog" where
  "record_instruction_xrefs h i =
     pbind (record_target h i) (\<lambda>_. pfor [0..<unat (operand_count i)] (record_operand h i))"

text \<open>1 marks an instruction, 2 the second word of one, 3 a word that does not decode.\<close>

definition mark_instruction :: "u32 \<Rightarrow> vf2_i960_instruction \<Rightarrow> discovery \<Rightarrow> discovery" where
  "mark_instruction address i s =
     (let w = word_of address; r = (ds_reachable s)[w := 1]
      in s\<lparr>ds_reachable := (if i_size i = 8 \<and> w + 1 < length r then r[w + 1 := 2] else r),
           ds_analysis := mark_code address (i_size i) (ds_analysis s)\<rparr>)"

definition mark_invalid :: "u32 \<Rightarrow> discovery \<Rightarrow> discovery" where
  "mark_invalid address s =
     s\<lparr>ds_reachable := (ds_reachable s)[word_of address := 3],
       ds_analysis := (ds_analysis s)\<lparr>an_invalid := an_invalid (ds_analysis s) + 1\<rparr>\<rparr>"

definition add_leader :: "host \<Rightarrow> u32 \<Rightarrow> (discovery, unit) prog" where
  "add_leader h address s = push_path h address (s\<lparr>ds_leaders := (ds_leaders s)[word_of address := True]\<rparr>)"

definition mark_indirect :: "nat \<Rightarrow> discovery \<Rightarrow> discovery" where
  "mark_indirect k s = s\<lparr>ds_analysis := update_function k (\<lambda>f. f\<lparr>fn_indirect := True\<rparr>) (ds_analysis s)\<rparr>"

definition next_address :: "u32 \<Rightarrow> vf2_i960_instruction \<Rightarrow> u32" where
  "next_address address i = address + ucast (i_size i)"

text \<open>The indirect mark is set whether or not the fallthrough could be queued.\<close>

definition follow_branch :: "host \<Rightarrow> nat \<Rightarrow> u32 \<Rightarrow> vf2_i960_instruction \<Rightarrow> (discovery, unit) prog" where
  "follow_branch h k address i =
     pbind (pwhen (\<lambda>s. has_target i \<and> is_valid_code_address (ds_analysis s) (target i)) (add_leader h (target i)))
       (\<lambda>_ s. case pwhen (\<lambda>s. has_fallthrough i \<and> is_valid_code_address (ds_analysis s) (next_address address i))
                   (add_leader h (next_address address i)) s of
          (r, s') \<Rightarrow> (r, if indirect i then mark_indirect k s' else s'))"

definition ends_path :: "vf2_i960_instruction \<Rightarrow> bool" where
  "ends_path i \<longleftrightarrow> flow i = FLOW_RETURN \<or> flow i = FLOW_FAULT \<or> \<not> has_fallthrough i"

section \<open>What marking keeps\<close>

lemma on_analysis_keeps [simp]:
  "ds_reachable (snd (on_analysis p s)) = ds_reachable s" "ds_path (snd (on_analysis p s)) = ds_path s"
  "ds_functions (snd (on_analysis p s)) = ds_functions s" "ds_leaders (snd (on_analysis p s)) = ds_leaders s"
  "ds_analysis (snd (on_analysis p s)) = snd (p (ds_analysis s))" "fst (on_analysis p s) = fst (p (ds_analysis s))"
  by (simp_all add: on_analysis_def split: prod.split)

lemma push_function_keeps [simp]:
  "ds_reachable (snd (push_function h t s)) = ds_reachable s" "ds_path (snd (push_function h t s)) = ds_path s"
  "ds_leaders (snd (push_function h t s)) = ds_leaders s"
  by (simp_all add: push_function_def split: prod.split sum.split)

text \<open>Recording cross-references touches neither the paths nor the marks.\<close>

definition same_paths :: "discovery \<Rightarrow> discovery \<Rightarrow> bool" where
  "same_paths s s' \<longleftrightarrow> ds_reachable s' = ds_reachable s \<and> ds_path s' = ds_path s \<and> ds_leaders s' = ds_leaders s"

lemma same_paths_xrefs: "preserves (same_paths s) (record_instruction_xrefs h i)"
proof -
  have on: "preserves (same_paths s) (on_analysis p)" for p :: "(vf2_i960_analysis, unit) prog"
    by (simp add: preserves_def same_paths_def)
  have push: "preserves (same_paths s) (push_function h t)" for t
    by (simp add: preserves_def same_paths_def)
  show ?thesis
    unfolding record_instruction_xrefs_def record_target_def record_operand_def
    by (intro preserves_pbind preserves_pfor preserves_case_option preserves_if preserves_pret preserves_pwhen on push)
qed

lemma record_xrefs_paths:
  assumes "record_instruction_xrefs h i s = (r, s')"
  shows "ds_reachable s' = ds_reachable s" "ds_path s' = ds_path s" "ds_leaders s' = ds_leaders s"
  using preservesD_eq [OF same_paths_xrefs assms, of s] by (simp_all add: same_paths_def)

definition zeros :: "nat list \<Rightarrow> nat" where "zeros r = length (filter (\<lambda>v. v = 0) r)"

lemma zeros_update:
  assumes "v \<noteq> 0"
  shows "zeros (r[k := v]) \<le> zeros r" and "\<lbrakk>k < length r; r ! k = 0\<rbrakk> \<Longrightarrow> zeros (r[k := v]) + 1 = zeros r"
proof -
  have a: "zeros (r[k := v]) + (if k < length r \<and> r ! k = 0 then 1 else 0) = zeros r"
  proof (induction r arbitrary: k)
    case Nil
    show ?case by (simp add: zeros_def)
  next
    case (Cons x r)
    show ?case
    proof (cases k)
      case 0
      then show ?thesis using assms by (simp add: zeros_def)
    next
      case (Suc j)
      then show ?thesis using Cons.IH [of j] by (simp add: zeros_def)
    qed
  qed
  from a show "zeros (r[k := v]) \<le> zeros r" by simp
  from a show "\<lbrakk>k < length r; r ! k = 0\<rbrakk> \<Longrightarrow> zeros (r[k := v]) + 1 = zeros r" by simp
qed

lemma zeros_mark:
  assumes "word_of address < length (ds_reachable s)" and "ds_reachable s ! word_of address = 0"
  shows "zeros (ds_reachable (mark_instruction address i s)) < zeros (ds_reachable s)"
  using zeros_update(2) [of 1 "word_of address" "ds_reachable s"] assms
    zeros_update(1) [of 2 "(ds_reachable s)[word_of address := 1]" "word_of address + 1"]
  by (auto simp: mark_instruction_def Let_def)

section \<open>Instructions reached\<close>

text \<open>The inner loop of \<open>discover_reachable_instructions\<close>: from an address to the end of its path.\<close>

function follow :: "host \<Rightarrow> nat \<Rightarrow> u32 \<Rightarrow> (discovery, unit) prog" where
  "follow h k address s =
     (if \<not> is_valid_code_address (ds_analysis s) address then (Inr (), s)
      else if word_of address \<ge> length (ds_reachable s) \<or> ds_reachable s ! word_of address \<noteq> 0 then (Inr (), s)
      else case instruction_at (ds_analysis s) address of
        None \<Rightarrow> (Inr (), mark_invalid address s)
      | Some i \<Rightarrow>
          (case record_instruction_xrefs h i (mark_instruction address i s) of
             (Inl e, s') \<Rightarrow> (Inl e, s')
           | (Inr _, s') \<Rightarrow>
               if flow i = FLOW_BRANCH then follow_branch h k address i s'
               else if ends_path i then (Inr (), s')
               else follow h k (next_address address i)
                      (if flow i = FLOW_CALL \<and> indirect i then mark_indirect k s' else s')))"
  by pat_completeness auto

termination
proof (relation "measure (\<lambda>(h, k, address, s). zeros (ds_reachable s))")
  fix h k address s i r s' and u :: unit
  assume a: "\<not> (length (ds_reachable s) \<le> word_of address \<or> ds_reachable s ! word_of address \<noteq> 0)"
    and "(r, s') = record_instruction_xrefs h i (mark_instruction address i s)"
  then have "ds_reachable s' = ds_reachable (mark_instruction address i s)"
    by (metis record_xrefs_paths(1))
  then show "((h, k, next_address address i, if flow i = FLOW_CALL \<and> indirect i then mark_indirect k s' else s'),
      h, k, address, s) \<in> measure (\<lambda>(h, k, address, s). zeros (ds_reachable s))"
    using zeros_mark [of address s i] a by (simp add: mark_indirect_def)
qed simp

declare follow.simps [simp del]

text \<open>The outer loop terminates: a path queues at most two others, and only by marking a word.\<close>

definition path_work :: "discovery \<Rightarrow> nat" where
  "path_work s = 2 * zeros (ds_reachable s) + queue_pending (ds_path s)"

lemma push_path_work:
  "queue_pending (ds_path (snd (push_path h t s))) \<le> queue_pending (ds_path s) + 1"
  "ds_reachable (snd (push_path h t s)) = ds_reachable s"
  by (auto simp: push_path_def queue_push_unique_def queue_pending_def split: prod.splits sum.splits if_splits)

lemma add_leader_work:
  "queue_pending (ds_path (snd (add_leader h t s))) \<le> queue_pending (ds_path s) + 1"
  "ds_reachable (snd (add_leader h t s)) = ds_reachable s"
  using push_path_work [of h t "s\<lparr>ds_leaders := (ds_leaders s)[word_of t := True]\<rparr>"] by (simp_all add: add_leader_def)

lemma follow_branch_work:
  assumes "follow_branch h k address i s = (r, s')"
  shows "path_work s' \<le> path_work s + 2" and "ds_reachable s' = ds_reachable s"
proof -
  let ?p = "pwhen (\<lambda>s. has_target i \<and> is_valid_code_address (ds_analysis s) (target i)) (add_leader h (target i))"
  let ?q = "pwhen (\<lambda>s. has_fallthrough i \<and> is_valid_code_address (ds_analysis s) (next_address address i))
      (add_leader h (next_address address i))"
  have w: "queue_pending (ds_path (snd (pwhen c (add_leader h t) x))) \<le> queue_pending (ds_path x) + 1"
    "ds_reachable (snd (pwhen c (add_leader h t) x)) = ds_reachable x" for c t x
    using add_leader_work [of h t x] by (simp_all add: pwhen_def)
  have i: "queue_pending (ds_path (mark_indirect k x)) = queue_pending (ds_path x)"
    "ds_reachable (mark_indirect k x) = ds_reachable x" for x by (simp_all add: mark_indirect_def)
  obtain r1 s1 r2 s2 where p: "?p s = (r1, s1)" and q: "?q s1 = (r2, s2)" by (meson surj_pair)
  have "s' = s1 \<or> s' = s2 \<or> s' = mark_indirect k s2"
    using assms p q by (cases r1) (auto simp: follow_branch_def split: if_splits)
  moreover have "queue_pending (ds_path s1) \<le> queue_pending (ds_path s) + 1" "ds_reachable s1 = ds_reachable s"
    "queue_pending (ds_path s2) \<le> queue_pending (ds_path s1) + 1" "ds_reachable s2 = ds_reachable s1"
    using w [of _ "target i" s] w [of _ "next_address address i" s1] p q by (metis snd_conv)+
  ultimately show "path_work s' \<le> path_work s + 2" "ds_reachable s' = ds_reachable s"
    using i by (auto simp: path_work_def)
qed

lemma follow_work:
  "follow h k address s = (r, s') \<Longrightarrow> path_work s' \<le> path_work s"
proof (induction h k address s rule: follow.induct)
  case (1 h k address s)
  note unfolded = "1.prems" [unfolded follow.simps [of h k address s]]
  show ?case
  proof (cases "is_valid_code_address (ds_analysis s) address \<and> word_of address < length (ds_reachable s) \<and>
      ds_reachable s ! word_of address = 0")
    case False
    then show ?thesis using unfolded by (auto split: if_splits)
  next
    case True
    show ?thesis
    proof (cases "instruction_at (ds_analysis s) address")
      case None
      then have "s' = mark_invalid address s" using unfolded True by (simp split: if_splits)
      then show ?thesis using zeros_update(1) [of 3] by (simp add: path_work_def mark_invalid_def)
    next
      case (Some i)
      obtain r1 s1 where rec: "record_instruction_xrefs h i (mark_instruction address i s) = (r1, s1)"
        by (cases "record_instruction_xrefs h i (mark_instruction address i s)")
      have "ds_path (mark_instruction address i s) = ds_path s" by (simp add: mark_instruction_def Let_def)
      then have w: "path_work s1 + 2 \<le> path_work s"
        using zeros_mark [of address s i] True record_xrefs_paths [OF rec] by (simp add: path_work_def)
      show ?thesis
      proof (cases r1)
        case (Inl e)
        then show ?thesis using unfolded True Some rec w by simp
      next
        case (Inr u)
        have i: "path_work (mark_indirect k x) = path_work x" for x by (simp add: mark_indirect_def path_work_def)
        show ?thesis
          using unfolded True Some rec w Inr follow_branch_work(1) [of h k address i s1 r s'] i
            "1.IH" [OF _ _ Some rec [symmetric] Inr] by (auto split: if_splits)
      qed
    qed
  qed
qed

function path_loop :: "host \<Rightarrow> nat \<Rightarrow> (discovery, unit) prog" where
  "path_loop h k s =
     (if q_cursor (ds_path s) \<ge> length (q_items (ds_path s)) then (Inr (), s)
      else case follow h k (q_items (ds_path s) ! q_cursor (ds_path s))
                  (s\<lparr>ds_path := (ds_path s)\<lparr>q_cursor := q_cursor (ds_path s) + 1\<rparr>\<rparr>) of
        (Inl e, s') \<Rightarrow> (Inl e, s')
      | (Inr _, s') \<Rightarrow> path_loop h k s')"
  by pat_completeness auto

termination
proof (relation "measure (\<lambda>(h, k, s). path_work s)")
  fix h k s r s' and u :: unit
  assume "\<not> length (q_items (ds_path s)) \<le> q_cursor (ds_path s)"
    and "(r, s') = follow h k (q_items (ds_path s) ! q_cursor (ds_path s))
      (s\<lparr>ds_path := (ds_path s)\<lparr>q_cursor := q_cursor (ds_path s) + 1\<rparr>\<rparr>)"
  then show "((h, k, s'), h, k, s) \<in> measure (\<lambda>(h, k, s). path_work s)"
    using follow_work [of h k "q_items (ds_path s) ! q_cursor (ds_path s)"
        "s\<lparr>ds_path := (ds_path s)\<lparr>q_cursor := q_cursor (ds_path s) + 1\<rparr>\<rparr>" r s']
    by (simp add: path_work_def queue_pending_def)
qed simp

declare path_loop.simps [simp del]

definition discover_reachable_instructions :: "host \<Rightarrow> nat \<Rightarrow> (discovery, unit) prog" where
  "discover_reachable_instructions h k s =
     (let address = fn_address (an_functions (ds_analysis s) ! k)
      in pbind (add_leader h address) (\<lambda>_. path_loop h k) (s\<lparr>ds_path := empty_queue\<rparr>))"

section \<open>Basic blocks\<close>

definition address_is_leader :: "bool list \<Rightarrow> u32 \<Rightarrow> bool" where
  "address_is_leader leaders address \<longleftrightarrow> word_of address < length leaders \<and> leaders ! word_of address"

definition address_is_reachable :: "nat list \<Rightarrow> u32 \<Rightarrow> bool" where
  "address_is_reachable reachable address \<longleftrightarrow>
     word_of address < length reachable \<and> reachable ! word_of address = 1"

definition branch_block :: "nat list \<Rightarrow> u32 \<Rightarrow> vf2_i960_instruction \<Rightarrow> vf2_basic_block \<Rightarrow> vf2_basic_block" where
  "branch_block reachable address i b =
     (let s1 = (if has_target i \<and> address_is_reachable reachable (target i)
                then bb_successors b @ [target i] else bb_successors b);
          s2 = (if has_fallthrough i \<and> length s1 < VF2_MAX_BLOCK_SUCCESSORS \<and>
                    address_is_reachable reachable (next_address address i)
                then s1 @ [next_address address i] else s1)
      in b\<lparr>bb_successors := s2, bb_indirect := indirect i, bb_terminal := \<not> has_fallthrough i\<rparr>)"

text \<open>The instructions of a block, from an address on, and the function's end.\<close>

function block_walk ::
    "(u32 \<Rightarrow> vf2_i960_instruction option) \<Rightarrow> nat list \<Rightarrow> bool list \<Rightarrow> u32 \<Rightarrow> vf2_basic_block \<times> u32 \<Rightarrow> vf2_basic_block \<times> u32" where
  "block_walk code reachable leaders address (b, e) =
     (if \<not> address_is_reachable reachable address then (b, e)
      else case code address of
        None \<Rightarrow> (b\<lparr>bb_terminal := True\<rparr>, e)
      | Some i \<Rightarrow>
          let next = next_address address i; b1 = b\<lparr>bb_end := next\<rparr>; e1 = (if next > e then next else e)
          in if flow i = FLOW_BRANCH then (branch_block reachable address i b1, e1)
             else if ends_path i then (b1\<lparr>bb_terminal := True\<rparr>, e1)
             else if address_is_leader leaders next then
               (if address_is_reachable reachable next then b1\<lparr>bb_successors := [next]\<rparr> else b1, e1)
             else if next \<le> address then (b1, e1)
             else block_walk code reachable leaders next (b1, e1))"
  by pat_completeness auto

termination
  by (relation "measure (\<lambda>(code, reachable, leaders, address, x). 2 ^ 32 - unat address)")
    (auto simp: word_le_nat_alt not_le intro!: diff_less_mono2)

declare block_walk.simps [simp del]

definition build_block :: "host \<Rightarrow> nat \<Rightarrow> nat list \<Rightarrow> bool list \<Rightarrow> nat \<Rightarrow> (vf2_i960_analysis, unit) prog" where
  "build_block h k reachable leaders w a =
     (if \<not> leaders ! w \<or> reachable ! w \<noteq> 1 then (Inr (), a)
      else
        let address = of_nat (w * 4); f = an_functions a ! k
        in case block_walk (instruction_at a) reachable leaders address
                  (\<lparr>bb_start = address, bb_end = address, bb_function = fn_address f, bb_successors = [],
                    bb_terminal = False, bb_indirect = False\<rparr>, fn_end f) of
             (b, e) \<Rightarrow> add_block h b (update_function k (\<lambda>f. f\<lparr>fn_end := e\<rparr>) a))"

definition build_function_blocks :: "host \<Rightarrow> nat \<Rightarrow> nat list \<Rightarrow> bool list \<Rightarrow> (vf2_i960_analysis, unit) prog" where
  "build_function_blocks h k reachable leaders = pfor [0..<length reachable] (build_block h k reachable leaders)"

section \<open>Functions\<close>

text \<open>Both arrays are requested before either result is looked at.\<close>

definition analyze_function :: "host \<Rightarrow> nat \<Rightarrow> (discovery, unit) prog" where
  "analyze_function h k s =
     (let a = ds_analysis s; n = an_allocations a; words = (an_size a + 3) div 4;
          s1 = s\<lparr>ds_analysis := a\<lparr>an_allocations := n + 2\<rparr>,
                 ds_reachable := replicate words 0, ds_leaders := replicate words False\<rparr>
      in if \<not> grants h n \<or> \<not> grants h (n + 1) then (Inl VF2_ERROR_OUT_OF_MEMORY, s1)
         else case pbind (discover_reachable_instructions h k)
                     (\<lambda>_ s. on_analysis (build_function_blocks h k (ds_reachable s) (ds_leaders s)) s) s1 of
           (r, s2) \<Rightarrow>
             (r, s2\<lparr>ds_analysis := update_function k
                (\<lambda>f. f\<lparr>fn_block_count := length (an_blocks (ds_analysis s2)) - fn_first_block f\<rparr>) (ds_analysis s2)\<rparr>))"

section \<open>What discovery keeps\<close>

text \<open>A predicate kept by the elementary updates is kept by the discovery.\<close>

locale discovery_frame =
  fixes P :: "discovery \<Rightarrow> bool" and h :: host and k :: nat
  assumes xrefs: "preserves P (record_instruction_xrefs h i)"
    and mark: "P s \<Longrightarrow> P (mark_instruction address i s)"
    and invalid: "P s \<Longrightarrow> P (mark_invalid address s)"
    and path: "P s \<Longrightarrow> P (s\<lparr>ds_path := q\<rparr>)"
    and leader: "P s \<Longrightarrow> P (s\<lparr>ds_leaders := (ds_leaders s)[w := True]\<rparr>)"
    and allocation: "P s \<Longrightarrow> P (s\<lparr>ds_analysis := (ds_analysis s)\<lparr>an_allocations := n\<rparr>\<rparr>)"
    and indirect: "P s \<Longrightarrow> P (mark_indirect k s)"
begin

lemma add_leader_keeps: "preserves P (add_leader h address)"
proof -
  have "P (snd (push_path h address s))" if "P s" for s
    using allocation [OF path [OF that]] allocation [OF that]
    by (auto simp: push_path_def split: prod.split sum.split)
  then show ?thesis using leader by (simp add: preserves_def add_leader_def)
qed

lemma follow_branch_keeps: "preserves P (follow_branch h k address i)"
proof -
  let ?q = "pwhen (\<lambda>s. has_fallthrough i \<and> is_valid_code_address (ds_analysis s) (next_address address i))
      (add_leader h (next_address address i))"
  have "P (snd (case ?q s of (r, s') \<Rightarrow> (r, if indirect i then mark_indirect k s' else s')))" if "P s" for s
    using preservesD [OF preserves_pwhen [OF add_leader_keeps] that] indirect
    by (auto split: prod.split) (metis snd_conv)+
  then show ?thesis
    unfolding follow_branch_def
    by (intro preserves_pbind preserves_pwhen add_leader_keeps) (simp add: preserves_def)
qed

lemma follow_keeps: "h' = h \<Longrightarrow> k' = k \<Longrightarrow> P s \<Longrightarrow> P (snd (follow h' k' address s))"
proof (induction h' k' address s rule: follow.induct)
  case (1 h' k' address s)
  show ?case
  proof (cases "is_valid_code_address (ds_analysis s) address \<and> word_of address < length (ds_reachable s) \<and>
      ds_reachable s ! word_of address = 0")
    case False
    then show ?thesis using "1.prems" by (subst follow.simps) auto
  next
    case True
    show ?thesis
    proof (cases "instruction_at (ds_analysis s) address")
      case None
      then show ?thesis using "1.prems" True invalid by (subst follow.simps) simp
    next
      case (Some i)
      obtain r s1 where rec: "record_instruction_xrefs h' i (mark_instruction address i s) = (r, s1)"
        by (cases "record_instruction_xrefs h' i (mark_instruction address i s)")
      have s1: "P s1" using preservesD_eq [OF xrefs rec [unfolded "1.prems"(1)] mark] "1.prems"(3) by simp
      show ?thesis
      proof (cases r)
        case (Inl e)
        then show ?thesis using True Some rec s1 by (subst follow.simps) simp
      next
        case (Inr u)
        have "P (snd (follow h' k' (next_address address i)
            (if flow i = FLOW_CALL \<and> indirect i then mark_indirect k' s1 else s1)))"
          if "flow i \<noteq> FLOW_BRANCH" "\<not> ends_path i"
          using "1.IH" [OF _ _ Some rec [symmetric] Inr that "1.prems"(1,2)] True s1 indirect "1.prems"(2) by simp
        moreover have "P (snd (follow_branch h' k' address i s1))"
          using preservesD [OF follow_branch_keeps s1] "1.prems"(1,2) by simp
        ultimately show ?thesis using True Some rec s1 Inr by (subst follow.simps) simp
      qed
    qed
  qed
qed

lemma path_loop_keeps: "h' = h \<Longrightarrow> k' = k \<Longrightarrow> P s \<Longrightarrow> P (snd (path_loop h' k' s))"
proof (induction h' k' s rule: path_loop.induct)
  case (1 h' k' s)
  let ?s = "s\<lparr>ds_path := (ds_path s)\<lparr>q_cursor := q_cursor (ds_path s) + 1\<rparr>\<rparr>"
  obtain r s1 where f: "follow h' k' (q_items (ds_path s) ! q_cursor (ds_path s)) ?s = (r, s1)"
    by (cases "follow h' k' (q_items (ds_path s) ! q_cursor (ds_path s)) ?s")
  have "P s1" using follow_keeps [OF "1.prems"(1,2) path [OF "1.prems"(3)]] f by (metis snd_conv)
  then show ?case
    using "1.prems" "1.IH" [OF _ f [symmetric]] f by (subst path_loop.simps) (auto split: sum.split)
qed

lemma discover_keeps: "preserves P (discover_reachable_instructions h k)"
proof -
  have "preserves P (path_loop h k)" using path_loop_keeps by (simp add: preserves_def)
  then have "preserves P (pbind (add_leader h address) (\<lambda>_. path_loop h k))" for address
    by (intro preserves_pbind add_leader_keeps)
  then show ?thesis using path by (simp add: preserves_def discover_reachable_instructions_def Let_def)
qed

end

lemma preserves_pwhen_guard:
  "(\<And>s. \<lbrakk>P s; c s\<rbrakk> \<Longrightarrow> P (snd (p s))) \<Longrightarrow> preserves P (pwhen c p)"
  by (simp add: preserves_def pwhen_def)

lemma xrefs_preserve:
  assumes "\<And>a b c. preserves P (on_analysis (add_xref h a b c))"
    and "\<And>s t. \<lbrakk>P s; is_valid_code_address (ds_analysis s) t\<rbrakk> \<Longrightarrow> P (snd (push_function h t s))"
  shows "preserves P (record_instruction_xrefs h i)"
proof -
  have push: "preserves P (pwhen (\<lambda>s. flow i = FLOW_CALL \<and> is_valid_code_address (ds_analysis s) (target i)) (push_function h (target i)))"
    by (rule preserves_pwhen_guard) (rule assms(2), simp_all)
  show ?thesis
    unfolding record_instruction_xrefs_def record_target_def record_operand_def
    by (intro preserves_pbind preserves_pfor preserves_case_option preserves_if preserves_pret push assms(1))
qed

text \<open>Discovering only ever queues functions at valid addresses, each once.\<close>

definition unqueued :: "vf2_i960_analysis \<Rightarrow> address_queue \<Rightarrow> u32 set" where
  "unqueued a q = {t. is_valid_code_address a t \<and> t \<notin> set (q_items q)}"

definition function_work :: "vf2_i960_analysis \<Rightarrow> address_queue \<Rightarrow> nat" where
  "function_work a q = 2 * card (unqueued a q) + queue_pending q"

definition work_within :: "nat \<Rightarrow> nat \<Rightarrow> discovery \<Rightarrow> bool" where
  "work_within z m s \<longleftrightarrow> an_size (ds_analysis s) = z \<and> function_work (ds_analysis s) (ds_functions s) \<le> m"

lemma work_of_size: "an_size a = an_size b \<Longrightarrow> function_work a q = function_work b q"
  by (simp add: function_work_def unqueued_def is_valid_code_address_def)

lemma push_function_work:
  assumes "is_valid_code_address (ds_analysis s) t"
  shows "function_work (ds_analysis (snd (push_function h t s))) (ds_functions (snd (push_function h t s)))
    \<le> function_work (ds_analysis s) (ds_functions s)"
proof (cases "t \<in> set (q_items (ds_functions s))")
  case True
  then show ?thesis
    by (simp add: push_function_def queue_push_unique_def function_work_def unqueued_def is_valid_code_address_def)
next
  case False
  let ?u = "unqueued (ds_analysis s) (ds_functions s)"
  have t: "t \<in> ?u" using assms False by (simp add: unqueued_def)
  have "unqueued (ds_analysis s) ((ds_functions s)\<lparr>q_capacity := c, q_items := q_items (ds_functions s) @ [t]\<rparr>) = ?u - {t}" for c
    by (auto simp: unqueued_def)
  moreover have "card (?u - {t}) + 1 = card ?u" using card_Suc_Diff1 [OF finite t] by simp
  ultimately have "function_work (ds_analysis s) ((ds_functions s)\<lparr>q_capacity := c, q_items := q_items (ds_functions s) @ [t]\<rparr>)
      \<le> function_work (ds_analysis s) (ds_functions s)" for c
    by (simp add: function_work_def queue_pending_def)
  moreover have "function_work ((ds_analysis s)\<lparr>an_allocations := n\<rparr>) q = function_work (ds_analysis s) q" for n q
    by (rule work_of_size) simp
  ultimately show ?thesis
    using False by (auto simp: push_function_def queue_push_unique_def split: prod.split sum.split)
qed

lemma add_xref_frame:
  "an_size (snd (add_xref h a b c x)) = an_size x" "an_image (snd (add_xref h a b c x)) = an_image x"
  "an_functions (snd (add_xref h a b c x)) = an_functions x" "an_blocks (snd (add_xref h a b c x)) = an_blocks x"
  "an_map (snd (add_xref h a b c x)) = an_map x"
  by (auto simp: add_xref_def append_array_def Let_def split: prod.split sum.split)

interpretation work: discovery_frame "work_within z m" h k for z m h k
proof
  fix s i address q w n
  show "preserves (work_within z m) (record_instruction_xrefs h i)"
  proof (rule xrefs_preserve)
    show "preserves (work_within z m) (on_analysis (add_xref h a b c))" for a b c
      using work_of_size [OF add_xref_frame(1)] unfolding preserves_def work_within_def on_analysis_keeps add_xref_frame
      by metis
  next
    fix s t assume "work_within z m s" and v: "is_valid_code_address (ds_analysis s) t"
    moreover have "an_size (ds_analysis (snd (push_function h t s))) = an_size (ds_analysis s)"
      by (auto simp: push_function_def split: prod.split sum.split)
    ultimately show "work_within z m (snd (push_function h t s))"
      using push_function_work [OF v, of h] by (simp add: work_within_def)
  qed
  assume "work_within z m s"
  then have z: "z = an_size (ds_analysis s)" and w: "function_work (ds_analysis s) (ds_functions s) \<le> m"
    by (simp_all add: work_within_def)
  show "work_within z m (mark_instruction address i s)" "work_within z m (mark_invalid address s)"
    "work_within z m (s\<lparr>ds_path := q\<rparr>)" "work_within z m (s\<lparr>ds_leaders := (ds_leaders s)[w := True]\<rparr>)"
    "work_within z m (s\<lparr>ds_analysis := (ds_analysis s)\<lparr>an_allocations := n\<rparr>\<rparr>)" "work_within z m (mark_indirect k s)"
    using w by (simp_all add: work_within_def z mark_instruction_def mark_invalid_def mark_indirect_def mark_code_def
        update_function_def Let_def function_work_def unqueued_def is_valid_code_address_def)
qed

text \<open>It adds to the queue of functions behind what is there, and leaves the functions at their addresses.\<close>

definition same_frame :: "discovery \<Rightarrow> discovery \<Rightarrow> bool" where
  "same_frame s0 s \<longleftrightarrow>
     an_image (ds_analysis s) = an_image (ds_analysis s0) \<and> an_size (ds_analysis s) = an_size (ds_analysis s0) \<and>
     an_blocks (ds_analysis s) = an_blocks (ds_analysis s0) \<and>
     map fn_address (an_functions (ds_analysis s)) = map fn_address (an_functions (ds_analysis s0)) \<and>
     q_cursor (ds_functions s) = q_cursor (ds_functions s0) \<and>
     (\<exists>ts. q_items (ds_functions s) = q_items (ds_functions s0) @ ts)"

interpretation frame: discovery_frame "same_frame s0" h k for s0 h k
proof
  fix s i address q w n
  show "preserves (same_frame s0) (record_instruction_xrefs h i)"
  proof (rule xrefs_preserve)
    show "preserves (same_frame s0) (on_analysis (add_xref h a b c))" for a b c
      by (simp add: preserves_def same_frame_def add_xref_frame)
  next
    fix s t assume "same_frame s0 s"
    then show "same_frame s0 (snd (push_function h t s))"
      by (auto simp: same_frame_def push_function_def queue_push_unique_def split: prod.split sum.split)
  qed
  assume P: "same_frame s0 s"
  show "same_frame s0 (mark_instruction address i s)" "same_frame s0 (mark_invalid address s)"
    "same_frame s0 (s\<lparr>ds_path := q\<rparr>)" "same_frame s0 (s\<lparr>ds_leaders := (ds_leaders s)[w := True]\<rparr>)"
    "same_frame s0 (s\<lparr>ds_analysis := (ds_analysis s)\<lparr>an_allocations := n\<rparr>\<rparr>)"
    using P by (simp_all add: same_frame_def mark_instruction_def mark_invalid_def mark_code_def Let_def)
  show "same_frame s0 (mark_indirect k s)"
    using P by (simp add: same_frame_def mark_indirect_def update_function_addresses)
qed

text \<open>Building blocks changes the blocks, the ends of the function and the allocator only.\<close>

definition same_code :: "vf2_i960_analysis \<Rightarrow> vf2_i960_analysis \<Rightarrow> bool" where
  "same_code a0 a \<longleftrightarrow> an_image a = an_image a0 \<and> an_size a = an_size a0 \<and> an_map a = an_map a0 \<and>
     map fn_address (an_functions a) = map fn_address (an_functions a0)"

lemma same_code_blocks: "preserves (same_code a0) (build_function_blocks h k r l)"
proof -
  have "same_code a0 (snd (build_block h k r l w a))" if "same_code a0 a" for w a
    using that
    by (auto simp: build_block_def Let_def same_code_def add_block_def append_array_def update_function_addresses
        split: prod.split sum.split)
  then show ?thesis unfolding build_function_blocks_def by (intro preserves_pfor) (simp add: preserves_def)
qed

text \<open>What the analysis of one function does, up to its block count.\<close>

lemma analyze_function_cases:
  fixes k :: nat
  assumes "analyze_function h k s = (r, s')"
  defines "s1 \<equiv> s\<lparr>ds_analysis := (ds_analysis s)\<lparr>an_allocations := an_allocations (ds_analysis s) + 2\<rparr>,
      ds_reachable := replicate ((an_size (ds_analysis s) + 3) div 4) 0,
      ds_leaders := replicate ((an_size (ds_analysis s) + 3) div 4) False\<rparr>"
  obtains (refused) "r \<noteq> Inr ()" "s' = s1"
    | (undiscovered) e s2 f where "discover_reachable_instructions h k s1 = (Inl e, s2)" "r = Inl e"
        "s' = s2\<lparr>ds_analysis := update_function k f (ds_analysis s2)\<rparr>" "\<And>x. fn_address (f x) = fn_address x"
    | (discovered) s2 a f where "discover_reachable_instructions h k s1 = (Inr (), s2)"
        "build_function_blocks h k (ds_reachable s2) (ds_leaders s2) (ds_analysis s2) = (r, a)"
        "s' = s2\<lparr>ds_analysis := update_function k f a\<rparr>" "\<And>x. fn_address (f x) = fn_address x"
proof (cases "grants h (an_allocations (ds_analysis s)) \<and> grants h (an_allocations (ds_analysis s) + 1)")
  case False
  then show ?thesis using assms refused by (auto simp: analyze_function_def Let_def)
next
  case True
  obtain d s2 where d: "discover_reachable_instructions h k s1 = (d, s2)"
    by (cases "discover_reachable_instructions h k s1")
  show ?thesis
  proof (cases d)
    case (Inl e)
    then show ?thesis
      using undiscovered [of e s2 "\<lambda>f. f\<lparr>fn_block_count := length (an_blocks (ds_analysis s2)) - fn_first_block f\<rparr>"]
        d assms(1) True
      by (simp add: analyze_function_def Let_def s1_def)
  next
    case (Inr u)
    obtain b a where b: "build_function_blocks h k (ds_reachable s2) (ds_leaders s2) (ds_analysis s2) = (b, a)"
      by (cases "build_function_blocks h k (ds_reachable s2) (ds_leaders s2) (ds_analysis s2)")
    then show ?thesis
      using discovered [of s2 a "\<lambda>f. f\<lparr>fn_block_count := length (an_blocks a) - fn_first_block f\<rparr>"] d Inr assms(1) True
      by (simp add: analyze_function_def Let_def s1_def on_analysis_def)
  qed
qed

lemma analyze_function_work:
  assumes "analyze_function h k s = (r, s')"
  shows "function_work (ds_analysis s') (ds_functions s') \<le> function_work (ds_analysis s) (ds_functions s)"
    and "an_size (ds_analysis s') = an_size (ds_analysis s)"
proof -
  define m where "m = function_work (ds_analysis s) (ds_functions s)"
  let ?P = "work_within (an_size (ds_analysis s)) m"
  have start: "?P (s\<lparr>ds_analysis := (ds_analysis s)\<lparr>an_allocations := n\<rparr>, ds_reachable := x, ds_leaders := y\<rparr>)" for n x y
    by (simp add: work_within_def m_def function_work_def unqueued_def is_valid_code_address_def)
  have upd: "?P (x\<lparr>ds_analysis := update_function k f a\<rparr>)"
    if "?P x" "an_size a = an_size (ds_analysis x)" for x a f
  proof -
    have "function_work (update_function k f a) (ds_functions x) = function_work (ds_analysis x) (ds_functions x)"
      by (rule work_of_size) (simp add: that(2))
    then show ?thesis using that by (simp add: work_within_def)
  qed
  from assms have "?P s'"
  proof (cases rule: analyze_function_cases)
    case refused
    then show ?thesis using start by simp
  next
    case (undiscovered e s2 f)
    then show ?thesis using upd preservesD_eq [OF work.discover_keeps undiscovered(1) start] by simp
  next
    case (discovered s2 a f)
    then have "?P s2" using preservesD_eq [OF work.discover_keeps discovered(1) start] by simp
    moreover have "same_code (ds_analysis s2) a"
      using preservesD_eq [OF same_code_blocks discovered(2), of "ds_analysis s2"] by (simp add: same_code_def)
    ultimately show ?thesis using upd discovered(3) by (simp add: same_code_def)
  qed
  then show "function_work (ds_analysis s') (ds_functions s') \<le> function_work (ds_analysis s) (ds_functions s)"
    "an_size (ds_analysis s') = an_size (ds_analysis s)"
    by (simp_all add: work_within_def m_def)
qed

section \<open>The queue of functions\<close>

lemma pop_function_work:
  assumes "\<not> length (q_items q) \<le> q_cursor q"
  shows "function_work a (q\<lparr>q_cursor := q_cursor q + 1\<rparr>) < function_work a q"
  using assms by (simp add: function_work_def unqueued_def queue_pending_def)

function function_loop :: "host \<Rightarrow> (discovery, unit) prog" where
  "function_loop h s =
     (if q_cursor (ds_functions s) \<ge> length (q_items (ds_functions s)) then (Inr (), s)
      else let q = ds_functions s; address = q_items q ! q_cursor q; s1 = s\<lparr>ds_functions := q\<lparr>q_cursor := q_cursor q + 1\<rparr>\<rparr>
      in if has_function (ds_analysis s) address then function_loop h s1
         else case add_function h address (ds_analysis s1) of
           (Inl e, a) \<Rightarrow> (Inl e, s1\<lparr>ds_analysis := a\<rparr>)
         | (Inr _, a) \<Rightarrow>
             (case analyze_function h (length (an_functions a) - 1) (s1\<lparr>ds_analysis := a\<rparr>) of
                (Inl e, s2) \<Rightarrow> (Inl e, s2)
              | (Inr _, s2) \<Rightarrow> function_loop h s2))"
  by pat_completeness auto

termination
proof (relation "measure (\<lambda>(h, s). function_work (ds_analysis s) (ds_functions s))", goal_cases)
  case 1
  show ?case by simp
next
  case (2 h s q address s1)
  then show ?case using pop_function_work [of q "ds_analysis s"] by simp
next
  case (3 h s q address s1 x a u y s2 v)
  then have "an_size a = an_size (ds_analysis s)" using add_function_keeps(1) [of h address "ds_analysis s1" x a] by simp
  then have "function_work a (q\<lparr>q_cursor := q_cursor q + 1\<rparr>) = function_work (ds_analysis s) (q\<lparr>q_cursor := q_cursor q + 1\<rparr>)"
    by (rule work_of_size)
  moreover have "function_work (ds_analysis s2) (ds_functions s2) \<le> function_work a (q\<lparr>q_cursor := q_cursor q + 1\<rparr>)"
    using analyze_function_work(1) [OF 3(8) [symmetric]] 3(4) by simp
  moreover have "function_work (ds_analysis s) (q\<lparr>q_cursor := q_cursor q + 1\<rparr>) < function_work (ds_analysis s) q"
    by (rule pop_function_work) (use 3 in simp)
  ultimately show ?case using 3(2) by simp
qed

declare function_loop.simps [simp del]

section \<open>Strings and padding\<close>

definition is_printable_string_byte :: "u8 \<Rightarrow> bool" where
  "is_printable_string_byte v \<longleftrightarrow> v = 9 \<or> 0x20 \<le> v \<and> v \<le> 0x7e"

text \<open>The end of the run of unclassified bytes with a property.\<close>

function run_of :: "(u8 \<Rightarrow> bool) \<Rightarrow> vf2_i960_analysis \<Rightarrow> nat \<Rightarrow> nat" where
  "run_of p a k =
     (if k < an_size a \<and> an_map a k = IMAGE_UNKNOWN \<and> p (an_image a k) then run_of p a (k + 1) else k)"
  by pat_completeness auto

termination by (relation "measure (\<lambda>(p, a, k). an_size a - k)") auto

declare run_of.simps [simp del]

definition set_class :: "nat \<Rightarrow> nat \<Rightarrow> vf2_image_class \<Rightarrow> vf2_i960_analysis \<Rightarrow> vf2_i960_analysis" where
  "set_class offset e c a = a\<lparr>an_map := (\<lambda>k. if offset \<le> k \<and> k < e then c else an_map a k)\<rparr>"

text \<open>The references into a string, the ones added on the way included.\<close>

definition unlinked :: "nat \<Rightarrow> vf2_xref list \<Rightarrow> u32 set" where
  "unlinked offset xs = {s \<in> x_source ` set xs. \<lparr>x_source = s, x_target = of_nat offset, x_type = XREF_STRING\<rparr> \<notin> set xs}"

lemma string_xref_work:
  assumes "k < length (an_xrefs a)" and "add_xref h (x_source (an_xrefs a ! k)) (of_nat offset) XREF_STRING a = (Inr u, a')"
  shows "2 * card (unlinked offset (an_xrefs a')) + (length (an_xrefs a') - (k + 1))
    < 2 * card (unlinked offset (an_xrefs a)) + (length (an_xrefs a) - k)"
proof -
  let ?s = "x_source (an_xrefs a ! k)"
  let ?x = "\<lparr>x_source = ?s, x_target = of_nat offset, x_type = XREF_STRING\<rparr>"
  have src: "?s \<in> x_source ` set (an_xrefs a)" using assms(1) by simp
  show ?thesis
  proof (cases "?x \<in> set (an_xrefs a)")
    case True
    then have "a' = a" using assms(2) by (simp add: add_xref_def)
    then show ?thesis using assms(1) by simp
  next
    case False
    then have xs: "an_xrefs a' = an_xrefs a @ [?x]"
      using assms(2) by (auto simp: add_xref_def append_array_def split: prod.splits sum.splits)
    have "unlinked offset (an_xrefs a') = unlinked offset (an_xrefs a) - {?s}"
      using src by (auto simp: unlinked_def xs)
    moreover have "?s \<in> unlinked offset (an_xrefs a)" using False src by (simp add: unlinked_def)
    moreover have "finite (unlinked offset (an_xrefs a))" by (simp add: unlinked_def)
    ultimately have "card (unlinked offset (an_xrefs a')) + 1 = card (unlinked offset (an_xrefs a))"
      using card_Suc_Diff1 [of "unlinked offset (an_xrefs a)" ?s] by simp
    then show ?thesis using assms(1) by (simp add: xs)
  qed
qed

function string_xrefs :: "host \<Rightarrow> nat \<Rightarrow> nat \<Rightarrow> nat \<Rightarrow> (vf2_i960_analysis, unit) prog" where
  "string_xrefs h offset e k a =
     (if k \<ge> length (an_xrefs a) then (Inr (), a)
      else let x = an_xrefs a ! k in
        if offset \<le> unat (x_target x) \<and> unat (x_target x) < e then
          (case add_xref h (x_source x) (of_nat offset) XREF_STRING a of
             (Inl er, a') \<Rightarrow> (Inl er, a')
           | (Inr _, a') \<Rightarrow> string_xrefs h offset e (k + 1) a')
        else string_xrefs h offset e (k + 1) a)"
  by pat_completeness auto

termination
proof (relation "measure (\<lambda>(h, offset, e, k, a). 2 * card (unlinked offset (an_xrefs a)) + (length (an_xrefs a) - k))", goal_cases)
  case 1
  show ?case by simp
next
  case (2 h offset e k a x y a' u)
  then show ?case using string_xref_work [of k a h offset _ a'] by simp
next
  case (3 h offset e k a x)
  then show ?case by simp
qed

declare string_xrefs.simps [simp del]

text \<open>Recording the references into a string changes the cross-references only.\<close>

lemma string_xrefs_keeps:
  "string_xrefs h offset e k a = (r, a')
   \<Longrightarrow> a' = a\<lparr>an_allocations := an_allocations a', an_xref_capacity := an_xref_capacity a', an_xrefs := an_xrefs a'\<rparr>"
proof (induction h offset e k a rule: string_xrefs.induct)
  case (1 h offset e k a)
  let ?x = "an_xrefs a ! k"
  obtain r1 a1 where x: "add_xref h (x_source ?x) (of_nat offset) XREF_STRING a = (r1, a1)"
    by (cases "add_xref h (x_source ?x) (of_nat offset) XREF_STRING a")
  note a1 = add_xref_keeps(1) [OF x]
  show ?case
  proof (cases "k < length (an_xrefs a) \<and> offset \<le> unat (x_target ?x) \<and> unat (x_target ?x) < e")
    case False
    then show ?thesis
      using "1.IH"(2) [OF _ refl] "1.prems" by (subst (asm) string_xrefs.simps) (auto split: if_splits)
  next
    case True
    show ?thesis
    proof (cases r1)
      case (Inl er)
      then have "a' = a1" using True x "1.prems" by (subst (asm) string_xrefs.simps) simp
      then show ?thesis using a1 by simp
    next
      case (Inr u)
      then have "string_xrefs h offset e (k + 1) a1 = (r, a')"
        using True x "1.prems" by (subst (asm) string_xrefs.simps) simp
      then have "a' = a1\<lparr>an_allocations := an_allocations a', an_xref_capacity := an_xref_capacity a', an_xrefs := an_xrefs a'\<rparr>"
        using "1.IH"(1) [OF _ refl _ x [symmetric] Inr] True by simp
      also have "\<dots> = a\<lparr>an_allocations := an_allocations a', an_xref_capacity := an_xref_capacity a', an_xrefs := an_xrefs a'\<rparr>"
        by (subst a1) simp
      finally show ?thesis .
    qed
  qed
qed

lemma run_of_bounds: "k \<le> run_of p a k" "k \<le> an_size a \<Longrightarrow> run_of p a k \<le> an_size a"
proof (induction p a k rule: run_of.induct)
  case (1 p a k)
  {
    case 1
    then show ?case using "1.IH"(1) by (auto simp: run_of.simps [of p a k] dest: Suc_leD)
  next
    case 2
    then show ?case using "1.IH"(2) by (auto simp: run_of.simps [of p a k])
  }
qed

lemma run_of_in: "\<lbrakk>k \<le> j; j < run_of p a k\<rbrakk> \<Longrightarrow> j < an_size a \<and> an_map a j = IMAGE_UNKNOWN \<and> p (an_image a j)"
proof (induction p a k rule: run_of.induct)
  case (1 p a k)
  show ?case
  proof (cases "k < an_size a \<and> an_map a k = IMAGE_UNKNOWN \<and> p (an_image a k)")
    case True
    then show ?thesis using "1.IH" "1.prems" by (cases "j = k") (auto simp: run_of.simps [of p a k])
  next
    case False
    then show ?thesis using "1.prems" by (auto simp: run_of.simps [of p a k])
  qed
qed

lemma run_of_end: "run_of p a k < an_size a \<Longrightarrow> \<not> (an_map a (run_of p a k) = IMAGE_UNKNOWN \<and> p (an_image a (run_of p a k)))"
proof (induction p a k rule: run_of.induct)
  case (1 p a k)
  then show ?case by (cases "k < an_size a \<and> an_map a k = IMAGE_UNKNOWN \<and> p (an_image a k)") (auto simp: run_of.simps [of p a k])
qed

function classify_strings :: "host \<Rightarrow> nat \<Rightarrow> (vf2_i960_analysis, unit) prog" where
  "classify_strings h offset a =
     (if offset \<ge> an_size a then (Inr (), a)
      else if an_map a offset \<noteq> IMAGE_UNKNOWN \<or> \<not> is_printable_string_byte (an_image a offset) then
        classify_strings h (offset + 1) a
      else
        let e = run_of is_printable_string_byte a offset; next = (if e = offset then offset + 1 else e)
        in if e - offset \<ge> 5 \<and> e < an_size a \<and> an_image a e = 0 then
             (case string_xrefs h offset e 0 (set_class offset e IMAGE_STRING a) of
                (Inl er, a') \<Rightarrow> (Inl er, a')
              | (Inr _, a') \<Rightarrow> classify_strings h next a')
           else classify_strings h next a)"
  by pat_completeness auto

termination
proof (relation "measure (\<lambda>(h, offset, a). an_size a - offset)", goal_cases)
  case (3 h offset a e nxt x a' u)
  have "an_size a' = an_size a"
    using string_xrefs_keeps [OF 3(6) [symmetric]] by (cases a') (simp add: set_class_def)
  then show ?case using 3 run_of_bounds(1) [of offset is_printable_string_byte a] by auto
next
  case (4 h offset a e nxt)
  then show ?case using run_of_bounds(1) [of offset is_printable_string_byte a] by auto
qed auto

declare classify_strings.simps [simp del]

lemma run_of_first: "\<lbrakk>k < an_size a; an_map a k = IMAGE_UNKNOWN; p (an_image a k)\<rbrakk> \<Longrightarrow> k < run_of p a k"
  using run_of_bounds(1) [of "k + 1" p a] by (simp add: run_of.simps [of p a k])

function classify_padding :: "nat \<Rightarrow> vf2_i960_analysis \<Rightarrow> vf2_i960_analysis" where
  "classify_padding offset a =
     (if offset \<ge> an_size a then a
      else if an_map a offset \<noteq> IMAGE_UNKNOWN \<or> (an_image a offset \<noteq> 0 \<and> an_image a offset \<noteq> 0xff) then
        classify_padding (offset + 1) a
      else
        let e = run_of (\<lambda>v. v = an_image a offset) a offset
        in classify_padding e (if e - offset \<ge> 16 then set_class offset e IMAGE_PADDING a else a))"
  by pat_completeness auto

termination
proof (relation "measure (\<lambda>(offset, a). an_size a - offset)", goal_cases)
  case (3 offset a e)
  then show ?case using run_of_first [of offset a "\<lambda>v. v = an_image a offset"] by (auto simp: set_class_def)
qed auto

declare classify_padding.simps [simp del]

end
