(* ===== verification/Vf2_Boundaries.thy ===== *)
theory Vf2_Boundaries
  imports Vf2_Cfg
begin

text \<open>
  Function boundaries (\<open>src/analysis/boundaries.c\<close>): entries of functions that lie inside another
  function, and branches that leave a function for the entry of another, recorded as candidates for
  splitting. The images are those below 4 GiB, as in \<open>Vf2_Cfg\<close>.
\<close>

section \<open>Definitions\<close>

text \<open>The instructions decoded from an address up to an end, the first that does not decode excluded.\<close>

function instructions_in :: "(u32 \<Rightarrow> vf2_i960_instruction option) \<Rightarrow> u32 \<Rightarrow> u32 \<Rightarrow> vf2_i960_instruction list" where
  "instructions_in code address e =
     (if address \<ge> e then []
      else case code address of
        None \<Rightarrow> []
      | Some i \<Rightarrow> i # (if next_address address i \<le> address then [] else instructions_in code (next_address address i) e))"
  by pat_completeness auto

termination
  by (relation "measure (\<lambda>(code, address, e). 2 ^ 32 - unat address)") (auto simp: word_le_nat_alt not_le intro!: diff_less_mono2)

declare instructions_in.simps [simp del]

definition block_instructions :: "vf2_i960_analysis \<Rightarrow> vf2_basic_block \<Rightarrow> vf2_i960_instruction list" where
  "block_instructions a b = instructions_in (instruction_at a) (bb_start b) (bb_end b)"

definition blocks_of :: "vf2_i960_analysis \<Rightarrow> vf2_function \<Rightarrow> vf2_basic_block list" where
  "blocks_of a f = map (\<lambda>k. an_blocks a ! k) [fn_first_block f..<fn_first_block f + fn_block_count f]"

definition block_contains :: "vf2_basic_block \<Rightarrow> u32 \<Rightarrow> bool" where
  "block_contains b address \<longleftrightarrow> address \<ge> bb_start b \<and> address < bb_end b"

definition function_contains_address :: "vf2_i960_analysis \<Rightarrow> vf2_function \<Rightarrow> u32 \<Rightarrow> bool" where
  "function_contains_address a f address \<longleftrightarrow> (\<exists>b \<in> set (blocks_of a f). block_contains b address)"

definition add_split :: "host \<Rightarrow> u32 \<Rightarrow> u32 \<Rightarrow> u32 \<Rightarrow> vf2_split_reason \<Rightarrow> (vf2_i960_analysis, unit) prog" where
  "add_split h source_function target_function instruction_address reason a =
     (let x = \<lparr>fs_source_function = source_function, fs_target_function = target_function,
               fs_instruction_address = instruction_address, fs_reason = reason\<rparr>
      in if x \<in> set (an_splits a) then (Inr (), a)
         else append_array h 32 (length (an_splits a)) (an_split_capacity a)
                (\<lambda>c a. a\<lparr>an_split_capacity := c, an_splits := an_splits a @ [x]\<rparr>) a)"

definition decode_last_instruction :: "vf2_i960_analysis \<Rightarrow> vf2_basic_block \<Rightarrow> vf2_i960_instruction option" where
  "decode_last_instruction a b =
     (let is = block_instructions a b in if is = [] then None else Some (last is))"

definition overlapping_entry :: "host \<Rightarrow> nat \<Rightarrow> nat \<Rightarrow> (vf2_i960_analysis, unit) prog" where
  "overlapping_entry h k j a =
     (let f = an_functions a ! k; g = an_functions a ! j
      in if fn_address g = fn_address f \<or> \<not> function_contains_address a f (fn_address g) then (Inr (), a)
         else pbind (add_split h (fn_address f) (fn_address g) (fn_address g) SPLIT_OVERLAPPING_ENTRY)
                (\<lambda>_ a. (Inr (), update_function k (\<lambda>f. f\<lparr>fn_splits := fn_splits f + 1\<rparr>) a)) a)"

definition leaves_by_tail :: "vf2_i960_analysis \<Rightarrow> vf2_function \<Rightarrow> vf2_basic_block \<Rightarrow> vf2_i960_instruction option" where
  "leaves_by_tail a f b =
     (case decode_last_instruction a b of
        None \<Rightarrow> None
      | Some i \<Rightarrow>
          if flow i \<noteq> FLOW_BRANCH \<or> has_fallthrough i \<or> \<not> has_target i then None
          else case vf2_i960_find_function a (target i) of
            None \<Rightarrow> None
          | Some g \<Rightarrow> if fn_address g = fn_address f then None else Some i)"

definition tail_branch :: "host \<Rightarrow> nat \<Rightarrow> nat \<Rightarrow> (vf2_i960_analysis, unit) prog" where
  "tail_branch h k j a =
     (let f = an_functions a ! k
      in case leaves_by_tail a f (an_blocks a ! j) of
        None \<Rightarrow> (Inr (), a)
      | Some i \<Rightarrow>
          pbind (add_split h (fn_address f) (target i) (i_address i) SPLIT_TAIL_BRANCH)
            (\<lambda>_. pbind (vf2_i960_analysis_record_xref h (i_address i) (target i) XREF_CALL)
              (\<lambda>_ a. (Inr (), update_function k
                 (\<lambda>f. f\<lparr>fn_tail_calls := fn_tail_calls f + 1, fn_splits := fn_splits f + 1\<rparr>) a))) a)"

definition function_boundaries :: "host \<Rightarrow> nat \<Rightarrow> (vf2_i960_analysis, unit) prog" where
  "function_boundaries h k a =
     pbind (pfor [0..<length (an_functions a)] (overlapping_entry h k))
       (\<lambda>_ a. let f = an_functions a ! k
              in pfor [fn_first_block f..<fn_first_block f + fn_block_count f] (tail_branch h k) a) a"

definition vf2_i960_detect_function_boundaries :: "host \<Rightarrow> (vf2_i960_analysis, unit) prog" where
  "vf2_i960_detect_function_boundaries h a =
     pfor [0..<length (an_functions a)] (function_boundaries h)
       (a\<lparr>an_splits := [], an_split_capacity := 0,
          an_functions := map (\<lambda>f. f\<lparr>fn_tail_calls := 0, fn_splits := 0\<rparr>) (an_functions a)\<rparr>)"

section \<open>What is recorded\<close>

lemma pfor_collects:
  assumes "\<And>i s s'. \<lbrakk>i \<in> set is; P s; body i s = (Inr (), s')\<rbrakk> \<Longrightarrow> P s' \<and> g s' = g s \<union> D i"
    and "pfor is body s = (Inr (), s')" and "P s"
  shows "P s' \<and> g s' = g s \<union> (\<Union>i \<in> set is. D i)"
  using assms
proof (induction "is" arbitrary: s)
  case Nil
  then show ?case by simp
next
  case (Cons i "is")
  obtain s1 where s1: "body i s = (Inr (), s1)" "pfor is body s1 = (Inr (), s')"
    using Cons.prems(2) by (auto elim: pbind_okE)
  have step: "P t' \<and> g t' = g t \<union> D j" if "j \<in> set is" "P t" "body j t = (Inr (), t')" for j t t'
    using Cons.prems(1) [of j t t'] that by simp
  have "P s1 \<and> g s1 = g s \<union> D i" using Cons.prems(1) [OF _ Cons.prems(3) s1(1)] by simp
  moreover from this have "P s' \<and> g s' = g s1 \<union> (\<Union>i \<in> set is. D i)"
    using Cons.IH [OF step s1(2)] by blast
  ultimately show ?case by auto
qed

text \<open>What detecting boundaries leaves alone.\<close>

definition function_extent :: "vf2_function \<Rightarrow> u32 \<times> nat \<times> nat" where
  "function_extent f = (fn_address f, fn_first_block f, fn_block_count f)"

definition same_layout :: "vf2_i960_analysis \<Rightarrow> vf2_i960_analysis \<Rightarrow> bool" where
  "same_layout a0 a \<longleftrightarrow> an_image a = an_image a0 \<and> an_size a = an_size a0 \<and> an_map a = an_map a0 \<and>
     an_blocks a = an_blocks a0 \<and> map function_extent (an_functions a) = map function_extent (an_functions a0)"

definition recorded :: "vf2_i960_analysis \<Rightarrow> (vf2_function_split + vf2_xref) set" where
  "recorded a = Inl ` set (an_splits a) \<union> Inr ` set (an_xrefs a)"

definition boundary_state :: "vf2_i960_analysis \<Rightarrow> vf2_i960_analysis \<Rightarrow> bool" where
  "boundary_state a0 a \<longleftrightarrow> same_layout a0 a \<and> distinct (an_splits a)"

lemma layout_extent:
  assumes "same_layout a0 a" and "k < length (an_functions a0)"
  shows "fn_address (an_functions a ! k) = fn_address (an_functions a0 ! k)"
    and "fn_first_block (an_functions a ! k) = fn_first_block (an_functions a0 ! k)"
    and "fn_block_count (an_functions a ! k) = fn_block_count (an_functions a0 ! k)"
proof -
  have "map function_extent (an_functions a) ! k = map function_extent (an_functions a0) ! k" "length (an_functions a) = length (an_functions a0)"
    using assms(1) by (simp add: same_layout_def, metis length_map same_layout_def)
  then show "fn_address (an_functions a ! k) = fn_address (an_functions a0 ! k)"
    "fn_first_block (an_functions a ! k) = fn_first_block (an_functions a0 ! k)"
    "fn_block_count (an_functions a ! k) = fn_block_count (an_functions a0 ! k)"
    using assms(2) by (simp_all add: function_extent_def)
qed

lemma update_function_extent:
  assumes "\<And>x. function_extent (f x) = function_extent x"
  shows "map function_extent (an_functions (update_function k f a)) = map function_extent (an_functions a)"
  using assms
  by (cases "k < length (an_functions a)") (simp_all add: update_function_def map_update list_update_same_conv list_update_beyond)

lemma add_split_result:
  assumes "add_split h s t i r a = (Inr (), a')" and "boundary_state a0 a"
  shows "boundary_state a0 a'" and "recorded a' = recorded a \<union> {Inl \<lparr>fs_source_function = s, fs_target_function = t,
      fs_instruction_address = i, fs_reason = r\<rparr>}"
  using assms
  by (auto simp: add_split_def append_array_def Let_def boundary_state_def same_layout_def recorded_def
      split: if_splits prod.splits sum.splits)

lemma record_xref_result:
  assumes "vf2_i960_analysis_record_xref h s t ty a = (Inr (), a')" and "boundary_state a0 a"
  shows "boundary_state a0 a'" and "recorded a' = recorded a \<union> {Inr \<lparr>x_source = s, x_target = t, x_type = ty\<rparr>}"
  using assms
  by (auto simp: vf2_i960_analysis_record_xref_def add_xref_def append_array_def Let_def boundary_state_def
      same_layout_def recorded_def split: if_splits prod.splits sum.splits)

lemma count_result:
  assumes "\<And>x. function_extent (f x) = function_extent x" and "boundary_state a0 a"
  shows "boundary_state a0 (update_function k f a)" and "recorded (update_function k f a) = recorded a"
  using assms(2) update_function_extent [OF assms(1), of k a]
  by (simp_all add: boundary_state_def same_layout_def recorded_def update_function_def)

text \<open>The candidates: entries inside another function, and last instructions of blocks that leave for
  the entry of another.\<close>

definition entry_candidate :: "vf2_i960_analysis \<Rightarrow> vf2_function \<Rightarrow> vf2_function \<Rightarrow> bool" where
  "entry_candidate a f g \<longleftrightarrow> fn_address g \<noteq> fn_address f \<and> (\<exists>b \<in> set (blocks_of a f). block_contains b (fn_address g))"

definition tail_candidate :: "vf2_i960_analysis \<Rightarrow> vf2_function \<Rightarrow> vf2_basic_block \<Rightarrow> vf2_i960_instruction \<Rightarrow> bool" where
  "tail_candidate a f b i \<longleftrightarrow> block_instructions a b \<noteq> [] \<and> i = last (block_instructions a b) \<and>
     flow i = FLOW_BRANCH \<and> \<not> has_fallthrough i \<and> has_target i \<and>
     target i \<noteq> fn_address f \<and> target i \<in> fn_address ` set (an_functions a)"

definition entry_records :: "vf2_function \<Rightarrow> vf2_function \<Rightarrow> (vf2_function_split + vf2_xref) set" where
  "entry_records f g = {Inl \<lparr>fs_source_function = fn_address f, fs_target_function = fn_address g,
      fs_instruction_address = fn_address g, fs_reason = SPLIT_OVERLAPPING_ENTRY\<rparr>}"

definition tail_records :: "vf2_function \<Rightarrow> vf2_i960_instruction \<Rightarrow> (vf2_function_split + vf2_xref) set" where
  "tail_records f i = {Inl \<lparr>fs_source_function = fn_address f, fs_target_function = target i,
      fs_instruction_address = i_address i, fs_reason = SPLIT_TAIL_BRANCH\<rparr>,
      Inr \<lparr>x_source = i_address i, x_target = target i, x_type = XREF_CALL\<rparr>}"

lemma leaves_by_tail_iff: "leaves_by_tail a f b = Some i \<longleftrightarrow> tail_candidate a f b i"
proof -
  have "vf2_i960_find_function a t = None \<longleftrightarrow> t \<notin> fn_address ` set (an_functions a)" for t
    by (auto simp: vf2_i960_find_function_def find_None_iff)
  moreover have "fn_address g = t" if "vf2_i960_find_function a t = Some g" for t g
    using that by (auto simp: vf2_i960_find_function_def find_Some_iff)
  ultimately show ?thesis
    by (auto simp: leaves_by_tail_def tail_candidate_def decode_last_instruction_def Let_def split: option.splits)
      (metis option.distinct(1))+
qed

text \<open>Both depend on the layout only.\<close>

lemma layout_candidates:
  assumes l: "same_layout a0 a" and k: "k < length (an_functions a0)"
  shows "j < length (an_functions a0) \<Longrightarrow>
      entry_candidate a (an_functions a ! k) (an_functions a ! j) = entry_candidate a0 (an_functions a0 ! k) (an_functions a0 ! j)"
    and "tail_candidate a (an_functions a ! k) b i = tail_candidate a0 (an_functions a0 ! k) b i"
proof -
  have blocks: "an_blocks a = an_blocks a0" using l by (simp add: same_layout_def)
  show "entry_candidate a (an_functions a ! k) (an_functions a ! j) = entry_candidate a0 (an_functions a0 ! k) (an_functions a0 ! j)"
    if "j < length (an_functions a0)"
    using layout_extent [OF l k] layout_extent [OF l that] blocks by (simp add: entry_candidate_def blocks_of_def)
  have "map fn_address (an_functions a) = map fst (map function_extent (an_functions a))" by (simp add: function_extent_def comp_def)
  also have "\<dots> = map fst (map function_extent (an_functions a0))" using l by (simp add: same_layout_def)
  finally have "set (map fn_address (an_functions a)) = set (map fn_address (an_functions a0))"
    by (simp add: function_extent_def comp_def)
  then have "fn_address ` set (an_functions a) = fn_address ` set (an_functions a0)" by simp
  moreover have "block_instructions a b = block_instructions a0 b"
    using l by (simp add: block_instructions_def same_layout_def)
  ultimately show "tail_candidate a (an_functions a ! k) b i = tail_candidate a0 (an_functions a0 ! k) b i"
    using layout_extent [OF l k] by (simp add: tail_candidate_def)
qed

lemma overlapping_entry_result:
  assumes r: "overlapping_entry h k j a = (Inr (), a')" and b: "boundary_state a0 a"
    and k: "k < length (an_functions a0)" "j < length (an_functions a0)"
  defines "f \<equiv> an_functions a0 ! k" and "g \<equiv> an_functions a0 ! j"
  shows "boundary_state a0 a' \<and> recorded a' = recorded a \<union> (if entry_candidate a0 f g then entry_records f g else {})"
proof -
  have l: "same_layout a0 a" using b by (simp add: boundary_state_def)
  have c: "fn_address (an_functions a ! j) = fn_address (an_functions a ! k) \<or>
      \<not> function_contains_address a (an_functions a ! k) (fn_address (an_functions a ! j)) \<longleftrightarrow> \<not> entry_candidate a0 f g"
    using layout_candidates(1) [OF l k] by (auto simp: entry_candidate_def function_contains_address_def f_def g_def)
  note e = layout_extent(1) [OF l k(1)] layout_extent(1) [OF l k(2)]
  show ?thesis
  proof (cases "entry_candidate a0 f g")
    case False
    then have "a' = a" using r c by (simp add: overlapping_entry_def Let_def)
    then show ?thesis using b False by simp
  next
    case True
    then obtain a1 where s: "add_split h (fn_address f) (fn_address g) (fn_address g) SPLIT_OVERLAPPING_ENTRY a = (Inr (), a1)"
      and a': "a' = update_function k (\<lambda>f. f\<lparr>fn_splits := fn_splits f + 1\<rparr>) a1"
      using r c e unfolding overlapping_entry_def Let_def f_def g_def by (auto elim!: pbind_okE)
    have "boundary_state a0 a'" "recorded a' = recorded a1"
      unfolding a' using count_result [of "\<lambda>f. f\<lparr>fn_splits := fn_splits f + 1\<rparr>" a0 a1 k] add_split_result(1) [OF s b]
      by (simp_all add: function_extent_def)
    then show ?thesis using True add_split_result(2) [OF s b] by (simp add: entry_records_def)
  qed
qed

lemma tail_branch_result:
  assumes r: "tail_branch h k j a = (Inr (), a')" and b: "boundary_state a0 a" and k: "k < length (an_functions a0)"
  defines "f \<equiv> an_functions a0 ! k"
  shows "boundary_state a0 a' \<and>
    recorded a' = recorded a \<union> (\<Union>i \<in> {i. tail_candidate a0 f (an_blocks a0 ! j) i}. tail_records f i)"
proof -
  have l: "same_layout a0 a" using b by (simp add: boundary_state_def)
  have blocks: "an_blocks a = an_blocks a0" using l by (simp add: same_layout_def)
  note e = layout_extent(1) [OF l k]
  have c: "leaves_by_tail a (an_functions a ! k) (an_blocks a ! j) = Some i \<longleftrightarrow> tail_candidate a0 f (an_blocks a0 ! j) i" for i
    using layout_candidates(2) [OF l k] by (simp add: leaves_by_tail_iff f_def blocks)
  show ?thesis
  proof (cases "leaves_by_tail a (an_functions a ! k) (an_blocks a ! j)")
    case None
    then have "{i. tail_candidate a0 f (an_blocks a0 ! j) i} = {}" using c by (metis (no_types, lifting) Collect_empty_eq option.distinct(1))
    moreover have "a' = a" using r None by (simp add: tail_branch_def Let_def)
    ultimately show ?thesis using b by simp
  next
    case (Some i)
    have "tail_candidate a0 f (an_blocks a0 ! j) x \<longleftrightarrow> x = i" for x using c [of x] Some by auto
    then have only: "{i. tail_candidate a0 f (an_blocks a0 ! j) i} = {i}" by simp
    let ?u = "\<lambda>f. f\<lparr>fn_tail_calls := fn_tail_calls f + 1, fn_splits := fn_splits f + 1\<rparr>"
    obtain a1 a2 where s: "add_split h (fn_address f) (target i) (i_address i) SPLIT_TAIL_BRANCH a = (Inr (), a1)"
      and x: "vf2_i960_analysis_record_xref h (i_address i) (target i) XREF_CALL a1 = (Inr (), a2)"
      and a': "a' = update_function k ?u a2"
      using r Some e unfolding tail_branch_def Let_def f_def by (auto elim!: pbind_okE)
    note s1 = add_split_result [OF s b]
    note x1 = record_xref_result [OF x s1(1)]
    have "boundary_state a0 a'" "recorded a' = recorded a2"
      unfolding a' using count_result [of ?u a0 a2 k] x1(1) by (simp_all add: function_extent_def)
    then show ?thesis using s1(2) x1(2) unfolding only by (simp add: tail_records_def insert_commute)
  qed
qed

text \<open>All of one function, and all functions.\<close>

definition boundary_records :: "vf2_i960_analysis \<Rightarrow> vf2_function \<Rightarrow> (vf2_function_split + vf2_xref) set" where
  "boundary_records a f =
     (\<Union>g \<in> {g \<in> set (an_functions a). entry_candidate a f g}. entry_records f g) \<union>
     (\<Union>b \<in> set (blocks_of a f). \<Union>i \<in> {i. tail_candidate a f b i}. tail_records f i)"

lemma function_boundaries_result:
  assumes r: "function_boundaries h k a = (Inr (), a')" and b: "boundary_state a0 a" and k: "k < length (an_functions a0)"
  shows "boundary_state a0 a' \<and> recorded a' = recorded a \<union> boundary_records a0 (an_functions a0 ! k)"
proof -
  let ?f = "an_functions a0 ! k" and ?n = "length (an_functions a0)"
  have len: "length (an_functions x) = ?n" if "boundary_state a0 x" for x
    using that by (metis boundary_state_def length_map same_layout_def)
  obtain a1 where 1: "pfor [0..<?n] (overlapping_entry h k) a = (Inr (), a1)"
    and 2: "pfor [fn_first_block (an_functions a1 ! k)..<fn_first_block (an_functions a1 ! k) + fn_block_count (an_functions a1 ! k)]
      (tail_branch h k) a1 = (Inr (), a')"
    using r len [OF b] by (auto simp: function_boundaries_def Let_def elim!: pbind_okE)
  have first: "boundary_state a0 a1 \<and> recorded a1 = recorded a \<union> (\<Union>j \<in> set [0..<?n].
      if entry_candidate a0 ?f (an_functions a0 ! j) then entry_records ?f (an_functions a0 ! j) else {})"
    by (rule pfor_collects [where P = "boundary_state a0" and g = recorded, OF _ 1 b]) (rule overlapping_entry_result, simp_all add: k)
  have ext: "fn_first_block (an_functions a1 ! k) = fn_first_block ?f" "fn_block_count (an_functions a1 ! k) = fn_block_count ?f"
    using layout_extent [of a0 a1 k] first k by (simp_all add: boundary_state_def)
  have second: "boundary_state a0 a' \<and> recorded a' = recorded a1 \<union>
      (\<Union>j \<in> set [fn_first_block ?f..<fn_first_block ?f + fn_block_count ?f].
        \<Union>i \<in> {i. tail_candidate a0 ?f (an_blocks a0 ! j) i}. tail_records ?f i)"
    by (rule pfor_collects [where P = "boundary_state a0" and g = recorded, OF _ 2 [unfolded ext]]) (rule tail_branch_result, simp_all add: k first)
  have "(\<Union>j \<in> set [0..<?n]. if entry_candidate a0 ?f (an_functions a0 ! j) then entry_records ?f (an_functions a0 ! j) else {})
      = (\<Union>g \<in> {g \<in> set (an_functions a0). entry_candidate a0 ?f g}. entry_records ?f g)"
    by (auto simp: in_set_conv_nth split: if_splits) blast
  then show ?thesis using first second by (simp add: boundary_records_def blocks_of_def Un_assoc)
qed

lemma UN_indices: "(\<Union>k \<in> set [0..<length xs]. B (xs ! k)) = (\<Union>x \<in> set xs. B x)"
proof -
  have "(\<exists>k < length xs. y \<in> B (xs ! k)) \<longleftrightarrow> (\<exists>x \<in> set xs. y \<in> B x)" for y by (metis in_set_conv_nth)
  then show ?thesis by (auto simp: atLeast0LessThan)
qed

text \<open>After a run that succeeds the splits are the candidates, each once; the tail branches are calls
  among the cross-references, and nothing else was added there.\<close>

lemma detect_boundaries_result:
  assumes "vf2_i960_detect_function_boundaries h a = (Inr (), a')"
  shows "same_layout a a'" and "distinct (an_splits a')"
    and "recorded a' = Inr ` set (an_xrefs a) \<union> (\<Union>f \<in> set (an_functions a). boundary_records a f)"
proof -
  let ?a = "a\<lparr>an_splits := [], an_split_capacity := 0,
      an_functions := map (\<lambda>f. f\<lparr>fn_tail_calls := 0, fn_splits := 0\<rparr>) (an_functions a)\<rparr>"
  have start: "boundary_state a ?a" by (simp add: boundary_state_def same_layout_def function_extent_def comp_def)
  have "boundary_state a a' \<and> recorded a' = recorded ?a \<union> (\<Union>k \<in> set [0..<length (an_functions a)]. boundary_records a (an_functions a ! k))"
  proof (rule pfor_collects [where P = "boundary_state a" and g = recorded, OF _ _ start])
    show "pfor [0..<length (an_functions a)] (function_boundaries h) ?a = (Inr (), a')"
      using assms by (simp add: vf2_i960_detect_function_boundaries_def)
  qed (rule function_boundaries_result, simp_all)
  moreover have "(\<Union>k \<in> set [0..<length (an_functions a)]. boundary_records a (an_functions a ! k))
      = (\<Union>f \<in> set (an_functions a). boundary_records a f)"
    by (rule UN_indices)
  ultimately show "same_layout a a'" "distinct (an_splits a')"
    "recorded a' = Inr ` set (an_xrefs a) \<union> (\<Union>f \<in> set (an_functions a). boundary_records a f)"
    by (simp_all add: boundary_state_def recorded_def)
qed

end
