(* ===== verification/Vf2_Semantics.thy ===== *)
theory Vf2_Semantics
  imports Vf2_Boundaries
begin

text \<open>
  Abstract interpretation of functions (\<open>src/analysis/semantics.c\<close>): abstract register values carried
  over the basic blocks of a function, the targets of indirect branches and calls they give, and the
  registers and the frame a function uses. An \<open>int64_t\<close> is its 64-bit pattern, so that sums wrap
  where the code's overflow is undefined. The images are those below 4 GiB, as in \<open>Vf2_Cfg\<close>.
\<close>

section \<open>Values\<close>

definition VF2_I960_G0 :: nat where "VF2_I960_G0 = 16"
definition VF2_I960_G7 :: nat where "VF2_I960_G7 = 23"
definition VF2_I960_FP :: nat where "VF2_I960_FP = 31"
definition VF2_I960_SP :: nat where "VF2_I960_SP = 1"
definition VF2_MAX_TABLE_ENTRIES :: nat where "VF2_MAX_TABLE_ENTRIES = 128"

type_synonym register_state = "nat \<Rightarrow> vf2_abstract_value"

definition unknown_value :: vf2_abstract_value where
  "unknown_value = \<lparr>v_kind = VALUE_UNKNOWN, v_value = 0, v_table_base = 0, v_table_scale = 0, v_argument_register = 0\<rparr>"

definition constant_value :: "u64 \<Rightarrow> vf2_abstract_value" where
  "constant_value number = unknown_value\<lparr>v_kind := VALUE_CONSTANT, v_value := number\<rparr>"

definition stack_value :: "u64 \<Rightarrow> vf2_abstract_value" where
  "stack_value offset = unknown_value\<lparr>v_kind := VALUE_STACK_RELATIVE, v_value := offset\<rparr>"

definition argument_value :: "u8 \<Rightarrow> vf2_abstract_value" where
  "argument_value reg = unknown_value\<lparr>v_kind := VALUE_ARGUMENT, v_argument_register := reg\<rparr>"

definition table_value :: "u32 \<Rightarrow> u8 \<Rightarrow> vf2_abstract_value" where
  "table_value tb sc = unknown_value\<lparr>v_kind := VALUE_TABLE_LOOKUP, v_table_base := tb, v_table_scale := sc\<rparr>"

text \<open>\<open>values_equal\<close> compares every field. Merging returns whether a value was given up.\<close>

definition merges :: "vf2_abstract_value \<Rightarrow> vf2_abstract_value \<Rightarrow> bool" where
  "merges d s \<longleftrightarrow> d \<noteq> s \<and> v_kind d \<noteq> VALUE_UNKNOWN"

definition merge_state :: "register_state \<Rightarrow> register_state \<Rightarrow> register_state \<times> bool" where
  "merge_state d s =
     ((\<lambda>k. if k < 32 \<and> merges (d k) (s k) then unknown_value else d k), list_ex (\<lambda>k. merges (d k) (s k)) [0..<32])"

section \<open>Facts and targets\<close>

definition add_constant_fact :: "host \<Rightarrow> u32 \<Rightarrow> u8 \<Rightarrow> vf2_abstract_value \<Rightarrow> (vf2_i960_analysis, unit) prog" where
  "add_constant_fact h address reg value a =
     (let x = \<lparr>cf_address = address, cf_reg = reg, cf_value = value\<rparr>
      in if v_kind value = VALUE_UNKNOWN \<or> x \<in> set (an_facts a) then (Inr (), a)
         else append_array h 64 (length (an_facts a)) (an_fact_capacity a)
                (\<lambda>c a. a\<lparr>an_fact_capacity := c, an_facts := an_facts a @ [x]\<rparr>) a)"

definition add_indirect_target ::
    "host \<Rightarrow> u32 \<Rightarrow> u32 \<Rightarrow> u32 \<Rightarrow> vf2_indirect_target_kind \<Rightarrow> u8 \<Rightarrow> (vf2_i960_analysis, unit) prog" where
  "add_indirect_target h source targ table_base kind confidence a =
     (if list_ex (\<lambda>x. it_source x = source \<and> it_target x = targ \<and> it_kind x = kind) (an_targets a) then (Inr (), a)
      else append_array h 64 (length (an_targets a)) (an_target_capacity a)
             (\<lambda>c a. a\<lparr>an_target_capacity := c, an_targets := an_targets a @
                [\<lparr>it_source = source, it_target = targ, it_table_base = table_base, it_kind = kind,
                  it_confidence = confidence\<rparr>]\<rparr>) a)"

section \<open>Evaluation\<close>

text \<open>The register of an operand. Operands of another kind have none; \<open>value.reg\<close> is read of registers only.\<close>

definition any_register :: "vf2_i960_operand \<Rightarrow> u8 option" where
  "any_register operand = (case opvalue operand of
     OPERAND_REGISTER r \<Rightarrow> Some r | OPERAND_FP_REGISTER r \<Rightarrow> Some r | OPERAND_SPECIAL_REGISTER r \<Rightarrow> Some r | _ \<Rightarrow> None)"

definition memory_of :: "vf2_i960_operand \<Rightarrow> vf2_i960_memory_operand option" where
  "memory_of operand = (case opvalue operand of OPERAND_MEMORY m \<Rightarrow> Some m | _ \<Rightarrow> None)"

definition evaluate_operand :: "vf2_i960_operand \<Rightarrow> register_state \<Rightarrow> vf2_abstract_value" where
  "evaluate_operand operand st = (case opvalue operand of
     OPERAND_REGISTER r \<Rightarrow> st (unat r)
   | OPERAND_FP_REGISTER r \<Rightarrow> st (unat r)
   | OPERAND_SPECIAL_REGISTER r \<Rightarrow> st (unat r)
   | OPERAND_LITERAL l \<Rightarrow> constant_value (scast l)
   | OPERAND_ADDRESS t \<Rightarrow> constant_value (ucast t)
   | _ \<Rightarrow> unknown_value)"

text \<open>The value with the base register: \<open>Inl\<close> is an early return, \<open>Inr\<close> the value so far and whether it has
  a component.\<close>

definition evaluate_base :: "vf2_i960_memory_operand \<Rightarrow> register_state \<Rightarrow> vf2_abstract_value + (vf2_abstract_value \<times> bool)" where
  "evaluate_base m st =
     (let d = scast (displacement m); b = st (unat (base m))
      in if has_base m then
           (if v_kind b = VALUE_TABLE_LOOKUP \<and> \<not> has_index m \<and> displacement m = 0 then Inl b
            else if v_kind b = VALUE_CONSTANT then Inr (constant_value (v_value b + d), True)
            else if v_kind b = VALUE_STACK_RELATIVE then Inr (stack_value (v_value b + d), True)
            else Inl unknown_value)
         else Inr (if absolute m \<or> ip_relative m then constant_value (ucast (resolved_address m)) else constant_value d,
                   absolute m \<or> ip_relative m \<or> displacement m \<noteq> 0))"

definition evaluate_memory_address :: "vf2_i960_memory_operand \<Rightarrow> register_state \<Rightarrow> vf2_abstract_value" where
  "evaluate_memory_address m st =
     (case evaluate_base m st of
        Inl v \<Rightarrow> v
      | Inr (r, has_component) \<Rightarrow>
          (let x = st (unat (index m))
           in if has_index m \<and> (v_kind x \<noteq> VALUE_CONSTANT \<or> v_kind r \<noteq> VALUE_CONSTANT \<and> v_kind r \<noteq> VALUE_STACK_RELATIVE)
              then unknown_value
              else if \<not> has_component then unknown_value
              else if has_index m then r\<lparr>v_value := v_value r + push_bit (unat (scale m)) (v_value x)\<rparr>
              else r))"

definition indexed_table_base :: "vf2_i960_memory_operand \<Rightarrow> register_state \<Rightarrow> u32 option" where
  "indexed_table_base m st =
     (if \<not> has_index m \<or> scale m \<noteq> 2 then None
      else
        let b0 = (if absolute m \<or> ip_relative m then ucast (resolved_address m) else scast (displacement m)) :: u64;
            bv = st (unat (base m));
            b = (if has_base m then b0 + v_value bv else b0)
        in if has_base m \<and> v_kind bv \<noteq> VALUE_CONSTANT then None
           else if sint b < 0 \<or> sint b > 0xffffffff then None
           else Some (ucast b))"

text \<open>The bound on the table is computed in 32 bits.\<close>

definition load_value :: "vf2_i960_analysis \<Rightarrow> string \<Rightarrow> vf2_i960_memory_operand \<Rightarrow> register_state \<Rightarrow> vf2_abstract_value" where
  "load_value a mn m st =
     (let address = evaluate_memory_address m st; v = v_value address; k = unat v; img = an_image a; size = an_size a;
          tb = (if has_index m \<and> v_kind (st (unat (index m))) \<noteq> VALUE_CONSTANT then indexed_table_base m st else None)
      in if tb \<noteq> None \<and> unat (the tb + 4) \<le> size then table_value (the tb) (scale m)
         else if v_kind address \<noteq> VALUE_CONSTANT \<or> sint v < 0 \<or> k \<ge> size then unknown_value
         else if mn = ''ldob'' then constant_value (ucast (img k))
         else if mn = ''ldib'' then constant_value (scast (img k))
         else if mn = ''ldos'' then
           (if k + 2 > size then unknown_value
            else constant_value (ucast (img k) OR push_bit 8 (ucast (img (k + 1)))))
         else if mn = ''ldis'' then
           (if k + 2 > size then unknown_value
            else constant_value (scast (ucast (img k) OR push_bit 8 (ucast (img (k + 1))) :: u16)))
         else if k + 4 \<le> size then constant_value (ucast (read_le32 img k))
         else unknown_value)"

definition binary_result :: "string \<Rightarrow> vf2_abstract_value \<Rightarrow> vf2_abstract_value \<Rightarrow> vf2_abstract_value" where
  "binary_result mn left right =
     (let l = v_value left; r = v_value right; lk = v_kind left; rk = v_kind right;
          add = (mn = ''addo'' \<or> mn = ''addi''); sub = (mn = ''subo'' \<or> mn = ''subi'');
          constants = (lk = VALUE_CONSTANT \<and> rk = VALUE_CONSTANT)
      in if add \<and> constants then constant_value (l + r)
         else if add \<and> lk = VALUE_STACK_RELATIVE \<and> rk = VALUE_CONSTANT then stack_value (l + r)
         else if add \<and> rk = VALUE_STACK_RELATIVE \<and> lk = VALUE_CONSTANT then stack_value (r + l)
         else if sub \<and> constants then constant_value (r - l)
         else if sub \<and> rk = VALUE_STACK_RELATIVE \<and> lk = VALUE_CONSTANT then stack_value (r - l)
         else if \<not> constants then unknown_value
         else if mn = ''and'' then constant_value (l AND r)
         else if mn = ''or'' then constant_value (l OR r)
         else if mn = ''xor'' then constant_value (l XOR r)
         else if mn = ''shlo'' \<or> mn = ''shli'' then constant_value (push_bit (unat (l AND 31)) r)
         else if mn = ''shro'' \<or> mn = ''shri'' then constant_value (drop_bit (unat (l AND 31)) r)
         else if mn = ''mulo'' \<or> mn = ''muli'' then constant_value (l * r)
         else unknown_value)"

section \<open>Transfer\<close>

definition set_destination :: "vf2_i960_operand \<Rightarrow> vf2_abstract_value \<Rightarrow> register_state \<Rightarrow> register_state" where
  "set_destination operand value st =
     (case any_register operand of
        None \<Rightarrow> st
      | Some r \<Rightarrow> if is_destination operand then st(unat r := value) else st)"

text \<open>The operand an instruction defines and its value; \<open>None\<close> when it is not one the analysis evaluates.\<close>

definition transfer_result ::
    "vf2_i960_analysis \<Rightarrow> vf2_i960_instruction \<Rightarrow> register_state \<Rightarrow> (nat \<times> vf2_abstract_value) option" where
  "transfer_result a i st =
     (let name = mnemonic i; count = unat (operand_count i)
      in case (memory_of (operands i 0), name = ''lda'' \<and> count \<ge> 2, take 2 name = ''ld'' \<and> count \<ge> 2) of
           (Some m, True, _) \<Rightarrow> Some (1, evaluate_memory_address m st)
         | (Some m, False, True) \<Rightarrow> Some (1, load_value a name m st)
         | _ \<Rightarrow>
             if name \<in> set [''mov'', ''movr'', ''movl'', ''movt'', ''movq''] \<and> count \<ge> 2
             then Some (1, evaluate_operand (operands i 0) st)
             else if count \<ge> 3 \<and> is_destination (operands i 2)
             then Some (2, binary_result name (evaluate_operand (operands i 0) st) (evaluate_operand (operands i 1) st))
             else None)"

definition forget :: "vf2_i960_instruction \<Rightarrow> nat \<Rightarrow> register_state \<Rightarrow> register_state" where
  "forget i k st =
     (case opvalue (operands i k) of
        OPERAND_REGISTER r \<Rightarrow> if is_destination (operands i k) then st(unat r := unknown_value) else st
      | _ \<Rightarrow> st)"

definition transfer_state :: "vf2_i960_analysis \<Rightarrow> vf2_i960_instruction \<Rightarrow> register_state \<Rightarrow> register_state" where
  "transfer_state a i st =
     (let st1 = (case transfer_result a i st of
                   Some (k, v) \<Rightarrow> set_destination (operands i k) v st
                 | None \<Rightarrow> fold (forget i) [0..<unat (operand_count i)] st)
      in if flow i = FLOW_CALL then (\<lambda>k. if VF2_I960_G0 \<le> k \<and> k \<le> 30 then unknown_value else st1 k) else st1)"

text \<open>\<open>transfer_instruction\<close> with \<open>record_facts\<close>: the fact recorded. Without it the analysis does not change
  and the transfer does not fail.\<close>

definition record_fact :: "host \<Rightarrow> vf2_i960_instruction \<Rightarrow> register_state \<Rightarrow> (vf2_i960_analysis, unit) prog" where
  "record_fact h i st a =
     (case transfer_result a i st of
        None \<Rightarrow> (Inr (), a)
      | Some (k, v) \<Rightarrow>
          (case any_register (operands i k) of
             None \<Rightarrow> (Inr (), a)
           | Some r \<Rightarrow> add_constant_fact h (i_address i) r v a))"

section \<open>Indirect targets\<close>

text \<open>Blocks of a function by their number in it.\<close>

definition function_block_index :: "vf2_i960_analysis \<Rightarrow> vf2_function \<Rightarrow> u32 \<Rightarrow> nat option" where
  "function_block_index a f address =
     find (\<lambda>k. bb_start (an_blocks a ! (fn_first_block f + k)) = address) [0..<fn_block_count f]"

definition find_source_block :: "vf2_i960_analysis \<Rightarrow> vf2_function \<Rightarrow> u32 \<Rightarrow> nat option" where
  "find_source_block a f address =
     find (\<lambda>k. block_contains (an_blocks a ! k) address) [fn_first_block f..<fn_first_block f + fn_block_count f]"

definition add_block_successor :: "nat option \<Rightarrow> u32 \<Rightarrow> vf2_i960_analysis \<Rightarrow> vf2_i960_analysis" where
  "add_block_successor block targ a =
     (case block of
        None \<Rightarrow> a
      | Some k \<Rightarrow>
          (let b = an_blocks a ! k
           in if targ \<in> set (bb_successors b) \<or> length (bb_successors b) \<ge> VF2_MAX_BLOCK_SUCCESSORS then a
              else a\<lparr>an_blocks := (an_blocks a)[k := b\<lparr>bb_successors := bb_successors b @ [targ]\<rparr>]\<rparr>))"

definition valid_target :: "vf2_i960_analysis \<Rightarrow> u32 \<Rightarrow> bool" where
  "valid_target a targ \<longleftrightarrow> targ AND 3 = 0 \<and> unat targ + 4 \<le> an_size a \<and> instruction_at a targ \<noteq> None"

definition count_resolved :: "nat \<Rightarrow> nat \<Rightarrow> vf2_i960_analysis \<Rightarrow> vf2_i960_analysis" where
  "count_resolved k n a =
     update_function k (\<lambda>f. f\<lparr>fn_resolved := fn_resolved f + n\<rparr>) (a\<lparr>an_resolved := an_resolved a + n\<rparr>)"

definition count_unresolved :: "nat \<Rightarrow> vf2_i960_analysis \<Rightarrow> vf2_i960_analysis" where
  "count_unresolved k a =
     update_function k (\<lambda>f. f\<lparr>fn_unresolved := fn_unresolved f + 1\<rparr>) (a\<lparr>an_unresolved := an_unresolved a + 1\<rparr>)"

definition record_indirect ::
    "host \<Rightarrow> vf2_i960_instruction \<Rightarrow> u32 \<Rightarrow> u32 \<Rightarrow> vf2_indirect_target_kind \<Rightarrow> u8 \<Rightarrow> nat option \<Rightarrow> (vf2_i960_analysis, unit) prog" where
  "record_indirect h i targ table_base kind confidence block =
     pbind (add_indirect_target h (i_address i) targ table_base kind confidence)
       (\<lambda>_. pbind (vf2_i960_analysis_record_xref h (i_address i) targ (if flow i = FLOW_CALL then XREF_CALL else XREF_BRANCH))
         (\<lambda>_ a. (Inr (), if flow i = FLOW_BRANCH then add_block_successor block targ a else a)))"

text \<open>The loop over the entries of a table, with the count of valid ones and the length of the run of invalid ones.\<close>

primrec table_entries ::
    "host \<Rightarrow> vf2_i960_instruction \<Rightarrow> u32 \<Rightarrow> nat option \<Rightarrow> nat list \<Rightarrow> nat \<Rightarrow> nat \<Rightarrow> (vf2_i960_analysis, nat) prog" where
  "table_entries h i table_base block [] valid_count invalid_run a = (Inr valid_count, a)"
| "table_entries h i table_base block (entry # es) valid_count invalid_run a =
     (let offset = unat table_base + entry * 4; targ = read_le32 (an_image a) offset
      in if offset + 4 > an_size a then (Inr valid_count, a)
         else if \<not> valid_target a targ then
           (if valid_count \<ge> 2 \<and> invalid_run + 1 \<ge> 2 \<or> valid_count = 0 \<and> invalid_run + 1 \<ge> 4 then (Inr valid_count, a)
            else table_entries h i table_base block es valid_count (invalid_run + 1) a)
         else pbind (record_indirect h i targ table_base
                  (if flow i = FLOW_CALL then INDIRECT_CALL else INDIRECT_JUMP_TABLE) 85 block)
                (\<lambda>_. table_entries h i table_base block es (valid_count + 1) 0) a)"

definition resolve_table :: "host \<Rightarrow> nat \<Rightarrow> vf2_i960_instruction \<Rightarrow> u32 \<Rightarrow> (vf2_i960_analysis, unit) prog" where
  "resolve_table h k i table_base a =
     pbind (table_entries h i table_base (find_source_block a (an_functions a ! k) (i_address i)) [0..<VF2_MAX_TABLE_ENTRIES] 0 0)
       (\<lambda>valid_count a. (Inr (), if valid_count \<ge> 2 then count_resolved k valid_count a else count_unresolved k a)) a"

definition resolve_indirect :: "host \<Rightarrow> nat \<Rightarrow> vf2_i960_instruction \<Rightarrow> register_state \<Rightarrow> (vf2_i960_analysis, unit) prog" where
  "resolve_indirect h k i st a =
     (case memory_of (operands i 0) of
        None \<Rightarrow> (Inr (), a)
      | Some m \<Rightarrow>
          (let t = evaluate_memory_address m st; address = ucast (v_value t)
           in if \<not> indirect i \<or> operand_count i = 0 then (Inr (), a)
              else if v_kind t = VALUE_CONSTANT \<and> 0 \<le> sint (v_value t) \<and> sint (v_value t) \<le> 0xffffffff \<and> valid_target a address then
                pbind (record_indirect h i address 0 (if flow i = FLOW_CALL then INDIRECT_CALL else INDIRECT_BRANCH) 95
                    (find_source_block a (an_functions a ! k) (i_address i)))
                  (\<lambda>_ a. (Inr (), count_resolved k 1 a)) a
              else if v_kind t = VALUE_TABLE_LOOKUP then resolve_table h k i (v_table_base t) a
              else (Inr (), count_unresolved k a)))"

section \<open>Register usage\<close>

record register_usage =
  ru_function :: vf2_function
  ru_written :: "nat \<Rightarrow> bool"
  ru_stack :: nat

definition inspect_register :: "vf2_i960_operand \<Rightarrow> nat \<Rightarrow> register_usage \<Rightarrow> register_usage" where
  "inspect_register operand reg u =
     (let f = ru_function u;
          f1 = (if \<not> is_destination operand \<and> VF2_I960_G0 \<le> reg \<and> reg \<le> VF2_I960_G7 \<and> \<not> ru_written u reg
                then f\<lparr>fn_arguments := fn_arguments f OR push_bit (reg - VF2_I960_G0) 1\<rparr> else f);
          f2 = (if reg = VF2_I960_FP then f1\<lparr>fn_frame_pointer := True\<rparr> else f1)
      in u\<lparr>ru_function := f2,
           ru_written := (if is_destination operand then (ru_written u)(reg := True) else ru_written u)\<rparr>)"

definition inspect_memory :: "vf2_i960_memory_operand \<Rightarrow> register_usage \<Rightarrow> register_usage" where
  "inspect_memory m u =
     (let f = ru_function u; b = unat (base m); offset = nat \<bar>sint (displacement m)\<bar>
      in u\<lparr>ru_function := (if has_base m \<and> b = VF2_I960_FP then f\<lparr>fn_frame_pointer := True\<rparr> else f),
           ru_stack := (if has_base m \<and> (b = VF2_I960_FP \<or> b = VF2_I960_SP) \<and> offset > ru_stack u then offset
                        else ru_stack u)\<rparr>)"

definition inspect_operand :: "vf2_i960_operand \<Rightarrow> register_usage \<Rightarrow> register_usage" where
  "inspect_operand operand u =
     (case any_register operand of
        Some r \<Rightarrow> inspect_register operand (unat r) u
      | None \<Rightarrow> (case memory_of operand of Some m \<Rightarrow> inspect_memory m u | None \<Rightarrow> u))"

definition inspect_register_usage :: "vf2_i960_instruction \<Rightarrow> register_usage \<Rightarrow> register_usage" where
  "inspect_register_usage i u =
     (let u1 = fold (\<lambda>k. inspect_operand (operands i k)) [0..<unat (operand_count i)] u;
          f = ru_function u1;
          f1 = (if flow i = FLOW_CALL then f\<lparr>fn_leaf := False\<rparr> else f);
          f2 = (if flow i = FLOW_RETURN \<and> ru_written u1 VF2_I960_G0
                then f1\<lparr>fn_returns := fn_returns f1 OR 1, fn_return_value := True\<rparr> else f1)
      in u1\<lparr>ru_function := f2\<rparr>)"

section \<open>The work list\<close>

record work_list =
  wl_inputs :: "register_state list"
  wl_initialized :: "bool list"
  wl_queued :: "bool list"
  wl_queue :: "nat list"
  wl_cursor :: nat

text \<open>The queue has room for eight visits of every block and one more.\<close>

definition queue_room :: "nat \<Rightarrow> nat" where "queue_room count = count * 8 + 1"

definition entry_state :: register_state where
  "entry_state = (\<lambda>k. if k = VF2_I960_SP \<or> k = VF2_I960_FP then stack_value 0
     else if VF2_I960_G0 \<le> k \<and> k \<le> VF2_I960_G7 then argument_value (of_nat k) else unknown_value)"

definition initial_work :: "nat \<Rightarrow> work_list" where
  "initial_work count =
     \<lparr>wl_inputs = (replicate count (\<lambda>_. unknown_value))[0 := entry_state], wl_initialized = (replicate count False)[0 := True],
      wl_queued = (replicate count False)[0 := True], wl_queue = [0], wl_cursor = 0\<rparr>"

definition block_output :: "vf2_i960_analysis \<Rightarrow> vf2_basic_block \<Rightarrow> register_state \<Rightarrow> register_state" where
  "block_output a b st = fold (transfer_state a) (block_instructions a b) st"

text \<open>A block's output reaches one of its successors.\<close>

definition flow_into :: "nat \<Rightarrow> register_state \<Rightarrow> nat option \<Rightarrow> work_list \<Rightarrow> work_list" where
  "flow_into count st successor w =
     (case successor of
        None \<Rightarrow> w
      | Some n \<Rightarrow>
          (let m = (if wl_initialized w ! n then merge_state (wl_inputs w ! n) st else (st, True));
               w1 = w\<lparr>wl_inputs := (wl_inputs w)[n := fst m], wl_initialized := (wl_initialized w)[n := True]\<rparr>
           in if snd m \<and> \<not> wl_queued w ! n \<and> length (wl_queue w) < queue_room count
              then w1\<lparr>wl_queue := wl_queue w @ [n], wl_queued := (wl_queued w)[n := True]\<rparr> else w1))"

definition visit_block :: "vf2_i960_analysis \<Rightarrow> vf2_function \<Rightarrow> nat \<Rightarrow> work_list \<Rightarrow> work_list" where
  "visit_block a f j w =
     (let b = an_blocks a ! (fn_first_block f + j); st = block_output a b (wl_inputs w ! j)
      in fold (\<lambda>s. flow_into (fn_block_count f) st (function_block_index a f s)) (bb_successors b)
           (w\<lparr>wl_queued := (wl_queued w)[j := False]\<rparr>))"

text \<open>A visit leaves the cursor and only extends the queue, within its room.\<close>

definition queue_after :: "nat \<Rightarrow> work_list \<Rightarrow> work_list \<Rightarrow> bool" where
  "queue_after count w w' \<longleftrightarrow> wl_cursor w' = wl_cursor w \<and> (\<exists>q. wl_queue w' = wl_queue w @ q) \<and>
     length (wl_queue w') \<le> max (queue_room count) (length (wl_queue w))"

lemma queue_after_refl: "queue_after count w w"
  by (simp add: queue_after_def)

lemma queue_after_trans: "\<lbrakk>queue_after count u v; queue_after count v w\<rbrakk> \<Longrightarrow> queue_after count u w"
  by (auto simp: queue_after_def)

lemma flow_into_queue: "queue_after count w (flow_into count st n w)"
  by (auto simp: flow_into_def queue_after_def Let_def split: option.split)

lemma fold_flow_queue: "queue_after count w (fold (\<lambda>s. flow_into count st (g s)) ss w)"
  by (induction ss arbitrary: w) (auto intro: queue_after_refl queue_after_trans flow_into_queue)

lemma visit_block_queue: "queue_after (fn_block_count f) w (visit_block a f j w)"
proof -
  from fold_flow_queue [of "fn_block_count f" "w\<lparr>wl_queued := (wl_queued w)[j := False]\<rparr>"] show ?thesis
    by (simp add: visit_block_def Let_def queue_after_def)
qed

function propagate :: "vf2_i960_analysis \<Rightarrow> vf2_function \<Rightarrow> work_list \<Rightarrow> work_list" where
  "propagate a f w =
     (if wl_cursor w \<ge> length (wl_queue w) then w
      else propagate a f (visit_block a f (wl_queue w ! wl_cursor w) (w\<lparr>wl_cursor := wl_cursor w + 1\<rparr>)))"
  by pat_completeness auto

termination
proof (relation "measure (\<lambda>(a, f, w). max (queue_room (fn_block_count f)) (length (wl_queue w)) - wl_cursor w)", goal_cases)
  case (2 a f w)
  have "queue_after (fn_block_count f) (w\<lparr>wl_cursor := wl_cursor w + 1\<rparr>)
    (visit_block a f (wl_queue w ! wl_cursor w) (w\<lparr>wl_cursor := wl_cursor w + 1\<rparr>))" by (rule visit_block_queue)
  then show ?case using 2 by (auto simp: queue_after_def)
qed simp

declare propagate.simps [simp del]

section \<open>Functions\<close>

record semantic_walk =
  sw_analysis :: vf2_i960_analysis
  sw_written :: "nat \<Rightarrow> bool"
  sw_stack :: nat
  sw_registers :: register_state

definition walk_instruction :: "host \<Rightarrow> nat \<Rightarrow> vf2_i960_instruction \<Rightarrow> (semantic_walk, unit) prog" where
  "walk_instruction h k i s =
     (let a = sw_analysis s; st = sw_registers s;
          u = inspect_register_usage i \<lparr>ru_function = an_functions a ! k, ru_written = sw_written s, ru_stack = sw_stack s\<rparr>;
          s1 = s\<lparr>sw_written := ru_written u, sw_stack := ru_stack u\<rparr>
      in case resolve_indirect h k i st (update_function k (\<lambda>_. ru_function u) a) of
           (Inl e, a1) \<Rightarrow> (Inl e, s1\<lparr>sw_analysis := a1\<rparr>)
         | (Inr _, a1) \<Rightarrow>
             (case record_fact h i st a1 of
                (r, a2) \<Rightarrow> (r, s1\<lparr>sw_analysis := a2, sw_registers := transfer_state a1 i st\<rparr>)))"

definition walk_block :: "host \<Rightarrow> nat \<Rightarrow> work_list \<Rightarrow> nat \<Rightarrow> (semantic_walk, unit) prog" where
  "walk_block h k w j s =
     (let a = sw_analysis s; b = an_blocks a ! (fn_first_block (an_functions a ! k) + j)
      in pfor (block_instructions a b) (walk_instruction h k)
           (s\<lparr>sw_registers := wl_inputs w ! (if wl_initialized w ! j then j else 0)\<rparr>))"

definition frame_size :: "nat \<Rightarrow> u32" where
  "frame_size max_stack_offset =
     (let aligned = (max_stack_offset + 15) div 16 * 16 in if aligned > 0xffffffff then 0xffffffff else of_nat aligned)"

definition reset_semantics :: "vf2_function \<Rightarrow> vf2_function" where
  "reset_semantics f = f\<lparr>fn_leaf := True, fn_frame_pointer := False, fn_return_value := False, fn_frame_size := 0,
     fn_arguments := 0, fn_returns := 0, fn_resolved := 0, fn_unresolved := 0\<rparr>"

text \<open>The four arrays are requested before any result is looked at.\<close>

definition analyze_function_semantics :: "host \<Rightarrow> nat \<Rightarrow> (vf2_i960_analysis, unit) prog" where
  "analyze_function_semantics h k a =
     (let a0 = update_function k reset_semantics a; f = an_functions a0 ! k; count = fn_block_count f; n = an_allocations a0;
          a1 = a0\<lparr>an_allocations := n + 4\<rparr>
      in if count = 0 then (Inr (), a0)
         else if \<not> (\<forall>j \<in> {n, n + 1, n + 2, n + 3}. grants h j) then (Inl VF2_ERROR_OUT_OF_MEMORY, a1)
         else
           (case pfor [0..<count] (walk_block h k (propagate a1 f (initial_work count)))
                  \<lparr>sw_analysis = a1, sw_written = (\<lambda>_. False), sw_stack = 0, sw_registers = (\<lambda>_. unknown_value)\<rparr> of
              (Inl e, s) \<Rightarrow> (Inl e, sw_analysis s)
            | (Inr _, s) \<Rightarrow>
                (Inr (), if sw_stack s > 0
                   then update_function k (\<lambda>f. f\<lparr>fn_frame_size := frame_size (sw_stack s)\<rparr>) (sw_analysis s)
                   else sw_analysis s)))"

definition vf2_i960_run_semantic_analysis :: "host \<Rightarrow> (vf2_i960_analysis, unit) prog" where
  "vf2_i960_run_semantic_analysis h a =
     pfor [0..<length (an_functions a)] (analyze_function_semantics h)
       (a\<lparr>an_facts := [], an_fact_capacity := 0, an_targets := [], an_target_capacity := 0, an_resolved := 0,
          an_unresolved := 0\<rparr>)"

end
