(* ===== verification/Vf2_Cfg_Reach.thy ===== *)
theory Vf2_Cfg_Reach
  imports Vf2_Cfg
begin

text \<open>
  What the discovery of a function's instructions finds: the addresses reached from its entry by
  direct flow, no others, and the functions they call.
\<close>

section \<open>Direct flow\<close>

definition code_address :: "nat \<Rightarrow> u32 \<Rightarrow> bool" where
  "code_address n a \<longleftrightarrow> a AND 3 = 0 \<and> unat a + 4 \<le> n"

definition flow_successors :: "memory \<Rightarrow> nat \<Rightarrow> u32 \<Rightarrow> u32 set" where
  "flow_successors img n a =
     (case decoded_at img n a of
        None \<Rightarrow> {}
      | Some i \<Rightarrow>
          {t. code_address n t \<and>
              (flow i = FLOW_BRANCH \<and> (has_target i \<and> t = target i \<or> has_fallthrough i \<and> t = next_address a i) \<or>
               flow i \<noteq> FLOW_BRANCH \<and> \<not> ends_path i \<and> t = next_address a i)})"

definition call_targets :: "memory \<Rightarrow> nat \<Rightarrow> u32 \<Rightarrow> u32 set" where
  "call_targets img n a =
     (case decoded_at img n a of
        None \<Rightarrow> {}
      | Some i \<Rightarrow> {t. has_target i \<and> flow i = FLOW_CALL \<and> code_address n t \<and> t = target i})"

inductive flow_reaches :: "memory \<Rightarrow> nat \<Rightarrow> u32 \<Rightarrow> u32 \<Rightarrow> bool" for img n e where
  entry: "code_address n e \<Longrightarrow> flow_reaches img n e e"
| step: "flow_reaches img n e a \<Longrightarrow> b \<in> flow_successors img n a \<Longrightarrow> flow_reaches img n e b"

lemma flow_successors_valid: "b \<in> flow_successors img n a \<Longrightarrow> code_address n b"
  by (auto simp: flow_successors_def split: option.splits)

lemma flow_reaches_valid: "flow_reaches img n e a \<Longrightarrow> code_address n a"
  by (induction rule: flow_reaches.induct) (auto dest: flow_successors_valid)

text \<open>Words of the image.\<close>

definition word_address :: "nat \<Rightarrow> u32" where "word_address w = of_nat (4 * w)"

lemma unat_mod_4: "(a :: u32) AND 3 = 0 \<Longrightarrow> unat a mod 4 = 0"
proof -
  assume "a AND 3 = 0"
  then have "a mod 4 = 0" by (simp add: take_bit_eq_mask mask_eq_exp_minus_1 flip: take_bit_eq_mod [of 2 a, simplified])
  then have "unat (a mod 4) = 0" by simp
  then show "unat a mod 4 = 0" unfolding unat_mod by simp
qed

lemma word_address_of: "a AND 3 = 0 \<Longrightarrow> word_address (word_of a) = a"
proof -
  assume "a AND 3 = 0"
  then have "4 * (unat a div 4) = unat a" using unat_mod_4 [of a] by presburger
  then show ?thesis by (simp add: word_address_def word_of_def del: of_nat_mult)
qed

lemma word_of_inj: "\<lbrakk>a AND 3 = 0; b AND 3 = 0; word_of a = word_of b\<rbrakk> \<Longrightarrow> a = b"
  by (metis word_address_of)

lemma word_of_less: "code_address n a \<Longrightarrow> word_of a < (n + 3) div 4"
  by (auto simp: code_address_def word_of_def)

section \<open>The state of an exploration\<close>

text \<open>\<open>X\<close>: successors still to be queued; \<open>Z\<close>: queued addresses whose path is not yet followed though they
  are before the cursor; \<open>Y\<close>: calls still to be queued.\<close>

record exploration =
  ex_image :: memory
  ex_size :: nat
  ex_entry :: u32
  ex_functions :: "u32 set"
  ex_code :: "nat set"

definition code_bytes :: "memory \<Rightarrow> nat \<Rightarrow> u32 \<Rightarrow> nat set" where
  "code_bytes img n a =
     (case decoded_at img n a of None \<Rightarrow> {} | Some i \<Rightarrow> {k. unat a \<le> k \<and> k < unat a + unat (i_size i) \<and> k < n})"

abbreviation reached :: "exploration \<Rightarrow> u32 \<Rightarrow> bool" where
  "reached x \<equiv> flow_reaches (ex_image x) (ex_size x) (ex_entry x)"

definition marks_sound :: "exploration \<Rightarrow> nat list \<Rightarrow> bool" where
  "marks_sound x r \<longleftrightarrow> length r = (ex_size x + 3) div 4 \<and>
     (\<forall>w < length r.
        (r ! w = 1 \<longrightarrow> reached x (word_address w) \<and> decoded_at (ex_image x) (ex_size x) (word_address w) \<noteq> None) \<and>
        (r ! w = 3 \<longrightarrow> reached x (word_address w) \<and> decoded_at (ex_image x) (ex_size x) (word_address w) = None) \<and>
        (r ! w = 2 \<longrightarrow> (\<exists>a i. reached x a \<and> decoded_at (ex_image x) (ex_size x) a = Some i \<and> i_size i = 8 \<and> w = word_of a + 1)) \<and>
        r ! w \<le> 3)"

definition marks_closed :: "exploration \<Rightarrow> u32 set \<Rightarrow> nat list \<Rightarrow> u32 set \<Rightarrow> bool" where
  "marks_closed x X r pending \<longleftrightarrow>
     (\<forall>w < length r. r ! w = 1 \<longrightarrow>
        (\<forall>t \<in> flow_successors (ex_image x) (ex_size x) (word_address w). r ! word_of t \<noteq> 0 \<or> t \<in> pending \<or> t \<in> X))"

definition calls_closed :: "exploration \<Rightarrow> u32 set \<Rightarrow> nat list \<Rightarrow> u32 set \<Rightarrow> bool" where
  "calls_closed x Y r funs \<longleftrightarrow>
     (\<forall>w < length r. r ! w = 1 \<longrightarrow> call_targets (ex_image x) (ex_size x) (word_address w) \<subseteq> funs \<union> Y) \<and>
     ex_functions x \<subseteq> funs \<and>
     (\<forall>t \<in> funs. t \<in> ex_functions x \<or> (\<exists>a. reached x a \<and> t \<in> call_targets (ex_image x) (ex_size x) a))"

definition code_marked :: "exploration \<Rightarrow> nat list \<Rightarrow> (nat \<Rightarrow> vf2_image_class) \<Rightarrow> bool" where
  "code_marked x r m \<longleftrightarrow>
     (\<forall>w < length r. r ! w = 1 \<longrightarrow> (\<forall>k \<in> code_bytes (ex_image x) (ex_size x) (word_address w). m k = IMAGE_CODE)) \<and>
     (\<forall>k \<in> ex_code x. m k = IMAGE_CODE) \<and>
     (\<forall>k. m k = IMAGE_CODE \<longrightarrow> k \<in> ex_code x \<or> (\<exists>a. reached x a \<and> k \<in> code_bytes (ex_image x) (ex_size x) a))"

definition paths_followed :: "u32 set \<Rightarrow> nat list \<Rightarrow> u32 set \<Rightarrow> bool" where
  "paths_followed Z r ts \<longleftrightarrow> (\<forall>t \<in> ts. r ! word_of t \<noteq> 0 \<or> t \<in> Z)"

definition explored :: "exploration \<Rightarrow> u32 set \<Rightarrow> u32 set \<Rightarrow> u32 set \<Rightarrow> discovery \<Rightarrow> bool" where
  "explored x X Z Y s \<longleftrightarrow>
     an_image (ds_analysis s) = ex_image x \<and> an_size (ds_analysis s) = ex_size x \<and>
     marks_sound x (ds_reachable s) \<and> q_cursor (ds_path s) \<le> length (q_items (ds_path s)) \<and>
     (\<forall>t \<in> set (q_items (ds_path s)). reached x t) \<and> ex_entry x \<in> set (q_items (ds_path s)) \<and>
     paths_followed Z (ds_reachable s) (set (take (q_cursor (ds_path s)) (q_items (ds_path s)))) \<and>
     marks_closed x X (ds_reachable s) (set (drop (q_cursor (ds_path s)) (q_items (ds_path s)))) \<and>
     calls_closed x Y (ds_reachable s) (set (q_items (ds_functions s))) \<and>
     code_marked x (ds_reachable s) (an_map (ds_analysis s))"

section \<open>Steps of an exploration\<close>

lemma explored_valid:
  "explored x X Z Y s \<Longrightarrow> is_valid_code_address (ds_analysis s) t \<longleftrightarrow> code_address (ex_size x) t"
  by (simp add: explored_def is_valid_code_address_def code_address_def)

lemma explored_less:
  "\<lbrakk>explored x X Z Y s; code_address (ex_size x) t\<rbrakk> \<Longrightarrow> word_of t < length (ds_reachable s)"
  using word_of_less by (simp add: explored_def marks_sound_def)

text \<open>The exceptions that are marked or invalid can be dropped.\<close>

lemma explored_drop:
  assumes "explored x {a} {a} {} s"
    and "\<not> code_address (ex_size x) a \<or> ds_reachable s ! word_of a \<noteq> 0"
  shows "explored x {} {} {} s"
proof -
  have "t \<noteq> a \<or> ds_reachable s ! word_of a \<noteq> 0" if "code_address (ex_size x) t" for t
    using assms(2) that by auto
  then show ?thesis
    using assms(1) flow_successors_valid flow_reaches_valid in_set_takeD
    unfolding explored_def marks_closed_def paths_followed_def by (metis (no_types, lifting) empty_iff insert_iff)
qed

text \<open>Marking a word that does not decode.\<close>

lemma marks_sound_update:
  assumes "marks_sound x r" and "w < length r" and "v \<noteq> 0" and "v \<le> 3"
    and "v = 1 \<Longrightarrow> reached x (word_address w) \<and> decoded_at (ex_image x) (ex_size x) (word_address w) \<noteq> None"
    and "v = 3 \<Longrightarrow> reached x (word_address w) \<and> decoded_at (ex_image x) (ex_size x) (word_address w) = None"
    and "v = 2 \<Longrightarrow> \<exists>a i. reached x a \<and> decoded_at (ex_image x) (ex_size x) a = Some i \<and> i_size i = 8 \<and> w = word_of a + 1"
  shows "marks_sound x (r[w := v])"
  using assms by (auto simp: marks_sound_def nth_list_update)

lemma explored_invalid:
  assumes e: "explored x {a} {a} {} s" and a: "reached x a" "ds_reachable s ! word_of a = 0"
    and "instruction_at (ds_analysis s) a = None"
  shows "explored x {} {} {} (mark_invalid a s)"
proof -
  have v: "code_address (ex_size x) a" using a(1) by (rule flow_reaches_valid)
  have w: "word_of a < length (ds_reachable s)" "word_address (word_of a) = a"
    using explored_less [OF e v] word_address_of v by (simp_all add: code_address_def)
  have d: "decoded_at (ex_image x) (ex_size x) a = None" using assms(4) e by (simp add: explored_def)
  let ?r = "(ds_reachable s)[word_of a := 3]"
  have one: "?r ! u = 1 \<longleftrightarrow> u \<noteq> word_of a \<and> ds_reachable s ! u = 1" if "u < length (ds_reachable s)" for u
    using that by (cases "u = word_of a") simp_all
  have nonzero: "?r ! u \<noteq> 0" if "ds_reachable s ! u \<noteq> 0 \<or> u = word_of a" for u
    using that w(1) by (metis nth_list_update_eq nth_list_update_neq numeral_eq_one_iff zero_neq_numeral)
  have "marks_sound x ?r" using e a(1) w d by (intro marks_sound_update) (auto simp: explored_def)
  moreover have "marks_closed x {} ?r p" if "marks_closed x {a} (ds_reachable s) p" for p
    using that one nonzero unfolding marks_closed_def by (metis empty_iff insert_iff length_list_update)
  moreover have "calls_closed x {} ?r f" if "calls_closed x {} (ds_reachable s) f" for f
    using that one by (auto simp: calls_closed_def)
  moreover have "code_marked x ?r m" if "code_marked x (ds_reachable s) m" for m
    using that one by (auto simp: code_marked_def)
  moreover have "paths_followed {} ?r ts" if "paths_followed {a} (ds_reachable s) ts" for ts
    using that nonzero unfolding paths_followed_def by blast
  ultimately show ?thesis using e by (simp add: explored_def mark_invalid_def)
qed

text \<open>Marking an instruction: its successors and its calls are then still to be queued.\<close>

lemma explored_mark:
  assumes e: "explored x {a} {a} {} s" and a: "reached x a" "ds_reachable s ! word_of a = 0"
    and i: "instruction_at (ds_analysis s) a = Some i"
  shows "explored x (flow_successors (ex_image x) (ex_size x) a) {} (call_targets (ex_image x) (ex_size x) a)
    (mark_instruction a i s)"
proof -
  have v: "code_address (ex_size x) a" using a(1) by (rule flow_reaches_valid)
  have w: "word_of a < length (ds_reachable s)" "word_address (word_of a) = a"
    using explored_less [OF e v] word_address_of v by (simp_all add: code_address_def)
  have d: "decoded_at (ex_image x) (ex_size x) a = Some i" using i e by (simp add: explored_def)
  define r1 where "r1 = (ds_reachable s)[word_of a := 1]"
  define r where "r = (if i_size i = 8 \<and> word_of a + 1 < length r1 then r1[word_of a + 1 := 2] else r1)"
  have one: "u = word_of a \<or> ds_reachable s ! u = 1" if "u < length (ds_reachable s)" "r ! u = 1" for u
    using that by (cases "u = word_of a"; cases "u = word_of a + 1") (auto simp: r_def r1_def split: if_splits)
  have nonzero: "r ! u \<noteq> 0" if "ds_reachable s ! u \<noteq> 0 \<or> u = word_of a" for u
    using that w(1) by (cases "u = word_of a"; cases "u = word_of a + 1") (simp_all add: r_def r1_def)
  have len: "length r = length (ds_reachable s)" by (simp add: r_def r1_def)
  have r1: "marks_sound x r1"
    unfolding r1_def using e a(1) w d by (intro marks_sound_update) (auto simp: explored_def)
  have "\<exists>a' i'. reached x a' \<and> decoded_at (ex_image x) (ex_size x) a' = Some i' \<and> i_size i' = 8 \<and>
      word_of a + 1 = word_of a' + 1" if "i_size i = 8" using a(1) d that by blast
  then have "marks_sound x (r1[word_of a + 1 := 2])" if "i_size i = 8" "word_of a + 1 < length r1"
    using that by (intro marks_sound_update [OF r1 that(2)]) simp_all
  then have "marks_sound x r" using r1 by (simp add: r_def)
  moreover have "marks_closed x (flow_successors (ex_image x) (ex_size x) a) r p"
    if "marks_closed x {a} (ds_reachable s) p" for p
    using that one nonzero w(2) unfolding marks_closed_def len by (metis empty_iff insert_iff)
  moreover have "calls_closed x (call_targets (ex_image x) (ex_size x) a) r f" if c: "calls_closed x {} (ds_reachable s) f" for f
  proof -
    have "call_targets (ex_image x) (ex_size x) (word_address u) \<subseteq> f \<union> call_targets (ex_image x) (ex_size x) a"
      if "u < length (ds_reachable s)" "r ! u = 1" for u
      using one [OF that] w(2) c that(1) by (cases "u = word_of a") (simp_all add: calls_closed_def le_supI1)
    then show ?thesis using c by (simp add: calls_closed_def len)
  qed
  moreover have "code_marked x r (an_map (mark_code a (i_size i) (ds_analysis s)))"
    if "code_marked x (ds_reachable s) (an_map (ds_analysis s))"
  proof -
    have m: "an_map (mark_code a (i_size i) (ds_analysis s)) k =
        (if k \<in> code_bytes (ex_image x) (ex_size x) a then IMAGE_CODE else an_map (ds_analysis s) k)" for k
      using e d by (simp add: mark_code_def code_bytes_def explored_def)
    show ?thesis using that one w(2) a(1) unfolding code_marked_def len m by (metis (full_types))
  qed
  moreover have "paths_followed {} r ts" if "paths_followed {a} (ds_reachable s) ts" for ts
    using that nonzero unfolding paths_followed_def by blast
  moreover have "ds_reachable (mark_instruction a i s) = r" by (simp add: mark_instruction_def Let_def r_def r1_def)
  moreover have "ds_path (mark_instruction a i s) = ds_path s" "ds_functions (mark_instruction a i s) = ds_functions s"
    "ds_analysis (mark_instruction a i s) = mark_code a (i_size i) (ds_analysis s)"
    by (simp_all add: mark_instruction_def Let_def)
  moreover have "an_image (mark_code a (i_size i) b) = an_image b" "an_size (mark_code a (i_size i) b) = an_size b" for b
    by (simp_all add: mark_code_def)
  ultimately show ?thesis using e unfolding explored_def by simp
qed

text \<open>Queuing.\<close>

lemma push_path_result:
  assumes "push_path h t s = (Inr (), s')"
  shows "\<exists>n c. s' = s\<lparr>ds_path := (ds_path s)\<lparr>q_capacity := c, q_items := (if t \<in> set (q_items (ds_path s))
      then q_items (ds_path s) else q_items (ds_path s) @ [t])\<rparr>,
    ds_analysis := (ds_analysis s)\<lparr>an_allocations := n\<rparr>\<rparr>"
  using assms
  by (cases "ds_path s"; cases s) (auto simp: push_path_def queue_push_unique_def split: prod.splits sum.splits if_splits)

lemma explored_push:
  assumes e: "explored x X {} Y s" and t: "reached x t" and p: "push_path h t s = (Inr (), s')"
  shows "explored x (X - {t}) {} Y s'"
proof -
  let ?q = "q_items (ds_path s)" and ?c = "q_cursor (ds_path s)"
  have c: "?c \<le> length ?q" using e by (simp add: explored_def)
  obtain n cap where s': "s' = s\<lparr>ds_path := (ds_path s)\<lparr>q_capacity := cap, q_items := (if t \<in> set ?q then ?q else ?q @ [t])\<rparr>,
    ds_analysis := (ds_analysis s)\<lparr>an_allocations := n\<rparr>\<rparr>" using push_path_result [OF p] by blast
  show ?thesis
  proof (cases "t \<in> set ?q")
    case True
    then have "t \<in> set (take ?c ?q) \<or> t \<in> set (drop ?c ?q)" by (metis Un_iff append_take_drop_id set_append)
    then have "ds_reachable s ! word_of t \<noteq> 0 \<or> t \<in> set (drop ?c ?q)"
      using e by (auto simp: explored_def paths_followed_def)
    then have "marks_closed x X r p \<Longrightarrow> r = ds_reachable s \<Longrightarrow> p = set (drop ?c ?q) \<Longrightarrow> marks_closed x (X - {t}) r p" for r p
      unfolding marks_closed_def by blast
    then show ?thesis using e True by (simp add: explored_def s')
  next
    case False
    have "marks_closed x X r p \<Longrightarrow> marks_closed x (X - {t}) r (insert t p)" for r p
      unfolding marks_closed_def by blast
    then show ?thesis using e False c t by (simp add: explored_def s')
  qed
qed

lemma explored_leader:
  assumes "explored x X {} Y s" and "reached x t" and "add_leader h t s = (Inr (), s')"
  shows "explored x (X - {t}) {} Y s'"
proof -
  have "explored x X {} Y (s\<lparr>ds_leaders := l\<rparr>)" for l using assms(1) by (simp add: explored_def)
  then show ?thesis using explored_push assms(2,3) unfolding add_leader_def by blast
qed

lemma explored_indirect: "explored x X Z Y (mark_indirect k s) = explored x X Z Y s"
  by (simp add: explored_def mark_indirect_def update_function_def)

text \<open>Cross-references.\<close>

lemma explored_xref:
  assumes "explored x X Z Y s"
  shows "explored x X Z Y (snd (on_analysis (add_xref h a b c) s))"
proof -
  obtain r an where r: "add_xref h a b c (ds_analysis s) = (r, an)" by (cases "add_xref h a b c (ds_analysis s)")
  from add_xref_keeps(1) [OF r] have "an_image an = an_image (ds_analysis s)" "an_size an = an_size (ds_analysis s)"
    "an_map an = an_map (ds_analysis s)" by (metis vf2_i960_analysis.simps vf2_i960_analysis.surjective vf2_i960_analysis.update_convs)+
  then show ?thesis using assms r by (simp add: explored_def)
qed

lemma record_target_result:
  assumes e: "explored x X Z (call_targets (ex_image x) (ex_size x) a) s" and a: "reached x a"
    and i: "decoded_at (ex_image x) (ex_size x) a = Some i" and r: "record_target h i s = (Inr (), s')"
  shows "explored x X Z {} s'"
proof (cases "has_target i")
  case False
  then have "call_targets (ex_image x) (ex_size x) a = {}" using i by (simp add: call_targets_def)
  then show ?thesis using e r False by (simp add: record_target_def)
next
  case True
  let ?p = "on_analysis (add_xref h (i_address i) (target i) (if flow i = FLOW_CALL then XREF_CALL else XREF_BRANCH))"
  obtain s1 where p: "?p s = (Inr (), s1)"
    and w: "pwhen (\<lambda>s. flow i = FLOW_CALL \<and> is_valid_code_address (ds_analysis s) (target i)) (push_function h (target i)) s1 = (Inr (), s')"
    using r True by (auto simp: record_target_def elim!: pbind_okE)
  have s1: "explored x X Z (call_targets (ex_image x) (ex_size x) a) s1"
    using explored_xref [OF e] p by (metis snd_conv)
  note v = explored_valid [OF s1, of "target i"]
  show ?thesis
  proof (cases "flow i = FLOW_CALL \<and> code_address (ex_size x) (target i)")
    case False
    then have "call_targets (ex_image x) (ex_size x) a = {}" using i by (auto simp: call_targets_def)
    then show ?thesis using s1 w v False by (auto simp: pwhen_def)
  next
    case call: True
    then have c: "call_targets (ex_image x) (ex_size x) a = {target i}" using True i by (auto simp: call_targets_def)
    have "push_function h (target i) s1 = (Inr (), s')" using w v call by (simp add: pwhen_def)
    then obtain n cap where s': "s' = s1\<lparr>ds_functions := (ds_functions s1)\<lparr>q_capacity := cap,
        q_items := (if target i \<in> set (q_items (ds_functions s1)) then q_items (ds_functions s1)
          else q_items (ds_functions s1) @ [target i])\<rparr>, ds_analysis := (ds_analysis s1)\<lparr>an_allocations := n\<rparr>\<rparr>"
      by (cases "ds_functions s1"; cases s1) (auto simp: push_function_def queue_push_unique_def split: prod.splits sum.splits if_splits)
    have "set (q_items (ds_functions s')) = insert (target i) (set (q_items (ds_functions s1)))"
      by (auto simp: s')
    moreover have "calls_closed x {} r (insert (target i) f)" if "calls_closed x {target i} r f" for r f
      using that a c unfolding calls_closed_def by blast
    ultimately show ?thesis using s1 by (simp add: explored_def s' c)
  qed
qed

lemma explored_xrefs:
  assumes "explored x X Z (call_targets (ex_image x) (ex_size x) a) s" and "reached x a"
    and "decoded_at (ex_image x) (ex_size x) a = Some i" and "record_instruction_xrefs h i s = (Inr (), s')"
  shows "explored x X Z {} s'"
proof -
  obtain s1 where t: "record_target h i s = (Inr (), s1)"
    and o: "pfor [0..<unat (operand_count i)] (record_operand h i) s1 = (Inr (), s')"
    using assms(4) by (auto simp: record_instruction_xrefs_def elim!: pbind_okE)
  have "preserves (explored x X Z {}) (on_analysis (add_xref h b c d))" for b c d
    using explored_xref by (simp add: preserves_def)
  then have p: "preserves (explored x X Z {}) (pfor [0..<unat (operand_count i)] (record_operand h i))"
    unfolding record_operand_def by (intro preserves_pfor preserves_case_option preserves_if preserves_pret)
  show ?thesis by (rule preservesD_eq [OF p o]) (rule record_target_result [OF assms(1-3) t])
qed

section \<open>Paths\<close>

lemma follow_branch_explored:
  assumes e: "explored x (flow_successors (ex_image x) (ex_size x) a) {} {} s" and a: "reached x a"
    and i: "decoded_at (ex_image x) (ex_size x) a = Some i" "flow i = FLOW_BRANCH"
    and f: "follow_branch h k a i s = (Inr (), s')"
  shows "explored x {} {} {} s'"
proof -
  let ?S = "flow_successors (ex_image x) (ex_size x) a"
  have S: "?S = {t. code_address (ex_size x) t \<and> (has_target i \<and> t = target i \<or> has_fallthrough i \<and> t = next_address a i)}"
    using i by (simp add: flow_successors_def)
  have push: "explored x (X - {t. c \<and> t = u \<and> code_address (ex_size x) t}) {} {} s2"
    if "explored x X {} {} s1" "pwhen (\<lambda>s. c \<and> is_valid_code_address (ds_analysis s) u) (add_leader h u) s1 = (Inr (), s2)"
      "c \<and> code_address (ex_size x) u \<longrightarrow> u \<in> ?S" for X c u s1 s2
  proof (cases "c \<and> code_address (ex_size x) u")
    case True
    then have "add_leader h u s1 = (Inr (), s2)" using that(2) explored_valid [OF that(1)] by (simp add: pwhen_def)
    then have "explored x (X - {u}) {} {} s2"
      using explored_leader [OF that(1)] flow_reaches.step [OF a] that(3) True by blast
    moreover have "{t. c \<and> t = u \<and> code_address (ex_size x) t} = {u}" using True by auto
    ultimately show ?thesis by simp
  next
    case False
    then have none: "{t. c \<and> t = u \<and> code_address (ex_size x) t} = {}" by auto
    have "s2 = s1" using that(2) explored_valid [OF that(1)] False by (auto simp: pwhen_def split: if_splits)
    then show ?thesis using that(1) unfolding none by simp
  qed
  obtain s1 s2 where 1: "pwhen (\<lambda>s. has_target i \<and> is_valid_code_address (ds_analysis s) (target i)) (add_leader h (target i)) s = (Inr (), s1)"
    and 2: "pwhen (\<lambda>s. has_fallthrough i \<and> is_valid_code_address (ds_analysis s) (next_address a i)) (add_leader h (next_address a i)) s1 = (Inr (), s2)"
    and s': "s' = (if indirect i then mark_indirect k s2 else s2)"
    using f by (auto simp: follow_branch_def elim!: pbind_okE split: prod.splits)
  have all: "explored x (?S - {t. has_target i \<and> t = target i \<and> code_address (ex_size x) t}
      - {t. has_fallthrough i \<and> t = next_address a i \<and> code_address (ex_size x) t}) {} {} s2"
    by (rule push [OF push [OF e 1] 2]) (auto simp: S)
  have none: "?S - {t. has_target i \<and> t = target i \<and> code_address (ex_size x) t}
      - {t. has_fallthrough i \<and> t = next_address a i \<and> code_address (ex_size x) t} = {}" by (auto simp: S)
  show ?thesis using all unfolding none s' by (simp add: explored_indirect)
qed

lemma explored_mono: "explored x X Z {} s \<Longrightarrow> X \<subseteq> X' \<Longrightarrow> Z \<subseteq> Z' \<Longrightarrow> explored x X' Z' {} s"
  unfolding explored_def marks_closed_def paths_followed_def by blast

lemma follow_explored:
  "\<lbrakk>follow h k a s = (Inr (), s'); explored x {a} {a} {} s; code_address (ex_size x) a \<longrightarrow> reached x a\<rbrakk>
   \<Longrightarrow> explored x {} {} {} s'"
proof (induction h k a s rule: follow.induct)
  case (1 h k a s)
  note unfolded = "1.prems"(1) [unfolded follow.simps [of h k a s]]
  note e = "1.prems"(2)
  note v = explored_valid [OF e, of a]
  show ?case
  proof (cases "code_address (ex_size x) a \<and> ds_reachable s ! word_of a = 0")
    case False
    then have "s' = s" using unfolded v explored_less [OF e, of a] by (auto split: if_splits)
    then show ?thesis using explored_drop [OF e] False by auto
  next
    case True
    then have a: "reached x a" using "1.prems"(3) by simp
    have g: "is_valid_code_address (ds_analysis s) a"
      "\<not> (length (ds_reachable s) \<le> word_of a \<or> ds_reachable s ! word_of a \<noteq> 0)"
      using True v explored_less [OF e, of a] by auto
    show ?thesis
    proof (cases "instruction_at (ds_analysis s) a")
      case None
      then have "s' = mark_invalid a s" using unfolded g by simp
      then show ?thesis using explored_invalid [OF e a _ None] True by simp
    next
      case (Some i)
      have d: "decoded_at (ex_image x) (ex_size x) a = Some i" using Some e by (simp add: explored_def)
      obtain r s1 where rec: "record_instruction_xrefs h i (mark_instruction a i s) = (r, s1)"
        by (cases "record_instruction_xrefs h i (mark_instruction a i s)")
      have r: "r = Inr ()" using unfolded g Some rec by (cases r) auto
      have s1: "explored x (flow_successors (ex_image x) (ex_size x) a) {} {} s1"
        using explored_xrefs [OF explored_mark [OF e a _ Some] a d] rec r True by blast
      show ?thesis
      proof (cases "flow i = FLOW_BRANCH \<or> ends_path i")
        case True
        then have "flow_successors (ex_image x) (ex_size x) a = {}" if "flow i \<noteq> FLOW_BRANCH"
          using that d by (simp add: flow_successors_def)
        then show ?thesis
          using follow_branch_explored [OF s1 a d, of h k s'] unfolded g Some rec r s1 True by (auto split: if_splits)
      next
        case False
        let ?n = "next_address a i" and ?s = "if flow i = FLOW_CALL \<and> indirect i then mark_indirect k s1 else s1"
        have S: "flow_successors (ex_image x) (ex_size x) a = {t. code_address (ex_size x) t \<and> t = ?n}"
          using d False by (simp add: flow_successors_def)
        have f: "follow h k ?n ?s = (Inr (), s')" using unfolded g Some rec r False by simp
        have "explored x {?n} {?n} {} s1" using explored_mono [OF s1] S by auto
        then have e1: "explored x {?n} {?n} {} ?s" by (simp add: explored_indirect)
        have n: "code_address (ex_size x) ?n \<longrightarrow> reached x ?n" using flow_reaches.step [OF a] S by auto
        show ?thesis
          using "1.IH" [OF _ g(2) Some rec [symmetric] r _ _ f e1 n] g(1) False by simp
      qed
    qed
  qed
qed

lemma path_loop_explored:
  "\<lbrakk>path_loop h k s = (Inr (), s'); explored x {} {} {} s\<rbrakk>
   \<Longrightarrow> explored x {} {} {} s' \<and> length (q_items (ds_path s')) \<le> q_cursor (ds_path s')"
proof (induction h k s rule: path_loop.induct)
  case (1 h k s)
  note unfolded = "1.prems"(1) [unfolded path_loop.simps [of h k s]]
  let ?q = "q_items (ds_path s)" and ?c = "q_cursor (ds_path s)"
  show ?case
  proof (cases "length ?q \<le> ?c")
    case True
    then show ?thesis using unfolded "1.prems"(2) by simp
  next
    case False
    let ?s = "s\<lparr>ds_path := (ds_path s)\<lparr>q_cursor := ?c + 1\<rparr>\<rparr>"
    obtain r s1 where f: "follow h k (?q ! ?c) ?s = (r, s1)" by (cases "follow h k (?q ! ?c) ?s")
    have r: "r = Inr ()" using unfolded False f by (cases r) auto
    have t: "take (?c + 1) ?q = take ?c ?q @ [?q ! ?c]" "drop ?c ?q = ?q ! ?c # drop (?c + 1) ?q"
      using False by (simp_all add: take_Suc_conv_app_nth Cons_nth_drop_Suc)
    have "paths_followed {?q ! ?c} R (set (take (?c + 1) ?q))" if "paths_followed {} R (set (take ?c ?q))" for R
      using that unfolding t(1) paths_followed_def by auto
    moreover have "marks_closed x {?q ! ?c} R (set (drop (?c + 1) ?q))" if "marks_closed x {} R (set (drop ?c ?q))" for R
      using that unfolding t(2) marks_closed_def list.set by blast
    ultimately have e: "explored x {?q ! ?c} {?q ! ?c} {} ?s" using "1.prems"(2) False by (simp add: explored_def)
    have "reached x (?q ! ?c)" using "1.prems"(2) False by (simp add: explored_def)
    then have "explored x {} {} {} s1" using follow_explored [OF _ e] f r by blast
    moreover have "path_loop h k s1 = (Inr (), s')" using unfolded False f r by simp
    ultimately show ?thesis using "1.IH" [OF False f [symmetric] r] by blast
  qed
qed

section \<open>The instructions of a function\<close>

text \<open>The start: the entry of the function is the only path.\<close>

definition exploration_of :: "discovery \<Rightarrow> u32 \<Rightarrow> exploration" where
  "exploration_of s e =
     \<lparr>ex_image = an_image (ds_analysis s), ex_size = an_size (ds_analysis s), ex_entry = e,
      ex_functions = set (q_items (ds_functions s)), ex_code = {k. an_map (ds_analysis s) k = IMAGE_CODE}\<rparr>"

lemma discover_explored:
  assumes d: "discover_reachable_instructions h k s = (Inr (), s')"
    and r: "ds_reachable s = replicate ((an_size (ds_analysis s) + 3) div 4) 0"
    and e: "e = fn_address (an_functions (ds_analysis s) ! k)" "code_address (an_size (ds_analysis s)) e"
  shows "explored (exploration_of s e) {} {} {} s'" and "length (q_items (ds_path s')) \<le> q_cursor (ds_path s')"
proof -
  let ?x = "exploration_of s e"
  obtain s1 where a: "add_leader h e (s\<lparr>ds_path := empty_queue\<rparr>) = (Inr (), s1)" and l: "path_loop h k s1 = (Inr (), s')"
    using d unfolding discover_reachable_instructions_def Let_def e(1) [symmetric] by (elim pbind_okE) auto
  let ?s = "s\<lparr>ds_path := empty_queue, ds_leaders := (ds_leaders s)[word_of e := True]\<rparr>"
  have "push_path h e ?s = (Inr (), s1)" using a by (simp add: add_leader_def)
  from push_path_result [OF this] obtain n c where eq: "s1 = ?s\<lparr>ds_path := (ds_path ?s)\<lparr>q_capacity := c,
      q_items := (if e \<in> set (q_items (ds_path ?s)) then q_items (ds_path ?s) else q_items (ds_path ?s) @ [e])\<rparr>,
      ds_analysis := (ds_analysis ?s)\<lparr>an_allocations := n\<rparr>\<rparr>" by blast
  have s1: "ds_path s1 = \<lparr>q_items = [e], q_capacity = c, q_cursor = 0\<rparr>"
    "ds_analysis s1 = (ds_analysis s)\<lparr>an_allocations := n\<rparr>" "ds_reachable s1 = ds_reachable s" "ds_functions s1 = ds_functions s"
    unfolding eq by (simp_all add: empty_queue_def)
  have "reached ?x e" by (simp add: exploration_of_def e(2) flow_reaches.entry)
  then have "explored ?x {} {} {} s1"
    by (simp add: explored_def s1 r exploration_of_def marks_sound_def paths_followed_def marks_closed_def calls_closed_def
        code_marked_def)
  then show "explored ?x {} {} {} s'" "length (q_items (ds_path s')) \<le> q_cursor (ds_path s')"
    using path_loop_explored [OF l] by blast+
qed

text \<open>No reached address is the second word of a reached instruction of two words.\<close>

definition no_overlap :: "memory \<Rightarrow> nat \<Rightarrow> u32 \<Rightarrow> bool" where
  "no_overlap img n e \<longleftrightarrow>
     (\<forall>a b i. flow_reaches img n e a \<longrightarrow> flow_reaches img n e b \<longrightarrow> decoded_at img n a = Some i \<longrightarrow> i_size i = 8 \<longrightarrow>
       word_of b \<noteq> word_of a + 1)"

lemma exploration_complete:
  assumes x: "explored x {} {} {} s" and c: "length (q_items (ds_path s)) \<le> q_cursor (ds_path s)"
    and o: "no_overlap (ex_image x) (ex_size x) (ex_entry x)"
    and b: "reached x b" "decoded_at (ex_image x) (ex_size x) b = Some i"
  shows "ds_reachable s ! word_of b = 1"
proof -
  let ?r = "ds_reachable s"
  have mark: "?r ! word_of a = (if decoded_at (ex_image x) (ex_size x) a = None then 3 else 1)"
    if "reached x a" "?r ! word_of a \<noteq> 0" for a
  proof -
    have v: "code_address (ex_size x) a" using that(1) by (rule flow_reaches_valid)
    have w: "word_of a < length ?r" "word_address (word_of a) = a"
      using explored_less [OF x v] word_address_of v by (simp_all add: code_address_def)
    have m: "marks_sound x ?r" using x by (simp add: explored_def)
    have "?r ! word_of a \<noteq> 2" using m w(1) o that(1) unfolding marks_sound_def no_overlap_def by blast
    moreover have "?r ! word_of a \<le> 3" using m w(1) by (simp add: marks_sound_def)
    ultimately have "?r ! word_of a = 1 \<or> ?r ! word_of a = 3" using that(2) by linarith
    then show ?thesis using m w unfolding marks_sound_def by fastforce
  qed
  from b(1) have "?r ! word_of b \<noteq> 0"
  proof (induction rule: flow_reaches.induct)
    case entry
    then show ?case using x c by (simp add: explored_def paths_followed_def)
  next
    case (step a t)
    have v: "code_address (ex_size x) a" using step(1) by (rule flow_reaches_valid)
    have w: "word_of a < length ?r" "word_address (word_of a) = a"
      using explored_less [OF x v] word_address_of v by (simp_all add: code_address_def)
    have "decoded_at (ex_image x) (ex_size x) a \<noteq> None" using step(2) by (auto simp: flow_successors_def split: option.splits)
    then have "?r ! word_of a = 1" using mark [OF step(1,3)] by auto
    moreover have "marks_closed x {} ?r {}" using x c by (simp add: explored_def)
    ultimately show ?case using w step(2) unfolding marks_closed_def by fastforce
  qed
  then show ?thesis using mark [OF b(1)] b(2) by simp
qed

end
