(* ===== verification/Vf2_Cfg_Functions.thy ===== *)
theory Vf2_Cfg_Functions
  imports Vf2_Cfg_Reach
begin

text \<open>
  The functions the analysis finds: the entry points and everything reached from them by direct
  calls, each once, with the bytes of their instructions classified as code.
\<close>

section \<open>One function\<close>

definition function_calls :: "memory \<Rightarrow> nat \<Rightarrow> u32 \<Rightarrow> u32 set" where
  "function_calls img n e = {t. \<exists>a. flow_reaches img n e a \<and> t \<in> call_targets img n a}"

definition function_bytes :: "memory \<Rightarrow> nat \<Rightarrow> u32 \<Rightarrow> nat set" where
  "function_bytes img n e = {k. \<exists>a. flow_reaches img n e a \<and> k \<in> code_bytes img n a}"

lemma calls_valid: "t \<in> function_calls img n e \<Longrightarrow> code_address n t"
  by (auto simp: function_calls_def call_targets_def split: option.splits)

abbreviation code_of :: "discovery \<Rightarrow> nat set" where
  "code_of s \<equiv> {k. an_map (ds_analysis s) k = IMAGE_CODE}"

abbreviation addresses_of :: "discovery \<Rightarrow> u32 list" where
  "addresses_of s \<equiv> map fn_address (an_functions (ds_analysis s))"

lemma explored_result:
  assumes x: "explored (exploration_of s e) {} {} {} s'" and c: "length (q_items (ds_path s')) \<le> q_cursor (ds_path s')"
  defines "img \<equiv> an_image (ds_analysis s)" and "n \<equiv> an_size (ds_analysis s)"
  shows "set (q_items (ds_functions s)) \<subseteq> set (q_items (ds_functions s'))"
    and "set (q_items (ds_functions s')) \<subseteq> set (q_items (ds_functions s)) \<union> function_calls img n e"
    and "no_overlap img n e \<Longrightarrow> function_calls img n e \<subseteq> set (q_items (ds_functions s'))"
    and "code_of s \<subseteq> code_of s'" and "code_of s' \<subseteq> code_of s \<union> function_bytes img n e"
    and "no_overlap img n e \<Longrightarrow> function_bytes img n e \<subseteq> code_of s'"
proof -
  let ?x = "exploration_of s e"
  have f: "ex_image ?x = img" "ex_size ?x = n" "ex_entry ?x = e" "ex_functions ?x = set (q_items (ds_functions s))"
    "ex_code ?x = code_of s" by (simp_all add: exploration_of_def img_def n_def)
  have calls: "calls_closed ?x {} (ds_reachable s') (set (q_items (ds_functions s')))"
    and code: "code_marked ?x (ds_reachable s') (an_map (ds_analysis s'))" using x by (simp_all add: explored_def)
  show "set (q_items (ds_functions s)) \<subseteq> set (q_items (ds_functions s'))"
    "set (q_items (ds_functions s')) \<subseteq> set (q_items (ds_functions s)) \<union> function_calls img n e"
    using calls by (auto simp: calls_closed_def f function_calls_def)
  show "code_of s \<subseteq> code_of s'" "code_of s' \<subseteq> code_of s \<union> function_bytes img n e"
    using code by (auto simp: code_marked_def f function_bytes_def)
  assume o: "no_overlap img n e"
  have one: "word_of b < length (ds_reachable s') \<and> word_address (word_of b) = b \<and> ds_reachable s' ! word_of b = 1"
    if "flow_reaches img n e b" "decoded_at img n b = Some i" for b i
  proof -
    have v: "code_address n b" using that(1) by (rule flow_reaches_valid)
    show ?thesis
      using exploration_complete [OF x c, unfolded f, OF o that] explored_less [OF x, unfolded f, OF v] word_address_of v
      by (simp add: code_address_def)
  qed
  show "function_calls img n e \<subseteq> set (q_items (ds_functions s'))"
  proof
    fix t assume "t \<in> function_calls img n e"
    then obtain b where b: "flow_reaches img n e b" "t \<in> call_targets img n b" by (auto simp: function_calls_def)
    then obtain i where "decoded_at img n b = Some i" by (auto simp: call_targets_def split: option.splits)
    then show "t \<in> set (q_items (ds_functions s'))"
      using one [OF b(1)] b(2) calls unfolding calls_closed_def f by fastforce
  qed
  show "function_bytes img n e \<subseteq> code_of s'"
  proof
    fix k assume "k \<in> function_bytes img n e"
    then obtain b where b: "flow_reaches img n e b" "k \<in> code_bytes img n b" by (auto simp: function_bytes_def)
    then obtain i where "decoded_at img n b = Some i" by (auto simp: code_bytes_def split: option.splits)
    then show "k \<in> code_of s'" using one [OF b(1)] b(2) code unfolding code_marked_def f by fastforce
  qed
qed

lemma analyze_function_result:
  assumes a: "analyze_function h k s = (Inr (), s')"
    and e: "e = fn_address (an_functions (ds_analysis s) ! k)" "code_address (an_size (ds_analysis s)) e"
  defines "img \<equiv> an_image (ds_analysis s)" and "n \<equiv> an_size (ds_analysis s)"
  shows "an_image (ds_analysis s') = img" "an_size (ds_analysis s') = n" "addresses_of s' = addresses_of s"
    "q_cursor (ds_functions s') = q_cursor (ds_functions s)"
    "\<exists>ts. q_items (ds_functions s') = q_items (ds_functions s) @ ts"
    "set (q_items (ds_functions s')) \<subseteq> set (q_items (ds_functions s)) \<union> function_calls img n e"
    "code_of s \<subseteq> code_of s'" "code_of s' \<subseteq> code_of s \<union> function_bytes img n e"
    "no_overlap img n e \<Longrightarrow> function_calls img n e \<subseteq> set (q_items (ds_functions s')) \<and> function_bytes img n e \<subseteq> code_of s'"
proof -
  define s1 where "s1 = s\<lparr>ds_analysis := (ds_analysis s)\<lparr>an_allocations := an_allocations (ds_analysis s) + 2\<rparr>,
      ds_reachable := replicate ((an_size (ds_analysis s) + 3) div 4) 0,
      ds_leaders := replicate ((an_size (ds_analysis s) + 3) div 4) False\<rparr>"
  obtain s2 b f where d: "discover_reachable_instructions h k s1 = (Inr (), s2)"
    and b: "build_function_blocks h k (ds_reachable s2) (ds_leaders s2) (ds_analysis s2) = (Inr (), b)"
    and s': "s' = s2\<lparr>ds_analysis := update_function k f b\<rparr>" and f: "\<And>x. fn_address (f x) = fn_address x"
    using a unfolding s1_def by (cases rule: analyze_function_cases) auto
  have s1: "an_image (ds_analysis s1) = img" "an_size (ds_analysis s1) = n" "an_functions (ds_analysis s1) = an_functions (ds_analysis s)"
    "ds_functions s1 = ds_functions s" "code_of s1 = code_of s" by (simp_all add: s1_def img_def n_def)
  have r: "ds_reachable s1 = replicate ((an_size (ds_analysis s1) + 3) div 4) 0" by (simp add: s1_def)
  have x: "explored (exploration_of s1 e) {} {} {} s2" "length (q_items (ds_path s2)) \<le> q_cursor (ds_path s2)"
    using discover_explored [OF d r] e by (simp_all add: s1_def)
  note res = explored_result [OF x, unfolded s1]
  have fr: "same_frame s1 s2" using preservesD_eq [OF frame.discover_keeps d, of s1] by (simp add: same_frame_def)
  have co: "same_code (ds_analysis s2) b" using preservesD_eq [OF same_code_blocks b, of "ds_analysis s2"] by (simp add: same_code_def)
  have keep: "ds_functions s' = ds_functions s2" "code_of s' = code_of s2" using co by (simp_all add: s' same_code_def)
  show "an_image (ds_analysis s') = img" "an_size (ds_analysis s') = n" "q_cursor (ds_functions s') = q_cursor (ds_functions s)"
    "\<exists>ts. q_items (ds_functions s') = q_items (ds_functions s) @ ts"
    using fr co s1 by (simp_all add: s' same_frame_def same_code_def)
  show "addresses_of s' = addresses_of s"
    using fr co s1 by (simp add: s' same_frame_def same_code_def update_function_addresses f)
  show "set (q_items (ds_functions s')) \<subseteq> set (q_items (ds_functions s)) \<union> function_calls img n e"
    "code_of s \<subseteq> code_of s'" "code_of s' \<subseteq> code_of s \<union> function_bytes img n e"
    "no_overlap img n e \<Longrightarrow> function_calls img n e \<subseteq> set (q_items (ds_functions s')) \<and> function_bytes img n e \<subseteq> code_of s'"
    unfolding keep using res by blast+
qed

section \<open>All functions\<close>

text \<open>The functions reached from the entry points by direct calls.\<close>

inductive called :: "memory \<Rightarrow> nat \<Rightarrow> u32 set \<Rightarrow> u32 \<Rightarrow> bool" for img n E where
  entry: "e \<in> E \<Longrightarrow> code_address n e \<Longrightarrow> called img n E e"
| call: "called img n E e \<Longrightarrow> t \<in> function_calls img n e \<Longrightarrow> called img n E t"

lemma called_valid: "called img n E e \<Longrightarrow> code_address n e"
  by (induction rule: called.induct) (auto dest: calls_valid)

definition recovered :: "memory \<Rightarrow> nat \<Rightarrow> u32 set \<Rightarrow> discovery \<Rightarrow> bool" where
  "recovered img n E s \<longleftrightarrow>
     an_image (ds_analysis s) = img \<and> an_size (ds_analysis s) = n \<and> distinct (addresses_of s) \<and>
     q_cursor (ds_functions s) \<le> length (q_items (ds_functions s)) \<and>
     set (take (q_cursor (ds_functions s)) (q_items (ds_functions s))) = set (addresses_of s) \<and>
     {e \<in> E. code_address n e} \<subseteq> set (q_items (ds_functions s)) \<and>
     (\<forall>t \<in> set (q_items (ds_functions s)). called img n E t) \<and>
     code_of s \<subseteq> (\<Union>e \<in> set (addresses_of s). function_bytes img n e) \<and>
     ((\<forall>e. called img n E e \<longrightarrow> no_overlap img n e) \<longrightarrow>
        (\<Union>e \<in> set (addresses_of s). function_calls img n e) \<subseteq> set (q_items (ds_functions s)) \<and>
        (\<Union>e \<in> set (addresses_of s). function_bytes img n e) \<subseteq> code_of s)"

lemma unions_grow:
  assumes "(\<Union>e \<in> A. f e) \<subseteq> B \<and> (\<Union>e \<in> A. g e) \<subseteq> C" and "B \<subseteq> B'" and "A' = insert a A" and "C \<subseteq> C'"
    and "f a \<subseteq> B' \<and> g a \<subseteq> C'"
  shows "(\<Union>e \<in> A'. f e) \<subseteq> B' \<and> (\<Union>e \<in> A'. g e) \<subseteq> C'"
  using assms by blast

lemma function_loop_recovered:
  "\<lbrakk>function_loop h s = (Inr (), s'); recovered img n E s\<rbrakk>
   \<Longrightarrow> recovered img n E s' \<and> length (q_items (ds_functions s')) \<le> q_cursor (ds_functions s')"
proof (induction h s rule: function_loop.induct)
  case (1 h s)
  let ?q = "ds_functions s"
  let ?address = "q_items ?q ! q_cursor ?q"
  let ?s1 = "s\<lparr>ds_functions := ?q\<lparr>q_cursor := q_cursor ?q + 1\<rparr>\<rparr>"
  note unfolded = "1.prems"(1) [unfolded function_loop.simps [of h s] Let_def]
  note inv = "1.prems"(2)
  show ?case
  proof (cases "length (q_items ?q) \<le> q_cursor ?q")
    case True
    then show ?thesis using unfolded inv by simp
  next
    case False
    have tk: "take (q_cursor ?q + 1) (q_items ?q) = take (q_cursor ?q) (q_items ?q) @ [?address]"
      using False by (simp add: take_Suc_conv_app_nth)
    have c: "called img n E ?address" using inv False by (simp add: recovered_def)
    show ?thesis
    proof (cases "has_function (ds_analysis s) ?address")
      case True
      then have "?address \<in> set (addresses_of s)" unfolding has_function_def set_map by (metis image_eqI)
      then have "set (take (q_cursor ?q + 1) (q_items ?q)) = set (addresses_of s)"
        using inv unfolding tk recovered_def by auto
      then have "recovered img n E ?s1"
        using inv False unfolding recovered_def by simp
      then show ?thesis using "1.IH"(1) [OF False refl refl refl True] unfolded False True by simp
    next
      case new: False
      obtain r a where add: "add_function h ?address (ds_analysis ?s1) = (r, a)"
        by (cases "add_function h ?address (ds_analysis ?s1)")
      have r: "r = Inr ()" using unfolded False new add by (cases r) auto
      note a = add_function_keeps [OF add]
      obtain y s2 where an: "analyze_function h (length (an_functions a) - 1) (?s1\<lparr>ds_analysis := a\<rparr>) = (y, s2)"
        by (cases "analyze_function h (length (an_functions a) - 1) (?s1\<lparr>ds_analysis := a\<rparr>)")
      have y: "y = Inr ()" using unfolded False new add r an by (cases y) auto
      have fs: "map fn_address (an_functions a) = addresses_of s @ [?address]"
        using a(6) r by (simp add: new_function_def)
      have "fn_address (an_functions a ! (length (an_functions a) - 1)) = ?address"
        using a(6) r by (simp add: new_function_def)
      then have res: "an_image (ds_analysis s2) = img" "an_size (ds_analysis s2) = n" "addresses_of s2 = addresses_of s @ [?address]"
        "q_cursor (ds_functions s2) = q_cursor ?q + 1" "\<exists>ts. q_items (ds_functions s2) = q_items ?q @ ts"
        "set (q_items (ds_functions s2)) \<subseteq> set (q_items ?q) \<union> function_calls img n ?address"
        "code_of s \<subseteq> code_of s2" "code_of s2 \<subseteq> code_of s \<union> function_bytes img n ?address"
        "no_overlap img n ?address \<Longrightarrow> function_calls img n ?address \<subseteq> set (q_items (ds_functions s2)) \<and> function_bytes img n ?address \<subseteq> code_of s2"
        using analyze_function_result [OF an [unfolded y], of ?address] a fs inv called_valid [OF c]
        by (simp_all add: recovered_def)
      obtain ts where ts: "q_items (ds_functions s2) = q_items ?q @ ts" using res(5) by blast
      have before: "take (q_cursor (ds_functions s2)) (q_items (ds_functions s2)) = take (q_cursor ?q) (q_items ?q) @ [?address]"
        using False tk by (simp add: res(4) ts)
      have "?address \<notin> set (addresses_of s)" using new by (auto simp: has_function_def)
      then have "distinct (addresses_of s2)" using inv unfolding res(3) recovered_def by simp
      moreover have "set (take (q_cursor (ds_functions s2)) (q_items (ds_functions s2))) = set (addresses_of s2)"
        using inv unfolding before res(3) recovered_def by simp
      moreover have "q_cursor (ds_functions s2) \<le> length (q_items (ds_functions s2))" using False by (simp add: res(4) ts)
      moreover have "{e \<in> E. code_address n e} \<subseteq> set (q_items (ds_functions s2))"
        using inv unfolding ts recovered_def by auto
      moreover have "\<forall>t \<in> set (q_items (ds_functions s2)). called img n E t"
      proof -
        have "\<forall>t \<in> set (q_items ?q). called img n E t" using inv by (simp add: recovered_def)
        then show ?thesis using res(6) called.call [OF c] by blast
      qed
      moreover have "code_of s2 \<subseteq> (\<Union>e \<in> set (addresses_of s2). function_bytes img n e)"
      proof -
        have "code_of s \<subseteq> (\<Union>e \<in> set (addresses_of s). function_bytes img n e)" using inv by (simp add: recovered_def)
        moreover have "set (addresses_of s2) = insert ?address (set (addresses_of s))" by (simp add: res(3))
        ultimately show ?thesis using res(8) by blast
      qed
      moreover have "(\<forall>e. called img n E e \<longrightarrow> no_overlap img n e) \<longrightarrow>
          (\<Union>e \<in> set (addresses_of s2). function_calls img n e) \<subseteq> set (q_items (ds_functions s2)) \<and>
          (\<Union>e \<in> set (addresses_of s2). function_bytes img n e) \<subseteq> code_of s2"
      proof
        assume that: "\<forall>e. called img n E e \<longrightarrow> no_overlap img n e"
        have "(\<Union>e \<in> set (addresses_of s). function_calls img n e) \<subseteq> set (q_items ?q) \<and>
          (\<Union>e \<in> set (addresses_of s). function_bytes img n e) \<subseteq> code_of s"
          using inv that unfolding recovered_def by (elim conjE) (erule (1) mp)
        moreover have "set (q_items ?q) \<subseteq> set (q_items (ds_functions s2))" by (simp add: ts)
        moreover have "set (addresses_of s2) = insert ?address (set (addresses_of s))" by (simp add: res(3))
        moreover have "no_overlap img n ?address" using that c by simp
        ultimately show "(\<Union>e \<in> set (addresses_of s2). function_calls img n e) \<subseteq> set (q_items (ds_functions s2)) \<and>
            (\<Union>e \<in> set (addresses_of s2). function_bytes img n e) \<subseteq> code_of s2"
          by (rule unions_grow [where f = "function_calls img n" and g = "function_bytes img n" and a = ?address
                and C = "code_of s" and C' = "code_of s2", OF _ _ _ res(7) res(9)])
      qed
      ultimately have "recovered img n E s2" using res(1,2) unfolding recovered_def by - ((rule conjI, assumption)+, assumption)
      then show ?thesis
        using "1.IH"(2) [OF False refl refl refl new add [symmetric] r an [symmetric] y] unfolded False new add r an y by simp
    qed
  qed
qed

end
