(* ===== verification/Vf2_Analyze.thy ===== *)
theory Vf2_Analyze
  imports Vf2_Semantics Vf2_Cfg_Functions
begin

text \<open>
  The whole analysis of an image (\<open>vf2_i960_analyze\<close>): the functions, their semantics, their
  boundaries, then strings and padding.
\<close>

section \<open>The analysis\<close>

definition start_discovery :: "vf2_i960_analysis \<Rightarrow> discovery" where
  "start_discovery a =
     \<lparr>ds_analysis = a, ds_functions = empty_queue, ds_path = empty_queue, ds_reachable = [], ds_leaders = []\<rparr>"

definition queue_entry :: "host \<Rightarrow> u32 \<Rightarrow> (discovery, unit) prog" where
  "queue_entry h e = pwhen (\<lambda>s. is_valid_code_address (ds_analysis s) e) (push_function h e)"

definition vf2_i960_analyze :: "host \<Rightarrow> u32 list \<Rightarrow> (vf2_i960_analysis, unit) prog" where
  "vf2_i960_analyze h entry_points a =
     (if entry_points = [] then (Inl VF2_ERROR_INVALID_ARGUMENT, a)
      else case pbind (pfor entry_points (queue_entry h)) (\<lambda>_. function_loop h) (start_discovery a) of
        (Inl e, s) \<Rightarrow> (Inl e, ds_analysis s)
      | (Inr _, s) \<Rightarrow>
          pbind (vf2_i960_run_semantic_analysis h)
            (\<lambda>_. pbind (vf2_i960_detect_function_boundaries h)
              (\<lambda>_. pbind (classify_strings h 0)
                (\<lambda>_ a. (Inr (), classify_padding 0 a)))) (ds_analysis s))"

section \<open>What the later passes keep\<close>

definition same_functions :: "vf2_i960_analysis \<Rightarrow> vf2_i960_analysis \<Rightarrow> bool" where
  "same_functions a0 a \<longleftrightarrow> an_image a = an_image a0 \<and> an_size a = an_size a0 \<and> an_map a = an_map a0 \<and>
     map function_extent (an_functions a) = map function_extent (an_functions a0)"

lemma same_functions_updateI:
  assumes "same_functions a0 a"
    and "k < length (an_functions a) \<Longrightarrow> function_extent (f (an_functions a ! k)) = function_extent (an_functions a ! k)"
  shows "same_functions a0 (update_function k f a)"
proof (cases "k < length (an_functions a)")
  case True
  then have "(map function_extent (an_functions a))[k := function_extent (f (an_functions a ! k))] = map function_extent (an_functions a)"
    using assms(2) by (metis list_update_id nth_map)
  then show ?thesis using assms(1) by (simp add: same_functions_def update_function_def map_update)
next
  case False
  then show ?thesis using assms(1) by (simp add: same_functions_def update_function_def list_update_beyond)
qed

lemma same_functions_ifI:
  "\<lbrakk>c \<Longrightarrow> same_functions a0 (snd x); \<not> c \<Longrightarrow> same_functions a0 (snd y)\<rbrakk> \<Longrightarrow> same_functions a0 (snd (if c then x else y))"
  by simp

lemma same_functions_record_indirect: "preserves (same_functions a0) (record_indirect h i t tb kind c block)"
proof -
  have "preserves (same_functions a0) (add_indirect_target h s t tb kind c)" for s t
    by (auto simp: preserves_def add_indirect_target_def append_array_def same_functions_def split: prod.split sum.split)
  moreover have "preserves (same_functions a0) (vf2_i960_analysis_record_xref h s t ty)" for s t ty
    by (auto simp: preserves_def vf2_i960_analysis_record_xref_def add_xref_def append_array_def Let_def same_functions_def
        split: prod.split sum.split)
  moreover have "same_functions a0 a \<Longrightarrow> same_functions a0 (add_block_successor block t a)" for a
    by (simp add: add_block_successor_def Let_def same_functions_def split: option.split)
  ultimately show ?thesis
    unfolding record_indirect_def by (intro preserves_pbind) (auto simp: preserves_def)
qed

lemma same_functions_table:
  "same_functions a0 a \<Longrightarrow> same_functions a0 (snd (table_entries h i tb block es v r a))"
proof (induction es arbitrary: v r a)
  case Nil
  then show ?case by simp
next
  case (Cons e es)
  have rec: "preserves (same_functions a0) (pbind (record_indirect h i t tb kind 85 block) (\<lambda>_. table_entries h i tb block es (v + 1) 0))"
    for t kind using Cons.IH by (intro preserves_pbind same_functions_record_indirect) (simp add: preserves_def)
  show ?case
    unfolding table_entries.simps Let_def
    by (intro same_functions_ifI) (simp_all only: preservesD [OF rec Cons.prems] Cons.IH [OF Cons.prems] snd_conv Cons.prems)
qed

lemma same_functions_counts:
  assumes "same_functions a0 a"
  shows "same_functions a0 (count_resolved k n a)" "same_functions a0 (count_unresolved k a)"
proof -
  have "same_functions a0 (a\<lparr>an_resolved := x\<rparr>)" "same_functions a0 (a\<lparr>an_unresolved := x\<rparr>)" for x
    using assms by (simp_all add: same_functions_def)
  then show "same_functions a0 (count_resolved k n a)" "same_functions a0 (count_unresolved k a)"
    unfolding count_resolved_def count_unresolved_def by (intro same_functions_updateI; simp add: function_extent_def)+
qed

lemma same_functions_resolve: "same_functions a0 a \<Longrightarrow> same_functions a0 (snd (resolve_indirect h k i st a))"
proof -
  assume a: "same_functions a0 a"
  have "preserves (same_functions a0) (table_entries h i tb block es v r)" for tb block es v r
    using same_functions_table by (simp add: preserves_def)
  then have t: "preserves (same_functions a0) (pbind (table_entries h i tb block es v r)
      (\<lambda>n a. (Inr (), if n \<ge> 2 then count_resolved k n a else count_unresolved k a)))" for tb block es v r
    by (intro preserves_pbind) (simp_all add: preserves_def same_functions_counts)
  have r: "preserves (same_functions a0) (pbind (record_indirect h i t tb kind c block) (\<lambda>_ a. (Inr (), count_resolved k 1 a)))"
    for t tb kind c block
    by (intro preserves_pbind same_functions_record_indirect) (simp add: preserves_def same_functions_counts)
  show ?thesis
  proof (cases "memory_of (operands i 0)")
    case None
    then show ?thesis using a by (simp add: resolve_indirect_def)
  next
    case (Some m)
    show ?thesis
      unfolding resolve_indirect_def resolve_table_def Let_def Some option.case
      by (intro same_functions_ifI) (simp_all only: preservesD [OF r a] preservesD [OF t a] snd_conv a same_functions_counts)
  qed
qed

lemma inspect_extent: "function_extent (ru_function (inspect_register_usage i u)) = function_extent (ru_function u)"
proof -
  have one: "function_extent (ru_function (inspect_operand p u)) = function_extent (ru_function u)" for p u
    by (auto simp: inspect_operand_def inspect_register_def inspect_memory_def Let_def function_extent_def
        split: option.split)
  have "function_extent (ru_function (fold (\<lambda>k. inspect_operand (operands i k)) ks u)) = function_extent (ru_function u)" for ks u
    by (induction ks arbitrary: u) (simp_all add: one)
  then show ?thesis by (simp add: inspect_register_usage_def Let_def function_extent_def)
qed

lemma same_functions_walk: "preserves (\<lambda>s. same_functions a0 (sw_analysis s)) (walk_instruction h k i)"
proof -
  have fact: "same_functions a0 a \<Longrightarrow> same_functions a0 (snd (record_fact h i st a))" for st a
    by (auto simp: record_fact_def add_constant_fact_def append_array_def Let_def same_functions_def
        split: option.split prod.split sum.split)
  have upd: "same_functions a0 (update_function k (\<lambda>_. ru_function (inspect_register_usage i
      \<lparr>ru_function = an_functions a ! k, ru_written = x, ru_stack = y\<rparr>)) a)" if "same_functions a0 a" for a x y
    by (rule same_functions_updateI [OF that]) (simp add: inspect_extent)
  show ?thesis
  proof (unfold preserves_def, intro allI impI)
    fix s :: semantic_walk
    assume s: "same_functions a0 (sw_analysis s)"
    let ?u = "inspect_register_usage i \<lparr>ru_function = an_functions (sw_analysis s) ! k, ru_written = sw_written s, ru_stack = sw_stack s\<rparr>"
    obtain r1 a1 where r: "resolve_indirect h k i (sw_registers s) (update_function k (\<lambda>_. ru_function ?u) (sw_analysis s)) = (r1, a1)"
      by (cases "resolve_indirect h k i (sw_registers s) (update_function k (\<lambda>_. ru_function ?u) (sw_analysis s))")
    have a1: "same_functions a0 a1"
      using same_functions_resolve [OF upd [OF s], of h k i "sw_registers s" "sw_written s" "sw_stack s"] r by simp
    show "same_functions a0 (sw_analysis (snd (walk_instruction h k i s)))"
      using a1 fact [OF a1, of "sw_registers s"] r
      by (auto simp: walk_instruction_def Let_def split: sum.split prod.split)
  qed
qed

lemma same_functions_semantics:
  assumes "same_functions a0 a"
  shows "same_functions a0 (snd (analyze_function_semantics h k a))"
proof -
  have walk: "preserves (\<lambda>s. same_functions a0 (sw_analysis s)) (walk_block h k w j)" for w j
  proof -
    have "preserves (\<lambda>s. same_functions a0 (sw_analysis s)) (pfor is (walk_instruction h k))" for "is"
      by (intro preserves_pfor same_functions_walk)
    then show ?thesis by (simp add: preserves_def walk_block_def Let_def)
  qed
  define a1 where "a1 = update_function k reset_semantics a"
  have "same_functions a0 a1"
    unfolding a1_def by (rule same_functions_updateI [OF assms]) (simp add: reset_semantics_def function_extent_def)
  then have a1: "same_functions a0 a1" "same_functions a0 (a1\<lparr>an_allocations := n\<rparr>)" for n by (simp_all add: same_functions_def)
  obtain r s where p: "pfor [0..<fn_block_count (an_functions a1 ! k)]
      (walk_block h k (propagate (a1\<lparr>an_allocations := an_allocations a1 + 4\<rparr>) (an_functions a1 ! k)
        (initial_work (fn_block_count (an_functions a1 ! k)))))
      \<lparr>sw_analysis = a1\<lparr>an_allocations := an_allocations a1 + 4\<rparr>, sw_written = (\<lambda>_. False), sw_stack = 0,
        sw_registers = (\<lambda>_. unknown_value)\<rparr> = (r, s)" by (meson surj_pair)
  have s: "same_functions a0 (sw_analysis s)"
    using preservesD_eq [OF preserves_pfor [OF walk] p] a1(2) by simp
  have f: "same_functions a0 (update_function k (\<lambda>f. f\<lparr>fn_frame_size := x\<rparr>) (sw_analysis s))" for x
    by (rule same_functions_updateI [OF s]) (simp add: function_extent_def)
  show ?thesis
    unfolding analyze_function_semantics_def Let_def a1_def [symmetric] p
    by (intro same_functions_ifI) (simp_all add: a1 s f split: sum.split)
qed

text \<open>Classifying changes unknown bytes only, into anything but code.\<close>

definition only_unknown :: "vf2_i960_analysis \<Rightarrow> vf2_i960_analysis \<Rightarrow> bool" where
  "only_unknown a0 a \<longleftrightarrow> an_image a = an_image a0 \<and> an_size a = an_size a0 \<and> an_functions a = an_functions a0 \<and>
     an_blocks a = an_blocks a0 \<and>
     (\<forall>k. an_map a k \<noteq> an_map a0 k \<longrightarrow> k < an_size a0 \<and> an_map a0 k = IMAGE_UNKNOWN \<and>
        (an_map a k = IMAGE_STRING \<and> is_printable_string_byte (an_image a0 k) \<or>
         an_map a k = IMAGE_PADDING \<and> (an_image a0 k = 0 \<or> an_image a0 k = 0xff)))"

lemma only_unknown_set:
  assumes "only_unknown a0 a"
    and "\<And>j. \<lbrakk>offset \<le> j; j < e\<rbrakk> \<Longrightarrow> j < an_size a \<and> an_map a j = IMAGE_UNKNOWN \<and>
      (c = IMAGE_STRING \<and> is_printable_string_byte (an_image a j) \<or> c = IMAGE_PADDING \<and> (an_image a j = 0 \<or> an_image a j = 0xff))"
  shows "only_unknown a0 (set_class offset e c a)"
proof -
  have "an_map a0 j = IMAGE_UNKNOWN" if "an_map a j = IMAGE_UNKNOWN" for j
  proof (rule ccontr)
    assume "an_map a0 j \<noteq> IMAGE_UNKNOWN"
    then show False using assms(1) that unfolding only_unknown_def by metis
  qed
  then show ?thesis
    using assms(1) assms(2) unfolding only_unknown_def set_class_def by auto
qed

lemma only_unknown_strings:
  "classify_strings h offset a = (r, a') \<Longrightarrow> only_unknown a0 a \<Longrightarrow> only_unknown a0 a'"
proof (induction h offset a rule: classify_strings.induct)
  case (1 h offset a)
  note unfolded = "1.prems"(1) [unfolded classify_strings.simps [of h offset a] Let_def]
  let ?e = "run_of is_printable_string_byte a offset"
  let ?n = "if ?e = offset then offset + 1 else ?e"
  obtain r1 a1 where x: "string_xrefs h offset ?e 0 (set_class offset ?e IMAGE_STRING a) = (r1, a1)"
    by (cases "string_xrefs h offset ?e 0 (set_class offset ?e IMAGE_STRING a)")
  have "only_unknown a0 (set_class offset ?e IMAGE_STRING a)"
    using run_of_in [of offset _ is_printable_string_byte a] by (intro only_unknown_set [OF "1.prems"(2)]) blast
  then have a1: "only_unknown a0 a1" by (subst string_xrefs_keeps [OF x]) (simp add: only_unknown_def)
  show ?case
  proof (cases "offset < an_size a")
    case False
    then show ?thesis using unfolded "1.prems"(2) by simp
  next
    case inside: True
    show ?thesis
    proof (cases "an_map a offset \<noteq> IMAGE_UNKNOWN \<or> \<not> is_printable_string_byte (an_image a offset)")
      case True
      then show ?thesis using unfolded inside "1.IH"(1) "1.prems"(2) by simp
    next
      case False
      show ?thesis
      proof (cases "?e - offset \<ge> 5 \<and> ?e < an_size a \<and> an_image a ?e = 0")
        case True
        show ?thesis
        proof (cases r1)
          case (Inl er)
          then show ?thesis using unfolded inside False True x a1 by auto
        next
          case (Inr u)
          then have "classify_strings h ?n a1 = (r, a')" using unfolded inside False True x by auto
          then show ?thesis using "1.IH"(2) [OF _ False refl refl True x [symmetric] Inr _ a1] inside by simp
        qed
      next
        case no: False
        then have "classify_strings h ?n a = (r, a')" using unfolded inside False by auto
        then show ?thesis using "1.IH"(3) [OF _ False refl refl no _ "1.prems"(2)] inside by simp
      qed
    qed
  qed
qed

lemma only_unknown_padding: "only_unknown a0 a \<Longrightarrow> only_unknown a0 (classify_padding offset a)"
proof (induction offset a rule: classify_padding.induct)
  case (1 offset a)
  let ?e = "run_of (\<lambda>v. v = an_image a offset) a offset"
  show ?case
  proof (cases "offset < an_size a \<and> \<not> (an_map a offset \<noteq> IMAGE_UNKNOWN \<or> an_image a offset \<noteq> 0 \<and> an_image a offset \<noteq> 0xff)")
    case False
    then show ?thesis using "1.IH"(1) "1.prems" by (subst classify_padding.simps) auto
  next
    case True
    let ?next = "if ?e - offset \<ge> 16 then set_class offset ?e IMAGE_PADDING a else a"
    have in_run: "j < an_size a \<and> an_map a j = IMAGE_UNKNOWN \<and>
        (IMAGE_PADDING = IMAGE_STRING \<and> is_printable_string_byte (an_image a j) \<or>
         IMAGE_PADDING = IMAGE_PADDING \<and> (an_image a j = 0 \<or> an_image a j = 0xff))" if "offset \<le> j" "j < ?e" for j
      using run_of_in [OF that] True by simp
    have "only_unknown a0 ?next"
      using only_unknown_set [OF "1.prems" in_run, of offset] "1.prems" by simp
    moreover have "classify_padding offset a = classify_padding ?e ?next"
      using True unfolding classify_padding.simps [of offset a] Let_def
      by (metis not_le)
    ultimately show ?thesis using "1.IH"(2) [OF _ _ refl] True by simp
  qed
qed

section \<open>The functions found\<close>

definition entries_queued :: "memory \<Rightarrow> nat \<Rightarrow> u32 set \<Rightarrow> discovery \<Rightarrow> bool" where
  "entries_queued img n E s \<longleftrightarrow>
     an_image (ds_analysis s) = img \<and> an_size (ds_analysis s) = n \<and> an_functions (ds_analysis s) = [] \<and>
     an_map (ds_analysis s) = (\<lambda>_. IMAGE_UNKNOWN) \<and> q_cursor (ds_functions s) = 0 \<and>
     set (q_items (ds_functions s)) = {e \<in> E. code_address n e}"

lemma queue_entry_result:
  assumes "queue_entry h e s = (Inr (), s')" and "entries_queued img n E s"
  shows "entries_queued img n (insert e E) s'"
proof -
  have v: "is_valid_code_address (ds_analysis s) e \<longleftrightarrow> code_address n e"
    using assms(2) by (simp add: entries_queued_def is_valid_code_address_def code_address_def)
  show ?thesis
  proof (cases "code_address n e")
    case False
    then have "s' = s" using assms(1) v by (simp add: queue_entry_def pwhen_def)
    moreover have "{x \<in> insert e E. code_address n x} = {x \<in> E. code_address n x}" using False by auto
    ultimately show ?thesis using assms(2) by (simp add: entries_queued_def)
  next
    case True
    then have "push_function h e s = (Inr (), s')" using assms(1) v by (simp add: queue_entry_def pwhen_def)
    then have "an_image (ds_analysis s') = an_image (ds_analysis s) \<and> an_size (ds_analysis s') = an_size (ds_analysis s) \<and>
        an_functions (ds_analysis s') = an_functions (ds_analysis s) \<and> an_map (ds_analysis s') = an_map (ds_analysis s) \<and>
        q_cursor (ds_functions s') = q_cursor (ds_functions s) \<and>
        set (q_items (ds_functions s')) = insert e (set (q_items (ds_functions s)))"
      by (auto simp: push_function_def queue_push_unique_def split: if_splits prod.splits sum.splits)
    moreover have "{x \<in> insert e E. code_address n x} = insert e {x \<in> E. code_address n x}" using True by auto
    ultimately show ?thesis using assms(2) by (simp add: entries_queued_def)
  qed
qed

lemma queue_entries_result:
  "\<lbrakk>pfor es (queue_entry h) s = (Inr (), s'); entries_queued img n E s\<rbrakk> \<Longrightarrow> entries_queued img n (E \<union> set es) s'"
proof (induction es arbitrary: s E)
  case Nil
  then show ?case by simp
next
  case (Cons e es)
  obtain s1 where s1: "queue_entry h e s = (Inr (), s1)" "pfor es (queue_entry h) s1 = (Inr (), s')"
    using Cons.prems(1) by (auto elim: pbind_okE)
  then show ?case using Cons.IH [OF s1(2) queue_entry_result [OF s1(1) Cons.prems(2)]] by simp
qed

lemma entries_recovered: "entries_queued img n E s \<Longrightarrow> recovered img n E s"
  by (auto simp: entries_queued_def recovered_def intro: called.entry)

text \<open>The passes after the functions are found leave them, and what is code, as they are.\<close>

definition same_code_map :: "vf2_i960_analysis \<Rightarrow> vf2_i960_analysis \<Rightarrow> bool" where
  "same_code_map a0 a \<longleftrightarrow> map fn_address (an_functions a) = map fn_address (an_functions a0) \<and>
     {k. an_map a k = IMAGE_CODE} = {k. an_map a0 k = IMAGE_CODE}"

lemma extent_addresses: "map function_extent xs = map function_extent ys \<Longrightarrow> map fn_address xs = map fn_address ys"
proof -
  assume "map function_extent xs = map function_extent ys"
  then have "map fst (map function_extent xs) = map fst (map function_extent ys)" by simp
  then show ?thesis by (simp add: function_extent_def comp_def)
qed

lemma later_passes_code:
  assumes "pbind (vf2_i960_run_semantic_analysis h) (\<lambda>_. pbind (vf2_i960_detect_function_boundaries h)
      (\<lambda>_. pbind (classify_strings h 0) (\<lambda>_ a. (Inr (), classify_padding 0 a)))) a = (Inr (), a')"
  shows "same_code_map a a'"
proof -
  obtain a1 a2 a3 where 1: "vf2_i960_run_semantic_analysis h a = (Inr (), a1)"
    and 2: "vf2_i960_detect_function_boundaries h a1 = (Inr (), a2)"
    and 3: "classify_strings h 0 a2 = (Inr (), a3)" and 4: "a' = classify_padding 0 a3"
    using assms by (auto elim!: pbind_okE)
  let ?a = "a\<lparr>an_facts := [], an_fact_capacity := 0, an_targets := [], an_target_capacity := 0, an_resolved := 0, an_unresolved := 0\<rparr>"
  have "preserves (same_functions a) (pfor [0..<length (an_functions a)] (analyze_function_semantics h))"
    by (intro preserves_pfor) (simp add: preserves_def same_functions_semantics)
  then have "same_functions a a1"
    using preservesD_eq [of "same_functions a" _ ?a "Inr ()" a1] 1
    by (simp add: vf2_i960_run_semantic_analysis_def same_functions_def)
  moreover have "same_layout a1 a2" by (rule detect_boundaries_result [OF 2])
  moreover have "only_unknown a2 a'"
    unfolding 4 by (intro only_unknown_padding only_unknown_strings [OF 3]) (simp add: only_unknown_def)
  moreover from this have "an_map a' k = IMAGE_CODE \<longleftrightarrow> an_map a2 k = IMAGE_CODE" for k
    by (cases "an_map a' k = an_map a2 k") (auto simp: only_unknown_def)
  ultimately show ?thesis
    by (auto simp: same_code_map_def same_functions_def same_layout_def only_unknown_def dest!: extent_addresses)
qed

text \<open>What an analysis that succeeds finds: each function once, only functions called from the entry points,
  code at their instructions only; and all of them, unless some instruction starts in the middle of another.\<close>

lemma analyze_functions:
  assumes i: "vf2_i960_analysis_init h img n a0 = (Inr (), a)" and r: "vf2_i960_analyze h es a = (Inr (), a')"
  defines "F \<equiv> set (map fn_address (an_functions a'))" and "C \<equiv> {k. an_map a' k = IMAGE_CODE}"
  shows "distinct (map fn_address (an_functions a'))"
    and "F \<subseteq> {t. called img n (set es) t}" and "{e \<in> set es. code_address n e} \<subseteq> F"
    and "C \<subseteq> (\<Union>e \<in> F. function_bytes img n e)"
    and "(\<And>e. called img n (set es) e \<Longrightarrow> no_overlap img n e) \<Longrightarrow>
      F = {t. called img n (set es) t} \<and> C = (\<Union>e \<in> F. function_bytes img n e)"
proof -
  have a: "an_image a = img" "an_size a = n" "an_functions a = []" "an_map a = (\<lambda>_. IMAGE_UNKNOWN)"
    using i by (auto simp: vf2_i960_analysis_init_def Let_def split: if_splits)
  have start: "entries_queued img n {} (start_discovery a)"
    by (simp add: entries_queued_def start_discovery_def empty_queue_def a)
  obtain s1 s2 where 1: "pfor es (queue_entry h) (start_discovery a) = (Inr (), s1)" and 2: "function_loop h s1 = (Inr (), s2)"
    and 3: "pbind (vf2_i960_run_semantic_analysis h) (\<lambda>_. pbind (vf2_i960_detect_function_boundaries h)
      (\<lambda>_. pbind (classify_strings h 0) (\<lambda>_ a. (Inr (), classify_padding 0 a)))) (ds_analysis s2) = (Inr (), a')"
    using r unfolding vf2_i960_analyze_def by (auto elim!: pbind_okE split: if_splits prod.splits sum.splits)
  have "recovered img n (set es) s1" using entries_recovered queue_entries_result [OF 1 start] by simp
  from function_loop_recovered [OF 2 this] have rec: "recovered img n (set es) s2"
    and all: "length (q_items (ds_functions s2)) \<le> q_cursor (ds_functions s2)" by simp_all
  have c: "map fn_address (an_functions a') = addresses_of s2" "C = code_of s2"
    using later_passes_code [OF 3] by (simp_all add: same_code_map_def C_def)
  have items: "set (q_items (ds_functions s2)) = F" using rec all by (simp add: F_def c recovered_def)
  have F: "F = set (addresses_of s2)" by (simp add: F_def c)
  show "distinct (map fn_address (an_functions a'))" using rec by (simp add: c recovered_def)
  show only: "F \<subseteq> {t. called img n (set es) t}" using rec unfolding recovered_def items by auto
  show entries: "{e \<in> set es. code_address n e} \<subseteq> F" using rec unfolding recovered_def items by (elim conjE)
  show code: "C \<subseteq> (\<Union>e \<in> F. function_bytes img n e)" using rec unfolding recovered_def c(2) F by (elim conjE)
  assume o: "\<And>e. called img n (set es) e \<Longrightarrow> no_overlap img n e"
  have "(\<forall>e. called img n (set es) e \<longrightarrow> no_overlap img n e) \<longrightarrow>
      (\<Union>e \<in> F. function_calls img n e) \<subseteq> F \<and> (\<Union>e \<in> F. function_bytes img n e) \<subseteq> C"
    using rec unfolding recovered_def items c(2) F [symmetric] by (elim conjE)
  then have closed: "(\<Union>e \<in> F. function_calls img n e) \<subseteq> F" and bytes: "(\<Union>e \<in> F. function_bytes img n e) \<subseteq> C"
    using o by simp_all
  have "t \<in> F" if "called img n (set es) t" for t
    using that by (induction rule: called.induct) (use entries closed in auto)
  then show "F = {t. called img n (set es) t} \<and> C = (\<Union>e \<in> F. function_bytes img n e)"
    using only code bytes by blast
qed

end
