(* ===== verification/Vf2_Semantics_Laws.thy ===== *)
theory Vf2_Semantics_Laws
  imports Vf2_Semantics Vf2_I960_Executor
begin

text \<open>
  What the abstract values stand for: the low 32 bits of a constant are the register, and the
  abstract arithmetic agrees with the interpreter's. The work list ends at a fixpoint of the
  transfer unless it ran out of room.
\<close>

section \<open>Arithmetic\<close>

lemma low_of_int: "(ucast (word_of_int k :: u64) :: u32) = word_of_int k"
  by (rule bit_word_eqI) (auto simp: bit_simps)

lemma low_bits:
  fixes l r :: u64
  shows "(ucast (l + r) :: u32) = ucast r + ucast l" "(ucast (r - l) :: u32) = ucast r - ucast l"
    "(ucast (l * r) :: u32) = ucast l * ucast r"
    "(ucast (l AND r) :: u32) = ucast r AND ucast l" "(ucast (l OR r) :: u32) = ucast r OR ucast l"
    "(ucast (l XOR r) :: u32) = ucast r XOR ucast l" "(ucast (push_bit k r) :: u32) = push_bit k (ucast r)"
proof -
  have w: "l = word_of_int (uint l)" "r = word_of_int (uint r)" by simp_all
  show "(ucast (l + r) :: u32) = ucast r + ucast l"
    using low_of_int [of "uint l + uint r"] low_of_int [of "uint l"] low_of_int [of "uint r"] by (simp add: add.commute)
  show "(ucast (r - l) :: u32) = ucast r - ucast l"
    using low_of_int [of "uint r - uint l"] low_of_int [of "uint l"] low_of_int [of "uint r"] by simp
  show "(ucast (l * r) :: u32) = ucast l * ucast r"
    using low_of_int [of "uint l * uint r"] low_of_int [of "uint l"] low_of_int [of "uint r"] by simp
  show "(ucast (l AND r) :: u32) = ucast r AND ucast l" "(ucast (l OR r) :: u32) = ucast r OR ucast l"
    "(ucast (l XOR r) :: u32) = ucast r XOR ucast l" "(ucast (push_bit k r) :: u32) = push_bit k (ucast r)"
    by (rule bit_word_eqI, auto simp: bit_simps)+
qed

text \<open>The shifts agree where the count is below 32 and, to the right, the operand is a 32-bit value.\<close>

definition shift_in_range :: "string \<Rightarrow> u64 \<Rightarrow> u64 \<Rightarrow> bool" where
  "shift_in_range mn count v \<longleftrightarrow>
     (mn \<in> set [''shlo'', ''shli''] \<longrightarrow> (ucast count :: u32) < 32) \<and>
     (mn = ''shro'' \<longrightarrow> (ucast count :: u32) < 32 \<and> v \<le> 0xffffffff)"

lemma low_count: "(ucast c :: u32) < 32 \<Longrightarrow> unat (c AND 31) = unat (ucast c :: u32)" for c :: u64
proof -
  assume "(ucast c :: u32) < 32"
  then have "take_bit 32 (unat c) < 2 ^ 5" by (simp add: word_less_nat_alt unsigned_ucast_eq)
  then have "take_bit 5 (take_bit 32 (unat c)) = take_bit 32 (unat c)" by (simp only: take_bit_nat_eq_self_iff)
  moreover have "c AND 31 = take_bit 5 c" by (simp add: take_bit_eq_mask mask_eq_exp_minus_1)
  ultimately show ?thesis by (simp add: unsigned_take_bit_eq unsigned_ucast_eq)
qed

lemma drop_low: "v \<le> 0xffffffff \<Longrightarrow> (ucast (drop_bit k v) :: u32) = drop_bit k (ucast v)" for v :: u64
proof -
  assume "v \<le> 0xffffffff"
  then have "unat v < 2 ^ 32" by (simp add: word_le_nat_alt)
  then have "take_bit 32 (unat v) = unat v" by (simp only: take_bit_nat_eq_self_iff)
  then have "bit (unat v) j \<Longrightarrow> j < 32" for j by (metis bit_take_bit_iff)
  then have "bit v j \<Longrightarrow> j < 32" for j by (simp add: bit_unsigned_iff bit_imp_le_length)
  then show ?thesis by (intro bit_word_eqI) (auto simp: bit_simps)
qed

lemma binary_result_alu:
  assumes "v_kind l = VALUE_CONSTANT" "v_kind r = VALUE_CONSTANT"
    and "mn \<in> set [''addo'', ''addi'', ''subo'', ''subi'', ''and'', ''or'', ''xor'', ''shlo'', ''shli'', ''shro'']"
    and "shift_in_range mn (v_value l) (v_value r)"
  shows "v_kind (binary_result mn l r) = VALUE_CONSTANT"
    and "ucast (v_value (binary_result mn l r)) = alu_result mn (ucast (v_value l)) (ucast (v_value r))"
proof -
  show "v_kind (binary_result mn l r) = VALUE_CONSTANT"
    using assms(1-3) by (auto simp: binary_result_def constant_value_def Let_def)
  show "ucast (v_value (binary_result mn l r)) = alu_result mn (ucast (v_value l)) (ucast (v_value r))"
  proof -
    note defs = binary_result_def constant_value_def Let_def alu_result_def low_bits assms(1,2)
    have "mn = ''addo'' \<or> mn = ''addi'' \<or> mn = ''subo'' \<or> mn = ''subi'' \<or> mn = ''and'' \<or> mn = ''or'' \<or> mn = ''xor'' \<or>
        mn = ''shlo'' \<or> mn = ''shli'' \<or> mn = ''shro''" using assms(3) by simp
    then show ?thesis
      by (elim disjE) (use assms(4) in \<open>auto simp: defs shift_in_range_def low_count drop_low dest: leD\<close>)
  qed
qed

lemma binary_result_mul:
  assumes "v_kind l = VALUE_CONSTANT" "v_kind r = VALUE_CONSTANT" and "mn = ''mulo'' \<or> mn = ''muli''"
  shows "ucast (v_value (binary_result mn l r)) = (ucast (v_value l) * ucast (v_value r) :: u32)"
  using assms(3) by (elim disjE) (simp_all add: binary_result_def constant_value_def Let_def low_bits assms(1,2))

section \<open>The fixpoint\<close>

text \<open>A state is below another where it knows no register differently.\<close>

definition below :: "register_state \<Rightarrow> register_state \<Rightarrow> bool" where
  "below d s \<longleftrightarrow> (\<forall>k < 32. v_kind (d k) = VALUE_UNKNOWN \<or> d k = s k)"

lemma below_refl [simp]: "below s s"
  by (simp add: below_def)

lemma merge_below: "below (fst (merge_state d s)) s" "below d t \<Longrightarrow> below (fst (merge_state d s)) t"
  by (auto simp: merge_state_def merges_def below_def unknown_value_def)

lemma merge_unchanged: "\<not> snd (merge_state d s) \<Longrightarrow> fst (merge_state d s) = d"
  by (rule ext) (auto simp: merge_state_def list_ex_iff)

text \<open>The output of block \<open>j\<close> is accounted for in the block numbered \<open>n\<close>.\<close>

definition accounted :: "register_state \<Rightarrow> work_list \<Rightarrow> nat option \<Rightarrow> bool" where
  "accounted st w n = (case n of None \<Rightarrow> True | Some n \<Rightarrow> wl_initialized w ! n \<and> below (wl_inputs w ! n) st)"

definition settled :: "vf2_i960_analysis \<Rightarrow> vf2_function \<Rightarrow> work_list \<Rightarrow> nat \<Rightarrow> bool" where
  "settled a f w j \<longleftrightarrow>
     (let b = an_blocks a ! (fn_first_block f + j)
      in \<forall>s \<in> set (bb_successors b). accounted (block_output a b (wl_inputs w ! j)) w (function_block_index a f s))"

definition pending :: "work_list \<Rightarrow> nat set" where
  "pending w = set (drop (wl_cursor w) (wl_queue w))"

definition work_ok :: "nat \<Rightarrow> work_list \<Rightarrow> bool" where
  "work_ok count w \<longleftrightarrow> length (wl_inputs w) = count \<and> length (wl_initialized w) = count \<and> length (wl_queued w) = count \<and>
     wl_cursor w \<le> length (wl_queue w) \<and> set (wl_queue w) \<subseteq> {..<count} \<and>
     (\<forall>j < count. wl_queued w ! j \<longrightarrow> j \<in> pending w)"

text \<open>One block's output reaching a successor: what was accounted for stays so, other inputs do not change,
  and a changed input is pending.\<close>

lemma flow_into_result:
  fixes st :: register_state
  assumes w: "work_ok count w" and n: "\<forall>k. n = Some k \<longrightarrow> k < count" and r: "length (wl_queue w) < queue_room count"
  defines "w' \<equiv> flow_into count st n w"
  shows "work_ok count w'" and "accounted st w' n" and "\<And>s m. accounted s w m \<Longrightarrow> (\<And>k. m = Some k \<Longrightarrow> k < count) \<Longrightarrow> accounted s w' m"
    and "pending w \<subseteq> pending w'"
    and "\<And>j. j < count \<Longrightarrow> wl_initialized w' ! j \<Longrightarrow> j \<in> pending w' \<or> wl_initialized w ! j \<and> wl_inputs w' ! j = wl_inputs w ! j"
    and "\<And>j. j < count \<Longrightarrow> wl_initialized w ! j \<Longrightarrow> wl_initialized w' ! j"
proof -
  have len: "length (wl_inputs w) = count" "length (wl_initialized w) = count" "length (wl_queued w) = count"
    "wl_cursor w \<le> length (wl_queue w)" using w by (simp_all add: work_ok_def)
  define m where "m k = (if wl_initialized w ! k then merge_state (wl_inputs w ! k) st else (st, True))" for k
  have inputs: "wl_inputs w' = (case n of None \<Rightarrow> wl_inputs w | Some k \<Rightarrow> (wl_inputs w)[k := fst (m k)])"
    "wl_initialized w' = (case n of None \<Rightarrow> wl_initialized w | Some k \<Rightarrow> (wl_initialized w)[k := True])"
    "wl_cursor w' = wl_cursor w"
    by (simp_all add: w'_def flow_into_def m_def Let_def split: option.split)
  have queue: "wl_queue w' = (case n of Some k \<Rightarrow> if snd (m k) \<and> \<not> wl_queued w ! k then wl_queue w @ [k] else wl_queue w | None \<Rightarrow> wl_queue w)"
    "wl_queued w' = (case n of Some k \<Rightarrow> if snd (m k) \<and> \<not> wl_queued w ! k then (wl_queued w)[k := True] else wl_queued w | None \<Rightarrow> wl_queued w)"
    using r by (simp_all add: w'_def flow_into_def m_def Let_def split: option.split)
  show pend: "pending w \<subseteq> pending w'"
    using len by (auto simp: pending_def queue inputs split: option.split)
  show "work_ok count w'"
    using w n len pend unfolding work_ok_def
    by (auto simp: inputs queue pending_def nth_list_update split: option.split if_splits)
  show "accounted st w' n"
    using n len merge_below(1) by (auto simp: accounted_def inputs m_def split: option.split)
  show "accounted s w' p" if "accounted s w p" "\<And>k. p = Some k \<Longrightarrow> k < count" for s p
    using that n len merge_below(2) by (auto simp: accounted_def inputs m_def nth_list_update split: option.splits)
  show "j \<in> pending w' \<or> wl_initialized w ! j \<and> wl_inputs w' ! j = wl_inputs w ! j" if "j < count" "wl_initialized w' ! j" for j
  proof (cases "n = Some j \<and> snd (m j)")
    case True
    then have "j \<in> pending w'" using that(1) w len
      by (auto simp: pending_def queue inputs work_ok_def)
    then show ?thesis ..
  next
    case False
    show ?thesis
    proof (cases "n = Some j")
      case True
      then have "wl_initialized w ! j" "fst (m j) = wl_inputs w ! j"
        using False merge_unchanged by (auto simp: m_def split: if_splits)
      then show ?thesis using True that(1) len by (simp add: inputs)
    next
      case other: False
      then show ?thesis using that by (auto simp: inputs split: option.splits)
    qed
  qed
  show "wl_initialized w' ! j" if "j < count" "wl_initialized w ! j" for j
    using that len n by (auto simp: inputs nth_list_update split: option.split)
qed

definition carries :: "nat \<Rightarrow> work_list \<Rightarrow> work_list \<Rightarrow> bool" where
  "carries count w w' \<longleftrightarrow> work_ok count w' \<and> pending w \<subseteq> pending w' \<and>
     (\<forall>t m. accounted t w m \<longrightarrow> (\<forall>k. m = Some k \<longrightarrow> k < count) \<longrightarrow> accounted t w' m) \<and>
     (\<forall>j < count. wl_initialized w' ! j \<longrightarrow> j \<in> pending w' \<or> wl_initialized w ! j \<and> wl_inputs w' ! j = wl_inputs w ! j) \<and>
     (\<forall>j < count. wl_initialized w ! j \<longrightarrow> wl_initialized w' ! j)"

lemma carries_trans: "\<lbrakk>carries count u v; carries count v w\<rbrakk> \<Longrightarrow> carries count u w"
proof -
  assume u: "carries count u v" and v: "carries count v w"
  have "j \<in> pending w \<or> wl_initialized u ! j \<and> wl_inputs w ! j = wl_inputs u ! j" if "j < count" "wl_initialized w ! j" for j
  proof (rule disjCI)
    assume n: "\<not> (wl_initialized u ! j \<and> wl_inputs w ! j = wl_inputs u ! j)"
    show "j \<in> pending w"
    proof (cases "wl_initialized v ! j \<and> wl_inputs w ! j = wl_inputs v ! j")
      case True
      then have "j \<in> pending v" using u n that(1) by (auto simp: carries_def)
      then show ?thesis using v by (auto simp: carries_def)
    next
      case False
      then show ?thesis using v that by (auto simp: carries_def)
    qed
  qed
  then show "carries count u w" using u v by (auto simp: carries_def)
qed

lemma flow_into_carries:
  assumes "work_ok count w" and "\<forall>k. n = Some k \<longrightarrow> k < count" and "length (wl_queue w) < queue_room count"
  shows "carries count w (flow_into count st n w)"
  unfolding carries_def
proof (intro conjI allI impI)
  note r = flow_into_result [where n = n and st = st, OF assms]
  show "work_ok count (flow_into count st n w)" by (rule r(1))
  show "pending w \<subseteq> pending (flow_into count st n w)" by (rule r(4))
  show "accounted t (flow_into count st n w) m" if "accounted t w m" "\<forall>k. m = Some k \<longrightarrow> k < count" for t m
    using that by (intro r(3)) simp_all
  show "j \<in> pending (flow_into count st n w) \<or>
      wl_initialized w ! j \<and> wl_inputs (flow_into count st n w) ! j = wl_inputs w ! j"
    if "j < count" "wl_initialized (flow_into count st n w) ! j" for j using that by (rule r(5))
  show "wl_initialized (flow_into count st n w) ! j" if "j < count" "wl_initialized w ! j" for j using that by (rule r(6))
qed

text \<open>All successors of a block.\<close>

lemma flow_all_result:
  fixes st :: register_state and g :: "u32 \<Rightarrow> nat option"
  assumes "work_ok count w" and g: "\<And>s. \<forall>k. g s = Some k \<longrightarrow> k < count"
    and "length (wl_queue (fold (\<lambda>s. flow_into count st (g s)) ss w)) < queue_room count"
  shows "carries count w (fold (\<lambda>s. flow_into count st (g s)) ss w) \<and>
    (\<forall>s \<in> set ss. accounted st (fold (\<lambda>s. flow_into count st (g s)) ss w) (g s))"
  using assms(1,3)
proof (induction ss arbitrary: w)
  case Nil
  then show ?case by (simp add: carries_def)
next
  case (Cons s ss)
  let ?w = "flow_into count st (g s) w"
  have "length (wl_queue w) \<le> length (wl_queue (fold (\<lambda>s. flow_into count st (g s)) (s # ss) w))"
    using fold_flow_queue [where count = count and ss = "s # ss" and st = st and g = g and w = w] by (auto simp: queue_after_def)
  then have r: "length (wl_queue w) < queue_room count" using Cons.prems(2) by linarith
  have one: "carries count w ?w" "accounted st ?w (g s)"
    using flow_into_carries [OF Cons.prems(1) g r, where st = st] flow_into_result(2) [OF Cons.prems(1) g r, where st = st] by simp_all
  have "work_ok count ?w" using one(1) by (simp add: carries_def)
  moreover have "length (wl_queue (fold (\<lambda>s. flow_into count st (g s)) ss ?w)) < queue_room count" using Cons.prems(2) by simp
  ultimately have rest: "carries count ?w (fold (\<lambda>s. flow_into count st (g s)) ss ?w) \<and>
      (\<forall>s \<in> set ss. accounted st (fold (\<lambda>s. flow_into count st (g s)) ss ?w) (g s))" by (rule Cons.IH)
  have "accounted st (fold (\<lambda>s. flow_into count st (g s)) ss ?w) (g s)"
    using rest one(2) g unfolding carries_def by blast
  then show ?case using rest carries_trans [OF one(1)] by simp
qed

text \<open>One visit: every initialized block is settled or pending.\<close>

definition work_invariant :: "vf2_i960_analysis \<Rightarrow> vf2_function \<Rightarrow> work_list \<Rightarrow> bool" where
  "work_invariant a f w \<longleftrightarrow> work_ok (fn_block_count f) w \<and>
     (\<forall>j < fn_block_count f. wl_initialized w ! j \<longrightarrow> settled a f w j \<or> j \<in> pending w) \<and>
     accounted entry_state w (Some 0)"

lemma block_index_less: "function_block_index a f s = Some k \<Longrightarrow> k < fn_block_count f"
  by (auto simp: function_block_index_def find_Some_iff)

lemma visit_block_invariant:
  assumes w: "work_invariant a f w" and c: "wl_cursor w < length (wl_queue w)" and b: "0 < fn_block_count f"
  defines "w' \<equiv> visit_block a f (wl_queue w ! wl_cursor w) (w\<lparr>wl_cursor := wl_cursor w + 1\<rparr>)"
  assumes r: "length (wl_queue w') < queue_room (fn_block_count f)"
  shows "work_invariant a f w'"
proof -
  let ?count = "fn_block_count f" and ?j = "wl_queue w ! wl_cursor w"
  let ?b = "an_blocks a ! (fn_first_block f + ?j)"
  let ?st = "block_output a ?b (wl_inputs w ! ?j)"
  define w1 where "w1 = w\<lparr>wl_cursor := wl_cursor w + 1, wl_queued := (wl_queued w)[?j := False]\<rparr>"
  have w': "w' = fold (\<lambda>s. flow_into ?count ?st (function_block_index a f s)) (bb_successors ?b) w1"
    by (simp add: w'_def visit_block_def Let_def w1_def)
  have d: "drop (wl_cursor w) (wl_queue w) = ?j # drop (wl_cursor w + 1) (wl_queue w)"
    using c by (simp add: Cons_nth_drop_Suc)
  then have p: "pending w = insert ?j (pending w1)" by (simp add: pending_def w1_def)
  have "?j \<in> set (wl_queue w)" using c by simp
  then have j: "?j < ?count" using w by (auto simp: work_invariant_def work_ok_def)
  have "k \<in> pending w1" if "k < ?count" "wl_queued w1 ! k" for k
  proof -
    have "k \<noteq> ?j" using that j w by (auto simp: w1_def work_invariant_def work_ok_def)
    then show ?thesis using that w p by (auto simp: w1_def work_invariant_def work_ok_def)
  qed
  then have ok: "work_ok ?count w1" using w c by (simp add: work_invariant_def work_ok_def w1_def)
  have res: "carries ?count w1 w'" "\<forall>s \<in> set (bb_successors ?b). accounted ?st w' (function_block_index a f s)"
    using flow_all_result [OF ok, of "function_block_index a f" ?st "bb_successors ?b"] block_index_less r unfolding w' by blast+
  have same: "wl_inputs w1 = wl_inputs w" "wl_initialized w1 = wl_initialized w" by (simp_all add: w1_def)
  then have acc: "accounted t w1 m = accounted t w m" for t m by (simp add: accounted_def split: option.split)
  have "settled a f w' i \<or> i \<in> pending w'" if i: "i < ?count" "wl_initialized w' ! i" for i
  proof (rule disjCI)
    assume n: "i \<notin> pending w'"
    then have k: "wl_initialized w ! i" "wl_inputs w' ! i = wl_inputs w ! i"
      using res(1) i same by (auto simp: carries_def)
    show "settled a f w' i"
    proof (cases "i = ?j")
      case True
      then show ?thesis using res(2) k(2) by (simp add: settled_def Let_def)
    next
      case False
      then have "i \<notin> pending w" using n p res(1) by (auto simp: carries_def)
      then have "settled a f w i" using w i(1) k(1) by (auto simp: work_invariant_def)
      then show ?thesis using k(2) res(1) acc block_index_less unfolding settled_def Let_def carries_def by metis
    qed
  qed
  moreover have "accounted entry_state w' (Some 0)"
    using w acc res(1) b by (simp add: work_invariant_def carries_def)
  ultimately show ?thesis using res(1) by (simp add: work_invariant_def carries_def)
qed

lemma propagate_queue: "length (wl_queue w) \<le> length (wl_queue (propagate a f w))"
proof (induction a f w rule: propagate.induct)
  case (1 a f w)
  have "length (wl_queue w) \<le> length (wl_queue (visit_block a f (wl_queue w ! wl_cursor w) (w\<lparr>wl_cursor := wl_cursor w + 1\<rparr>)))"
    using visit_block_queue [of f "w\<lparr>wl_cursor := wl_cursor w + 1\<rparr>" a "wl_queue w ! wl_cursor w"] by (auto simp: queue_after_def)
  then show ?case using 1 by (subst propagate.simps) (cases "length (wl_queue w) \<le> wl_cursor w", auto)
qed

lemma propagate_invariant:
  "\<lbrakk>work_invariant a f w; 0 < fn_block_count f; length (wl_queue (propagate a f w)) < queue_room (fn_block_count f)\<rbrakk>
   \<Longrightarrow> work_invariant a f (propagate a f w) \<and> pending (propagate a f w) = {}"
proof (induction a f w rule: propagate.induct)
  case (1 a f w)
  let ?v = "visit_block a f (wl_queue w ! wl_cursor w) (w\<lparr>wl_cursor := wl_cursor w + 1\<rparr>)"
  show ?case
  proof (cases "length (wl_queue w) \<le> wl_cursor w")
    case True
    then have "propagate a f w = w" by (subst propagate.simps) simp
    then show ?thesis using "1.prems"(1) True by (simp add: pending_def)
  next
    case False
    then have eq: "propagate a f w = propagate a f ?v" by (subst propagate.simps) simp
    have r: "length (wl_queue ?v) < queue_room (fn_block_count f)"
      using "1.prems"(3) propagate_queue [of ?v a f] unfolding eq by linarith
    have "work_invariant a f ?v" using visit_block_invariant [OF "1.prems"(1) _ "1.prems"(2) r] False by simp
    then show ?thesis using "1.IH" [OF False _ "1.prems"(2)] "1.prems"(3) unfolding eq by blast
  qed
qed

lemma initial_invariant: "0 < fn_block_count f \<Longrightarrow> work_invariant a f (initial_work (fn_block_count f))"
  by (auto simp: work_invariant_def work_ok_def initial_work_def accounted_def pending_def nth_list_update)

lemma propagate_fixpoint:
  assumes "0 < fn_block_count f" and "length (wl_queue (propagate a f (initial_work (fn_block_count f)))) < queue_room (fn_block_count f)"
  defines "w \<equiv> propagate a f (initial_work (fn_block_count f))"
  shows "wl_initialized w ! 0" and "below (wl_inputs w ! 0) entry_state"
    and "\<And>j s n. \<lbrakk>j < fn_block_count f; wl_initialized w ! j; s \<in> set (bb_successors (an_blocks a ! (fn_first_block f + j)));
      function_block_index a f s = Some n\<rbrakk>
      \<Longrightarrow> wl_initialized w ! n \<and> below (wl_inputs w ! n) (block_output a (an_blocks a ! (fn_first_block f + j)) (wl_inputs w ! j))"
proof -
  have w: "work_invariant a f w" "pending w = {}"
    using propagate_invariant [OF initial_invariant] assms by blast+
  show "wl_initialized w ! 0" "below (wl_inputs w ! 0) entry_state" using w(1) by (simp_all add: work_invariant_def accounted_def)
  fix j s n
  assume "j < fn_block_count f" "wl_initialized w ! j" and s: "s \<in> set (bb_successors (an_blocks a ! (fn_first_block f + j)))"
    "function_block_index a f s = Some n"
  then have "settled a f w j" using w by (auto simp: work_invariant_def)
  then show "wl_initialized w ! n \<and> below (wl_inputs w ! n) (block_output a (an_blocks a ! (fn_first_block f + j)) (wl_inputs w ! j))"
    using s by (auto simp: settled_def Let_def accounted_def)
qed

end
