(* ===== verification/Vf2_Analysis_Properties.thy ===== *)
theory Vf2_Analysis_Properties
  imports Vf2_Analyze Vf2_Semantics_Laws
begin

text \<open>
  What the static analysis promises: the functions it finds, the boundaries it reports and the
  fixpoint its abstract interpretation reaches.
\<close>

section \<open>Functions\<close>

text \<open>C26: An analysis that succeeds lists every function once. It lists the valid entry points and, besides
  them, only functions reached from them by direct calls; only bytes of instructions reached by direct
  flow in a listed function are classified as code. When no reached instruction starts in the second word
  of another, it lists all functions so reached, and all bytes of their instructions are code.\<close>

theorem vf2_i960_analyze_finds_functions:
  assumes "vf2_i960_analysis_init h img n a0 = (Inr (), a)" and "vf2_i960_analyze h es a = (Inr (), a')"
  shows "distinct (map fn_address (an_functions a')) \<and>
    fn_address ` set (an_functions a') \<subseteq> {t. called img n (set es) t} \<and>
    {e \<in> set es. code_address n e} \<subseteq> fn_address ` set (an_functions a') \<and>
    {k. an_map a' k = IMAGE_CODE} \<subseteq> (\<Union>f \<in> set (an_functions a'). function_bytes img n (fn_address f)) \<and>
    ((\<forall>e. called img n (set es) e \<longrightarrow> no_overlap img n e) \<longrightarrow>
      fn_address ` set (an_functions a') = {t. called img n (set es) t} \<and>
      {k. an_map a' k = IMAGE_CODE} = (\<Union>f \<in> set (an_functions a'). function_bytes img n (fn_address f)))"
  using analyze_functions [OF assms] by simp

text \<open>An image of one return instruction.\<close>

definition return_image :: memory where "return_image = (\<lambda>k. if k = 3 then 0x0a else 0)"

definition sample_host :: host where "sample_host = \<lparr>size_max = 255, grants = (\<lambda>_. True)\<rparr>"

definition empty_analysis :: "nat \<Rightarrow> vf2_i960_analysis" where
  "empty_analysis n =
     \<lparr>an_image = return_image, an_size = n, an_map = (\<lambda>_. IMAGE_UNKNOWN), an_blocks = [], an_block_capacity = 0,
      an_functions = [], an_function_capacity = 0, an_xrefs = [], an_xref_capacity = 0, an_decoded = 0,
      an_invalid = 0, an_facts = [], an_fact_capacity = 0, an_targets = [], an_target_capacity = 0,
      an_resolved = 0, an_unresolved = 0, an_splits = [], an_split_capacity = 0, an_allocations = 1\<rparr>"

lemma return_run: "fst (vf2_i960_analyze sample_host [0] (empty_analysis 4)) = Inr ()"
  by code_simp

lemma return_calls: "called return_image 4 {0} t \<longleftrightarrow> t = 0"
proof
  assume "called return_image 4 {0} t"
  then have "code_address 4 t" by (rule called_valid)
  then show "t = 0" by (simp add: code_address_def unat_eq_0)
next
  assume "t = 0"
  then show "called return_image 4 {0} t" by (simp add: called.entry code_address_def)
qed

lemma vf2_i960_analyze_finds_functions_witness:
  "fn_address ` set (an_functions (snd (vf2_i960_analyze sample_host [0] (empty_analysis 4)))) = {0}"
proof -
  have init: "vf2_i960_analysis_init sample_host return_image 4 ((empty_analysis 0)\<lparr>an_allocations := 0\<rparr>) = (Inr (), empty_analysis 4)"
    by (simp add: vf2_i960_analysis_init_def empty_analysis_def sample_host_def Let_def)
  have run: "vf2_i960_analyze sample_host [0] (empty_analysis 4) = (Inr (), snd (vf2_i960_analyze sample_host [0] (empty_analysis 4)))"
    using return_run by (metis prod.collapse)
  have "a = 0" if "flow_reaches return_image 4 e a" for e a
    using flow_reaches_valid [OF that] by (simp add: code_address_def unat_eq_0)
  then have "no_overlap return_image 4 e" for e unfolding no_overlap_def by (metis word_of_def add_is_1 div_0 unat_0 n_not_Suc_n Suc_eq_plus1)
  then show ?thesis
    using vf2_i960_analyze_finds_functions [OF init run] by (simp add: return_calls)
qed

section \<open>Boundaries\<close>

text \<open>C27: A detection of function boundaries that succeeds keeps the layout of functions and blocks and records,
  each once, exactly the entries of functions lying in blocks of another function and the final branches of
  blocks that leave their function for the entry of another; it adds exactly the latter to the
  cross-references, as calls.\<close>

theorem vf2_i960_boundaries_exact:
  assumes "vf2_i960_detect_function_boundaries h a = (Inr (), a')"
  shows "same_layout a a' \<and> distinct (an_splits a') \<and>
    Inl ` set (an_splits a') \<union> Inr ` set (an_xrefs a') =
      Inr ` set (an_xrefs a) \<union> (\<Union>f \<in> set (an_functions a). boundary_records a f)"
  using detect_boundaries_result [OF assms] by (simp add: recorded_def)

definition overlapping_analysis :: vf2_i960_analysis where
  "overlapping_analysis = (empty_analysis 4)\<lparr>an_functions := [(new_function 0 0)\<lparr>fn_block_count := 1\<rparr>, new_function 4 1],
     an_blocks := [\<lparr>bb_start = 0, bb_end = 8, bb_function = 0, bb_successors = [], bb_terminal = True, bb_indirect = False\<rparr>]\<rparr>"

lemma overlapping_run: "fst (vf2_i960_detect_function_boundaries sample_host overlapping_analysis) = Inr ()"
  by code_simp

lemma vf2_i960_boundaries_exact_witness:
  "\<lparr>fs_source_function = 0, fs_target_function = 4, fs_instruction_address = 4, fs_reason = SPLIT_OVERLAPPING_ENTRY\<rparr>
     \<in> set (an_splits (snd (vf2_i960_detect_function_boundaries sample_host overlapping_analysis)))"
proof -
  let ?a = overlapping_analysis
  let ?f = "(new_function 0 0)\<lparr>fn_block_count := 1\<rparr>" and ?g = "new_function 4 1"
  have run: "vf2_i960_detect_function_boundaries sample_host ?a = (Inr (), snd (vf2_i960_detect_function_boundaries sample_host ?a))"
    using overlapping_run by (metis prod.collapse)
  have "?f \<in> set (an_functions ?a)" "?g \<in> set (an_functions ?a)" by (simp_all add: overlapping_analysis_def)
  moreover have "entry_candidate ?a ?f ?g"
    by (simp add: entry_candidate_def blocks_of_def block_contains_def new_function_def overlapping_analysis_def)
  ultimately have "Inl \<lparr>fs_source_function = 0, fs_target_function = 4, fs_instruction_address = 4, fs_reason = SPLIT_OVERLAPPING_ENTRY\<rparr>
      \<in> (\<Union>f \<in> set (an_functions ?a). boundary_records ?a f)"
    by (auto simp: boundary_records_def entry_records_def new_function_def intro!: bexI [of _ ?f])
  then show ?thesis using vf2_i960_boundaries_exact [OF run] by blast
qed

section \<open>The abstract interpretation\<close>

text \<open>C28: Unless the queue fills up, the work list of a function ends at a fixpoint: its first block is entered
  with the state of a function entry or less, and the abstract output of every block reached is accounted
  for at each of its successors in the function.\<close>

theorem vf2_i960_semantics_fixpoint:
  assumes "0 < fn_block_count f" and "w = propagate a f (initial_work (fn_block_count f))"
    and "length (wl_queue w) < queue_room (fn_block_count f)"
  shows "wl_initialized w ! 0 \<and> below (wl_inputs w ! 0) entry_state \<and>
    (\<forall>j < fn_block_count f. wl_initialized w ! j \<longrightarrow>
      (\<forall>s \<in> set (bb_successors (an_blocks a ! (fn_first_block f + j))). \<forall>n. function_block_index a f s = Some n \<longrightarrow>
        wl_initialized w ! n \<and>
        below (wl_inputs w ! n) (block_output a (an_blocks a ! (fn_first_block f + j)) (wl_inputs w ! j))))"
  using propagate_fixpoint [OF assms(1) assms(3) [unfolded assms(2)]] unfolding assms(2) by blast

definition loop_analysis :: vf2_i960_analysis where
  "loop_analysis = (empty_analysis 4)\<lparr>an_blocks :=
     [\<lparr>bb_start = 0, bb_end = 4, bb_function = 0, bb_successors = [0], bb_terminal = False, bb_indirect = False\<rparr>]\<rparr>"

definition loop_function :: vf2_function where "loop_function = (new_function 0 0)\<lparr>fn_block_count := 1\<rparr>"

lemma loop_run: "length (wl_queue (propagate loop_analysis loop_function (initial_work 1))) < 9"
  by code_simp

lemma vf2_i960_semantics_fixpoint_witness:
  "wl_initialized (propagate loop_analysis loop_function (initial_work 1)) ! 0"
proof -
  have "fn_block_count loop_function = 1" by (simp add: loop_function_def)
  then show ?thesis
    using vf2_i960_semantics_fixpoint [of loop_function _ loop_analysis, OF _ refl] loop_run by (simp add: queue_room_def)
qed

end
