(* ===== verification/Spec2Isabelle.thy ===== *)
theory Spec2Isabelle
  imports Vf2_Hash Vf2_Model2a_Laws Vf2_I960_Convert Vf2_I960_Format Vf2_I960_Properties
    Vf2_Task_Registry Vf2_Lift Vf2_Frame_Wait Vf2_Interrupts Vf2_Snapshot_Compare
    Vf2_Scsp_Calls Vf2_M68k_Interrupts Vf2_Analysis_Properties
begin

text \<open>
  \<^bold>\<open>Verification library for vf2-decomp\<close>, a clean-room C17 recovery of Virtua Fighter 2 for the
  Sega Model 2A. The program interprets the original Intel i960 code on a bounded model of the
  board, replaces more and more of that code by recovered C, and checks the replacement against the
  interpreter. This library models the interpreter, the board and the recovered components below,
  as they are written under \<open>src/\<close>, and proves what makes each of them correct.

  \<^bold>\<open>Parts and theories\<close>

  \<^item> \<open>Vf2_Status\<close>, \<open>Vf2_Prelude\<close>: \<open>vf2_status\<close> (\<open>include/vf2/status.h\<close>) and the shared vocabulary:
    programs over a state that return a status or a value, preservation of a predicate, byte
    memories and the little-endian codec.
  \<^item> \<open>Vf2_Hash\<close> (\<open>core/hash.c\<close>): SHA-1, CRC-32 and the hashing of files, against the padded message.
  \<^item> \<open>Vf2_Model2a\<close> (\<open>hardware/model2a.c\<close>, \<open>model2a_observer.c\<close>): the board, its memory map, device
    registers, timers, interrupts and the observed bus. \<open>Vf2_Model2a_Laws\<close>: the invariant of the
    board (\<open>machine_ok\<close>, \<open>same_roms\<close>), memory laws of the bus, timers. \<open>Vf2_Ram\<close>: work RAM as memory.
  \<^item> \<open>Vf2_I960_Decoder\<close> (\<open>i960/decoder.c\<close>, \<open>instruction.c\<close>), \<open>Vf2_I960_Decoder_Laws\<close>,
    \<open>Vf2_I960_Format\<close> (\<open>formatter.c\<close>): instructions, their decoding and their bounded text.
  \<^item> \<open>Vf2_Float32\<close>: the single-precision operations of the host, bit by bit.
  \<^item> \<open>Vf2_I960_Cpu\<close>, \<open>Vf2_I960_Executor\<close> (\<open>i960/executor.c\<close>): processor state, procedure frames,
    interrupts and every instruction group; \<open>Vf2_I960_Run\<close>: the legacy step and the bounded run;
    \<open>Vf2_I960_Arch\<close> (\<open>executor_arch.c\<close>): the architectural step and the lifted step.
    \<open>Vf2_I960_Invariants\<close>, \<open>Vf2_I960_Properties\<close>, \<open>Vf2_I960_Frames\<close>, \<open>Vf2_I960_Branches\<close>,
    \<open>Vf2_I960_Arith\<close>, \<open>Vf2_I960_Convert\<close>: safety and termination of runs, call and interrupt round
    trips, agreement of the two steppers, integer and conversion arithmetic.
  \<^item> \<open>Vf2_Snapshot\<close>, \<open>Vf2_Snapshot_File\<close>, \<open>Vf2_Snapshot_Compare\<close> (\<open>i960/snapshot.c\<close>): captured
    machine states, their file format and their comparison.
  \<^item> \<open>Vf2_Lift\<close> (\<open>lift/runtime.c\<close>): recompiled blocks against the interpreter.
  \<^item> \<open>Vf2_Task_Catalog\<close> (\<open>analysis/tasks.c\<close>), \<open>Vf2_Task_Registry\<close> (\<open>recovered/task_registry.c\<close>,
    \<open>scheduler.c\<close>): the task table of the ROM, the run-time registry and the scheduler's plan.
  \<^item> \<open>Vf2_Frame_Wait\<close> (\<open>recovered/frame_wait.c\<close>), \<open>Vf2_Interrupts\<close>
    (\<open>recovered/runtime_interrupts.c\<close>): the host-side frame scheduler and the recovered handlers.
  \<^item> \<open>Vf2_Scsp\<close> (\<open>hardware/scsp.c\<close>): the sound processor's registers, MIDI FIFO and voices.
    \<open>Vf2_Scsp_Laws\<close>: the FIFO is a bounded queue; \<open>Vf2_Scsp_Checked\<close>: the renderer with every signed
    operation checked; \<open>Vf2_Scsp_Voices\<close>: the checks never fail, voices fall silent;
    \<open>Vf2_Scsp_Calls\<close>: what holds after any calls.
  \<^item> \<open>Vf2_M68k_Decoder\<close>, \<open>Vf2_M68k\<close> (\<open>m68k/decoder.c\<close>, \<open>stepper.c\<close>): the sound processor's instructions,
    their texts and their execution, cycle costs and interrupts. \<open>Vf2_M68k_Slices\<close>: slices compose and
    keep their cycle budget; \<open>Vf2_M68k_Interrupts\<close>: interrupts return.
  \<^item> \<open>Vf2_Analysis\<close>, \<open>Vf2_Cfg\<close>, \<open>Vf2_Semantics\<close>, \<open>Vf2_Boundaries\<close>, \<open>Vf2_Analyze\<close> (\<open>analysis/cfg.c\<close>,
    \<open>semantics.c\<close>, \<open>boundaries.c\<close>, \<open>xref.c\<close>, \<open>image_map.c\<close>): the static analysis of an image: the
    instructions reached by direct flow, blocks, functions, abstract register values, split
    candidates, strings and padding. \<open>Vf2_Cfg_Reach\<close>, \<open>Vf2_Cfg_Functions\<close>: what the discovery of one
    function and of all finds, against the inductive flow and call relations;
    \<open>Vf2_Semantics_Laws\<close>: the work list's fixpoint, and the abstract arithmetic against the
    interpreter's; \<open>Vf2_Analysis_Properties\<close>: the results.

  A struct is a record with the source's fields, an enumeration a datatype, an \<open>n\<close>-bit unsigned
  integer an \<open>n word\<close>, \<open>size_t\<close> a natural number, an \<open>int32_t\<close> its 32-bit pattern. A C function that
  returns \<open>vf2_status\<close> is a \<open>prog\<close>: the state it leaves is part of the outcome also when it fails,
  since the code does not roll back. An optional output report is the returned value.

  \<^bold>\<open>Interfaces\<close>. \<open>instruction_invariant\<close> and \<open>step_invariant\<close> state what every instruction must keep
  for every step and run to keep it, and are interpreted for the register and frame bounds and for
  the board invariant; \<open>field_codec\<close> states what a field of the snapshot file owes its writer and
  reader; \<open>bounded_fifo\<close> what a queue with a capacity owes its client; \<open>word_store\<close> what work RAM owes
  the code that keeps structures in it; \<open>chunk_digest\<close> when a digest may be fed in pieces;
  \<open>discovery_frame\<close> what the elementary updates of the control-flow discovery must keep for the whole
  discovery to keep it.

  \<^bold>\<open>Loops\<close>. Loops with a measure are \<open>function\<close>s with a termination proof; the run of the interpreter
  is bounded by its own \<open>max_steps\<close>. Loops that need not end (\<open>lift_loop\<close>, the scan of the task table
  on images of more than 4 GiB) are \<open>partial_function (option)\<close>, with the cases in which they return
  proved as such. No fuel is used. The loops of the static analysis end because each step marks a
  word, queues an address not queued before or advances; they are total on every input, up to one
  convention: a walk over a block ends where its address would wrap at 4 GiB, so they follow the code
  on images below 4 GiB.

  \<^bold>\<open>Conventions\<close>. NULL arguments of the API are not modelled, stored or optional pointers are options.
  A NULL buffer reads as zeros and is not written; \<open>machine_ok\<close>, which every operation keeps,
  excludes it. The outcomes of \<open>calloc\<close>, \<open>malloc\<close>, \<open>realloc\<close> and of the C library's file functions, the
  host's NaN payloads (\<open>sys_nan\<close>), the generated functions of the lifted table, the callbacks and the
  conversion of an out-of-range integer to an enumeration are arguments; the static analysis takes
  the answers of the allocator and SIZE\_MAX in its \<open>host\<close>. Void pointers to contexts
  are values of a type \<open>'h\<close>. The stepper of a run is an argument, as it is a build option.

  \<^bold>\<open>Not modelled\<close>. The straight-line transcriptions of single ROM routines (\<open>recovered/hybrid.c\<close>, the
  texture, match, player, camera and display bridges), the native runtime that dispatches to them and
  the differential harness around it, the in-memory snapshots of the 68000 stepper (they share sample
  memories by pointer), the sound board, the TGP, the ROM set, the report
  writers and the symbol files of the static analysis, the game loop, the host front ends and the tools. \<open>PROJECT.json\<close> lists every part with
  the reason. The next parts in the plan are the boot stages, the task bodies and the sound board.
\<close>

end
